(* ===== verification/Prelude.thy ===== *)
theory Prelude
  imports Main "HOL-Library.Word" "HOL-Library.Monad_Syntax"
begin

text \<open>
  Shared ground of the development: the C++ integer conversions the simulator relies on,
  bit-mask arithmetic over mathematical integers, the result predicate used to reason about
  operations that may abort the process, and the collections of facts the component theories
  feed.

  Integer values of the program are modelled as mathematical integers; a conversion to
  \<open>uchar\<close> (8 bit), \<open>t_mem\<close> (16 bit, unsigned) or \<open>signed char\<close> is written out where the source
  has one (\<open>stypes.h\<close>, \<open>ddconfig.h\<close>).
\<close>

unbundle bit_operations_syntax

named_theorems byte_intros \<open>closure of the byte range\<close>
named_theorems mask_simps \<open>masks and single-bit tests as arithmetic\<close>
named_theorems sat_intros \<open>result rules of the primitive operations\<close>

subsection \<open>Integer conversions\<close>

type_synonym t_addr = int
type_synonym t_mem = int
type_synonym uchar = int

definition to_uchar :: "int \<Rightarrow> uchar" where
  "to_uchar x = x mod 256"

definition to_tmem :: "int \<Rightarrow> t_mem" where
  "to_tmem x = x mod 65536"

definition to_schar :: "int \<Rightarrow> int" where
  "to_schar x = (let y = x mod 256 in if y < 128 then y else y - 256)"

definition byte :: "int \<Rightarrow> bool" where
  "byte v \<longleftrightarrow> 0 \<le> v \<and> v < 256"

lemma byteI: "0 \<le> v \<Longrightarrow> v < 256 \<Longrightarrow> byte v"
  by (simp add: byte_def)

lemma byteD: "byte v \<Longrightarrow> 0 \<le> v" "byte v \<Longrightarrow> v < 256"
  by (simp_all add: byte_def)

lemma byte_mod_eq [simp]: "byte v \<Longrightarrow> v mod 256 = v"
  by (simp add: byte_def)

lemma byte_tmem_eq [simp]: "byte v \<Longrightarrow> to_tmem v = v"
  by (simp add: byte_def to_tmem_def)

lemma byte_uchar_eq [simp]: "byte v \<Longrightarrow> to_uchar v = v"
  by (simp add: to_uchar_def)

lemma byte_to_uchar [simp, byte_intros]: "byte (to_uchar v)"
  by (simp add: byte_def to_uchar_def)

lemma byte_mod [simp, byte_intros]: "byte (v mod 256)"
  by (simp add: byte_def)

lemma byte_zero [simp, byte_intros]: "byte 0"
  by (simp add: byte_def)

lemma byte_one [simp, byte_intros]: "byte 1"
  by (simp add: byte_def)

lemma byte_numeral [simp]: "byte (numeral n) \<longleftrightarrow> numeral n < (256::int)"
  by (simp add: byte_def)

lemma to_schar_bounds: "- 128 \<le> to_schar x \<and> to_schar x < 128"
proof -
  have "0 \<le> x mod 256" "x mod 256 < 256" by simp_all
  then show ?thesis by (auto simp: to_schar_def Let_def)
qed

lemma to_schar_cong: "to_schar x mod 256 = x mod 256"
  by (simp add: to_schar_def Let_def mod_diff_eq [symmetric])

subsection \<open>Masks\<close>

lemma and_255 [simp, mask_simps]: "(x::int) AND 255 = x mod 256"
proof -
  have "x AND 255 = x AND mask 8" by (simp add: mask_eq_exp_minus_1)
  then show ?thesis by (simp add: take_bit_eq_mod flip: take_bit_eq_mask)
qed

lemma and_127 [mask_simps]: "(x::int) AND 127 = x mod 128"
proof -
  have "x AND 127 = x AND mask 7" by (simp add: mask_eq_exp_minus_1)
  then show ?thesis by (simp add: take_bit_eq_mod flip: take_bit_eq_mask)
qed

lemma and_15 [mask_simps]: "(x::int) AND 15 = x mod 16"
proof -
  have "x AND 15 = x AND mask 4" by (simp add: mask_eq_exp_minus_1)
  then show ?thesis by (simp add: take_bit_eq_mod flip: take_bit_eq_mask)
qed

lemma and_7 [mask_simps]: "(x::int) AND 7 = x mod 8"
proof -
  have "x AND 7 = x AND mask 3" by (simp add: mask_eq_exp_minus_1)
  then show ?thesis by (simp add: take_bit_eq_mod flip: take_bit_eq_mask)
qed

lemma and_240 [mask_simps]: "(x::int) AND 240 = 16 * ((x div 16) mod 16)"
proof -
  have m: "(240::int) = push_bit 4 (mask 4)" by (simp add: push_bit_eq_mult mask_eq_exp_minus_1)
  have "x AND 240 = push_bit 4 (take_bit 4 (drop_bit 4 x))"
    unfolding m by (rule bit_eqI) (auto simp: bit_simps)
  then show ?thesis by (simp add: push_bit_eq_mult drop_bit_eq_div take_bit_eq_mod)
qed

lemma and_single_bit:
  "((x::int) AND 1 = 0) = (\<not> bit x 0)" "(x AND 2 = 0) = (\<not> bit x 1)"
  "(x AND 4 = 0) = (\<not> bit x 2)" "(x AND 8 = 0) = (\<not> bit x 3)"
  "(x AND 16 = 0) = (\<not> bit x 4)" "(x AND 32 = 0) = (\<not> bit x 5)"
  "(x AND 64 = 0) = (\<not> bit x 6)" "(x AND 128 = 0) = (\<not> bit x 7)"
  using and_exp_eq_0_iff_not_bit [of x 0] and_exp_eq_0_iff_not_bit [of x 1]
    and_exp_eq_0_iff_not_bit [of x 2] and_exp_eq_0_iff_not_bit [of x 3]
    and_exp_eq_0_iff_not_bit [of x 4] and_exp_eq_0_iff_not_bit [of x 5]
    and_exp_eq_0_iff_not_bit [of x 6] and_exp_eq_0_iff_not_bit [of x 7]
  by simp_all

lemma byte_and [byte_intros]: "byte x \<Longrightarrow> byte (x AND y)"
  by (auto simp: byte_def intro: AND_upper1 le_less_trans)

lemma byte_and2 [byte_intros]: "byte y \<Longrightarrow> byte (x AND y)"
  by (subst and.commute) (rule byte_and)

lemma byte_or [byte_intros]: "byte x \<Longrightarrow> byte y \<Longrightarrow> byte (x OR y)"
  using OR_upper [of x 8 y] by (simp add: byte_def)

lemma byte_xor [byte_intros]: "byte x \<Longrightarrow> byte y \<Longrightarrow> byte (x XOR y)"
  using XOR_upper [of x 8 y] by (simp add: byte_def)

lemma byte_bit_high: "byte x \<Longrightarrow> bit x n \<Longrightarrow> n < 8"
proof (rule ccontr)
  assume "byte x" "bit x n" "\<not> n < 8"
  then have "take_bit 8 x = x" by (simp add: take_bit_int_eq_self byte_def)
  with \<open>bit x n\<close> \<open>\<not> n < 8\<close> show False by (metis bit_take_bit_iff)
qed

lemma byte_bit_7: "byte x \<Longrightarrow> bit x 7 \<longleftrightarrow> 128 \<le> x"
proof (cases "x < 128")
  case False
  assume "byte x"
  with False have "x div 2 ^ 7 = 1" by (simp add: byte_def div_pos_geq)
  with False show ?thesis by (simp add: bit_iff_odd)
qed (simp add: byte_def bit_iff_odd)

subsection \<open>Results that may be an abort\<close>

text \<open>
  An operation that reaches a failing \<open>assert\<close>, an \<open>exit\<close>, or an array access out of range has
  no successor state: its result is \<open>None\<close>. The predicate \<open>sat Q r\<close> says that the result \<open>r\<close>,
  where there is one, satisfies \<open>Q\<close>; its rules follow the sequencing of the operations.
\<close>

definition sat :: "('a \<Rightarrow> 's \<Rightarrow> bool) \<Rightarrow> ('a \<times> 's) option \<Rightarrow> bool" where
  "sat Q r \<longleftrightarrow> (\<forall>v s. r = Some (v, s) \<longrightarrow> Q v s)"

lemma sat_None [simp, sat_intros]: "sat Q None"
  by (simp add: sat_def)

lemma sat_Some [simp]: "sat Q (Some (v, s)) \<longleftrightarrow> Q v s"
  by (simp add: sat_def)

lemma sat_bind [sat_intros]:
  "sat (\<lambda>v s. sat Q (f v s)) m \<Longrightarrow> sat Q (Option.bind m (\<lambda>(v, s). f v s))"
  by (cases m) (auto simp: sat_def)

lemma sat_if [sat_intros]:
  "(b \<Longrightarrow> sat Q x) \<Longrightarrow> (\<not> b \<Longrightarrow> sat Q y) \<Longrightarrow> sat Q (if b then x else y)"
  by simp

lemma sat_let [sat_intros]: "(\<And>x. x = a \<Longrightarrow> sat Q (f x)) \<Longrightarrow> sat Q (let x = a in f x)"
  by simp

lemma sat_mono: "sat Q r \<Longrightarrow> (\<And>v s. Q v s \<Longrightarrow> R v s) \<Longrightarrow> sat R r"
  by (auto simp: sat_def)

lemma sat_bindI:
  "sat P m \<Longrightarrow> (\<And>v s. P v s \<Longrightarrow> sat Q (f v s)) \<Longrightarrow> sat Q (Option.bind m (\<lambda>(v, s). f v s))"
  by (cases m) (auto simp: sat_def)

lemma satD: "sat Q r \<Longrightarrow> r = Some (v, s) \<Longrightarrow> Q v s"
  by (simp add: sat_def)

end
