(* ===== verification/Types.thy ===== *)
theory Types
  imports Prelude
begin

text \<open>
  The enumerations and small classes every component shares: address spaces and their geometry
  (\<open>cl_51core::make_memories\<close>), hardware elements and their categories (\<open>stypes.h\<close>,
  \<open>cl_51core::mk_hw_elements\<close>), SFR addresses and bit masks (\<open>regs51b.h\<close>,
  \<open>RegistersForCC2530app.h\<close>), execution results and CPU states, stack operations
  (\<open>stackcl.h\<close>) and the errors collected by \<open>cl_uc::error\<close>.
\<close>

subsection \<open>Address spaces\<close>

datatype as_id = Rom | Iram | Sfr | Xram | Sram
  | Flashbank0 | Flashbank1 | Flashbank2 | Flashbank3

fun as_start :: "as_id \<Rightarrow> t_addr" where
  "as_start Sfr = 0x80"
| "as_start _ = 0"

fun as_size :: "as_id \<Rightarrow> t_addr" where
  "as_size Rom = 0x10000"
| "as_size Iram = 0x100"
| "as_size Sfr = 0x80"
| "as_size Xram = 0x10000"
| "as_size Sram = 0x2000"
| "as_size _ = 0x8000"

fun xram_offset :: "as_id \<Rightarrow> t_addr" where
  "xram_offset Iram = 0x1F00"
| "xram_offset Sfr = 0x7000"
| "xram_offset Flashbank0 = 0x8000"
| "xram_offset Flashbank1 = 0x8000"
| "xram_offset Flashbank2 = 0x8000"
| "xram_offset Flashbank3 = 0x8000"
| "xram_offset _ = 0"

lemma as_size_pos [simp]: "0 < as_size a" "0 \<le> as_size a" "\<not> as_size a < 0"
  by (cases a; simp)+

subsection \<open>Hardware elements\<close>

datatype hw_cath = HW_DUMMY | HW_TIMER | HW_UART | HW_PORT | HW_PCA | HW_INTERRUPT | HW_WDT
  | HW_CC2530_RADIO | HW_CC2530_USART | HW_CC2530_DMA | HW_CC2530_FLASH_CONTROLLER | HW_MAC_TIMER

datatype hwid = Hw_timer0 | Hw_timer1 | Hw_CC2530timer1 | Hw_MAC_timer | Hw_CC2530timer3
  | Hw_CC2530timer4 | Hw_usart0 | Hw_usart1 | Hw_DMA | Hw_flashctrler | Hw_CC2530radio
  | Hw_serial | Hw_port0 | Hw_port1 | Hw_port2 | Hw_port3 | Hw_interrupt | Hw_radio | Hw_dummy | Hw_CSP
  | Hw_timer2 | Hw_PCA | Hw_WDT

fun cathegory :: "hwid \<Rightarrow> hw_cath" where
  "cathegory Hw_timer0 = HW_TIMER"
| "cathegory Hw_timer1 = HW_TIMER"
| "cathegory Hw_CC2530timer1 = HW_TIMER"
| "cathegory Hw_MAC_timer = HW_MAC_TIMER"
| "cathegory Hw_CC2530timer3 = HW_TIMER"
| "cathegory Hw_CC2530timer4 = HW_TIMER"
| "cathegory Hw_usart0 = HW_CC2530_USART"
| "cathegory Hw_usart1 = HW_CC2530_USART"
| "cathegory Hw_DMA = HW_CC2530_DMA"
| "cathegory Hw_flashctrler = HW_CC2530_FLASH_CONTROLLER"
| "cathegory Hw_CC2530radio = HW_CC2530_RADIO"
| "cathegory Hw_serial = HW_UART"
| "cathegory Hw_port0 = HW_PORT"
| "cathegory Hw_port1 = HW_PORT"
| "cathegory Hw_port2 = HW_PORT"
| "cathegory Hw_port3 = HW_PORT"
| "cathegory Hw_interrupt = HW_INTERRUPT"
| "cathegory Hw_radio = HW_CC2530_RADIO"
| "cathegory Hw_dummy = HW_DUMMY"
| "cathegory Hw_CSP = HW_CC2530_RADIO"
| "cathegory Hw_timer2 = HW_TIMER"
| "cathegory Hw_PCA = HW_PCA"
| "cathegory Hw_WDT = HW_WDT"

text \<open>
  Events one element passes to its partners (\<open>enum hw_event\<close>, \<open>struct ev_port_changed\<close>); an
  overflow names the element it comes from.
\<close>

record port_event =
  ep_id :: int
  ep_addr :: t_addr
  prev_value :: t_mem
  new_value :: t_mem
  pins :: t_mem
  new_pins :: t_mem

datatype hw_event = EV_OVERFLOW hwid | EV_PORT_CHANGED port_event | EV_T2_MODE_CHANGED t_mem
  | EV_T2_EVENT1 | EV_T2_EVENT2 | EV_NO_ACK | EV_RADIO_ACK | EV_T1_CH0 | EV_T1_CH1 | EV_T1_CH2
  | EV_T3_CH0 | EV_T3_CH1 | EV_T4_CH0 | EV_T4_CH1 | EV_ST | EV_IOC_0 | EV_IOC_1 | EV_URX0 | EV_UTX0
  | EV_URX1 | EV_UTX1 | EV_FLASH | EV_RADIO | EV_DBG_BW

subsection \<open>Special function registers and bit masks\<close>

abbreviation "r_P0 \<equiv> (0x80 :: int)"
abbreviation "r_SP \<equiv> (0x81 :: int)"
abbreviation "r_DPL \<equiv> (0x82 :: int)"
abbreviation "r_DPH \<equiv> (0x83 :: int)"
abbreviation "r_PCON \<equiv> (0x87 :: int)"
abbreviation "r_TCON \<equiv> (0x88 :: int)"
abbreviation "r_TMOD \<equiv> (0x89 :: int)"
abbreviation "r_P1 \<equiv> (0x90 :: int)"
abbreviation "r_MPAGE \<equiv> (0x93 :: int)"
abbreviation "r_SCON \<equiv> (0x98 :: int)"
abbreviation "r_FMAP \<equiv> (0x9F :: int)"
abbreviation "r_P2 \<equiv> (0xA0 :: int)"
abbreviation "r_IE \<equiv> (0xA8 :: int)"
abbreviation "r_IEN0 \<equiv> (0xA8 :: int)"
abbreviation "r_P3 \<equiv> (0xB0 :: int)"
abbreviation "r_IP \<equiv> (0xB8 :: int)"
abbreviation "r_MCON \<equiv> (0xC7 :: int)"
abbreviation "r_PSW \<equiv> (0xD0 :: int)"
abbreviation "r_ACC \<equiv> (0xE0 :: int)"
abbreviation "r_B \<equiv> (0xF0 :: int)"

abbreviation "bmCY \<equiv> (0x80 :: int)"
abbreviation "bmAC \<equiv> (0x40 :: int)"
abbreviation "bmRS1 \<equiv> (0x10 :: int)"
abbreviation "bmRS0 \<equiv> (0x08 :: int)"
abbreviation "bmOV \<equiv> (0x04 :: int)"
abbreviation "bmP \<equiv> (0x01 :: int)"
abbreviation "bmPD \<equiv> (0x02 :: int)"
abbreviation "bmIDL \<equiv> (0x01 :: int)"
abbreviation "bmEA \<equiv> (0x80 :: int)"
abbreviation "bmEX0 \<equiv> (0x01 :: int)"
abbreviation "bmET0 \<equiv> (0x02 :: int)"
abbreviation "bmEX1 \<equiv> (0x04 :: int)"
abbreviation "bmET1 \<equiv> (0x08 :: int)"
abbreviation "bm_INT0 \<equiv> (0x04 :: int)"
abbreviation "bm_INT1 \<equiv> (0x08 :: int)"
abbreviation "bmT0 \<equiv> (0x10 :: int)"
abbreviation "bmT1 \<equiv> (0x20 :: int)"
abbreviation "bmGATE1 \<equiv> (0x80 :: int)"
abbreviation "bmC_T1 \<equiv> (0x40 :: int)"
abbreviation "bmM11 \<equiv> (0x20 :: int)"
abbreviation "bmM01 \<equiv> (0x10 :: int)"
abbreviation "bmGATE0 \<equiv> (0x08 :: int)"
abbreviation "bmC_T0 \<equiv> (0x04 :: int)"
abbreviation "bmM10 \<equiv> (0x02 :: int)"
abbreviation "bmM00 \<equiv> (0x01 :: int)"
abbreviation "bmTF1 \<equiv> (0x80 :: int)"
abbreviation "bmTR1 \<equiv> (0x40 :: int)"
abbreviation "bmTF0 \<equiv> (0x20 :: int)"
abbreviation "bmTR0 \<equiv> (0x01 :: int)"
abbreviation "bmIE1 \<equiv> (0x80 :: int)"
abbreviation "bmIT1 \<equiv> (0x04 :: int)"
abbreviation "bmIE0 \<equiv> (0x02 :: int)"
abbreviation "bmIT0 \<equiv> (0x01 :: int)"

subsection \<open>Execution results and CPU states\<close>

datatype cpu_state = stGO | stIDLE | stPD

abbreviation "resGO \<equiv> (0 :: int)"
abbreviation "resWDTRESET \<equiv> (1 :: int)"
abbreviation "resINTERRUPT \<equiv> (2 :: int)"
abbreviation "resSTOP \<equiv> (100 :: int)"
abbreviation "resHALT \<equiv> (101 :: int)"
abbreviation "resBREAKPOINT \<equiv> (104 :: int)"
abbreviation "resUSER \<equiv> (105 :: int)"
abbreviation "resBITADDR \<equiv> (107 :: int)"
abbreviation "resERROR \<equiv> (108 :: int)"

subsection \<open>Breakpoint events\<close>

datatype brk_perm = brkFIX | brkDYNAMIC

datatype brk_event = brkNONE | brkWXRAM | brkRXRAM | brkRCODE | brkWIRAM | brkRIRAM | brkWSFR
  | brkRSFR | brkWFLASHBANK0 | brkRFLASHBANK0 | brkWFLASHBANK1 | brkRFLASHBANK1
  | brkWFLASHBANK2 | brkRFLASHBANK2 | brkWFLASHBANK3 | brkRFLASHBANK3 | brkWSRAM | brkRSRAM
  | brkREAD | brkWRITE | brkACCESS

subsection \<open>Stack operations and errors\<close>

datatype stack_opk = stack_call | stack_intr | stack_push | stack_ret | stack_iret | stack_pop

record stack_op =
  operation :: stack_opk
  op_PC :: t_addr
  SP_before :: t_addr
  SP_after :: t_addr
  op_data :: int
  op_pushed :: int

datatype error_kind =
    Err_mem_invalid_address as_id t_addr
  | Err_unknown_code
  | Err_stack_tracker_wrong_handle bool
  | Err_stack_tracker_empty stack_op
  | Err_stack_tracker_unmatch stack_op stack_op
  | Err_stack_tracker_inconsistent stack_op int

record uc_error =
  err_kind :: error_kind
  err_inst :: bool
  err_PC :: "t_addr option"

end
