(* ===== verification/Mem.thy ===== *)
theory Mem
  imports Types "HOL-Library.Signed_Division"
begin

text \<open>
  The memory system of \<open>mem.cc\<close>: memory cells with their chains of operators (hardware callbacks
  and event breakpoints), address spaces, and the CC2530 routing between them.

  A cell points to a storage slot, which is a slot of a memory chip when the cell is decoded and a
  private one otherwise; the operators of a cell keep the slot the cell had when they were made,
  as the source does with the pointer \<open>data\<close>. The virtual methods of a hardware element are the
  fields of the record \<open>hwif\<close>, an argument of every operation that may call them.
  The access counters of the \<open>statistic\<close> command and the trace output are left out.
\<close>

subsection \<open>State\<close>

datatype cell = Cell as_id int | Dummy as_id

datatype mslot = Chip_slot string int | Priv_slot cell

datatype mem_op = Hw_op mslot hwid | Write_op mslot int | Read_op mslot int

record mem =
  heap :: "mslot \<Rightarrow> t_mem"
  slot :: "cell \<Rightarrow> mslot"
  ops :: "cell \<Rightarrow> mem_op list"
  cflags :: "cell \<Rightarrow> int"
  errors :: "uc_error list"
  events :: "int list"
  inst_exec :: bool
  instPC :: t_addr
  rand_src :: "nat \<Rightarrow> int"
  rand_pos :: nat

record 's hwif =
  hw_cath :: "hwid \<Rightarrow> hw_cath"
  hw_read :: "hwid \<Rightarrow> cell \<Rightarrow> 's \<Rightarrow> (t_mem \<times> 's) option"
  hw_write :: "hwid \<Rightarrow> cell \<Rightarrow> t_mem \<Rightarrow> 's \<Rightarrow> (t_mem \<times> 's) option"
  hw_tick :: "hwid \<Rightarrow> int \<Rightarrow> 's \<Rightarrow> (unit \<times> 's) option"
  hw_reset :: "hwid \<Rightarrow> 's \<Rightarrow> (unit \<times> 's) option"
  hw_happen :: "hwid \<Rightarrow> hw_event \<Rightarrow> 's \<Rightarrow> (unit \<times> 's) option"

abbreviation "CELL_INST \<equiv> (0x04 :: int)"
abbreviation "CELL_FETCH_BRK \<equiv> (0x08 :: int)"
abbreviation "CELL_NON_DECODED \<equiv> (0x40 :: int)"

definition uc_error :: "error_kind \<Rightarrow> 'z mem_scheme \<Rightarrow> 'z mem_scheme" where
  "uc_error k s = s\<lparr>errors := errors s @
     [\<lparr>err_kind = k, err_inst = inst_exec s, err_PC = (if inst_exec s then Some (instPC s) else None)\<rparr>]\<rparr>"

definition next_rand :: "'z mem_scheme \<Rightarrow> int \<times> 'z mem_scheme" where
  "next_rand s = (rand_src s (rand_pos s), s\<lparr>rand_pos := Suc (rand_pos s)\<rparr>)"

definition add_event :: "int \<Rightarrow> 'z mem_scheme \<Rightarrow> 'z mem_scheme" where
  "add_event bp s = s\<lparr>events := events s @ [bp]\<rparr>"

definition store :: "mslot \<Rightarrow> int \<Rightarrow> 'z mem_scheme \<Rightarrow> 'z mem_scheme" where
  "store d v s = s\<lparr>heap := (heap s)(d := v)\<rparr>"

subsection \<open>Operators\<close>

fun op_slot :: "mem_op \<Rightarrow> mslot" where
  "op_slot (Hw_op d _) = d"
| "op_slot (Write_op d _) = d"
| "op_slot (Read_op d _) = d"

fun op_match_brk :: "int \<Rightarrow> mem_op \<Rightarrow> bool" where
  "op_match_brk brk (Hw_op _ _) = False"
| "op_match_brk brk (Write_op _ bp) = (bp = brk)"
| "op_match_brk brk (Read_op _ bp) = (bp = brk)"

fun ops_read :: "'z mem_scheme hwif \<Rightarrow> cell \<Rightarrow> mem_op list \<Rightarrow> 'z mem_scheme
    \<Rightarrow> (t_mem \<times> 'z mem_scheme) option" where
  "ops_read hw c [] s = Some (0, s)"
| "ops_read hw c (Hw_op d h # next) s = do {
     (v, s) \<leftarrow> hw_read hw h c s;
     (_, s) \<leftarrow> ops_read hw c next s;
     Some (v, s)
   }"
| "ops_read hw c (Write_op d bp # next) s =
     (if next \<noteq> [] then ops_read hw c next s else Some (heap s d, s))"
| "ops_read hw c (Read_op d bp # next) s =
     (let s = add_event bp s
      in if next \<noteq> [] then ops_read hw c next s else Some (heap s d, s))"

fun ops_read_skip :: "'z mem_scheme hwif \<Rightarrow> hw_cath \<Rightarrow> cell \<Rightarrow> mem_op list \<Rightarrow> 'z mem_scheme
    \<Rightarrow> (t_mem \<times> 'z mem_scheme) option" where
  "ops_read_skip hw skip c (Hw_op d h # next) s = do {
     (v, s) \<leftarrow> (if hw_cath hw h \<noteq> skip then hw_read hw h c s else Some (heap s d, s));
     (_, s) \<leftarrow> ops_read hw c next s;
     Some (v, s)
   }"
| "ops_read_skip hw skip c next s = ops_read hw c next s"

fun ops_write :: "'z mem_scheme hwif \<Rightarrow> cell \<Rightarrow> mem_op list \<Rightarrow> t_mem \<Rightarrow> 'z mem_scheme
    \<Rightarrow> (t_mem \<times> 'z mem_scheme) option" where
  "ops_write hw c [] v s = Some (v, s)"
| "ops_write hw c (Hw_op d h # next) v s = do {
     (v, s) \<leftarrow> hw_write hw h c v s;
     (v, s) \<leftarrow> ops_write hw c next v s;
     let v = v AND 255;
     Some (v, store d v s)
   }"
| "ops_write hw c (Write_op d bp # next) v s =
     (let s = add_event bp s
      in if next \<noteq> [] then ops_write hw c next v s
         else (let v = v AND 255 in Some (v, store d v s)))"
| "ops_write hw c (Read_op d bp # next) v s =
     (if next \<noteq> [] then ops_write hw c next v s
      else (let v = v AND 255 in Some (v, store d v s)))"

subsection \<open>Memory cells\<close>

definition cell_get :: "cell \<Rightarrow> 'z mem_scheme \<Rightarrow> t_mem" where
  "cell_get c s = heap s (slot s c)"

definition cell_read :: "'z mem_scheme hwif \<Rightarrow> cell \<Rightarrow> 'z mem_scheme
    \<Rightarrow> (t_mem \<times> 'z mem_scheme) option" where
  "cell_read hw c s =
     (if ops s c \<noteq> [] then ops_read hw c (ops s c) s else Some (heap s (slot s c), s))"

definition cell_read_skip :: "'z mem_scheme hwif \<Rightarrow> hw_cath \<Rightarrow> cell \<Rightarrow> 'z mem_scheme
    \<Rightarrow> (t_mem \<times> 'z mem_scheme) option" where
  "cell_read_skip hw skip c s =
     (if ops s c \<noteq> [] then ops_read_skip hw skip c (ops s c) s else Some (heap s (slot s c), s))"

definition dummy_store :: "cell \<Rightarrow> 'z mem_scheme \<Rightarrow> t_mem \<times> 'z mem_scheme" where
  "dummy_store c s = (let (r, s) = next_rand s; v = r AND 255 in (v, store (slot s c) v s))"

fun cell_write :: "'z mem_scheme hwif \<Rightarrow> cell \<Rightarrow> int \<Rightarrow> 'z mem_scheme
    \<Rightarrow> (t_mem \<times> 'z mem_scheme) option" where
  "cell_write hw (Dummy a) v s = Some (dummy_store (Dummy a) s)"
| "cell_write hw (Cell a i) v s =
     (let c = Cell a i; v = to_tmem v in
      if ops s c \<noteq> [] then ops_write hw c (ops s c) v s
      else (let v = v AND 255 in Some (v, store (slot s c) v s)))"

fun cell_set :: "cell \<Rightarrow> int \<Rightarrow> 'z mem_scheme \<Rightarrow> t_mem \<times> 'z mem_scheme" where
  "cell_set (Dummy a) v s = dummy_store (Dummy a) s"
| "cell_set (Cell a i) v s =
     (let v = to_tmem v AND 255 in (v, store (slot s (Cell a i)) v s))"

declare cell_write.simps [simp del] cell_set.simps [simp del]

definition cell_add :: "cell \<Rightarrow> int \<Rightarrow> 'z mem_scheme \<Rightarrow> t_mem \<times> 'z mem_scheme" where
  "cell_add c what s =
     (let v = (cell_get c s + what) AND 255 in (v, store (slot s c) v s))"

definition cell_wadd :: "'z mem_scheme hwif \<Rightarrow> cell \<Rightarrow> int \<Rightarrow> 'z mem_scheme
    \<Rightarrow> (t_mem \<times> 'z mem_scheme) option" where
  "cell_wadd hw c what s = cell_write hw c ((cell_get c s + what) AND 255) s"

definition cell_set_bit1 :: "cell \<Rightarrow> int \<Rightarrow> 'z mem_scheme \<Rightarrow> 'z mem_scheme" where
  "cell_set_bit1 c bits s = store (slot s c) (cell_get c s OR (bits AND 255)) s"

definition cell_set_bit0 :: "cell \<Rightarrow> int \<Rightarrow> 'z mem_scheme \<Rightarrow> 'z mem_scheme" where
  "cell_set_bit0 c bits s = store (slot s c) (cell_get c s AND NOT (bits AND 255)) s"

definition cell_get_flag :: "cell \<Rightarrow> int \<Rightarrow> 'z mem_scheme \<Rightarrow> bool" where
  "cell_get_flag c flag s \<longleftrightarrow> cflags s c AND flag \<noteq> 0"

definition cell_set_flag :: "cell \<Rightarrow> int \<Rightarrow> bool \<Rightarrow> 'z mem_scheme \<Rightarrow> 'z mem_scheme" where
  "cell_set_flag c flag val s =
     s\<lparr>cflags := (cflags s)(c := (if val then cflags s c OR flag else cflags s c AND NOT flag))\<rparr>"

text \<open>The methods of the base class \<open>cl_hw\<close>, which an element keeps unless it overrides them.\<close>

definition base_hw :: "'z mem_scheme hwif" where
  "base_hw = \<lparr>hw_cath = cathegory, hw_read = (\<lambda>h c s. Some (cell_get c s, s)),
     hw_write = (\<lambda>h c v s. Some (v, s)), hw_tick = (\<lambda>h n s. Some ((), s)),
     hw_reset = (\<lambda>h s. Some ((), s)), hw_happen = (\<lambda>h e s. Some ((), s))\<rparr>"

definition append_operator :: "cell \<Rightarrow> mem_op \<Rightarrow> 'z mem_scheme \<Rightarrow> 'z mem_scheme" where
  "append_operator c op s = s\<lparr>ops := (ops s)(c := ops s c @ [op])\<rparr>"

definition prepend_operator :: "cell \<Rightarrow> mem_op \<Rightarrow> 'z mem_scheme \<Rightarrow> 'z mem_scheme" where
  "prepend_operator c op s = s\<lparr>ops := (ops s)(c := op # ops s c)\<rparr>"

fun remove_first :: "('a \<Rightarrow> bool) \<Rightarrow> 'a list \<Rightarrow> 'a list" where
  "remove_first P [] = []"
| "remove_first P (x # xs) = (if P x then xs else x # remove_first P xs)"

definition del_operator :: "cell \<Rightarrow> int \<Rightarrow> 'z mem_scheme \<Rightarrow> 'z mem_scheme" where
  "del_operator c brk s = s\<lparr>ops := (ops s)(c := remove_first (op_match_brk brk) (ops s c))\<rparr>"

definition add_hw :: "cell \<Rightarrow> hwid \<Rightarrow> 'z mem_scheme \<Rightarrow> 'z mem_scheme" where
  "add_hw c h s = append_operator c (Hw_op (slot s c) h) s"

subsection \<open>Addresses\<close>

definition valid_address :: "as_id \<Rightarrow> t_addr \<Rightarrow> bool" where
  "valid_address a addr \<longleftrightarrow> as_start a \<le> addr \<and> addr < as_start a + as_size a"

definition inc_address_by :: "as_id \<Rightarrow> t_addr \<Rightarrow> int \<Rightarrow> t_addr" where
  "inc_address_by a addr val =
     (if as_start a = 0 then (addr + val) smod as_size a
      else (addr - as_start a + val) smod as_size a + as_start a)"

definition inc_address :: "as_id \<Rightarrow> t_addr \<Rightarrow> t_addr" where
  "inc_address a addr =
     (if as_start a = 0 then (addr + 1) smod as_size a
      else (addr - as_start a + 1) smod as_size a + as_start a)"

function raise_address :: "as_id \<Rightarrow> t_addr \<Rightarrow> t_addr" where
  "raise_address a addr =
     (if addr < as_start a then raise_address a (addr + as_size a) else addr)"
  by pat_completeness auto
termination
  by (relation "measure (\<lambda>(a, addr). nat (as_start a - addr))") (auto simp: as_size_pos)

declare raise_address.simps [simp del]

definition validate_address :: "as_id \<Rightarrow> t_addr \<Rightarrow> t_addr" where
  "validate_address a addr =
     (let addr = raise_address a addr in
      if as_start a + as_size a < addr
      then (addr - as_start a) smod as_size a + as_start a else addr)"

definition err_inv_addr :: "as_id \<Rightarrow> t_addr \<Rightarrow> 'z mem_scheme \<Rightarrow> 'z mem_scheme" where
  "err_inv_addr a addr s = uc_error (Err_mem_invalid_address a addr) s"

subsection \<open>Address spaces: routed access\<close>

definition out_of_space :: "as_id \<Rightarrow> t_addr \<Rightarrow> bool" where
  "out_of_space a addr \<longleftrightarrow> as_size a \<le> addr - as_start a \<or> addr < as_start a"

definition cells_at :: "as_id \<Rightarrow> int \<Rightarrow> cell option" where
  "cells_at a idx = (if 0 \<le> idx \<and> idx < as_size a then Some (Cell a idx) else None)"

fun flashbank :: "int \<Rightarrow> as_id" where
  "flashbank n = (if n = 0 then Flashbank0 else if n = 1 then Flashbank1
     else if n = 2 then Flashbank2 else Flashbank3)"

declare flashbank.simps [simp del]

definition leaf_read :: "'z mem_scheme hwif \<Rightarrow> as_id \<Rightarrow> t_addr \<Rightarrow> 'z mem_scheme
    \<Rightarrow> (t_mem \<times> 'z mem_scheme) option" where
  "leaf_read hw a addr s =
     (if out_of_space a addr then cell_read hw (Dummy a) (err_inv_addr a addr s)
      else cell_read hw (Cell a (addr - as_start a)) s)"

definition cells_read :: "'z mem_scheme hwif \<Rightarrow> as_id \<Rightarrow> int \<Rightarrow> 'z mem_scheme
    \<Rightarrow> (t_mem \<times> 'z mem_scheme) option" where
  "cells_read hw a idx s =
     (case cells_at a idx of None \<Rightarrow> None | Some c \<Rightarrow> cell_read hw c s)"

definition sram_read :: "'z mem_scheme hwif \<Rightarrow> t_addr \<Rightarrow> 'z mem_scheme
    \<Rightarrow> (t_mem \<times> 'z mem_scheme) option" where
  "sram_read hw idx s =
     (if 0x1F00 \<le> idx then leaf_read hw Iram (idx - xram_offset Iram) s
      else cells_read hw Sram idx s)"

definition rom_read :: "'z mem_scheme hwif \<Rightarrow> t_addr \<Rightarrow> 'z mem_scheme
    \<Rightarrow> (t_mem \<times> 'z mem_scheme) option" where
  "rom_read hw idx s =
     (if idx < 0x8000 then leaf_read hw Flashbank0 idx s
      else do {
        (mcon, s) \<leftarrow> leaf_read hw Sfr r_MCON s;
        let idx = idx AND 0x7FFF;
        if mcon AND 0x08 \<noteq> 0 \<and> idx < 0x2000 then sram_read hw idx s
        else do {
          (f, s) \<leftarrow> leaf_read hw Sfr r_FMAP s;
          let fmap = f AND 0x07;
          if fmap \<le> 3 then leaf_read hw (flashbank fmap) idx s else None
        }
      })"

definition xram_read :: "'z mem_scheme hwif \<Rightarrow> t_addr \<Rightarrow> 'z mem_scheme
    \<Rightarrow> (t_mem \<times> 'z mem_scheme) option" where
  "xram_read hw idx s =
     (if idx < 0x2000 then sram_read hw idx s
      else if 0x7080 \<le> idx \<and> idx < 0x7100 then leaf_read hw Sfr (idx - xram_offset Sfr) s
      else if 0x8000 \<le> idx then do {
        (mcon, s) \<leftarrow> leaf_read hw Sfr r_MCON s;
        let memctr = mcon AND 0x07;
        let idx = idx smod 0x8000;
        if memctr \<le> 3 then leaf_read hw (flashbank memctr) idx s else cells_read hw Xram idx s
      }
      else cells_read hw Xram idx s)"

definition as_read :: "'z mem_scheme hwif \<Rightarrow> as_id \<Rightarrow> t_addr \<Rightarrow> 'z mem_scheme
    \<Rightarrow> (t_mem \<times> 'z mem_scheme) option" where
  "as_read hw a addr s =
     (if a = Rom then rom_read hw addr s
      else if a = Xram then xram_read hw addr s
      else if a = Sram then sram_read hw addr s
      else leaf_read hw a addr s)"

definition as_read_skip :: "'z mem_scheme hwif \<Rightarrow> hw_cath \<Rightarrow> as_id \<Rightarrow> t_addr \<Rightarrow> 'z mem_scheme
    \<Rightarrow> (t_mem \<times> 'z mem_scheme) option" where
  "as_read_skip hw skip a addr s =
     (if out_of_space a addr then cell_read hw (Dummy a) (err_inv_addr a addr s)
      else cell_read_skip hw skip (Cell a (addr - as_start a)) s)"

definition leaf_get :: "as_id \<Rightarrow> t_addr \<Rightarrow> 'z mem_scheme \<Rightarrow> t_mem \<times> 'z mem_scheme" where
  "leaf_get a addr s =
     (if out_of_space a addr then (let s = err_inv_addr a addr s in (cell_get (Dummy a) s, s))
      else (cell_get (Cell a (addr - as_start a)) s, s))"

definition cells_get :: "as_id \<Rightarrow> int \<Rightarrow> 'z mem_scheme \<Rightarrow> (t_mem \<times> 'z mem_scheme) option" where
  "cells_get a idx s =
     (case cells_at a idx of None \<Rightarrow> None | Some c \<Rightarrow> Some (cell_get c s, s))"

definition sram_get :: "t_addr \<Rightarrow> 'z mem_scheme \<Rightarrow> (t_mem \<times> 'z mem_scheme) option" where
  "sram_get idx s =
     (if 0x1F00 \<le> idx then Some (leaf_get Iram (idx - xram_offset Iram) s)
      else cells_get Sram idx s)"

definition rom_get :: "'z mem_scheme hwif \<Rightarrow> t_addr \<Rightarrow> 'z mem_scheme
    \<Rightarrow> (t_mem \<times> 'z mem_scheme) option" where
  "rom_get hw idx s =
     (if idx < 0x8000 then Some (leaf_get Flashbank0 idx s)
      else do {
        (f, s) \<leftarrow> leaf_read hw Sfr r_FMAP s;
        (mcon, s) \<leftarrow> leaf_read hw Sfr r_MCON s;
        let fmap = f AND 0x07;
        let idx = idx smod 0x8000;
        if mcon AND 0x08 \<noteq> 0 \<and> idx < 0x2000 then sram_get idx s
        else if fmap \<le> 3 then Some (leaf_get (flashbank fmap) idx s)
        else cells_get Rom idx s
      })"

definition xram_get :: "'z mem_scheme hwif \<Rightarrow> t_addr \<Rightarrow> 'z mem_scheme
    \<Rightarrow> (t_mem \<times> 'z mem_scheme) option" where
  "xram_get hw idx s =
     (if idx < 0x2000 then sram_get idx s
      else if 0x7080 \<le> idx \<and> idx < 0x7100 then Some (leaf_get Sfr (idx - xram_offset Sfr) s)
      else if 0x8000 \<le> idx then do {
        (mcon, s) \<leftarrow> leaf_read hw Sfr r_MCON s;
        let memctr = mcon AND 0x07;
        let idx = idx smod 0x8000;
        if memctr \<le> 3 then Some (leaf_get (flashbank memctr) idx s) else cells_get Xram idx s
      }
      else cells_get Xram idx s)"

definition as_get :: "'z mem_scheme hwif \<Rightarrow> as_id \<Rightarrow> t_addr \<Rightarrow> 'z mem_scheme
    \<Rightarrow> (t_mem \<times> 'z mem_scheme) option" where
  "as_get hw a addr s =
     (if a = Rom then rom_get hw addr s
      else if a = Xram then xram_get hw addr s
      else if a = Sram then sram_get addr s
      else Some (leaf_get a addr s))"


definition leaf_write :: "'z mem_scheme hwif \<Rightarrow> as_id \<Rightarrow> t_addr \<Rightarrow> int \<Rightarrow> 'z mem_scheme
    \<Rightarrow> (t_mem \<times> 'z mem_scheme) option" where
  "leaf_write hw a addr v s =
     (if out_of_space a addr then None else cell_write hw (Cell a (addr - as_start a)) v s)"

definition cells_write :: "'z mem_scheme hwif \<Rightarrow> as_id \<Rightarrow> int \<Rightarrow> int \<Rightarrow> 'z mem_scheme
    \<Rightarrow> (t_mem \<times> 'z mem_scheme) option" where
  "cells_write hw a idx v s =
     (case cells_at a idx of None \<Rightarrow> None | Some c \<Rightarrow> cell_write hw c v s)"

definition sram_write :: "'z mem_scheme hwif \<Rightarrow> t_addr \<Rightarrow> int \<Rightarrow> 'z mem_scheme
    \<Rightarrow> (t_mem \<times> 'z mem_scheme) option" where
  "sram_write hw idx v s =
     (if out_of_space Sram idx then None
      else if 0x1F00 \<le> idx then leaf_write hw Iram (idx - xram_offset Iram) v s
      else cells_write hw Sram idx v s)"

definition xram_write :: "'z mem_scheme hwif \<Rightarrow> t_addr \<Rightarrow> int \<Rightarrow> 'z mem_scheme
    \<Rightarrow> (t_mem \<times> 'z mem_scheme) option" where
  "xram_write hw idx v s =
     (if out_of_space Xram idx then None
      else if idx < 0x2000 then sram_write hw idx v s
      else if 0x7080 \<le> idx \<and> idx < 0x7100 then leaf_write hw Sfr (idx - xram_offset Sfr) v s
      else if 0x8000 \<le> idx then do {
        (mcon, s) \<leftarrow> leaf_read hw Sfr r_MCON s;
        let memctr = mcon AND 0x07;
        let idx = idx smod 0x8000;
        if memctr \<le> 3 then leaf_write hw (flashbank memctr) idx v s
        else cells_write hw Xram idx v s
      }
      else cells_write hw Xram idx v s)"

definition as_write :: "'z mem_scheme hwif \<Rightarrow> as_id \<Rightarrow> t_addr \<Rightarrow> int \<Rightarrow> 'z mem_scheme
    \<Rightarrow> (t_mem \<times> 'z mem_scheme) option" where
  "as_write hw a addr v s =
     (if a = Xram then xram_write hw addr v s
      else if a = Sram then sram_write hw addr v s
      else leaf_write hw a addr v s)"

definition leaf_set :: "as_id \<Rightarrow> t_addr \<Rightarrow> int \<Rightarrow> 'z mem_scheme \<Rightarrow> 'z mem_scheme" where
  "leaf_set a addr v s =
     (if out_of_space a addr then snd (cell_set (Dummy a) v (err_inv_addr a addr s))
      else snd (cell_set (Cell a (addr - as_start a)) v s))"

definition cells_set :: "as_id \<Rightarrow> int \<Rightarrow> int \<Rightarrow> 'z mem_scheme \<Rightarrow> 'z mem_scheme option" where
  "cells_set a idx v s =
     (case cells_at a idx of None \<Rightarrow> None | Some c \<Rightarrow> Some (snd (cell_set c v s)))"

definition sram_set :: "t_addr \<Rightarrow> int \<Rightarrow> 'z mem_scheme \<Rightarrow> 'z mem_scheme option" where
  "sram_set idx v s =
     (if out_of_space Sram idx
      then Some (snd (cell_set (Dummy Sram) v (err_inv_addr Sram idx s)))
      else if 0x1F00 \<le> idx then Some (leaf_set Iram (idx - xram_offset Iram) v s)
      else cells_set Sram idx v s)"

text \<open>The cases of the bank switch in \<open>set\<close> fall through: there is no \<open>break\<close>.\<close>

definition bank_set :: "int \<Rightarrow> int \<Rightarrow> int \<Rightarrow> 'z mem_scheme \<Rightarrow> 'z mem_scheme option" where
  "bank_set memctr idx v s =
     (let s = (if memctr = 0 then leaf_set Flashbank0 idx v s else s);
          s = (if memctr \<le> 1 then leaf_set Flashbank1 idx v s else s);
          s = (if memctr \<le> 2 then leaf_set Flashbank2 idx v s else s);
          s = (if memctr \<le> 3 then leaf_set Flashbank3 idx v s else s)
      in cells_set Xram idx v s)"

definition xram_set :: "'z mem_scheme hwif \<Rightarrow> t_addr \<Rightarrow> int \<Rightarrow> 'z mem_scheme
    \<Rightarrow> 'z mem_scheme option" where
  "xram_set hw idx v s =
     (if out_of_space Xram idx
      then Some (snd (cell_set (Dummy Xram) v (err_inv_addr Xram idx s)))
      else if idx < 0x2000 then sram_set idx v s
      else if 0x7080 \<le> idx \<and> idx < 0x7100 then Some (leaf_set Sfr (idx - xram_offset Sfr) v s)
      else if 0x8000 \<le> idx then do {
        (mcon, s) \<leftarrow> leaf_read hw Sfr r_MCON s;
        bank_set (mcon AND 0x07) (idx smod 0x8000) v s
      }
      else cells_set Xram idx v s)"

definition as_set :: "'z mem_scheme hwif \<Rightarrow> as_id \<Rightarrow> t_addr \<Rightarrow> int \<Rightarrow> 'z mem_scheme
    \<Rightarrow> 'z mem_scheme option" where
  "as_set hw a addr v s =
     (if a = Xram then xram_set hw addr v s
      else if a = Sram then sram_set addr v s
      else Some (leaf_set a addr v s))"

definition as_wadd :: "'z mem_scheme hwif \<Rightarrow> as_id \<Rightarrow> t_addr \<Rightarrow> int \<Rightarrow> 'z mem_scheme
    \<Rightarrow> (t_mem \<times> 'z mem_scheme) option" where
  "as_wadd hw a addr what s =
     (let s = (if out_of_space a addr then err_inv_addr a addr s else s) in
      case cells_at a (addr - as_start a) of None \<Rightarrow> None
      | Some c \<Rightarrow> cell_wadd hw c what s)"

definition as_set_bit1 :: "as_id \<Rightarrow> t_addr \<Rightarrow> int \<Rightarrow> 'z mem_scheme \<Rightarrow> 'z mem_scheme" where
  "as_set_bit1 a addr bits s =
     (if out_of_space a addr then s else cell_set_bit1 (Cell a (addr - as_start a)) bits s)"

definition as_set_bit0 :: "as_id \<Rightarrow> t_addr \<Rightarrow> int \<Rightarrow> 'z mem_scheme \<Rightarrow> 'z mem_scheme" where
  "as_set_bit0 a addr bits s =
     (if out_of_space a addr then s else cell_set_bit0 (Cell a (addr - as_start a)) bits s)"

definition get_cell :: "as_id \<Rightarrow> t_addr \<Rightarrow> 'z mem_scheme \<Rightarrow> cell \<times> 'z mem_scheme" where
  "get_cell a addr s =
     (if out_of_space a addr then (Dummy a, err_inv_addr a addr s)
      else (Cell a (addr - as_start a), s))"

text \<open>The flag accessors index the cell array by the address itself, not by its offset.\<close>

definition get_cell_flag :: "as_id \<Rightarrow> t_addr \<Rightarrow> int \<Rightarrow> 'z mem_scheme \<Rightarrow> bool option" where
  "get_cell_flag a addr flag s =
     (if out_of_space a addr then Some (cell_get_flag (Dummy a) flag s)
      else map_option (\<lambda>c. cell_get_flag c flag s) (cells_at a addr))"

definition set_cell_flag :: "as_id \<Rightarrow> t_addr \<Rightarrow> bool \<Rightarrow> int \<Rightarrow> 'z mem_scheme
    \<Rightarrow> 'z mem_scheme option" where
  "set_cell_flag a addr set_to flag s =
     (if out_of_space a addr then Some (cell_set_flag (Dummy a) flag set_to s)
      else map_option (\<lambda>c. cell_set_flag c flag set_to s) (cells_at a addr))"

definition register_hw :: "as_id \<Rightarrow> t_addr \<Rightarrow> hwid \<Rightarrow> 'z mem_scheme \<Rightarrow> cell option \<times> 'z mem_scheme" where
  "register_hw a addr h s =
     (if out_of_space a addr then (None, s)
      else (let c = Cell a (addr - as_start a) in (Some c, add_hw c h s)))"

fun is_write_event :: "brk_event \<Rightarrow> bool" where
  "is_write_event e = (e \<in> {brkWRITE, brkWXRAM, brkWIRAM, brkWSFR, brkWFLASHBANK0, brkWFLASHBANK1,
     brkWFLASHBANK2, brkWFLASHBANK3, brkWSRAM})"

fun is_read_event :: "brk_event \<Rightarrow> bool" where
  "is_read_event e = (e \<in> {brkREAD, brkRXRAM, brkRCODE, brkRIRAM, brkRSFR, brkRFLASHBANK0,
     brkRFLASHBANK1, brkRFLASHBANK2, brkRFLASHBANK3, brkRSRAM})"

definition set_brk :: "as_id \<Rightarrow> t_addr \<Rightarrow> int \<Rightarrow> brk_event \<Rightarrow> 'z mem_scheme
    \<Rightarrow> 'z mem_scheme option" where
  "set_brk a addr nr ev s =
     (if out_of_space a addr then Some s
      else (let c = Cell a (addr - as_start a) in
        if is_write_event ev then Some (append_operator c (Write_op (slot s c) nr) s)
        else if is_read_event ev then Some (append_operator c (Read_op (slot s c) nr) s)
        else if ev = brkNONE then set_cell_flag a addr True CELL_FETCH_BRK s
        else Some s))"

definition del_brk :: "as_id \<Rightarrow> t_addr \<Rightarrow> int \<Rightarrow> brk_event \<Rightarrow> 'z mem_scheme
    \<Rightarrow> 'z mem_scheme option" where
  "del_brk a addr nr ev s =
     (if out_of_space a addr then Some s
      else (let c = Cell a (addr - as_start a) in
        if is_write_event ev \<or> is_read_event ev then Some (del_operator c nr s)
        else if ev = brkNONE then set_cell_flag a addr False CELL_FETCH_BRK s
        else Some s))"

end
