(* ===== verification/MemFacts.thy ===== *)
theory MemFacts
  imports Mem
begin

text \<open>
  Laws of the memory system: the well-formedness of the store, the effect of one cell access on
  every other cell, the interface between the memory and the hardware elements (locale
  \<open>mem_hw\<close>) with the access lemmas proved once inside it, address arithmetic, and routing.
\<close>

subsection \<open>Well-formed stores\<close>

definition mem_ok :: "'z mem_scheme \<Rightarrow> bool" where
  "mem_ok s \<longleftrightarrow> (\<forall>d. byte (heap s d)) \<and> inj (slot s)
     \<and> (\<forall>c. \<forall>p \<in> set (ops s c). op_slot p = slot s c)"

definition poke :: "cell \<Rightarrow> int \<Rightarrow> 'z mem_scheme \<Rightarrow> 'z mem_scheme" where
  "poke c v s = store (slot s c) v s"

lemma mem_ok_byte [simp]: "mem_ok s \<Longrightarrow> byte (heap s d)"
  by (simp add: mem_ok_def)

lemma mem_ok_get [simp, byte_intros]: "mem_ok s \<Longrightarrow> byte (cell_get c s)"
  by (simp add: cell_get_def)

lemma mem_ok_slot_eq [simp]: "mem_ok s \<Longrightarrow> slot s c = slot s c' \<longleftrightarrow> c = c'"
  by (auto simp: mem_ok_def dest: injD)

lemma mem_ok_store: "mem_ok s \<Longrightarrow> byte v \<Longrightarrow> mem_ok (store d v s)"
  by (simp add: mem_ok_def store_def)

lemma store_fields [simp]:
  "slot (store d v s) = slot s" "ops (store d v s) = ops s" "cflags (store d v s) = cflags s"
  "errors (store d v s) = errors s" "events (store d v s) = events s"
  by (simp_all add: store_def)

lemma poke_fields [simp]:
  "slot (poke c v s) = slot s" "ops (poke c v s) = ops s" "cflags (poke c v s) = cflags s"
  "errors (poke c v s) = errors s" "events (poke c v s) = events s"
  by (simp_all add: poke_def)

lemma mem_ok_poke [simp]: "mem_ok s \<Longrightarrow> byte v \<Longrightarrow> mem_ok (poke c v s)"
  by (simp add: poke_def mem_ok_store)

lemma get_poke [simp]:
  "mem_ok s \<Longrightarrow> cell_get c (poke c' v s) = (if c = c' then v else cell_get c s)"
  by (simp add: poke_def store_def cell_get_def)

lemma poke_poke [simp]: "poke c v (poke c w s) = poke c v s"
  by (simp add: poke_def store_def)

lemma poke_poke_between [simp]:
  "mem_ok s \<Longrightarrow> c \<noteq> c' \<Longrightarrow> poke c v (poke c' u (poke c w s)) = poke c v (poke c' u s)"
  by (auto simp: poke_def store_def fun_upd_def fun_eq_iff intro!: mem.fold_congs)

lemma poke_poke_between2 [simp]:
  "mem_ok s \<Longrightarrow> c \<noteq> c' \<Longrightarrow> c \<noteq> c'' \<Longrightarrow>
   poke c v (poke c' u (poke c'' t (poke c w s))) = poke c v (poke c' u (poke c'' t s))"
  by (auto simp: poke_def store_def fun_upd_def fun_eq_iff intro!: mem.fold_congs)

lemma poke_commute:
  "mem_ok s \<Longrightarrow> c \<noteq> c' \<Longrightarrow> poke c v (poke c' u s) = poke c' u (poke c v s)"
  by (auto simp: poke_def store_def fun_upd_def fun_eq_iff intro!: mem.fold_congs)

lemma mem_ok_uc_error [simp]: "mem_ok (uc_error k s) = mem_ok s"
  by (simp add: mem_ok_def uc_error_def)

lemma mem_ok_add_event [simp]: "mem_ok (add_event b s) = mem_ok s"
  by (simp add: mem_ok_def add_event_def)

lemma mem_ok_rand [simp]: "mem_ok (s\<lparr>rand_pos := n\<rparr>) = mem_ok s"
  by (simp add: mem_ok_def)

lemma mem_ok_err_inv_addr [simp]: "mem_ok (err_inv_addr a addr s) = mem_ok s"
  by (simp add: err_inv_addr_def)

lemma set_bits_poke:
  "cell_set_bit1 c b s = poke c (cell_get c s OR (b mod 256)) s"
  "cell_set_bit0 c b s = poke c (cell_get c s AND NOT (b mod 256)) s"
  by (simp_all add: cell_set_bit1_def cell_set_bit0_def poke_def)

lemma to_tmem_mod_256 [simp]: "to_tmem v mod 256 = v mod 256"
  by (simp add: to_tmem_def mod_mod_cancel)

subsection \<open>Cells without operators\<close>

lemma plain_read [simp]: "ops s c = [] \<Longrightarrow> cell_read hw c s = Some (cell_get c s, s)"
  by (simp add: cell_read_def cell_get_def)

lemma plain_read_skip [simp]:
  "ops s c = [] \<Longrightarrow> cell_read_skip hw k c s = Some (cell_get c s, s)"
  by (simp add: cell_read_skip_def cell_get_def)

lemma plain_write [simp]:
  "ops s (Cell a i) = [] \<Longrightarrow>
   cell_write hw (Cell a i) v s = Some (v mod 256, poke (Cell a i) (v mod 256) s)"
  by (simp add: cell_write.simps poke_def Let_def)

lemma plain_wadd [simp]:
  "ops s (Cell a i) = [] \<Longrightarrow> cell_wadd hw (Cell a i) v s =
     Some ((cell_get (Cell a i) s + v) mod 256,
           poke (Cell a i) ((cell_get (Cell a i) s + v) mod 256) s)"
  by (simp add: cell_wadd_def)

lemma set_poke: "cell_set (Cell a i) v s = (v mod 256, poke (Cell a i) (v mod 256) s)"
  by (simp add: cell_set.simps poke_def Let_def)

lemma add_poke:
  "cell_add c v s = ((cell_get c s + v) mod 256, poke c ((cell_get c s + v) mod 256) s)"
  by (simp add: cell_add_def poke_def Let_def)

subsection \<open>The interface to the hardware elements\<close>

text \<open>
  A property \<open>I\<close> of the whole state that the elements keep when a cell they watch is read or
  written, and that a store of a byte, an error, an event and a random number keep: then every
  access of the memory system keeps it. A read gives a byte, except from a register an element
  answers for: the MAC timer gives 16-bit values there.
\<close>

definition byte_space :: "as_id \<Rightarrow> bool" where
  "byte_space a \<longleftrightarrow> a \<noteq> Sfr \<and> a \<noteq> Xram"

fun byte_cell :: "cell \<Rightarrow> bool" where
  "byte_cell (Cell a i) = byte_space a"
| "byte_cell (Dummy a) = byte_space a"

lemma byte_spaces [simp]:
  "byte_space Rom" "byte_space Iram" "byte_space Sram" "byte_space (flashbank n)"
  "byte_space Flashbank0" "byte_space Flashbank1" "byte_space Flashbank2" "byte_space Flashbank3"
  by (simp_all add: byte_space_def flashbank.simps)

locale mem_hw =
  fixes hw :: "'z mem_scheme hwif" and I :: "'z mem_scheme \<Rightarrow> bool"
  assumes I_mem: "I s \<Longrightarrow> mem_ok s"
    and I_store: "I s \<Longrightarrow> byte v \<Longrightarrow> I (store d v s)"
    and I_event: "I s \<Longrightarrow> I (add_event b s)"
    and I_error: "I s \<Longrightarrow> I (uc_error k s)"
    and I_rand: "I s \<Longrightarrow> I (s\<lparr>rand_pos := n\<rparr>)"
    and read_I: "I s \<Longrightarrow> sat (\<lambda>v s'. (byte_cell c \<longrightarrow> byte v) \<and> I s') (hw_read hw h c s)"
    and write_I: "I s \<Longrightarrow> sat (\<lambda>v s'. I s') (hw_write hw h c v s)"
begin

lemma I_poke: "I s \<Longrightarrow> byte v \<Longrightarrow> I (poke c v s)"
  by (simp add: poke_def I_store)

lemma I_err: "I s \<Longrightarrow> I (err_inv_addr a addr s)"
  by (simp add: err_inv_addr_def I_error)

lemma ops_read_I: "I s \<Longrightarrow> sat (\<lambda>v s'. (byte_cell c \<longrightarrow> byte v) \<and> I s') (ops_read hw c ps s)"
proof (induction ps arbitrary: s)
  case (Cons p ps)
  show ?case
  proof (cases p)
    case (Hw_op d h)
    show ?thesis
      unfolding Hw_op ops_read.simps
      by (rule sat_bindI [OF read_I [OF Cons.prems]], rule sat_bindI [OF Cons.IH]) auto
  qed (use Cons in \<open>auto simp: I_event I_mem Let_def\<close>)
qed simp

lemma ops_read_skip_I: "I s \<Longrightarrow> sat (\<lambda>v s'. (byte_cell c \<longrightarrow> byte v) \<and> I s') (ops_read_skip hw k c ps s)"
proof (cases "\<exists>d h qs. ps = Hw_op d h # qs")
  case True
  then obtain d h qs where ps: "ps = Hw_op d h # qs" by blast
  assume s: "I s"
  then have r: "sat (\<lambda>v s'. (byte_cell c \<longrightarrow> byte v) \<and> I s')
      (if hw_cath hw h \<noteq> k then hw_read hw h c s else Some (heap s d, s))"
    by (auto intro: read_I dest: I_mem)
  show ?thesis
    unfolding ps ops_read_skip.simps
    by (rule sat_bindI [OF r], rule sat_bindI [OF ops_read_I]) auto
next
  case False
  assume "I s"
  moreover have "ops_read_skip hw k c ps s = ops_read hw c ps s"
    using False by (cases ps; cases "hd ps") auto
  ultimately show ?thesis by (simp add: ops_read_I)
qed

lemma ops_write_I: "I s \<Longrightarrow> sat (\<lambda>v s'. I s') (ops_write hw c ps v s)"
proof (induction ps arbitrary: s v)
  case (Cons p ps)
  show ?case
  proof (cases p)
    case (Hw_op d h)
    show ?thesis
      unfolding Hw_op ops_write.simps
      by (rule sat_bindI [OF write_I [OF Cons.prems]], rule sat_bindI [OF Cons.IH])
        (auto simp: I_store Let_def)
  qed (use Cons in \<open>auto simp: I_event I_store Let_def\<close>)
qed simp

subsubsection \<open>Cells\<close>

lemma cell_read_I: "I s \<Longrightarrow> sat (\<lambda>v s'. (byte_cell c \<longrightarrow> byte v) \<and> I s') (cell_read hw c s)"
  by (auto simp: cell_read_def intro: ops_read_I dest: I_mem)

lemma cell_read_skip_I: "I s \<Longrightarrow> sat (\<lambda>v s'. (byte_cell c \<longrightarrow> byte v) \<and> I s') (cell_read_skip hw k c s)"
  by (auto simp: cell_read_skip_def intro: ops_read_skip_I dest: I_mem)

lemma dummy_store_I: "I s \<Longrightarrow> I (snd (dummy_store c s)) \<and> byte (fst (dummy_store c s))"
  by (simp add: dummy_store_def next_rand_def Let_def I_store I_rand)

lemma cell_write_I: "I s \<Longrightarrow> sat (\<lambda>v s'. I s') (cell_write hw c v s)"
  using dummy_store_I [of s c]
  by (cases c) (auto simp: cell_write.simps Let_def sat_def I_store dest: satD [OF ops_write_I])

lemma cell_wadd_I: "I s \<Longrightarrow> sat (\<lambda>v s'. I s') (cell_wadd hw c v s)"
  by (simp add: cell_wadd_def cell_write_I)

lemma cell_set_I: "I s \<Longrightarrow> I (snd (cell_set c v s))"
  by (cases c) (simp_all add: set_poke I_poke cell_set.simps(1) dummy_store_I)

lemma cell_add_I: "I s \<Longrightarrow> I (snd (cell_add c v s))"
  by (simp add: add_poke I_poke)

lemma cell_bits_I: "I s \<Longrightarrow> I (cell_set_bit1 c b s)" "I s \<Longrightarrow> I (cell_set_bit0 c b s)"
  using I_mem [of s] by (simp_all add: set_bits_poke I_poke byte_and byte_or)

subsubsection \<open>Address spaces\<close>

lemma leaf_read_I: "I s \<Longrightarrow> sat (\<lambda>v s'. (byte_space a \<longrightarrow> byte v) \<and> I s') (leaf_read hw a addr s)"
  using cell_read_I [of "err_inv_addr a addr s" "Dummy a"] cell_read_I [of s "Cell a (addr - as_start a)"]
  by (simp add: leaf_read_def I_err)

lemma cells_read_I: "I s \<Longrightarrow> sat (\<lambda>v s'. (byte_space a \<longrightarrow> byte v) \<and> I s') (cells_read hw a i s)"
  using cell_read_I [of s "Cell a i"] by (simp add: cells_read_def cells_at_def)

lemma sram_read_I: "I s \<Longrightarrow> sat (\<lambda>v s'. byte v \<and> I s') (sram_read hw i s)"
  using leaf_read_I [of s Iram "i - 0x1F00"] cells_read_I [of s Sram i] by (simp add: sram_read_def)

lemma code_read_I: "byte_space a \<Longrightarrow> I s \<Longrightarrow> sat (\<lambda>v s'. byte v \<and> I s') (leaf_read hw a addr s)"
  using leaf_read_I [of s a addr] by simp

lemmas leaf_read_bind = sat_bindI [OF leaf_read_I]

lemma rom_read_I: "I s \<Longrightarrow> sat (\<lambda>v s'. byte v \<and> I s') (rom_read hw i s)"
  unfolding rom_read_def
  by (auto simp: Let_def code_read_I sram_read_I intro!: leaf_read_bind)

lemma data_reads_I:
  "I s \<Longrightarrow> sat (\<lambda>_. I) (leaf_read hw a addr s)" "I s \<Longrightarrow> sat (\<lambda>_. I) (cells_read hw a i s)"
  "I s \<Longrightarrow> sat (\<lambda>_. I) (sram_read hw i s)"
  using leaf_read_I [of s a addr] cells_read_I [of s a i] sram_read_I [of s i]
  by (auto elim: sat_mono)

lemma xram_read_I: "I s \<Longrightarrow> sat (\<lambda>_. I) (xram_read hw i s)"
  unfolding xram_read_def
  by (auto simp: Let_def data_reads_I intro!: leaf_read_bind)

lemma as_read_I: "I s \<Longrightarrow> sat (\<lambda>v s'. (byte_space a \<longrightarrow> byte v) \<and> I s') (as_read hw a addr s)"
  using rom_read_I [of s] xram_read_I [of s] sram_read_I [of s] leaf_read_I [of s a addr]
  by (auto simp: as_read_def byte_space_def elim: sat_mono)

lemma as_read_skip_I: "I s \<Longrightarrow> sat (\<lambda>v s'. (byte_space a \<longrightarrow> byte v) \<and> I s') (as_read_skip hw k a addr s)"
  using cell_read_I [of "err_inv_addr a addr s" "Dummy a"] cell_read_skip_I [of s "Cell a (addr - as_start a)" k]
  by (simp add: as_read_skip_def I_err)

lemma leaf_get_I: "I s \<Longrightarrow> byte (fst (leaf_get a addr s)) \<and> I (snd (leaf_get a addr s))"
  using I_mem [of s] by (simp add: leaf_get_def Let_def I_err)

lemma as_get_leaf_I:
  "I s \<Longrightarrow> sat (\<lambda>v s'. byte v \<and> I s') (Some (leaf_get a addr s))"
  using leaf_get_I [of s a addr] by (cases "leaf_get a addr s") simp

lemma cells_get_I: "I s \<Longrightarrow> sat (\<lambda>v s'. byte v \<and> I s') (cells_get a i s)"
  using I_mem [of s] by (simp add: cells_get_def split: option.split)

lemma sram_get_I: "I s \<Longrightarrow> sat (\<lambda>v s'. byte v \<and> I s') (sram_get i s)"
  by (simp add: sram_get_def as_get_leaf_I cells_get_I)

lemma as_get_I: "I s \<Longrightarrow> sat (\<lambda>v s'. byte v \<and> I s') (as_get hw a addr s)"
  unfolding as_get_def rom_get_def xram_get_def
  by (auto simp: Let_def as_get_leaf_I sram_get_I cells_get_I intro!: leaf_read_bind)

lemma leaf_write_I: "I s \<Longrightarrow> sat (\<lambda>v s'. I s') (leaf_write hw a addr v s)"
  by (simp add: leaf_write_def cell_write_I)

lemma cells_write_I: "I s \<Longrightarrow> sat (\<lambda>v s'. I s') (cells_write hw a i v s)"
  by (simp add: cells_write_def cell_write_I split: option.split)

lemma sram_write_I: "I s \<Longrightarrow> sat (\<lambda>v s'. I s') (sram_write hw i v s)"
  by (simp add: sram_write_def leaf_write_I cells_write_I)

lemma as_write_I: "I s \<Longrightarrow> sat (\<lambda>v s'. I s') (as_write hw a addr v s)"
  unfolding as_write_def xram_write_def
  by (auto simp: Let_def sram_write_I leaf_write_I cells_write_I intro!: leaf_read_bind)

lemma as_wadd_I: "I s \<Longrightarrow> sat (\<lambda>v s'. I s') (as_wadd hw a addr v s)"
  by (simp add: as_wadd_def Let_def cell_wadd_I I_err split: option.split)

lemma as_bits_I: "I s \<Longrightarrow> I (as_set_bit1 a addr b s)" "I s \<Longrightarrow> I (as_set_bit0 a addr b s)"
  by (simp_all add: as_set_bit1_def as_set_bit0_def cell_bits_I)

lemma get_cell_I: "I s \<Longrightarrow> I (snd (get_cell a addr s))"
  by (simp add: get_cell_def I_err)

lemma leaf_set_I: "I s \<Longrightarrow> I (leaf_set a addr v s)"
  by (simp add: leaf_set_def cell_set_I I_err)

end

interpretation base_mem: mem_hw base_hw mem_ok
  by unfold_locales (auto simp: base_hw_def mem_ok_store)

subsection \<open>Address arithmetic\<close>

lemma smod_pos: "0 \<le> x \<Longrightarrow> 0 < (n::int) \<Longrightarrow> x smod n = x mod n"
  by (cases "x = 0")
    (simp_all add: signed_modulo_int_def signed_divide_int_def minus_mult_div_eq_mod mult.commute)

lemma raise_address_eq:
  "raise_address a addr =
     (if addr < as_start a then as_start a + (addr - as_start a) mod as_size a else addr)"
proof (induction a addr rule: raise_address.induct)
  case (1 a addr)
  show ?case
  proof (cases "addr < as_start a")
    case True
    have "(addr - as_start a + as_size a) mod as_size a = (addr - as_start a) mod as_size a" by simp
    moreover have "as_start a \<le> addr + as_size a \<Longrightarrow>
        (addr - as_start a + as_size a) mod as_size a = addr - as_start a + as_size a"
      using True by (intro mod_pos_pos_trivial) auto
    ultimately show ?thesis
      using True 1 by (subst raise_address.simps) (auto simp: algebra_simps)
  qed (subst raise_address.simps, simp)
qed

lemma validate_address_eq:
  "validate_address a addr =
     (if addr = as_start a + as_size a then addr
      else as_start a + (addr - as_start a) mod as_size a)"
proof -
  consider "addr < as_start a" | "as_start a \<le> addr" "addr < as_start a + as_size a"
    | "addr = as_start a + as_size a" | "as_start a + as_size a < addr" by linarith
  then show ?thesis
  proof cases
    case 1
    have n: "\<not> as_size a < (addr - as_start a) mod as_size a"
      using pos_mod_bound [OF as_size_pos(1), of "addr - as_start a" a] by linarith
    have "addr \<noteq> as_start a + as_size a" using 1 as_size_pos [of a] by linarith
    then show ?thesis using 1 by (simp add: validate_address_def raise_address_eq Let_def n)
  next
    case 2
    then show ?thesis by (simp add: validate_address_def raise_address_eq Let_def)
  next
    case 3
    then show ?thesis
      using as_size_pos [of a] by (simp add: validate_address_def raise_address_eq Let_def)
  next
    case 4
    then have "\<not> addr < as_start a" using as_size_pos(1) [of a] by linarith
    with 4 show ?thesis by (simp add: validate_address_def raise_address_eq Let_def smod_pos)
  qed
qed

lemma inc_address_eq:
  "as_start a \<le> addr \<Longrightarrow>
   inc_address a addr = as_start a + (addr - as_start a + 1) mod as_size a"
  by (simp add: inc_address_def smod_pos)

subsection \<open>Routing of the data space\<close>

text \<open>
  The memory map of the CC2530 data space as a table: which cell an address of \<open>xram\<close> stands for,
  given the register \<open>MCON\<close> (\<open>MEMCTR\<close>), and which cell an address of \<open>rom\<close> stands for, given \<open>MCON\<close>
  and \<open>FMAP\<close>.
\<close>

definition sram_cell :: "t_addr \<Rightarrow> cell" where
  "sram_cell i = (if 0x1F00 \<le> i then Cell Iram (i - 0x1F00) else Cell Sram i)"

definition xdata_cell :: "t_addr \<Rightarrow> 'z mem_scheme \<Rightarrow> cell" where
  "xdata_cell i s =
     (if i < 0x2000 then sram_cell i
      else if 0x7080 \<le> i \<and> i < 0x7100 then Cell Sfr (i - 0x7080)
      else if i < 0x8000 then Cell Xram i
      else (let bank = cell_get (Cell Sfr 0x47) s mod 8 in
        if bank \<le> 3 then Cell (flashbank bank) (i - 0x8000) else Cell Xram (i - 0x8000)))"

definition code_cell :: "t_addr \<Rightarrow> 'z mem_scheme \<Rightarrow> cell option" where
  "code_cell i s =
     (if i < 0x8000 then Some (Cell Flashbank0 i)
      else (let j = i mod 0x8000; bank = cell_get (Cell Sfr 0x1f) s mod 8 in
        if bit (cell_get (Cell Sfr 0x47) s) 3 \<and> j < 0x2000 then Some (sram_cell j)
        else if bank \<le> 3 then Some (Cell (flashbank bank) j) else None))"

lemma flash_geometry [simp]: "as_start (flashbank n) = 0" "as_size (flashbank n) = 0x8000"
  by (simp_all add: flashbank.simps)

lemma leaf_read_in:
  "\<not> out_of_space a addr \<Longrightarrow> leaf_read hw a addr s = cell_read hw (Cell a (addr - as_start a)) s"
  by (simp add: leaf_read_def)

lemma leaf_write_in:
  "\<not> out_of_space a addr \<Longrightarrow>
   leaf_write hw a addr v s = cell_write hw (Cell a (addr - as_start a)) v s"
  by (simp add: leaf_write_def)

lemmas routing_simps = leaf_read_in leaf_write_in out_of_space_def cells_read_def cells_write_def
  cells_at_def sram_cell_def

lemma sram_read_cell: "0 \<le> i \<Longrightarrow> i < 0x2000 \<Longrightarrow> sram_read hw i s = cell_read hw (sram_cell i) s"
  by (simp add: sram_read_def routing_simps)

lemma sram_write_cell:
  "0 \<le> i \<Longrightarrow> i < 0x2000 \<Longrightarrow> sram_write hw i v s = cell_write hw (sram_cell i) v s"
  by (simp add: sram_write_def routing_simps)

lemma mcon_read:
  "ops s (Cell Sfr 0x47) = [] \<Longrightarrow> leaf_read hw Sfr r_MCON s = Some (cell_get (Cell Sfr 0x47) s, s)"
  by (simp add: routing_simps)

lemma bank_address: "0x8000 \<le> i \<Longrightarrow> i < 0x10000 \<Longrightarrow> i smod 0x8000 = i - (0x8000::int)"
proof -
  assume "0x8000 \<le> i" "i < 0x10000"
  then have "(i - 0x8000) mod 0x8000 = i - 0x8000" by (intro mod_pos_pos_trivial) auto
  moreover have "(i - 0x8000) mod 0x8000 = i mod 0x8000" by (rule minus_mod_self2)
  ultimately show ?thesis using \<open>0x8000 \<le> i\<close> by (simp add: smod_pos)
qed

lemma xram_read_cell:
  assumes "ops s (Cell Sfr 0x47) = []" "0 \<le> i" "i < 0x10000"
  shows "xram_read hw i s = cell_read hw (xdata_cell i s) s"
proof (cases "i < 0x8000")
  case True
  then show ?thesis
    using assms by (simp add: xram_read_def xdata_cell_def sram_read_cell routing_simps)
next
  case False
  then show ?thesis
    using assms bank_address [of i]
    by (simp add: xram_read_def xdata_cell_def mcon_read Let_def and_7 routing_simps)
qed

lemma xram_write_cell:
  assumes "ops s (Cell Sfr 0x47) = []" "0 \<le> i" "i < 0x10000"
  shows "xram_write hw i v s = cell_write hw (xdata_cell i s) v s"
proof (cases "i < 0x8000")
  case True
  then show ?thesis
    using assms by (simp add: xram_write_def xdata_cell_def sram_write_cell routing_simps)
next
  case False
  then show ?thesis
    using assms bank_address [of i]
    by (simp add: xram_write_def xdata_cell_def mcon_read Let_def and_7 routing_simps)
qed

text \<open>
  C28: with no operator on the register \<open>MCON\<close>, a read or write of the data
  space at any of its 65536 addresses is the read or write of the one cell the memory map names.
\<close>

theorem xram_refines:
  assumes "ops s (Cell Sfr 0x47) = []" and "0 \<le> i" "i < 0x10000"
  shows "as_read hw Xram i s = cell_read hw (xdata_cell i s) s
       \<and> as_write hw Xram i v s = cell_write hw (xdata_cell i s) v s"
  using xram_read_cell [OF assms] xram_write_cell [OF assms]
  by (simp add: as_read_def as_write_def)

lemma fmap_read:
  assumes "ops s (Cell Sfr 0x1f) = []"
  shows "leaf_read hw Sfr r_FMAP s = Some (cell_get (Cell Sfr 0x1f) s, s)"
  using assms by (simp add: routing_simps)

lemma and_0x7fff: "(i::int) AND 0x7FFF = i mod 0x8000"
proof -
  have "i AND 0x7FFF = i AND mask 15" by (simp add: mask_eq_exp_minus_1)
  then show ?thesis by (simp add: take_bit_eq_mod flip: take_bit_eq_mask)
qed

lemma flash_read:
  "leaf_read hw (flashbank n) (i mod 0x8000) s = cell_read hw (Cell (flashbank n) (i mod 0x8000)) s"
proof -
  have "\<not> 0x8000 \<le> i mod 0x8000" "\<not> i mod 0x8000 < 0" by (simp_all add: not_le not_less)
  then show ?thesis by (simp only: leaf_read_def out_of_space_def flash_geometry diff_zero) simp
qed

text \<open>
  Reading the code space, with the two bank registers read without side effects: the cell the map
  names, or an abort for the banks 4 to 7 \<open>FMAP\<close> can select and the source rejects.
\<close>

lemma rom_read_cell:
  assumes m: "leaf_read hw Sfr r_MCON s = Some (cell_get (Cell Sfr 0x47) s, s)"
    and f: "leaf_read hw Sfr r_FMAP s = Some (cell_get (Cell Sfr 0x1f) s, s)" and i: "0 \<le> i"
  shows "rom_read hw i s = Option.bind (code_cell i s) (\<lambda>c. cell_read hw c s)"
proof (cases "i < 0x8000")
  case True
  then show ?thesis using i by (simp add: rom_read_def code_cell_def routing_simps)
next
  case False
  then show ?thesis
    by (simp add: rom_read_def code_cell_def m f Let_def and_7 and_0x7fff and_single_bit
        sram_read_cell flash_read)
qed

definition blank_mem :: mem where
  "blank_mem = \<lparr>heap = (\<lambda>_. 0), slot = Priv_slot, ops = (\<lambda>_. []), cflags = (\<lambda>_. 0), errors = [],
     events = [], inst_exec = False, instPC = 0, rand_src = (\<lambda>_. 0), rand_pos = 0\<rparr>"

lemma blank_mem_simps [simp]:
  "mem_ok blank_mem" "ops blank_mem c = []" "slot blank_mem = Priv_slot" "heap blank_mem d = 0"
  "cell_get c blank_mem = 0" "events blank_mem = []"
  by (simp_all add: blank_mem_def mem_ok_def cell_get_def inj_def)

theorem xram_refines_witness:
  "as_read base_hw Xram 0x1F05 blank_mem = cell_read base_hw (xdata_cell 0x1F05 blank_mem) blank_mem
   \<and> as_write base_hw Xram 0x1F05 7 blank_mem
       = cell_write base_hw (xdata_cell 0x1F05 blank_mem) 7 blank_mem"
  using xram_refines [of blank_mem "0x1F05" base_hw 7] by simp

text \<open>
  C29: where the cell an address of the data space stands for has no
  operators and is not the bank register itself, a write stores the low byte there, changes no
  other cell of any space, and a read of the address gives that byte back.
\<close>

theorem xram_write_read:
  assumes ok: "mem_ok s" and mcon: "ops s (Cell Sfr 0x47) = []" and i: "0 \<le> i" "i < 0x10000"
    and c: "ops s (xdata_cell i s) = []" "xdata_cell i s \<noteq> Cell Sfr 0x47"
  shows "\<exists>s'. as_write hw Xram i v s = Some (v mod 256, s')
     \<and> as_read hw Xram i s' = Some (v mod 256, s')
     \<and> (\<forall>c. c \<noteq> xdata_cell i s \<longrightarrow> cell_get c s' = cell_get c s)"
proof -
  obtain a j where x: "xdata_cell i s = Cell a j"
    by (cases "xdata_cell i s") (auto simp: xdata_cell_def sram_cell_def Let_def split: if_splits)
  let ?s = "poke (Cell a j) (v mod 256) s"
  have "as_write hw Xram i v s = Some (v mod 256, ?s)"
    using xram_write_cell [OF mcon i] c x by (simp add: as_write_def)
  moreover have "cell_get (Cell Sfr 0x47) ?s = cell_get (Cell Sfr 0x47) s" using x c(2) ok by auto
  then have "xdata_cell i ?s = xdata_cell i s" by (simp only: xdata_cell_def)
  then have "as_read hw Xram i ?s = Some (v mod 256, ?s)"
    using xram_read_cell [of ?s i hw] mcon i c x ok by (simp add: as_read_def)
  ultimately show ?thesis using ok x by (intro exI [of _ ?s]) simp
qed

theorem xram_write_read_witness:
  "\<exists>s'. as_write base_hw Xram 0x1F05 0x123 blank_mem = Some (0x23, s')
     \<and> as_read base_hw Xram 0x1F05 s' = Some (0x23, s')"
  using xram_write_read [of blank_mem "0x1F05" base_hw "0x123"]
  by (auto simp: xdata_cell_def sram_cell_def)

text \<open>
  The code space is read from the flash banks and the SRAM but
  written to its own cells: no write to \<open>rom\<close> changes what any address of \<open>rom\<close> reads.
\<close>

theorem rom_write_not_fetched:
  assumes ok: "mem_ok s" and plain: "\<forall>c. ops s c = []"
    and w: "as_write hw Rom addr v s = Some (r, s')" and b: "0 \<le> b"
  shows "map_option fst (as_read hw Rom b s') = map_option fst (as_read hw Rom b s)"
proof -
  have s': "s' = poke (Cell Rom addr) (v mod 256) s"
    using w plain by (auto simp: as_write_def leaf_write_def split: if_splits)
  have p': "ops s' c = []" for c using plain by (simp add: s')
  have cc: "code_cell b s' = code_cell b s" using ok by (simp add: s' code_cell_def)
  have rom: "as_read hw Rom b t = Option.bind (code_cell b t) (\<lambda>c. cell_read hw c t)"
    if "\<forall>c. ops t c = []" for t :: "'a mem_scheme"
    unfolding as_read_def using that b by (simp add: rom_read_cell mcon_read fmap_read)
  have "code_cell b s \<noteq> Some (Cell Rom addr)"
    by (auto simp: code_cell_def sram_cell_def flashbank.simps Let_def split: if_splits)
  then have "cell_get c s' = cell_get c s" if "code_cell b s = Some c" for c
    using that ok by (auto simp: s')
  then show ?thesis
    using rom [of s] rom [of s'] plain p' cc by (cases "code_cell b s") auto
qed

theorem rom_write_not_fetched_witness:
  "\<exists>r s'. as_write base_hw Rom 5 0x22 blank_mem = Some (r, s')
     \<and> map_option fst (as_read base_hw Rom 5 s') = map_option fst (as_read base_hw Rom 5 blank_mem)"
proof -
  have "as_write base_hw Rom 5 0x22 blank_mem = Some (0x22, poke (Cell Rom 5) 0x22 blank_mem)"
    by (simp add: as_write_def leaf_write_def out_of_space_def)
  then show ?thesis
    using rom_write_not_fetched [of blank_mem base_hw 5 "0x22" "0x22" _ 5] by fastforce
qed

text \<open>
  setting a byte of the data space above \<open>0x8000\<close> with bank 0
  selected changes that byte in all four flash banks and in the shadowed \<open>xram\<close> cell: the cases
  of the bank switch in \<open>set\<close> have no \<open>break\<close>.
\<close>

theorem xram_set_falls_through:
  assumes ok: "mem_ok s" and mcon: "ops s (Cell Sfr 0x47) = []" "cell_get (Cell Sfr 0x47) s mod 8 = 0"
    and i: "0x8000 \<le> i" "i < 0x10000"
  shows "\<exists>s'. as_set hw Xram i v s = Some s'
     \<and> (\<forall>a \<in> {Flashbank0, Flashbank1, Flashbank2, Flashbank3, Xram}.
          cell_get (Cell a (i - 0x8000)) s' = v mod 256)"
proof -
  have "\<not> out_of_space Xram i" and "\<And>a. as_start a = 0 \<Longrightarrow> as_size a \<ge> 0x8000 \<Longrightarrow> \<not> out_of_space a (i - 0x8000)"
    using i by (auto simp: out_of_space_def)
  then show ?thesis
    using i ok mcon bank_address [of i]
    by (auto simp: as_set_def xram_set_def mcon_read bank_set_def leaf_set_def cells_set_def
        cells_at_def set_poke and_7 Let_def)
qed

theorem xram_set_falls_through_witness:
  "\<exists>s'. as_set base_hw Xram 0x8001 3 blank_mem = Some s'
     \<and> (\<forall>a \<in> {Flashbank0, Flashbank1, Flashbank2, Flashbank3, Xram}. cell_get (Cell a 1) s' = 3)"
  using xram_set_falls_through [of blank_mem "0x8001" base_hw 3] by simp

text \<open>
  \<open>validate_address\<close> maps every address into its space by
  wrapping round, except the first address past the end, which it leaves as it is.
\<close>

theorem validate_address_spec:
  "validate_address a addr =
     (if addr = as_start a + as_size a then addr
      else as_start a + (addr - as_start a) mod as_size a)
   \<and> (valid_address a (validate_address a addr) \<longleftrightarrow> addr \<noteq> as_start a + as_size a)"
  using validate_address_eq [of a addr] pos_mod_bound [OF as_size_pos(1), of "addr - as_start a" a]
  by (auto simp: valid_address_def)

text \<open>
  The function \<open>inc_address\<close> steps through a space cyclically: from a valid
  address to the next one, from the last to the first.
\<close>

theorem inc_address_spec:
  assumes "valid_address a addr"
  shows "valid_address a (inc_address a addr)
     \<and> inc_address a addr = (if addr = as_start a + as_size a - 1 then as_start a else addr + 1)"
proof (cases "addr = as_start a + as_size a - 1")
  case True
  then show ?thesis using assms by (simp add: valid_address_def inc_address_eq)
next
  case False
  then have "(addr - as_start a + 1) mod as_size a = addr - as_start a + 1"
    using assms by (intro mod_pos_pos_trivial) (auto simp: valid_address_def)
  then show ?thesis using assms False by (auto simp: valid_address_def inc_address_eq)
qed

theorem inc_address_spec_witness: "valid_address Sfr 0xff \<and> inc_address Sfr 0xff = 0x80"
  using inc_address_spec [of Sfr "0xff"] by (simp add: valid_address_def)

text \<open>
  A write breakpoint set on a cell without operators records its
  number as an event at every write of the cell and at no read, stores the value all the same,
  and removing it restores the cell.
\<close>

theorem write_brk_detected:
  assumes plain: "ops s (Cell a i) = []" and i: "0 \<le> i" "i < as_size a"
    and ev: "is_write_event e" and b: "set_brk a (i + as_start a) nr e s = Some s1"
  shows "cell_write hw (Cell a i) v s1
           = Some (v mod 256, poke (Cell a i) (v mod 256) (add_event nr s1))
     \<and> cell_read hw (Cell a i) s1 = Some (cell_get (Cell a i) s, s1)
     \<and> del_brk a (i + as_start a) nr e s1 = Some s"
proof -
  have "\<not> out_of_space a (i + as_start a)" using i by (simp add: out_of_space_def)
  then have s1: "s1 = append_operator (Cell a i) (Write_op (slot s (Cell a i)) nr) s"
    using b ev by (simp add: set_brk_def Let_def del: is_write_event.simps)
  have "del_brk a (i + as_start a) nr e s1 = Some s"
    using \<open>\<not> out_of_space a (i + as_start a)\<close> ev plain
    by (simp add: s1 del_brk_def del_operator_def append_operator_def fun_upd_idem Let_def
        del: is_write_event.simps)
  then show ?thesis
    using plain
    by (simp add: s1 append_operator_def cell_write.simps cell_read_def cell_get_def poke_def
        add_event_def Let_def)
qed

theorem write_brk_detected_witness:
  "\<exists>s1. set_brk Xram 9 1 brkWXRAM blank_mem = Some s1
     \<and> cell_write base_hw (Cell Xram 9) 5 s1 = Some (5, poke (Cell Xram 9) 5 (add_event 1 s1))"
proof -
  obtain s1 where s1: "set_brk Xram 9 1 brkWXRAM blank_mem = Some s1"
    by (simp add: set_brk_def out_of_space_def Let_def)
  with write_brk_detected [of blank_mem Xram 9 brkWXRAM 1 s1 base_hw 5] show ?thesis by simp
qed

end
