(* ===== verification/Pobj.thy ===== *)
theory Pobj
  imports Prelude "HOL-Library.Multiset"
begin

text \<open>
  The collections of \<open>pobj.cc\<close>: \<open>cl_list\<close>, a growing array of pointers, and \<open>cl_sorted_list\<close>,
  the same array kept in key order and searched by bisection. The array contents are the
  field \<open>Items\<close> (its length is the field \<open>count\<close> of the source); \<open>Limit\<close> is the allocated
  capacity and \<open>Delta\<close> the increment. An index error calls \<open>exit\<close> and an access beyond the
  allocated array is undefined: both are the result \<open>None\<close>.
\<close>

subsection \<open>cl_list\<close>

record 'a cl_list =
  Items :: "'a list"
  Limit :: int
  Delta :: int

definition lcount :: "'a cl_list \<Rightarrow> int" where
  "lcount l = int (length (Items l))"

definition max_list_size :: int where
  "max_list_size = 65536 div 8"

definition set_limit :: "int \<Rightarrow> 'a cl_list \<Rightarrow> 'a cl_list option" where
  "set_limit alimit l =
    (let alimit = (if alimit < lcount l then lcount l else alimit);
         alimit = (if max_list_size < alimit then max_list_size else alimit)
     in if alimit \<noteq> Limit l
        then (if alimit < lcount l then None else Some (l\<lparr>Limit := alimit\<rparr>))
        else Some l)"

definition new_list :: "int \<Rightarrow> int \<Rightarrow> 'a cl_list option" where
  "new_list alimit adelta = set_limit alimit \<lparr>Items = [], Limit = 0, Delta = adelta\<rparr>"

definition list_at :: "int \<Rightarrow> 'a cl_list \<Rightarrow> 'a option" where
  "list_at index l =
    (if index < 0 \<or> lcount l \<le> index then None else Some (Items l ! nat index))"

definition disconn_at :: "int \<Rightarrow> 'a cl_list \<Rightarrow> 'a cl_list option" where
  "disconn_at index l =
    (if index < 0 \<or> lcount l \<le> index then None
     else Some (l\<lparr>Items := take (nat index) (Items l) @ drop (Suc (nat index)) (Items l)\<rparr>))"

fun find_index :: "('a \<Rightarrow> bool) \<Rightarrow> 'a list \<Rightarrow> int \<Rightarrow> int option" where
  "find_index P [] i = None"
| "find_index P (x # xs) i = (if P x then Some i else find_index P xs (i + 1))"

definition index_of_opt :: "'a \<Rightarrow> 'a cl_list \<Rightarrow> int option" where
  "index_of_opt item l = find_index (\<lambda>x. item = x) (Items l) 0"

definition disconn :: "'a \<Rightarrow> 'a cl_list \<Rightarrow> 'a cl_list option" where
  "disconn item l =
    (case index_of_opt item l of None \<Rightarrow> Some l | Some i \<Rightarrow> disconn_at i l)"

definition disconn_all :: "'a cl_list \<Rightarrow> 'a cl_list" where
  "disconn_all l = l\<lparr>Items := []\<rparr>"

definition free_at :: "int \<Rightarrow> 'a cl_list \<Rightarrow> 'a cl_list option" where
  "free_at index l = (case list_at index l of None \<Rightarrow> None | Some _ \<Rightarrow> disconn_at index l)"

fun free_down :: "nat \<Rightarrow> 'a cl_list \<Rightarrow> 'a cl_list option" where
  "free_down 0 l = free_at 0 l"
| "free_down (Suc i) l = do { l \<leftarrow> free_at (int (Suc i)) l; free_down i l }"

definition free_all :: "'a cl_list \<Rightarrow> 'a cl_list option" where
  "free_all l = (if lcount l \<noteq> 0 then free_down (length (Items l) - 1) l else Some l)"

definition add_at :: "int \<Rightarrow> 'a \<Rightarrow> 'a cl_list \<Rightarrow> 'a cl_list option" where
  "add_at index item l =
    (if index < 0 then None
     else do {
       l \<leftarrow> (if lcount l = Limit l then set_limit (lcount l + Delta l) l else Some l);
       if Limit l \<le> lcount l \<or> lcount l < index then None
       else Some (l\<lparr>Items := take (nat index) (Items l) @ item # drop (nat index) (Items l)\<rparr>)
     })"

definition put_at :: "int \<Rightarrow> 'a \<Rightarrow> 'a cl_list \<Rightarrow> 'a cl_list option" where
  "put_at index item l =
    (if lcount l \<le> index \<or> index < 0 then None
     else Some (l\<lparr>Items := (Items l)[nat index := item]\<rparr>))"

definition first_that :: "('a \<Rightarrow> bool) \<Rightarrow> 'a cl_list \<Rightarrow> 'a option" where
  "first_that test l = find test (Items l)"

definition last_that :: "('a \<Rightarrow> bool) \<Rightarrow> 'a cl_list \<Rightarrow> 'a option" where
  "last_that test l = find test (rev (Items l))"

definition list_pop :: "'a cl_list \<Rightarrow> 'a option \<times> 'a cl_list" where
  "list_pop l = (case Items l of [] \<Rightarrow> (None, l) | x # xs \<Rightarrow> (Some x, l\<lparr>Items := xs\<rparr>))"

definition list_top :: "'a cl_list \<Rightarrow> 'a option" where
  "list_top l = (case Items l of [] \<Rightarrow> None | x # _ \<Rightarrow> Some x)"

definition list_add :: "'a \<Rightarrow> 'a cl_list \<Rightarrow> (int \<times> 'a cl_list) option" where
  "list_add item l = do { l' \<leftarrow> add_at (lcount l) item l; Some (lcount l, l') }"

definition list_push :: "'a \<Rightarrow> 'a cl_list \<Rightarrow> 'a cl_list option" where
  "list_push item l =
    (if lcount l \<noteq> 0 then add_at 0 item l else map_option snd (list_add item l))"

fun list_next :: "'a \<Rightarrow> 'a list \<Rightarrow> 'a option" where
  "list_next item [] = None"
| "list_next item [x] = None"
| "list_next item (x # y # ys) = (if item = x then Some y else list_next item (y # ys))"

definition cl_list_ok :: "'a cl_list \<Rightarrow> bool" where
  "cl_list_ok l \<longleftrightarrow> lcount l \<le> Limit l \<and> Limit l \<le> max_list_size \<and> 0 < Delta l"

subsection \<open>cl_sorted_list\<close>

function search_loop ::
    "('a \<Rightarrow> 'k) \<Rightarrow> ('k \<Rightarrow> 'k \<Rightarrow> int) \<Rightarrow> bool \<Rightarrow> 'a list \<Rightarrow> 'k \<Rightarrow> int \<Rightarrow> int \<Rightarrow> bool \<Rightarrow> bool \<times> int" where
  "search_loop key_of compare dup xs key l h res =
    (if l \<le> h then
       (let i = (l + h) div 2; c = compare (key_of (xs ! nat i)) key in
        if c < 0 then search_loop key_of compare dup xs key (i + 1) h res
        else if c = 0 then
          (if dup then search_loop key_of compare dup xs key l (i - 1) True
           else search_loop key_of compare dup xs key i (i - 1) True)
        else search_loop key_of compare dup xs key l (i - 1) res)
     else (res, l))"
  by pat_completeness auto
termination
  by (relation "measure (\<lambda>(_, _, _, _, _, l, h, _). nat (h - l + 1))") auto

declare search_loop.simps [simp del]

definition sl_search ::
    "('a \<Rightarrow> 'k) \<Rightarrow> ('k \<Rightarrow> 'k \<Rightarrow> int) \<Rightarrow> bool \<Rightarrow> 'k \<Rightarrow> 'a cl_list \<Rightarrow> bool \<times> int" where
  "sl_search key_of compare dup key l =
     search_loop key_of compare dup (Items l) key 0 (lcount l - 1) False"

definition sl_add ::
    "('a \<Rightarrow> 'k) \<Rightarrow> ('k \<Rightarrow> 'k \<Rightarrow> int) \<Rightarrow> bool \<Rightarrow> 'a \<Rightarrow> 'a cl_list \<Rightarrow> (int \<times> 'a cl_list) option" where
  "sl_add key_of compare dup item l =
    (let (found, i) = sl_search key_of compare dup (key_of item) l
     in if \<not> found \<or> dup then map_option (Pair i) (add_at i item l) else Some (i, l))"

definition sl_index_of ::
    "('a \<Rightarrow> 'k) \<Rightarrow> ('k \<Rightarrow> 'k \<Rightarrow> int) \<Rightarrow> bool \<Rightarrow> 'a \<Rightarrow> 'a cl_list \<Rightarrow> int" where
  "sl_index_of key_of compare dup item l =
    (let (found, i) = sl_search key_of compare dup (key_of item) l
     in if \<not> found then -1
        else if dup then
          (case find_index (\<lambda>x. item = x) (drop (nat i) (Items l)) i of None \<Rightarrow> -1 | Some j \<Rightarrow> j)
        else if i < lcount l then i else -1)"

subsection \<open>Capacity and contents of cl_list\<close>

lemma set_limit_Items: "set_limit n l = Some l' \<Longrightarrow> Items l' = Items l \<and> Delta l' = Delta l"
  by (auto simp: set_limit_def Let_def split: if_splits)

lemma add_at_Items:
  assumes "add_at i x l = Some l'"
  shows "Items l' = take (nat i) (Items l) @ x # drop (nat i) (Items l)"
    and "0 \<le> i" and "i \<le> lcount l" and "Delta l' = Delta l"
  using assms
  by (auto simp: add_at_def lcount_def bind_eq_Some_conv dest!: set_limit_Items split: if_splits)

lemma add_at_total:
  assumes ok: "cl_list_ok l" and room: "lcount l < max_list_size"
    and i: "0 \<le> i" "i \<le> lcount l"
  shows "\<exists>l'. add_at i x l = Some l' \<and> cl_list_ok l'"
proof -
  have n: "int (length (take (nat i) (Items l) @ x # drop (nat i) (Items l))) = lcount l + 1"
    using i by (simp add: lcount_def)
  show ?thesis
  proof (cases "lcount l = Limit l")
    case True
    let ?n = "min max_list_size (lcount l + Delta l)"
    have "set_limit (lcount l + Delta l) l = Some (l\<lparr>Limit := ?n\<rparr>)" and "lcount l < ?n"
      using ok room True by (auto simp: set_limit_def Let_def cl_list_ok_def min_def)
    then show ?thesis
      using ok True i n by (auto simp: add_at_def cl_list_ok_def lcount_def)
  next
    case False
    then show ?thesis using ok i n by (auto simp: add_at_def cl_list_ok_def lcount_def)
  qed
qed

lemma free_down_Items:
  "length (Items l) = Suc i \<Longrightarrow> \<exists>l'. free_down i l = Some l' \<and> Items l' = []"
proof (induction i arbitrary: l)
  case 0
  then show ?case by (auto simp: free_at_def list_at_def disconn_at_def lcount_def length_Suc_conv)
next
  case (Suc i)
  let ?l = "l\<lparr>Items := take (Suc i) (Items l)\<rparr>"
  have "free_at (int (Suc i)) l = Some ?l"
    using Suc.prems
    by (simp add: free_at_def list_at_def disconn_at_def lcount_def del: of_nat_Suc)
  moreover have "length (Items ?l) = Suc i" using Suc.prems by simp
  ultimately show ?case using Suc.IH [of ?l] by simp
qed

lemma free_all_empties: "\<exists>l'. free_all l = Some l' \<and> Items l' = []"
  using free_down_Items [of l "length (Items l) - 1"]
  by (cases "Items l") (auto simp: free_all_def lcount_def)

lemma disconn_at_Items:
  assumes "disconn_at i l = Some l'"
  shows "Items l' = take (nat i) (Items l) @ drop (Suc (nat i)) (Items l)"
  using assms by (auto simp: disconn_at_def split: if_splits)

subsection \<open>The bisection search\<close>

definition key_sorted :: "('a \<Rightarrow> 'k::linorder) \<Rightarrow> bool \<Rightarrow> 'a list \<Rightarrow> bool" where
  "key_sorted key_of dup xs \<longleftrightarrow>
    (if dup then sorted (map key_of xs) else sorted_wrt (<) (map key_of xs))"

definition split_point :: "('a \<Rightarrow> 'k::linorder) \<Rightarrow> 'k \<Rightarrow> 'a list \<Rightarrow> int \<Rightarrow> bool" where
  "split_point key_of k xs i \<longleftrightarrow> 0 \<le> i \<and> i \<le> int (length xs)
     \<and> (\<forall>x \<in> set (take (nat i) xs). key_of x < k)
     \<and> (\<forall>x \<in> set (drop (nat i) xs). k \<le> key_of x)"

lemma key_sorted_mono:
  "key_sorted key_of dup xs \<Longrightarrow> i \<le> j \<Longrightarrow> j < length xs \<Longrightarrow> key_of (xs ! i) \<le> key_of (xs ! j)"
  using sorted_nth_mono [of "map key_of xs" i j]
  by (auto simp: key_sorted_def strict_sorted_iff split: if_splits)

lemma key_sorted_strict:
  "key_sorted key_of False xs \<Longrightarrow> i < j \<Longrightarrow> j < length xs \<Longrightarrow> key_of (xs ! i) < key_of (xs ! j)"
  by (auto simp: key_sorted_def sorted_wrt_iff_nth_less)

lemma key_sorted_insert:
  assumes s: "key_sorted key_of dup xs" and p: "split_point key_of (key_of x) xs i"
    and new: "\<not> dup \<Longrightarrow> key_of x \<notin> key_of ` set xs"
  shows "key_sorted key_of dup (take (nat i) xs @ x # drop (nat i) xs)"
proof -
  let ?a = "take (nat i) xs" and ?b = "drop (nat i) xs"
  have ab: "key_sorted key_of dup (?a @ ?b)" using s by simp
  have "\<forall>y \<in> set ?a. key_of y < key_of x" "\<forall>y \<in> set ?b. key_of x \<le> key_of y"
    using p by (simp_all add: split_point_def)
  moreover have "\<not> dup \<Longrightarrow> \<forall>y \<in> set ?b. key_of x < key_of y"
    using new calculation(2) by (auto dest: in_set_dropD simp: order_less_le)
  ultimately show ?thesis
    using ab unfolding key_sorted_def map_append list.map
    by (auto simp: sorted_append sorted_wrt_append less_imp_le split: if_splits)
qed

locale sorted_coll =
  fixes key_of :: "'a \<Rightarrow> 'k::linorder"
    and compare :: "'k \<Rightarrow> 'k \<Rightarrow> int"
  assumes compare_less: "compare a b < 0 \<longleftrightarrow> a < b"
    and compare_eq: "compare a b = 0 \<longleftrightarrow> a = b"
begin

definition search_inv :: "'k \<Rightarrow> 'a list \<Rightarrow> int \<Rightarrow> int \<Rightarrow> bool \<Rightarrow> bool" where
  "search_inv k xs l h res \<longleftrightarrow> 0 \<le> l \<and> l \<le> h + 1 \<and> h < int (length xs)
     \<and> (\<forall>j<length xs. int j < l \<longrightarrow> key_of (xs ! j) < k)
     \<and> (\<forall>j<length xs. h < int j \<longrightarrow> k \<le> key_of (xs ! j))
     \<and> (res \<longrightarrow> h + 1 < int (length xs) \<and> key_of (xs ! nat (h + 1)) = k)
     \<and> (\<not> res \<longrightarrow> (\<forall>j<length xs. h < int j \<longrightarrow> k < key_of (xs ! j)))"

lemma search_inv_low:
  assumes s: "key_sorted key_of dup xs" and inv: "search_inv k xs l h res"
    and i: "l \<le> i" "i \<le> h" and lt: "key_of (xs ! nat i) < k"
  shows "search_inv k xs (i + 1) h res"
proof -
  have n: "nat i < length xs" using inv i by (auto simp: search_inv_def)
  have "key_of (xs ! j) < k" if "j < length xs" "int j < i + 1" for j
  proof -
    have "j \<le> nat i" using that by linarith
    from key_sorted_mono [OF s this n] lt show ?thesis by simp
  qed
  then show ?thesis using inv i by (auto simp: search_inv_def)
qed

lemma search_inv_high:
  assumes s: "key_sorted key_of dup xs" and inv: "search_inv k xs l h res"
    and i: "l \<le> i" "i \<le> h" and gt: "k < key_of (xs ! nat i)"
  shows "search_inv k xs l (i - 1) res"
proof -
  have above: "k < key_of (xs ! j)" if j: "j < length xs" "i - 1 < int j" for j
  proof -
    have "nat i \<le> j" using j by linarith
    from key_sorted_mono [OF s this j(1)] gt show ?thesis by simp
  qed
  have "\<not> res"
  proof
    assume res
    with inv have k: "key_of (xs ! nat (h + 1)) = k" and b: "h + 1 < int (length xs)" "0 \<le> l"
      by (auto simp: search_inv_def)
    have "nat (h + 1) < length xs" "i - 1 < int (nat (h + 1))" using b i by linarith+
    from above [OF this] k show False by simp
  qed
  with above inv i show ?thesis by (auto simp: search_inv_def less_imp_le)
qed

lemma search_inv_equal:
  assumes s: "key_sorted key_of dup xs" and inv: "search_inv k xs l h res"
    and i: "l \<le> i" "i \<le> h" and eq: "key_of (xs ! nat i) = k"
  shows "search_inv k xs l (i - 1) True" and "\<not> dup \<Longrightarrow> search_inv k xs i (i - 1) True"
proof -
  have n: "nat i < length xs" "0 \<le> i" using inv i by (auto simp: search_inv_def)
  have ge: "k \<le> key_of (xs ! j)" if j: "j < length xs" "i - 1 < int j" for j
  proof -
    have "nat i \<le> j" using j by linarith
    from key_sorted_mono [OF s this j(1)] eq show ?thesis by simp
  qed
  show "search_inv k xs l (i - 1) True" using ge inv i eq by (auto simp: search_inv_def)
  assume "\<not> dup"
  with s have s': "key_sorted key_of False xs" by simp
  have "key_of (xs ! j) < k" if "j < length xs" "int j < i" for j
  proof -
    have "j < nat i" using that by linarith
    from key_sorted_strict [OF s' this n(1)] eq show ?thesis by simp
  qed
  then show "search_inv k xs i (i - 1) True" using ge inv i eq by (auto simp: search_inv_def)
qed

lemma search_loop_inv:
  assumes s: "key_sorted key_of dup xs"
  shows "search_inv k xs l h res \<Longrightarrow>
    search_loop key_of compare dup xs k l h res = (found, p) \<Longrightarrow> search_inv k xs p (p - 1) found"
proof (induction "nat (h - l + 1)" arbitrary: l h res rule: less_induct)
  case less
  show ?case
  proof (cases "l \<le> h")
    case False
    with less.prems(1) have "h = l - 1" by (simp add: search_inv_def)
    with False less.prems show ?thesis by (simp add: search_loop.simps)
  next
    case True
    define i where "i = (l + h) div 2"
    have i: "l \<le> i" "i \<le> h" using True by (auto simp: i_def)
    note step = less.prems(2) [unfolded search_loop.simps [of _ _ _ _ _ l h], folded i_def]
    note IH = less.hyps [rule_format]
    consider "key_of (xs ! nat i) < k" | "key_of (xs ! nat i) = k" | "k < key_of (xs ! nat i)"
      by fastforce
    then show ?thesis
    proof cases
      case 1
      with step True have "search_loop key_of compare dup xs k (i + 1) h res = (found, p)"
        by (simp add: Let_def compare_less)
      then show ?thesis using search_inv_low [OF s less.prems(1) i 1] i
        by (intro less.hyps) auto
    next
      case 2
      with step True have "search_loop key_of compare dup xs k (if dup then l else i) (i - 1) True
          = (found, p)"
        by (simp add: Let_def compare_less compare_eq split: if_splits)
      then show ?thesis using search_inv_equal [OF s less.prems(1) i 2] i
        by (intro less.hyps [of "i - 1" "if dup then l else i" True]) auto
    next
      case 3
      then have "\<not> key_of (xs ! nat i) < k" "key_of (xs ! nat i) \<noteq> k" by auto
      with step True have "search_loop key_of compare dup xs k l (i - 1) res = (found, p)"
        by (auto simp: Let_def compare_less compare_eq)
      then show ?thesis using search_inv_high [OF s less.prems(1) i 3] i
        by (intro less.hyps) auto
    qed
  qed
qed

theorem search_correct:
  assumes s: "key_sorted key_of dup (Items l)"
    and r: "sl_search key_of compare dup k l = (found, i)"
  shows "split_point key_of k (Items l) i"
    and "found \<longleftrightarrow> k \<in> key_of ` set (Items l)"
    and "found \<Longrightarrow> i < lcount l \<and> key_of (Items l ! nat i) = k"
proof -
  let ?xs = "Items l"
  have "search_inv k ?xs 0 (lcount l - 1) False" by (simp add: search_inv_def lcount_def)
  then have inv: "search_inv k ?xs i (i - 1) found"
    using r search_loop_inv [OF s] by (simp add: sl_search_def)
  then show "split_point key_of k ?xs i"
    by (fastforce simp: search_inv_def split_point_def set_conv_nth)
  show "found \<Longrightarrow> i < lcount l \<and> key_of (?xs ! nat i) = k"
    using inv by (simp add: search_inv_def lcount_def)
  show "found \<longleftrightarrow> k \<in> key_of ` set ?xs"
  proof
    assume found
    with inv show "k \<in> key_of ` set ?xs" by (force simp: search_inv_def)
  next
    assume "k \<in> key_of ` set ?xs"
    then obtain j where j: "j < length ?xs" "key_of (?xs ! j) = k" by (auto simp: set_conv_nth)
    show found
    proof (rule ccontr)
      assume "\<not> found"
      with inv j(1) have "int j < i \<Longrightarrow> key_of (?xs ! j) < k" "\<not> int j < i \<Longrightarrow> k < key_of (?xs ! j)"
        by (simp_all add: search_inv_def)
      with j(2) show False by (cases "int j < i") simp_all
    qed
  qed
qed

theorem add_correct:
  assumes s: "key_sorted key_of dup (Items l)" and ok: "cl_list_ok l"
    and room: "lcount l < max_list_size"
  shows "\<exists>i l'. sl_add key_of compare dup x l = Some (i, l')
     \<and> key_sorted key_of dup (Items l') \<and> cl_list_ok l'
     \<and> mset (Items l') = (if dup \<or> key_of x \<notin> key_of ` set (Items l)
                            then add_mset x (mset (Items l)) else mset (Items l))"
proof -
  obtain found i where r: "sl_search key_of compare dup (key_of x) l = (found, i)"
    by (cases "sl_search key_of compare dup (key_of x) l") auto
  note c = search_correct [OF s r]
  show ?thesis
  proof (cases "\<not> found \<or> dup")
    case True
    from c(1) have i: "0 \<le> i" "i \<le> lcount l" by (simp_all add: split_point_def lcount_def)
    obtain l' where l': "add_at i x l = Some l'" "cl_list_ok l'"
      using add_at_total [OF ok room i] by blast
    have it: "Items l' = take (nat i) (Items l) @ x # drop (nat i) (Items l)"
      using add_at_Items(1) [OF l'(1)] .
    have "mset (take (nat i) (Items l)) + mset (drop (nat i) (Items l)) = mset (Items l)"
      by (metis append_take_drop_id mset_append)
    moreover have "key_sorted key_of dup (Items l')"
      unfolding it using key_sorted_insert [OF s c(1)] c(2) True by auto
    ultimately show ?thesis
      using True l' c(2) it by (auto simp: sl_add_def r)
  next
    case False
    with r have "sl_add key_of compare dup x l = Some (i, l)" by (simp add: sl_add_def)
    with False s ok c(2) show ?thesis by auto
  qed
qed

end

end
