(* ===== verification/Brk.thy ===== *)
theory Brk
  imports Mem Pobj
begin

text \<open>
  Breakpoints (\<open>brk.cc\<close>) and their collection, a \<open>cl_sorted_list\<close> keyed by the number of the
  breakpoint. A fetch breakpoint has the event \<open>brkNONE\<close>. The breakpoint an operator of a cell
  belongs to is identified by its number.
\<close>

record brk =
  b_mem :: "as_id option"
  b_nr :: int
  b_addr :: t_addr
  b_perm :: brk_perm
  b_hit :: int
  b_cnt :: int
  b_event :: brk_event
  b_id :: string

definition mk_brk :: "as_id option \<Rightarrow> int \<Rightarrow> t_addr \<Rightarrow> brk_perm \<Rightarrow> int \<Rightarrow> brk_event \<Rightarrow> string \<Rightarrow> brk" where
  "mk_brk imem inr iaddr iperm ihit ev i =
     \<lparr>b_mem = imem, b_nr = inr, b_addr = iaddr, b_perm = iperm, b_hit = ihit, b_cnt = ihit,
      b_event = ev, b_id = i\<rparr>"

definition toupper :: "char \<Rightarrow> char" where
  "toupper c = (if c \<in> set ''abcdefghijklmnopqrstuvwxyz''
     then char_of (of_char c - 32 :: nat) else c)"

definition mk_ev_brk :: "as_id option \<Rightarrow> int \<Rightarrow> t_addr \<Rightarrow> brk_perm \<Rightarrow> int \<Rightarrow> char \<Rightarrow> brk" where
  "mk_ev_brk imem inr iaddr iperm ihit op =
     (let op = toupper op in
      if op = CHR ''R'' then mk_brk imem inr iaddr iperm ihit brkREAD ''read''
      else if op = CHR ''W'' then mk_brk imem inr iaddr iperm ihit brkWRITE ''write''
      else mk_brk imem inr iaddr iperm ihit brkACCESS ''access'')"

definition brk_activate :: "brk \<Rightarrow> 'z mem_scheme \<Rightarrow> 'z mem_scheme option" where
  "brk_activate b s = (case b_mem b of None \<Rightarrow> Some s
     | Some a \<Rightarrow> set_brk a (b_addr b) (b_nr b) (b_event b) s)"

definition brk_inactivate :: "brk \<Rightarrow> 'z mem_scheme \<Rightarrow> 'z mem_scheme option" where
  "brk_inactivate b s = (case b_mem b of None \<Rightarrow> Some s
     | Some a \<Rightarrow> del_brk a (b_addr b) (b_nr b) (b_event b) s)"

definition do_hit :: "brk \<Rightarrow> bool \<times> brk" where
  "do_hit b = (let c = b_cnt b - 1 in
     if c \<le> 0 then (True, b\<lparr>b_cnt := b_hit b\<rparr>) else (False, b\<lparr>b_cnt := c\<rparr>))"

subsection \<open>Collection\<close>

definition brk_compare :: "int \<Rightarrow> int \<Rightarrow> int" where
  "brk_compare k1 k2 = (if k1 = k2 then 0 else if k1 < k2 then -1 else 1)"

interpretation brk_sorted: sorted_coll b_nr brk_compare
  by unfold_locales (auto simp: brk_compare_def)

definition there_is_event :: "brk_event \<Rightarrow> brk cl_list \<Rightarrow> bool" where
  "there_is_event ev l = list_ex (\<lambda>b. b_event b \<noteq> brkNONE \<and> b_event b = ev) (Items l)"

definition add_bp :: "brk \<Rightarrow> brk cl_list \<Rightarrow> 'z mem_scheme \<Rightarrow> (brk cl_list \<times> 'z mem_scheme) option" where
  "add_bp bp l s = do {
     (_, l) \<leftarrow> sl_add b_nr brk_compare False bp l;
     s \<leftarrow> brk_activate bp s;
     Some (l, s)
   }"

fun find_addr :: "t_addr \<Rightarrow> brk list \<Rightarrow> int \<Rightarrow> (int \<times> brk) option" where
  "find_addr addr [] i = None"
| "find_addr addr (b # bs) i = (if b_addr b = addr then Some (i, b) else find_addr addr bs (i + 1))"

definition bp_at :: "t_addr \<Rightarrow> 'z mem_scheme \<Rightarrow> bool option" where
  "bp_at addr s =
     (if valid_address Rom addr then get_cell_flag Rom addr CELL_FETCH_BRK s else Some False)"

definition get_bp :: "t_addr \<Rightarrow> brk cl_list \<Rightarrow> 'z mem_scheme \<Rightarrow> (int \<times> brk) option option" where
  "get_bp addr l s = do {
     f \<leftarrow> bp_at addr s;
     Some (if f then find_addr addr (Items l) 0 else None)
   }"

definition get_bp_nr :: "int \<Rightarrow> brk cl_list \<Rightarrow> brk option" where
  "get_bp_nr n l = find (\<lambda>b. b_nr b = n) (Items l)"

definition del_bp :: "t_addr \<Rightarrow> brk cl_list \<Rightarrow> 'z mem_scheme \<Rightarrow> (brk cl_list \<times> 'z mem_scheme) option" where
  "del_bp addr l s = do {
     r \<leftarrow> get_bp addr l s;
     case r of None \<Rightarrow> Some (l, s)
     | Some (idx, bp) \<Rightarrow> do {
         s \<leftarrow> brk_inactivate bp s;
         l \<leftarrow> free_at idx l;
         Some (l, s)
       }
   }"

definition del_bp_idx :: "int \<Rightarrow> brk cl_list \<Rightarrow> 'z mem_scheme \<Rightarrow> (brk cl_list \<times> 'z mem_scheme) option" where
  "del_bp_idx idx l s =
     (if lcount l \<le> idx then Some (l, s)
      else do {
        bp \<leftarrow> list_at idx l;
        s \<leftarrow> brk_inactivate bp s;
        l \<leftarrow> free_at idx l;
        Some (l, s)
      })"

end
