(* ===== verification/Stack.thy ===== *)
theory Stack
  imports Types
begin

text \<open>
  Stack operations recorded by the stack tracker (\<open>stack.cc\<close>, \<open>stackcl.h\<close>): one record per
  call, interrupt, push, return, return from interrupt or pop. The class of an operation in the
  source is the field \<open>operation\<close> here; \<open>op_data\<close> is \<open>called_addr\<close> or the pushed data and
  \<open>op_pushed\<close> the pushed return address.
\<close>

fun op_code :: "stack_opk \<Rightarrow> int" where
  "op_code stack_call = 0x01"
| "op_code stack_intr = 0x02"
| "op_code stack_push = 0x04"
| "op_code stack_ret = 0x08"
| "op_code stack_iret = 0x10"
| "op_code stack_pop = 0x20"

abbreviation "stack_write_operation \<equiv> (0x07 :: int)"
abbreviation "stack_read_operation \<equiv> (0x38 :: int)"

definition is_write_op :: "stack_op \<Rightarrow> bool" where
  "is_write_op op \<longleftrightarrow> op_code (operation op) AND stack_write_operation \<noteq> 0"

definition is_read_op :: "stack_op \<Rightarrow> bool" where
  "is_read_op op \<longleftrightarrow> op_code (operation op) AND stack_read_operation \<noteq> 0"

definition mk_stack_op :: "stack_opk \<Rightarrow> t_addr \<Rightarrow> int \<Rightarrow> int \<Rightarrow> t_addr \<Rightarrow> t_addr \<Rightarrow> stack_op" where
  "mk_stack_op k iPC data pushed sp_before sp_after =
     \<lparr>operation = k, op_PC = iPC, SP_before = sp_before, SP_after = sp_after,
      op_data = data, op_pushed = pushed\<rparr>"

definition sp_increased :: "stack_op \<Rightarrow> bool" where
  "sp_increased op =
     (if is_write_op op then SP_before op < SP_after op else SP_after op < SP_before op)"

definition data_size :: "stack_op \<Rightarrow> int" where
  "data_size op = (let r = SP_after op - SP_before op in if r < 0 then - r else r)"

fun get_matching_op :: "stack_opk \<Rightarrow> stack_opk" where
  "get_matching_op stack_call = stack_ret"
| "get_matching_op stack_intr = stack_iret"
| "get_matching_op stack_push = stack_pop"
| "get_matching_op stack_ret = stack_call"
| "get_matching_op stack_iret = stack_intr"
| "get_matching_op stack_pop = stack_push"

fun op_match_kind :: "stack_opk \<Rightarrow> stack_opk \<Rightarrow> bool" where
  "op_match_kind stack_call k = (k = stack_ret)"
| "op_match_kind stack_intr k = (k = stack_iret)"
| "op_match_kind stack_push k = (k = stack_pop)"
| "op_match_kind stack_ret k = (k = stack_call)"
| "op_match_kind stack_iret k = (k = stack_intr)"
| "op_match_kind stack_pop k = (k = stack_push)"

definition op_matches :: "stack_op \<Rightarrow> stack_op \<Rightarrow> bool" where
  "op_matches tos op = op_match_kind (operation tos) (operation op)"

definition can_removed :: "stack_op \<Rightarrow> stack_op \<Rightarrow> bool" where
  "can_removed tos op =
     (let incr = sp_increased tos; op_incr = sp_increased op in
      if incr \<and> \<not> op_incr \<or> \<not> incr \<and> op_incr then False
      else (let opa = to_tmem (SP_after op) in
        if incr then opa \<le> SP_before tos else SP_before tos \<le> opa))"

subsection \<open>Facts\<close>

lemma is_write_op_iff [simp]:
  "is_write_op op \<longleftrightarrow> operation op \<in> {stack_call, stack_intr, stack_push}"
  by (cases "operation op") (simp_all add: is_write_op_def)

lemma is_read_op_iff [simp]:
  "is_read_op op \<longleftrightarrow> operation op \<in> {stack_ret, stack_iret, stack_pop}"
  by (cases "operation op") (simp_all add: is_read_op_def)

lemma op_match_iff: "op_match_kind a b \<longleftrightarrow> b = get_matching_op a"
  by (cases a) simp_all

lemma get_matching_involutive [simp]: "get_matching_op (get_matching_op k) = k"
  by (cases k) simp_all

lemma mk_stack_op_simps [simp]:
  "operation (mk_stack_op k p d q b a) = k" "op_PC (mk_stack_op k p d q b a) = p"
  "SP_before (mk_stack_op k p d q b a) = b" "SP_after (mk_stack_op k p d q b a) = a"
  "op_data (mk_stack_op k p d q b a) = d" "op_pushed (mk_stack_op k p d q b a) = q"
  by (simp_all add: mk_stack_op_def)

text \<open>A read of the same extent as the last write undoes it, whichever way the pointer moves.\<close>

lemma can_removed_matching:
  assumes "is_write_op tos" "\<not> is_write_op op" "SP_before tos = SP_after op"
    and "SP_after tos = SP_before op" "0 \<le> SP_after op" "SP_after op < 65536"
  shows "can_removed tos op"
  using assms
  by (auto simp: can_removed_def sp_increased_def Let_def to_tmem_def
      simp del: is_write_op_iff is_read_op_iff)

end
