(* ===== verification/Uc.thy ===== *)
theory Uc
  imports Brk Stack
begin

text \<open>
  The generic microcontroller \<open>cl_uc\<close> (\<open>uc.cc\<close>, \<open>itsrc.cc\<close>): clocks and user counters, instruction
  fetch with fetch breakpoints, error and event collection, the stack tracker, interrupt sources
  and service levels, breakpoint commands and reset. The state extends the memory system; the
  hardware elements are called through the record \<open>hwif\<close> in the order of the list \<open>hws\<close>.
\<close>

subsection \<open>State\<close>

record ticker =
  t_ticks :: int
  t_options :: int
  t_dir :: int
  t_name :: "string option"

datatype counter_ref = CNull | CLive ticker | CFreed

record it_src =
  poll_priority :: int
  ie_mask :: uchar
  ie_reg :: uchar
  src_reg :: uchar
  src_mask :: uchar
  it_addr :: int
  clr_bit :: bool
  it_name :: string
  it_active :: bool

record it_level =
  level :: int
  il_addr :: int
  il_PC :: int
  il_source :: "it_src option"

record uc = mem +
  PC :: t_addr
  state :: cpu_state
  ticks :: ticker
  inst_ticks :: int
  counters :: "counter_ref cl_list"
  brk_counter :: int
  fbrk :: "brk cl_list"
  ebrk :: "brk cl_list"
  it_sources :: "it_src cl_list"
  it_levels :: "it_level cl_list"
  stack_ops :: "stack_op cl_list"
  sp_max :: t_addr
  sp_avg :: t_addr
  hws :: "(hwid \<times> bool) list"
  sim_go :: bool

abbreviation "TICK_RUN \<equiv> (0x01 :: int)"
abbreviation "TICK_INISR \<equiv> (0x02 :: int)"

definition sim_stop :: "'z uc_scheme \<Rightarrow> 'z uc_scheme" where
  "sim_stop s = s\<lparr>sim_go := False\<rparr>"

subsection \<open>Interrupt sources\<close>

definition irqs_compare :: "int \<Rightarrow> int \<Rightarrow> int" where
  "irqs_compare k1 k2 = (if k1 = k2 then 0 else if k1 < k2 then -1 else 1)"

interpretation irqs_sorted: sorted_coll poll_priority irqs_compare
  by unfold_locales (auto simp: irqs_compare_def)

definition mk_it_src :: "uchar \<Rightarrow> uchar \<Rightarrow> uchar \<Rightarrow> uchar \<Rightarrow> int \<Rightarrow> bool \<Rightarrow> string \<Rightarrow> int \<Rightarrow> it_src" where
  "mk_it_src Iie_reg Iie_mask Isrc_reg Isrc_mask Iaddr Iclr_bit Iname apoll =
     \<lparr>poll_priority = apoll, ie_mask = Iie_mask, ie_reg = Iie_reg, src_reg = Isrc_reg,
      src_mask = Isrc_mask, it_addr = Iaddr, clr_bit = Iclr_bit, it_name = Iname, it_active = True\<rparr>"

definition set_active_status :: "bool \<Rightarrow> it_src \<Rightarrow> it_src" where
  "set_active_status a src = src\<lparr>it_active := a\<rparr>"

definition add_it_src :: "it_src \<Rightarrow> 'z uc_scheme \<Rightarrow> 'z uc_scheme option" where
  "add_it_src src s = do {
     (_, l) \<leftarrow> sl_add poll_priority irqs_compare True src (it_sources s);
     Some (s\<lparr>it_sources := l\<rparr>)
   }"

subsection \<open>Clock and counters\<close>

definition ticker_tick :: "int \<Rightarrow> ticker \<Rightarrow> ticker" where
  "ticker_tick n t =
     (if t_options t AND TICK_RUN \<noteq> 0 then t\<lparr>t_ticks := (t_ticks t + t_dir t * n) mod 2 ^ 64\<rparr> else t)"

fun tick_counters :: "it_level option \<Rightarrow> int \<Rightarrow> counter_ref list \<Rightarrow> counter_ref list option" where
  "tick_counters il n [] = Some []"
| "tick_counters il n (CNull # cs) = map_option ((#) CNull) (tick_counters il n cs)"
| "tick_counters il n (CFreed # cs) = None"
| "tick_counters il n (CLive t # cs) =
     (if t_options t AND TICK_INISR \<noteq> 0
      then map_option ((#) (CLive (ticker_tick n t))) (tick_counters il n cs)
      else case il of None \<Rightarrow> None
        | Some l \<Rightarrow> map_option ((#) (CLive (if level l < 0 then ticker_tick n t else t)))
                     (tick_counters il n cs))"

definition uc_tick :: "int \<Rightarrow> int \<Rightarrow> 'z uc_scheme \<Rightarrow> 'z uc_scheme option" where
  "uc_tick cpc cycles s = do {
     let s = s\<lparr>ticks := ticker_tick (cycles * cpc) (ticks s)\<rparr>;
     cs \<leftarrow> tick_counters (list_top (it_levels s)) (cycles * cpc) (Items (counters s));
     Some (s\<lparr>counters := (counters s)\<lparr>Items := cs\<rparr>, inst_ticks := inst_ticks s + cycles\<rparr>)
   }"

fun tick_hws :: "'z uc_scheme hwif \<Rightarrow> int \<Rightarrow> (hwid \<times> bool) list \<Rightarrow> 'z uc_scheme
    \<Rightarrow> (unit \<times> 'z uc_scheme) option" where
  "tick_hws hw cycles [] s = Some ((), s)"
| "tick_hws hw cycles ((h, inside) # hs) s = do {
     (_, s) \<leftarrow> (if inside then hw_tick hw h cycles s else Some ((), s));
     tick_hws hw cycles hs s
   }"

definition tick_hw :: "'z uc_scheme hwif \<Rightarrow> int \<Rightarrow> 'z uc_scheme \<Rightarrow> (unit \<times> 'z uc_scheme) option" where
  "tick_hw hw cycles s = tick_hws hw cycles (hws s) s"

definition get_counter :: "int \<Rightarrow> 'z uc_scheme \<Rightarrow> counter_ref option" where
  "get_counter n s = (if lcount (counters s) \<le> n then Some CNull else list_at n (counters s))"

definition get_counter_nam :: "string \<Rightarrow> 'z uc_scheme \<Rightarrow> counter_ref" where
  "get_counter_nam nam s =
     (case find (\<lambda>c. case c of CLive t \<Rightarrow> t_name t = Some nam | _ \<Rightarrow> False) (Items (counters s)) of
        None \<Rightarrow> CNull | Some c \<Rightarrow> c)"

primrec fill_counters :: "nat \<Rightarrow> counter_ref cl_list \<Rightarrow> counter_ref cl_list option" where
  "fill_counters 0 l = Some l"
| "fill_counters (Suc k) l = do { (_, l) \<leftarrow> list_add CNull l; fill_counters k l }"

definition add_counter :: "ticker \<Rightarrow> int \<Rightarrow> 'z uc_scheme \<Rightarrow> 'z uc_scheme option" where
  "add_counter t n s = do {
     l \<leftarrow> fill_counters (nat (n + 1 - lcount (counters s))) (counters s);
     l \<leftarrow> put_at n (CLive t) l;
     Some (s\<lparr>counters := l\<rparr>)
   }"

definition add_counter_nam :: "ticker \<Rightarrow> 'z uc_scheme \<Rightarrow> 'z uc_scheme option" where
  "add_counter_nam t s = do {
     l \<leftarrow> (if lcount (counters s) < 1 then map_option snd (list_add CNull (counters s))
           else Some (counters s));
     l \<leftarrow> (case find_index (\<lambda>c. c = CNull) (tl (Items l)) 1 of
            Some i \<Rightarrow> put_at i (CLive t) l
          | None \<Rightarrow> map_option snd (list_add (CLive t) l));
     Some (s\<lparr>counters := l\<rparr>)
   }"

text \<open>The object freed is the one at index 0, whatever the number of the counter.\<close>

definition del_counter :: "int \<Rightarrow> 'z uc_scheme \<Rightarrow> 'z uc_scheme option" where
  "del_counter n s =
     (if lcount (counters s) \<le> n then Some s
      else do {
        t \<leftarrow> list_at 0 (counters s);
        l \<leftarrow> (case t of CNull \<Rightarrow> Some (counters s)
              | CLive _ \<Rightarrow> put_at 0 CFreed (counters s)
              | CFreed \<Rightarrow> None);
        l \<leftarrow> put_at n CNull l;
        Some (s\<lparr>counters := l\<rparr>)
      })"

subsection \<open>Errors and events\<close>

fun err_on :: "error_kind \<Rightarrow> bool" where
  "err_on (Err_mem_invalid_address _ _) = True"
| "err_on Err_unknown_code = True"
| "err_on _ = False"

fun err_type :: "error_kind \<Rightarrow> int" where
  "err_type (Err_stack_tracker_unmatch _ _) = 0x04"
| "err_type (Err_stack_tracker_inconsistent _ _) = 0x04"
| "err_type _ = 0x02"

abbreviation "err_stop \<equiv> (0x03 :: int)"

definition check_errors :: "'z uc_scheme \<Rightarrow> 'z uc_scheme" where
  "check_errors s =
     (let must_stop = list_ex (\<lambda>e. err_on (err_kind e) \<and> err_type (err_kind e) AND err_stop \<noteq> 0)
                        (errors s);
          s = s\<lparr>errors := []\<rparr>
      in if must_stop then sim_stop s else s)"

definition check_events :: "'z uc_scheme \<Rightarrow> 'z uc_scheme" where
  "check_events s = sim_stop (foldl (\<lambda>s brk. sim_stop s) s (events s))"

subsection \<open>Fetch\<close>

definition fetch :: "'z uc_scheme hwif \<Rightarrow> 'z uc_scheme \<Rightarrow> (t_mem \<times> 'z uc_scheme) option" where
  "fetch hw s = do {
     (code, s) \<leftarrow> as_read hw Rom (PC s) s;
     Some (code, s\<lparr>PC := inc_address Rom (PC s)\<rparr>)
   }"

definition fetch_brk_hit :: "'z uc_scheme \<Rightarrow> (bool \<times> 'z uc_scheme) option" where
  "fetch_brk_hit s = do {
     f \<leftarrow> get_cell_flag Rom (PC s) CELL_FETCH_BRK s;
     if \<not> f then Some (False, s) else do {
       r \<leftarrow> get_bp (PC s) (fbrk s) s;
       case r of None \<Rightarrow> Some (False, s)
       | Some (idx, b) \<Rightarrow> do {
           let (h, b) = do_hit b;
           l \<leftarrow> put_at idx b (fbrk s);
           let s = s\<lparr>fbrk := l\<rparr>;
           if \<not> h then Some (False, s)
           else if b_perm b = brkDYNAMIC then do {
             (l, s) \<leftarrow> del_bp (PC s) (fbrk s) s;
             Some (True, s\<lparr>fbrk := l\<rparr>)
           }
           else Some (True, s)
         }
     }
   }"

definition fetch_code :: "'z uc_scheme hwif \<Rightarrow> 'z uc_scheme \<Rightarrow> (t_mem option \<times> 'z uc_scheme) option" where
  "fetch_code hw s = do {
     (h, s) \<leftarrow> (if sim_go s then fetch_brk_hit s else Some (False, s));
     if h then Some (None, s)
     else do { (c, s) \<leftarrow> fetch hw s; Some (Some c, s) }
   }"

definition pre_inst :: "'z uc_scheme \<Rightarrow> 'z uc_scheme" where
  "pre_inst s = s\<lparr>inst_exec := True, inst_ticks := 0, events := []\<rparr>"

definition post_inst :: "'z uc_scheme hwif \<Rightarrow> 'z uc_scheme \<Rightarrow> (unit \<times> 'z uc_scheme) option" where
  "post_inst hw s = do {
     (_, s) \<leftarrow> tick_hw hw (inst_ticks s) s;
     let s = (if errors s \<noteq> [] then check_errors s else s);
     let s = (if events s \<noteq> [] then check_events s else s);
     Some ((), s\<lparr>inst_exec := False\<rparr>)
   }"

subsection \<open>Stack tracker\<close>

definition stack_write :: "stack_op \<Rightarrow> 'z uc_scheme \<Rightarrow> 'z uc_scheme option" where
  "stack_write op s =
     (if is_read_op op then Some (uc_error (Err_stack_tracker_wrong_handle False) s)
      else do { l \<leftarrow> list_push op (stack_ops s); Some (s\<lparr>stack_ops := l\<rparr>) })"

fun remove_ops :: "stack_op \<Rightarrow> stack_op list \<Rightarrow> stack_op list" where
  "remove_ops op [] = []"
| "remove_ops op (t # ts) = (if can_removed t op then remove_ops op ts else t # ts)"

definition stack_read :: "stack_op \<Rightarrow> 'z uc_scheme \<Rightarrow> 'z uc_scheme" where
  "stack_read op s =
     (if is_write_op op then uc_error (Err_stack_tracker_wrong_handle True) s
      else case list_top (stack_ops s) of
        None \<Rightarrow> uc_error (Err_stack_tracker_empty op) s
      | Some t \<Rightarrow>
          (let s = (if \<not> op_matches t op then uc_error (Err_stack_tracker_unmatch t op) s else s);
               ops' = remove_ops op (Items (stack_ops s));
               s = s\<lparr>stack_ops := (stack_ops s)\<lparr>Items := ops'\<rparr>\<rparr>
           in case ops' of [] \<Rightarrow> s
              | t # _ \<Rightarrow> if SP_after t \<noteq> SP_after op
                  then uc_error (Err_stack_tracker_inconsistent op \<bar>SP_after t - SP_after op\<bar>) s
                  else s))"

subsection \<open>Breakpoint commands\<close>

definition fbrk_at :: "t_addr \<Rightarrow> 'z uc_scheme \<Rightarrow> brk option option" where
  "fbrk_at addr s = map_option (map_option snd) (get_bp addr (fbrk s) s)"

definition ebrk_at :: "t_addr \<Rightarrow> string \<Rightarrow> 'z uc_scheme \<Rightarrow> brk option" where
  "ebrk_at addr i s = find (\<lambda>b. b_addr b = addr \<and> b_id b = i) (Items (ebrk s))"

definition brk_by_nr :: "int \<Rightarrow> 'z uc_scheme \<Rightarrow> brk option" where
  "brk_by_nr n s = (case get_bp_nr n (fbrk s) of Some b \<Rightarrow> Some b | None \<Rightarrow> get_bp_nr n (ebrk s))"

function rm_ebrk_loop :: "int \<Rightarrow> t_addr \<Rightarrow> string \<Rightarrow> brk cl_list \<Rightarrow> 'z mem_scheme
    \<Rightarrow> (brk cl_list \<times> 'z mem_scheme) option" where
  "rm_ebrk_loop i addr d l s =
     (if 0 \<le> i \<and> i < lcount l then
        (let b = Items l ! nat i in
         if b_addr b = addr \<and> b_id b = d
         then (case brk_inactivate b s of None \<Rightarrow> None
               | Some s \<Rightarrow> rm_ebrk_loop (i + 1) addr d
                   (l\<lparr>Items := take (nat i) (Items l) @ drop (Suc (nat i)) (Items l)\<rparr>) s)
         else rm_ebrk_loop (i + 1) addr d l s)
      else Some (l, s))"
  by pat_completeness auto
termination
  by (relation "measure (\<lambda>(i, addr, d, l, s). nat (lcount l - i))") (auto simp: lcount_def)

declare rm_ebrk_loop.simps [simp del]

definition rm_ebrk :: "t_addr \<Rightarrow> string \<Rightarrow> 'z uc_scheme \<Rightarrow> 'z uc_scheme option" where
  "rm_ebrk addr i s = do {
     (l, s) \<leftarrow> rm_ebrk_loop 0 addr i (ebrk s) s;
     Some (s\<lparr>ebrk := l\<rparr>)
   }"

definition rm_brk :: "int \<Rightarrow> 'z uc_scheme \<Rightarrow> (bool \<times> 'z uc_scheme) option" where
  "rm_brk n s =
     (case get_bp_nr n (fbrk s) of
        Some bp \<Rightarrow> do { (l, s) \<leftarrow> del_bp (b_addr bp) (fbrk s) s; Some (True, s\<lparr>fbrk := l\<rparr>) }
      | None \<Rightarrow>
          (case get_bp_nr n (ebrk s) of
             Some bp \<Rightarrow> do {
               (l, s) \<leftarrow> del_bp_idx (sl_index_of b_nr brk_compare False bp (ebrk s)) (ebrk s) s;
               Some (True, s\<lparr>ebrk := l\<rparr>)
             }
           | None \<Rightarrow> Some (False, s)))"

text \<open>Each loop of \<open>remove_all_breaks\<close> as a partial function: \<open>None\<close> is also a loop that never ends.\<close>

partial_function (option) remove_fbrks :: "brk cl_list \<Rightarrow> 'z mem_scheme
    \<Rightarrow> (brk cl_list \<times> 'z mem_scheme) option" where
  "remove_fbrks l s =
     (case Items l of [] \<Rightarrow> Some (l, s)
      | b # _ \<Rightarrow> Option.bind (del_bp (b_addr b) l s) (\<lambda>(l, s). remove_fbrks l s))"

text \<open>
  The first \<open>n\<close> rounds of the loop over the fetch breakpoints, for what is said of a loop that
  does not end: here \<open>None\<close> is an abort inside one of them.
\<close>

fun fbrk_rounds :: "nat \<Rightarrow> brk cl_list \<Rightarrow> 'z mem_scheme \<Rightarrow> (brk cl_list \<times> 'z mem_scheme) option" where
  "fbrk_rounds 0 l s = Some (l, s)"
| "fbrk_rounds (Suc n) l s =
     (case Items l of [] \<Rightarrow> Some (l, s)
      | b # _ \<Rightarrow> Option.bind (del_bp (b_addr b) l s) (\<lambda>(l, s). fbrk_rounds n l s))"

partial_function (option) remove_ebrks :: "brk cl_list \<Rightarrow> 'z mem_scheme
    \<Rightarrow> (brk cl_list \<times> 'z mem_scheme) option" where
  "remove_ebrks l s =
     (if lcount l = 0 then Some (l, s)
      else Option.bind (del_bp_idx (lcount l - 1) l s) (\<lambda>(l, s). remove_ebrks l s))"

definition remove_all_breaks :: "'z uc_scheme \<Rightarrow> 'z uc_scheme option" where
  "remove_all_breaks s = do {
     (l, s) \<leftarrow> remove_fbrks (fbrk s) s;
     let s = s\<lparr>fbrk := l\<rparr>;
     (l, s) \<leftarrow> remove_ebrks (ebrk s) s;
     Some (s\<lparr>ebrk := l\<rparr>)
   }"

definition make_new_brknr :: "'z uc_scheme \<Rightarrow> int \<times> 'z uc_scheme" where
  "make_new_brknr s =
     (let n = (if brk_counter s = 0 then 1
               else if lcount (fbrk s) = 0 \<and> lcount (ebrk s) = 0 then 1
               else brk_counter s + 1)
      in (n, s\<lparr>brk_counter := n\<rparr>))"

text \<open>The \<open>break\<close> command with an address (\<open>cl_break_cmd::do_fetch\<close> of \<open>cmd.src/bp.cc\<close>).\<close>

definition break_do_fetch :: "brk_perm \<Rightarrow> t_addr \<Rightarrow> int \<Rightarrow> 'z uc_scheme \<Rightarrow> 'z uc_scheme option" where
  "break_do_fetch perm addr hit s =
     (if hit > 99999 then Some s
      else do {
        set \<leftarrow> bp_at addr s;
        if set then Some s
        else do {
          let (n, s) = make_new_brknr s;
          (l, s) \<leftarrow> add_bp (mk_brk (Some Rom) n addr perm hit brkNONE ''fetch'') (fbrk s) s;
          Some (s\<lparr>fbrk := l\<rparr>)
        }
      })"

definition mk_ebrk :: "brk_perm \<Rightarrow> as_id option \<Rightarrow> char \<Rightarrow> t_addr \<Rightarrow> int \<Rightarrow> 'z uc_scheme
    \<Rightarrow> brk \<times> 'z uc_scheme" where
  "mk_ebrk p m op addr h s =
     (let op = toupper op; (n, s) = make_new_brknr s in (mk_ev_brk m n addr p h op, s))"

subsection \<open>Reset\<close>

fun pop_levels :: "it_level list \<Rightarrow> it_level list" where
  "pop_levels [] = []"
| "pop_levels (il # ils) = (if 0 \<le> level il then pop_levels ils else il # ils)"

fun reset_hws :: "'z uc_scheme hwif \<Rightarrow> (hwid \<times> bool) list \<Rightarrow> 'z uc_scheme
    \<Rightarrow> (unit \<times> 'z uc_scheme) option" where
  "reset_hws hw [] s = Some ((), s)"
| "reset_hws hw ((h, _) # hs) s = do { (_, s) \<leftarrow> hw_reset hw h s; reset_hws hw hs s }"

definition uc_reset :: "'z uc_scheme hwif \<Rightarrow> 'z uc_scheme \<Rightarrow> (unit \<times> 'z uc_scheme) option" where
  "uc_reset hw s = do {
     let s = s\<lparr>PC := 0, instPC := 0, state := stGO, ticks := (ticks s)\<lparr>t_ticks := 0\<rparr>,
               it_levels := (it_levels s)\<lparr>Items := pop_levels (Items (it_levels s))\<rparr>,
               sp_max := 0, sp_avg := 0\<rparr>;
     l \<leftarrow> free_all (stack_ops s);
     let s = s\<lparr>stack_ops := l\<rparr>;
     reset_hws hw (hws s) s
   }"

subsection \<open>Instruction map\<close>

definition inst_at :: "t_addr \<Rightarrow> 'z uc_scheme \<Rightarrow> bool option" where
  "inst_at addr s = get_cell_flag Rom addr CELL_INST s"

definition set_inst_at :: "t_addr \<Rightarrow> 'z uc_scheme \<Rightarrow> 'z uc_scheme option" where
  "set_inst_at addr s = set_cell_flag Rom addr True CELL_INST s"

definition del_inst_at :: "t_addr \<Rightarrow> 'z uc_scheme \<Rightarrow> 'z uc_scheme option" where
  "del_inst_at addr s = set_cell_flag Rom addr False CELL_INST s"

end
