(* ===== verification/Core51.thy ===== *)
theory Core51
  imports Uc
begin

text \<open>
  The 8051 core \<open>cl_51core\<close> (\<open>uc51.cc\<close>, \<open>types51.h\<close>): its state, the helpers every instruction
  uses (register banks, direct and bit addresses, PSW macros), the element \<open>cl_uc51_dummy_hw\<close>
  that keeps the parity flag and the stack statistics, and reset. The state also holds the fields
  of the elements the core reads or writes itself: \<open>cl_interrupt\<close>, the ports and the timers.
\<close>

subsection \<open>State\<close>

record timer0 =
  t_mode :: int
  t_GATE :: bool
  t_C_T :: bool
  t_TR :: bool
  t_INT :: bool
  t_T_edge :: int

record core51 = uc +
  stop_at_it :: bool
  result :: int
  cmos :: bool
  MovInstruction :: bool
  prev_p1 :: uchar
  prev_p3 :: uchar
  was_reti :: bool
  bit_IT0 :: bool
  bit_IT1 :: bool
  bit_INT0 :: bool
  bit_INT1 :: bool
  port_pins :: "int \<Rightarrow> int"
  port_prev :: "int \<Rightarrow> int"
  timers :: "int \<Rightarrow> timer0"

type_synonym 'z core_hw = "'z core51_scheme hwif"
type_synonym ('a, 'z) act = "'z core51_scheme \<Rightarrow> ('a \<times> 'z core51_scheme) option"

abbreviation "acc \<equiv> Cell Sfr 0x60"
abbreviation "psw \<equiv> Cell Sfr 0x50"
abbreviation "cell_sp \<equiv> Cell Sfr 0x01"

subsection \<open>Helpers of the instructions\<close>

definition tick51 :: "int \<Rightarrow> 'z core51_scheme \<Rightarrow> 'z core51_scheme option" where
  "tick51 cycles s = uc_tick 12 cycles s"

definition SFR_SET_BIT :: "bool \<Rightarrow> t_addr \<Rightarrow> int \<Rightarrow> 'z core51_scheme \<Rightarrow> 'z core51_scheme" where
  "SFR_SET_BIT newbit reg bitmask s =
     (if newbit then as_set_bit1 Sfr reg bitmask s else as_set_bit0 Sfr reg bitmask s)"

definition SFR_SET_C :: "bool \<Rightarrow> 'z core51_scheme \<Rightarrow> 'z core51_scheme" where
  "SFR_SET_C newC s = SFR_SET_BIT newC r_PSW bmCY s"

definition SFR_GET_C :: "'z core_hw \<Rightarrow> (bool, 'z) act" where
  "SFR_GET_C hw s = do { (p, s) \<leftarrow> as_get hw Sfr r_PSW s; Some (p AND bmCY \<noteq> 0, s) }"

definition get_direct :: "t_mem \<Rightarrow> 'z core51_scheme \<Rightarrow> cell \<times> 'z core51_scheme" where
  "get_direct addr s = (if addr < as_start Sfr then get_cell Iram addr s else get_cell Sfr addr s)"

definition get_reg :: "uchar \<Rightarrow> 'z core51_scheme \<Rightarrow> cell \<times> 'z core51_scheme" where
  "get_reg regnum s =
     get_cell Iram ((cell_get psw s AND (bmRS0 OR bmRS1)) OR (regnum AND 0x07)) s"

definition get_ind :: "'z core_hw \<Rightarrow> uchar \<Rightarrow> (cell, 'z) act" where
  "get_ind hw code s = do {
     let (r, s) = get_reg (code AND 0x01) s;
     (a, s) \<leftarrow> cell_read hw r s;
     Some (get_cell Iram a s)
   }"

definition bit2mem :: "t_addr \<Rightarrow> as_id \<times> t_addr \<times> t_mem" where
  "bit2mem bitaddr =
     (let b = bitaddr AND 0xff;
          m = (if b < 128 then Iram else Sfr);
          ma = (if b < 128 then b div 8 + 0x20 else b AND 0xf8)
      in (m, ma, 2 ^ nat (b AND 0x7)))"

definition bit_address :: "as_id \<Rightarrow> t_addr \<Rightarrow> int \<Rightarrow> t_addr" where
  "bit_address mem mem_address bit_number =
     (if bit_number < 0 \<or> 7 < bit_number \<or> mem_address < 0 then -1
      else if mem = Sfr then
        (if mem_address < 128 \<or> mem_address smod 8 \<noteq> 0 \<or> 255 < mem_address then -1
         else 128 + (mem_address - 128) + bit_number)
      else if mem = Iram then
        (if mem_address < 0x20 \<or> 0x20 + 32 \<le> mem_address then -1
         else (mem_address - 0x20) * 8 + bit_number)
      else -1)"

definition inst_unknown :: "(int, 'z) act" where
  "inst_unknown s = Some (resGO, uc_error Err_unknown_code s)"

definition inst_nop :: "'z core_hw \<Rightarrow> uchar \<Rightarrow> (int, 'z) act" where
  "inst_nop hw code s = Some (resGO, s)"

definition inst_clr_a :: "'z core_hw \<Rightarrow> uchar \<Rightarrow> (int, 'z) act" where
  "inst_clr_a hw code s = do {
     (_, s) \<leftarrow> cell_write hw acc 0 s;
     Some (resGO, s)
   }"

definition inst_swap :: "'z core_hw \<Rightarrow> uchar \<Rightarrow> (int, 'z) act" where
  "inst_swap hw code s = do {
     (a, s) \<leftarrow> cell_read hw acc s;
     let temp = to_uchar (a div 16 AND 0x0f);
     (_, s) \<leftarrow> as_write hw Sfr r_ACC ((cell_get acc s * 16) OR temp) s;
     Some (resGO, s)
   }"

subsection \<open>The element that keeps parity and stack statistics\<close>

fun parity_loop :: "nat \<Rightarrow> uchar \<Rightarrow> bool \<Rightarrow> bool" where
  "parity_loop 0 uc p = p"
| "parity_loop (Suc i) uc p = parity_loop i (uc div 2) (if uc AND 1 \<noteq> 0 then \<not> p else p)"

definition dummy_hw_write :: "cell \<Rightarrow> t_mem \<Rightarrow> (t_mem, 'z) act" where
  "dummy_hw_write cell val s =
     (if cell = acc then
        Some (val, if parity_loop 8 (to_uchar val) False
                   then cell_set_bit1 psw bmP s else cell_set_bit0 psw bmP s)
      else if cell = cell_sp then
        (let s = (if sp_max s < val then s\<lparr>sp_max := val\<rparr> else s)
         in Some (val, s\<lparr>sp_avg := (sp_avg s + val) sdiv 2\<rparr>))
      else Some (val, s))"

definition default_hw_read :: "cell \<Rightarrow> (t_mem, 'z) act" where
  "default_hw_read c s = Some (cell_get c s, s)"

subsection \<open>Reset\<close>

fun clear_loop :: "nat \<Rightarrow> int \<Rightarrow> 'z core51_scheme \<Rightarrow> 'z core51_scheme" where
  "clear_loop 0 i s = s"
| "clear_loop (Suc n) i s = clear_loop n (i + 1) (leaf_set Sfr i 0 s)"

fun write_all :: "'z core_hw \<Rightarrow> (t_addr \<times> int) list \<Rightarrow> (unit, 'z) act" where
  "write_all hw [] s = Some ((), s)"
| "write_all hw ((a, v) # ws) s = do { (_, s) \<leftarrow> as_write hw Sfr a v s; write_all hw ws s }"

definition clear_sfr :: "'z core_hw \<Rightarrow> (unit, 'z) act" where
  "clear_sfr hw s = do {
     let s = clear_loop 128 0x80 s;
     (_, s) \<leftarrow> write_all hw [(r_P0, 0xff), (r_P1, 0xff), (r_P2, 0xff), (r_P3, 0xff)] s;
     (p1, s) \<leftarrow> as_read hw Sfr r_P1 s;
     let s = s\<lparr>prev_p1 := to_uchar p1\<rparr>;
     (p3, s) \<leftarrow> as_read hw Sfr r_P3 s;
     let s = s\<lparr>prev_p3 := to_uchar p3\<rparr>;
     write_all hw [(r_ACC, 0), (r_B, 0), (r_PSW, 0), (r_SP, 7), (r_DPL, 0), (r_DPH, 0), (r_IP, 0),
       (r_IE, 0), (r_TCON, 0), (r_SCON, 0), (r_PCON, 0)] s
   }"

definition reset51 :: "'z core_hw \<Rightarrow> (unit, 'z) act" where
  "reset51 hw s = do {
     (_, s) \<leftarrow> uc_reset hw s;
     (_, s) \<leftarrow> clear_sfr hw s;
     Some ((), s\<lparr>result := resGO\<rparr>)
   }"

end
