(* ===== verification/Devices51.thy ===== *)
theory Devices51
  imports Core51
begin

text \<open>
  Hardware elements of the core: the interrupt logic and the passive element \<open>cl_radio\<close>
  (\<open>interrupt.cc\<close>), the ports (\<open>port.cc\<close>) and the timers 0 and 1 (\<open>timer0.cc\<close>, \<open>timer1.cc\<close>).
  Partners are those \<open>mk_hw_elements\<close> leads to: port 3 informs both timers and the interrupt
  logic, timer 1 informs the serial line. \<open>core51_hwif\<close> puts these elements, and the one of
  \<open>uc51.cc\<close>, in place among the others, which stay an argument.
\<close>

abbreviation "cell_tcon \<equiv> Cell Sfr 0x08"
abbreviation "cell_tmod \<equiv> Cell Sfr 0x09"

subsection \<open>Interrupt logic\<close>

definition interrupt_write :: "cell \<Rightarrow> t_mem \<Rightarrow> (t_mem, 'z) act" where
  "interrupt_write cell val s =
     (if cell = cell_tcon
      then Some (val, s\<lparr>bit_IT0 := (val AND bmIT0 \<noteq> 0), bit_IT1 := (val AND bmIT1 \<noteq> 0)\<rparr>)
      else Some (val, s\<lparr>was_reti := True\<rparr>))"

definition interrupt_tick :: "int \<Rightarrow> (unit, 'z) act" where
  "interrupt_tick cycles s =
     (let s = (if \<not> bit_IT0 s \<and> \<not> bit_INT0 s then cell_set_bit1 cell_tcon bmIE0 s else s);
          s = (if \<not> bit_IT1 s \<and> \<not> bit_INT1 s then cell_set_bit1 cell_tcon bmIE1 s else s)
      in Some ((), s))"

definition interrupt_reset :: "(unit, 'z) act" where
  "interrupt_reset s = Some ((), s\<lparr>was_reti := False\<rparr>)"

fun interrupt_happen :: "hw_event \<Rightarrow> (unit, 'z) act" where
  "interrupt_happen (EV_PORT_CHANGED ep) s =
     (if ep_id ep = 3 then
        (let p3n = new_pins ep AND new_value ep;
             p3o = pins ep AND prev_value ep;
             s = (if bit_IT0 s \<and> p3n AND bm_INT0 = 0 \<and> p3o AND bm_INT0 \<noteq> 0
                  then cell_set_bit1 cell_tcon bmIE0 s else s);
             s = (if bit_IT1 s \<and> p3n AND bm_INT1 = 0 \<and> p3o AND bm_INT1 \<noteq> 0
                  then cell_set_bit1 cell_tcon bmIE1 s else s)
         in Some ((), s\<lparr>bit_INT0 := (p3n AND bm_INT0 \<noteq> 0), bit_INT1 := (p3n AND bm_INT1 \<noteq> 0)\<rparr>))
      else Some ((), s))"
| "interrupt_happen _ s = Some ((), s)"

definition interrupt_added :: "'z core51_scheme \<Rightarrow> 'z core51_scheme option" where
  "interrupt_added s = do {
     s \<leftarrow> add_it_src (mk_it_src r_IEN0 bmEX0 r_TCON bmIE0 0x0003 True ''external #0'' 1) s;
     add_it_src (mk_it_src r_IEN0 bmEX1 r_TCON bmIE1 0x0013 True ''external #1'' 3) s
   }"

subsection \<open>The passive element\<close>

definition radio_read :: "cell \<Rightarrow> (t_mem, 'z) act" where
  "radio_read cell s = Some (cell_get cell s, s)"

definition radio_write :: "cell \<Rightarrow> t_mem \<Rightarrow> (t_mem, 'z) act" where
  "radio_write cell val s = Some (val, s)"

subsection \<open>Timers 0 and 1\<close>

definition mask_M0 :: "int \<Rightarrow> int" where "mask_M0 n = (if n = 0 then bmM00 else bmM01)"
definition mask_M1 :: "int \<Rightarrow> int" where "mask_M1 n = (if n = 0 then bmM10 else bmM11)"
definition mask_C_T :: "int \<Rightarrow> int" where "mask_C_T n = (if n = 0 then bmC_T0 else bmC_T1)"
definition mask_GATE :: "int \<Rightarrow> int" where "mask_GATE n = (if n = 0 then bmGATE0 else bmGATE1)"
definition mask_TR :: "int \<Rightarrow> int" where "mask_TR n = (if n = 0 then bmTR0 else bmTR1)"
definition mask_INT :: "int \<Rightarrow> int" where "mask_INT n = (if n = 0 then bm_INT0 else bm_INT1)"
definition mask_TF :: "int \<Rightarrow> int" where "mask_TF n = (if n = 0 then bmTF0 else bmTF1)"
definition mask_T :: "int \<Rightarrow> int" where "mask_T n = (if n = 0 then bmT0 else bmT1)"

definition cell_tl :: "int \<Rightarrow> cell" where "cell_tl n = Cell Sfr (if n = 0 then 0x0a else 0x0b)"
definition cell_th :: "int \<Rightarrow> cell" where "cell_th n = Cell Sfr (if n = 0 then 0x0c else 0x0d)"

definition set_timer :: "int \<Rightarrow> (timer0 \<Rightarrow> timer0) \<Rightarrow> 'z core51_scheme \<Rightarrow> 'z core51_scheme" where
  "set_timer n f s = s\<lparr>timers := (timers s)(n := f (timers s n))\<rparr>"

definition timer_added :: "int \<Rightarrow> 'z core51_scheme \<Rightarrow> 'z core51_scheme option" where
  "timer_added n s =
     (if n = 0 then add_it_src (mk_it_src r_IEN0 bmET0 r_TCON bmTF0 0x000b True ''timer #0'' 2) s
      else if n = 1
      then add_it_src (mk_it_src r_IEN0 bmET1 r_TCON bmTF1 0x001b True ''timer #1'' 4) s
      else Some s)"

definition timer_mode :: "int \<Rightarrow> t_mem \<Rightarrow> int" where
  "timer_mode n val =
     (let md = val AND (mask_M0 n OR mask_M1 n) in
      if md = mask_M0 n then 1 else if md = mask_M1 n then 2
      else if md = mask_M0 n OR mask_M1 n then 3 else 0)"

definition timer_write :: "int \<Rightarrow> cell \<Rightarrow> t_mem \<Rightarrow> (t_mem, 'z) act" where
  "timer_write n cell val s =
     (if cell = cell_tmod then
        Some (val, set_timer n (\<lambda>t. t\<lparr>t_mode := timer_mode n val, t_GATE := (val AND mask_GATE n \<noteq> 0),
                     t_C_T := (val AND mask_C_T n \<noteq> 0), t_T_edge := 0\<rparr>) s)
      else if cell = cell_tcon then
        Some (val, set_timer n (\<lambda>t. t\<lparr>t_TR := (val AND mask_TR n \<noteq> 0), t_T_edge := 0\<rparr>) s)
      else Some (val, s))"

definition timer_overflow :: "'z core_hw \<Rightarrow> int \<Rightarrow> (unit, 'z) act" where
  "timer_overflow hw n s =
     (if n = 1 then hw_happen hw Hw_serial (EV_OVERFLOW Hw_timer1) s else Some ((), s))"

definition timer_stopped :: "timer0 \<Rightarrow> bool" where
  "timer_stopped t \<longleftrightarrow> \<not> t_TR t \<or> (t_GATE t \<and> \<not> t_INT t)"

definition take_cycles :: "int \<Rightarrow> int \<Rightarrow> 'z core51_scheme \<Rightarrow> int \<times> 'z core51_scheme" where
  "take_cycles n cycles s =
     (if t_C_T (timers s n) then (t_T_edge (timers s n), set_timer n (\<lambda>t. t\<lparr>t_T_edge := 0\<rparr>) s)
      else (cycles, s))"

primrec mode0_loop :: "'z core_hw \<Rightarrow> int \<Rightarrow> nat \<Rightarrow> (unit, 'z) act" where
  "mode0_loop hw n 0 s = Some ((), s)"
| "mode0_loop hw n (Suc k) s = do {
     let (tl, s) = cell_add (cell_tl n) 1 s;
     (_, s) \<leftarrow> (if tl AND 0x1f = 0 then do {
         let (_, s) = cell_set (cell_tl n) 0 s;
         let (th, s) = cell_add (cell_th n) 1 s;
         if th = 0 then timer_overflow hw n (cell_set_bit1 cell_tcon (mask_TF n) s)
         else Some ((), s)
       } else Some ((), s));
     mode0_loop hw n k s
   }"

primrec mode1_loop :: "'z core_hw \<Rightarrow> int \<Rightarrow> nat \<Rightarrow> (unit, 'z) act" where
  "mode1_loop hw n 0 s = Some ((), s)"
| "mode1_loop hw n (Suc k) s = do {
     let (tl, s) = cell_add (cell_tl n) 1 s;
     (_, s) \<leftarrow> (if tl = 0 then do {
         let (th, s) = cell_add (cell_th n) 1 s;
         if th = 0 then timer_overflow hw n (cell_set_bit1 cell_tcon (mask_TF n) s)
         else Some ((), s)
       } else Some ((), s));
     mode1_loop hw n k s
   }"

primrec mode2_loop :: "'z core_hw \<Rightarrow> int \<Rightarrow> nat \<Rightarrow> (unit, 'z) act" where
  "mode2_loop hw n 0 s = Some ((), s)"
| "mode2_loop hw n (Suc k) s = do {
     let (tl, s) = cell_add (cell_tl n) 1 s;
     (_, s) \<leftarrow> (if tl = 0 then do {
         let (_, s) = cell_set (cell_tl n) (cell_get (cell_th n) s) s;
         timer_overflow hw n (cell_set_bit1 cell_tcon (mask_TF n) s)
       } else Some ((), s));
     mode2_loop hw n k s
   }"

primrec mode3_tl_loop :: "'z core_hw \<Rightarrow> int \<Rightarrow> nat \<Rightarrow> (unit, 'z) act" where
  "mode3_tl_loop hw n 0 s = Some ((), s)"
| "mode3_tl_loop hw n (Suc k) s = do {
     let (tl, s) = cell_add (cell_tl n) 1 s;
     (_, s) \<leftarrow> (if tl = 0 then timer_overflow hw n (cell_set_bit1 cell_tcon (mask_TF n) s)
               else Some ((), s));
     mode3_tl_loop hw n k s
   }"

primrec mode3_th_loop :: "int \<Rightarrow> nat \<Rightarrow> 'z core51_scheme \<Rightarrow> 'z core51_scheme" where
  "mode3_th_loop n 0 s = s"
| "mode3_th_loop n (Suc k) s =
     (let (th, s) = cell_add (cell_th n) 1 s;
          s = (if th = 0 then cell_set_bit1 cell_tcon bmTF1 s else s)
      in mode3_th_loop n k s)"

text \<open>
  The loops \<open>while (cycles--)\<close> run away for a negative count, which ends in signed overflow: the
  result is \<open>None\<close>. The loop of mode 0 counts down to zero and does nothing then.
\<close>

definition do_mode0 :: "'z core_hw \<Rightarrow> int \<Rightarrow> int \<Rightarrow> (unit, 'z) act" where
  "do_mode0 hw n cycles s =
     (if timer_stopped (timers s n) then Some ((), s)
      else (let (cycles, s) = take_cycles n cycles s in mode0_loop hw n (nat cycles) s))"

definition do_mode1 :: "'z core_hw \<Rightarrow> int \<Rightarrow> int \<Rightarrow> (unit, 'z) act" where
  "do_mode1 hw n cycles s =
     (if timer_stopped (timers s n) then Some ((), s)
      else (let (cycles, s) = take_cycles n cycles s in
        if cycles < 0 then None else mode1_loop hw n (nat cycles) s))"

definition do_mode2 :: "'z core_hw \<Rightarrow> int \<Rightarrow> int \<Rightarrow> (unit, 'z) act" where
  "do_mode2 hw n cycles s =
     (if timer_stopped (timers s n) then Some ((), s)
      else (let (cycles, s) = take_cycles n cycles s in
        if cycles < 0 then None else mode2_loop hw n (nat cycles) s))"

definition do_mode3 :: "'z core_hw \<Rightarrow> int \<Rightarrow> int \<Rightarrow> (unit, 'z) act" where
  "do_mode3 hw n cycles s =
     (if n = 1 then Some ((), s)
      else do {
        (_, s) \<leftarrow> (if timer_stopped (timers s n) then Some ((), s)
          else (let (cyc, s) = take_cycles n cycles s in
            if cyc < 0 then None else mode3_tl_loop hw n (nat cyc) s));
        if cell_get cell_tcon s AND bmTR1 \<noteq> 0
        then (if cycles < 0 then None else Some ((), mode3_th_loop n (nat cycles) s))
        else Some ((), s)
      })"

definition timer_tick :: "'z core_hw \<Rightarrow> int \<Rightarrow> int \<Rightarrow> (unit, 'z) act" where
  "timer_tick hw n cycles s =
     (let m = t_mode (timers s n) in
      if m = 0 then do_mode0 hw n cycles s
      else if m = 1 then do_mode1 hw n cycles s
      else if m = 2 then do_mode2 hw n cycles s
      else if m = 3 then do_mode3 hw n cycles s
      else Some ((), s))"

fun timer_happen :: "int \<Rightarrow> hw_event \<Rightarrow> (unit, 'z) act" where
  "timer_happen n (EV_PORT_CHANGED ep) s =
     (if ep_id ep = 3 then
        (let p3n = new_pins ep AND new_value ep;
             p3o = pins ep AND prev_value ep
         in Some ((), set_timer n (\<lambda>t. t\<lparr>
              t_T_edge := (if p3n AND mask_T n \<noteq> 0 \<and> p3o AND mask_T n = 0
                           then t_T_edge t + 1 else t_T_edge t),
              t_INT := (p3n AND mask_INT n \<noteq> 0)\<rparr>) s))
      else Some ((), s))"
| "timer_happen n _ s = Some ((), s)"

subsection \<open>Ports\<close>

definition port_cell :: "int \<Rightarrow> cell" where
  "port_cell n = Cell Sfr (if n = 1 then 0x10 else if n = 2 then 0x20 else if n = 3 then 0x30 else 0)"

definition port_read :: "int \<Rightarrow> cell \<Rightarrow> (t_mem, 'z) act" where
  "port_read n cell s = Some (cell_get cell s AND port_pins s n, s)"

definition port_inform :: "int \<Rightarrow> port_event \<Rightarrow> (unit, 'z) act" where
  "port_inform n ep s =
     (if n = 3 then do {
        (_, s) \<leftarrow> timer_happen 0 (EV_PORT_CHANGED ep) s;
        (_, s) \<leftarrow> timer_happen 1 (EV_PORT_CHANGED ep) s;
        interrupt_happen (EV_PORT_CHANGED ep) s
      } else Some ((), s))"

definition port_addr :: "int \<Rightarrow> t_addr" where
  "port_addr n = (if n = 1 then r_P1 else if n = 2 then r_P2 else if n = 3 then r_P3 else r_P0)"

definition port_write :: "int \<Rightarrow> cell \<Rightarrow> t_mem \<Rightarrow> (t_mem, 'z) act" where
  "port_write n cell val s = do {
     let val = val AND 0xff;
     let ep = \<lparr>ep_id = n, ep_addr = port_addr n, prev_value = cell_get (port_cell n) s,
               new_value = val, pins = port_pins s n, new_pins = port_pins s n\<rparr>;
     (_, s) \<leftarrow> (if prev_value ep \<noteq> new_value ep then port_inform n ep s else Some ((), s));
     Some (val, s\<lparr>port_prev := (port_prev s)(n := cell_get (port_cell n) s)\<rparr>)
   }"

definition port_set_cmd :: "int \<Rightarrow> int \<Rightarrow> (unit, 'z) act" where
  "port_set_cmd n number s = do {
     let value = number AND 0xff;
     let old = port_pins s n;
     let s = s\<lparr>port_pins := (port_pins s)(n := value)\<rparr>;
     let ep = \<lparr>ep_id = n, ep_addr = port_addr n, prev_value = cell_get (port_cell n) s,
               new_value = cell_get (port_cell n) s, pins = old, new_pins = value\<rparr>;
     if pins ep \<noteq> new_pins ep then port_inform n ep s else Some ((), s)
   }"

subsection \<open>The elements in place\<close>

definition core51_hwif :: "'z core_hw \<Rightarrow> 'z core_hw" where
  "core51_hwif other = other\<lparr>
     hw_cath := cathegory,
     hw_read := (\<lambda>h. case h of Hw_dummy \<Rightarrow> default_hw_read | Hw_interrupt \<Rightarrow> default_hw_read
       | Hw_radio \<Rightarrow> radio_read | Hw_timer0 \<Rightarrow> default_hw_read | Hw_timer1 \<Rightarrow> default_hw_read
       | Hw_port0 \<Rightarrow> port_read 0 | Hw_port1 \<Rightarrow> port_read 1 | Hw_port2 \<Rightarrow> port_read 2
       | Hw_port3 \<Rightarrow> port_read 3 | _ \<Rightarrow> hw_read other h),
     hw_write := (\<lambda>h. case h of Hw_dummy \<Rightarrow> dummy_hw_write | Hw_interrupt \<Rightarrow> interrupt_write
       | Hw_radio \<Rightarrow> radio_write | Hw_timer0 \<Rightarrow> timer_write 0 | Hw_timer1 \<Rightarrow> timer_write 1
       | Hw_port0 \<Rightarrow> port_write 0 | Hw_port1 \<Rightarrow> port_write 1 | Hw_port2 \<Rightarrow> port_write 2
       | Hw_port3 \<Rightarrow> port_write 3 | _ \<Rightarrow> hw_write other h),
     hw_tick := (\<lambda>h. case h of Hw_dummy \<Rightarrow> (\<lambda>_ s. Some ((), s)) | Hw_interrupt \<Rightarrow> interrupt_tick
       | Hw_radio \<Rightarrow> (\<lambda>_ s. Some ((), s)) | Hw_timer0 \<Rightarrow> timer_tick other 0
       | Hw_timer1 \<Rightarrow> timer_tick other 1 | Hw_port0 \<Rightarrow> (\<lambda>_ s. Some ((), s))
       | Hw_port1 \<Rightarrow> (\<lambda>_ s. Some ((), s)) | Hw_port2 \<Rightarrow> (\<lambda>_ s. Some ((), s))
       | Hw_port3 \<Rightarrow> (\<lambda>_ s. Some ((), s)) | _ \<Rightarrow> hw_tick other h),
     hw_reset := (\<lambda>h. case h of Hw_interrupt \<Rightarrow> interrupt_reset | Hw_dummy \<Rightarrow> (\<lambda>s. Some ((), s))
       | Hw_radio \<Rightarrow> (\<lambda>s. Some ((), s)) | Hw_timer0 \<Rightarrow> (\<lambda>s. Some ((), s))
       | Hw_timer1 \<Rightarrow> (\<lambda>s. Some ((), s)) | Hw_port0 \<Rightarrow> (\<lambda>s. Some ((), s))
       | Hw_port1 \<Rightarrow> (\<lambda>s. Some ((), s)) | Hw_port2 \<Rightarrow> (\<lambda>s. Some ((), s))
       | Hw_port3 \<Rightarrow> (\<lambda>s. Some ((), s)) | _ \<Rightarrow> hw_reset other h),
     hw_happen := (\<lambda>h. case h of Hw_interrupt \<Rightarrow> interrupt_happen | Hw_timer0 \<Rightarrow> timer_happen 0
       | Hw_timer1 \<Rightarrow> timer_happen 1 | Hw_dummy \<Rightarrow> (\<lambda>_ s. Some ((), s))
       | Hw_radio \<Rightarrow> (\<lambda>_ s. Some ((), s)) | Hw_port0 \<Rightarrow> (\<lambda>_ s. Some ((), s))
       | Hw_port1 \<Rightarrow> (\<lambda>_ s. Some ((), s)) | Hw_port2 \<Rightarrow> (\<lambda>_ s. Some ((), s))
       | Hw_port3 \<Rightarrow> (\<lambda>_ s. Some ((), s)) | _ \<Rightarrow> hw_happen other h)\<rparr>"

end
