(* ===== verification/Core51Facts.thy ===== *)
theory Core51Facts
  imports MemFacts Devices51
begin

text \<open>
  The contract between the core and the elements wired to its own registers (locale
  \<open>core_elements\<close>), interpreted on the elements of \<open>Devices51\<close>; the state of a core ready to execute;
  operands (register banks, indirect, direct, fetched) as values; and the specification of PSW.
\<close>

subsection \<open>Program status word\<close>

definition parity :: "int \<Rightarrow> bool" where
  "parity a = odd (\<Sum>i<8. of_bool (bit a i) :: nat)"

definition psw_flags :: "bool \<Rightarrow> bool \<Rightarrow> bool \<Rightarrow> bool \<Rightarrow> int \<Rightarrow> int" where
  "psw_flags cy hc ov p pw =
     (pw AND 0x3A) OR (if cy then bmCY else 0) OR (if hc then bmAC else 0)
       OR (if ov then bmOV else 0) OR (if p then bmP else 0)"

definition psw_parity :: "int \<Rightarrow> int \<Rightarrow> int" where
  "psw_parity a pw = (pw AND 0xFE) OR (if parity a then bmP else 0)"

lemma byte_eqI:
  assumes x: "byte x" and y: "byte y" and eq: "\<And>n. n < 8 \<Longrightarrow> bit x n = bit y n"
  shows "x = y"
proof (rule bit_eqI)
  fix n
  show "bit x n = bit y n"
    using eq [of n] byte_bit_high [OF x] byte_bit_high [OF y] by (cases "n < 8") blast+
qed

lemma all_lt_8: "(\<forall>n<8. P n) \<longleftrightarrow> P 0 \<and> P 1 \<and> P 2 \<and> P 3 \<and> P 4 \<and> P 5 \<and> P 6 \<and> P (7::nat)"
  by (simp add: numeral_eq_Suc All_less_Suc2)

lemma byte_eq8I:
  assumes "byte x" "byte y" "bit x 0 = bit y 0" "bit x 1 = bit y 1" "bit x 2 = bit y 2"
    "bit x 3 = bit y 3" "bit x 4 = bit y 4" "bit x 5 = bit y 5" "bit x 6 = bit y 6"
    "bit x 7 = bit y 7"
  shows "x = y"
  using assms byte_eqI [of x y] all_lt_8 [of "\<lambda>n. bit x n = bit y n"] by blast

lemma byte_if [byte_intros]: "byte x \<Longrightarrow> byte y \<Longrightarrow> byte (if b then x else y)"
  by simp

lemma byte_psw_flags [simp]: "byte (psw_flags cy hc ov p pw)"
  unfolding psw_flags_def by (intro byte_or byte_if byte_and2) simp_all

lemma byte_psw_parity [simp]: "byte (psw_parity a pw)"
  unfolding psw_parity_def by (intro byte_or byte_if byte_and2) simp_all

lemma parity_loop_sum: "parity_loop n a p = (p \<noteq> odd (\<Sum>i<n. of_bool (bit a i) :: nat))"
proof (induction n arbitrary: a p)
  case (Suc n)
  have "(\<Sum>i<Suc n. of_bool (bit a i) :: nat) = of_bool (bit a 0) + (\<Sum>i<n. of_bool (bit (a div 2) i))"
    by (subst sum.lessThan_Suc_shift) (simp add: bit_Suc)
  then show ?case using Suc.IH [of "a div 2"] by (auto simp: and_single_bit bit_0)
qed simp

lemma bit_256_eq: "n < 8 \<Longrightarrow> bit (a mod 256 :: int) n = bit a n"
  using bit_take_bit_iff [of 8 a n] by (simp add: take_bit_eq_mod)

lemma parity_mod [simp]: "parity (a mod 256) = parity a"
  unfolding parity_def by (intro arg_cong [where f = odd] sum.cong) (simp_all add: bit_256_eq)

lemma parity_code: "parity_loop 8 (to_uchar v) False = parity v"
  using parity_mod [of v] by (simp only: parity_loop_sum to_uchar_def parity_def simp_thms)

lemma psw_parity_code:
  "byte pw \<Longrightarrow> (if parity v then pw OR (bmP mod 256) else pw AND NOT (bmP mod 256)) = psw_parity v pw"
  by (rule byte_eq8I)
    (auto simp: psw_parity_def bit_simps byte_and byte_or intro!: byte_intros)

subsection \<open>A core ready to execute\<close>

text \<open>
  The wiring \<open>mk_hw_elements\<close> leaves behind, as far as the core relies on it: the accumulator and
  the stack pointer watched by \<open>cl_uc51_dummy_hw\<close>, \<open>FMAP\<close> and \<open>MPAGE\<close> by the passive element, the
  other core registers and the internal, SRAM and flash cells by nothing, and no breakpoints there.
\<close>

definition wired :: "'z core51_scheme \<Rightarrow> bool" where
  "wired s \<longleftrightarrow>
     ops s acc = [Hw_op (slot s acc) Hw_dummy] \<and> ops s cell_sp = [Hw_op (slot s cell_sp) Hw_dummy]
     \<and> ops s (Cell Sfr 0x1f) = [Hw_op (slot s (Cell Sfr 0x1f)) Hw_radio]
     \<and> ops s (Cell Sfr 0x13) = [Hw_op (slot s (Cell Sfr 0x13)) Hw_radio]
     \<and> ops s psw = [] \<and> ops s (Cell Sfr 0x70) = [] \<and> ops s (Cell Sfr 0x02) = []
     \<and> ops s (Cell Sfr 0x03) = [] \<and> ops s (Cell Sfr 0x47) = []
     \<and> (\<forall>a i. a \<noteq> Sfr \<and> a \<noteq> Xram \<longrightarrow> ops s (Cell a i) = [])"

definition clocked :: "'z uc_scheme \<Rightarrow> bool" where
  "clocked s \<longleftrightarrow> Items (it_levels s) \<noteq> [] \<and> CFreed \<notin> set (Items (counters s))"

definition ready :: "'z core51_scheme \<Rightarrow> bool" where
  "ready s \<longleftrightarrow> mem_ok s \<and> wired s \<and> clocked s"

lemma wired_cong:
  "ops s' = ops s \<Longrightarrow> slot s' = slot s \<Longrightarrow> wired s' = wired s"
  by (simp add: wired_def)

lemma mem_ok_cong:
  "heap s' = heap s \<Longrightarrow> slot s' = slot s \<Longrightarrow> ops s' = ops s \<Longrightarrow> mem_ok s' = mem_ok s"
  by (simp add: mem_ok_def)

lemma ready_cong:
  assumes "heap s' = heap s" "slot s' = slot s" "ops s' = ops s" "it_levels s' = it_levels s"
    "counters s' = counters s"
  shows "ready s' = ready s"
  using wired_cong [OF assms(3,2)] mem_ok_cong [OF assms(1-3)] assms(4,5)
  by (simp add: ready_def clocked_def)

lemma get_cong:
  assumes "heap s' = heap s" "slot s' = slot s"
  shows "cell_get c s' = cell_get c s"
  using assms by (simp add: cell_get_def)

lemma ready_poke [simp]: "ready s \<Longrightarrow> byte v \<Longrightarrow> ready (poke c v s)"
proof -
  assume "ready s" "byte v"
  moreover have "clocked (poke c v s) = clocked s" by (simp add: clocked_def poke_def store_def)
  ultimately show ?thesis using wired_cong [of "poke c v s" s] by (simp add: ready_def)
qed

lemma ready_mem_ok [simp]: "ready s \<Longrightarrow> mem_ok s"
  by (simp add: ready_def)

lemma ready_ops [simp]:
  assumes "ready s"
  shows "ops s acc = [Hw_op (slot s acc) Hw_dummy]"
    "ops s cell_sp = [Hw_op (slot s cell_sp) Hw_dummy]"
    "ops s (Cell Sfr 0x1f) = [Hw_op (slot s (Cell Sfr 0x1f)) Hw_radio]"
    "ops s (Cell Sfr 0x13) = [Hw_op (slot s (Cell Sfr 0x13)) Hw_radio]"
    "ops s psw = []" "ops s (Cell Sfr 0x70) = []" "ops s (Cell Sfr 0x02) = []"
    "ops s (Cell Sfr 0x03) = []" "ops s (Cell Sfr 0x47) = []"
    "a \<noteq> Sfr \<Longrightarrow> a \<noteq> Xram \<Longrightarrow> ops s (Cell a i) = []"
  using assms by (simp_all add: ready_def wired_def)

lemma field_updates [simp]:
  "ready (s\<lparr>PC := x\<rparr>) = ready s" "cell_get c (s\<lparr>PC := x\<rparr>) = cell_get c s"
  "ready (s\<lparr>sp_max := y\<rparr>) = ready s" "cell_get c (s\<lparr>sp_max := y\<rparr>) = cell_get c s"
  "ready (s\<lparr>sp_avg := y\<rparr>) = ready s" "cell_get c (s\<lparr>sp_avg := y\<rparr>) = cell_get c s"
  "ready (s\<lparr>stack_ops := so\<rparr>) = ready s" "cell_get c (s\<lparr>stack_ops := so\<rparr>) = cell_get c s"
  "ready (s\<lparr>MovInstruction := b\<rparr>) = ready s" "cell_get c (s\<lparr>MovInstruction := b\<rparr>) = cell_get c s"
  by (rule ready_cong get_cong; simp)+

lemma poke_updates [simp]:
  "PC (poke c v s) = PC s" "poke c v (s\<lparr>PC := x\<rparr>) = (poke c v s)\<lparr>PC := x\<rparr>"
  "instPC (poke c v s) = instPC s" "stack_ops (poke c v s) = stack_ops s"
  "it_levels (poke c v s) = it_levels s" "counters (poke c v s) = counters s"
  by (simp_all add: poke_def store_def)

subsection \<open>Clock\<close>

definition ticked :: "int \<Rightarrow> 'z uc_scheme \<Rightarrow> 'z uc_scheme" where
  "ticked n s = s\<lparr>ticks := ticker_tick (n * 12) (ticks s),
     counters := (counters s)\<lparr>Items := the (tick_counters (list_top (it_levels s)) (n * 12)
                   (Items (counters s)))\<rparr>,
     inst_ticks := inst_ticks s + n\<rparr>"

lemma tick_counters_total:
  "CFreed \<notin> set cs \<Longrightarrow>
   \<exists>cs'. tick_counters (Some l) n cs = Some cs' \<and> CFreed \<notin> set cs' \<and> length cs' = length cs"
proof (induction cs)
  case (Cons c cs)
  then obtain cs' where "tick_counters (Some l) n cs = Some cs'" "CFreed \<notin> set cs'"
    "length cs' = length cs" by auto
  with Cons.prems show ?case by (cases c) auto
qed simp

lemma clocked_top: "clocked s \<Longrightarrow> \<exists>l. list_top (it_levels s) = Some l"
  by (cases "Items (it_levels s)") (auto simp: clocked_def list_top_def)

lemma tick51_eq [simp]: "ready s \<Longrightarrow> tick51 n s = Some (ticked n s)"
proof -
  assume "ready s"
  then have c: "clocked s" by (simp add: ready_def)
  then obtain l where "list_top (it_levels s) = Some l" using clocked_top by blast
  with tick_counters_total [of "Items (counters s)" l "n * 12"] c
  show ?thesis by (auto simp: tick51_def uc_tick_def ticked_def Let_def clocked_def)
qed

lemma ticked_fields [simp]:
  "heap (ticked n s) = heap s" "slot (ticked n s) = slot s" "ops (ticked n s) = ops s"
  "PC (ticked n s) = PC s" "instPC (ticked n s) = instPC s" "stack_ops (ticked n s) = stack_ops s"
  "it_levels (ticked n s) = it_levels s" "cell_get c (ticked n s) = cell_get c s"
  "errors (ticked n s) = errors s"
  by (simp_all add: ticked_def cell_get_def)

lemma ready_ticked [simp]: "ready s \<Longrightarrow> ready (ticked n s)"
proof -
  assume s: "ready s"
  then have c: "clocked s" by (simp add: ready_def)
  then obtain l where "list_top (it_levels s) = Some l" using clocked_top by blast
  with tick_counters_total [of "Items (counters s)" l "n * 12"] c
  have "clocked (ticked n s)" by (auto simp: clocked_def ticked_def)
  then show ?thesis
    using s wired_cong [of "ticked n s" s] mem_ok_cong [of "ticked n s" s] by (simp add: ready_def)
qed

subsection \<open>Operands\<close>

definition fetchable :: "'z uc_scheme \<Rightarrow> bool" where
  "fetchable s \<longleftrightarrow> 0 \<le> PC s \<and> code_cell (PC s) s \<noteq> None"

definition advanced :: "'z uc_scheme \<Rightarrow> 'z uc_scheme" where
  "advanced s = s\<lparr>PC := (PC s + 1) mod 0x10000\<rparr>"

definition code_byte :: "'z uc_scheme \<Rightarrow> int" where
  "code_byte s = cell_get (the (code_cell (PC s) s)) s"

definition reg_cell :: "int \<Rightarrow> 'z mem_scheme \<Rightarrow> cell" where
  "reg_cell n s = Cell Iram ((cell_get psw s AND 0x18) OR n mod 8)"

definition ind_cell :: "int \<Rightarrow> 'z mem_scheme \<Rightarrow> cell" where
  "ind_cell n s = Cell Iram (cell_get (reg_cell (n mod 2) s) s)"

definition direct_cell :: "int \<Rightarrow> cell" where
  "direct_cell a = (if a < 0x80 then Cell Iram a else Cell Sfr (a - 0x80))"

lemma advanced_simps [simp]:
  "cell_get c (advanced s) = cell_get c s" "PC (advanced s) = (PC s + 1) mod 0x10000"
  "ops (advanced s) = ops s" "slot (advanced s) = slot s" "it_levels (advanced s) = it_levels s"
  "stack_ops (advanced s) = stack_ops s" "instPC (advanced s) = instPC s"
  "errors (advanced s) = errors s"
  "reg_cell n (advanced s) = reg_cell n s" "ind_cell n (advanced s) = ind_cell n s"
  by (simp_all add: advanced_def cell_get_def reg_cell_def ind_cell_def)

lemma ready_advanced [simp]: "ready (advanced (s :: 'z core51_scheme)) = ready s"
  by (simp add: advanced_def)

lemma reg_cell_mask [simp]: "reg_cell (n AND 7) s = reg_cell n s"
  by (simp add: reg_cell_def and_7)

lemma code_byte_byte [simp]: "mem_ok s \<Longrightarrow> byte (code_byte s)"
  by (simp add: code_byte_def)

lemma get_cell_iram: "byte a \<Longrightarrow> get_cell Iram a s = (Cell Iram a, s)"
  by (simp add: get_cell_def out_of_space_def byte_def)

lemma get_direct_eq [simp]: "byte a \<Longrightarrow> get_direct a s = (direct_cell a, s)"
  by (simp add: get_direct_def get_cell_def out_of_space_def byte_def direct_cell_def)

lemma get_reg_eq [simp]: "mem_ok s \<Longrightarrow> get_reg n s = (reg_cell n s, s)"
proof -
  assume "mem_ok s"
  moreover have "byte (n mod 8)" using pos_mod_bound [of 8 n] by (simp add: byte_def)
  ultimately have "byte ((cell_get psw s AND 0x18) OR n mod 8)"
    by (simp add: byte_or byte_and)
  then show ?thesis by (simp add: get_reg_def reg_cell_def get_cell_iram and_7)
qed

lemma reg_cell_plain [simp]: "ready s \<Longrightarrow> ops s (reg_cell n s) = []"
  by (simp add: reg_cell_def)

lemma get_ind_eq [simp]: "ready s \<Longrightarrow> get_ind hw n s = Some (ind_cell n s, s)"
  by (simp add: get_ind_def ind_cell_def get_cell_iram and_one_eq reg_cell_def Let_def mod_mod_trivial)

lemma ind_cell_plain [simp]: "ready s \<Longrightarrow> ops s (ind_cell n s) = []"
  by (simp add: ind_cell_def)

lemma sfr_access:
  assumes "0x80 \<le> a" "a < 0x100"
  shows "as_get hw Sfr a s = Some (cell_get (Cell Sfr (a - 0x80)) s, s)"
    "as_read hw Sfr a s = cell_read hw (Cell Sfr (a - 0x80)) s"
    "as_write hw Sfr a v s = cell_write hw (Cell Sfr (a - 0x80)) v s"
    "as_wadd hw Sfr a v s = cell_wadd hw (Cell Sfr (a - 0x80)) v s"
    "as_set_bit1 Sfr a b s = poke (Cell Sfr (a - 0x80)) (cell_get (Cell Sfr (a - 0x80)) s OR b mod 256) s"
    "as_set_bit0 Sfr a b s =
       poke (Cell Sfr (a - 0x80)) (cell_get (Cell Sfr (a - 0x80)) s AND NOT (b mod 256)) s"
  using assms
  by (simp_all add: as_get_def leaf_get_def as_read_def leaf_read_def as_write_def leaf_write_def
      as_wadd_def as_set_bit1_def as_set_bit0_def out_of_space_def cells_at_def set_bits_poke)

lemma SFR_GET_C_eq [simp]: "SFR_GET_C hw s = Some (bit (cell_get psw s) 7, s)"
  by (simp add: SFR_GET_C_def sfr_access and_single_bit)

definition upd_bit :: "bool \<Rightarrow> int \<Rightarrow> int \<Rightarrow> int" where
  "upd_bit b m p = (if b then p OR m else p AND NOT m)"

lemma byte_upd_bit [simp]: "byte p \<Longrightarrow> byte m \<Longrightarrow> byte (upd_bit b m p)"
  by (simp add: upd_bit_def byte_or byte_and)

lemma SFR_SET_BIT_eq:
  "byte m \<Longrightarrow> SFR_SET_BIT b r_PSW m s = poke psw (upd_bit b m (cell_get psw s)) s"
  "SFR_SET_C b s = poke psw (upd_bit b bmCY (cell_get psw s)) s"
  by (simp_all add: SFR_SET_C_def SFR_SET_BIT_def sfr_access upd_bit_def)

text \<open>What the element on the stack pointer keeps of each value written to it.\<close>

definition track_sp :: "int \<Rightarrow> 'z core51_scheme \<Rightarrow> 'z core51_scheme" where
  "track_sp v s = s\<lparr>sp_max := max (sp_max s) v, sp_avg := (sp_avg s + v) sdiv 2\<rparr>"

lemma track_sp_fields [simp]:
  "heap (track_sp v s) = heap s" "slot (track_sp v s) = slot s" "ops (track_sp v s) = ops s"
  "PC (track_sp v s) = PC s" "instPC (track_sp v s) = instPC s" "errors (track_sp v s) = errors s"
  "stack_ops (track_sp v s) = stack_ops s" "it_levels (track_sp v s) = it_levels s"
  "counters (track_sp v s) = counters s" "cell_get c (track_sp v s) = cell_get c s"
  "ready (track_sp v s) = ready s"
  by (simp_all add: track_sp_def)

subsection \<open>The elements on the registers of the core\<close>

locale core_elements =
  fixes hw :: "'z core51_scheme hwif"
  assumes dummy_read: "hw_read hw Hw_dummy c s = Some (cell_get c s, s)"
    and dummy_write: "hw_write hw Hw_dummy c v s = dummy_hw_write c v s"
    and passive_read: "hw_read hw Hw_radio c s = Some (cell_get c s, s)"
    and passive_write: "hw_write hw Hw_radio c v s = Some (v, s)"
    and dummy_cath: "hw_cath hw Hw_dummy \<noteq> HW_PORT"
begin

lemma watched_read:
  assumes "ready s" "c \<in> {acc, cell_sp, Cell Sfr 0x1f, Cell Sfr 0x13}"
  shows "cell_read hw c s = Some (cell_get c s, s)"
  using assms by (auto simp: cell_read_def dummy_read passive_read)

lemma acc_read [simp]: "ready s \<Longrightarrow> cell_read hw acc s = Some (cell_get acc s, s)"
  by (simp add: watched_read)

lemma acc_read_skip [simp]:
  "ready s \<Longrightarrow> cell_read_skip hw HW_PORT acc s = Some (cell_get acc s, s)"
  using dummy_cath by (simp add: cell_read_skip_def dummy_read)

lemma acc_write [simp]:
  assumes "ready s"
  shows "cell_write hw acc v s = Some (v mod 256,
     poke acc (v mod 256) (poke psw (psw_parity v (cell_get psw s)) s))"
proof -
  have "dummy_hw_write acc (to_tmem v) s
      = Some (to_tmem v, poke psw (psw_parity v (cell_get psw s)) s)"
    using assms psw_parity_code [of "cell_get psw s" v] parity_mod [of "to_tmem v"] parity_mod [of v]
    by (auto simp: dummy_hw_write_def parity_code set_bits_poke)
  then show ?thesis
    using assms by (simp add: cell_write.simps dummy_write Let_def poke_def)
qed

lemma acc_wadd [simp]:
  "ready s \<Longrightarrow> cell_wadd hw acc v s = Some ((cell_get acc s + v) mod 256,
     poke acc ((cell_get acc s + v) mod 256)
       (poke psw (psw_parity (cell_get acc s + v) (cell_get psw s)) s))"
  by (simp add: cell_wadd_def psw_parity_def)

lemma sp_write:
  assumes "ready s" "byte v"
  shows "cell_write hw cell_sp v s = Some (v, poke cell_sp v (track_sp v s))"
  using assms
  by (simp add: cell_write.simps dummy_write dummy_hw_write_def Let_def poke_def track_sp_def max_def)

lemma sp_wadd [simp]:
  assumes "ready s"
  shows "as_wadd hw Sfr r_SP v s = Some ((cell_get cell_sp s + v) mod 256,
     poke cell_sp ((cell_get cell_sp s + v) mod 256) (track_sp ((cell_get cell_sp s + v) mod 256) s))"
  using sp_write [OF assms, of "(cell_get cell_sp s + v) mod 256"]
  by (simp add: sfr_access cell_wadd_def)

lemma sp_read [simp]:
  "ready s \<Longrightarrow> as_read hw Sfr r_SP s = Some (cell_get cell_sp s, s)"
  "as_get hw Sfr r_SP s = Some (cell_get cell_sp s, s)"
  by (simp_all add: sfr_access watched_read)

lemma fmap_watched: "ready s \<Longrightarrow> leaf_read hw Sfr r_FMAP s = Some (cell_get (Cell Sfr 0x1f) s, s)"
  by (simp add: leaf_read_def out_of_space_def watched_read)

lemma code_cell_plain: "ready s \<Longrightarrow> code_cell i s = Some c \<Longrightarrow> ops s c = []"
  by (auto simp: code_cell_def sram_cell_def flashbank.simps Let_def split: if_splits)

lemma rom_read_ready:
  assumes "ready s" "0 \<le> i" "code_cell i s = Some c"
  shows "as_read hw Rom i s = Some (cell_get c s, s)"
  using assms code_cell_plain [OF assms(1,3)]
  by (simp add: as_read_def rom_read_cell mcon_read fmap_watched)

lemma fetch_eq [simp]:
  assumes "ready s" "fetchable s"
  shows "fetch hw s = Some (code_byte s, advanced s)"
  using assms by (auto simp: fetch_def advanced_def fetchable_def code_byte_def rom_read_ready inc_address_eq)

end

interpretation c51: core_elements "core51_hwif other" for other
  by unfold_locales
    (simp_all add: core51_hwif_def default_hw_read_def radio_read_def radio_write_def)

subsection \<open>Concrete states\<close>

text \<open>
  A core with given cell contents and the wiring above, on which the witnesses are evaluated.
\<close>

definition boot51 :: "(cell \<Rightarrow> int) \<Rightarrow> core51" where
  "boot51 h = \<lparr>heap = (\<lambda>d. case d of Priv_slot c \<Rightarrow> h c | Chip_slot _ _ \<Rightarrow> 0), slot = Priv_slot,
     ops = (\<lambda>c. if c = acc \<or> c = cell_sp then [Hw_op (Priv_slot c) Hw_dummy]
       else if c = Cell Sfr 0x1f \<or> c = Cell Sfr 0x13 then [Hw_op (Priv_slot c) Hw_radio] else []),
     cflags = (\<lambda>_. 0), errors = [], events = [], inst_exec = False, instPC = 0,
     rand_src = (\<lambda>_. 0), rand_pos = 0, PC = 0, state = stGO,
     ticks = \<lparr>t_ticks = 0, t_options = 1, t_dir = 1, t_name = None\<rparr>, inst_ticks = 0,
     counters = \<lparr>Items = [], Limit = 2, Delta = 2\<rparr>, brk_counter = 0,
     fbrk = \<lparr>Items = [], Limit = 2, Delta = 2\<rparr>, ebrk = \<lparr>Items = [], Limit = 2, Delta = 2\<rparr>,
     it_sources = \<lparr>Items = [], Limit = 2, Delta = 2\<rparr>,
     it_levels = \<lparr>Items = [\<lparr>level = -1, il_addr = 0, il_PC = 0, il_source = None\<rparr>],
       Limit = 2, Delta = 2\<rparr>,
     stack_ops = \<lparr>Items = [], Limit = 2, Delta = 2\<rparr>, sp_max = 0, sp_avg = 0,
     hws = [(Hw_timer0, True), (Hw_timer1, True), (Hw_interrupt, True), (Hw_dummy, True)],
     sim_go = True, stop_at_it = False, result = resGO, cmos = True, MovInstruction = False,
     prev_p1 = 0, prev_p3 = 0, was_reti = False, bit_IT0 = False, bit_IT1 = False,
     bit_INT0 = True, bit_INT1 = True, port_pins = (\<lambda>_. 0xff), port_prev = (\<lambda>_. 0),
     timers = (\<lambda>_. \<lparr>t_mode = 0, t_GATE = False, t_C_T = False, t_TR = False, t_INT = True,
       t_T_edge = 0\<rparr>)\<rparr>"

lemma boot51_simps [simp]:
  "slot (boot51 h) = Priv_slot" "cell_get c (boot51 h) = h c" "PC (boot51 h) = 0"
  "heap (boot51 h) (Priv_slot c) = h c" "instPC (boot51 h) = 0"
  "it_levels (boot51 h) = \<lparr>Items = [\<lparr>level = -1, il_addr = 0, il_PC = 0, il_source = None\<rparr>],
     Limit = 2, Delta = 2\<rparr>"
  "counters (boot51 h) = \<lparr>Items = [], Limit = 2, Delta = 2\<rparr>"
  "stack_ops (boot51 h) = \<lparr>Items = [], Limit = 2, Delta = 2\<rparr>"
  by (simp_all add: boot51_def cell_get_def)

lemma boot51_ops: "ops (boot51 h) c = (if c = acc \<or> c = cell_sp then [Hw_op (Priv_slot c) Hw_dummy]
   else if c = Cell Sfr 0x1f \<or> c = Cell Sfr 0x13 then [Hw_op (Priv_slot c) Hw_radio] else [])"
  by (simp add: boot51_def)

lemma boot51_ready [simp]: "(\<And>c. byte (h c)) \<Longrightarrow> ready (boot51 h)"
proof -
  assume h: "\<And>c. byte (h c)"
  have "byte (heap (boot51 h) d)" for d using h by (simp add: boot51_def split: mslot.split)
  then have "mem_ok (boot51 h)" unfolding mem_ok_def boot51_simps boot51_ops by (simp add: inj_def)
  moreover have "wired (boot51 h)" unfolding wired_def boot51_simps boot51_ops by simp
  moreover have "clocked (boot51 h)" by (simp add: clocked_def)
  ultimately show ?thesis unfolding ready_def by blast
qed

lemma boot51_fetchable [simp]: "fetchable (boot51 h)"
  by (simp add: fetchable_def code_cell_def)

lemma boot51_code_byte [simp]: "code_byte (boot51 h) = h (Cell Flashbank0 0)"
  by (simp add: code_byte_def code_cell_def)

end
