(* ===== verification/Arith51.thy ===== *)
theory Arith51
  imports Core51
begin

text \<open>
  The arithmetic instructions (\<open>arith.cc\<close>): rotates, ADD, ADDC, SUBB, MUL, DIV and DA. The
  four addressing modes of an instruction share the flag computation written out in each of them
  in the source; it is stated once here (\<open>add_tail\<close>, \<open>subb_psw\<close>).
\<close>

definition inst_rr :: "'z core_hw \<Rightarrow> uchar \<Rightarrow> (int, 'z) act" where
  "inst_rr hw code s = do {
     (a, s) \<leftarrow> cell_read hw acc s;
     let ac = to_uchar a;
     (_, s) \<leftarrow> (if ac AND 0x01 \<noteq> 0 then cell_write hw acc ((ac div 2) OR 0x80) s
               else cell_write hw acc (ac div 2) s);
     Some (resGO, s)
   }"

definition inst_rrc :: "'z core_hw \<Rightarrow> uchar \<Rightarrow> (int, 'z) act" where
  "inst_rrc hw code s = do {
     (cy, s) \<leftarrow> SFR_GET_C hw s;
     (a, s) \<leftarrow> cell_read hw acc s;
     let ac = to_uchar a;
     let s = SFR_SET_C (ac AND 0x01 \<noteq> 0) s;
     let ac = ac div 2;
     let ac = (if cy then ac OR 0x80 else ac);
     (_, s) \<leftarrow> as_write hw Sfr r_ACC ac s;
     Some (resGO, s)
   }"

definition inst_rl :: "'z core_hw \<Rightarrow> uchar \<Rightarrow> (int, 'z) act" where
  "inst_rl hw code s = do {
     (a, s) \<leftarrow> cell_read hw acc s;
     let ac = to_uchar a;
     (_, s) \<leftarrow> (if ac AND 0x80 \<noteq> 0 then cell_write hw acc ((ac * 2) OR 0x01) s
               else cell_write hw acc (ac * 2) s);
     Some (resGO, s)
   }"

definition inst_rlc :: "'z core_hw \<Rightarrow> uchar \<Rightarrow> (int, 'z) act" where
  "inst_rlc hw code s = do {
     (cy, s) \<leftarrow> SFR_GET_C hw s;
     let ac = to_uchar (cell_get acc s);
     let s = SFR_SET_C (ac AND 0x80 \<noteq> 0) s;
     let ac = to_uchar (ac * 2);
     let ac = (if cy then ac OR 0x01 else ac);
     (_, s) \<leftarrow> cell_write hw acc ac s;
     Some (resGO, s)
   }"

subsection \<open>ADD and ADDC\<close>

definition add_tail :: "'z core_hw \<Rightarrow> uchar \<Rightarrow> uchar \<Rightarrow> bool \<Rightarrow> (int, 'z) act" where
  "add_tail hw ac data orgC s = do {
     let c = (if orgC then 1 else 0);
     let newC = (255 < ac + data + c);
     let newA = ((ac AND 0x0f) + (data AND 0x0f) + c) AND 0xf0 \<noteq> 0;
     let c6 = ((ac AND 0x7f) + (data AND 0x7f) + c) AND 0x80 \<noteq> 0;
     (_, s) \<leftarrow> cell_write hw acc (ac + data + c) s;
     let s = SFR_SET_C newC s;
     let s = SFR_SET_BIT (newC \<noteq> c6) r_PSW bmOV s;
     let s = SFR_SET_BIT newA r_PSW bmAC s;
     Some (resGO, s)
   }"

definition inst_add_a_Sdata :: "'z core_hw \<Rightarrow> uchar \<Rightarrow> (int, 'z) act" where
  "inst_add_a_Sdata hw code s = do {
     (d, s) \<leftarrow> fetch hw s;
     let data = to_uchar d;
     (a, s) \<leftarrow> cell_read hw acc s;
     let ac = to_uchar a;
     add_tail hw ac data False s
   }"

definition inst_add_a_addr :: "'z core_hw \<Rightarrow> uchar \<Rightarrow> (int, 'z) act" where
  "inst_add_a_addr hw code s = do {
     (a, s) \<leftarrow> fetch hw s;
     let (cell, s) = get_direct a s;
     (d, s) \<leftarrow> cell_read hw cell s;
     let data = to_uchar d;
     let ac = to_uchar (cell_get acc s);
     add_tail hw ac data False s
   }"

definition inst_add_a_Sri :: "'z core_hw \<Rightarrow> uchar \<Rightarrow> (int, 'z) act" where
  "inst_add_a_Sri hw code s = do {
     (cell, s) \<leftarrow> get_ind hw code s;
     let ac = to_uchar (cell_get acc s);
     (d, s) \<leftarrow> cell_read hw cell s;
     let data = to_uchar d;
     add_tail hw ac data False s
   }"

definition inst_add_a_rn :: "'z core_hw \<Rightarrow> uchar \<Rightarrow> (int, 'z) act" where
  "inst_add_a_rn hw code s = do {
     let (cell, s) = get_reg (code AND 0x07) s;
     (d, s) \<leftarrow> cell_read hw cell s;
     let data = to_uchar d;
     let ac = to_uchar (cell_get acc s);
     add_tail hw ac data False s
   }"

definition inst_addc_a_Sdata :: "'z core_hw \<Rightarrow> uchar \<Rightarrow> (int, 'z) act" where
  "inst_addc_a_Sdata hw code s = do {
     (d, s) \<leftarrow> fetch hw s;
     let data = to_uchar d;
     let ac = to_uchar (cell_get acc s);
     (orgC, s) \<leftarrow> SFR_GET_C hw s;
     add_tail hw ac data orgC s
   }"

definition inst_addc_a_addr :: "'z core_hw \<Rightarrow> uchar \<Rightarrow> (int, 'z) act" where
  "inst_addc_a_addr hw code s = do {
     (a, s) \<leftarrow> fetch hw s;
     let (cell, s) = get_direct a s;
     (d, s) \<leftarrow> cell_read hw cell s;
     let data = to_uchar d;
     let ac = to_uchar (cell_get acc s);
     (orgC, s) \<leftarrow> SFR_GET_C hw s;
     add_tail hw ac data orgC s
   }"

definition inst_addc_a_Sri :: "'z core_hw \<Rightarrow> uchar \<Rightarrow> (int, 'z) act" where
  "inst_addc_a_Sri hw code s = do {
     (cell, s) \<leftarrow> get_ind hw code s;
     let ac = to_uchar (cell_get acc s);
     (d, s) \<leftarrow> cell_read hw cell s;
     let data = to_uchar d;
     (orgC, s) \<leftarrow> SFR_GET_C hw s;
     add_tail hw ac data orgC s
   }"

definition inst_addc_a_rn :: "'z core_hw \<Rightarrow> uchar \<Rightarrow> (int, 'z) act" where
  "inst_addc_a_rn hw code s = do {
     let (cell, s) = get_reg (code AND 0x07) s;
     (d, s) \<leftarrow> cell_read hw cell s;
     let data = to_uchar d;
     let ac = to_uchar (cell_get acc s);
     (orgC, s) \<leftarrow> SFR_GET_C hw s;
     add_tail hw ac data orgC s
   }"

subsection \<open>DIV, SUBB, MUL and DA\<close>

definition inst_div_ab :: "'z core_hw \<Rightarrow> uchar \<Rightarrow> (int, 'z) act" where
  "inst_div_ab hw code s = do {
     let pw = to_uchar (cell_get psw s);
     let pw = pw AND NOT bmCY;
     (b, s) \<leftarrow> as_get hw Sfr r_B s;
     let b = to_uchar b;
     (pw, s) \<leftarrow> (if b = 0 then Some (pw OR bmOV, s)
        else do {
          let pw = pw AND NOT bmOV;
          let ac = to_uchar (cell_get acc s);
          let temp = ac div b;
          (_, s) \<leftarrow> as_write hw Sfr r_B (ac mod b) s;
          (_, s) \<leftarrow> cell_write hw acc temp s;
          Some (pw, s)
        });
     (_, s) \<leftarrow> cell_write hw psw pw s;
     s \<leftarrow> tick51 3 s;
     Some (resGO, s)
   }"

definition subb_result :: "uchar \<Rightarrow> uchar \<Rightarrow> uchar \<Rightarrow> uchar" where
  "subb_result ac data c =
     (let r = to_uchar (ac - data) in if c \<noteq> 0 then to_uchar (r - 1) else r)"

definition subb_psw :: "uchar \<Rightarrow> uchar \<Rightarrow> uchar \<Rightarrow> uchar \<Rightarrow> uchar \<Rightarrow> int" where
  "subb_psw pw ac data c res =
     (pw AND NOT (bmCY OR bmOV OR bmAC)) OR
     (if ac < data + c then bmCY else 0) OR
     (if (ac < 0x80 \<and> 0x7f < data \<and> 0x7f < res) \<or>
         (0x7f < ac \<and> data < 0x80 \<and> res < 0x80) then bmOV else 0) OR
     (if (ac AND 0x0f) < ((data + c) AND 0x0f) \<or> (c \<noteq> 0 \<and> data AND 0x0f = 0x0f)
      then bmAC else 0)"

definition inst_subb_a_Sdata :: "'z core_hw \<Rightarrow> uchar \<Rightarrow> (int, 'z) act" where
  "inst_subb_a_Sdata hw code s = do {
     (d, s) \<leftarrow> fetch hw s;
     let data = to_uchar d;
     let ac = to_uchar (cell_get acc s);
     let pw = to_uchar (cell_get psw s);
     let c = (if pw AND bmCY \<noteq> 0 then 1 else 0);
     let res = subb_result ac data c;
     (_, s) \<leftarrow> cell_write hw acc res s;
     (_, s) \<leftarrow> cell_write hw psw (subb_psw pw ac data c res) s;
     Some (resGO, s)
   }"

definition inst_subb_a_addr :: "'z core_hw \<Rightarrow> uchar \<Rightarrow> (int, 'z) act" where
  "inst_subb_a_addr hw code s = do {
     (a, s) \<leftarrow> fetch hw s;
     let (cell, s) = get_direct a s;
     let ac = to_uchar (cell_get acc s);
     (d, s) \<leftarrow> cell_read hw cell s;
     let data = to_uchar d;
     let pw = to_uchar (cell_get psw s);
     let c = (if pw AND bmCY \<noteq> 0 then 1 else 0);
     let res = subb_result ac data c;
     (_, s) \<leftarrow> cell_write hw acc res s;
     let (_, s) = cell_set psw (subb_psw pw ac data c res) s;
     Some (resGO, s)
   }"

definition inst_subb_a_Sri :: "'z core_hw \<Rightarrow> uchar \<Rightarrow> (int, 'z) act" where
  "inst_subb_a_Sri hw code s = do {
     (cell, s) \<leftarrow> get_ind hw code s;
     (d, s) \<leftarrow> cell_read hw cell s;
     let data = to_uchar d;
     let ac = to_uchar (cell_get acc s);
     let pw = to_uchar (cell_get psw s);
     let c = (if pw AND bmCY \<noteq> 0 then 1 else 0);
     let res = subb_result ac data c;
     (_, s) \<leftarrow> cell_write hw acc res s;
     (_, s) \<leftarrow> cell_write hw psw (subb_psw pw ac data c res) s;
     Some (resGO, s)
   }"

definition inst_subb_a_rn :: "'z core_hw \<Rightarrow> uchar \<Rightarrow> (int, 'z) act" where
  "inst_subb_a_rn hw code s = do {
     let (cell, s) = get_reg (code AND 0x07) s;
     (d, s) \<leftarrow> cell_read hw cell s;
     let data = to_uchar d;
     let ac = to_uchar (cell_get acc s);
     let pw = to_uchar (cell_get psw s);
     let c = (if pw AND bmCY \<noteq> 0 then 1 else 0);
     let res = subb_result ac data c;
     (_, s) \<leftarrow> cell_write hw acc res s;
     (_, s) \<leftarrow> cell_write hw psw (subb_psw pw ac data c res) s;
     Some (resGO, s)
   }"

definition inst_mul_ab :: "'z core_hw \<Rightarrow> uchar \<Rightarrow> (int, 'z) act" where
  "inst_mul_ab hw code s = do {
     (ac, s) \<leftarrow> cell_read hw acc s;
     (b, s) \<leftarrow> as_get hw Sfr r_B s;
     let temp = ac * b;
     (_, s) \<leftarrow> cell_write hw acc (temp AND 0xff) s;
     (x, s) \<leftarrow> as_write hw Sfr r_B (temp div 256 AND 0xff) s;
     let s = SFR_SET_BIT (x \<noteq> 0) r_PSW bmOV s;
     let s = SFR_SET_BIT False r_PSW bmCY s;
     s \<leftarrow> tick51 3 s;
     Some (resGO, s)
   }"

definition da_adjust :: "uchar \<Rightarrow> uchar \<Rightarrow> uchar \<times> uchar" where
  "da_adjust ac pw =
     (let (ac, pw) =
        (if 9 < ac AND 0x0f \<or> pw AND bmAC \<noteq> 0
         then (to_uchar (ac + 0x06), if 255 < ac + 0x06 then pw OR bmCY else pw) else (ac, pw))
      in if 0x90 < ac AND 0xf0 \<or> pw AND bmCY \<noteq> 0
         then (to_uchar (ac + 0x60), if 255 < ac + 0x60 then pw OR bmCY else pw) else (ac, pw))"

definition inst_da_a :: "'z core_hw \<Rightarrow> uchar \<Rightarrow> (int, 'z) act" where
  "inst_da_a hw code s = do {
     let ac = to_uchar (cell_get acc s);
     let pw = to_uchar (cell_get psw s);
     let (ac, pw) = da_adjust ac pw;
     (_, s) \<leftarrow> cell_write hw acc ac s;
     (_, s) \<leftarrow> cell_write hw psw pw s;
     Some (resGO, s)
   }"

end
