(* ===== verification/Arith51Facts.thy ===== *)
theory Arith51Facts
  imports Core51Facts Arith51
begin

text \<open>
  The arithmetic instructions against their specification: results modulo 256, carry, half carry
  and signed overflow as statements about sums and differences, parity of the accumulator.
\<close>

subsection \<open>Addition\<close>

definition carry :: "bool \<Rightarrow> int" where "carry c = (if c then 1 else 0)"

definition add_flags :: "int \<Rightarrow> int \<Rightarrow> bool \<Rightarrow> int \<Rightarrow> int" where
  "add_flags a d c pw =
     psw_flags (256 \<le> a + d + carry c) (16 \<le> a mod 16 + d mod 16 + carry c)
       (to_schar a + to_schar d + carry c \<notin> {-128..127}) (parity (a + d + carry c)) pw"

definition add_result :: "int \<Rightarrow> bool \<Rightarrow> 'z core51_scheme \<Rightarrow> 'z core51_scheme" where
  "add_result d c s =
     (let a = cell_get acc s in
      poke psw (add_flags a d c (cell_get psw s)) (poke acc ((a + d + carry c) mod 256) s))"

lemma carry_bounds: "0 \<le> carry c" "carry c \<le> 1"
  by (simp_all add: carry_def)

lemma mod_128:
  assumes "byte a"
  shows "a mod 128 = (if a < 128 then a else a - 128)"
proof (cases "a < 128")
  case False
  have "(a - 128) mod 128 = a mod 128" by (rule minus_mod_self2)
  moreover have "(a - 128) mod 128 = a - 128"
    using assms False by (intro mod_pos_pos_trivial) (auto simp: byte_def)
  ultimately show ?thesis using False by simp
qed (use assms in \<open>simp add: byte_def\<close>)

lemma to_schar_byte: "byte a \<Longrightarrow> to_schar a = (if a < 128 then a else a - 256)"
  by (simp add: to_schar_def Let_def)

lemma half_carry_code:
  "((a AND 0x0f) + (d AND 0x0f) + carry c) AND 0xf0 \<noteq> 0 \<longleftrightarrow> 16 \<le> a mod 16 + d mod 16 + carry c"
proof -
  let ?x = "a mod 16 + d mod 16 + carry c"
  have "0 \<le> ?x" "?x < 256"
    using carry_bounds [of c] pos_mod_bound [of 16 a] pos_mod_bound [of 16 d] by simp_all
  then have "?x div 16 mod 16 = ?x div 16" by simp
  moreover have "?x div 16 = 0 \<longleftrightarrow> ?x < 16" using \<open>0 \<le> ?x\<close> by (auto simp: zdiv_eq_0_iff)
  ultimately show ?thesis by (simp only: and_15 and_240) auto
qed

lemma carry6_code:
  "((a AND 0x7f) + (d AND 0x7f) + carry c) AND 0x80 \<noteq> 0 \<longleftrightarrow> 128 \<le> a mod 128 + d mod 128 + carry c"
proof -
  let ?x = "a mod 128 + d mod 128 + carry c"
  have "0 \<le> ?x" "?x < 256"
    using carry_bounds [of c] pos_mod_bound [of 128 a] pos_mod_bound [of 128 d] by simp_all
  then have "byte ?x" by (simp add: byte_def)
  then show ?thesis by (simp add: and_127 and_single_bit byte_bit_7)
qed

lemma overflow_code:
  assumes "byte a" "byte d"
  shows "(255 < a + d + carry c) \<noteq> (128 \<le> a mod 128 + d mod 128 + carry c)
     \<longleftrightarrow> to_schar a + to_schar d + carry c \<notin> {-128..127}"
  using carry_bounds [of c] byteD [OF assms(1)] byteD [OF assms(2)]
  by (auto simp: mod_128 to_schar_byte assms)

lemma set_bits_flags:
  "byte pw \<Longrightarrow>
   upd_bit hc bmAC (upd_bit ov bmOV (upd_bit cy bmCY (psw_parity r pw)))
     = psw_flags cy hc ov (parity r) pw"
  by (rule byte_eq8I, simp, simp, simp_all add: upd_bit_def psw_flags_def psw_parity_def bit_simps)

subsection \<open>Subtraction\<close>

text \<open>
  SUBB takes the PSW before it writes the accumulator and puts it back afterwards: carry, half
  carry and overflow are those of the difference, the parity flag is the one of the old
  accumulator.
\<close>

definition subb_flags :: "int \<Rightarrow> int \<Rightarrow> bool \<Rightarrow> int \<Rightarrow> int" where
  "subb_flags a d c pw =
     psw_flags (a < d + carry c) (a mod 16 < d mod 16 + carry c)
       (to_schar a - to_schar d - carry c \<notin> {-128..127}) (bit pw 0) pw"

definition subb_done :: "int \<Rightarrow> 'z core51_scheme \<Rightarrow> 'z core51_scheme" where
  "subb_done d s =
     (let a = cell_get acc s; c = bit (cell_get psw s) 7 in
      poke psw (subb_flags a d c (cell_get psw s)) (poke acc ((a - d - carry c) mod 256) s))"

lemma byte_subb_flags [simp]: "byte (subb_flags a d c pw)"
  by (simp add: subb_flags_def)

lemma subb_result_eq: "subb_result a d (carry c) = (a - d - carry c) mod 256"
  by (simp add: subb_result_def to_uchar_def carry_def Let_def mod_diff_left_eq)

lemma subb_half_carry:
  assumes "byte d"
  shows "(a AND 0x0f) < ((d + carry c) AND 0x0f) \<or> (carry c \<noteq> 0 \<and> d AND 0x0f = 0x0f)
     \<longleftrightarrow> a mod 16 < d mod 16 + carry c"
proof (cases c)
  case True
  have "d mod 16 = 15 \<or> (d + 1) mod 16 = d mod 16 + 1"
  proof (cases "d mod 16 = 15")
    case False
    then have "(d mod 16 + 1) mod 16 = d mod 16 + 1"
      using pos_mod_bound [of 16 d] by (intro mod_pos_pos_trivial) auto
    then show ?thesis by (simp add: mod_simps)
  qed simp
  then show ?thesis
    using True pos_mod_bound [of 16 a] by (auto simp: carry_def and_15)
qed (simp add: carry_def and_15)

lemma subb_mod:
  assumes "byte a" "byte d"
  shows "(a - d - carry c) mod 256 = (if a < d + carry c then a - d - carry c + 256 else a - d - carry c)"
proof (cases "a < d + carry c")
  case True
  have "(a - d - carry c) mod 256 = (a - d - carry c + 256) mod 256" by simp
  also have "\<dots> = a - d - carry c + 256"
    using assms True carry_bounds [of c] by (intro mod_pos_pos_trivial) (auto simp: byte_def)
  finally show ?thesis using True by simp
next
  case False
  then show ?thesis using assms carry_bounds [of c]
    by (auto simp: byte_def intro!: mod_pos_pos_trivial)
qed

lemma subb_overflow:
  assumes "byte a" "byte d" and r: "r = (a - d - carry c) mod 256"
  shows "(a < 0x80 \<and> 0x7f < d \<and> 0x7f < r) \<or> (0x7f < a \<and> d < 0x80 \<and> r < 0x80)
     \<longleftrightarrow> to_schar a - to_schar d - carry c \<notin> {-128..127}"
  using carry_bounds [of c] byteD [OF assms(1)] byteD [OF assms(2)]
  by (auto simp: r subb_mod to_schar_byte assms(1,2))

lemma flags_replace:
  "byte pw \<Longrightarrow> (pw AND NOT (bmCY OR bmOV OR bmAC)) OR (if cy then bmCY else 0) OR
     (if ov then bmOV else 0) OR (if hc then bmAC else 0) = psw_flags cy hc ov (bit pw 0) pw"
  by (rule byte_eq8I, (intro byte_or byte_and byte_if; simp), simp,
      simp_all add: psw_flags_def bit_simps)

lemma subb_psw_eq:
  assumes "byte pw" "byte a" "byte d"
  shows "subb_psw pw a d (carry c) ((a - d - carry c) mod 256) = subb_flags a d c pw"
  unfolding subb_psw_def subb_flags_def subb_half_carry [OF assms(3)]
    subb_overflow [OF assms(2,3) refl] flags_replace [OF assms(1)] ..

subsection \<open>Multiplication, division, decimal adjust\<close>

abbreviation "cell_b \<equiv> Cell Sfr 0x70"

definition mul_done :: "'z core51_scheme \<Rightarrow> 'z core51_scheme" where
  "mul_done s =
     (let p = cell_get acc s * cell_get cell_b s; pw = cell_get psw s in
      poke psw (psw_flags False (bit pw 6) (255 < p) (parity p) pw)
        (poke cell_b (p div 256) (poke acc (p mod 256) s)))"

definition div_done :: "'z core51_scheme \<Rightarrow> 'z core51_scheme" where
  "div_done s =
     (let a = cell_get acc s; b = cell_get cell_b s; pw = cell_get psw s;
          pw' = psw_flags False (bit pw 6) (b = 0) (bit pw 0) pw in
      if b = 0 then poke psw pw' s
      else poke psw pw' (poke acc (a div b) (poke cell_b (a mod b) s)))"

definition da_done :: "'z core51_scheme \<Rightarrow> 'z core51_scheme" where
  "da_done s = (let (a, pw) = da_adjust (cell_get acc s) (cell_get psw s)
     in poke psw pw (poke acc a s))"

lemma byte_da_adjust:
  "byte a \<Longrightarrow> byte pw \<Longrightarrow> byte (fst (da_adjust a pw)) \<and> byte (snd (da_adjust a pw))"
  by (auto simp: da_adjust_def Let_def byte_or)

lemma mul_bounds: "byte a \<Longrightarrow> byte b \<Longrightarrow> 0 \<le> a * b \<and> a * b div 256 < 256"
  using mult_mono [of a 255 b 255] by (auto simp: byte_def)

lemma mul_flags:
  "byte pw \<Longrightarrow> upd_bit False bmCY (upd_bit ov bmOV (psw_parity p pw))
     = psw_flags False (bit pw 6) ov (parity p) pw"
  by (rule byte_eq8I, simp, simp, simp_all add: upd_bit_def psw_flags_def psw_parity_def bit_simps)

lemma div_flags:
  assumes "byte pw"
  shows "(pw AND NOT bmCY) OR bmOV = psw_flags False (bit pw 6) True (bit pw 0) pw"
    and "(pw AND NOT bmCY) AND NOT bmOV = psw_flags False (bit pw 6) False (bit pw 0) pw"
  using assms by (rule_tac [!] byte_eq8I)
    (simp_all add: byte_and byte_or psw_flags_def bit_simps)

lemma psw_parity_mod [simp]: "psw_parity (x mod 256) pw = psw_parity x pw"
  by (simp add: psw_parity_def)

lemma byte_div [simp]: "byte a \<Longrightarrow> byte b \<Longrightarrow> byte (a div b)"
  using zdiv_mono2 [of a 1 b] by (cases "b = 0") (auto simp: byte_def pos_imp_zdiv_nonneg_iff)

lemma byte_mod_byte [simp]:
  assumes "byte a" "byte b"
  shows "byte (a mod b)"
proof (cases "b = 0")
  case False
  then have "0 < b" "b < 256" using assms by (auto simp: byte_def)
  then have "0 \<le> a mod b" "a mod b < 256" using pos_mod_bound [of b a] by (simp, linarith)
  then show ?thesis by (rule byteI)
qed (use assms in simp)

subsection \<open>Rotates\<close>

text \<open>The rotates move the bits of the accumulator by one place, through the carry or not.\<close>

definition rot_right :: "bool \<Rightarrow> int \<Rightarrow> int" where
  "rot_right c a = a div 2 + (if c then 128 else 0)"

definition rot_left :: "bool \<Rightarrow> int \<Rightarrow> int" where
  "rot_left c a = (2 * a) mod 256 + (if c then 1 else 0)"

definition rotated :: "int \<Rightarrow> bool \<Rightarrow> 'z core51_scheme \<Rightarrow> 'z core51_scheme" where
  "rotated a c s = poke psw (psw_parity a (upd_bit c bmCY (cell_get psw s))) (poke acc a s)"

lemma half_byte: "byte a \<Longrightarrow> byte (a div 2)" "byte a \<Longrightarrow> a div 2 < 128"
  unfolding byte_def by presburger+

lemma shr_or_128: "byte a \<Longrightarrow> a div 2 OR 128 = a div 2 + 128"
proof -
  assume "byte a"
  then have "byte (a div 2)" "a div 2 < 128" by (rule half_byte)+
  then have "a div 2 AND 128 = 0" by (simp add: and_single_bit byte_bit_7)
  then show ?thesis by (simp add: disjunctive_add_eq_or)
qed

lemma shl_or_1: "(2 * a) mod 256 OR 1 = (2 * a) mod 256 + (1 :: int)"
proof -
  have "even ((2 * a) mod 256)" by (rule dvd_mod) simp_all
  then have "(2 * a) mod 256 AND 1 = 0" by (simp add: and_one_eq)
  then show ?thesis by (simp add: disjunctive_add_eq_or)
qed

lemma rl_byte:
  "(2 * a OR 1) mod 256 = (2 * a) mod 256 + (1 :: int)"
  "psw_parity (2 * a OR 1) w = psw_parity ((2 * a) mod 256 + 1) w"
proof -
  show "(2 * a OR 1) mod 256 = (2 * a) mod 256 + 1"
    using take_bit_or [of 8 "2 * a" 1] shl_or_1 [of a] by (simp add: take_bit_eq_mod mult.commute)
  then show "psw_parity (2 * a OR 1) w = psw_parity ((2 * a) mod 256 + 1) w"
    by (metis psw_parity_mod)
qed

lemma double_mod: "byte a \<Longrightarrow> (2 * a) mod 256 = 2 * a - (if bit a 7 then 256 else 0)"
proof (cases "bit a 7")
  case True
  assume a: "byte a"
  have "(2 * a) mod 256 = (2 * a - 256) mod 256" by (rule minus_mod_self2 [symmetric])
  also have "\<dots> = 2 * a - 256"
    using a True by (intro mod_pos_pos_trivial) (auto simp: byte_def byte_bit_7)
  finally show ?thesis using True by simp
qed (auto simp: byte_def byte_bit_7)

lemma even_double_mod: "even ((2 * a) mod (256 :: int))"
  by (rule dvd_mod) simp_all

lemma byte_rot [simp]: "byte a \<Longrightarrow> byte (rot_right c a)" "byte (rot_left c a)"
proof -
  show "byte a \<Longrightarrow> byte (rot_right c a)"
    using half_byte [of a] by (auto simp: rot_right_def byte_def)
  have "(2 * a) mod 256 \<noteq> 255" using even_double_mod [of a] by auto
  then have "(2 * a) mod 256 < 255" using pos_mod_bound [of 256 "2 * a"] by simp
  then show "byte (rot_left c a)" by (auto simp: rot_left_def byte_def)
qed

lemma rot_carry_out: "byte a \<Longrightarrow> bit (rot_right c a) 7 = c" "odd (rot_left c a) = c"
proof -
  show "bit (rot_right c a) 7 = c" if a: "byte a"
    using half_byte [OF a] byte_bit_7 [OF byte_rot(1) [OF a, of c]]
    by (auto simp: rot_right_def byte_def)
  show "odd (rot_left c a) = c" using even_double_mod [of a] by (simp add: rot_left_def)
qed

lemma rot_inverse:
  assumes a: "byte a"
  shows "rot_left (odd a) (rot_right c a) = a" and "rot_right (bit a 7) (rot_left c a) = a"
proof -
  have "2 * rot_right c a = 2 * (a div 2) + (if c then 256 else 0)" by (simp add: rot_right_def)
  moreover have "(2 * (a div 2)) mod 256 = 2 * (a div 2)"
    using half_byte [OF a] by (intro mod_pos_pos_trivial) (auto simp: byte_def)
  ultimately have "(2 * rot_right c a) mod 256 = 2 * (a div 2)" by simp
  moreover have "2 * (a div 2) + (if odd a then 1 else 0) = a" by presburger
  ultimately show "rot_left (odd a) (rot_right c a) = a" unfolding rot_left_def by simp
  have "(2 * a - (if b then 256 else 0) + (if c then 1 else 0)) div 2 + (if b then 128 else 0) = a"
    for b :: bool by (cases b; cases c) simp_all
  then show "rot_right (bit a 7) (rot_left c a) = a"
    unfolding rot_right_def rot_left_def double_mod [OF a] .
qed

lemma upd_bit_same: "byte p \<Longrightarrow> upd_bit (bit p 7) bmCY p = p"
  by (rule byte_eq8I, simp, simp) (auto simp: upd_bit_def bit_simps)

subsection \<open>Packed decimals\<close>

definition bcd :: "int \<Rightarrow> int" where
  "bcd n = 16 * (n div 10 mod 10) + n mod 10"

definition da_bits :: "int \<Rightarrow> bool \<Rightarrow> bool \<Rightarrow> int \<times> bool" where
  "da_bits a hc cy =
     (let (a, cy) = (if 9 < a mod 16 \<or> hc then ((a + 6) mod 256, cy \<or> 255 < a + 6) else (a, cy))
      in if 9 < a div 16 \<or> cy then ((a + 0x60) mod 256, cy \<or> 255 < a + 0x60) else (a, cy))"

definition carried :: "bool \<Rightarrow> int \<Rightarrow> int" where
  "carried cy p = (if cy then p OR bmCY else p)"

lemma high_nibble: "byte a \<Longrightarrow> 0x90 < a AND 0xf0 \<longleftrightarrow> 9 < a div 16"
proof -
  assume "byte a"
  then have "0 \<le> a div 16" "a div 16 < 16"
    using zdiv_mono1 [of a 255 16] by (auto simp: byte_def pos_imp_zdiv_nonneg_iff)
  then show ?thesis unfolding and_240 by simp
qed

lemma carried_simps [simp]:
  "bit (carried c p) 7 = (c \<or> bit p 7)" 
  "carried b (carried c p) = carried (b \<or> c) p"
  by (simp_all add: carried_def bit_simps or.assoc)

lemma da_adjust_bits:
  assumes a: "byte a" and p: "byte p"
  shows "da_adjust a p = (let (a', cy) = da_bits a (bit p 6) (bit p 7)
     in (a', upd_bit cy bmCY p))"
proof -
  define x where "x = (if 9 < a mod 16 \<or> bit p 6 then (a + 6) mod 256 else a)"
  define k where "k = ((9 < a mod 16 \<or> bit p 6) \<and> 255 < a + 6)"
  have x: "byte x" using a by (simp add: x_def)
  have u: "carried b p = upd_bit (b \<or> bit p 7) bmCY p" for b
    using upd_bit_same [OF p] by (cases "bit p 7") (auto simp: carried_def upd_bit_def)
  have "da_adjust a p = (if 0x90 < x AND 0xf0 \<or> carried k p AND bmCY \<noteq> 0
     then (to_uchar (x + 0x60), carried (255 < x + 0x60) (carried k p)) else (x, carried k p))"
    by (simp add: da_adjust_def and_15 and_single_bit to_uchar_def carried_def x_def k_def)
  moreover have "da_bits a (bit p 6) (bit p 7) = (if 9 < x div 16 \<or> k \<or> bit p 7
     then ((x + 0x60) mod 256, (255 < x + 0x60 \<or> k) \<or> bit p 7) else (x, k \<or> bit p 7))"
    by (auto simp: da_bits_def x_def k_def)
  ultimately show ?thesis
    unfolding high_nibble [OF x] and_single_bit carried_simps to_uchar_def
    unfolding u Let_def by simp
qed

lemma da_table:
  assumes "0 \<le> h" "h \<le> 18" "0 \<le> l" "l \<le> 19"
  shows "da_bits ((16 * h + l) mod 256) (16 \<le> l) (256 \<le> 16 * h + l)
     = (bcd ((10 * h + l) mod 100), 100 \<le> 10 * h + l)"
proof -
  have "list_all (\<lambda>h. list_all (\<lambda>l. da_bits ((16 * h + l) mod 256) (16 \<le> l) (256 \<le> 16 * h + l)
     = (bcd ((10 * h + l) mod 100), 100 \<le> 10 * h + l)) [0..19]) [0..18]"
    by code_simp
  then show ?thesis using assms by (simp add: list_all_iff)
qed

lemma bcd_sum:
  assumes "0 \<le> m" "m < 100" "0 \<le> n" "n < 100" "c = 0 \<or> c = 1"
  shows "da_bits ((bcd m + bcd n + c) mod 256) (16 \<le> bcd m mod 16 + bcd n mod 16 + c)
     (256 \<le> bcd m + bcd n + c) = (bcd ((m + n + c) mod 100), 100 \<le> m + n + c)"
proof -
  let ?h = "m div 10 + n div 10" and ?l = "m mod 10 + n mod 10 + c"
  have d: "x div 10 \<le> 9" "0 \<le> x div 10" "bcd x = 16 * (x div 10) + x mod 10" "bcd x mod 16 = x mod 10"
    if "0 \<le> x" "x < 100" for x
  proof -
    show "x div 10 \<le> 9" "0 \<le> x div 10"
      using that zdiv_mono1 [of x 99 10] by (auto simp: pos_imp_zdiv_nonneg_iff)
    then show "bcd x = 16 * (x div 10) + x mod 10" "bcd x mod 16 = x mod 10"
      using pos_mod_bound [of 10 x] by (simp_all add: bcd_def)
  qed
  have r: "x mod 10 \<le> 9" "0 \<le> x mod 10" "10 * (x div 10) + x mod 10 = x" for x :: int
    using pos_mod_bound [of 10 x] by simp_all
  have s: "bcd m + bcd n + c = 16 * ?h + ?l" using d(3) [of m] d(3) [of n] assms by simp
  have t: "m + n + c = 10 * ?h + ?l" using r(3) [of m] r(3) [of n] by (simp add: algebra_simps)
  have "0 \<le> ?h" "?h \<le> 18" "0 \<le> ?l" "?l \<le> 19"
    using d(1,2) [of m] d(1,2) [of n] r(1,2) [of m] r(1,2) [of n] assms by linarith+
  from da_table [OF this] show ?thesis unfolding s t d(4) [OF assms(1,2)] d(4) [OF assms(3,4)] .
qed

lemma psw_flags_bits [simp]:
  "bit (psw_flags cy hc ov p pw) 7 = cy" "bit (psw_flags cy hc ov p pw) 6 = hc"
  "bit (psw_flags cy hc ov p pw) 2 = ov" "bit (psw_flags cy hc ov p pw) 0 = p"
  by (simp_all add: psw_flags_def bit_simps)

lemma upd_bit_7 [simp]: "bit (upd_bit c bmCY p) 7 = c"
  by (simp add: upd_bit_def bit_simps)

lemma byte_add_flags [simp]: "byte (add_flags a d c pw)"
  by (simp add: add_flags_def)

lemma byte_bcd [simp]: "byte (bcd n)"
  using pos_mod_bound [of 10 n] pos_mod_bound [of 10 "n div 10"] by (simp add: bcd_def byte_def)

lemma bcd_add_result:
  assumes s: "ready s" "cell_get acc s = bcd m" and mn: "0 \<le> m" "m < 100" "0 \<le> n" "n < 100"
  shows "cell_get acc (da_done (add_result (bcd n) c s)) = bcd ((m + n + carry c) mod 100)
     \<and> bit (cell_get psw (da_done (add_result (bcd n) c s))) 7 = (100 \<le> m + n + carry c)"
proof -
  have "da_adjust ((bcd m + bcd n + carry c) mod 256) (add_flags (bcd m) (bcd n) c (cell_get psw s))
    = (bcd ((m + n + carry c) mod 100), upd_bit (100 \<le> m + n + carry c) bmCY
         (add_flags (bcd m) (bcd n) c (cell_get psw s)))"
    using bcd_sum [OF mn, of "carry c"]
    by (simp add: da_adjust_bits add_flags_def carry_def)
  then show ?thesis using s by (simp add: da_done_def add_result_def Let_def)
qed

context core_elements
begin

lemma add_tail_spec:
  assumes s: "ready s" and d: "byte d"
  shows "add_tail hw (cell_get acc s) d c s = Some (resGO, add_result d c s)"
proof -
  let ?a = "cell_get acc s" and ?p = "cell_get psw s"
  have a: "byte ?a" using s by simp
  have c: "(if c then 1 else 0) = carry c" by (simp add: carry_def)
  have cy: "255 < x \<longleftrightarrow> 256 \<le> x" for x :: int by linarith
  have "add_tail hw ?a d c s = Some (resGO,
      poke psw (upd_bit (16 \<le> ?a mod 16 + d mod 16 + carry c) bmAC
         (upd_bit (to_schar ?a + to_schar d + carry c \<notin> {-128..127}) bmOV
           (upd_bit (255 < ?a + d + carry c) bmCY (psw_parity (?a + d + carry c) ?p))))
        (poke acc ((?a + d + carry c) mod 256) s))"
    unfolding add_tail_def Let_def c half_carry_code carry6_code overflow_code [OF a d]
    using s by (simp add: SFR_SET_BIT_eq)
  then show ?thesis
    using s by (simp add: add_result_def add_flags_def set_bits_flags Let_def cy)
qed

lemma add_modes:
  assumes s: "ready s"
  shows "inst_add_a_rn hw code s = Some (resGO, add_result (cell_get (reg_cell code s) s) False s)"
    and "inst_add_a_Sri hw code s = Some (resGO, add_result (cell_get (ind_cell code s) s) False s)"
    and "fetchable s \<Longrightarrow>
      inst_add_a_Sdata hw code s = Some (resGO, add_result (code_byte s) False (advanced s))"
    and "fetchable s \<Longrightarrow> byte d \<Longrightarrow>
      cell_read hw (direct_cell (code_byte s)) (advanced s) = Some (d, advanced s) \<Longrightarrow>
      inst_add_a_addr hw code s = Some (resGO, add_result d False (advanced s))"
  using s add_tail_spec [of s] add_tail_spec [of "advanced s"]
  by (simp_all add: inst_add_a_rn_def inst_add_a_Sri_def inst_add_a_Sdata_def inst_add_a_addr_def
      Let_def)

lemma addc_modes:
  assumes s: "ready s"
  shows "inst_addc_a_rn hw code s =
      Some (resGO, add_result (cell_get (reg_cell code s) s) (bit (cell_get psw s) 7) s)"
    and "inst_addc_a_Sri hw code s =
      Some (resGO, add_result (cell_get (ind_cell code s) s) (bit (cell_get psw s) 7) s)"
    and "fetchable s \<Longrightarrow> inst_addc_a_Sdata hw code s =
      Some (resGO, add_result (code_byte s) (bit (cell_get psw s) 7) (advanced s))"
    and "fetchable s \<Longrightarrow> byte d \<Longrightarrow>
      cell_read hw (direct_cell (code_byte s)) (advanced s) = Some (d, advanced s) \<Longrightarrow>
      inst_addc_a_addr hw code s = Some (resGO, add_result d (bit (cell_get psw s) 7) (advanced s))"
  using s add_tail_spec [of s] add_tail_spec [of "advanced s"]
  by (simp_all add: inst_addc_a_rn_def inst_addc_a_Sri_def inst_addc_a_Sdata_def
      inst_addc_a_addr_def Let_def)

lemma subb_modes:
  assumes s: "ready s"
  shows "inst_subb_a_rn hw code s = Some (resGO, subb_done (cell_get (reg_cell code s) s) s)"
    and "inst_subb_a_Sri hw code s = Some (resGO, subb_done (cell_get (ind_cell code s) s) s)"
    and "fetchable s \<Longrightarrow> inst_subb_a_Sdata hw code s = Some (resGO, subb_done (code_byte s) (advanced s))"
    and "fetchable s \<Longrightarrow> byte d \<Longrightarrow>
      cell_read hw (direct_cell (code_byte s)) (advanced s) = Some (d, advanced s) \<Longrightarrow>
      inst_subb_a_addr hw code s = Some (resGO, subb_done d (advanced s))"
proof -
  have c: "(if cell_get psw s AND bmCY \<noteq> 0 then 1 else 0) = carry (bit (cell_get psw s) 7)"
    by (simp add: carry_def and_single_bit)
  note defs = inst_subb_a_rn_def inst_subb_a_Sri_def inst_subb_a_Sdata_def inst_subb_a_addr_def
    Let_def subb_result_eq subb_psw_eq subb_done_def set_poke
  show "inst_subb_a_rn hw code s = Some (resGO, subb_done (cell_get (reg_cell code s) s) s)"
    and "inst_subb_a_Sri hw code s = Some (resGO, subb_done (cell_get (ind_cell code s) s) s)"
    using s by (simp_all add: defs c del: if_not_P if_P)
  show "fetchable s \<Longrightarrow> inst_subb_a_Sdata hw code s = Some (resGO, subb_done (code_byte s) (advanced s))"
    and "fetchable s \<Longrightarrow> byte d \<Longrightarrow>
      cell_read hw (direct_cell (code_byte s)) (advanced s) = Some (d, advanced s) \<Longrightarrow>
      inst_subb_a_addr hw code s = Some (resGO, subb_done d (advanced s))"
    using s by (simp_all add: defs c del: if_not_P if_P)
qed

lemma rotate_spec:
  assumes s: "ready s"
  shows "inst_rr hw code s = Some (resGO,
      rotated (rot_right (odd (cell_get acc s)) (cell_get acc s)) (bit (cell_get psw s) 7) s)"
    and "inst_rrc hw code s = Some (resGO,
      rotated (rot_right (bit (cell_get psw s) 7) (cell_get acc s)) (odd (cell_get acc s)) s)"
    and "inst_rl hw code s = Some (resGO,
      rotated (rot_left (bit (cell_get acc s) 7) (cell_get acc s)) (bit (cell_get psw s) 7) s)"
    and "inst_rlc hw code s = Some (resGO,
      rotated (rot_left (bit (cell_get psw s) 7) (cell_get acc s)) (bit (cell_get acc s) 7) s)"
proof -
  have a: "byte (cell_get acc s)" using s by simp
  have c: "upd_bit (bit (cell_get psw s) 7) bmCY (cell_get psw s) = cell_get psw s"
    using s by (simp add: upd_bit_same)
  have b: "byte (cell_get acc s div 2 + 128)"
    using byte_rot(1) [OF a, of True] by (simp add: rot_right_def)
  have b2: "byte ((2 * cell_get acc s) mod 256 + 1)"
    using byte_rot(2) [of True "cell_get acc s"] by (simp add: rot_left_def)
  have "mem_ok s" using s by simp
  then have pc: "poke acc v (poke psw w s) = poke psw w (poke acc v s)" for v w
    by (rule poke_commute) simp
  note defs = Let_def rotated_def sfr_access SFR_SET_BIT_eq and_single_bit bit_0 pc
  show "inst_rr hw code s = Some (resGO,
      rotated (rot_right (odd (cell_get acc s)) (cell_get acc s)) (bit (cell_get psw s) 7) s)"
    using s a b c by (simp add: inst_rr_def defs rot_right_def shr_or_128)
  show "inst_rrc hw code s = Some (resGO,
      rotated (rot_right (bit (cell_get psw s) 7) (cell_get acc s)) (odd (cell_get acc s)) s)"
    using s a b by (simp add: inst_rrc_def defs rot_right_def shr_or_128)
  show "inst_rl hw code s = Some (resGO,
      rotated (rot_left (bit (cell_get acc s) 7) (cell_get acc s)) (bit (cell_get psw s) 7) s)"
    using s a c by (simp add: inst_rl_def defs rot_left_def rl_byte mult.commute)
  show "inst_rlc hw code s = Some (resGO,
      rotated (rot_left (bit (cell_get psw s) 7) (cell_get acc s)) (bit (cell_get acc s) 7) s)"
    using s a b2 by (simp add: inst_rlc_def defs rot_left_def shl_or_1 to_uchar_def mult.commute)
qed

lemma mul_spec:
  assumes s: "ready s"
  shows "inst_mul_ab hw code s = Some (resGO, ticked 3 (mul_done s))"
proof -
  let ?a = "cell_get acc s" and ?b = "cell_get cell_b s"
  define p where "p = ?a * ?b"
  have b: "0 \<le> p" "p div 256 < 256" using mul_bounds [of ?a ?b] s by (auto simp: p_def)
  then have m: "p div 256 mod 256 = p div 256" "byte (p div 256)" by (simp_all add: byte_def)
  have z: "p div 256 = 0 \<longleftrightarrow> \<not> 255 < p" using b by (auto simp: zdiv_eq_0_iff)
  have "inst_mul_ab hw code s = Some (resGO, ticked 3
      (poke psw (upd_bit False bmCY (upd_bit (255 < p) bmOV (psw_parity p (cell_get psw s))))
        (poke cell_b (p div 256) (poke acc (p mod 256) s))))"
    using s m by (simp add: inst_mul_ab_def Let_def sfr_access SFR_SET_BIT_eq z flip: p_def)
  then show ?thesis using s by (simp add: mul_done_def mul_flags Let_def p_def)
qed

lemma div_spec:
  assumes s: "ready s"
  shows "inst_div_ab hw code s = Some (resGO, ticked 3 (div_done s))"
proof -
  have pw: "byte (cell_get psw s)" using s by simp
  show ?thesis
    unfolding inst_div_ab_def div_done_def Let_def byte_uchar_eq [OF pw] div_flags [OF pw]
    using s by (cases "cell_get cell_b s = 0") (simp_all add: sfr_access)
qed

lemma da_spec:
  assumes s: "ready s"
  shows "inst_da_a hw code s = Some (resGO, da_done s)"
  using s byte_da_adjust [of "cell_get acc s" "cell_get psw s"]
  by (cases "da_adjust (cell_get acc s) (cell_get psw s)")
    (simp add: inst_da_a_def da_done_def Let_def)

end

subsection \<open>Properties\<close>

text \<open>
  ADD in its register, indirect and immediate modes adds the operand to the accumulator modulo 256
  and leaves in PSW the carry out of bit 7, the carry out of bit 3, signed overflow and the parity
  of the sum; nothing else of the state changes apart from the program counter of the immediate mode.
\<close>

theorem add_instructions:
  assumes "ready s"
  shows "inst_add_a_rn (core51_hwif other) code s
      = Some (resGO, add_result (cell_get (reg_cell code s) s) False s)
    \<and> inst_add_a_Sri (core51_hwif other) code s
      = Some (resGO, add_result (cell_get (ind_cell code s) s) False s)
    \<and> (fetchable s \<longrightarrow> inst_add_a_Sdata (core51_hwif other) code s
      = Some (resGO, add_result (code_byte s) False (advanced s)))"
  using c51.add_modes [OF assms] by blast

theorem add_instructions_witness:
  "inst_add_a_Sdata (core51_hwif base_hw) 0x24 (boot51 (\<lambda>c. if c = acc then 0x7f else 1))
     = Some (resGO, add_result 1 False (advanced (boot51 (\<lambda>c. if c = acc then 0x7f else 1))))
   \<and> add_flags 0x7f 1 False 0 = bmAC OR bmOV OR bmP"
  using add_instructions [of "boot51 (\<lambda>c. if c = acc then 0x7f else 1)" base_hw "0x24"]
  by (simp add: add_flags_def psw_flags_def carry_def to_schar_def parity_def numeral_eq_Suc)

text \<open>
   ADDC is ADD of operand and carry flag: the same result and the same flags, with the old
  carry entering the sum, the half carry and the signed overflow.
\<close>

theorem addc_instructions:
  assumes "ready s"
  shows "inst_addc_a_rn (core51_hwif other) code s
      = Some (resGO, add_result (cell_get (reg_cell code s) s) (bit (cell_get psw s) 7) s)
    \<and> inst_addc_a_Sri (core51_hwif other) code s
      = Some (resGO, add_result (cell_get (ind_cell code s) s) (bit (cell_get psw s) 7) s)
    \<and> (fetchable s \<longrightarrow> inst_addc_a_Sdata (core51_hwif other) code s
      = Some (resGO, add_result (code_byte s) (bit (cell_get psw s) 7) (advanced s)))"
  using c51.addc_modes [OF assms] by blast

theorem addc_instructions_witness:
  "inst_addc_a_rn (core51_hwif base_hw) 0x38 (boot51 (\<lambda>c. 0x80))
     = Some (resGO, add_result 0x80 True (boot51 (\<lambda>c. 0x80)))
   \<and> cell_get acc (add_result 0x80 True (boot51 (\<lambda>c. 0x80))) = 1"
  using addc_instructions [of "boot51 (\<lambda>c. 0x80)" base_hw "0x38"]
  by (simp add: bit_numeral_rec add_result_def carry_def Let_def)

text \<open>
  C27 SUBB subtracts operand and carry modulo 256 with borrow, half borrow and signed overflow of the
  difference. The parity flag afterwards is the one from before the instruction, because the PSW
  read before the accumulator is written is put back after it: P no longer matches the accumulator.
\<close>

theorem subb_instructions:
  assumes "ready s"
  shows "inst_subb_a_rn (core51_hwif other) code s
      = Some (resGO, subb_done (cell_get (reg_cell code s) s) s)
    \<and> inst_subb_a_Sri (core51_hwif other) code s
      = Some (resGO, subb_done (cell_get (ind_cell code s) s) s)
    \<and> (fetchable s \<longrightarrow> inst_subb_a_Sdata (core51_hwif other) code s
      = Some (resGO, subb_done (code_byte s) (advanced s)))
    \<and> bit (cell_get psw (subb_done d s)) 0 = bit (cell_get psw s) 0"
  using c51.subb_modes [OF assms] assms
  by (simp add: subb_done_def subb_flags_def Let_def)

theorem subb_instructions_witness:
  "inst_subb_a_rn (core51_hwif base_hw) 0x98 (boot51 (\<lambda>c. if c = acc then 1 else 0))
     = Some (resGO, subb_done 0 (boot51 (\<lambda>c. if c = acc then 1 else 0)))
   \<and> parity (cell_get acc (subb_done 0 (boot51 (\<lambda>c. if c = acc then 1 else 0))))
   \<and> \<not> bit (cell_get psw (subb_done 0 (boot51 (\<lambda>c. if c = acc then 1 else 0)))) 0"
  using subb_instructions [of "boot51 (\<lambda>c. if c = acc then 1 else 0)" base_hw "0x98" 0]
  by (simp add: subb_done_def carry_def parity_def numeral_eq_Suc reg_cell_def)

text \<open>
  MUL leaves the low byte of the product in the accumulator and the high byte in B, clears carry
  and sets overflow exactly when the product exceeds 255. DIV leaves quotient and remainder, clears
  carry, and sets overflow exactly for a zero divisor, when accumulator and B stay as they are. Both
  take four machine cycles, the one of the fetch included.
\<close>

theorem mul_div_instructions:
  assumes "ready s"
  shows "inst_mul_ab (core51_hwif other) code s = Some (resGO, ticked 3 (mul_done s))
    \<and> inst_div_ab (core51_hwif other) code s = Some (resGO, ticked 3 (div_done s))
    \<and> 256 * cell_get cell_b (mul_done s) + cell_get acc (mul_done s) = cell_get acc s * cell_get cell_b s
    \<and> cell_get acc s = cell_get cell_b s * cell_get acc (div_done s)
        + (if cell_get cell_b s = 0 then cell_get acc (div_done s) else cell_get cell_b (div_done s))"
proof -
  have a: "byte (cell_get acc s)" "byte (cell_get cell_b s)" using assms by simp_all
  have "byte (cell_get acc s * cell_get cell_b s div 256)"
    using mul_bounds [OF a] by (auto simp: byte_def pos_imp_zdiv_nonneg_iff)
  then have "256 * cell_get cell_b (mul_done s) + cell_get acc (mul_done s)
      = cell_get acc s * cell_get cell_b s"
    using assms by (simp add: mul_done_def Let_def)
  moreover have "cell_get acc s = cell_get cell_b s * cell_get acc (div_done s)
      + (if cell_get cell_b s = 0 then cell_get acc (div_done s) else cell_get cell_b (div_done s))"
    using assms a by (simp add: div_done_def Let_def)
  ultimately show ?thesis using c51.mul_spec [OF assms] c51.div_spec [OF assms] by blast
qed

theorem mul_div_instructions_witness:
  "inst_mul_ab (core51_hwif base_hw) 0xa4 (boot51 (\<lambda>c. 0x20))
     = Some (resGO, ticked 3 (mul_done (boot51 (\<lambda>c. 0x20))))
   \<and> 256 * cell_get cell_b (mul_done (boot51 (\<lambda>c. 0x20))) + cell_get acc (mul_done (boot51 (\<lambda>c. 0x20)))
     = 0x400"
  using mul_div_instructions [of "boot51 (\<lambda>c. 0x20)" base_hw "0xa4"] by simp

text \<open>
  C26 Decimal arithmetic: with packed decimals in the accumulator and in the register, ADDC A,Rn
  followed by DA A leaves the packed decimal of the sum modulo 100, and the carry flag tells whether
  the sum, the incoming carry included, reached 100.
\<close>

theorem decimal_addition:
  assumes "ready s" "0 \<le> m" "m < 100" "0 \<le> n" "n < 100"
    and "cell_get acc s = bcd m" "cell_get (reg_cell code s) s = bcd n"
    and "c = bit (cell_get psw s) 7"
  shows "\<exists>s'. Option.bind (inst_addc_a_rn (core51_hwif other) code s)
        (\<lambda>(_, s). inst_da_a (core51_hwif other) 0xd4 s) = Some (resGO, s')
    \<and> cell_get acc s' = bcd ((m + n + carry c) mod 100)
    \<and> bit (cell_get psw s') 7 = (100 \<le> m + n + carry c)"
proof -
  have "ready (add_result (bcd n) c s)" using assms(1) by (simp add: add_result_def Let_def)
  then have "Option.bind (inst_addc_a_rn (core51_hwif other) code s)
        (\<lambda>(_, s). inst_da_a (core51_hwif other) 0xd4 s)
      = Some (resGO, da_done (add_result (bcd n) c s))"
    using c51.addc_modes(1) [OF assms(1)] c51.da_spec assms(7,8) by simp
  then show ?thesis using bcd_add_result [OF assms(1,6,2-5)] by blast
qed

theorem decimal_addition_witness:
  "\<exists>s'. Option.bind (inst_addc_a_rn (core51_hwif base_hw) 0x38
        (boot51 (\<lambda>c. if c = acc then 0x57 else if c = psw then 0 else 0x68)))
        (\<lambda>(_, s). inst_da_a (core51_hwif base_hw) 0xd4 s) = Some (resGO, s')
    \<and> cell_get acc s' = 0x25 \<and> bit (cell_get psw s') 7"
  using decimal_addition [of "boot51 (\<lambda>c. if c = acc then 0x57 else if c = psw then 0 else 0x68)"
      57 68 "0x38" False base_hw]
  by (simp add: bcd_def carry_def reg_cell_def)

text \<open>
  RR, RRC, RL and RLC shift the accumulator by one place, filling the free end with the bit
  shifted out or with the carry, and keep the parity flag right. RL undoes RR, and RLC undoes RRC
  with the carry restored.
\<close>

theorem rotate_instructions:
  assumes "ready s"
  shows "inst_rr (core51_hwif other) code s = Some (resGO,
        rotated (rot_right (odd (cell_get acc s)) (cell_get acc s)) (bit (cell_get psw s) 7) s)
    \<and> inst_rrc (core51_hwif other) code s = Some (resGO,
        rotated (rot_right (bit (cell_get psw s) 7) (cell_get acc s)) (odd (cell_get acc s)) s)
    \<and> (\<exists>s'. Option.bind (inst_rr (core51_hwif other) code s)
        (\<lambda>(_, s). inst_rl (core51_hwif other) code s) = Some (resGO, s')
        \<and> cell_get acc s' = cell_get acc s)
    \<and> (\<exists>s'. Option.bind (inst_rrc (core51_hwif other) code s)
        (\<lambda>(_, s). inst_rlc (core51_hwif other) code s) = Some (resGO, s')
        \<and> cell_get acc s' = cell_get acc s
        \<and> bit (cell_get psw s') 7 = bit (cell_get psw s) 7)"
proof -
  have a: "byte (cell_get acc s)" and m: "mem_ok s" using assms by simp_all
  have r: "ready (rotated v c s)" if "byte v" for v c
    using that assms by (simp add: rotated_def)
  have g: "cell_get acc (rotated v c t) = v" "bit (cell_get psw (rotated v c t)) 7 = c"
    if "mem_ok t" "byte v" for v c t
    using that by (simp_all add: rotated_def psw_parity_def bit_simps)
  note rr = c51.rotate_spec(1,2) [OF assms]
  show ?thesis
    using rr c51.rotate_spec(3,4) [OF r] g [OF m byte_rot(1) [OF a]] g [OF ready_mem_ok [OF r]]
      rot_inverse(1) [OF a] rot_carry_out(1) [OF a] byte_rot(1) [OF a] a by simp
qed

theorem rotate_instructions_witness:
  "inst_rr (core51_hwif base_hw) 3 (boot51 (\<lambda>c. 0x81))
     = Some (resGO, rotated 0xc0 True (boot51 (\<lambda>c. 0x81)))"
  using rotate_instructions [of "boot51 (\<lambda>c. 0x81)" base_hw 3]
  by (simp add: rot_right_def bit_numeral_rec)

end
