(* ===== verification/Jmp51.thy ===== *)
theory Jmp51
  imports Core51
begin

text \<open>
  Jumps, calls and returns (\<open>jmp.cc\<close>). Where the source leaves the order of two calls in an
  expression to the compiler (\<open>fetch()*256 + fetch()\<close>) the model takes them left to right.
\<close>

subsection \<open>Jumps\<close>

definition rel_jump :: "uchar \<Rightarrow> 'z core51_scheme \<Rightarrow> 'z core51_scheme" where
  "rel_jump jaddr s = s\<lparr>PC := validate_address Rom (PC s + to_schar jaddr)\<rparr>"

definition inst_ajmp_addr :: "'z core_hw \<Rightarrow> uchar \<Rightarrow> (int, 'z) act" where
  "inst_ajmp_addr hw code s = do {
     let h = code div 32 AND 0x07;
     (f, s) \<leftarrow> fetch hw s;
     let l = to_uchar f;
     s \<leftarrow> tick51 1 s;
     Some (resGO, s\<lparr>PC := (PC s AND 0xf800) OR (h * 256 + l)\<rparr>)
   }"

definition inst_jbc_bit_addr :: "'z core_hw \<Rightarrow> uchar \<Rightarrow> (int, 'z) act" where
  "inst_jbc_bit_addr hw code s = do {
     (b, s) \<leftarrow> fetch hw s;
     (j, s) \<leftarrow> fetch hw s;
     let jaddr = to_uchar j;
     let (mem, a, m) = bit2mem (to_uchar b);
     (d, s) \<leftarrow> as_read_skip hw HW_PORT mem a s;
     (_, s) \<leftarrow> as_write hw mem a (d AND NOT m) s;
     let s = (if d AND m \<noteq> 0 then rel_jump jaddr s else s);
     s \<leftarrow> tick51 1 s;
     Some (resGO, s)
   }"

definition inst_ljmp :: "'z core_hw \<Rightarrow> uchar \<Rightarrow> (int, 'z) act" where
  "inst_ljmp hw code s = do {
     (h, s) \<leftarrow> fetch hw s;
     (l, s) \<leftarrow> fetch hw s;
     let s = s\<lparr>PC := h * 256 + l\<rparr>;
     s \<leftarrow> tick51 1 s;
     Some (resGO, s)
   }"

definition inst_jb_bit_addr :: "'z core_hw \<Rightarrow> uchar \<Rightarrow> (int, 'z) act" where
  "inst_jb_bit_addr hw code s = do {
     (b, s) \<leftarrow> fetch hw s;
     let (mem, a, m) = bit2mem (to_uchar b);
     s \<leftarrow> tick51 1 s;
     (j, s) \<leftarrow> fetch hw s;
     let jaddr = to_uchar j;
     (v, s) \<leftarrow> as_read hw mem a s;
     Some (resGO, if v AND m \<noteq> 0 then rel_jump jaddr s else s)
   }"

definition inst_jnb_bit_addr :: "'z core_hw \<Rightarrow> uchar \<Rightarrow> (int, 'z) act" where
  "inst_jnb_bit_addr hw code s = do {
     (b, s) \<leftarrow> fetch hw s;
     let (mem, a, m) = bit2mem (to_uchar b);
     s \<leftarrow> tick51 1 s;
     (j, s) \<leftarrow> fetch hw s;
     let jaddr = to_uchar j;
     (v, s) \<leftarrow> as_read hw mem a s;
     Some (resGO, if v AND m = 0 then rel_jump jaddr s else s)
   }"

definition inst_jc_addr :: "'z core_hw \<Rightarrow> uchar \<Rightarrow> (int, 'z) act" where
  "inst_jc_addr hw code s = do {
     (j, s) \<leftarrow> fetch hw s;
     s \<leftarrow> tick51 1 s;
     (c, s) \<leftarrow> SFR_GET_C hw s;
     Some (resGO, if c then rel_jump (to_uchar j) s else s)
   }"

definition inst_jnc_addr :: "'z core_hw \<Rightarrow> uchar \<Rightarrow> (int, 'z) act" where
  "inst_jnc_addr hw code s = do {
     (j, s) \<leftarrow> fetch hw s;
     s \<leftarrow> tick51 1 s;
     (c, s) \<leftarrow> SFR_GET_C hw s;
     Some (resGO, if \<not> c then rel_jump (to_uchar j) s else s)
   }"

definition inst_jz_addr :: "'z core_hw \<Rightarrow> uchar \<Rightarrow> (int, 'z) act" where
  "inst_jz_addr hw code s = do {
     (j, s) \<leftarrow> fetch hw s;
     s \<leftarrow> tick51 1 s;
     (a, s) \<leftarrow> cell_read hw acc s;
     Some (resGO, if a = 0 then rel_jump (to_uchar j) s else s)
   }"

definition inst_jnz_addr :: "'z core_hw \<Rightarrow> uchar \<Rightarrow> (int, 'z) act" where
  "inst_jnz_addr hw code s = do {
     (j, s) \<leftarrow> fetch hw s;
     s \<leftarrow> tick51 1 s;
     (a, s) \<leftarrow> cell_read hw acc s;
     Some (resGO, if a \<noteq> 0 then rel_jump (to_uchar j) s else s)
   }"

definition inst_jmp_Sa_dptr :: "'z core_hw \<Rightarrow> uchar \<Rightarrow> (int, 'z) act" where
  "inst_jmp_Sa_dptr hw code s = do {
     (h, s) \<leftarrow> as_read hw Sfr r_DPH s;
     (l, s) \<leftarrow> as_read hw Sfr r_DPL s;
     (a, s) \<leftarrow> cell_read hw acc s;
     let s = s\<lparr>PC := validate_address Rom (h * 256 + l + a)\<rparr>;
     s \<leftarrow> tick51 1 s;
     Some (resGO, s)
   }"

definition inst_sjmp :: "'z core_hw \<Rightarrow> uchar \<Rightarrow> (int, 'z) act" where
  "inst_sjmp hw code s = do {
     (j, s) \<leftarrow> fetch hw s;
     let s = rel_jump j s;
     s \<leftarrow> tick51 1 s;
     Some (resGO, s)
   }"

subsection \<open>Compare and jump, decrement and jump\<close>

definition inst_cjne_a_Sdata_addr :: "'z core_hw \<Rightarrow> uchar \<Rightarrow> (int, 'z) act" where
  "inst_cjne_a_Sdata_addr hw code s = do {
     (d, s) \<leftarrow> fetch hw s;
     let data = to_uchar d;
     (j, s) \<leftarrow> fetch hw s;
     s \<leftarrow> tick51 1 s;
     (a, s) \<leftarrow> cell_read hw acc s;
     let ac = to_uchar a;
     let s = SFR_SET_C (ac < data) s;
     Some (resGO, if ac \<noteq> data then rel_jump (to_uchar j) s else s)
   }"

definition inst_cjne_a_addr_addr :: "'z core_hw \<Rightarrow> uchar \<Rightarrow> (int, 'z) act" where
  "inst_cjne_a_addr_addr hw code s = do {
     (a, s) \<leftarrow> fetch hw s;
     let (cell, s) = get_direct a s;
     (j, s) \<leftarrow> fetch hw s;
     s \<leftarrow> tick51 1 s;
     (d, s) \<leftarrow> cell_read hw cell s;
     let data = to_uchar d;
     let s = SFR_SET_C (cell_get acc s < data) s;
     (a, s) \<leftarrow> cell_read hw acc s;
     Some (resGO, if a \<noteq> data then rel_jump (to_uchar j) s else s)
   }"

definition inst_cjne_Sri_Sdata_addr :: "'z core_hw \<Rightarrow> uchar \<Rightarrow> (int, 'z) act" where
  "inst_cjne_Sri_Sdata_addr hw code s = do {
     (cell, s) \<leftarrow> get_ind hw code s;
     (d, s) \<leftarrow> fetch hw s;
     let data = to_uchar d;
     (j, s) \<leftarrow> fetch hw s;
     s \<leftarrow> tick51 1 s;
     (d, s) \<leftarrow> cell_read hw cell s;
     let s = SFR_SET_C (d < data) s;
     Some (resGO, if d \<noteq> data then rel_jump (to_uchar j) s else s)
   }"

definition inst_cjne_rn_Sdata_addr :: "'z core_hw \<Rightarrow> uchar \<Rightarrow> (int, 'z) act" where
  "inst_cjne_rn_Sdata_addr hw code s = do {
     let (reg, s) = get_reg (code AND 0x07) s;
     (d, s) \<leftarrow> fetch hw s;
     let data = to_uchar d;
     (j, s) \<leftarrow> fetch hw s;
     s \<leftarrow> tick51 1 s;
     (r, s) \<leftarrow> cell_read hw reg s;
     let s = SFR_SET_C (r < data) s;
     Some (resGO, if r \<noteq> data then rel_jump (to_uchar j) s else s)
   }"

definition inst_djnz_addr_addr :: "'z core_hw \<Rightarrow> uchar \<Rightarrow> (int, 'z) act" where
  "inst_djnz_addr_addr hw code s = do {
     (a, s) \<leftarrow> fetch hw s;
     let (cell, s) = get_direct a s;
     (j, s) \<leftarrow> fetch hw s;
     s \<leftarrow> tick51 1 s;
     (d, s) \<leftarrow> cell_read_skip hw HW_PORT cell s;
     (d, s) \<leftarrow> cell_write hw cell (d - 1) s;
     Some (resGO, if d \<noteq> 0 then rel_jump (to_uchar j) s else s)
   }"

definition inst_djnz_rn_addr :: "'z core_hw \<Rightarrow> uchar \<Rightarrow> (int, 'z) act" where
  "inst_djnz_rn_addr hw code s = do {
     let (reg, s) = get_reg (code AND 0x07) s;
     (j, s) \<leftarrow> fetch hw s;
     s \<leftarrow> tick51 1 s;
     (r, s) \<leftarrow> cell_wadd hw reg (-1) s;
     Some (resGO, if r \<noteq> 0 then rel_jump (to_uchar j) s else s)
   }"

subsection \<open>Calls and returns\<close>

definition push_byte :: "'z core_hw \<Rightarrow> int \<Rightarrow> (t_mem, 'z) act" where
  "push_byte hw v s = do {
     (sp, s) \<leftarrow> as_wadd hw Sfr r_SP 1 s;
     let (stck, s) = get_cell Iram sp s;
     (_, s) \<leftarrow> cell_write hw stck v s;
     Some (sp, s)
   }"

definition inst_acall_addr :: "'z core_hw \<Rightarrow> uchar \<Rightarrow> (int, 'z) act" where
  "inst_acall_addr hw code s = do {
     let h = code div 32 AND 0x07;
     (f, s) \<leftarrow> fetch hw s;
     let l = to_uchar f;
     (sp_before, s) \<leftarrow> as_get hw Sfr r_SP s;
     (_, s) \<leftarrow> push_byte hw (PC s AND 0xff) s;
     s \<leftarrow> tick51 1 s;
     (sp, s) \<leftarrow> push_byte hw (PC s div 256 AND 0xff) s;
     let pushed = to_tmem (PC s);
     let s = s\<lparr>PC := (PC s AND 0xf800) OR (h * 256 + l)\<rparr>;
     s \<leftarrow> stack_write (mk_stack_op stack_call (instPC s) (PC s) pushed sp_before sp) s;
     Some (resGO, s)
   }"

definition inst_lcall :: "'z core_hw \<Rightarrow> uchar \<Rightarrow> int \<Rightarrow> bool \<Rightarrow> (int, 'z) act" where
  "inst_lcall hw code addr intr s = do {
     (hl, s) \<leftarrow> (if addr = 0
        then do { (h, s) \<leftarrow> fetch hw s; (l, s) \<leftarrow> fetch hw s; Some (to_uchar h * 256 + to_uchar l, s) }
        else Some (0, s));
     (sp_before, s) \<leftarrow> as_get hw Sfr r_SP s;
     (_, s) \<leftarrow> push_byte hw (PC s AND 0xff) s;
     s \<leftarrow> (if addr = 0 then tick51 1 s else Some s);
     (sp, s) \<leftarrow> push_byte hw (PC s div 256 AND 0xff) s;
     let pushed = to_tmem (PC s);
     let s = s\<lparr>PC := (if addr \<noteq> 0 then addr else hl)\<rparr>;
     s \<leftarrow> stack_write (mk_stack_op (if intr then stack_intr else stack_call)
            (instPC s) (PC s) pushed sp_before sp) s;
     Some (resGO, s)
   }"

definition pop_pc :: "'z core_hw \<Rightarrow> (int \<times> int, 'z) act" where
  "pop_pc hw s = do {
     (sp_before, s) \<leftarrow> as_read hw Sfr r_SP s;
     let (stck, s) = get_cell Iram sp_before s;
     (h, s) \<leftarrow> cell_read hw stck s;
     (sp, s) \<leftarrow> as_wadd hw Sfr r_SP (-1) s;
     s \<leftarrow> tick51 1 s;
     let (stck, s) = get_cell Iram sp s;
     (l, s) \<leftarrow> cell_read hw stck s;
     (sp, s) \<leftarrow> as_wadd hw Sfr r_SP (-1) s;
     Some ((sp_before, sp), s\<lparr>PC := to_uchar h * 256 + to_uchar l\<rparr>)
   }"

definition inst_ret :: "'z core_hw \<Rightarrow> uchar \<Rightarrow> (int, 'z) act" where
  "inst_ret hw code s = do {
     ((sp_before, sp), s) \<leftarrow> pop_pc hw s;
     let s = stack_read (mk_stack_op stack_ret (instPC s) (PC s) 0 sp_before sp) s;
     Some (resGO, s)
   }"

definition inst_reti :: "'z core_hw \<Rightarrow> uchar \<Rightarrow> (int, 'z) act" where
  "inst_reti hw code s = do {
     ((sp_before, sp_after), s) \<leftarrow> pop_pc hw s;
     let s = s\<lparr>was_reti := True\<rparr>;
     let s = (case list_top (it_levels s) of None \<Rightarrow> s
        | Some il \<Rightarrow> if 0 \<le> level il then s\<lparr>it_levels := snd (list_pop (it_levels s))\<rparr> else s);
     let s = stack_read (mk_stack_op stack_iret (instPC s) (PC s) 0 sp_before sp_after) s;
     Some (resGO, s)
   }"

end
