(* ===== verification/Mov51.thy ===== *)
theory Mov51
  imports Core51
begin

text \<open>
  Data transfer (\<open>mov.cc\<close>): MOV, MOVC, MOVX, PUSH, POP, XCH and XCHD, as compiled for the CC2530
  (\<open>#ifdef CC2530\<close>). The flag \<open>MovInstruction\<close> belongs to the element \<open>CC2530radio\<close>, which
  reads it while a register of its own is accessed. Diagnostic output is left out; the reads
  of the accumulator made only to print it are kept.
\<close>

subsection \<open>MOV\<close>

definition inst_mov_a_Sdata :: "'z core_hw \<Rightarrow> uchar \<Rightarrow> (int, 'z) act" where
  "inst_mov_a_Sdata hw code s = do {
     (d, s) \<leftarrow> fetch hw s;
     (_, s) \<leftarrow> cell_write hw acc d s;
     Some (resGO, s)
   }"

definition inst_mov_addr_Sdata :: "'z core_hw \<Rightarrow> uchar \<Rightarrow> (int, 'z) act" where
  "inst_mov_addr_Sdata hw code s = do {
     (a, s) \<leftarrow> fetch hw s;
     let (cell, s) = get_direct a s;
     (d, s) \<leftarrow> fetch hw s;
     (_, s) \<leftarrow> cell_write hw cell d s;
     s \<leftarrow> tick51 1 s;
     Some (resGO, s)
   }"

definition inst_mov_Sri_Sdata :: "'z core_hw \<Rightarrow> uchar \<Rightarrow> (int, 'z) act" where
  "inst_mov_Sri_Sdata hw code s = do {
     (cell, s) \<leftarrow> get_ind hw code s;
     (d, s) \<leftarrow> fetch hw s;
     (_, s) \<leftarrow> cell_write hw cell d s;
     Some (resGO, s)
   }"

definition inst_mov_rn_Sdata :: "'z core_hw \<Rightarrow> uchar \<Rightarrow> (int, 'z) act" where
  "inst_mov_rn_Sdata hw code s = do {
     let (reg, s) = get_reg (code AND 0x07) s;
     (d, s) \<leftarrow> fetch hw s;
     (_, s) \<leftarrow> cell_write hw reg d s;
     Some (resGO, s)
   }"

definition inst_mov_addr_addr :: "'z core_hw \<Rightarrow> uchar \<Rightarrow> (int, 'z) act" where
  "inst_mov_addr_addr hw code s = do {
     let s = s\<lparr>MovInstruction := True\<rparr>;
     (a, s) \<leftarrow> fetch hw s;
     let (src, s) = get_direct a s;
     (a, s) \<leftarrow> fetch hw s;
     let (dst, s) = get_direct a s;
     (v, s) \<leftarrow> cell_read hw src s;
     (_, s) \<leftarrow> cell_write hw dst v s;
     let s = s\<lparr>MovInstruction := False\<rparr>;
     s \<leftarrow> tick51 1 s;
     Some (resGO, s)
   }"

definition inst_mov_addr_Sri :: "'z core_hw \<Rightarrow> uchar \<Rightarrow> (int, 'z) act" where
  "inst_mov_addr_Sri hw code s = do {
     (a, s) \<leftarrow> fetch hw s;
     let (dst, s) = get_direct a s;
     (src, s) \<leftarrow> get_ind hw code s;
     (v, s) \<leftarrow> cell_read hw src s;
     (_, s) \<leftarrow> cell_write hw dst v s;
     s \<leftarrow> tick51 1 s;
     Some (resGO, s)
   }"

definition inst_mov_addr_rn :: "'z core_hw \<Rightarrow> uchar \<Rightarrow> (int, 'z) act" where
  "inst_mov_addr_rn hw code s = do {
     (a, s) \<leftarrow> fetch hw s;
     let (cell, s) = get_direct a s;
     let (reg, s) = get_reg (code AND 0x07) s;
     (v, s) \<leftarrow> cell_read hw reg s;
     (_, s) \<leftarrow> cell_write hw cell v s;
     s \<leftarrow> tick51 1 s;
     Some (resGO, s)
   }"

definition inst_mov_dptr_Sdata :: "'z core_hw \<Rightarrow> uchar \<Rightarrow> (int, 'z) act" where
  "inst_mov_dptr_Sdata hw code s = do {
     (h, s) \<leftarrow> fetch hw s;
     (_, s) \<leftarrow> as_write hw Sfr r_DPH h s;
     (l, s) \<leftarrow> fetch hw s;
     (_, s) \<leftarrow> as_write hw Sfr r_DPL l s;
     s \<leftarrow> tick51 1 s;
     Some (resGO, s)
   }"

definition inst_mov_Sri_addr :: "'z core_hw \<Rightarrow> uchar \<Rightarrow> (int, 'z) act" where
  "inst_mov_Sri_addr hw code s = do {
     let s = s\<lparr>MovInstruction := True\<rparr>;
     (dst, s) \<leftarrow> get_ind hw code s;
     (a, s) \<leftarrow> fetch hw s;
     let (src, s) = get_direct a s;
     (v, s) \<leftarrow> cell_read hw src s;
     (_, s) \<leftarrow> cell_write hw dst v s;
     let s = s\<lparr>MovInstruction := False\<rparr>;
     s \<leftarrow> tick51 1 s;
     Some (resGO, s)
   }"

definition inst_mov_rn_addr :: "'z core_hw \<Rightarrow> uchar \<Rightarrow> (int, 'z) act" where
  "inst_mov_rn_addr hw code s = do {
     let s = s\<lparr>MovInstruction := True\<rparr>;
     let (reg, s) = get_reg (code AND 0x07) s;
     (a, s) \<leftarrow> fetch hw s;
     let (cell, s) = get_direct a s;
     (v, s) \<leftarrow> cell_read hw cell s;
     (_, s) \<leftarrow> cell_write hw reg v s;
     let s = s\<lparr>MovInstruction := False\<rparr>;
     s \<leftarrow> tick51 1 s;
     Some (resGO, s)
   }"

definition inst_mov_a_addr :: "'z core_hw \<Rightarrow> uchar \<Rightarrow> (int, 'z) act" where
  "inst_mov_a_addr hw code s = do {
     (address, s) \<leftarrow> fetch hw s;
     let s = s\<lparr>MovInstruction := True\<rparr>;
     (_, s) \<leftarrow> (if address = r_ACC then inst_unknown s
       else do {
         let (cell, s) = get_direct address s;
         (v, s) \<leftarrow> cell_read hw cell s;
         cell_write hw acc v s
       });
     let s = s\<lparr>MovInstruction := False\<rparr>;
     Some (resGO, s)
   }"

definition inst_mov_a_Sri :: "'z core_hw \<Rightarrow> uchar \<Rightarrow> (int, 'z) act" where
  "inst_mov_a_Sri hw code s = do {
     (cell, s) \<leftarrow> get_ind hw code s;
     (v, s) \<leftarrow> cell_read hw cell s;
     (_, s) \<leftarrow> cell_write hw acc v s;
     Some (resGO, s)
   }"

definition inst_mov_a_rn :: "'z core_hw \<Rightarrow> uchar \<Rightarrow> (int, 'z) act" where
  "inst_mov_a_rn hw code s = do {
     let (reg, s) = get_reg (code AND 0x07) s;
     (v, s) \<leftarrow> cell_read hw reg s;
     (_, s) \<leftarrow> cell_write hw acc v s;
     Some (resGO, s)
   }"

definition inst_mov_addr_a :: "'z core_hw \<Rightarrow> uchar \<Rightarrow> (int, 'z) act" where
  "inst_mov_addr_a hw code s = do {
     (a, s) \<leftarrow> fetch hw s;
     let (cell, s) = get_direct a s;
     (v, s) \<leftarrow> cell_read hw acc s;
     (_, s) \<leftarrow> cell_write hw cell v s;
     Some (resGO, s)
   }"

definition inst_mov_Sri_a :: "'z core_hw \<Rightarrow> uchar \<Rightarrow> (int, 'z) act" where
  "inst_mov_Sri_a hw code s = do {
     (cell, s) \<leftarrow> get_ind hw code s;
     (v, s) \<leftarrow> cell_read hw acc s;
     (_, s) \<leftarrow> cell_write hw cell v s;
     Some (resGO, s)
   }"

definition inst_mov_rn_a :: "'z core_hw \<Rightarrow> uchar \<Rightarrow> (int, 'z) act" where
  "inst_mov_rn_a hw code s = do {
     let (reg, s) = get_reg (code AND 0x07) s;
     (v, s) \<leftarrow> cell_read hw acc s;
     (_, s) \<leftarrow> cell_write hw reg v s;
     Some (resGO, s)
   }"

subsection \<open>MOVC and MOVX\<close>

definition inst_movc_a_Sa_pc :: "'z core_hw \<Rightarrow> uchar \<Rightarrow> (int, 'z) act" where
  "inst_movc_a_Sa_pc hw code s = do {
     let s = s\<lparr>MovInstruction := True\<rparr>;
     (a, s) \<leftarrow> cell_read hw acc s;
     (v, s) \<leftarrow> as_read hw Rom (PC s + a) s;
     (_, s) \<leftarrow> cell_write hw acc v s;
     let s = s\<lparr>MovInstruction := False\<rparr>;
     s \<leftarrow> tick51 1 s;
     Some (resGO, s)
   }"

definition inst_movc_a_Sa_dptr :: "'z core_hw \<Rightarrow> uchar \<Rightarrow> (int, 'z) act" where
  "inst_movc_a_Sa_dptr hw code s = do {
     (h, s) \<leftarrow> as_read hw Sfr r_DPH s;
     (l, s) \<leftarrow> as_read hw Sfr r_DPL s;
     (a, s) \<leftarrow> cell_read hw acc s;
     (v, s) \<leftarrow> as_read hw Rom (h * 256 + l + a) s;
     (_, s) \<leftarrow> cell_write hw acc v s;
     s \<leftarrow> tick51 1 s;
     Some (resGO, s)
   }"

definition inst_movx_a_Sdptr :: "'z core_hw \<Rightarrow> uchar \<Rightarrow> (int, 'z) act" where
  "inst_movx_a_Sdptr hw code s = do {
     let s = s\<lparr>MovInstruction := True\<rparr>;
     (h, s) \<leftarrow> as_read hw Sfr r_DPH s;
     (l, s) \<leftarrow> as_read hw Sfr r_DPL s;
     (d, s) \<leftarrow> as_read hw Xram (h * 256 + l) s;
     (_, s) \<leftarrow> cell_write hw acc d s;
     let s = s\<lparr>MovInstruction := False\<rparr>;
     s \<leftarrow> tick51 1 s;
     Some (resGO, s)
   }"

definition inst_movx_a_Sri :: "'z core_hw \<Rightarrow> uchar \<Rightarrow> (int, 'z) act" where
  "inst_movx_a_Sri hw code s = do {
     let (reg, s) = get_reg (code AND 0x01) s;
     (d, s) \<leftarrow> cell_read hw reg s;
     (mpage, s) \<leftarrow> as_read hw Sfr r_MPAGE s;
     (v, s) \<leftarrow> (if mpage = 0x70 \<and> 0x80 \<le> d then as_read hw Sfr (mpage * 256 + d) s
               else as_read hw Xram (mpage * 256 + d) s);
     (_, s) \<leftarrow> cell_write hw acc v s;
     s \<leftarrow> tick51 1 s;
     Some (resGO, s)
   }"

definition inst_movx_Sdptr_a :: "'z core_hw \<Rightarrow> uchar \<Rightarrow> (int, 'z) act" where
  "inst_movx_Sdptr_a hw code s = do {
     (h, s) \<leftarrow> as_read hw Sfr r_DPH s;
     (l, s) \<leftarrow> as_read hw Sfr r_DPL s;
     let dp = h * 256 + l;
     (h, s) \<leftarrow> as_read hw Sfr r_DPH s;
     (in_sfr, s) \<leftarrow> (if h = 0x70
        then do { (l, s) \<leftarrow> as_read hw Sfr r_DPL s; Some (0x80 \<le> l, s) } else Some (False, s));
     (_, s) \<leftarrow> (if in_sfr then do {
         (a, s) \<leftarrow> cell_read hw acc s;
         as_write hw Sfr dp a s
       } else do {
         (a, s) \<leftarrow> cell_read hw acc s;
         (_, s) \<leftarrow> as_write hw Xram dp a s;
         cell_read hw acc s
       });
     s \<leftarrow> tick51 1 s;
     Some (resGO, s)
   }"

definition inst_movx_Sri_a :: "'z core_hw \<Rightarrow> uchar \<Rightarrow> (int, 'z) act" where
  "inst_movx_Sri_a hw code s = do {
     let (reg, s) = get_reg (code AND 0x01) s;
     (d, s) \<leftarrow> cell_read hw reg s;
     (mpage, s) \<leftarrow> as_read hw Sfr r_MPAGE s;
     (a, s) \<leftarrow> cell_read hw acc s;
     (_, s) \<leftarrow> (if mpage = 0x70 \<and> 0x80 \<le> d then as_write hw Sfr (mpage * 256 + d) a s
               else as_write hw Xram (mpage * 256 + d) a s);
     s \<leftarrow> tick51 1 s;
     Some (resGO, s)
   }"

subsection \<open>PUSH, POP and exchange\<close>

definition inst_push :: "'z core_hw \<Rightarrow> uchar \<Rightarrow> (int, 'z) act" where
  "inst_push hw code s = do {
     (a, s) \<leftarrow> fetch hw s;
     let (cell, s) = get_direct a s;
     (sp_before, s) \<leftarrow> as_get hw Sfr r_SP s;
     (sp, s) \<leftarrow> as_wadd hw Sfr r_SP 1 s;
     let (stck, s) = get_cell Iram sp s;
     (data, s) \<leftarrow> cell_read hw cell s;
     (_, s) \<leftarrow> cell_write hw stck data s;
     s \<leftarrow> stack_write (mk_stack_op stack_push (instPC s) data 0 sp_before sp) s;
     s \<leftarrow> tick51 1 s;
     Some (resGO, s)
   }"

definition inst_pop :: "'z core_hw \<Rightarrow> uchar \<Rightarrow> (int, 'z) act" where
  "inst_pop hw code s = do {
     (sp_before, s) \<leftarrow> as_get hw Sfr r_SP s;
     (a, s) \<leftarrow> fetch hw s;
     let (cell, s) = get_direct a s;
     (sp, s) \<leftarrow> as_get hw Sfr r_SP s;
     let (stck, s) = get_cell Iram sp s;
     (data, s) \<leftarrow> cell_read hw stck s;
     (_, s) \<leftarrow> cell_write hw cell data s;
     (sp, s) \<leftarrow> as_wadd hw Sfr r_SP (-1) s;
     s \<leftarrow> tick51 1 s;
     let s = stack_read (mk_stack_op stack_pop (instPC s) data 0 sp_before sp) s;
     Some (resGO, s)
   }"

definition xch_cells :: "'z core_hw \<Rightarrow> cell \<Rightarrow> (int, 'z) act" where
  "xch_cells hw cell s = do {
     (temp, s) \<leftarrow> cell_read hw acc s;
     (v, s) \<leftarrow> cell_read hw cell s;
     (_, s) \<leftarrow> cell_write hw acc v s;
     (_, s) \<leftarrow> cell_write hw cell temp s;
     Some (resGO, s)
   }"

definition inst_xch_a_addr :: "'z core_hw \<Rightarrow> uchar \<Rightarrow> (int, 'z) act" where
  "inst_xch_a_addr hw code s = do {
     (a, s) \<leftarrow> fetch hw s;
     let (cell, s) = get_direct a s;
     xch_cells hw cell s
   }"

definition inst_xch_a_Sri :: "'z core_hw \<Rightarrow> uchar \<Rightarrow> (int, 'z) act" where
  "inst_xch_a_Sri hw code s = do {
     (cell, s) \<leftarrow> get_ind hw code s;
     xch_cells hw cell s
   }"

definition inst_xch_a_rn :: "'z core_hw \<Rightarrow> uchar \<Rightarrow> (int, 'z) act" where
  "inst_xch_a_rn hw code s = do {
     let (reg, s) = get_reg (code AND 0x07) s;
     xch_cells hw reg s
   }"

definition inst_xchd_a_Sri :: "'z core_hw \<Rightarrow> uchar \<Rightarrow> (int, 'z) act" where
  "inst_xchd_a_Sri hw code s = do {
     (cell, s) \<leftarrow> get_ind hw code s;
     (d, s) \<leftarrow> cell_read hw cell s;
     let temp = d AND 0x0f;
     (a, s) \<leftarrow> cell_read hw acc s;
     (_, s) \<leftarrow> cell_write hw cell ((d AND 0xf0) OR (a AND 0x0f)) s;
     (_, s) \<leftarrow> cell_write hw acc ((cell_get acc s AND 0xf0) OR temp) s;
     Some (resGO, s)
   }"

end
