(* ===== verification/Stack51Facts.thy ===== *)
theory Stack51Facts
  imports Core51Facts Jmp51 Mov51
begin

text \<open>
  The hardware stack and the stack tracker: PUSH against POP and calls against returns, with the
  tracker's record of open operations as a chain that ends at the stack pointer.
\<close>

subsection \<open>Bytes on the stack\<close>

definition next_sp :: "'z mem_scheme \<Rightarrow> int" where
  "next_sp s = (cell_get cell_sp s + 1) mod 256"

definition pushed :: "int \<Rightarrow> 'z core51_scheme \<Rightarrow> 'z core51_scheme" where
  "pushed v s = poke (Cell Iram (next_sp s)) v (poke cell_sp (next_sp s) (track_sp (next_sp s) s))"

definition dropped :: "'z core51_scheme \<Rightarrow> 'z core51_scheme" where
  "dropped s = (let sp = (cell_get cell_sp s - 1) mod 256 in poke cell_sp sp (track_sp sp s))"

lemma byte_next_sp [simp]: "byte (next_sp s)"
  by (simp add: next_sp_def)

lemma pushed_fields [simp]:
  "PC (pushed v s) = PC s" "instPC (pushed v s) = instPC s" "errors (pushed v s) = errors s"
  "stack_ops (pushed v s) = stack_ops s" "it_levels (pushed v s) = it_levels s"
  by (simp_all add: pushed_def)

lemma pushed_ready [simp]: "ready s \<Longrightarrow> byte v \<Longrightarrow> ready (pushed v s)"
  by (simp add: pushed_def)

lemma pushed_get [simp]:
  assumes "ready s" "byte v"
  shows "cell_get c (pushed v s) = (if c = Cell Iram (next_sp s) then v
     else if c = cell_sp then next_sp s else cell_get c s)"
proof -
  have "mem_ok (track_sp (next_sp s) s)" using assms by (intro ready_mem_ok) simp
  then show ?thesis using assms by (auto simp: pushed_def)
qed

lemma dropped_fields [simp]:
  "PC (dropped s) = PC s" "instPC (dropped s) = instPC s" "errors (dropped s) = errors s"
  "stack_ops (dropped s) = stack_ops s" "it_levels (dropped s) = it_levels s"
  "ready s \<Longrightarrow> ready (dropped s)"
  by (simp_all add: dropped_def Let_def)

lemma dropped_get [simp]:
  assumes "ready s"
  shows "cell_get c (dropped s) = (if c = cell_sp then (cell_get cell_sp s - 1) mod 256 else cell_get c s)"
proof -
  have "mem_ok (track_sp ((cell_get cell_sp s - 1) mod 256) s)"
    using assms by (intro ready_mem_ok) simp
  then show ?thesis by (auto simp: dropped_def Let_def)
qed

subsection \<open>The tracker\<close>

text \<open>
  The open operations, the last one first: each ends where the next inner one starts, and the
  innermost ends at the stack pointer.
\<close>

fun op_chain :: "int \<Rightarrow> stack_op list \<Rightarrow> bool" where
  "op_chain sp [] = True"
| "op_chain sp (t # ts) \<longleftrightarrow> is_write_op t \<and> SP_after t = sp \<and> 0 \<le> SP_before t \<and> SP_before t < sp
     \<and> op_chain (SP_before t) ts"

definition tracker_ok :: "'z core51_scheme \<Rightarrow> bool" where
  "tracker_ok s \<longleftrightarrow> op_chain (cell_get cell_sp s) (Items (stack_ops s))
     \<and> cl_list_ok (stack_ops s) \<and> lcount (stack_ops s) < max_list_size"

lemma list_push_total:
  assumes "cl_list_ok l" "lcount l < max_list_size"
  shows "\<exists>l'. list_push x l = Some l' \<and> cl_list_ok l' \<and> Items l' = x # Items l"
proof -
  obtain l' where l': "add_at 0 x l = Some l'" "cl_list_ok l'"
    using add_at_total [OF assms order_refl, of x] by (auto simp: lcount_def)
  then have "list_push x l = Some l'" by (simp add: list_push_def list_add_def)
  then show ?thesis using l'(2) add_at_Items(1) [OF l'(1)] by simp
qed

lemma stack_write_spec:
  assumes "is_write_op op" "cl_list_ok (stack_ops s)" "lcount (stack_ops s) < max_list_size"
  shows "\<exists>l. stack_write op s = Some (s\<lparr>stack_ops := l\<rparr>) \<and> cl_list_ok l
     \<and> Items l = op # Items (stack_ops s)"
proof -
  obtain l where l: "list_push op (stack_ops s) = Some l" "cl_list_ok l"
    "Items l = op # Items (stack_ops s)"
    using list_push_total [OF assms(2,3)] by blast
  then have "stack_write op s = Some (s\<lparr>stack_ops := l\<rparr>)"
    using assms(1) by (cases "operation op") (simp_all add: stack_write_def)
  with l show ?thesis by blast
qed

lemma stack_read_spec:
  assumes op: "op_chain (SP_before op) (Items (stack_ops s))" "Items (stack_ops s) = t # ts"
    and m: "operation op = get_matching_op (operation t)" "SP_after op = SP_before t"
    and b: "SP_before op < 65536"
  shows "stack_read op s = s\<lparr>stack_ops := (stack_ops s)\<lparr>Items := ts\<rparr>\<rparr>"
proof -
  have t: "is_write_op t" "SP_after t = SP_before op" "0 \<le> SP_before t" "SP_before t < SP_after t"
    "op_chain (SP_before t) ts"
    using op by auto
  have r: "\<not> is_write_op op" using t(1) m(1) by (cases "operation t") auto
  have "can_removed t op"
    using t b m(2) r by (intro can_removed_matching) auto
  moreover have "remove_ops op ts = ts"
  proof (cases ts)
    case (Cons u us)
    then have "\<not> can_removed u op"
      using t m(2) b r by (auto simp: can_removed_def sp_increased_def Let_def to_tmem_def)
    then show ?thesis using Cons by simp
  qed simp
  ultimately have "remove_ops op (Items (stack_ops s)) = ts" using op(2) by simp
  moreover have "op_matches t op" using m(1) by (simp add: op_matches_def op_match_iff)
  moreover have "case ts of [] \<Rightarrow> True | u # _ \<Rightarrow> SP_after u = SP_after op"
    using t(5) m(2) by (cases ts) auto
  ultimately show ?thesis
    using op(2) r by (cases ts) (auto simp: stack_read_def list_top_def Let_def)
qed

subsection \<open>Code in flash\<close>

definition in_flash :: "'z uc_scheme \<Rightarrow> bool" where
  "in_flash s \<longleftrightarrow> 0 \<le> PC s \<and> (case code_cell (PC s) s of
     Some (Cell a i) \<Rightarrow> a \<in> {Flashbank0, Flashbank1, Flashbank2, Flashbank3} | _ \<Rightarrow> False)"

lemma in_flash_fetchable: "in_flash s \<Longrightarrow> fetchable s"
  by (auto simp: in_flash_def fetchable_def split: option.splits)

lemma in_flash_agree:
  assumes "in_flash s" "PC s' = PC s"
    and "\<And>a i. a \<noteq> Iram \<Longrightarrow> Cell a i \<noteq> cell_sp \<Longrightarrow> cell_get (Cell a i) s' = cell_get (Cell a i) s"
  shows "in_flash s'" and "code_byte s' = code_byte s"
proof -
  have c: "code_cell (PC s') s' = code_cell (PC s) s"
    using assms(2) assms(3) [of Sfr "0x1f"] assms(3) [of Sfr "0x47"] by (simp add: code_cell_def)
  then show "in_flash s'" using assms(1,2) by (simp add: in_flash_def)
  obtain a i where "code_cell (PC s) s = Some (Cell a i)" "a \<noteq> Iram" "a \<noteq> Sfr"
    using assms(1) by (auto simp: in_flash_def split: option.splits cell.splits)
  then show "code_byte s' = code_byte s" using assms(3) [of a i] c by (simp add: code_byte_def)
qed

subsection \<open>Call frames\<close>

text \<open>
  A call with \<open>addr\<close> 0 takes its target from the code; the interrupt logic passes the address of
  the service routine.
\<close>

definition call_return :: "int \<Rightarrow> 'z core51_scheme \<Rightarrow> 'z core51_scheme" where
  "call_return addr s = (if addr = 0 then advanced (advanced s) else s)"

definition call_target :: "int \<Rightarrow> 'z core51_scheme \<Rightarrow> int" where
  "call_target addr s = (if addr = 0 then code_byte s * 256 + code_byte (advanced s) else addr)"

definition call_tick :: "int \<Rightarrow> 'z core51_scheme \<Rightarrow> 'z core51_scheme" where
  "call_tick addr s = (if addr = 0 then ticked 1 s else s)"

definition call_frame :: "int \<Rightarrow> 'z core51_scheme \<Rightarrow> 'z core51_scheme" where
  "call_frame addr s = (let r = call_return addr s in
     pushed (PC r div 256 mod 256) (call_tick addr (pushed (PC r mod 256) r)))"

lemma call_return_simps [simp]:
  "ready s \<Longrightarrow> ready (call_return addr s)" "cell_get c (call_return addr s) = cell_get c s"
  "instPC (call_return addr s) = instPC s" "errors (call_return addr s) = errors s"
  "stack_ops (call_return addr s) = stack_ops s" "next_sp (call_return addr s) = next_sp s"
  by (simp_all add: call_return_def next_sp_def)

lemma call_tick_simps [simp]:
  "ready s \<Longrightarrow> ready (call_tick addr s)" "cell_get c (call_tick addr s) = cell_get c s"
  "instPC (call_tick addr s) = instPC s" "errors (call_tick addr s) = errors s"
  "stack_ops (call_tick addr s) = stack_ops s" "PC (call_tick addr s) = PC s"
  "it_levels (call_tick addr s) = it_levels s"
  by (simp_all add: call_tick_def)

lemma call_frame_fields [simp]:
  "PC (call_frame addr s) = PC (call_return addr s)" "instPC (call_frame addr s) = instPC s"
  "errors (call_frame addr s) = errors s" "stack_ops (call_frame addr s) = stack_ops s"
  "ready s \<Longrightarrow> ready (call_frame addr s)"
  by (simp_all add: call_frame_def Let_def)

lemma call_frame_get:
  assumes s: "ready s"
  shows "cell_get cell_sp (call_frame addr s) = (cell_get cell_sp s + 2) mod 256"
    and "cell_get (Cell Iram ((cell_get cell_sp s + 2) mod 256)) (call_frame addr s)
      = PC (call_return addr s) div 256 mod 256"
    and "cell_get (Cell Iram ((cell_get cell_sp s + 1) mod 256)) (call_frame addr s)
      = PC (call_return addr s) mod 256"
proof -
  let ?r = "call_return addr s"
  let ?t = "call_tick addr (pushed (PC ?r mod 256) ?r)"
  have t: "ready ?t" using s by simp
  have "next_sp ?t = ((cell_get cell_sp s + 1) mod 256 + 1) mod 256"
    using s by (simp add: next_sp_def [of ?t]) (simp add: next_sp_def)
  then have n: "next_sp ?t = (cell_get cell_sp s + 2) mod 256"
    using mod_add_left_eq [of "cell_get cell_sp s + 1" 256 1] by (simp add: add.commute)
  have d: "(cell_get cell_sp s + 1) mod 256 \<noteq> (cell_get cell_sp s + 2) mod 256"
    by (simp add: mod_eq_dvd_iff)
  have f: "call_frame addr s = pushed (PC ?r div 256 mod 256) ?t" by (simp add: call_frame_def Let_def)
  show "cell_get cell_sp (call_frame addr s) = (cell_get cell_sp s + 2) mod 256"
    "cell_get (Cell Iram ((cell_get cell_sp s + 2) mod 256)) (call_frame addr s) = PC ?r div 256 mod 256"
    unfolding f using t n by simp_all
  show "cell_get (Cell Iram ((cell_get cell_sp s + 1) mod 256)) (call_frame addr s) = PC ?r mod 256"
    unfolding f using t n d s by (simp add: next_sp_def [of s])
qed

context core_elements
begin

lemma push_byte_spec:
  assumes "ready s"
  shows "push_byte hw v s = Some (next_sp s, pushed (v mod 256) s)"
proof -
  let ?t = "poke cell_sp (next_sp s) (track_sp (next_sp s) s)"
  have t: "ready ?t" using assms by simp
  then have "cell_write hw (Cell Iram (next_sp s)) v ?t
      = Some (v mod 256, poke (Cell Iram (next_sp s)) (v mod 256) ?t)"
    using assms by simp
  then show ?thesis
    using assms by (simp add: push_byte_def get_cell_iram pushed_def next_sp_def)
qed

lemma push_spec:
  assumes s: "ready s" "fetchable s" and a: "code_byte s < 0x80"
    and l: "cl_list_ok (stack_ops s)" "lcount (stack_ops s) < max_list_size"
  shows "\<exists>l. inst_push hw code s = Some (resGO, ticked 1
        ((pushed (cell_get (Cell Iram (code_byte s)) s) (advanced s))\<lparr>stack_ops := l\<rparr>))
     \<and> cl_list_ok l \<and> Items l = mk_stack_op stack_push (instPC s) (cell_get (Cell Iram (code_byte s)) s) 0
        (cell_get cell_sp s) (next_sp s) # Items (stack_ops s)"
proof -
  let ?v = "cell_get (Cell Iram (code_byte s)) s"
  let ?p = "pushed ?v (advanced s)"
  let ?op = "mk_stack_op stack_push (instPC s) ?v 0 (cell_get cell_sp s) (next_sp s)"
  obtain l where l: "stack_write ?op ?p = Some (?p\<lparr>stack_ops := l\<rparr>)" "cl_list_ok l"
    "Items l = ?op # Items (stack_ops s)"
    using stack_write_spec [of ?op ?p] l by auto
  have "direct_cell (code_byte s) = Cell Iram (code_byte s)" using a by (simp add: direct_cell_def)
  then have "inst_push hw code s = Option.bind (stack_write ?op ?p) (\<lambda>s.
      Option.bind (tick51 1 s) (\<lambda>s. Some (resGO, s)))"
    using s by (simp add: inst_push_def get_cell_iram pushed_def next_sp_def)
  moreover have "ready (?p\<lparr>stack_ops := l\<rparr>)" using s by simp
  ultimately have "inst_push hw code s = Some (resGO, ticked 1 (?p\<lparr>stack_ops := l\<rparr>))"
    using l(1) by simp
  with l show ?thesis by blast
qed

lemma pop_spec:
  assumes s: "ready s" "fetchable s" and b: "code_byte s < 0x80"
    and v: "v = cell_get (Cell Iram (cell_get cell_sp s)) s"
  shows "inst_pop hw code s = Some (resGO,
     stack_read (mk_stack_op stack_pop (instPC s) v 0 (cell_get cell_sp s) ((cell_get cell_sp s - 1) mod 256))
       (ticked 1 (dropped (poke (Cell Iram (code_byte s)) v (advanced s)))))"
proof -
  let ?b = "Cell Iram (code_byte s)"
  have c: "direct_cell (code_byte s) = ?b" using b by (simp add: direct_cell_def)
  have r: "ready (poke ?b v (advanced s))" "ready (dropped (poke ?b v (advanced s)))"
    using s v by simp_all
  have g: "cell_get cell_sp (poke ?b v (advanced s)) = cell_get cell_sp s"
    using s by simp
  show ?thesis
    using s c r g v by (simp add: inst_pop_def get_cell_iram dropped_def Let_def)
qed

lemma pop_pc_spec:
  assumes s: "ready s" and sp: "cell_get cell_sp s = sp"
  shows "\<exists>s'. pop_pc hw s = Some ((sp, (sp - 2) mod 256), s')
     \<and> PC s' = cell_get (Cell Iram sp) s * 256 + cell_get (Cell Iram ((sp - 1) mod 256)) s
     \<and> ready s' \<and> stack_ops s' = stack_ops s \<and> errors s' = errors s \<and> it_levels s' = it_levels s
     \<and> (\<forall>c. cell_get c s' = (if c = cell_sp then (sp - 2) mod 256 else cell_get c s))"
proof -
  let ?t = "ticked 1 (dropped s)"
  let ?s = "dropped ?t"
  have r: "ready ?t" "ready ?s" using s by simp_all
  have b: "byte sp" using s sp by auto
  have m: "((sp - 1) mod 256 - 1) mod 256 = (sp - 2) mod 256" by (simp add: mod_simps)
  have "pop_pc hw s = Some ((sp, (sp - 2) mod 256),
     ?s\<lparr>PC := cell_get (Cell Iram sp) s * 256 + cell_get (Cell Iram ((sp - 1) mod 256)) s\<rparr>)"
    using s r b sp m by (simp add: pop_pc_def get_cell_iram dropped_def Let_def)
  then show ?thesis using s r sp m by simp
qed

lemma lcall_eq:
  assumes s: "ready s" and addr: "addr = 0 \<longrightarrow> fetchable s \<and> fetchable (advanced s)"
  shows "inst_lcall hw code addr intr s = Option.bind
      (stack_write (mk_stack_op (if intr then stack_intr else stack_call) (instPC s)
         (call_target addr s) (to_tmem (PC (call_return addr s))) (cell_get cell_sp s)
         (cell_get cell_sp (call_frame addr s))) ((call_frame addr s)\<lparr>PC := call_target addr s\<rparr>))
      (\<lambda>s. Some (resGO, s))"
proof (cases "addr = 0")
  case True
  let ?r = "advanced (advanced s)"
  let ?p = "ticked 1 (pushed (PC ?r mod 256) ?r)"
  have r: "ready ?r" "ready ?p" using s by simp_all
  have "push_byte hw (PC ?r AND 0xff) ?r = Some (next_sp ?r, pushed (PC ?r mod 256) ?r)"
    "push_byte hw (PC ?r div 256 AND 0xff) ?p = Some (next_sp ?p, pushed (PC ?r div 256 mod 256) ?p)"
    using r by (simp_all add: push_byte_spec del: advanced_simps(2))
  moreover have "cell_get cell_sp (pushed (PC ?r div 256 mod 256) ?p) = next_sp ?p"
    unfolding pushed_get [OF r(2) byte_mod] by simp
  ultimately show ?thesis
    using s addr True r
    by (simp add: inst_lcall_def call_frame_def call_return_def call_tick_def call_target_def Let_def
        del: advanced_simps(2))
next
  case False
  let ?p = "pushed (PC s mod 256) s"
  have r: "ready ?p" using s by simp
  then have "push_byte hw (PC s AND 0xff) s = Some (next_sp s, ?p)"
    "push_byte hw (PC s div 256 AND 0xff) ?p = Some (next_sp ?p, pushed (PC s div 256 mod 256) ?p)"
    using s by (simp_all add: push_byte_spec)
  moreover have "cell_get cell_sp (pushed (PC s div 256 mod 256) ?p) = next_sp ?p" using r by simp
  ultimately show ?thesis
    using s False
    by (simp add: inst_lcall_def call_frame_def call_return_def call_tick_def call_target_def Let_def)
qed

lemma lcall_spec:
  assumes s: "ready s" and addr: "addr = 0 \<longrightarrow> fetchable s \<and> fetchable (advanced s)"
    and l: "cl_list_ok (stack_ops s)" "lcount (stack_ops s) < max_list_size"
  shows "\<exists>l. inst_lcall hw code addr intr s
       = Some (resGO, (call_frame addr s)\<lparr>PC := call_target addr s, stack_ops := l\<rparr>)
     \<and> cl_list_ok l
     \<and> Items l = mk_stack_op (if intr then stack_intr else stack_call) (instPC s) (call_target addr s)
         (to_tmem (PC (call_return addr s))) (cell_get cell_sp s) ((cell_get cell_sp s + 2) mod 256)
         # Items (stack_ops s)"
proof -
  let ?f = "(call_frame addr s)\<lparr>PC := call_target addr s\<rparr>"
  let ?op = "mk_stack_op (if intr then stack_intr else stack_call) (instPC s) (call_target addr s)
         (to_tmem (PC (call_return addr s))) (cell_get cell_sp s) ((cell_get cell_sp s + 2) mod 256)"
  have "is_write_op ?op" by simp
  with stack_write_spec [of ?op ?f] l obtain l where
    l: "stack_write ?op ?f = Some (?f\<lparr>stack_ops := l\<rparr>)" "cl_list_ok l" "Items l = ?op # Items (stack_ops s)"
    by (auto simp del: is_write_op_iff)
  have "inst_lcall hw code addr intr s = Option.bind (stack_write ?op ?f) (\<lambda>s. Some (resGO, s))"
    unfolding lcall_eq [OF s addr] call_frame_get(1) [OF s] by (rule refl)
  then have "inst_lcall hw code addr intr s = Some (resGO, ?f\<lparr>stack_ops := l\<rparr>)" using l(1) by simp
  with l show ?thesis by blast
qed

end

subsection \<open>Properties\<close>

text \<open>
  C32 PUSH of a byte of the internal RAM (direct address below 0x80) followed by POP into another one,
  with the code lying in flash and SP below 255: the value arrives, the stack pointer and the
  tracker's list of open operations are as before, and no tracker error is raised.
\<close>

theorem push_pop_transfer:
  assumes s: "ready s" and tr: "tracker_ok s" and sp: "cell_get cell_sp s < 255"
    and c: "in_flash s" "in_flash (advanced (advanced s))"
    and a: "a = code_byte s" "a < 0x80" and b: "b = code_byte (advanced (advanced s))" "b < 0x80"
  shows "\<exists>s'. Option.bind (inst_push (core51_hwif other) 0xc0 s)
        (\<lambda>(_, s). inst_pop (core51_hwif other) 0xd0 (advanced s)) = Some (resGO, s')
     \<and> cell_get (Cell Iram b) s' = cell_get (Cell Iram a) s
     \<and> cell_get cell_sp s' = cell_get cell_sp s
     \<and> Items (stack_ops s') = Items (stack_ops s) \<and> errors s' = errors s"
proof -
  let ?v = "cell_get (Cell Iram a) s" and ?sp = "cell_get cell_sp s"
  have sp': "next_sp s = ?sp + 1" "byte ?sp"
    using s sp byteD(1) [of ?sp] by (auto simp: next_sp_def)
  obtain l where l: "inst_push (core51_hwif other) 0xc0 s = Some (resGO, ticked 1
      ((pushed ?v (advanced s))\<lparr>stack_ops := l\<rparr>))"
    "Items l = mk_stack_op stack_push (instPC s) ?v 0 ?sp (next_sp s) # Items (stack_ops s)"
    using c51.push_spec [OF s in_flash_fetchable [OF c(1)], of _ "0xc0"] a tr
    by (auto simp: tracker_ok_def)
  define u where "u = advanced (ticked 1 ((pushed ?v (advanced s))\<lparr>stack_ops := l\<rparr>))"
  have u: "ready u" "cell_get cell_sp u = ?sp + 1" "cell_get (Cell Iram (?sp + 1)) u = ?v"
    "errors u = errors s" "stack_ops u = l" "PC u = PC (advanced (advanced s))"
    using s sp' by (simp_all add: next_sp_def u_def)
  have "cell_get (Cell x i) u = cell_get (Cell x i) (advanced (advanced s))"
    if "x \<noteq> Iram" "Cell x i \<noteq> cell_sp" for x i
    using that s by (auto simp: u_def)
  then have f: "fetchable u" "code_byte u = b"
    using in_flash_agree [OF c(2) u(6)] in_flash_fetchable b(1) by blast+
  have "(?sp + 1 - 1) mod 256 = ?sp" using sp'(2) by simp
  then have p: "inst_pop (core51_hwif other) 0xd0 u = Some (resGO,
     stack_read (mk_stack_op stack_pop (instPC u) ?v 0 (?sp + 1) ?sp)
       (ticked 1 (dropped (poke (Cell Iram b) ?v (advanced u)))))"
    using c51.pop_spec [OF u(1) f(1), of ?v other "0xd0"] u f(2) b(2) by simp
  define d where "d = ticked 1 (dropped (poke (Cell Iram b) ?v (advanced u)))"
  have d: "ready d" "stack_ops d = l" "errors d = errors s" "cell_get (Cell Iram b) d = ?v"
    "cell_get cell_sp d = ?sp"
    using u s sp' by (simp_all add: d_def)
  have "stack_read (mk_stack_op stack_pop (instPC u) ?v 0 (?sp + 1) ?sp) d
      = d\<lparr>stack_ops := l\<lparr>Items := Items (stack_ops s)\<rparr>\<rparr>"
    using stack_read_spec [of "mk_stack_op stack_pop (instPC u) ?v 0 (?sp + 1) ?sp" d, OF _ l(2) [folded d(2)]]
      l(2) d(2) tr sp' by (simp add: tracker_ok_def byte_def)
  then show ?thesis using l(1) p d by (simp flip: u_def d_def)
qed

text \<open>
  C33 A call (LCALL, or the call the interrupt logic makes with the address of a service routine)
  goes to its target, and from every later state in which the stack pointer, the two stacked bytes
  and the open operations are those the call left, RET (RETI after an interrupt call) comes back to
  the address after the call, with stack pointer and open operations as before the call, and
  without a tracker error.
\<close>

theorem call_return_roundtrip:
  assumes s: "ready s" and tr: "tracker_ok s" and sp: "sp = cell_get cell_sp s" "sp < 254"
    and addr: "addr = 0 \<longrightarrow> fetchable s \<and> fetchable (advanced s)"
    and ret: "ret = PC (call_return addr s)" "0 \<le> ret" "ret < 0x10000"
  shows "\<exists>t. inst_lcall (core51_hwif other) 0x12 addr intr s = Some (resGO, t)
     \<and> PC t = call_target addr s \<and> cell_get cell_sp t = sp + 2
     \<and> (\<forall>u. ready u \<and> cell_get cell_sp u = sp + 2 \<and> stack_ops u = stack_ops t
          \<and> cell_get (Cell Iram (sp + 1)) u = cell_get (Cell Iram (sp + 1)) t
          \<and> cell_get (Cell Iram (sp + 2)) u = cell_get (Cell Iram (sp + 2)) t \<longrightarrow>
          (\<exists>u'. (if intr then inst_reti else inst_ret) (core51_hwif other) 0x22 u = Some (resGO, u')
             \<and> PC u' = ret \<and> cell_get cell_sp u' = sp
             \<and> Items (stack_ops u') = Items (stack_ops s) \<and> errors u' = errors u))"
proof -
  have b: "0 \<le> sp" "byte sp" using s sp byteD(1) [of sp] by auto
  then have m: "(sp + 2) mod 256 = sp + 2" "(sp + 1) mod 256 = sp + 1" using sp(2) by simp_all
  have "cl_list_ok (stack_ops s)" "lcount (stack_ops s) < max_list_size"
    using tr by (simp_all add: tracker_ok_def)
  from c51.lcall_spec [OF s addr this, where code = "0x12" and intr = intr and other = other]
  obtain l where l: "inst_lcall (core51_hwif other) 0x12 addr intr s
      = Some (resGO, (call_frame addr s)\<lparr>PC := call_target addr s, stack_ops := l\<rparr>)"
    "Items l = mk_stack_op (if intr then stack_intr else stack_call) (instPC s) (call_target addr s)
       (to_tmem ret) sp (sp + 2) # Items (stack_ops s)"
    unfolding sp(1) [symmetric] ret(1) [symmetric] m(1) by blast
  have "ret div 256 < 256" "0 \<le> ret div 256"
    using ret(2,3) zdiv_mono1 [of ret "0xffff" 256] by (auto simp: pos_imp_zdiv_nonneg_iff)
  then have hi: "ret div 256 mod 256 = ret div 256" by simp
  define t where "t = (call_frame addr s)\<lparr>PC := call_target addr s, stack_ops := l\<rparr>"
  have t: "cell_get cell_sp t = sp + 2" "PC t = call_target addr s" "stack_ops t = l"
    "cell_get (Cell Iram (sp + 2)) t = ret div 256" "cell_get (Cell Iram (sp + 1)) t = ret mod 256"
    using call_frame_get [OF s, of addr, folded sp(1) ret(1), unfolded m] hi by (simp_all add: t_def)
  have returns: "\<exists>u'. (if intr then inst_reti else inst_ret) (core51_hwif other) 0x22 u = Some (resGO, u')
       \<and> PC u' = ret \<and> cell_get cell_sp u' = sp
       \<and> Items (stack_ops u') = Items (stack_ops s) \<and> errors u' = errors u"
    if u: "ready u" "cell_get cell_sp u = sp + 2" "stack_ops u = l"
      "cell_get (Cell Iram (sp + 1)) u = ret mod 256" "cell_get (Cell Iram (sp + 2)) u = ret div 256" for u
  proof -
    have n: "(sp + 2 - 1) mod 256 = sp + 1" "(sp + 2 - 2) mod 256 = sp" using m(2) b(2) by simp_all
    obtain v where v: "pop_pc (core51_hwif other) u = Some ((sp + 2, sp), v)" "PC v = ret"
      "stack_ops v = l" "errors v = errors u" "cell_get cell_sp v = sp"
      using c51.pop_pc_spec [OF u(1,2), of other] u(3-5) unfolding n by (auto simp: mult.commute)
    define w where "w = (if intr then (case list_top (it_levels v) of None \<Rightarrow> v\<lparr>was_reti := True\<rparr>
        | Some il \<Rightarrow> if 0 \<le> level il then v\<lparr>was_reti := True, it_levels := snd (list_pop (it_levels v))\<rparr>
            else v\<lparr>was_reti := True\<rparr>) else v)"
    have w: "PC w = ret" "stack_ops w = l" "errors w = errors u" "cell_get cell_sp w = sp"
      using v by (auto simp: w_def cell_get_def split: option.split)
    let ?op = "mk_stack_op (if intr then stack_iret else stack_ret) (instPC w) (PC w) 0 (sp + 2) sp"
    have "stack_read ?op w = w\<lparr>stack_ops := l\<lparr>Items := Items (stack_ops s)\<rparr>\<rparr>"
      using stack_read_spec [of ?op w, OF _ l(2) [folded w(2)]] w(2) l(2) tr sp b
      by (cases intr) (simp_all add: tracker_ok_def)
    moreover have "(if intr then inst_reti else inst_ret) (core51_hwif other) 0x22 u
        = Some (resGO, stack_read ?op w)"
      using v(1) by (simp add: inst_reti_def inst_ret_def w_def Let_def split: option.split)
    ultimately show ?thesis using w by (simp add: cell_get_def)
  qed
  have call: "inst_lcall (core51_hwif other) 0x12 addr intr s = Some (resGO, t)"
    using l(1) by (simp only: t_def)
  show ?thesis
    by (rule exI [of _ t], intro conjI call t(1,2) allI impI returns) (simp_all add: t)
qed

definition stack_demo :: core51 where
  "stack_demo = boot51 (\<lambda>c. if c = cell_sp then 7 else if c = Cell Flashbank0 0 then 0x30
     else if c = Cell Flashbank0 2 then 0x31 else if c = Cell Iram 0x30 then 0x5a else 0)"

lemma stack_demo_ok:
  "ready stack_demo" "tracker_ok stack_demo" "cell_get cell_sp stack_demo = 7"
  "in_flash stack_demo" "in_flash (advanced (advanced stack_demo))" "code_byte stack_demo = 0x30"
  "code_byte (advanced (advanced stack_demo)) = 0x31" "cell_get (Cell Iram 0x30) stack_demo = 0x5a"
  by (simp_all add: stack_demo_def tracker_ok_def cl_list_ok_def lcount_def max_list_size_def
      in_flash_def code_cell_def code_byte_def)

theorem push_pop_transfer_witness:
  "\<exists>s'. Option.bind (inst_push (core51_hwif base_hw) 0xc0 stack_demo)
        (\<lambda>(_, s). inst_pop (core51_hwif base_hw) 0xd0 (advanced s)) = Some (resGO, s')
     \<and> cell_get (Cell Iram 0x31) s' = 0x5a \<and> cell_get cell_sp s' = 7"
  using push_pop_transfer [of stack_demo "0x30" "0x31" base_hw] stack_demo_ok by auto

theorem call_return_roundtrip_witness:
  "\<exists>t. inst_lcall (core51_hwif base_hw) 0x12 0 False stack_demo = Some (resGO, t)
     \<and> PC t = 0x3000 \<and> cell_get cell_sp t = 9"
proof -
  have "fetchable stack_demo" "fetchable (advanced stack_demo)" "PC stack_demo = 0"
    "code_byte (advanced stack_demo) = 0"
    using stack_demo_ok(4) by (simp_all add: in_flash_fetchable)
      (simp_all add: stack_demo_def fetchable_def code_cell_def code_byte_def)
  then show ?thesis
    using call_return_roundtrip [of stack_demo 7 0 2 base_hw False] stack_demo_ok
    by (auto simp: call_return_def call_target_def)
qed

end
