(* ===== verification/Bit51.thy ===== *)
theory Bit51
  imports Core51
begin

text \<open>
  The boolean instructions (\<open>bit.cc\<close>) and the increment and decrement instructions (\<open>inc.cc\<close>).
\<close>

subsection \<open>Boolean instructions\<close>

definition read_bit :: "'z core_hw \<Rightarrow> (bool, 'z) act" where
  "read_bit hw s = do {
     (b, s) \<leftarrow> fetch hw s;
     let (mem, a, m) = bit2mem b;
     (v, s) \<leftarrow> as_read hw mem a s;
     Some (v AND m \<noteq> 0, s)
   }"

text \<open>
  In \<open>SFR_GET_C || (mem->read(a) & m)\<close> the right operand is evaluated only when it decides the
  result: the port or register read has no effect otherwise.
\<close>

definition inst_orl_c_bit :: "'z core_hw \<Rightarrow> uchar \<Rightarrow> (int, 'z) act" where
  "inst_orl_c_bit hw code s = do {
     (b, s) \<leftarrow> fetch hw s;
     let (mem, a, m) = bit2mem (to_uchar b);
     (c, s) \<leftarrow> SFR_GET_C hw s;
     (r, s) \<leftarrow> (if c then Some (True, s)
               else do { (v, s) \<leftarrow> as_read hw mem a s; Some (v AND m \<noteq> 0, s) });
     s \<leftarrow> tick51 1 (SFR_SET_C r s);
     Some (resGO, s)
   }"

definition inst_anl_c_bit :: "'z core_hw \<Rightarrow> uchar \<Rightarrow> (int, 'z) act" where
  "inst_anl_c_bit hw code s = do {
     (b, s) \<leftarrow> fetch hw s;
     let (mem, a, m) = bit2mem b;
     (c, s) \<leftarrow> SFR_GET_C hw s;
     (r, s) \<leftarrow> (if \<not> c then Some (False, s)
               else do { (v, s) \<leftarrow> as_read hw mem a s; Some (v AND m \<noteq> 0, s) });
     s \<leftarrow> tick51 1 (SFR_SET_C r s);
     Some (resGO, s)
   }"

definition inst_mov_bit_c :: "'z core_hw \<Rightarrow> uchar \<Rightarrow> (int, 'z) act" where
  "inst_mov_bit_c hw code s = do {
     (b, s) \<leftarrow> fetch hw s;
     let (mem, a, m) = bit2mem b;
     (d, s) \<leftarrow> as_read_skip hw HW_PORT mem a s;
     (c, s) \<leftarrow> SFR_GET_C hw s;
     (_, s) \<leftarrow> (if c then as_write hw mem a (d OR m) s else as_write hw mem a (d AND NOT m) s);
     s \<leftarrow> tick51 1 s;
     Some (resGO, s)
   }"

definition inst_mov_c_bit :: "'z core_hw \<Rightarrow> uchar \<Rightarrow> (int, 'z) act" where
  "inst_mov_c_bit hw code s = do {
     (r, s) \<leftarrow> read_bit hw s;
     Some (resGO, SFR_SET_C r s)
   }"

definition inst_orl_c_Sbit :: "'z core_hw \<Rightarrow> uchar \<Rightarrow> (int, 'z) act" where
  "inst_orl_c_Sbit hw code s = do {
     (b, s) \<leftarrow> fetch hw s;
     let (mem, a, m) = bit2mem b;
     (c, s) \<leftarrow> SFR_GET_C hw s;
     (r, s) \<leftarrow> (if c then Some (True, s)
               else do { (v, s) \<leftarrow> as_read hw mem a s; Some (v AND m = 0, s) });
     s \<leftarrow> tick51 1 (SFR_SET_C r s);
     Some (resGO, s)
   }"

definition inst_anl_c_Sbit :: "'z core_hw \<Rightarrow> uchar \<Rightarrow> (int, 'z) act" where
  "inst_anl_c_Sbit hw code s = do {
     (b, s) \<leftarrow> fetch hw s;
     let (mem, a, m) = bit2mem b;
     (c, s) \<leftarrow> SFR_GET_C hw s;
     (r, s) \<leftarrow> (if \<not> c then Some (False, s)
               else do { (v, s) \<leftarrow> as_read hw mem a s; Some (v AND m = 0, s) });
     s \<leftarrow> tick51 1 (SFR_SET_C r s);
     Some (resGO, s)
   }"

definition inst_cpl_bit :: "'z core_hw \<Rightarrow> uchar \<Rightarrow> (int, 'z) act" where
  "inst_cpl_bit hw code s = do {
     (b, s) \<leftarrow> fetch hw s;
     let (mem, a, m) = bit2mem b;
     (d, s) \<leftarrow> as_read_skip hw HW_PORT mem a s;
     (_, s) \<leftarrow> as_write hw mem a (d XOR m) s;
     Some (resGO, s)
   }"

definition inst_cpl_c :: "'z core_hw \<Rightarrow> uchar \<Rightarrow> (int, 'z) act" where
  "inst_cpl_c hw code s = do {
     (p, s) \<leftarrow> cell_read hw psw s;
     (_, s) \<leftarrow> cell_write hw psw (p XOR bmCY) s;
     Some (resGO, s)
   }"

definition inst_clr_bit :: "'z core_hw \<Rightarrow> uchar \<Rightarrow> (int, 'z) act" where
  "inst_clr_bit hw code s = do {
     (b, s) \<leftarrow> fetch hw s;
     let (mem, a, m) = bit2mem b;
     (d, s) \<leftarrow> as_read_skip hw HW_PORT mem a s;
     (_, s) \<leftarrow> as_write hw mem a (d AND NOT m) s;
     Some (resGO, s)
   }"

definition inst_clr_c :: "'z core_hw \<Rightarrow> uchar \<Rightarrow> (int, 'z) act" where
  "inst_clr_c hw code s = do {
     (p, s) \<leftarrow> cell_read hw psw s;
     (_, s) \<leftarrow> cell_write hw psw (p AND NOT bmCY) s;
     Some (resGO, s)
   }"

definition inst_setb_bit :: "'z core_hw \<Rightarrow> uchar \<Rightarrow> (int, 'z) act" where
  "inst_setb_bit hw code s = do {
     (b, s) \<leftarrow> fetch hw s;
     let (mem, a, m) = bit2mem b;
     (d, s) \<leftarrow> as_read_skip hw HW_PORT mem a s;
     (_, s) \<leftarrow> as_write hw mem a (d OR m) s;
     Some (resGO, s)
   }"

definition inst_setb_c :: "'z core_hw \<Rightarrow> uchar \<Rightarrow> (int, 'z) act" where
  "inst_setb_c hw code s = do {
     (p, s) \<leftarrow> cell_read hw psw s;
     (_, s) \<leftarrow> cell_write hw psw (p OR bmCY) s;
     Some (resGO, s)
   }"

subsection \<open>Increment and decrement\<close>

definition inst_inc_a :: "'z core_hw \<Rightarrow> uchar \<Rightarrow> (int, 'z) act" where
  "inst_inc_a hw code s = do { (_, s) \<leftarrow> cell_wadd hw acc 1 s; Some (resGO, s) }"

definition inst_inc_addr :: "'z core_hw \<Rightarrow> uchar \<Rightarrow> (int, 'z) act" where
  "inst_inc_addr hw code s = do {
     (a, s) \<leftarrow> fetch hw s;
     let (cell, s) = get_direct a s;
     (d, s) \<leftarrow> cell_read_skip hw HW_PORT cell s;
     (_, s) \<leftarrow> cell_write hw cell (d + 1) s;
     Some (resGO, s)
   }"

definition inst_inc_Sri :: "'z core_hw \<Rightarrow> uchar \<Rightarrow> (int, 'z) act" where
  "inst_inc_Sri hw code s = do {
     (cell, s) \<leftarrow> get_ind hw code s;
     (_, s) \<leftarrow> cell_wadd hw cell 1 s;
     Some (resGO, s)
   }"

definition inst_inc_rn :: "'z core_hw \<Rightarrow> uchar \<Rightarrow> (int, 'z) act" where
  "inst_inc_rn hw code s = do {
     let (reg, s) = get_reg (code AND 0x07) s;
     (_, s) \<leftarrow> cell_wadd hw reg 1 s;
     Some (resGO, s)
   }"

definition inst_dec_a :: "'z core_hw \<Rightarrow> uchar \<Rightarrow> (int, 'z) act" where
  "inst_dec_a hw code s = do { (_, s) \<leftarrow> cell_wadd hw acc (-1) s; Some (resGO, s) }"

definition inst_dec_addr :: "'z core_hw \<Rightarrow> uchar \<Rightarrow> (int, 'z) act" where
  "inst_dec_addr hw code s = do {
     (a, s) \<leftarrow> fetch hw s;
     let (cell, s) = get_direct a s;
     (d, s) \<leftarrow> cell_read_skip hw HW_PORT cell s;
     (_, s) \<leftarrow> cell_write hw cell (d - 1) s;
     Some (resGO, s)
   }"

definition inst_dec_Sri :: "'z core_hw \<Rightarrow> uchar \<Rightarrow> (int, 'z) act" where
  "inst_dec_Sri hw code s = do {
     (cell, s) \<leftarrow> get_ind hw code s;
     let (_, s) = cell_add cell (-1) s;
     Some (resGO, s)
   }"

definition inst_dec_rn :: "'z core_hw \<Rightarrow> uchar \<Rightarrow> (int, 'z) act" where
  "inst_dec_rn hw code s = do {
     let (reg, s) = get_reg (code AND 0x07) s;
     (_, s) \<leftarrow> cell_wadd hw reg (-1) s;
     Some (resGO, s)
   }"

definition inst_inc_dptr :: "'z core_hw \<Rightarrow> uchar \<Rightarrow> (int, 'z) act" where
  "inst_inc_dptr hw code s = do {
     (h, s) \<leftarrow> as_read hw Sfr r_DPH s;
     (l, s) \<leftarrow> as_read hw Sfr r_DPL s;
     let dptr = h * 256 + l + 1;
     (_, s) \<leftarrow> as_write hw Sfr r_DPH (dptr div 256 AND 0xff) s;
     (_, s) \<leftarrow> as_write hw Sfr r_DPL (dptr AND 0xff) s;
     s \<leftarrow> tick51 1 s;
     Some (resGO, s)
   }"

end
