(* ===== verification/Logic51.thy ===== *)
theory Logic51
  imports Core51
begin

text \<open>
  The logical instructions (\<open>logic.cc\<close>). Read-modify-write instructions on a direct address read
  the latch of a port instead of its pins (\<open>cell->read(HW_PORT)\<close>).
\<close>

subsection \<open>ORL\<close>

definition inst_orl_addr_a :: "'z core_hw \<Rightarrow> uchar \<Rightarrow> (int, 'z) act" where
  "inst_orl_addr_a hw code s = do {
     (f, s) \<leftarrow> fetch hw s;
     let (cell, s) = get_direct f s;
     (v, s) \<leftarrow> cell_read_skip hw HW_PORT cell s;
     (a, s) \<leftarrow> cell_read hw acc s;
     (_, s) \<leftarrow> cell_write hw cell (v OR a) s;
     Some (resGO, s)
   }"

definition inst_orl_addr_Sdata :: "'z core_hw \<Rightarrow> uchar \<Rightarrow> (int, 'z) act" where
  "inst_orl_addr_Sdata hw code s = do {
     (f, s) \<leftarrow> fetch hw s;
     let (cell, s) = get_direct f s;
     (d, s) \<leftarrow> fetch hw s;
     (v, s) \<leftarrow> cell_read_skip hw HW_PORT cell s;
     (_, s) \<leftarrow> cell_write hw cell (v OR d) s;
     s \<leftarrow> tick51 1 s;
     Some (resGO, s)
   }"

definition inst_orl_a_Sdata :: "'z core_hw \<Rightarrow> uchar \<Rightarrow> (int, 'z) act" where
  "inst_orl_a_Sdata hw code s = do {
     (a, s) \<leftarrow> cell_read hw acc s;
     let d = to_uchar a;
     (f, s) \<leftarrow> fetch hw s;
     (_, s) \<leftarrow> cell_write hw acc (to_uchar (d OR f)) s;
     Some (resGO, s)
   }"

definition inst_orl_a_addr :: "'z core_hw \<Rightarrow> uchar \<Rightarrow> (int, 'z) act" where
  "inst_orl_a_addr hw code s = do {
     (f, s) \<leftarrow> fetch hw s;
     let (cell, s) = get_direct f s;
     (d, s) \<leftarrow> cell_read hw acc s;
     (v, s) \<leftarrow> cell_read hw cell s;
     (_, s) \<leftarrow> cell_write hw acc (d OR v) s;
     Some (resGO, s)
   }"

definition inst_orl_a_Sri :: "'z core_hw \<Rightarrow> uchar \<Rightarrow> (int, 'z) act" where
  "inst_orl_a_Sri hw code s = do {
     (cell, s) \<leftarrow> get_ind hw code s;
     (d, s) \<leftarrow> cell_read hw acc s;
     (v, s) \<leftarrow> cell_read hw cell s;
     (_, s) \<leftarrow> cell_write hw acc (d OR v) s;
     Some (resGO, s)
   }"

definition inst_orl_a_rn :: "'z core_hw \<Rightarrow> uchar \<Rightarrow> (int, 'z) act" where
  "inst_orl_a_rn hw code s = do {
     (d, s) \<leftarrow> cell_read hw acc s;
     let (reg, s) = get_reg (code AND 0x07) s;
     (v, s) \<leftarrow> cell_read hw reg s;
     (_, s) \<leftarrow> cell_write hw acc (d OR v) s;
     Some (resGO, s)
   }"

subsection \<open>ANL\<close>

definition inst_anl_addr_a :: "'z core_hw \<Rightarrow> uchar \<Rightarrow> (int, 'z) act" where
  "inst_anl_addr_a hw code s = do {
     (f, s) \<leftarrow> fetch hw s;
     let (cell, s) = get_direct f s;
     (v, s) \<leftarrow> cell_read_skip hw HW_PORT cell s;
     (a, s) \<leftarrow> cell_read hw acc s;
     (_, s) \<leftarrow> cell_write hw cell (v AND a) s;
     Some (resGO, s)
   }"

definition inst_anl_addr_Sdata :: "'z core_hw \<Rightarrow> uchar \<Rightarrow> (int, 'z) act" where
  "inst_anl_addr_Sdata hw code s = do {
     (f, s) \<leftarrow> fetch hw s;
     let (cell, s) = get_direct f s;
     (d, s) \<leftarrow> fetch hw s;
     (v, s) \<leftarrow> cell_read_skip hw HW_PORT cell s;
     (_, s) \<leftarrow> cell_write hw cell (v AND d) s;
     s \<leftarrow> tick51 1 s;
     Some (resGO, s)
   }"

definition inst_anl_a_Sdata :: "'z core_hw \<Rightarrow> uchar \<Rightarrow> (int, 'z) act" where
  "inst_anl_a_Sdata hw code s = do {
     (a, s) \<leftarrow> cell_read hw acc s;
     let d = to_uchar a;
     (f, s) \<leftarrow> fetch hw s;
     (_, s) \<leftarrow> cell_write hw acc (d AND f) s;
     Some (resGO, s)
   }"

definition inst_anl_a_addr :: "'z core_hw \<Rightarrow> uchar \<Rightarrow> (int, 'z) act" where
  "inst_anl_a_addr hw code s = do {
     (f, s) \<leftarrow> fetch hw s;
     let (cell, s) = get_direct f s;
     (d, s) \<leftarrow> cell_read hw acc s;
     (v, s) \<leftarrow> cell_read hw cell s;
     (_, s) \<leftarrow> cell_write hw acc (d AND v) s;
     Some (resGO, s)
   }"

definition inst_anl_a_Sri :: "'z core_hw \<Rightarrow> uchar \<Rightarrow> (int, 'z) act" where
  "inst_anl_a_Sri hw code s = do {
     (cell, s) \<leftarrow> get_ind hw code s;
     (d, s) \<leftarrow> cell_read hw acc s;
     (v, s) \<leftarrow> cell_read hw cell s;
     (_, s) \<leftarrow> cell_write hw acc (d AND v) s;
     Some (resGO, s)
   }"

definition inst_anl_a_rn :: "'z core_hw \<Rightarrow> uchar \<Rightarrow> (int, 'z) act" where
  "inst_anl_a_rn hw code s = do {
     (d, s) \<leftarrow> cell_read hw acc s;
     let (reg, s) = get_reg (code AND 0x07) s;
     (v, s) \<leftarrow> cell_read hw reg s;
     (_, s) \<leftarrow> cell_write hw acc (to_uchar d AND v) s;
     Some (resGO, s)
   }"

subsection \<open>XRL\<close>

definition inst_xrl_addr_a :: "'z core_hw \<Rightarrow> uchar \<Rightarrow> (int, 'z) act" where
  "inst_xrl_addr_a hw code s = do {
     (f, s) \<leftarrow> fetch hw s;
     let (cell, s) = get_direct f s;
     (v, s) \<leftarrow> cell_read_skip hw HW_PORT cell s;
     (a, s) \<leftarrow> cell_read hw acc s;
     (_, s) \<leftarrow> cell_write hw cell (v XOR a) s;
     Some (resGO, s)
   }"

definition inst_xrl_addr_Sdata :: "'z core_hw \<Rightarrow> uchar \<Rightarrow> (int, 'z) act" where
  "inst_xrl_addr_Sdata hw code s = do {
     (f, s) \<leftarrow> fetch hw s;
     let (cell, s) = get_direct f s;
     (v, s) \<leftarrow> cell_read_skip hw HW_PORT cell s;
     (d, s) \<leftarrow> fetch hw s;
     (_, s) \<leftarrow> cell_write hw cell (v XOR d) s;
     s \<leftarrow> tick51 1 s;
     Some (resGO, s)
   }"

definition inst_xrl_a_Sdata :: "'z core_hw \<Rightarrow> uchar \<Rightarrow> (int, 'z) act" where
  "inst_xrl_a_Sdata hw code s = do {
     (a, s) \<leftarrow> cell_read hw acc s;
     let d = to_uchar a;
     (f, s) \<leftarrow> fetch hw s;
     (_, s) \<leftarrow> cell_write hw acc (d XOR f) s;
     Some (resGO, s)
   }"

definition inst_xrl_a_addr :: "'z core_hw \<Rightarrow> uchar \<Rightarrow> (int, 'z) act" where
  "inst_xrl_a_addr hw code s = do {
     (f, s) \<leftarrow> fetch hw s;
     let (cell, s) = get_direct f s;
     (d, s) \<leftarrow> cell_read hw acc s;
     (v, s) \<leftarrow> cell_read hw cell s;
     (_, s) \<leftarrow> cell_write hw acc (d XOR v) s;
     Some (resGO, s)
   }"

definition inst_xrl_a_Sri :: "'z core_hw \<Rightarrow> uchar \<Rightarrow> (int, 'z) act" where
  "inst_xrl_a_Sri hw code s = do {
     (cell, s) \<leftarrow> get_ind hw code s;
     (d, s) \<leftarrow> cell_read hw acc s;
     (v, s) \<leftarrow> cell_read hw cell s;
     (_, s) \<leftarrow> cell_write hw acc (d XOR v) s;
     Some (resGO, s)
   }"

definition inst_xrl_a_rn :: "'z core_hw \<Rightarrow> uchar \<Rightarrow> (int, 'z) act" where
  "inst_xrl_a_rn hw code s = do {
     (d, s) \<leftarrow> cell_read hw acc s;
     let (reg, s) = get_reg (code AND 0x07) s;
     (v, s) \<leftarrow> cell_read hw reg s;
     (_, s) \<leftarrow> cell_write hw acc (d XOR v) s;
     Some (resGO, s)
   }"

subsection \<open>CPL A\<close>

definition inst_cpl_a :: "'z core_hw \<Rightarrow> uchar \<Rightarrow> (int, 'z) act" where
  "inst_cpl_a hw code s = do {
     (a, s) \<leftarrow> cell_read hw acc s;
     (_, s) \<leftarrow> cell_write hw acc (NOT a) s;
     Some (resGO, s)
   }"

end
