(* ===== verification/Exec51.thy ===== *)
theory Exec51
  imports Arith51 Bit51 Jmp51 Logic51 Mov51
begin

text \<open>
  Instruction dispatch, interrupt acceptance, power saving and the execution loop of the core
  (\<open>uc51.cc\<close>). What the command consoles report, \<open>input_avail_on_frozen()\<close> and \<open>input_avail()\<close>,
  are the two arguments \<open>frozen_in\<close> and \<open>cmd_in\<close> of the loop.
\<close>

subsection \<open>Dispatch\<close>

definition dispatch :: "'z core_hw \<Rightarrow> uchar \<Rightarrow> (int, 'z) act" where
  "dispatch hw code s =
     (if code = 0x00 then inst_nop hw code s
      else if code \<in> {0x01, 0x21, 0x41, 0x61, 0x81, 0xa1, 0xc1, 0xe1} then inst_ajmp_addr hw code s
      else if code = 0x02 then inst_ljmp hw code s
      else if code = 0x03 then inst_rr hw code s
      else if code = 0x04 then inst_inc_a hw code s
      else if code = 0x05 then inst_inc_addr hw code s
      else if code = 0x06 \<or> code = 0x07 then inst_inc_Sri hw code s
      else if 0x08 \<le> code \<and> code \<le> 0x0f then inst_inc_rn hw code s
      else if code = 0x10 then inst_jbc_bit_addr hw code s
      else if code \<in> {0x11, 0x31, 0x51, 0x71, 0x91, 0xb1, 0xd1, 0xf1} then inst_acall_addr hw code s
      else if code = 0x12 then inst_lcall hw code 0 False s
      else if code = 0x13 then inst_rrc hw code s
      else if code = 0x14 then inst_dec_a hw code s
      else if code = 0x15 then inst_dec_addr hw code s
      else if code = 0x16 \<or> code = 0x17 then inst_dec_Sri hw code s
      else if 0x18 \<le> code \<and> code \<le> 0x1f then inst_dec_rn hw code s
      else if code = 0x20 then inst_jb_bit_addr hw code s
      else if code = 0x22 then inst_ret hw code s
      else if code = 0x23 then inst_rl hw code s
      else if code = 0x24 then inst_add_a_Sdata hw code s
      else if code = 0x25 then inst_add_a_addr hw code s
      else if code = 0x26 \<or> code = 0x27 then inst_add_a_Sri hw code s
      else if 0x28 \<le> code \<and> code \<le> 0x2f then inst_add_a_rn hw code s
      else if code = 0x30 then inst_jnb_bit_addr hw code s
      else if code = 0x32 then inst_reti hw code s
      else if code = 0x33 then inst_rlc hw code s
      else if code = 0x34 then inst_addc_a_Sdata hw code s
      else if code = 0x35 then inst_addc_a_addr hw code s
      else if code = 0x36 \<or> code = 0x37 then inst_addc_a_Sri hw code s
      else if 0x38 \<le> code \<and> code \<le> 0x3f then inst_addc_a_rn hw code s
      else if code = 0x40 then inst_jc_addr hw code s
      else if code = 0x42 then inst_orl_addr_a hw code s
      else if code = 0x43 then inst_orl_addr_Sdata hw code s
      else if code = 0x44 then inst_orl_a_Sdata hw code s
      else if code = 0x45 then inst_orl_a_addr hw code s
      else if code = 0x46 \<or> code = 0x47 then inst_orl_a_Sri hw code s
      else if 0x48 \<le> code \<and> code \<le> 0x4f then inst_orl_a_rn hw code s
      else if code = 0x50 then inst_jnc_addr hw code s
      else if code = 0x52 then inst_anl_addr_a hw code s
      else if code = 0x53 then inst_anl_addr_Sdata hw code s
      else if code = 0x54 then inst_anl_a_Sdata hw code s
      else if code = 0x55 then inst_anl_a_addr hw code s
      else if code = 0x56 \<or> code = 0x57 then inst_anl_a_Sri hw code s
      else if 0x58 \<le> code \<and> code \<le> 0x5f then inst_anl_a_rn hw code s
      else if code = 0x60 then inst_jz_addr hw code s
      else if code = 0x62 then inst_xrl_addr_a hw code s
      else if code = 0x63 then inst_xrl_addr_Sdata hw code s
      else if code = 0x64 then inst_xrl_a_Sdata hw code s
      else if code = 0x65 then inst_xrl_a_addr hw code s
      else if code = 0x66 \<or> code = 0x67 then inst_xrl_a_Sri hw code s
      else if 0x68 \<le> code \<and> code \<le> 0x6f then inst_xrl_a_rn hw code s
      else if code = 0x70 then inst_jnz_addr hw code s
      else if code = 0x72 then inst_orl_c_bit hw code s
      else if code = 0x73 then inst_jmp_Sa_dptr hw code s
      else if code = 0x74 then inst_mov_a_Sdata hw code s
      else if code = 0x75 then inst_mov_addr_Sdata hw code s
      else if code = 0x76 \<or> code = 0x77 then inst_mov_Sri_Sdata hw code s
      else if 0x78 \<le> code \<and> code \<le> 0x7f then inst_mov_rn_Sdata hw code s
      else if code = 0x80 then inst_sjmp hw code s
      else if code = 0x82 then inst_anl_c_bit hw code s
      else if code = 0x83 then inst_movc_a_Sa_pc hw code s
      else if code = 0x84 then inst_div_ab hw code s
      else if code = 0x85 then inst_mov_addr_addr hw code s
      else if code = 0x86 \<or> code = 0x87 then inst_mov_addr_Sri hw code s
      else if 0x88 \<le> code \<and> code \<le> 0x8f then inst_mov_addr_rn hw code s
      else if code = 0x90 then inst_mov_dptr_Sdata hw code s
      else if code = 0x92 then inst_mov_bit_c hw code s
      else if code = 0x93 then inst_movc_a_Sa_dptr hw code s
      else if code = 0x94 then inst_subb_a_Sdata hw code s
      else if code = 0x95 then inst_subb_a_addr hw code s
      else if code = 0x96 \<or> code = 0x97 then inst_subb_a_Sri hw code s
      else if 0x98 \<le> code \<and> code \<le> 0x9f then inst_subb_a_rn hw code s
      else if code = 0xa0 then inst_orl_c_Sbit hw code s
      else if code = 0xa2 then inst_mov_c_bit hw code s
      else if code = 0xa3 then inst_inc_dptr hw code s
      else if code = 0xa4 then inst_mul_ab hw code s
      else if code = 0xa5 then inst_unknown s
      else if code = 0xa6 \<or> code = 0xa7 then inst_mov_Sri_addr hw code s
      else if 0xa8 \<le> code \<and> code \<le> 0xaf then inst_mov_rn_addr hw code s
      else if code = 0xb0 then inst_anl_c_Sbit hw code s
      else if code = 0xb2 then inst_cpl_bit hw code s
      else if code = 0xb3 then inst_cpl_c hw code s
      else if code = 0xb4 then inst_cjne_a_Sdata_addr hw code s
      else if code = 0xb5 then inst_cjne_a_addr_addr hw code s
      else if code = 0xb6 \<or> code = 0xb7 then inst_cjne_Sri_Sdata_addr hw code s
      else if 0xb8 \<le> code \<and> code \<le> 0xbf then inst_cjne_rn_Sdata_addr hw code s
      else if code = 0xc0 then inst_push hw code s
      else if code = 0xc2 then inst_clr_bit hw code s
      else if code = 0xc3 then inst_clr_c hw code s
      else if code = 0xc4 then inst_swap hw code s
      else if code = 0xc5 then inst_xch_a_addr hw code s
      else if code = 0xc6 \<or> code = 0xc7 then inst_xch_a_Sri hw code s
      else if 0xc8 \<le> code \<and> code \<le> 0xcf then inst_xch_a_rn hw code s
      else if code = 0xd0 then inst_pop hw code s
      else if code = 0xd2 then inst_setb_bit hw code s
      else if code = 0xd3 then inst_setb_c hw code s
      else if code = 0xd4 then inst_da_a hw code s
      else if code = 0xd5 then inst_djnz_addr_addr hw code s
      else if code = 0xd6 \<or> code = 0xd7 then inst_xchd_a_Sri hw code s
      else if 0xd8 \<le> code \<and> code \<le> 0xdf then inst_djnz_rn_addr hw code s
      else if code = 0xe0 then inst_movx_a_Sdptr hw code s
      else if code = 0xe2 \<or> code = 0xe3 then inst_movx_a_Sri hw code s
      else if code = 0xe4 then inst_clr_a hw code s
      else if code = 0xe5 then inst_mov_a_addr hw code s
      else if code = 0xe6 \<or> code = 0xe7 then inst_mov_a_Sri hw code s
      else if 0xe8 \<le> code \<and> code \<le> 0xef then inst_mov_a_rn hw code s
      else if code = 0xf0 then inst_movx_Sdptr_a hw code s
      else if code = 0xf2 \<or> code = 0xf3 then inst_movx_Sri_a hw code s
      else if code = 0xf4 then inst_cpl_a hw code s
      else if code = 0xf5 then inst_mov_addr_a hw code s
      else if code = 0xf6 \<or> code = 0xf7 then inst_mov_Sri_a hw code s
      else if 0xf8 \<le> code \<and> code \<le> 0xff then inst_mov_rn_a hw code s
      else inst_unknown s)"

definition exec_inst :: "'z core_hw \<Rightarrow> (int, 'z) act" where
  "exec_inst hw s = do {
     let s = s\<lparr>instPC := PC s\<rparr>;
     (code, s) \<leftarrow> fetch_code hw s;
     case code of None \<Rightarrow> Some (resBREAKPOINT, s)
     | Some code \<Rightarrow> do { s \<leftarrow> tick51 1 s; dispatch hw code s }
   }"

subsection \<open>Interrupts\<close>

definition it_priority :: "'z core_hw \<Rightarrow> uchar \<Rightarrow> (int, 'z) act" where
  "it_priority hw iemask s = do {
     (v, s) \<leftarrow> as_get hw Sfr r_IP s;
     Some (if v AND iemask \<noteq> 0 then 1 else 0, s)
   }"

definition accept_it :: "'z core_hw \<Rightarrow> it_level \<Rightarrow> (int, 'z) act" where
  "accept_it hw il s = do {
     let s = as_set_bit0 Sfr r_PCON bmIDL (s\<lparr>state := stGO\<rparr>);
     l \<leftarrow> list_push il (it_levels s);
     s \<leftarrow> tick51 1 (s\<lparr>it_levels := l\<rparr>);
     (res, s) \<leftarrow> inst_lcall hw 0 (il_addr il) True s;
     Some (if res \<noteq> resGO then res else resINTERRUPT, s)
   }"

definition it_requested :: "'z core_hw \<Rightarrow> it_src \<Rightarrow> (bool, 'z) act" where
  "it_requested hw src s =
     (if \<not> it_active src then Some (False, s)
      else do {
        (e, s) \<leftarrow> as_get hw Sfr (ie_reg src) s;
        if e AND ie_mask src = 0 then Some (False, s)
        else do {
          (r, s) \<leftarrow> as_get hw Sfr (src_reg src) s;
          Some (r AND src_mask src \<noteq> 0, s)
        }
      })"

fun poll_sources :: "'z core_hw \<Rightarrow> it_level option \<Rightarrow> it_src list \<Rightarrow> (int, 'z) act" where
  "poll_sources hw il [] s = Some (resGO, s)"
| "poll_sources hw il (src # srcs) s = do {
     (req, s) \<leftarrow> it_requested hw src s;
     if \<not> req then poll_sources hw il srcs s
     else do {
       (pr, s) \<leftarrow> it_priority hw (ie_mask src) s;
       il' \<leftarrow> il;
       if 0 \<le> level il' \<and> pr \<le> level il' then poll_sources hw il srcs s
       else if state s = stIDLE then
         Some (resGO, (as_set_bit0 Sfr r_PCON bmIDL (s\<lparr>state := stGO\<rparr>))\<lparr>was_reti := True\<rparr>)
       else do {
         let s = (if clr_bit src then as_set_bit0 Sfr (src_reg src) (src_mask src) s else s);
         accept_it hw \<lparr>level = pr, il_addr = it_addr src, il_PC = PC s, il_source = Some src\<rparr> s
       }
     }
   }"

definition do_interrupt :: "'z core_hw \<Rightarrow> (int, 'z) act" where
  "do_interrupt hw s =
     (if was_reti s then Some (resGO, s\<lparr>was_reti := False\<rparr>)
      else do {
        (ie, s) \<leftarrow> as_get hw Sfr r_IEN0 s;
        if ie AND bmEA = 0 then Some (resGO, s)
        else poll_sources hw (list_top (it_levels s)) (Items (it_sources s)) s
      })"

subsection \<open>Idle and power down\<close>

definition idle_pd :: "'z core_hw \<Rightarrow> (int, 'z) act" where
  "idle_pd hw s = do {
     (pcon, s) \<leftarrow> as_get hw Sfr r_PCON s;
     if \<not> cmos s then Some (resGO, s)
     else do {
       let s = (if pcon AND bmIDL \<noteq> 0 then s\<lparr>state := stIDLE\<rparr> else s);
       let s = (if pcon AND bmPD \<noteq> 0 then s\<lparr>state := stPD\<rparr> else s);
       Some (resGO, s)
     }
   }"

subsection \<open>The execution loop\<close>

definition run_one :: "'z core_hw \<Rightarrow> (unit, 'z) act" where
  "run_one hw s =
     (if state s = stGO then do {
        let s = pre_inst (s\<lparr>was_reti := False\<rparr>);
        (res, s) \<leftarrow> exec_inst hw s;
        post_inst hw (s\<lparr>result := res\<rparr>)
      }
      else do {
        let s = s\<lparr>inst_ticks := 1\<rparr>;
        (_, s) \<leftarrow> post_inst hw s;
        s \<leftarrow> tick51 1 s;
        Some ((), s)
      })"

definition after_inst :: "'z core_hw \<Rightarrow> (unit, 'z) act" where
  "after_inst hw s =
     (if result s = resGO then do {
        (res, s) \<leftarrow> do_interrupt hw s;
        (res, s) \<leftarrow> (if res \<noteq> resGO then Some (res, s) else idle_pd hw s);
        Some ((), s\<lparr>result := res\<rparr>)
      }
      else Some ((), s))"

text \<open>One round of the loop; the value tells whether the loop is left by \<open>break\<close>.\<close>

definition loop_body :: "'z core_hw \<Rightarrow> ('z core51_scheme \<Rightarrow> bool) \<Rightarrow> ('z core51_scheme \<Rightarrow> bool)
    \<Rightarrow> int \<Rightarrow> (bool, 'z) act" where
  "loop_body hw frozen_in cmd_in step s = do {
     (_, s) \<leftarrow> run_one hw s;
     (_, s) \<leftarrow> after_inst hw s;
     let poll = (step < 0 \<and> t_ticks (ticks s) mod 100000 < 50);
     let user = (poll \<and> frozen_in s);
     let s = (if user then s\<lparr>result := resUSER\<rparr> else s);
     if poll \<and> \<not> user \<and> cmd_in s then Some (True, s)
     else if result s = resINTERRUPT \<and> stop_at_it s \<or> resSTOP \<le> result s
     then Some (True, sim_stop s)
     else Some (False, s)
   }"

partial_function (option) inst_loop :: "'z core_hw \<Rightarrow> ('z core51_scheme \<Rightarrow> bool)
    \<Rightarrow> ('z core51_scheme \<Rightarrow> bool) \<Rightarrow> int \<Rightarrow> 'z core51_scheme \<Rightarrow> (unit \<times> 'z core51_scheme) option" where
  "inst_loop hw frozen_in cmd_in step s =
     (if result s = resGO \<and> state s \<noteq> stPD \<and> step \<noteq> 0 then
        (let step = (if 0 < step then step - 1 else step) in
         Option.bind (loop_body hw frozen_in cmd_in step s) (\<lambda>(brk, s).
           if brk then Some ((), s) else inst_loop hw frozen_in cmd_in step s))
      else Some ((), s))"

definition do_inst :: "'z core_hw \<Rightarrow> ('z core51_scheme \<Rightarrow> bool) \<Rightarrow> ('z core51_scheme \<Rightarrow> bool)
    \<Rightarrow> int \<Rightarrow> (int, 'z) act" where
  "do_inst hw frozen_in cmd_in step s = do {
     (_, s) \<leftarrow> inst_loop hw frozen_in cmd_in step (s\<lparr>result := resGO\<rparr>);
     let s = (if state s = stPD \<and> frozen_in s then sim_stop (s\<lparr>result := resUSER\<rparr>) else s);
     Some (result s, s)
   }"

end
