(* ===== verification/Jmp51Facts.thy ===== *)
theory Jmp51Facts
  imports Arith51Facts Stack51Facts Exec51
begin

text \<open>
  Jumps: targets of the absolute and relative jumps, the comparing and the counting jump, and the
  execution of one instruction from its opcode fetch on.
\<close>

subsection \<open>Targets\<close>

definition rel_target :: "int \<Rightarrow> int \<Rightarrow> int" where
  "rel_target p d = (if p + to_schar d = 0x10000 then 0x10000 else (p + to_schar d) mod 0x10000)"

definition page_target :: "int \<Rightarrow> int \<Rightarrow> int \<Rightarrow> int" where
  "page_target p h l = p div 0x800 * 0x800 + h * 0x100 + l"

lemma rel_jump_eq: "rel_jump d s = s\<lparr>PC := rel_target (PC s) d\<rparr>"
  by (simp add: rel_jump_def rel_target_def validate_address_eq)

lemma to_schar_mod [simp]: "to_schar (d mod 256) = to_schar d"
  by (simp add: to_schar_def)

lemma page_bits: "0 \<le> p \<Longrightarrow> p < 0x10000 \<Longrightarrow> 0 \<le> x \<Longrightarrow> x < 0x800 \<Longrightarrow>
   (p AND 0xf800) OR x = p div 0x800 * 0x800 + (x :: int)"
proof -
  assume p: "0 \<le> p" "p < 0x10000" and x: "0 \<le> x" "x < 0x800"
  have m: "(0xf800 :: int) = push_bit 11 (mask 5)"
    by (simp add: push_bit_eq_mult mask_eq_exp_minus_1)
  have e: "p AND 0xf800 = push_bit 11 (take_bit 5 (drop_bit 11 p))"
    unfolding m by (rule bit_eqI) (auto simp: bit_simps)
  also have "take_bit 5 (drop_bit 11 p) = drop_bit 11 p"
    using p zdiv_mono1 [of p "0xffff" "0x800"]
    by (simp add: take_bit_int_eq_self_iff drop_bit_eq_div pos_imp_zdiv_nonneg_iff)
  finally have a: "p AND 0xf800 = p div 0x800 * 0x800"
    by (simp add: push_bit_eq_mult drop_bit_eq_div)
  have "bit (p AND 0xf800) n \<Longrightarrow> \<not> bit x n" for n
  proof -
    assume "bit (p AND 0xf800) n"
    then have "11 \<le> n" unfolding e by (simp add: bit_simps)
    moreover have "take_bit 11 x = x" using x by (simp add: take_bit_int_eq_self_iff)
    ultimately show ?thesis by (metis bit_take_bit_iff not_less)
  qed
  then have "(p AND 0xf800) AND x = 0" by (auto intro!: bit_eqI simp: bit_simps)
  then show ?thesis using a by (simp add: disjunctive_add_eq_or)
qed

subsection \<open>One instruction\<close>

definition no_fetch_brk :: "'z core51_scheme \<Rightarrow> bool" where
  "no_fetch_brk s \<longleftrightarrow> (\<forall>c. cflags s c AND CELL_FETCH_BRK = 0)"

definition started :: "'z core51_scheme \<Rightarrow> 'z core51_scheme" where
  "started s = ticked 1 (advanced (s\<lparr>instPC := PC s\<rparr>))"

lemma ready_instPC [simp]: "ready (s\<lparr>instPC := x\<rparr>) = ready s"
  by (rule ready_cong) simp_all

lemma instPC_simps [simp]:
  "cell_get c (s\<lparr>instPC := x\<rparr>) = cell_get c s" "code_byte (s\<lparr>instPC := x\<rparr>) = code_byte s"
  "fetchable (s\<lparr>instPC := x\<rparr>) = fetchable s"
  by (simp_all add: cell_get_def code_byte_def fetchable_def code_cell_def)

lemma started_simps [simp]:
  "ready s \<Longrightarrow> ready (started s)" "cell_get c (started s) = cell_get c s"
  "PC (started s) = (PC s + 1) mod 0x10000" "stack_ops (started s) = stack_ops s"
  "errors (started s) = errors s" "instPC (started s) = PC s"
  by (simp_all add: started_def)

lemma more_fields [simp]:
  "inst_ticks (poke c v s) = inst_ticks s" "inst_ticks (ticked n s) = inst_ticks s + n"
  "inst_ticks (advanced s) = inst_ticks s" "inst_ticks (started s) = inst_ticks s + 1"
  "cflags (ticked n s) = cflags s" "cflags (advanced s) = cflags s" "cflags (started s) = cflags s"
  by (simp_all add: poke_def store_def ticked_def advanced_def started_def)

lemma no_brk_hit: "no_fetch_brk s \<Longrightarrow> 0 \<le> PC s \<Longrightarrow> PC s < 0x10000 \<Longrightarrow> fetch_brk_hit s = Some (False, s)"
  by (simp add: fetch_brk_hit_def get_cell_flag_def cell_get_flag_def no_fetch_brk_def cells_at_def
      out_of_space_def)

subsection \<open>Branches\<close>

definition branched :: "bool \<Rightarrow> int \<Rightarrow> 'z core51_scheme \<Rightarrow> 'z core51_scheme" where
  "branched b d s = (if b then s\<lparr>PC := rel_target (PC s) d\<rparr> else s)"

definition compared :: "int \<Rightarrow> int \<Rightarrow> int \<Rightarrow> 'z core51_scheme \<Rightarrow> 'z core51_scheme" where
  "compared x y d s = branched (x \<noteq> y) d (poke psw (upd_bit (x < y) bmCY (cell_get psw s)) s)"

lemma ticked_PC [simp]: "ticked n (s\<lparr>PC := x\<rparr>) = (ticked n s)\<lparr>PC := x\<rparr>"
  by (simp add: ticked_def)

context core_elements
begin

lemma exec_inst_eq:
  assumes "ready s" "fetchable s" "no_fetch_brk s" "PC s < 0x10000"
  shows "exec_inst hw s = dispatch hw (code_byte s) (started s)"
proof -
  let ?s = "s\<lparr>instPC := PC s\<rparr>"
  have "no_fetch_brk ?s" "0 \<le> PC ?s" using assms by (simp_all add: no_fetch_brk_def fetchable_def)
  then have "fetch_brk_hit ?s = Some (False, ?s)" using assms(4) by (intro no_brk_hit) simp_all
  moreover have "fetch hw ?s = Some (code_byte s, advanced ?s)" using assms by simp
  moreover have "ready (advanced ?s)" using assms by simp
  ultimately show ?thesis
    by (simp add: exec_inst_def fetch_code_def started_def Let_def)
qed

lemma jump_specs:
  assumes s: "ready s" "fetchable s"
  shows "inst_sjmp hw code s = Some (resGO, branched True (code_byte s) (ticked 1 (advanced s)))"
    and "inst_jc_addr hw code s
      = Some (resGO, branched (bit (cell_get psw s) 7) (code_byte s) (ticked 1 (advanced s)))"
    and "inst_jnc_addr hw code s
      = Some (resGO, branched (\<not> bit (cell_get psw s) 7) (code_byte s) (ticked 1 (advanced s)))"
    and "inst_jz_addr hw code s
      = Some (resGO, branched (cell_get acc s = 0) (code_byte s) (ticked 1 (advanced s)))"
    and "inst_jnz_addr hw code s
      = Some (resGO, branched (cell_get acc s \<noteq> 0) (code_byte s) (ticked 1 (advanced s)))"
  using s by (simp_all add: inst_sjmp_def inst_jc_addr_def inst_jnc_addr_def inst_jz_addr_def
      inst_jnz_addr_def branched_def rel_jump_eq Let_def)

lemma ajmp_spec:
  assumes s: "ready s" "fetchable s" and code: "byte code"
  shows "inst_ajmp_addr hw code s = Some (resGO, (ticked 1 (advanced s))\<lparr>PC :=
     page_target (PC (advanced s)) (code div 32) (code_byte s)\<rparr>)"
proof -
  have c: "0 \<le> code div 32" "code div 32 < 8"
    using code zdiv_mono1 [of code 255 32] by (auto simp: byte_def pos_imp_zdiv_nonneg_iff)
  have l: "byte (code_byte s)" using s by simp
  have "(PC (advanced s) AND 0xf800) OR (code div 32 * 256 + code_byte s)
      = PC (advanced s) div 0x800 * 0x800 + (code div 32 * 256 + code_byte s)"
    using c byteD [OF l] by (intro page_bits) simp_all
  then show ?thesis
    using s c by (simp add: inst_ajmp_addr_def page_target_def and_7 Let_def add.assoc)
qed

lemma cjne_specs:
  assumes s: "ready s" "fetchable s" "fetchable (advanced s)"
  defines "t \<equiv> ticked 1 (advanced (advanced s))" and "d \<equiv> code_byte s"
  shows "inst_cjne_a_Sdata_addr hw code s
      = Some (resGO, compared (cell_get acc s) d (code_byte (advanced s)) t)"
    and "inst_cjne_Sri_Sdata_addr hw code s
      = Some (resGO, compared (cell_get (ind_cell code s) s) d (code_byte (advanced s)) t)"
    and "inst_cjne_rn_Sdata_addr hw code s
      = Some (resGO, compared (cell_get (reg_cell code s) s) d (code_byte (advanced s)) t)"
  using s by (simp_all add: inst_cjne_a_Sdata_addr_def inst_cjne_Sri_Sdata_addr_def
      inst_cjne_rn_Sdata_addr_def compared_def branched_def rel_jump_eq Let_def SFR_SET_BIT_eq t_def d_def)

lemma djnz_spec:
  assumes s: "ready s" "fetchable s"
  shows "inst_djnz_rn_addr hw code s = Some (resGO,
     branched ((cell_get (reg_cell code s) s - 1) mod 256 \<noteq> 0) (code_byte s)
       (poke (reg_cell code s) ((cell_get (reg_cell code s) s - 1) mod 256) (ticked 1 (advanced s))))"
proof -
  obtain i where i: "reg_cell code s = Cell Iram i" by (simp add: reg_cell_def)
  have "ops s (reg_cell code s) = []" using s by simp
  then show ?thesis
    using s by (simp add: inst_djnz_rn_addr_def branched_def rel_jump_eq Let_def i)
qed

end

subsection \<open>A delay loop\<close>

primrec exec_n :: "'z core_hw \<Rightarrow> nat \<Rightarrow> 'z core51_scheme \<Rightarrow> 'z core51_scheme option" where
  "exec_n hw 0 s = Some s"
| "exec_n hw (Suc n) s = Option.bind (exec_inst hw s) (\<lambda>(_, s). exec_n hw n s)"

definition at_djnz :: "int \<Rightarrow> int \<Rightarrow> 'z core51_scheme \<Rightarrow> bool" where
  "at_djnz p code s \<longleftrightarrow> ready s \<and> no_fetch_brk s \<and> PC s = p \<and> in_flash s \<and> in_flash (advanced s)
     \<and> code_byte s = code \<and> code_byte (advanced s) = 0xfe"

lemma dispatch_djnz: "0xd8 \<le> code \<Longrightarrow> code \<le> 0xdf \<Longrightarrow> dispatch hw code s = inst_djnz_rn_addr hw code s"
  by (simp add: dispatch_def)

lemma rel_target_back: "0 \<le> p \<Longrightarrow> p + 2 < 0x10000 \<Longrightarrow> rel_target (p + 2) 0xfe = p"
  by (simp add: rel_target_def to_schar_def)

lemma djnz_round:
  assumes l: "at_djnz p code s" and c: "0xd8 \<le> code" "code \<le> 0xdf" and p: "0 \<le> p" "p + 2 < 0x10000"
  defines "r \<equiv> cell_get (reg_cell code s) s"
  shows "\<exists>s'. exec_inst (core51_hwif other) s = Some (resGO, s') \<and> reg_cell code s' = reg_cell code s
     \<and> cell_get (reg_cell code s) s' = (r - 1) mod 256
     \<and> (if r = 1 then PC s' = p + 2 else at_djnz p code s')
     \<and> inst_ticks s' = inst_ticks s + 2"
proof -
  have s: "ready s" "fetchable s" "no_fetch_brk s" "PC s = p" "fetchable (advanced s)"
    using l by (auto simp: at_djnz_def in_flash_fetchable)
  have st: "ready (started s)" "fetchable (started s)" "code_byte (started s) = 0xfe"
    using l s in_flash_agree [of "advanced s" "started s"] in_flash_fetchable [of "started s"]
    by (simp_all add: at_djnz_def)
  have e: "exec_inst (core51_hwif other) s = inst_djnz_rn_addr (core51_hwif other) code (started s)"
    using c51.exec_inst_eq [OF s(1-3)] s(4) p l dispatch_djnz [OF c] by (simp add: at_djnz_def)
  let ?v = "(r - 1) mod 256"
  define t where "t = poke (reg_cell code s) ?v (ticked 1 (advanced (started s)))"
  define u where "u = t\<lparr>PC := p\<rparr>"
  have rc: "reg_cell code (started s) = reg_cell code s" by (simp add: reg_cell_def)
  have x: "exec_inst (core51_hwif other) s = Some (resGO, branched (?v \<noteq> 0) 0xfe t)"
    unfolding e c51.djnz_spec [OF st(1,2)] st(3) rc by (simp add: r_def t_def)
  have t: "ready t" "PC t = p + 2" "no_fetch_brk t" "inst_ticks t = inst_ticks s + 2"
    "reg_cell code t = reg_cell code s" "cell_get (reg_cell code s) t = ?v"
    using s p mod_add_left_eq [of "p + 1" "0x10000" 1]
    by (simp_all add: t_def reg_cell_def no_fetch_brk_def)
  have "byte r" using s by (simp add: r_def)
  then have z: "?v = 0 \<longleftrightarrow> r = 1" by (cases "r = 0") (auto simp: byte_def)
  have g: "cell_get (Cell a i) u = cell_get (Cell a i) s" if "a \<noteq> Iram" for a i
    using s(1) that by (simp add: u_def t_def reg_cell_def)
  have u: "ready u" "no_fetch_brk u" "PC u = p" "inst_ticks u = inst_ticks t"
    "reg_cell code u = reg_cell code t" "cell_get c u = cell_get c t" for c
    using t(1,3) by (simp_all add: u_def no_fetch_brk_def reg_cell_def)
  have "at_djnz p code u"
    using l u(1-3) in_flash_agree [of s u] in_flash_agree [of "advanced s" "advanced u"] g
    by (simp add: at_djnz_def)
  moreover have "branched (?v \<noteq> 0) 0xfe t = (if r = 1 then t else u)"
    using z t(2) rel_target_back [OF p] by (simp add: branched_def u_def)
  ultimately show ?thesis using x t(2,4-6) u(4-6) by simp
qed

lemma djnz_rounds:
  assumes "at_djnz p code s" "0xd8 \<le> code" "code \<le> 0xdf" "0 \<le> p" "p + 2 < 0x10000"
    and "cell_get (reg_cell code s) s = (int n + 1) mod 256" "n < 256"
  shows "\<exists>s'. exec_n (core51_hwif other) (Suc n) s = Some s' \<and> PC s' = p + 2
     \<and> cell_get (reg_cell code s) s' = 0 \<and> inst_ticks s' = inst_ticks s + 2 * int (Suc n)"
  using assms
proof (induction n arbitrary: s)
  case 0
  then show ?case using djnz_round [OF 0(1-5), of other] by auto
next
  case (Suc n)
  let ?r = "cell_get (reg_cell code s) s"
  have q: "?r = (int n + 2) mod 256" using Suc.prems(6) by (simp add: algebra_simps)
  have r: "?r \<noteq> 1" unfolding q using Suc.prems(7) by (cases "int n + 2 = 256") auto
  have "(?r - 1) mod 256 = (int n + 2 - 1) mod 256" unfolding q by (rule mod_diff_left_eq)
  note r = r this
  obtain t where t: "exec_inst (core51_hwif other) s = Some (resGO, t)" "at_djnz p code t"
    "reg_cell code t = reg_cell code s" "cell_get (reg_cell code t) t = (int n + 1) mod 256"
    "inst_ticks t = inst_ticks s + 2"
    using djnz_round [OF Suc.prems(1-5), of other] r by (auto simp: add.commute)
  from Suc.IH [OF t(2) Suc.prems(2-5) t(4)] Suc.prems(7) obtain u where
    "exec_n (core51_hwif other) (Suc n) t = Some u" "PC u = p + 2"
    "cell_get (reg_cell code t) u = 0" "inst_ticks u = inst_ticks t + 2 * int (Suc n)" by auto
  then show ?case using t(1,3,5) by auto
qed

subsection \<open>Properties\<close>

text \<open>
  C34 A one-instruction delay loop ends: DJNZ Rn jumping to itself, with breakpoints absent and code
  in flash, is executed exactly as often as the register says (256 times for 0), takes two
  machine cycles each time, and then goes on behind the instruction with the register at zero.
\<close>

theorem delay_loop:
  assumes l: "at_djnz p code s" and c: "0xd8 \<le> code" "code \<le> 0xdf" and p: "0 \<le> p" "p + 2 < 0x10000"
    and k: "k = (if cell_get (reg_cell code s) s = 0 then 256 else cell_get (reg_cell code s) s)"
  shows "\<exists>s'. exec_n (core51_hwif other) (nat k) s = Some s' \<and> PC s' = p + 2
     \<and> cell_get (reg_cell code s) s' = 0 \<and> inst_ticks s' = inst_ticks s + 2 * k"
proof -
  let ?r = "cell_get (reg_cell code s) s"
  have r: "byte ?r" using l by (simp add: at_djnz_def)
  then have n: "?r = (int (nat (k - 1)) + 1) mod 256" "nat (k - 1) < 256" "Suc (nat (k - 1)) = nat k"
    "int (nat k) = k"
    using k by (auto simp: byte_def)
  show ?thesis using djnz_rounds [OF l c p n(1,2), of other] unfolding n(3,4) .
qed

definition delay_demo :: core51 where
  "delay_demo = boot51 (\<lambda>c. if c = Cell Flashbank0 0 then 0xdf else if c = Cell Flashbank0 1 then 0xfe
     else if c = Cell Iram 7 then 3 else 0)"

theorem delay_loop_witness:
  "\<exists>s'. exec_n (core51_hwif base_hw) 3 delay_demo = Some s' \<and> PC s' = 2 \<and> cell_get (Cell Iram 7) s' = 0"
proof -
  have "at_djnz 0 0xdf delay_demo"
    by (simp add: at_djnz_def delay_demo_def no_fetch_brk_def in_flash_def code_cell_def code_byte_def)
      (simp add: boot51_def)
  moreover have "reg_cell 0xdf delay_demo = Cell Iram 7" "cell_get (Cell Iram 7) delay_demo = 3"
    by (simp_all add: reg_cell_def delay_demo_def)
  ultimately show ?thesis
    using delay_loop [of 0 "0xdf" delay_demo 3 base_hw] by auto
qed

text \<open>
   SJMP and the conditional jumps go to the address after the instruction plus the signed
  displacement, modulo 64K except that an exact 10000h is left as it is; AJMP stays in the 2K
  page of the following instruction. The jump takes its second machine cycle whether taken or not.
\<close>

theorem jump_targets:
  assumes s: "ready s" "fetchable s" and code: "byte code"
  shows "inst_sjmp (core51_hwif other) code s
      = Some (resGO, branched True (code_byte s) (ticked 1 (advanced s)))
    \<and> inst_jc_addr (core51_hwif other) code s
      = Some (resGO, branched (bit (cell_get psw s) 7) (code_byte s) (ticked 1 (advanced s)))
    \<and> inst_jnc_addr (core51_hwif other) code s
      = Some (resGO, branched (\<not> bit (cell_get psw s) 7) (code_byte s) (ticked 1 (advanced s)))
    \<and> inst_jz_addr (core51_hwif other) code s
      = Some (resGO, branched (cell_get acc s = 0) (code_byte s) (ticked 1 (advanced s)))
    \<and> inst_jnz_addr (core51_hwif other) code s
      = Some (resGO, branched (cell_get acc s \<noteq> 0) (code_byte s) (ticked 1 (advanced s)))
    \<and> inst_ajmp_addr (core51_hwif other) code s = Some (resGO, (ticked 1 (advanced s))\<lparr>PC :=
        page_target (PC (advanced s)) (code div 32) (code_byte s)\<rparr>)"
  using c51.jump_specs [OF s] c51.ajmp_spec [OF s code] by blast

theorem jump_targets_witness:
  "inst_sjmp (core51_hwif base_hw) 0x80 (boot51 (\<lambda>c. 0x10))
     = Some (resGO, branched True 0x10 (ticked 1 (advanced (boot51 (\<lambda>c. 0x10)))))
   \<and> PC (branched True 0x10 (ticked 1 (advanced (boot51 (\<lambda>c. 0x10))))) = 0x11"
  using jump_targets [of "boot51 (\<lambda>c. 0x10)" "0x80" base_hw]
  by (simp add: branched_def rel_target_def to_schar_def)

text \<open>
   CJNE jumps exactly when the operands differ and sets the carry exactly when the first, read
  as an unsigned byte, is less than the second; no other flag and no operand changes.
\<close>

theorem compare_and_jump:
  assumes s: "ready s" "fetchable s" "fetchable (advanced s)"
    and t: "t = ticked 1 (advanced (advanced s))"
  shows "inst_cjne_a_Sdata_addr (core51_hwif other) code s
      = Some (resGO, compared (cell_get acc s) (code_byte s) (code_byte (advanced s)) t)
    \<and> inst_cjne_Sri_Sdata_addr (core51_hwif other) code s
      = Some (resGO, compared (cell_get (ind_cell code s) s) (code_byte s) (code_byte (advanced s)) t)
    \<and> inst_cjne_rn_Sdata_addr (core51_hwif other) code s
      = Some (resGO, compared (cell_get (reg_cell code s) s) (code_byte s) (code_byte (advanced s)) t)
    \<and> bit (cell_get psw (compared x y d t)) 7 = (x < y)
    \<and> (\<forall>c. c \<noteq> psw \<longrightarrow> cell_get c (compared x y d t) = cell_get c s)"
proof -
  have "ready t" "cell_get c t = cell_get c s" for c using s t by simp_all
  then have "bit (cell_get psw (compared x y d t)) 7 = (x < y)
     \<and> (\<forall>c. c \<noteq> psw \<longrightarrow> cell_get c (compared x y d t) = cell_get c s)"
    by (simp add: compared_def branched_def)
  then show ?thesis using c51.cjne_specs [OF s, of other code] t by blast
qed

theorem compare_and_jump_witness:
  "inst_cjne_a_Sdata_addr (core51_hwif base_hw) 0xb4 (boot51 (\<lambda>c. 5))
     = Some (resGO, compared 5 5 5 (ticked 1 (advanced (advanced (boot51 (\<lambda>c. 5))))))
   \<and> PC (compared 5 5 5 (ticked 1 (advanced (advanced (boot51 (\<lambda>c. 5)))))) = 2"
proof -
  have "fetchable (advanced (boot51 (\<lambda>c. 5)))" "code_byte (advanced (boot51 (\<lambda>c. 5))) = 5"
    by (simp_all add: fetchable_def code_byte_def code_cell_def)
  then show ?thesis
    using compare_and_jump [of "boot51 (\<lambda>c. 5)" _ base_hw "0xb4"]
    by (simp add: compared_def branched_def)
qed

end
