(* ===== verification/Data51Facts.thy ===== *)
theory Data51Facts
  imports Jmp51Facts
begin

text \<open>
  Data transfer, logic and bit instructions: exchanges and nibble swaps, the external data space
  as MOVX sees it, 16-bit increment, and single bits of the bit-addressable memory.
\<close>

subsection \<open>The accumulator and its parity\<close>

definition acc_set :: "int \<Rightarrow> 'z core51_scheme \<Rightarrow> 'z core51_scheme" where
  "acc_set v s = poke psw (psw_parity v (cell_get psw s)) (poke acc v s)"

lemma acc_set_ready [simp]: "ready s \<Longrightarrow> byte v \<Longrightarrow> ready (acc_set v s)"
  by (simp add: acc_set_def)

lemma acc_set_get [simp]:
  assumes "ready s" "byte v"
  shows "cell_get c (acc_set v s) = (if c = acc then v else if c = psw
     then psw_parity v (cell_get psw s) else cell_get c s)"
  using assms by (simp add: acc_set_def)

lemma psw_parity_bits: "bit (psw_parity v p) 0 = parity v"
  "0 < n \<Longrightarrow> n < 8 \<Longrightarrow> bit (psw_parity v p) n = bit p n"
proof -
  show "bit (psw_parity v p) 0 = parity v" by (simp add: psw_parity_def bit_simps)
  assume "0 < n" "n < 8"
  then have "n \<in> {1, 2, 3, 4, 5, 6, 7}" by auto
  then show "bit (psw_parity v p) n = bit p n" by (auto simp: psw_parity_def bit_simps)
qed

subsection \<open>Single bits\<close>

text \<open>Bit addresses below 80h name the bits of the sixteen bytes from 20h on.\<close>

definition bit_cell :: "int \<Rightarrow> cell" where
  "bit_cell b = Cell Iram (b div 8 + 0x20)"

definition get_bit :: "int \<Rightarrow> 'z mem_scheme \<Rightarrow> bool" where
  "get_bit b s = bit (cell_get (bit_cell b) s) (nat (b mod 8))"

definition put_bit :: "int \<Rightarrow> bool \<Rightarrow> 'z mem_scheme \<Rightarrow> 'z mem_scheme" where
  "put_bit b x s = poke (bit_cell b) (upd_bit x (2 ^ nat (b mod 8)) (cell_get (bit_cell b) s)) s"

lemma bit_mask: "byte (2 ^ nat ((b :: int) mod 8))"
proof -
  have "nat (b mod 8) < 8" using pos_mod_bound [of 8 b] by simp
  then have "(2 :: int) ^ nat (b mod 8) < 2 ^ 8" by (intro power_strict_increasing) simp_all
  then show ?thesis by (simp add: byte_def)
qed

lemma bit_upd_bit: "bit (upd_bit x (2 ^ k) v) n = (if n = k then x else bit v n)"
  by (auto simp: upd_bit_def bit_simps)

lemma bit2mem_iram:
  "0 \<le> b \<Longrightarrow> b < 0x80 \<Longrightarrow> bit2mem b = (Iram, b div 8 + 0x20, 2 ^ nat (b mod 8))"
  by (simp add: bit2mem_def Let_def and_7)

lemma bit_cell_range: "0 \<le> (b :: int) \<Longrightarrow> b < 0x80 \<Longrightarrow> 0 \<le> b div 8 + 0x20 \<and> b div 8 + 0x20 < 0x100"
  using zdiv_mono1 [of b "0x7f" 8] by (auto simp: pos_imp_zdiv_nonneg_iff)

lemma byte_upd_put [simp]: "mem_ok s \<Longrightarrow> byte (upd_bit x (2 ^ nat ((b :: int) mod 8)) (cell_get (bit_cell b) s))"
  using bit_mask [of b] by simp

lemma put_bit_simps [simp]:
  assumes "mem_ok s"
  shows "get_bit b (put_bit b x s) = x"
    and "c \<noteq> bit_cell b \<Longrightarrow> cell_get c (put_bit b x s) = cell_get c s"
    and "bit (cell_get (bit_cell b) (put_bit b x s)) n
      = (if n = nat (b mod 8) then x else bit (cell_get (bit_cell b) s) n)"
  using assms by (simp_all add: get_bit_def put_bit_def bit_upd_bit)

lemma xor_upd:
  "v XOR 2 ^ k = upd_bit (\<not> bit v k) (2 ^ k) v" for v :: int
  by (rule bit_eqI) (auto simp: bit_upd_bit bit_simps)

lemma iram_access:
  assumes "ops s (Cell Iram a) = []" "0 \<le> a" "a < 0x100"
  shows "as_read hw Iram a s = Some (cell_get (Cell Iram a) s, s)"
    "as_read_skip hw k Iram a s = Some (cell_get (Cell Iram a) s, s)"
    "as_write hw Iram a v s = Some (v mod 256, poke (Cell Iram a) (v mod 256) s)"
  using assms by (simp_all add: as_read_def leaf_read_def as_read_skip_def as_write_def leaf_write_def
      out_of_space_def)

subsection \<open>Logic and transfer\<close>

context core_elements
begin

lemma acc_write_set [simp]:
  "ready s \<Longrightarrow> cell_write hw acc v s = Some (v mod 256, acc_set (v mod 256) s)"
proof -
  assume s: "ready s"
  then have "mem_ok s" by simp
  then have "poke acc u (poke psw w s) = poke psw w (poke acc u s)" for u w
    by (rule poke_commute) simp
  then show ?thesis using acc_write [OF s] by (simp add: acc_set_def)
qed

declare acc_write [simp del]

lemma not_byte: "byte a \<Longrightarrow> (NOT a) mod 256 = 255 - a"
proof -
  assume a: "byte a"
  have "(- a - 1) mod 256 = (- a - 1 + 256) mod 256" by (rule mod_add_self2 [symmetric])
  also have "\<dots> = 255 - a" using a by (intro mod_pos_pos_trivial [THEN trans]) (auto simp: byte_def)
  finally show ?thesis by (simp add: not_int_def)
qed

lemma logic_specs:
  assumes s: "ready s"
  shows "inst_orl_a_rn hw code s
      = Some (resGO, acc_set (cell_get acc s OR cell_get (reg_cell code s) s) s)"
    and "inst_anl_a_rn hw code s
      = Some (resGO, acc_set (cell_get acc s AND cell_get (reg_cell code s) s) s)"
    and "inst_xrl_a_rn hw code s
      = Some (resGO, acc_set (cell_get acc s XOR cell_get (reg_cell code s) s) s)"
    and "inst_cpl_a hw code s = Some (resGO, acc_set (255 - cell_get acc s) s)"
    and "inst_clr_a hw code s = Some (resGO, acc_set 0 s)"
proof -
  let ?a = "cell_get acc s" and ?r = "cell_get (reg_cell code s) s"
  have b: "byte ?a" "byte ?r" using s by simp_all
  then have m: "(?a OR ?r) mod 256 = ?a OR ?r" "(?a AND ?r) mod 256 = ?a AND ?r"
    "(?a XOR ?r) mod 256 = ?a XOR ?r"
    by (simp_all add: byte_or byte_and byte_xor)
  note n = not_byte [OF b(1)]
  note defs = inst_orl_a_rn_def inst_anl_a_rn_def inst_xrl_a_rn_def inst_cpl_a_def inst_clr_a_def
  show "inst_orl_a_rn hw code s = Some (resGO, acc_set (?a OR ?r) s)"
    "inst_anl_a_rn hw code s = Some (resGO, acc_set (?a AND ?r) s)"
    "inst_xrl_a_rn hw code s = Some (resGO, acc_set (?a XOR ?r) s)"
    "inst_cpl_a hw code s = Some (resGO, acc_set (255 - ?a) s)"
    "inst_clr_a hw code s = Some (resGO, acc_set 0 s)"
    using s b m n by (simp_all add: defs Let_def)
qed

lemma swap_spec:
  assumes s: "ready s"
  shows "inst_swap hw code s
     = Some (resGO, acc_set (cell_get acc s mod 16 * 16 + cell_get acc s div 16) s)"
proof -
  let ?a = "cell_get acc s"
  have b: "byte ?a" using s by simp
  then have d: "0 \<le> ?a div 16" "?a div 16 < 16"
    using zdiv_mono1 [of ?a 255 16] by (auto simp: byte_def pos_imp_zdiv_nonneg_iff)
  have "bit (?a * 16) n \<Longrightarrow> \<not> bit (?a div 16) n" for n
  proof -
    have "?a * 16 = push_bit 4 ?a" by (simp add: push_bit_eq_mult)
    moreover assume "bit (?a * 16) n"
    ultimately have "4 \<le> n" by (simp add: bit_simps)
    moreover have "take_bit 4 (?a div 16) = ?a div 16" using d by (simp add: take_bit_int_eq_self_iff)
    ultimately show ?thesis by (metis bit_take_bit_iff not_less)
  qed
  then have "?a * 16 AND ?a div 16 = 0" by (auto intro!: bit_eqI simp: bit_simps)
  then have o: "?a * 16 OR ?a div 16 = ?a * 16 + ?a div 16" by (simp add: disjunctive_add_eq_or)
  have "(?a * 16 + ?a div 16) mod 256 = ?a mod 16 * 16 + ?a div 16"
  proof -
    have "?a * 16 mod 256 = ?a mod 16 * 16" using mult_mod_right [of 16 ?a 16] by (simp add: mult.commute)
    then have "(?a * 16 + ?a div 16) mod 256 = (?a mod 16 * 16 + ?a div 16) mod 256"
      by (metis mod_add_left_eq)
    also have "\<dots> = ?a mod 16 * 16 + ?a div 16"
      using d pos_mod_bound [of 16 ?a] by (intro mod_pos_pos_trivial) auto
    finally show ?thesis .
  qed
  then show ?thesis
    using s d b by (simp add: inst_swap_def sfr_access and_15 o Let_def byte_def [symmetric])
qed

lemma xch_spec:
  assumes s: "ready s"
  shows "inst_xch_a_rn hw code s = Some (resGO,
     poke (reg_cell code s) (cell_get acc s) (acc_set (cell_get (reg_cell code s) s) s))"
proof -
  obtain i where i: "reg_cell code s = Cell Iram i" by (simp add: reg_cell_def)
  have "ready (acc_set (cell_get (Cell Iram i) s) s)" using s by simp
  then show ?thesis
    using s by (simp add: inst_xch_a_rn_def xch_cells_def i)
qed

lemma inc_dptr_spec:
  assumes s: "ready s"
  defines "d \<equiv> cell_get (Cell Sfr 3) s * 256 + cell_get (Cell Sfr 2) s"
  shows "inst_inc_dptr hw code s = Some (resGO, ticked 1
     (poke (Cell Sfr 2) ((d + 1) mod 256) (poke (Cell Sfr 3) ((d + 1) div 256 mod 256) s)))"
  using s by (simp add: inst_inc_dptr_def sfr_access d_def Let_def)

lemma bit_specs:
  assumes s: "ready s" "fetchable s" and b: "b = code_byte s" "b < 0x80"
  shows "inst_setb_bit hw code s = Some (resGO, put_bit b True (advanced s))"
    and "inst_clr_bit hw code s = Some (resGO, put_bit b False (advanced s))"
    and "inst_cpl_bit hw code s = Some (resGO, put_bit b (\<not> get_bit b s) (advanced s))"
    and "inst_mov_bit_c hw code s
      = Some (resGO, ticked 1 (put_bit b (bit (cell_get psw s) 7) (advanced s)))"
    and "inst_mov_c_bit hw code s
      = Some (resGO, poke psw (upd_bit (get_bit b s) bmCY (cell_get psw s)) (advanced s))"
proof -
  let ?c = "bit_cell b" and ?m = "2 ^ nat (b mod 8) :: int"
  have "byte b" using b s by simp
  then have r: "0 \<le> b" by (simp add: byte_def)
  have o: "ops (advanced s) ?c = []" using s by (simp add: bit_cell_def)
  note a = iram_access [OF o [unfolded bit_cell_def], OF bit_cell_range [OF r b(2), THEN conjunct1]
      bit_cell_range [OF r b(2), THEN conjunct2], folded bit_cell_def, of hw]
  have u: "upd_bit x ?m (cell_get ?c s) mod 256 = upd_bit x ?m (cell_get ?c s)" for x
    using s bit_mask [of b] by simp
  have nz: "(cell_get ?c s AND ?m \<noteq> 0) = get_bit b s"
    using and_exp_eq_0_iff_not_bit [of "cell_get ?c s" "nat (b mod 8)"] by (simp add: get_bit_def)
  have rp: "ready (put_bit b x (advanced s))" for x
    using s bit_mask [of b] by (simp add: put_bit_def)
  have e: "cell_get ?c s OR ?m = upd_bit True ?m (cell_get ?c s)"
    "cell_get ?c s AND NOT ?m = upd_bit False ?m (cell_get ?c s)"
    by (simp_all add: upd_bit_def)
  note defs = inst_setb_bit_def inst_clr_bit_def inst_cpl_bit_def inst_mov_bit_c_def
    inst_mov_c_bit_def read_bit_def b(1) [symmetric] bit2mem_iram [OF r b(2)] a put_bit_def
  show "inst_setb_bit hw code s = Some (resGO, put_bit b True (advanced s))"
    "inst_clr_bit hw code s = Some (resGO, put_bit b False (advanced s))"
    "inst_cpl_bit hw code s = Some (resGO, put_bit b (\<not> get_bit b s) (advanced s))"
    using s u by (simp_all add: defs e xor_upd get_bit_def)
  show "inst_mov_bit_c hw code s
      = Some (resGO, ticked 1 (put_bit b (bit (cell_get psw s) 7) (advanced s)))"
    using s u rp by (cases "bit (cell_get psw s) 7") (simp_all add: defs e)
  show "inst_mov_c_bit hw code s
      = Some (resGO, poke psw (upd_bit (get_bit b s) bmCY (cell_get psw s)) (advanced s))"
    using s nz by (simp add: defs SFR_SET_BIT_eq)
qed

lemma dptr_read:
  assumes "ready s"
  shows "as_read hw Sfr r_DPH s = Some (cell_get (Cell Sfr 3) s, s)"
    and "as_read hw Sfr r_DPL s = Some (cell_get (Cell Sfr 2) s, s)"
  using assms by (simp_all add: sfr_access)

lemma movx_read_spec:
  assumes s: "ready s" and dp: "dp = cell_get (Cell Sfr 3) s * 256 + cell_get (Cell Sfr 2) s"
    and c: "ops s (xdata_cell dp s) = []"
  shows "inst_movx_a_Sdptr hw code s = Some (resGO, ticked 1
     ((acc_set (cell_get (xdata_cell dp s) s) (s\<lparr>MovInstruction := True\<rparr>))\<lparr>MovInstruction := False\<rparr>))"
proof -
  let ?t = "s\<lparr>MovInstruction := True\<rparr>"
  have b: "byte (cell_get (Cell Sfr 3) s)" "byte (cell_get (Cell Sfr 2) s)" using s by simp_all
  then have r: "0 \<le> dp" "dp < 0x10000" by (auto simp: dp byte_def)
  have x: "xdata_cell dp ?t = xdata_cell dp s" by (simp add: xdata_cell_def)
  have t: "ready ?t" using s by simp
  then have "as_read hw Xram dp ?t = Some (cell_get (xdata_cell dp s) s, ?t)"
    using xram_refines [of ?t dp hw] r c x by simp
  then show ?thesis
    using s t dp by (simp add: inst_movx_a_Sdptr_def dptr_read)
qed

lemma movx_write_spec:
  assumes s: "ready s" and dp: "dp = cell_get (Cell Sfr 3) s * 256 + cell_get (Cell Sfr 2) s"
  shows "0x7080 \<le> dp \<and> dp < 0x7100 \<Longrightarrow> inst_movx_Sdptr_a hw code s = None"
    and "\<not> (0x7080 \<le> dp \<and> dp < 0x7100) \<Longrightarrow> ops s (xdata_cell dp s) = [] \<Longrightarrow>
      inst_movx_Sdptr_a hw code s
        = Some (resGO, ticked 1 (poke (xdata_cell dp s) (cell_get acc s) s))"
proof -
  let ?h = "cell_get (Cell Sfr 3) s" and ?l = "cell_get (Cell Sfr 2) s"
  have b: "byte ?h" "byte ?l" "byte (cell_get acc s)" using s by simp_all
  then have r: "0 \<le> dp" "dp < 0x10000" by (auto simp: dp byte_def)
  have w: "?h = 0x70 \<and> 0x80 \<le> ?l \<longleftrightarrow> 0x7080 \<le> dp \<and> dp < 0x7100"
  proof
    assume d: "0x7080 \<le> dp \<and> dp < 0x7100"
    then have "111 < ?h" "?h < 113" using byteD [OF b(2)] unfolding dp by linarith+
    then have "?h = 0x70" by simp
    then show "?h = 0x70 \<and> 0x80 \<le> ?l" using d unfolding dp by simp
  qed (use byteD [OF b(2)] in \<open>simp add: dp\<close>)
  note defs = inst_movx_Sdptr_a_def dptr_read [OF s] Let_def
  show "inst_movx_Sdptr_a hw code s = None" if "0x7080 \<le> dp \<and> dp < 0x7100"
    using that s w dp by (simp add: defs as_write_def leaf_write_def out_of_space_def)
  assume n: "\<not> (0x7080 \<le> dp \<and> dp < 0x7100)" and c: "ops s (xdata_cell dp s) = []"
  obtain a i where "xdata_cell dp s = Cell a i" by (cases "xdata_cell dp s")
    (auto simp: xdata_cell_def sram_cell_def Let_def split: if_splits)
  then have "as_write hw Xram dp (cell_get acc s) s
      = Some (cell_get acc s, poke (xdata_cell dp s) (cell_get acc s) s)"
    using xram_refines [of s dp hw "cell_get acc s"] s r c b by simp
  moreover have "\<not> (?h = 0x70 \<and> 0x80 \<le> ?l)" using w n by blast
  ultimately show "inst_movx_Sdptr_a hw code s
        = Some (resGO, ticked 1 (poke (xdata_cell dp s) (cell_get acc s) s))"
    using s dp by (auto simp: defs)
qed

end

subsection \<open>Properties\<close>

text \<open>
  C35 A write through DPTR to an address of the register window 7080h to 70FFh aborts the program,
  whoever watches the register: the store is sent to the register space with the full 16-bit
  address, which is outside of it. At every other address whose cell no element watches, MOVX
  through DPTR moves a byte between the accumulator and the cell the CC2530 memory map gives for
  the address; a read also works in the register window.
\<close>

theorem movx_dptr:
  assumes s: "ready s" and dp: "dp = cell_get (Cell Sfr 3) s * 256 + cell_get (Cell Sfr 2) s"
  shows "(0x7080 \<le> dp \<and> dp < 0x7100 \<longrightarrow> inst_movx_Sdptr_a (core51_hwif other) 0xf0 s = None)
    \<and> (ops s (xdata_cell dp s) = [] \<longrightarrow>
        inst_movx_a_Sdptr (core51_hwif other) 0xe0 s = Some (resGO, ticked 1
          ((acc_set (cell_get (xdata_cell dp s) s) (s\<lparr>MovInstruction := True\<rparr>))\<lparr>MovInstruction := False\<rparr>))
      \<and> (\<not> (0x7080 \<le> dp \<and> dp < 0x7100) \<longrightarrow>
          inst_movx_Sdptr_a (core51_hwif other) 0xf0 s
            = Some (resGO, ticked 1 (poke (xdata_cell dp s) (cell_get acc s) s))))"
  using c51.movx_read_spec [OF s dp] c51.movx_write_spec [OF s dp] by simp

text \<open>\<open>FMAP\<close> at 709Fh is watched by \<open>cl_radio\<close> in the demonstration core, 1234h is the address of an SRAM cell.\<close>

theorem movx_dptr_witness:
  "inst_movx_Sdptr_a (core51_hwif base_hw) 0xf0
     (boot51 (\<lambda>c. if c = Cell Sfr 3 then 0x70 else if c = Cell Sfr 2 then 0x9f else 0)) = None
   \<and> ops (boot51 (\<lambda>_. 0)) (xdata_cell 0x709f (boot51 (\<lambda>_. 0))) \<noteq> []
   \<and> inst_movx_Sdptr_a (core51_hwif base_hw) 0xf0 (boot51 (\<lambda>c. if c = Cell Sfr 3 then 0x12 else 0x34))
     = Some (resGO, ticked 1 (poke (Cell Sram 0x1234) 0x34 (boot51 (\<lambda>c. if c = Cell Sfr 3 then 0x12 else 0x34))))"
proof -
  let ?s = "boot51 (\<lambda>c. if c = Cell Sfr 3 then 0x70 else if c = Cell Sfr 2 then 0x9f else 0)"
  let ?t = "boot51 (\<lambda>c. if c = Cell Sfr 3 then 0x12 else 0x34)"
  have "ops (boot51 (\<lambda>_. 0)) (xdata_cell 0x709f (boot51 (\<lambda>_. 0))) \<noteq> []"
    "xdata_cell 0x1234 ?t = Cell Sram 0x1234" "ops ?t (Cell Sram 0x1234) = []"
    by (simp_all add: xdata_cell_def boot51_ops sram_cell_def Let_def)
  then show ?thesis
    using movx_dptr [of ?s "0x709f" base_hw] movx_dptr [of ?t "0x1234" base_hw] by simp
qed

text \<open>
  On the bit-addressable memory SETB, CLR, CPL and MOV bit,C change the addressed bit to 1, 0, its
  negation and the carry, and no other bit of any cell; MOV C,bit loads the carry with it.
\<close>

theorem bit_instructions:
  assumes s: "ready s" "fetchable s" and b: "b = code_byte s" "b < 0x80"
  shows "inst_setb_bit (core51_hwif other) 0xd2 s = Some (resGO, put_bit b True (advanced s))
    \<and> inst_clr_bit (core51_hwif other) 0xc2 s = Some (resGO, put_bit b False (advanced s))
    \<and> inst_cpl_bit (core51_hwif other) 0xb2 s
      = Some (resGO, put_bit b (\<not> get_bit b s) (advanced s))
    \<and> inst_mov_bit_c (core51_hwif other) 0x92 s
      = Some (resGO, ticked 1 (put_bit b (bit (cell_get psw s) 7) (advanced s)))
    \<and> inst_mov_c_bit (core51_hwif other) 0xa2 s
      = Some (resGO, poke psw (upd_bit (get_bit b s) bmCY (cell_get psw s)) (advanced s))
    \<and> bit (cell_get (bit_cell b) (put_bit b x (advanced s))) n
      = (if n = nat (b mod 8) then x else bit (cell_get (bit_cell b) s) n)
    \<and> (\<forall>c. c \<noteq> bit_cell b \<longrightarrow> cell_get c (put_bit b x (advanced s)) = cell_get c s)"
proof -
  have "mem_ok (advanced s)" using s by (intro ready_mem_ok) simp
  then show ?thesis using c51.bit_specs [OF s b] by simp
qed

theorem bit_instructions_witness:
  "inst_setb_bit (core51_hwif base_hw) 0xd2 (boot51 (\<lambda>c. 0x13))
     = Some (resGO, put_bit 0x13 True (advanced (boot51 (\<lambda>c. 0x13))))
   \<and> bit (cell_get (bit_cell 0x13) (put_bit 0x13 True (advanced (boot51 (\<lambda>c. 0x13))))) 3"
  using bit_instructions [of "boot51 (\<lambda>c. 0x13)" "0x13" base_hw True 3]
  by (simp add: get_bit_def)

lemma xch_twice:
  assumes s: "ready s" and r: "r = reg_cell code s"
  shows "\<exists>t u. inst_xch_a_rn (core51_hwif other) code s = Some (resGO, t)
      \<and> cell_get acc t = cell_get r s \<and> cell_get r t = cell_get acc s
      \<and> bit (cell_get psw t) 0 = parity (cell_get acc t)
      \<and> inst_xch_a_rn (core51_hwif other) code t = Some (resGO, u)
      \<and> cell_get acc u = cell_get acc s \<and> cell_get r u = cell_get r s"
proof -
  obtain i where i: "r = Cell Iram i" by (simp add: r reg_cell_def)
  let ?x = "\<lambda>s. poke r (cell_get acc s) (acc_set (cell_get r s) s)"
  have g: "ready t \<Longrightarrow> ready (?x t) \<and> cell_get acc (?x t) = cell_get r t \<and> cell_get r (?x t) = cell_get acc t
      \<and> cell_get psw (?x t) = psw_parity (cell_get r t) (cell_get psw t)" for t
    using ready_mem_ok [OF acc_set_ready, of t "cell_get r t"] by (simp add: i)
  have "psw_parity v p AND 0x18 = p AND 0x18" for v p
    by (rule byte_eq8I, (intro byte_and2; simp), (intro byte_and2; simp),
      simp_all add: psw_parity_def bit_simps)
  then have "reg_cell code (?x s) = r" using g [OF s] by (simp add: reg_cell_def r)
  then have "inst_xch_a_rn (core51_hwif other) code s = Some (resGO, ?x s)"
    "inst_xch_a_rn (core51_hwif other) code (?x s) = Some (resGO, ?x (?x s))"
    using c51.xch_spec [OF s, of other code] c51.xch_spec [of "?x s" other code] g [OF s] r by simp_all
  moreover have "bit (cell_get psw (?x s)) 0 = parity (cell_get acc (?x s))"
    using g [OF s] by (simp add: psw_parity_bits)
  moreover have "cell_get acc (?x s) = cell_get r s" "cell_get r (?x s) = cell_get acc s"
    "cell_get acc (?x (?x s)) = cell_get acc s" "cell_get r (?x (?x s)) = cell_get r s"
    using g [OF s] g [of "?x s"] by simp_all
  ultimately show ?thesis by blast
qed

text \<open>
   XCH A,Rn exchanges accumulator and register, SWAP the two halves of the accumulator; each done
  twice gives back every byte exchanged, and XCH leaves the parity flag right.
\<close>

theorem exchange_instructions:
  assumes s: "ready s" and r: "r = reg_cell code s"
  shows "(\<exists>t u. inst_xch_a_rn (core51_hwif other) code s = Some (resGO, t)
      \<and> cell_get acc t = cell_get r s \<and> cell_get r t = cell_get acc s
      \<and> bit (cell_get psw t) 0 = parity (cell_get acc t)
      \<and> inst_xch_a_rn (core51_hwif other) code t = Some (resGO, u)
      \<and> cell_get acc u = cell_get acc s \<and> cell_get r u = cell_get r s)
    \<and> (\<exists>t u. inst_swap (core51_hwif other) 0xc4 s = Some (resGO, t)
      \<and> cell_get acc t = cell_get acc s mod 16 * 16 + cell_get acc s div 16
      \<and> inst_swap (core51_hwif other) 0xc4 t = Some (resGO, u)
      \<and> cell_get acc u = cell_get acc s)"
proof -
  let ?a = "cell_get acc s" and ?w = "\<lambda>x. x mod 16 * 16 + x div 16 :: int"
  have a: "byte ?a" using s by simp
  then have d: "0 \<le> ?a div 16" "?a div 16 < 16"
    using zdiv_mono1 [of ?a 255 16] by (auto simp: byte_def pos_imp_zdiv_nonneg_iff)
  then have w: "byte (?w ?a)" "?w (?w ?a) = ?a"
    using pos_mod_bound [of 16 ?a] by (simp_all add: byte_def)
  have t: "ready (acc_set (?w ?a) s)" using s w by simp
  then show ?thesis
    using c51.swap_spec [OF s, of other "0xc4"] c51.swap_spec [OF t, of other "0xc4"] s w a
      xch_twice [OF s r, of other] by auto
qed

theorem exchange_instructions_witness:
  "\<exists>t. inst_swap (core51_hwif base_hw) 0xc4 (boot51 (\<lambda>c. 0x5a)) = Some (resGO, t)
     \<and> cell_get acc t = 0xa5"
  using exchange_instructions [of "boot51 (\<lambda>c. 0x5a)" _ 0 base_hw] by auto

text \<open>
  ORL, ANL and XRL combine accumulator and register bit by bit, CPL complements, CLR clears; the
  parity flag follows the result and every other flag is kept.
\<close>

theorem logic_instructions:
  assumes s: "ready s" and x: "x = cell_get (reg_cell code s) s"
  shows "inst_orl_a_rn (core51_hwif other) code s = Some (resGO, acc_set (cell_get acc s OR x) s)
    \<and> inst_anl_a_rn (core51_hwif other) code s = Some (resGO, acc_set (cell_get acc s AND x) s)
    \<and> inst_xrl_a_rn (core51_hwif other) code s = Some (resGO, acc_set (cell_get acc s XOR x) s)
    \<and> inst_cpl_a (core51_hwif other) 0xf4 s = Some (resGO, acc_set (255 - cell_get acc s) s)
    \<and> inst_clr_a (core51_hwif other) 0xe4 s = Some (resGO, acc_set 0 s)
    \<and> (byte v \<longrightarrow> bit (cell_get psw (acc_set v s)) 0 = parity v
         \<and> (\<forall>n. 0 < n \<and> n < 8 \<longrightarrow> bit (cell_get psw (acc_set v s)) n = bit (cell_get psw s) n))"
  using c51.logic_specs [OF s] s x by (simp add: psw_parity_bits)

theorem logic_instructions_witness:
  "inst_xrl_a_rn (core51_hwif base_hw) 0x68 (boot51 (\<lambda>c. 0x5a))
     = Some (resGO, acc_set 0 (boot51 (\<lambda>c. 0x5a)))"
  using logic_instructions [of "boot51 (\<lambda>c. 0x5a)" "0x5a" "0x68" base_hw 0] by simp

text \<open>
  INC DPTR adds one to the 16-bit pointer with the carry from the low into the high byte, FFFFh
  going to 0, and takes two cycles in all.
\<close>

theorem inc_dptr_wraps:
  assumes s: "ready s" and d: "d = cell_get (Cell Sfr 3) s * 256 + cell_get (Cell Sfr 2) s"
  shows "\<exists>t. inst_inc_dptr (core51_hwif other) 0xa3 s = Some (resGO, ticked 1 t)
    \<and> cell_get (Cell Sfr 3) t * 256 + cell_get (Cell Sfr 2) t = (d + 1) mod 0x10000
    \<and> (\<forall>c. c \<notin> {Cell Sfr 2, Cell Sfr 3} \<longrightarrow> cell_get c t = cell_get c s)"
proof -
  define l h where "l = (d + 1) mod 256" and "h = (d + 1) div 256 mod 256"
  have b: "byte l" "byte h" by (simp_all add: l_def h_def)
  have lh: "h * 256 + l = (d + 1) mod 0x10000"
    using zmod_zmult2_eq [of 256 "d + 1" 256] by (simp add: l_def h_def)
  have "inst_inc_dptr (core51_hwif other) 0xa3 s
      = Some (resGO, ticked 1 (poke (Cell Sfr 2) l (poke (Cell Sfr 3) h s)))"
    using c51.inc_dptr_spec [OF s, of other "0xa3"] by (simp only: d l_def h_def)
  moreover have "mem_ok (poke (Cell Sfr 3) h s)" using s b by simp
  ultimately show ?thesis using s b lh by (intro exI [of _ "poke (Cell Sfr 2) l (poke (Cell Sfr 3) h s)"]) simp
qed

theorem inc_dptr_wraps_witness:
  "\<exists>t. inst_inc_dptr (core51_hwif base_hw) 0xa3 (boot51 (\<lambda>c. 0xff)) = Some (resGO, ticked 1 t)
     \<and> cell_get (Cell Sfr 3) t * 256 + cell_get (Cell Sfr 2) t = 0"
  using inc_dptr_wraps [of "boot51 (\<lambda>c. 0xff)" "0xffff" base_hw] by auto

end
