(* ===== verification/UcFacts.thy ===== *)
theory UcFacts
  imports Uc MemFacts
begin

text \<open>
  The collections and the commands of the generic controller: bisection against linear search,
  capacity, numbering and hit counting of breakpoints, removal of all breakpoints with the case in
  which it never ends.
\<close>

subsection \<open>Linear search\<close>

definition linear_search :: "('a \<Rightarrow> 'k::linorder) \<Rightarrow> 'k \<Rightarrow> 'a list \<Rightarrow> bool \<times> int" where
  "linear_search key_of k xs = (k \<in> key_of ` set xs, int (length (takeWhile (\<lambda>x. key_of x < k) xs)))"

lemma split_point_takeWhile:
  assumes "split_point key_of k xs i"
  shows "i = int (length (takeWhile (\<lambda>x. key_of x < k) xs))"
proof -
  let ?a = "take (nat i) xs" and ?b = "drop (nat i) xs"
  have "takeWhile (\<lambda>x. key_of x < k) (?a @ ?b) = ?a @ takeWhile (\<lambda>x. key_of x < k) ?b"
    using assms by (intro takeWhile_append2) (simp add: split_point_def)
  moreover have "takeWhile (\<lambda>x. key_of x < k) ?b = []"
    using assms by (cases ?b) (auto simp: split_point_def)
  ultimately have "takeWhile (\<lambda>x. key_of x < k) xs = ?a" by simp
  then show ?thesis using assms by (auto simp: split_point_def min_def)
qed

context sorted_coll
begin

lemma search_linear:
  assumes "key_sorted key_of dup (Items l)"
  shows "sl_search key_of compare dup k l = linear_search key_of k (Items l)"
proof -
  obtain found i where r: "sl_search key_of compare dup k l = (found, i)" by fastforce
  show ?thesis
    using search_correct(1,2) [OF assms r] r split_point_takeWhile
    by (auto simp: linear_search_def)
qed

end

subsection \<open>Capacity\<close>

lemma list_push_capacity:
  assumes "cl_list_ok l"
  shows "(\<exists>l'. list_push x l = Some l') \<longleftrightarrow> lcount l < max_list_size"
proof
  assume "\<exists>l'. list_push x l = Some l'"
  then have "\<exists>l'. add_at (if lcount l = 0 then lcount l else 0) x l = Some l'"
    by (auto simp: list_push_def list_add_def bind_eq_Some_conv split: if_splits)
  then show "lcount l < max_list_size"
    using assms by (auto simp: add_at_def cl_list_ok_def set_limit_def Let_def max_list_size_def
        lcount_def bind_eq_Some_conv split: if_splits)
next
  assume n: "lcount l < max_list_size"
  obtain l' where "add_at 0 x l = Some l'"
    using add_at_total [OF assms n order_refl, of x] by (auto simp: lcount_def)
  then have "list_push x l = Some l'" by (simp add: list_push_def list_add_def)
  then show "\<exists>l'. list_push x l = Some l'" ..
qed

subsection \<open>Hit counts\<close>

lemma do_hit_count:
  assumes "0 < h" "b_hit b = h" "b_cnt b = h"
  shows "b_hit (((snd \<circ> do_hit) ^^ k) b) = h \<and> b_cnt (((snd \<circ> do_hit) ^^ k) b) = h - int k mod h"
proof (induction k)
  case (Suc k)
  let ?b = "((snd \<circ> do_hit) ^^ k) b" and ?m = "int k mod h"
  have m: "0 \<le> ?m" "?m < h" using assms(1) by simp_all
  have "int (Suc k) mod h = (?m + 1) mod h" by (simp add: mod_simps add.commute)
  then have "int (Suc k) mod h = (if ?m + 1 = h then 0 else ?m + 1)"
    using m by (auto intro!: mod_pos_pos_trivial)
  then show ?case using Suc m by (auto simp: do_hit_def Let_def)
qed (use assms in simp)

subsection \<open>Removing breakpoints\<close>

text \<open>
  A fetch breakpoint sits at an address of the code space and has its flag set there; two of them
  never share an address.
\<close>

definition fetch_brk_at :: "'z mem_scheme \<Rightarrow> brk \<Rightarrow> bool" where
  "fetch_brk_at s b \<longleftrightarrow> b_mem b = Some Rom \<and> b_event b = brkNONE \<and> valid_address Rom (b_addr b)
     \<and> cflags s (Cell Rom (b_addr b)) AND CELL_FETCH_BRK \<noteq> 0"

definition fbrk_ok :: "brk cl_list \<Rightarrow> 'z mem_scheme \<Rightarrow> bool" where
  "fbrk_ok l s \<longleftrightarrow> (\<forall>b \<in> set (Items l). fetch_brk_at s b) \<and> distinct (map b_addr (Items l))"

definition unflag :: "t_addr \<Rightarrow> 'z mem_scheme \<Rightarrow> 'z mem_scheme" where
  "unflag a s = cell_set_flag (Cell Rom a) CELL_FETCH_BRK False s"

lemma unflag_cflags: "cflags (unflag a s) c =
    (if c = Cell Rom a then cflags s c AND NOT CELL_FETCH_BRK else cflags s c)"
  by (simp add: unflag_def cell_set_flag_def)

lemma unflag_clear: "cflags (unflag a s) (Cell Rom a) AND CELL_FETCH_BRK = 0"
  unfolding unflag_cflags by (simp add: and.assoc)

lemma rom_flag: "valid_address Rom a \<Longrightarrow>
   get_cell_flag Rom a f s = Some (cflags s (Cell Rom a) AND f \<noteq> 0)"
  by (simp add: get_cell_flag_def cell_get_flag_def out_of_space_def valid_address_def cells_at_def)

lemma del_bp_first:
  assumes "Items l = b # bs" "fetch_brk_at s b"
  shows "del_bp (b_addr b) l s = Some (l\<lparr>Items := bs\<rparr>, unflag (b_addr b) s)"
proof -
  have v: "valid_address Rom (b_addr b)" using assms(2) by (simp add: fetch_brk_at_def)
  have "get_bp (b_addr b) l s = Some (Some (0, b))"
    using assms v by (simp add: get_bp_def bp_at_def rom_flag fetch_brk_at_def)
  moreover have "brk_inactivate b s = Some (unflag (b_addr b) s)"
    using assms v by (simp add: brk_inactivate_def fetch_brk_at_def del_brk_def set_cell_flag_def
        unflag_def out_of_space_def valid_address_def cells_at_def)
  moreover have "free_at 0 l = Some (l\<lparr>Items := bs\<rparr>)"
    using assms by (simp add: free_at_def list_at_def disconn_at_def lcount_def)
  ultimately show ?thesis by (simp add: del_bp_def)
qed

lemma fbrk_ok_rest:
  assumes "Items l = b # bs" "fbrk_ok l s"
  shows "fbrk_ok (l\<lparr>Items := bs\<rparr>) (unflag (b_addr b) s)"
  using assms by (auto simp: fbrk_ok_def fetch_brk_at_def unflag_cflags image_iff)

lemma remove_fbrks_ends:
  assumes "fbrk_ok l s"
  shows "\<exists>l'. remove_fbrks l s = Some (l', fold (\<lambda>b. unflag (b_addr b)) (Items l) s) \<and> Items l' = []"
  using assms
proof (induction "Items l" arbitrary: l s)
  case Nil
  from Nil(1) [symmetric] show ?case by (simp add: remove_fbrks.simps)
next
  case (Cons b bs)
  note it = Cons.hyps(2) [symmetric]
  let ?l = "l\<lparr>Items := bs\<rparr>" and ?s = "unflag (b_addr b) s"
  have "fetch_brk_at s b" using Cons.prems it by (simp add: fbrk_ok_def)
  then have "remove_fbrks l s = remove_fbrks ?l ?s"
    by (simp add: remove_fbrks.simps [of l] it del_bp_first [OF it])
  moreover have "\<exists>l'. remove_fbrks ?l ?s = Some (l', fold (\<lambda>b. unflag (b_addr b)) bs ?s) \<and> Items l' = []"
    using Cons.hyps(1) [of ?l ?s] fbrk_ok_rest [OF it Cons.prems] by simp
  ultimately show ?case by (simp add: it)
qed

lemma fold_unflag_uc:
  "ebrk (fold (\<lambda>b. unflag (b_addr b)) bs s) = ebrk (s :: 'z uc_scheme)"
  by (induction bs arbitrary: s) (simp_all add: unflag_def cell_set_flag_def)

lemma fold_unflag_clear:
  "cflags s c AND CELL_FETCH_BRK = 0 \<or> c \<in> (\<lambda>b. Cell Rom (b_addr b)) ` set bs \<Longrightarrow>
   cflags (fold (\<lambda>b. unflag (b_addr b)) bs s) c AND CELL_FETCH_BRK = 0"
proof (induction bs arbitrary: s)
  case (Cons b bs)
  have "cflags (unflag (b_addr b) s) c AND CELL_FETCH_BRK = 0
     \<or> c \<in> (\<lambda>b. Cell Rom (b_addr b)) ` set bs"
    using Cons.prems unflag_clear [of "b_addr b" s] unflag_cflags [of "b_addr b" s c]
    by (cases "c = Cell Rom (b_addr b)") auto
  then show ?case using Cons.IH by simp
qed simp

lemma same_ops [simp]: "\<exists>f. s = s\<lparr>ops := f\<rparr>"
  by (rule exI [of _ "ops s"]) simp

lemma event_inactivate:
  assumes "b_event b \<noteq> brkNONE"
  shows "\<exists>f. brk_inactivate b s = Some (s\<lparr>ops := f\<rparr>)"
proof -
  have "\<exists>f. s\<lparr>ops := g\<rparr> = s\<lparr>ops := f\<rparr>" for g by blast
  then show ?thesis
    using assms by (cases "b_mem b") (simp_all add: brk_inactivate_def del_brk_def del_operator_def Let_def)
qed

lemma remove_ebrks_ends:
  assumes "\<forall>b \<in> set (Items l). b_event b \<noteq> brkNONE"
  shows "\<exists>l' f. remove_ebrks l s = Some (l', s\<lparr>ops := f\<rparr>) \<and> Items l' = []"
  using assms
proof (induction "length (Items l)" arbitrary: l s)
  case 0
  have "remove_ebrks l s = Some (l, s)"
    using 0 by (simp add: remove_ebrks.simps lcount_def)
  with 0 show ?case by simp
next
  case (Suc n)
  let ?b = "Items l ! n" and ?l = "l\<lparr>Items := take n (Items l)\<rparr>"
  have n: "n < length (Items l)" "lcount l - 1 = int n" "lcount l \<noteq> 0"
    using Suc.hyps(2) by (auto simp: lcount_def)
  then have "b_event ?b \<noteq> brkNONE" using Suc.prems by simp
  then obtain f where t: "brk_inactivate ?b s = Some (s\<lparr>ops := f\<rparr>)"
    using event_inactivate by blast
  have "free_at (int n) l = Some ?l"
    using n by (simp add: free_at_def list_at_def disconn_at_def lcount_def)
  then have "del_bp_idx (lcount l - 1) l s = Some (?l, s\<lparr>ops := f\<rparr>)"
    using n t by (simp add: del_bp_idx_def list_at_def lcount_def)
  then have "remove_ebrks l s = remove_ebrks ?l (s\<lparr>ops := f\<rparr>)"
    using n by (simp add: remove_ebrks.simps [of l])
  moreover have "\<exists>l' g. remove_ebrks ?l (s\<lparr>ops := f\<rparr>) = Some (l', s\<lparr>ops := f, ops := g\<rparr>) \<and> Items l' = []"
    using Suc.hyps(1) [of ?l "s\<lparr>ops := f\<rparr>"] Suc.hyps(2) Suc.prems by (auto dest: in_set_takeD)
  ultimately show ?case by auto
qed

text \<open>
  What keeps the loop going: a fetch breakpoint at an address that is not valid or not flagged, or
  two at one address. Deleting the first entry leaves one of the three behind.
\<close>

definition fetch_brks :: "brk cl_list \<Rightarrow> bool" where
  "fetch_brks l \<longleftrightarrow> (\<forall>b \<in> set (Items l). b_mem b = Some Rom \<and> b_event b = brkNONE)"

definition unremovable :: "brk cl_list \<Rightarrow> 'z mem_scheme \<Rightarrow> bool" where
  "unremovable l s \<longleftrightarrow> (\<exists>b \<in> set (Items l). \<not> fetch_brk_at s b) \<or> \<not> distinct (map b_addr (Items l))"

lemma unremovable_some: "unremovable l s \<Longrightarrow> Items l \<noteq> []"
  by (auto simp: unremovable_def)

lemma unflag_keeps_bad: "\<not> fetch_brk_at s b \<Longrightarrow> \<not> fetch_brk_at (unflag a s) b"
  by (auto simp: fetch_brk_at_def unflag_cflags and.assoc split: if_splits)

lemma unremovable_round:
  assumes "Items l = b # bs" "fetch_brks l" "unremovable l s"
  shows "\<exists>l' s'. del_bp (b_addr b) l s = Some (l', s') \<and> fetch_brks l' \<and> unremovable l' s'"
proof (cases "fetch_brk_at s b")
  case True
  let ?l = "l\<lparr>Items := bs\<rparr>" and ?s = "unflag (b_addr b) s"
  have "unremovable ?l ?s"
  proof (cases "b_addr b \<in> b_addr ` set bs")
    case True
    then obtain b' where "b' \<in> set bs" "b_addr b' = b_addr b" by force
    moreover from this have "\<not> fetch_brk_at ?s b'"
      using unflag_clear [of "b_addr b" s] by (simp add: fetch_brk_at_def)
    ultimately show ?thesis by (auto simp: unremovable_def)
  next
    case False
    then have "(\<exists>b \<in> set bs. \<not> fetch_brk_at s b) \<or> \<not> distinct (map b_addr bs)"
      using assms(1,3) \<open>fetch_brk_at s b\<close> by (auto simp: unremovable_def)
    then show ?thesis using unflag_keeps_bad by (fastforce simp: unremovable_def)
  qed
  moreover have "fetch_brks ?l" using assms(1,2) by (simp add: fetch_brks_def)
  ultimately show ?thesis using del_bp_first [OF assms(1) True] by blast
next
  case False
  have "b_mem b = Some Rom" "b_event b = brkNONE" using assms(1,2) by (simp_all add: fetch_brks_def)
  with False have "bp_at (b_addr b) s = Some False"
    by (auto simp: bp_at_def fetch_brk_at_def rom_flag)
  then have "del_bp (b_addr b) l s = Some (l, s)" by (simp add: del_bp_def get_bp_def)
  then show ?thesis using assms(2,3) by blast
qed

lemma unremovable_rounds:
  "fetch_brks l \<Longrightarrow> unremovable l s \<Longrightarrow> \<exists>l' s'. fbrk_rounds n l s = Some (l', s') \<and> Items l' \<noteq> []"
proof (induction n arbitrary: l s)
  case 0
  then show ?case using unremovable_some by auto
next
  case (Suc n)
  obtain b bs where b: "Items l = b # bs"
    using unremovable_some [OF Suc.prems(2)] by (cases "Items l") auto
  obtain l' s' where "del_bp (b_addr b) l s = Some (l', s')" "fetch_brks l'" "unremovable l' s'"
    using unremovable_round [OF b Suc.prems] by blast
  then show ?case using Suc.IH [of l' s'] b by simp
qed

lemma remove_fbrks_hangs: "remove_fbrks l s = Some r \<Longrightarrow> \<not> (fetch_brks l \<and> unremovable l s)"
proof (rule remove_fbrks.raw_induct [where P = "\<lambda>l s r. \<not> (fetch_brks l \<and> unremovable l s)"])
  fix f :: "brk cl_list \<Rightarrow> 'a mem_scheme \<Rightarrow> (brk cl_list \<times> 'a mem_scheme) option" and l s r
  assume IH: "\<And>l s r. f l s = Some r \<Longrightarrow> \<not> (fetch_brks l \<and> unremovable l s)"
    and body: "(case Items l of [] \<Rightarrow> Some (l, s)
      | b # _ \<Rightarrow> Option.bind (del_bp (b_addr b) l s) (\<lambda>(l, s). f l s)) = Some r"
  show "\<not> (fetch_brks l \<and> unremovable l s)"
  proof
    assume st: "fetch_brks l \<and> unremovable l s"
    then obtain b bs where b: "Items l = b # bs"
      using unremovable_some [of l s] by (cases "Items l") auto
    obtain l' s' where d: "del_bp (b_addr b) l s = Some (l', s')" "fetch_brks l' \<and> unremovable l' s'"
      using unremovable_round [OF b] st by blast
    have "f l' s' = Some r" using body b d(1) by simp
    then show False using IH d(2) by blast
  qed
qed

subsection \<open>Properties\<close>

text \<open>A controller with empty lists and cleared memory, for the witnesses.\<close>

definition blank_uc :: uc where
  "blank_uc = \<lparr>heap = (\<lambda>_. 0), slot = Priv_slot, ops = (\<lambda>_. []), cflags = (\<lambda>_. 0), errors = [],
     events = [], inst_exec = False, instPC = 0, rand_src = (\<lambda>_. 0), rand_pos = 0, PC = 0,
     state = stGO, ticks = \<lparr>t_ticks = 0, t_options = 1, t_dir = 1, t_name = None\<rparr>, inst_ticks = 0,
     counters = \<lparr>Items = [], Limit = 2, Delta = 2\<rparr>, brk_counter = 0,
     fbrk = \<lparr>Items = [], Limit = 2, Delta = 2\<rparr>, ebrk = \<lparr>Items = [], Limit = 2, Delta = 2\<rparr>,
     it_sources = \<lparr>Items = [], Limit = 2, Delta = 2\<rparr>,
     it_levels = \<lparr>Items = [\<lparr>level = -1, il_addr = 0, il_PC = 0, il_source = None\<rparr>],
       Limit = 2, Delta = 2\<rparr>,
     stack_ops = \<lparr>Items = [], Limit = 2, Delta = 2\<rparr>, sp_max = 0, sp_avg = 0, hws = [], sim_go = True\<rparr>"

text \<open>
  C36 The bisection of the sorted collections (breakpoints by number, interrupt sources by poll
  priority) gives on a sorted collection, with or without duplicate keys, exactly what a linear
  search gives: whether the key occurs, and the position of the first item not below it.
\<close>

theorem bisection_is_linear_search:
  fixes l :: "brk cl_list" and m :: "it_src cl_list"
  assumes "key_sorted b_nr dup (Items l)" and "key_sorted poll_priority dup' (Items m)"
  shows "sl_search b_nr brk_compare dup n l = linear_search b_nr n (Items l)
       \<and> sl_search poll_priority irqs_compare dup' p m = linear_search poll_priority p (Items m)"
  using brk_sorted.search_linear [OF assms(1)] irqs_sorted.search_linear [OF assms(2)] by blast

definition brk_demo :: "int \<Rightarrow> t_addr \<Rightarrow> brk" where
  "brk_demo n a = mk_brk (Some Rom) n a brkFIX 1 brkNONE ''fetch''"

theorem bisection_is_linear_search_witness:
  "sl_search b_nr brk_compare False 5
     \<lparr>Items = [brk_demo 2 0, brk_demo 5 1, brk_demo 9 2], Limit = 4, Delta = 2\<rparr> = (True, 1)"
  using bisection_is_linear_search [of False
      "\<lparr>Items = [brk_demo 2 0, brk_demo 5 1, brk_demo 9 2], Limit = 4, Delta = 2\<rparr>" False
      "\<lparr>Items = [], Limit = 2, Delta = 2\<rparr>" 5 0]
  by (simp add: key_sorted_def linear_search_def brk_demo_def mk_brk_def)

text \<open>
  Adding a breakpoint keeps the collection sorted by number and within its capacity; a new
  number is inserted once, a number already present leaves the collection as it is. Adding an
  interrupt source, where equal priorities are allowed, always inserts it.
\<close>

theorem add_keeps_sorted:
  fixes l :: "brk cl_list" and m :: "it_src cl_list"
  assumes "key_sorted b_nr False (Items l)" "cl_list_ok l" "lcount l < max_list_size"
    and "key_sorted poll_priority True (Items m)" "cl_list_ok m" "lcount m < max_list_size"
  shows "(\<exists>i l'. sl_add b_nr brk_compare False b l = Some (i, l')
       \<and> key_sorted b_nr False (Items l') \<and> cl_list_ok l'
       \<and> mset (Items l') = (if b_nr b \<notin> b_nr ` set (Items l)
            then add_mset b (mset (Items l)) else mset (Items l)))
    \<and> (\<exists>i m'. sl_add poll_priority irqs_compare True src m = Some (i, m')
       \<and> key_sorted poll_priority True (Items m') \<and> cl_list_ok m'
       \<and> mset (Items m') = add_mset src (mset (Items m)))"
  using brk_sorted.add_correct [OF assms(1-3), of b] irqs_sorted.add_correct [OF assms(4-6), of src]
  by simp

theorem add_keeps_sorted_witness:
  "\<exists>i l'. sl_add b_nr brk_compare False (brk_demo 3 7)
     \<lparr>Items = [brk_demo 2 0, brk_demo 5 1], Limit = 2, Delta = 2\<rparr> = Some (i, l')
     \<and> key_sorted b_nr False (Items l')"
  using add_keeps_sorted [of "\<lparr>Items = [brk_demo 2 0, brk_demo 5 1], Limit = 2, Delta = 2\<rparr>"
      "\<lparr>Items = [], Limit = 2, Delta = 2\<rparr>" "brk_demo 3 7" "mk_it_src 0 0 0 0 0 False [] 0"]
  by (auto simp: key_sorted_def brk_demo_def mk_brk_def cl_list_ok_def lcount_def max_list_size_def)

text \<open>
  A collection holds at most 8192 items: opening one stack operation more than that aborts the
  program, and every one up to that is recorded on top of the others.
\<close>

theorem tracker_capacity:
  assumes "cl_list_ok (stack_ops s)" "is_write_op op"
  shows "(stack_write op s = None \<longleftrightarrow> lcount (stack_ops s) = 8192)
    \<and> (\<forall>s'. stack_write op s = Some s' \<longrightarrow> Items (stack_ops s') = op # Items (stack_ops s))"
proof -
  have "lcount (stack_ops s) < 8192 \<longleftrightarrow> lcount (stack_ops s) \<noteq> 8192"
    using assms(1) by (auto simp: cl_list_ok_def max_list_size_def)
  moreover have "stack_write op s = map_option (\<lambda>l. s\<lparr>stack_ops := l\<rparr>) (list_push op (stack_ops s))"
    using assms(2) by (cases "list_push op (stack_ops s)") (auto simp: stack_write_def)
  moreover have "Items l' = op # Items (stack_ops s)" if "list_push op (stack_ops s) = Some l'" for l'
    using that add_at_Items(1) [of 0 op "stack_ops s" l']
    by (cases "lcount (stack_ops s) = 0") (auto simp: list_push_def list_add_def bind_eq_Some_conv)
  ultimately show ?thesis
    using list_push_capacity [OF assms(1), of op]
    by (auto simp: max_list_size_def)
qed

theorem tracker_capacity_witness:
  "stack_write (mk_stack_op stack_push 0 0 0 7 8) (blank_uc\<lparr>stack_ops := \<lparr>Items = [], Limit = 2, Delta = 2\<rparr>\<rparr>)
     \<noteq> None"
  using tracker_capacity [of "blank_uc\<lparr>stack_ops := \<lparr>Items = [], Limit = 2, Delta = 2\<rparr>\<rparr>"
      "mk_stack_op stack_push 0 0 0 7 8"]
  by (simp add: cl_list_ok_def lcount_def max_list_size_def)

text \<open>
  C37 Removing all breakpoints ends when every fetch breakpoint is at a valid address of the code
  space that has its flag set and no two are at one address: both collections are empty afterwards
  and no address that carried a fetch breakpoint is still flagged.
\<close>

theorem remove_all_breaks_ends:
  assumes "fbrk_ok (fbrk s) s" "\<forall>b \<in> set (Items (ebrk s)). b_event b \<noteq> brkNONE"
  shows "\<exists>s'. remove_all_breaks s = Some s' \<and> Items (fbrk s') = [] \<and> Items (ebrk s') = []
     \<and> (\<forall>b \<in> set (Items (fbrk s)). cflags s' (Cell Rom (b_addr b)) AND CELL_FETCH_BRK = 0)"
proof -
  define t where "t = fold (\<lambda>b. unflag (b_addr b)) (Items (fbrk s)) s"
  obtain l where l: "remove_fbrks (fbrk s) s = Some (l, t)" "Items l = []"
    using remove_fbrks_ends [OF assms(1)] by (auto simp: t_def)
  have "ebrk t = ebrk s" by (simp add: t_def fold_unflag_uc)
  then obtain m f where m: "remove_ebrks (ebrk t) (t\<lparr>fbrk := l\<rparr>) = Some (m, t\<lparr>fbrk := l, ops := f\<rparr>)"
    "Items m = []"
    using remove_ebrks_ends [of "ebrk s" "t\<lparr>fbrk := l\<rparr>"] assms(2) by auto
  have "remove_all_breaks s = Some (t\<lparr>fbrk := l, ops := f, ebrk := m\<rparr>)"
    using l m by (simp add: remove_all_breaks_def)
  moreover have "\<forall>b \<in> set (Items (fbrk s)). cflags t (Cell Rom (b_addr b)) AND CELL_FETCH_BRK = 0"
    using fold_unflag_clear [of s _ "Items (fbrk s)"] by (simp add: t_def)
  ultimately show ?thesis using l(2) m(2) by simp
qed

definition two_breaks :: uc where
  "two_breaks = blank_uc\<lparr>fbrk := \<lparr>Items = [brk_demo 1 0, brk_demo 2 4], Limit = 2, Delta = 2\<rparr>,
     cflags := (\<lambda>_. CELL_FETCH_BRK)\<rparr>"

theorem remove_all_breaks_ends_witness:
  "\<exists>s'. remove_all_breaks two_breaks = Some s' \<and> Items (fbrk s') = []"
  using remove_all_breaks_ends [of two_breaks]
  by (auto simp: two_breaks_def blank_uc_def fbrk_ok_def fetch_brk_at_def brk_demo_def mk_brk_def
      valid_address_def)

text \<open>
  C38 With a fetch breakpoint at an address outside the code space, or two at one address anywhere in
  the list, the removal never comes back: however many rounds the loop has made, none of them
  aborted and the list is still not empty. The \<open>break\<close> command checks no address, so the first
  case is reached by \<open>break 0x10000\<close> alone, as the witness has it.
\<close>

theorem remove_all_breaks_hangs:
  assumes "\<forall>b \<in> set (Items (fbrk s)). b_mem b = Some Rom \<and> b_event b = brkNONE"
    and "(\<exists>b \<in> set (Items (fbrk s)). \<not> valid_address Rom (b_addr b))
       \<or> \<not> distinct (map b_addr (Items (fbrk s)))"
  shows "(\<exists>l t. fbrk_rounds n (fbrk s) s = Some (l, t) \<and> Items l \<noteq> [])
    \<and> remove_all_breaks s = None"
proof -
  have "fetch_brks (fbrk s)" "unremovable (fbrk s) s"
    using assms by (auto simp: fetch_brks_def unremovable_def fetch_brk_at_def)
  then show ?thesis
    using unremovable_rounds [of "fbrk s" s n] remove_fbrks_hangs [of "fbrk s" s]
    by (cases "remove_fbrks (fbrk s) s") (auto simp: remove_all_breaks_def)
qed

definition broken_uc :: uc where
  "broken_uc = the (break_do_fetch brkFIX 0x10000 1 blank_uc)"

lemma broken_fbrk: "break_do_fetch brkFIX 0x10000 1 blank_uc = Some broken_uc
  \<and> Items (fbrk broken_uc) = [brk_demo 1 0x10000]"
proof -
  have "bp_at 0x10000 s = Some False" for s :: uc
    by (simp add: bp_at_def valid_address_def cells_at_def)
  moreover have "out_of_space Rom 0x10000"
    by (simp add: out_of_space_def)
  moreover have "sl_add b_nr brk_compare False (brk_demo 1 0x10000)
       \<lparr>Items = [], Limit = 2, Delta = 2\<rparr> = Some (0, \<lparr>Items = [brk_demo 1 0x10000], Limit = 2, Delta = 2\<rparr>)"
    by (simp add: sl_add_def sl_search_def search_loop.simps add_at_def lcount_def)
  ultimately have "\<exists>s. break_do_fetch brkFIX 0x10000 1 blank_uc = Some s
       \<and> Items (fbrk s) = [brk_demo 1 0x10000]"
    by (simp add: break_do_fetch_def add_bp_def make_new_brknr_def blank_uc_def lcount_def
        brk_activate_def set_brk_def brk_demo_def mk_brk_def)
  then show ?thesis by (auto simp: broken_uc_def)
qed

theorem remove_all_breaks_hangs_witness:
  "break_do_fetch brkFIX 0x10000 1 blank_uc = Some broken_uc
   \<and> (\<exists>l t. fbrk_rounds 1000 (fbrk broken_uc) broken_uc = Some (l, t) \<and> Items l \<noteq> [])
   \<and> remove_all_breaks broken_uc = None
   \<and> remove_all_breaks (blank_uc\<lparr>fbrk := \<lparr>Items = [brk_demo 1 0, brk_demo 2 4, brk_demo 3 0],
       Limit = 4, Delta = 2\<rparr>\<rparr>) = None"
  using remove_all_breaks_hangs [of broken_uc 1000] broken_fbrk
    remove_all_breaks_hangs [of "blank_uc\<lparr>fbrk := \<lparr>Items = [brk_demo 1 0, brk_demo 2 4, brk_demo 3 0],
       Limit = 4, Delta = 2\<rparr>\<rparr>" 0]
  by (simp add: brk_demo_def mk_brk_def valid_address_def cells_at_def)

text \<open>
  C39 A breakpoint with hit count \<open>h > 0\<close> stops the program exactly at the executions whose number
  is a multiple of \<open>h\<close>; all the others go by.
\<close>

theorem hit_count:
  assumes "0 < h" "b_hit b = h" "b_cnt b = h"
  shows "fst (do_hit (((snd \<circ> do_hit) ^^ k) b)) \<longleftrightarrow> int (Suc k) mod h = 0"
proof -
  let ?m = "int k mod h"
  have m: "0 \<le> ?m" "?m < h" using assms(1) by simp_all
  have "int (Suc k) mod h = (?m + 1) mod h" by (simp add: mod_simps add.commute)
  then have "int (Suc k) mod h = 0 \<longleftrightarrow> ?m + 1 = h"
    using m by (cases "?m + 1 = h") auto
  then show ?thesis using do_hit_count [OF assms, of k] m by (auto simp: do_hit_def Let_def)
qed

theorem hit_count_witness:
  "fst (do_hit (((snd \<circ> do_hit) ^^ 2) (mk_brk None 1 0 brkFIX 3 brkNONE [])))"
  using hit_count [of 3 "mk_brk None 1 0 brkFIX 3 brkNONE []" 2] by (simp add: mk_brk_def)

end
