(* ===== verification/Invariant51.thy ===== *)
theory Invariant51
  imports Data51Facts UcFacts
begin

text \<open>
  The invariant of the core. The locale \<open>core_hw\<close> states what the elements around the core must keep;
  inside it every helper and every instruction, the dispatch, the interrupt logic, and the
  execution loop are shown to keep the invariant. \<open>ChipInvariant\<close> interprets it on the whole chip.
\<close>

subsection \<open>The invariant\<close>

text \<open>
  Service levels are stacked with strictly rising priority on the base level -1; interrupt sources
  lead into the code space and name registers of the space \<open>sfr\<close>; the tracker holds only calls, interrupts and pushes.
\<close>

definition levels_ok :: "it_level cl_list \<Rightarrow> bool" where
  "levels_ok l \<longleftrightarrow> cl_list_ok l \<and> Items l \<noteq> [] \<and> level (last (Items l)) = -1
     \<and> sorted_wrt (>) (map level (Items l)) \<and> (\<forall>il \<in> set (Items l). level il \<le> 1)"

definition sources_ok :: "it_src cl_list \<Rightarrow> bool" where
  "sources_ok l \<longleftrightarrow> (\<forall>src \<in> set (Items l). 0 \<le> it_addr src \<and> it_addr src < 0x10000
     \<and> valid_address Sfr (ie_reg src) \<and> valid_address Sfr (src_reg src))"

definition tracker_sound :: "stack_op cl_list \<Rightarrow> bool" where
  "tracker_sound l \<longleftrightarrow> cl_list_ok l \<and> (\<forall>op \<in> set (Items l). is_write_op op)"

definition core_ok :: "'z core51_scheme \<Rightarrow> bool" where
  "core_ok s \<longleftrightarrow> mem_ok s \<and> 0 \<le> PC s \<and> PC s \<le> 0x10000 \<and> levels_ok (it_levels s)
     \<and> sources_ok (it_sources s) \<and> tracker_sound (stack_ops s)
     \<and> CFreed \<notin> set (Items (counters s))"

lemma core_ok_cong:
  assumes "heap s' = heap s" "slot s' = slot s" "ops s' = ops s" "PC s' = PC s"
    "it_levels s' = it_levels s" "it_sources s' = it_sources s" "stack_ops s' = stack_ops s"
    "counters s' = counters s"
  shows "core_ok s' = core_ok s"
  using assms mem_ok_cong [OF assms(1-3)] by (simp add: core_ok_def)

lemma core_ok_updates [simp]:
  "core_ok (s\<lparr>MovInstruction := b\<rparr>) = core_ok s" "core_ok (s\<lparr>instPC := x\<rparr>) = core_ok s"
  "core_ok (s\<lparr>was_reti := b\<rparr>) = core_ok s" "core_ok (s\<lparr>state := st\<rparr>) = core_ok s"
  "core_ok (s\<lparr>result := r\<rparr>) = core_ok s" "core_ok (s\<lparr>inst_ticks := n\<rparr>) = core_ok s"
  "core_ok (s\<lparr>inst_exec := b\<rparr>) = core_ok s" "core_ok (s\<lparr>events := evs\<rparr>) = core_ok s"
  "core_ok (s\<lparr>errors := errs\<rparr>) = core_ok s" "core_ok (s\<lparr>sim_go := b\<rparr>) = core_ok s"
  "core_ok (s\<lparr>rand_pos := k\<rparr>) = core_ok s" "core_ok (s\<lparr>fbrk := bs\<rparr>) = core_ok s"
  "core_ok (s\<lparr>bit_IT0 := b\<rparr>) = core_ok s" "core_ok (s\<lparr>bit_IT1 := b\<rparr>) = core_ok s"
  "core_ok (s\<lparr>bit_INT0 := b\<rparr>) = core_ok s" "core_ok (s\<lparr>bit_INT1 := b\<rparr>) = core_ok s"
  "core_ok (s\<lparr>timers := ts\<rparr>) = core_ok s" "core_ok (s\<lparr>port_prev := pp\<rparr>) = core_ok s"
  "core_ok (s\<lparr>sp_max := y\<rparr>) = core_ok s" "core_ok (s\<lparr>sp_avg := y\<rparr>) = core_ok s"
  "core_ok (s\<lparr>cflags := cf\<rparr>) = core_ok s" "core_ok (s\<lparr>ticks := tk\<rparr>) = core_ok s"
  by (rule core_ok_cong; simp)+

lemma core_ok_mem [simp]: "core_ok s \<Longrightarrow> mem_ok s"
  by (simp add: core_ok_def)

lemma core_ok_PC: "core_ok s \<Longrightarrow> 0 \<le> x \<Longrightarrow> x \<le> 0x10000 \<Longrightarrow> core_ok (s\<lparr>PC := x\<rparr>)"
  using mem_ok_cong [of "s\<lparr>PC := x\<rparr>" s] by (simp add: core_ok_def)

lemma core_ok_store: "core_ok s \<Longrightarrow> byte v \<Longrightarrow> core_ok (store d v s)"
  using mem_ok_store [of s v d] by (simp add: core_ok_def store_def)

lemma levels_top: "levels_ok l \<Longrightarrow> \<exists>il. list_top l = Some il"
  by (cases "Items l") (auto simp: levels_ok_def list_top_def)

lemma levels_pop:
  assumes "levels_ok l" "list_top l = Some il" "0 \<le> level il"
  shows "levels_ok (snd (list_pop l))"
proof (cases "Items l")
  case (Cons x xs)
  with assms have "x = il" "xs \<noteq> []" by (auto simp: list_top_def levels_ok_def)
  then show ?thesis using assms Cons by (auto simp: levels_ok_def list_pop_def cl_list_ok_def lcount_def)
qed (use assms in \<open>simp add: levels_ok_def\<close>)

lemma decreasing_length:
  assumes "sorted_wrt (>) xs" "xs \<noteq> []" "last xs = (-1 :: int)" "\<forall>x \<in> set xs. x \<le> 1"
  shows "length xs \<le> 3"
proof -
  obtain ys where a: "xs = ys @ [-1]" using assms(2,3) by (metis append_butlast_last_id)
  have "\<forall>x \<in> set ys. x > -1" using assms(1) a by (simp add: sorted_wrt_append)
  then have s: "set xs \<subseteq> {-1, 0, 1}" using assms(4) a by force
  have "sorted_wrt (<) (rev xs)" using assms(1) by (simp add: sorted_wrt_rev)
  then have "distinct xs" by (simp add: strict_sorted_iff)
  then have "length xs = card (set xs)" by (simp add: distinct_card)
  also have "\<dots> \<le> card {-1, 0, 1 :: int}" by (rule card_mono [OF _ s]) simp
  finally show ?thesis by simp
qed

lemma levels_push:
  assumes "levels_ok l" "list_top l = Some il" "level il < level new" "level new \<le> 1"
    and "list_push new l = Some l'"
  shows "levels_ok l'"
proof (cases "Items l")
  case (Cons x xs)
  with assms have x: "x = il" by (simp add: list_top_def)
  have "length (Items l) \<le> 3"
    using assms(1) decreasing_length [of "map level (Items l)"] by (simp add: levels_ok_def last_map)
  then have "Items l' = new # Items l" "cl_list_ok l'"
    using assms(1,5) list_push_total [of l new]
    by (auto simp: levels_ok_def lcount_def max_list_size_def)
  moreover have "\<forall>y \<in> set xs. level y < level x" using assms(1) Cons by (simp add: levels_ok_def)
  ultimately show ?thesis using assms Cons x by (auto simp: levels_ok_def)
qed (use assms in \<open>simp add: levels_ok_def\<close>)

lemma levels_bounded: "levels_ok l \<Longrightarrow> length (Items l) \<le> 3"
  using decreasing_length [of "map level (Items l)"] by (simp add: levels_ok_def last_map)

subsection \<open>The contract of the elements\<close>

abbreviation keeps :: "('a \<times> 'z core51_scheme) option \<Rightarrow> bool" where
  "keeps \<equiv> sat (\<lambda>_ s. core_ok s)"

lemma sat_bind_conj:
  assumes "sat (\<lambda>v s. A v \<and> B s) m" "\<And>v s. A v \<Longrightarrow> B s \<Longrightarrow> sat Q (f v s)"
  shows "sat Q (Option.bind m (\<lambda>(v, s). f v s))"
  by (rule sat_bindI [OF assms(1)]) (auto intro: assms(2))

lemma sat_bind_if:
  "(b \<Longrightarrow> sat Q (Option.bind x f)) \<Longrightarrow> (\<not> b \<Longrightarrow> sat Q (Option.bind y f)) \<Longrightarrow>
   sat Q (Option.bind (if b then x else y) f)"
  by simp

lemma sat_bind_assoc:
  "sat Q (Option.bind m (\<lambda>(v, s). Option.bind (g v s) f)) \<Longrightarrow>
   sat Q (Option.bind (Option.bind m (\<lambda>(v, s). g v s)) f)"
  by (cases m) auto

lemma sat_bind_split:
  "sat Q (Option.bind m (\<lambda>(a, b). Option.bind (f a b) g)) \<Longrightarrow>
   sat Q (Option.bind m (\<lambda>y. Option.bind (case y of (a, b) \<Rightarrow> f a b) g))"
  by (cases m) auto

locale core_hw =
  fixes hw :: "'z core51_scheme hwif"
  assumes read_ok: "core_ok s \<Longrightarrow> sat (\<lambda>v s'. (byte_cell c \<longrightarrow> byte v) \<and> core_ok s') (hw_read hw h c s)"
    and write_ok: "core_ok s \<Longrightarrow> keeps (hw_write hw h c v s)"
    and tick_ok: "core_ok s \<Longrightarrow> keeps (hw_tick hw h n s)"
    and happen_ok: "core_ok s \<Longrightarrow> keeps (hw_happen hw h ev s)"
    and reset_ok: "core_ok s \<Longrightarrow> keeps (hw_reset hw h s)"

sublocale core_hw \<subseteq> mem_hw hw core_ok
  by unfold_locales (auto simp: core_ok_store add_event_def uc_error_def read_ok write_ok)

context core_hw
begin

lemmas mem_binds = sat_bind_conj [OF cell_read_I] sat_bind_conj [OF cell_read_skip_I]
  sat_bindI [OF cell_write_I] sat_bindI [OF cell_wadd_I] sat_bind_conj [OF as_read_I]
  sat_bind_conj [OF as_read_skip_I] sat_bind_conj [OF as_get_I] sat_bindI [OF as_write_I]
  sat_bindI [OF as_wadd_I]

lemma fetch_bind:
  assumes s: "core_ok s" and f: "\<And>v t. byte v \<Longrightarrow> core_ok t \<Longrightarrow> PC t < 0x10000 \<Longrightarrow> sat Q (f v t)"
  shows "sat Q (Option.bind (fetch hw s) (\<lambda>(v, t). f v t))"
proof -
  have "sat Q (Option.bind (as_read hw Rom (PC s) s) (\<lambda>(v, t). f v (t\<lparr>PC := inc_address Rom (PC t)\<rparr>)))"
  proof (rule sat_bind_conj [OF as_read_I [OF s]], rule f)
    fix v t assume v: "byte_space Rom \<longrightarrow> byte v" and "core_ok t"
    from v show "byte v" by simp
    have "0 \<le> inc_address Rom (PC t) \<and> inc_address Rom (PC t) < 0x10000"
      using \<open>core_ok t\<close> by (simp add: inc_address_eq core_ok_def)
    with \<open>core_ok t\<close> show "core_ok (t\<lparr>PC := inc_address Rom (PC t)\<rparr>)"
      "PC (t\<lparr>PC := inc_address Rom (PC t)\<rparr>) < 0x10000"
      by (auto intro: core_ok_PC)
  qed
  then show ?thesis
    by (cases "as_read hw Rom (PC s) s") (auto simp: fetch_def)
qed

lemma tick51_ok: "core_ok s \<Longrightarrow> \<exists>t. tick51 n s = Some t \<and> core_ok t \<and> PC t = PC s
   \<and> it_levels t = it_levels s \<and> it_sources t = it_sources s"
proof -
  assume s: "core_ok s"
  then obtain l where l: "list_top (it_levels s) = Some l"
    using levels_top by (auto simp: core_ok_def)
  obtain cs where cs: "tick_counters (Some l) (n * 12) (Items (counters s)) = Some cs" "CFreed \<notin> set cs"
    using tick_counters_total [of "Items (counters s)" l "n * 12"] s by (auto simp: core_ok_def)
  let ?t = "s\<lparr>ticks := ticker_tick (n * 12) (ticks s), counters := (counters s)\<lparr>Items := cs\<rparr>,
     inst_ticks := inst_ticks s + n\<rparr>"
  have "tick51 n s = Some ?t" using l cs by (simp add: tick51_def uc_tick_def)
  moreover have "core_ok ?t" using s cs(2) mem_ok_cong [of ?t s] by (simp add: core_ok_def)
  ultimately show ?thesis by auto
qed

lemma tick_bind:
  assumes "core_ok s" "\<And>t. core_ok t \<Longrightarrow> PC t = PC s \<Longrightarrow> sat Q (f t)"
  shows "sat Q (Option.bind (tick51 n s) f)"
  using tick51_ok [OF assms(1), of n] assms(2) by auto

lemma tick_bind2:
  assumes "core_ok s" "\<And>t. core_ok t \<Longrightarrow> PC t = PC s \<Longrightarrow> sat Q (Option.bind (g t) f)"
  shows "sat Q (Option.bind (Option.bind (tick51 n s) g) f)"
  using tick51_ok [OF assms(1), of n] assms(2) by auto

lemma get_cell_case:
  fixes s :: "'z core51_scheme"
  assumes "core_ok s" "\<And>c t. core_ok t \<Longrightarrow> sat Q (f c t)"
  shows "sat Q (case get_cell a i s of (c, t) \<Rightarrow> f c t)"
  using assms get_cell_I [OF assms(1), of a i] by (cases "get_cell a i s") simp

lemma get_direct_case:
  fixes s :: "'z core51_scheme"
  assumes "core_ok s" "\<And>c t. core_ok t \<Longrightarrow> sat Q (f c t)"
  shows "sat Q (case get_direct a s of (c, t) \<Rightarrow> f c t)"
  using assms by (simp add: get_direct_def get_cell_case)

lemma get_direct_bind:
  fixes s :: "'z core51_scheme"
  assumes "core_ok s" "\<And>c t. core_ok t \<Longrightarrow> sat Q (Option.bind (g c t) h)"
  shows "sat Q (Option.bind (case get_direct a s of (c, t) \<Rightarrow> g c t) h)"
proof -
  obtain c t where g: "get_direct a s = (c, t)" by (cases "get_direct a s")
  have "keeps (case get_direct a s of (c, t) \<Rightarrow> Some (c, t))"
    by (rule get_direct_case [OF assms(1)]) simp
  then have "core_ok t" using g by simp
  then show ?thesis using g assms(2) by simp
qed

lemma get_reg_case:
  fixes s :: "'z core51_scheme"
  assumes "core_ok s" "\<And>c t. core_ok t \<Longrightarrow> sat Q (f c t)"
  shows "sat Q (case get_reg n s of (c, t) \<Rightarrow> f c t)"
  using assms by (simp add: get_reg_def get_cell_case)

lemma get_cell_keeps: "core_ok s \<Longrightarrow> keeps (Some (get_cell a i s))" for s :: "'z core51_scheme"
  using get_cell_I [of s a i] by (cases "get_cell a i s") simp

lemma get_ind_I: "core_ok s \<Longrightarrow> keeps (get_ind hw n s)"
  unfolding get_ind_def Let_def
  by (rule get_reg_case, assumption, rule mem_binds(1), assumption, rule get_cell_keeps)

lemma cell_set_case:
  fixes s :: "'z core51_scheme"
  assumes "core_ok s" "\<And>c t. core_ok t \<Longrightarrow> sat Q (f c t)"
  shows "sat Q (case cell_set c v s of (c, t) \<Rightarrow> f c t)"
  using assms cell_set_I [OF assms(1), of c v] by (cases "cell_set c v s") simp

lemma cell_add_case:
  fixes s :: "'z core51_scheme"
  assumes "core_ok s" "\<And>c t. core_ok t \<Longrightarrow> sat Q (f c t)"
  shows "sat Q (case cell_add c v s of (c, t) \<Rightarrow> f c t)"
  using assms cell_add_I [OF assms(1), of c v] by (cases "cell_add c v s") simp

lemma flags_ok [simp]:
  "core_ok s \<Longrightarrow> core_ok (SFR_SET_BIT b r m s)" "core_ok s \<Longrightarrow> core_ok (SFR_SET_C b s)"
  "core_ok s \<Longrightarrow> core_ok (as_set_bit1 a x m s)" "core_ok s \<Longrightarrow> core_ok (as_set_bit0 a x m s)"
  "core_ok s \<Longrightarrow> core_ok (uc_error k s)"
  for s :: "'z core51_scheme"
  by (simp_all add: SFR_SET_C_def SFR_SET_BIT_def as_bits_I I_error)

lemma get_c_bind:
  fixes s :: "'z core51_scheme"
  assumes "core_ok s" "\<And>b t. core_ok t \<Longrightarrow> sat Q (f b t)"
  shows "sat Q (Option.bind (SFR_GET_C hw s) (\<lambda>(b, t). f b t))"
  unfolding SFR_GET_C_def
  by (intro sat_bind_assoc mem_binds(7) [OF assms(1)]) (simp add: assms(2))

lemma rel_jump_ok [simp]: "core_ok s \<Longrightarrow> core_ok (rel_jump d s)"
  unfolding rel_jump_eq by (rule core_ok_PC) (auto simp: rel_target_def)

lemma stack_write_bind:
  fixes s :: "'z core51_scheme"
  assumes "core_ok s" "is_write_op op" "\<And>t. core_ok t \<Longrightarrow> sat Q (f t)"
  shows "sat Q (Option.bind (stack_write op s) f)"
proof (cases "list_push op (stack_ops s)")
  case (Some l)
  have "Items l = op # Items (stack_ops s) \<and> cl_list_ok l"
    using list_push_total [of "stack_ops s" op] list_push_capacity [of "stack_ops s" op] Some assms(1)
    by (auto simp: core_ok_def tracker_sound_def)
  then have "core_ok (s\<lparr>stack_ops := l\<rparr>)"
    using assms(1,2) mem_ok_cong [of "s\<lparr>stack_ops := l\<rparr>" s] by (simp add: core_ok_def tracker_sound_def)
  moreover have "\<not> is_read_op op" using assms(2) by auto
  ultimately show ?thesis using Some assms(3) by (simp add: stack_write_def)
qed (use assms in \<open>auto simp: stack_write_def\<close>)

lemma remove_ops_set: "set (remove_ops op xs) \<subseteq> set xs" "length (remove_ops op xs) \<le> length xs"
  by (induction xs) auto

lemma stack_read_ok [simp]:
  fixes s :: "'z core51_scheme"
  assumes "core_ok s"
  shows "core_ok (stack_read op s)"
proof -
  let ?l = "(stack_ops s)\<lparr>Items := remove_ops op (Items (stack_ops s))\<rparr>"
  have "tracker_sound ?l"
    using assms remove_ops_set [of op "Items (stack_ops s)"]
    by (auto simp: core_ok_def tracker_sound_def cl_list_ok_def lcount_def)
  then have k: "core_ok (t\<lparr>stack_ops := ?l\<rparr>)" if "core_ok t" for t :: "'z core51_scheme"
    using that mem_ok_cong [of "t\<lparr>stack_ops := ?l\<rparr>" t] by (simp add: core_ok_def)
  have "stack_ops (uc_error k s) = stack_ops s" for k by (simp add: uc_error_def)
  then show ?thesis
    using assms k by (auto simp: stack_read_def Let_def split: option.split list.split)
qed

lemma push_byte_I: "core_ok s \<Longrightarrow> keeps (push_byte hw v s)"
  unfolding push_byte_def Let_def
  by (rule mem_binds(9), assumption, rule get_cell_case, assumption, rule mem_binds(3)) simp_all

lemma bit2mem_case:
  "(\<And>m a k. sat Q (f m a k)) \<Longrightarrow> sat Q (case bit2mem b of (m, a, k) \<Rightarrow> f m a k)"
  "(\<And>m a k. sat Q (Option.bind (g m a k) h)) \<Longrightarrow>
   sat Q (Option.bind (case bit2mem b of (m, a, k) \<Rightarrow> g m a k) h)"
  by (simp_all add: bit2mem_def Let_def)

lemma da_adjust_case:
  "(\<And>a p. sat Q (f a p)) \<Longrightarrow> sat Q (case da_adjust x y of (a, p) \<Rightarrow> f a p)"
  by (cases "da_adjust x y") simp

lemmas inst_rules = get_direct_bind bit2mem_case da_adjust_case mem_binds fetch_bind tick_bind tick_bind2 get_cell_case get_direct_case
  get_reg_case sat_bindI [OF get_ind_I] cell_set_case cell_add_case get_c_bind stack_write_bind
  sat_bindI [OF push_byte_I] sat_bind_if sat_bind_assoc sat_bind_split sat_if

lemma arith_I1:
  assumes "core_ok s"
  shows "keeps (inst_rr hw code s)"
    "keeps (inst_rrc hw code s)"
    "keeps (inst_rl hw code s)"
    "keeps (inst_rlc hw code s)"
    "keeps (inst_add_a_Sdata hw code s)"
    "keeps (inst_add_a_addr hw code s)"
    "keeps (inst_add_a_Sri hw code s)"
    "keeps (inst_add_a_rn hw code s)"
    "keeps (inst_addc_a_Sdata hw code s)"
  unfolding inst_rr_def inst_rrc_def inst_rl_def inst_rlc_def inst_add_a_Sdata_def inst_add_a_addr_def inst_add_a_Sri_def inst_add_a_rn_def inst_addc_a_Sdata_def add_tail_def Let_def
  by ((intro inst_rules; simp add: assms)+)

lemma arith_I2:
  assumes "core_ok s"
  shows "keeps (inst_addc_a_addr hw code s)"
    "keeps (inst_addc_a_Sri hw code s)"
    "keeps (inst_addc_a_rn hw code s)"
    "keeps (inst_div_ab hw code s)"
    "keeps (inst_subb_a_Sdata hw code s)"
    "keeps (inst_subb_a_addr hw code s)"
    "keeps (inst_subb_a_Sri hw code s)"
    "keeps (inst_subb_a_rn hw code s)"
    "keeps (inst_mul_ab hw code s)"
    "keeps (inst_da_a hw code s)"
  unfolding inst_addc_a_addr_def inst_addc_a_Sri_def inst_addc_a_rn_def inst_div_ab_def inst_subb_a_Sdata_def inst_subb_a_addr_def inst_subb_a_Sri_def inst_subb_a_rn_def inst_mul_ab_def inst_da_a_def add_tail_def Let_def
  by ((intro inst_rules; simp add: assms)+)

lemma bit_I1:
  assumes "core_ok s"
  shows "keeps (inst_orl_c_bit hw code s)"
    "keeps (inst_anl_c_bit hw code s)"
    "keeps (inst_mov_bit_c hw code s)"
    "keeps (inst_mov_c_bit hw code s)"
    "keeps (inst_orl_c_Sbit hw code s)"
    "keeps (inst_anl_c_Sbit hw code s)"
    "keeps (inst_cpl_bit hw code s)"
    "keeps (inst_cpl_c hw code s)"
    "keeps (inst_clr_bit hw code s)"
    "keeps (inst_clr_c hw code s)"
    "keeps (inst_setb_bit hw code s)"
    "keeps (inst_setb_c hw code s)"
  unfolding inst_orl_c_bit_def inst_anl_c_bit_def inst_mov_bit_c_def inst_mov_c_bit_def inst_orl_c_Sbit_def inst_anl_c_Sbit_def inst_cpl_bit_def inst_cpl_c_def inst_clr_bit_def inst_clr_c_def inst_setb_bit_def inst_setb_c_def read_bit_def Let_def
  by ((intro inst_rules; simp add: assms)+)

lemma bit_I2:
  assumes "core_ok s"
  shows "keeps (inst_inc_a hw code s)"
    "keeps (inst_inc_addr hw code s)"
    "keeps (inst_inc_Sri hw code s)"
    "keeps (inst_inc_rn hw code s)"
    "keeps (inst_dec_a hw code s)"
    "keeps (inst_dec_addr hw code s)"
    "keeps (inst_dec_Sri hw code s)"
    "keeps (inst_dec_rn hw code s)"
    "keeps (inst_inc_dptr hw code s)"
  unfolding inst_inc_a_def inst_inc_addr_def inst_inc_Sri_def inst_inc_rn_def inst_dec_a_def inst_dec_addr_def inst_dec_Sri_def inst_dec_rn_def inst_inc_dptr_def  Let_def
  by ((intro inst_rules; simp add: assms)+)

lemma jmp_I1:
  assumes "core_ok s"
  shows "keeps (inst_jbc_bit_addr hw code s)"
    "keeps (inst_jb_bit_addr hw code s)"
    "keeps (inst_jnb_bit_addr hw code s)"
    "keeps (inst_jc_addr hw code s)"
    "keeps (inst_jnc_addr hw code s)"
    "keeps (inst_jz_addr hw code s)"
    "keeps (inst_jnz_addr hw code s)"
    "keeps (inst_sjmp hw code s)"
  unfolding inst_jbc_bit_addr_def inst_jb_bit_addr_def inst_jnb_bit_addr_def inst_jc_addr_def inst_jnc_addr_def inst_jz_addr_def inst_jnz_addr_def inst_sjmp_def  Let_def
  by ((intro inst_rules; simp add: assms)+)

lemma jmp_I2:
  assumes "core_ok s"
  shows "keeps (inst_cjne_a_Sdata_addr hw code s)"
    "keeps (inst_cjne_a_addr_addr hw code s)"
    "keeps (inst_cjne_Sri_Sdata_addr hw code s)"
    "keeps (inst_cjne_rn_Sdata_addr hw code s)"
    "keeps (inst_djnz_addr_addr hw code s)"
    "keeps (inst_djnz_rn_addr hw code s)"
  unfolding inst_cjne_a_Sdata_addr_def inst_cjne_a_addr_addr_def inst_cjne_Sri_Sdata_addr_def inst_cjne_rn_Sdata_addr_def inst_djnz_addr_addr_def inst_djnz_rn_addr_def  Let_def
  by ((intro inst_rules; simp add: assms)+)

lemma logic_I1:
  assumes "core_ok s"
  shows "keeps (inst_orl_addr_a hw code s)"
    "keeps (inst_orl_addr_Sdata hw code s)"
    "keeps (inst_orl_a_Sdata hw code s)"
    "keeps (inst_orl_a_addr hw code s)"
    "keeps (inst_orl_a_Sri hw code s)"
    "keeps (inst_orl_a_rn hw code s)"
    "keeps (inst_anl_addr_a hw code s)"
    "keeps (inst_anl_addr_Sdata hw code s)"
    "keeps (inst_anl_a_Sdata hw code s)"
  unfolding inst_orl_addr_a_def inst_orl_addr_Sdata_def inst_orl_a_Sdata_def inst_orl_a_addr_def inst_orl_a_Sri_def inst_orl_a_rn_def inst_anl_addr_a_def inst_anl_addr_Sdata_def inst_anl_a_Sdata_def  Let_def
  by ((intro inst_rules; simp add: assms)+)

lemma logic_I2:
  assumes "core_ok s"
  shows "keeps (inst_anl_a_addr hw code s)"
    "keeps (inst_anl_a_Sri hw code s)"
    "keeps (inst_anl_a_rn hw code s)"
    "keeps (inst_xrl_addr_a hw code s)"
    "keeps (inst_xrl_addr_Sdata hw code s)"
    "keeps (inst_xrl_a_Sdata hw code s)"
    "keeps (inst_xrl_a_addr hw code s)"
    "keeps (inst_xrl_a_Sri hw code s)"
    "keeps (inst_xrl_a_rn hw code s)"
    "keeps (inst_cpl_a hw code s)"
  unfolding inst_anl_a_addr_def inst_anl_a_Sri_def inst_anl_a_rn_def inst_xrl_addr_a_def inst_xrl_addr_Sdata_def inst_xrl_a_Sdata_def inst_xrl_a_addr_def inst_xrl_a_Sri_def inst_xrl_a_rn_def inst_cpl_a_def  Let_def
  by ((intro inst_rules; simp add: assms)+)

lemma mov_I1:
  assumes "core_ok s"
  shows "keeps (inst_mov_a_Sdata hw code s)"
    "keeps (inst_mov_addr_Sdata hw code s)"
    "keeps (inst_mov_Sri_Sdata hw code s)"
    "keeps (inst_mov_rn_Sdata hw code s)"
    "keeps (inst_mov_addr_addr hw code s)"
    "keeps (inst_mov_addr_Sri hw code s)"
    "keeps (inst_mov_addr_rn hw code s)"
    "keeps (inst_mov_dptr_Sdata hw code s)"
    "keeps (inst_mov_Sri_addr hw code s)"
  unfolding inst_mov_a_Sdata_def inst_mov_addr_Sdata_def inst_mov_Sri_Sdata_def inst_mov_rn_Sdata_def inst_mov_addr_addr_def inst_mov_addr_Sri_def inst_mov_addr_rn_def inst_mov_dptr_Sdata_def inst_mov_Sri_addr_def  Let_def
  by ((intro inst_rules; simp add: assms)+)

lemma mov_I2:
  assumes "core_ok s"
  shows "keeps (inst_mov_rn_addr hw code s)"
    "keeps (inst_mov_a_addr hw code s)"
    "keeps (inst_mov_a_Sri hw code s)"
    "keeps (inst_mov_a_rn hw code s)"
    "keeps (inst_mov_addr_a hw code s)"
    "keeps (inst_mov_Sri_a hw code s)"
    "keeps (inst_mov_rn_a hw code s)"
    "keeps (inst_movc_a_Sa_pc hw code s)"
    "keeps (inst_movc_a_Sa_dptr hw code s)"
  unfolding inst_mov_rn_addr_def inst_mov_a_addr_def inst_mov_a_Sri_def inst_mov_a_rn_def inst_mov_addr_a_def inst_mov_Sri_a_def inst_mov_rn_a_def inst_movc_a_Sa_pc_def inst_movc_a_Sa_dptr_def  inst_unknown_def Let_def
  by ((intro inst_rules; simp add: assms)+)

lemma mov_I3:
  assumes "core_ok s"
  shows "keeps (inst_movx_a_Sdptr hw code s)"
    "keeps (inst_movx_a_Sri hw code s)"
    "keeps (inst_movx_Sdptr_a hw code s)"
    "keeps (inst_movx_Sri_a hw code s)"
    "keeps (inst_push hw code s)"
    "keeps (inst_pop hw code s)"
    "keeps (inst_xch_a_addr hw code s)"
    "keeps (inst_xch_a_Sri hw code s)"
    "keeps (inst_xch_a_rn hw code s)"
    "keeps (inst_xchd_a_Sri hw code s)"
  unfolding inst_movx_a_Sdptr_def inst_movx_a_Sri_def inst_movx_Sdptr_a_def inst_movx_Sri_a_def inst_push_def inst_pop_def inst_xch_a_addr_def inst_xch_a_Sri_def inst_xch_a_rn_def inst_xchd_a_Sri_def xch_cells_def Let_def
  by ((intro conjI impI inst_rules; simp add: assms)+)

lemma core_I:
  assumes "core_ok s"
  shows "keeps (inst_unknown s)"
    "keeps (inst_nop hw code s)"
    "keeps (inst_clr_a hw code s)"
    "keeps (inst_swap hw code s)"
  unfolding inst_unknown_def inst_nop_def inst_clr_a_def inst_swap_def  Let_def
  by (simp add: assms | (intro inst_rules; simp add: assms))+

lemma page_PC: "0 \<le> x \<Longrightarrow> x < 0x800 \<Longrightarrow> 0 \<le> (p AND 0xf800) OR (x :: int) \<and> (p AND 0xf800) OR x < 0x10000"
  using OR_upper [of "p AND 0xf800" 16 x] AND_upper2 [of "0xf800" p] by simp

lemma ajmp_PC:
  fixes s :: "'z core51_scheme"
  assumes "core_ok s" "byte l"
  shows "core_ok (s\<lparr>PC := (p AND 0xf800) OR ((code div 32 AND 7) * 256 + l)\<rparr>)"
proof -
  define q where "q = (code div 32 AND 7)"
  have "0 \<le> q" "q < 8" by (simp_all add: q_def and_7)
  then have "0 \<le> q * 256 + l" "q * 256 + l < 0x800" using assms(2) by (simp_all add: byte_def)
  then show ?thesis using assms(1) page_PC [of "q * 256 + l" p] core_ok_PC [of s]
    unfolding q_def [symmetric] by simp
qed

lemma word_PC: "core_ok s \<Longrightarrow> byte h \<Longrightarrow> byte l \<Longrightarrow> core_ok (s\<lparr>PC := h * 256 + l\<rparr>)"
  by (rule core_ok_PC) (auto simp: byte_def)

lemma validate_PC: "core_ok s \<Longrightarrow> core_ok (s\<lparr>PC := validate_address Rom x\<rparr>)"
  using pos_mod_bound [of 65536 x] by (intro core_ok_PC) (auto simp: validate_address_eq)

lemma pop_pc_I: "core_ok s \<Longrightarrow> keeps (pop_pc hw s)"
  unfolding pop_pc_def Let_def
  by (intro inst_rules; simp add: word_PC)

definition reti_level :: "'z core51_scheme \<Rightarrow> 'z core51_scheme" where
  "reti_level s = (case list_top (it_levels s) of None \<Rightarrow> s
    | Some il \<Rightarrow> if 0 \<le> level il then s\<lparr>it_levels := snd (list_pop (it_levels s))\<rparr> else s)"

lemma reti_levels [simp]:
  fixes s :: "'z core51_scheme"
  assumes "core_ok s"
  shows "core_ok (reti_level s)"
proof -
  obtain il where il: "list_top (it_levels s) = Some il"
    using levels_top assms by (auto simp: core_ok_def)
  let ?t = "s\<lparr>it_levels := snd (list_pop (it_levels s))\<rparr>"
  have "core_ok ?t" if "0 \<le> level il"
    using assms il that levels_pop [of "it_levels s" il] mem_ok_cong [of ?t s] by (simp add: core_ok_def)
  then show ?thesis using il assms by (simp add: reti_level_def)
qed

lemma jump_I:
  assumes "core_ok s"
  shows "keeps (inst_ajmp_addr hw code s)" "keeps (inst_ljmp hw code s)"
    "keeps (inst_jmp_Sa_dptr hw code s)" "keeps (inst_acall_addr hw code s)"
  unfolding inst_ajmp_addr_def inst_ljmp_def inst_jmp_Sa_dptr_def inst_acall_addr_def Let_def
  by (intro inst_rules; simp add: assms ajmp_PC word_PC validate_PC mk_stack_op_def)+

lemma lcall_I:
  assumes "core_ok s" "addr \<noteq> 0 \<longrightarrow> 0 \<le> addr \<and> addr \<le> 0x10000"
  shows "keeps (inst_lcall hw code addr intr s)"
proof (cases "addr = 0")
  case True
  then show ?thesis unfolding inst_lcall_def Let_def True if_True simp_thms
    by ((intro conjI impI inst_rules; simp add: assms(1) word_PC mk_stack_op_def)+)
next
  case False
  then have jump: "core_ok t \<Longrightarrow> core_ok (t\<lparr>PC := addr\<rparr>)" for t :: "'z core51_scheme"
    using assms(2) core_ok_PC [of t addr] by simp
  show ?thesis unfolding inst_lcall_def Let_def
    by (simp add: False) ((intro conjI impI inst_rules; simp add: assms(1) jump mk_stack_op_def)+)
qed

lemma ret_I:
  assumes "core_ok s"
  shows "keeps (inst_ret hw code s)" "keeps (inst_reti hw code s)"
  unfolding inst_ret_def inst_reti_def Let_def reti_level_def [symmetric]
  by (rule sat_bindI [OF pop_pc_I [OF assms]], clarsimp)+

end

end
