(* ===== verification/Exec51Facts.thy ===== *)
theory Exec51Facts
  imports Invariant51 Devices51
begin

text \<open>
  The execution loop keeps the invariant of the core: breakpoints, dispatch, the interrupt logic,
  the hardware clock and the loop itself are added to the instructions of \<open>Invariant51\<close>, and the
  elements of \<open>Devices51\<close> are shown to meet the contract when those around them do. The second part describes the interrupt
  logic: which source is served and what accepting it does.
\<close>

subsection \<open>Breakpoints keep the invariant\<close>

lemma remove_first_set: "x \<in> set (remove_first P xs) \<Longrightarrow> x \<in> set xs"
  by (induction xs) (auto split: if_splits)

lemma del_brk_fields:
  assumes "del_brk a addr nr ev s = Some t" "mem_ok s"
  shows "mem_ok t" "heap t = heap s" "slot t = slot s" "mem.more t = mem.more s"
proof -
  have "ops t = ops s \<or> (\<exists>c. ops t = (ops s)(c := remove_first (op_match_brk nr) (ops s c)))"
    and f: "heap t = heap s" "slot t = slot s" "mem.more t = mem.more s"
    using assms(1) by (auto simp: del_brk_def Let_def del_operator_def set_cell_flag_def cell_set_flag_def
        split: if_splits)
  then have "p \<in> set (ops s c)" if "p \<in> set (ops t c)" for p c
    using that by (auto split: if_split_asm elim: remove_first_set)
  then show "mem_ok t" using assms(2) f unfolding mem_ok_def by metis
  show "heap t = heap s" "slot t = slot s" "mem.more t = mem.more s" by (rule f)+
qed

lemma core_ok_same_more:
  assumes "core_ok s" "mem_ok t" "mem.more t = mem.more s"
  shows "core_ok t"
  using assms by (cases s; cases t) (simp add: core_ok_def)

lemma brk_inactivate_ok:
  assumes "core_ok s" "brk_inactivate b s = Some t"
  shows "core_ok t"
proof (cases "b_mem b")
  case (Some a)
  then have "del_brk a (b_addr b) (b_nr b) (b_event b) s = Some t" using assms(2) by (simp add: brk_inactivate_def)
  from del_brk_fields [OF this] assms(1) show ?thesis by (intro core_ok_same_more [of s t]) simp_all
qed (use assms in \<open>simp add: brk_inactivate_def\<close>)

lemma del_bp_ok: "core_ok s \<Longrightarrow> del_bp addr l s = Some (l', t) \<Longrightarrow> core_ok t"
  by (auto simp: del_bp_def bind_eq_Some_conv split: option.splits dest: brk_inactivate_ok)

lemma sat_bind1: "(\<And>x. m = Some x \<Longrightarrow> sat Q (f x)) \<Longrightarrow> sat Q (Option.bind m f)"
  by (cases m) auto

lemma core_ok_fbrk [simp]: "core_ok (s\<lparr>fbrk := l\<rparr>) = core_ok s"
  by (rule core_ok_cong) simp_all

lemma fetch_brk_hit_ok:
  fixes s :: "'z core51_scheme"
  assumes "core_ok s"
  shows "sat (\<lambda>_ s'. core_ok s') (fetch_brk_hit s)"
proof -
  have d: "sat (\<lambda>_ s'. core_ok s') (Option.bind (del_bp a l t) (\<lambda>(l, s). Some (b, s\<lparr>fbrk := l\<rparr>)))"
    if "core_ok t" for a l b and t :: "'z core51_scheme"
    using del_bp_ok [OF that, of a l] by (auto intro!: sat_bind1)
  show ?thesis unfolding fetch_brk_hit_def
  proof (intro sat_bind1 sat_if)
    fix r assume "get_bp (PC s) (fbrk s) s = Some r"
    show "sat (\<lambda>_ s'. core_ok s') (case r of None \<Rightarrow> Some (False, s)
       | Some (idx, b) \<Rightarrow> let (h, b) = do_hit b in put_at idx b (fbrk s) \<bind> (\<lambda>l.
           let s = s\<lparr>fbrk := l\<rparr> in if \<not> h then Some (False, s)
           else if b_perm b = brkDYNAMIC then del_bp (PC s) (fbrk s) s \<bind> (\<lambda>(l, s). Some (True, s\<lparr>fbrk := l\<rparr>))
           else Some (True, s)))"
      using assms by (auto simp: Let_def split: option.split prod.split intro!: sat_bind1 sat_if d)
  qed (use assms in simp_all)
qed

subsection \<open>Which source is served\<close>

definition sfr :: "t_addr \<Rightarrow> 'z mem_scheme \<Rightarrow> t_mem" where
  "sfr a s = cell_get (Cell Sfr (a - 0x80)) s"

lemma as_get_sfr: "valid_address Sfr a \<Longrightarrow> as_get hw Sfr a s = Some (sfr a s, s)"
  by (simp add: as_get_def leaf_get_def out_of_space_def valid_address_def sfr_def)

text \<open>A source asks for service when it is active, enabled and flagged; its priority is in \<open>IP\<close>.\<close>

definition asks :: "'z mem_scheme \<Rightarrow> it_src \<Rightarrow> bool" where
  "asks s src \<longleftrightarrow> it_active src \<and> sfr (ie_reg src) s AND ie_mask src \<noteq> 0
     \<and> sfr (src_reg src) s AND src_mask src \<noteq> 0"

definition src_prio :: "'z mem_scheme \<Rightarrow> it_src \<Rightarrow> int" where
  "src_prio s src = (if sfr r_IP s AND ie_mask src \<noteq> 0 then 1 else 0)"

definition eligible :: "'z mem_scheme \<Rightarrow> it_level \<Rightarrow> it_src \<Rightarrow> bool" where
  "eligible s il src \<longleftrightarrow> asks s src \<and> (level il < 0 \<or> level il < src_prio s src)"

definition serve :: "'z core_hw \<Rightarrow> it_src \<Rightarrow> (int, 'z) act" where
  "serve hw src s =
     (if state s = stIDLE then
        Some (resGO, (as_set_bit0 Sfr r_PCON bmIDL (s\<lparr>state := stGO\<rparr>))\<lparr>was_reti := True\<rparr>)
      else accept_it hw \<lparr>level = src_prio s src, il_addr = it_addr src, il_PC = PC s,
          il_source = Some src\<rparr>
        (if clr_bit src then as_set_bit0 Sfr (src_reg src) (src_mask src) s else s))"

lemma PC_set_bit0 [simp]: "PC (as_set_bit0 a x m s) = PC s" "it_levels (as_set_bit0 a x m s) = it_levels s"
  by (simp_all add: as_set_bit0_def cell_set_bit0_def store_def)

lemma poll_find:
  assumes "\<forall>src \<in> set srcs. valid_address Sfr (ie_reg src) \<and> valid_address Sfr (src_reg src)"
  shows "poll_sources hw (Some il) srcs s = (case find (eligible s il) srcs of
     None \<Rightarrow> Some (resGO, s) | Some src \<Rightarrow> serve hw src s)"
  using assms
proof (induction srcs)
  case (Cons src srcs)
  then have "it_requested hw src s = Some (asks s src, s)"
    by (simp add: it_requested_def as_get_sfr asks_def)
  moreover have "it_priority hw (ie_mask src) s = Some (src_prio s src, s)"
    by (simp add: it_priority_def as_get_sfr valid_address_def src_prio_def)
  ultimately show ?case using Cons
    by (auto simp: eligible_def serve_def Let_def)
qed simp

lemma do_interrupt_eq:
  assumes "core_ok s" "list_top (it_levels s) = Some il"
  shows "do_interrupt hw s =
    (if was_reti s then Some (resGO, s\<lparr>was_reti := False\<rparr>)
     else if sfr r_IEN0 s AND bmEA = 0 then Some (resGO, s)
     else case find (eligible s il) (Items (it_sources s)) of
       None \<Rightarrow> Some (resGO, s) | Some src \<Rightarrow> serve hw src s)"
  using assms poll_find [of "Items (it_sources s)" hw il s]
  by (simp add: do_interrupt_def as_get_sfr valid_address_def core_ok_def sources_ok_def)

subsection \<open>The loop keeps the invariant\<close>

context core_hw
begin

lemma dispatch_I: "core_ok s \<Longrightarrow> keeps (dispatch hw code s)"
  unfolding dispatch_def
  by (simp only: arith_I1 arith_I2 bit_I1 bit_I2 jmp_I1 jmp_I2 logic_I1 logic_I2 mov_I1 mov_I2 mov_I3
      core_I jump_I lcall_I ret_I if_split simp_thms)

lemma fetch_code_I: "core_ok s \<Longrightarrow> keeps (fetch_code hw s)"
  unfolding fetch_code_def
  by (rule sat_bindI [where P = "\<lambda>_ s. core_ok s"])
    (auto intro!: sat_if fetch_brk_hit_ok fetch_bind)

lemma exec_inst_I: "core_ok s \<Longrightarrow> keeps (exec_inst hw s)"
  unfolding exec_inst_def Let_def
  by (rule sat_bindI [OF fetch_code_I]) (auto intro!: tick_bind dispatch_I split: option.split)

lemma accept_I:
  assumes "core_ok s" "list_top (it_levels s) = Some lv" "level lv < level il" "level il \<le> 1"
    "0 \<le> il_addr il" "il_addr il \<le> 0x10000"
  shows "keeps (accept_it hw il s)"
proof -
  let ?s = "as_set_bit0 Sfr r_PCON bmIDL (s\<lparr>state := stGO\<rparr>)"
  have "core_ok (?s\<lparr>it_levels := l\<rparr>)" if "list_push il (it_levels ?s) = Some l" for l
  proof -
    have "levels_ok l" using assms that by (intro levels_push [of "it_levels s" lv il l]) (simp_all add: core_ok_def)
    moreover have "core_ok ?s" using assms by simp
    ultimately show ?thesis using mem_ok_cong [of "?s\<lparr>it_levels := l\<rparr>" ?s] by (simp add: core_ok_def)
  qed
  then show ?thesis unfolding accept_it_def Let_def using assms
    by (intro sat_bind1 tick_bind sat_bindI [OF lcall_I]) auto
qed

lemma serve_I:
  assumes "core_ok s" "list_top (it_levels s) = Some lv" "eligible s lv src" "src \<in> set (Items (it_sources s))"
  shows "keeps (serve hw src s)"
proof -
  have "0 \<le> it_addr src \<and> it_addr src < 0x10000" using assms(1,4) by (simp add: core_ok_def sources_ok_def)
  moreover have "level lv < src_prio s src" "src_prio s src \<le> 1"
    using assms(3) by (auto simp: eligible_def src_prio_def split: if_splits)
  ultimately show ?thesis unfolding serve_def using assms
    by (auto intro!: accept_I [of _ lv] simp: core_ok_def [of "s"])
qed

lemma do_interrupt_I: "core_ok s \<Longrightarrow> keeps (do_interrupt hw s)"
proof -
  assume s: "core_ok s"
  then obtain lv where t: "list_top (it_levels s) = Some lv" using levels_top by (auto simp: core_ok_def)
  show ?thesis unfolding do_interrupt_eq [OF s t]
    using s serve_I [OF s t]
    by (auto split: option.split simp: find_Some_iff intro!: sat_if)
qed

lemma idle_pd_I: "core_ok s \<Longrightarrow> keeps (idle_pd hw s)"
  unfolding idle_pd_def Let_def by (rule mem_binds(7)) simp_all

lemma tick_hws_I: "core_ok s \<Longrightarrow> keeps (tick_hws hw n hs s)"
proof (induction hs arbitrary: s)
  case (Cons h hs)
  show ?case
    using Cons sat_bindI [OF tick_ok [OF Cons.prems, of "fst h" n], of _ "\<lambda>_. tick_hws hw n hs"]
    by (cases h) simp
qed simp

lemma post_inst_I: "core_ok s \<Longrightarrow> keeps (post_inst hw s)"
proof -
  assume s: "core_ok s"
  have e: "core_ok (sim_stop t) = core_ok t" for t :: "'z core51_scheme" by (simp add: sim_stop_def)
  have f: "core_ok t \<Longrightarrow> core_ok (foldl (\<lambda>s b. sim_stop s) t bs)" for t :: "'z core51_scheme" and bs :: "'b list"
    by (induction bs arbitrary: t) (simp_all add: e)
  show ?thesis unfolding post_inst_def tick_hw_def Let_def
    by (rule sat_bindI [OF tick_hws_I [OF s]]) (simp add: check_errors_def check_events_def Let_def e f)
qed

lemma run_one_I: "core_ok s \<Longrightarrow> keeps (run_one hw s)"
  unfolding run_one_def pre_inst_def Let_def
  by (intro sat_if sat_bindI [OF exec_inst_I] sat_bindI [OF post_inst_I] tick_bind post_inst_I) simp_all

lemma after_inst_I: "core_ok s \<Longrightarrow> keeps (after_inst hw s)"
  unfolding after_inst_def
  by (intro sat_if sat_bindI [OF do_interrupt_I] sat_bind_if sat_bindI [OF idle_pd_I]) simp_all

lemma loop_body_I: "core_ok s \<Longrightarrow> keeps (loop_body hw frozen_in cmd_in step s)"
  unfolding loop_body_def Let_def
  by (intro sat_bindI [OF run_one_I] sat_bindI [OF after_inst_I]) (simp_all add: sim_stop_def)

lemma inst_loop_I:
  assumes "inst_loop hw frozen_in cmd_in step s = Some r" "core_ok s"
  shows "core_ok (snd r)"
proof -
  have "hw = hw \<longrightarrow> core_ok s \<longrightarrow> core_ok (snd r)"
  proof (rule inst_loop.raw_induct [where P = "\<lambda>h f c n s r. h = hw \<longrightarrow> core_ok s \<longrightarrow> core_ok (snd r)"])
    fix loop :: "'z core_hw \<Rightarrow> _" and h f c n s r
    assume IH: "\<And>h f c n s r. loop h f c n s = Some r \<Longrightarrow> h = hw \<longrightarrow> core_ok s \<longrightarrow> core_ok (snd r)"
      and body: "(if result s = resGO \<and> state s \<noteq> stPD \<and> n \<noteq> 0 then
        (let step = (if 0 < n then n - 1 else n) in
         Option.bind (loop_body h f c step s) (\<lambda>(brk, s).
           if brk then Some ((), s) else loop h f c step s))
        else Some ((), s)) = Some r"
    show "h = hw \<longrightarrow> core_ok s \<longrightarrow> core_ok (snd r)"
    proof (intro impI)
      assume "h = hw" "core_ok s"
      then have "sat (\<lambda>_ t. core_ok t) (loop_body h f c (if 0 < n then n - 1 else n) s)"
        by (simp add: loop_body_I)
      with body IH \<open>core_ok s\<close> \<open>h = hw\<close> show "core_ok (snd r)"
        by (auto simp: sat_def Let_def bind_eq_Some_conv split: if_split_asm)
    qed
  qed (rule assms(1))
  with assms(2) show ?thesis by simp
qed

lemma do_inst_I: "core_ok s \<Longrightarrow> keeps (do_inst hw frozen_in cmd_in step s)"
  unfolding do_inst_def Let_def
  by (rule sat_bindI [where P = "\<lambda>_ s. core_ok s"])
    (auto simp: sat_def sim_stop_def dest: inst_loop_I)

subsubsection \<open>The elements of the core\<close>

lemma set_timer_ok [simp]: "core_ok (set_timer n f s) = core_ok s"
  by (simp add: set_timer_def)

lemma cell_steps_ok [simp]:
  "core_ok s \<Longrightarrow> core_ok (cell_set_bit1 c m s)" "core_ok s \<Longrightarrow> core_ok (snd (cell_add c v s))"
  "core_ok s \<Longrightarrow> core_ok (snd (cell_set c v s))"
  for s :: "'z core51_scheme"
  by (simp_all add: cell_bits_I cell_add_I cell_set_I)

lemma overflow_I: "core_ok s \<Longrightarrow> keeps (timer_overflow hw n s)"
  by (simp add: timer_overflow_def happen_ok)

lemma overflow_bind: "core_ok s \<Longrightarrow> (\<And>t. core_ok t \<Longrightarrow> sat Q (f t)) \<Longrightarrow>
  sat Q (Option.bind (timer_overflow hw n s) (\<lambda>(_, t). f t))"
  by (rule sat_bindI [OF overflow_I])

lemma mode_loops_I:
  "core_ok s \<Longrightarrow> keeps (mode0_loop hw n k s)" "core_ok s \<Longrightarrow> keeps (mode1_loop hw n k s)"
  "core_ok s \<Longrightarrow> keeps (mode2_loop hw n k s)" "core_ok s \<Longrightarrow> keeps (mode3_tl_loop hw n k s)"
  by (induction k arbitrary: s)
    (auto simp: Let_def split_beta intro!: sat_bind_if overflow_bind)

lemma mode3_th_ok: "core_ok s \<Longrightarrow> core_ok (mode3_th_loop n k s)" for s :: "'z core51_scheme"
  by (induction k arbitrary: s) (simp_all add: Let_def split_beta)

lemma take_cycles_ok [simp]: "core_ok s \<Longrightarrow> core_ok (snd (take_cycles n c s))" for s :: "'z core51_scheme"
  by (simp add: take_cycles_def)

lemma timer_tick_I: "core_ok s \<Longrightarrow> keeps (timer_tick hw n c s)"
  by (auto simp: timer_tick_def do_mode0_def do_mode1_def do_mode2_def do_mode3_def Let_def split_beta
      mode3_th_ok intro!: mode_loops_I sat_bind_if sat_bindI [OF mode_loops_I(4)])

lemma element_happen_I:
  fixes s :: "'z core51_scheme"
  assumes "core_ok s"
  shows "keeps (timer_happen n ev s)" "keeps (interrupt_happen ev s)"
  using assms by (cases ev; simp add: Let_def)+

lemma element_ticks_I: "core_ok s \<Longrightarrow> keeps (interrupt_tick c s)" for s :: "'z core51_scheme"
  by (simp add: interrupt_tick_def Let_def)

lemma port_inform_I: "core_ok s \<Longrightarrow> keeps (port_inform n ep s)" for s :: "'z core51_scheme"
  unfolding port_inform_def
  by (intro sat_if sat_bindI [OF element_happen_I(1)] element_happen_I(2)) simp_all

lemma element_writes_I:
  fixes s :: "'z core51_scheme"
  assumes "core_ok s"
  shows "keeps (port_write n c v s)" "keeps (timer_write n c v s)" "keeps (interrupt_write c v s)"
    "keeps (dummy_hw_write c v s)" "keeps (radio_write c v s)"
proof -
  show "keeps (port_write n c v s)" unfolding port_write_def Let_def
    using assms by (intro sat_bind_if sat_bindI [OF port_inform_I]) simp_all
qed (use assms in \<open>simp_all add: timer_write_def interrupt_write_def dummy_hw_write_def radio_write_def
      Let_def cell_bits_I\<close>)

lemma element_reads_I:
  fixes s :: "'z core51_scheme"
  assumes "core_ok s"
  shows "sat (\<lambda>v t. (byte_cell c \<longrightarrow> byte v) \<and> core_ok t) (default_hw_read c s)"
    "sat (\<lambda>v t. (byte_cell c \<longrightarrow> byte v) \<and> core_ok t) (radio_read c s)"
    "sat (\<lambda>v t. (byte_cell c \<longrightarrow> byte v) \<and> core_ok t) (port_read n c s)"
  using assms by (simp_all add: default_hw_read_def radio_read_def port_read_def byte_and)

end

lemma core51_hwif_ok: "core_hw other \<Longrightarrow> core_hw (core51_hwif other)"
proof -
  assume o: "core_hw other"
  show ?thesis
  proof
    fix s :: "'a core51_scheme" and h c v n ev
    assume s: "core_ok s"
    show "sat (\<lambda>v t. (byte_cell c \<longrightarrow> byte v) \<and> core_ok t) (hw_read (core51_hwif other) h c s)"
      using core_hw.element_reads_I [OF o s] core_hw.read_ok [OF o s]
      by (simp add: core51_hwif_def split: hwid.split)
    show "keeps (hw_write (core51_hwif other) h c v s)"
      using core_hw.element_writes_I [OF o s] core_hw.write_ok [OF o s]
      by (simp add: core51_hwif_def split: hwid.split)
    show "keeps (hw_tick (core51_hwif other) h n s)"
      using core_hw.timer_tick_I [OF o s] core_hw.element_ticks_I [OF o s] core_hw.tick_ok [OF o s] s
      by (simp add: core51_hwif_def split: hwid.split)
    show "keeps (hw_happen (core51_hwif other) h ev s)"
      using core_hw.element_happen_I [OF o s] core_hw.happen_ok [OF o s] s
      by (simp add: core51_hwif_def split: hwid.split)
    show "keeps (hw_reset (core51_hwif other) h s)"
      using core_hw.reset_ok [OF o s] s
      by (simp add: core51_hwif_def interrupt_reset_def split: hwid.split)
  qed
qed

end
