(* ===== verification/Interrupt51Facts.thy ===== *)
theory Interrupt51Facts
  imports Exec51Facts Stack51Facts
begin

text \<open>
  The interrupt logic: which source is served, what entering a service routine does and what RETI
  undoes, and the execution loop as a bounded iteration. That a run keeps the invariant of the core
  is shown for the whole chip in \<open>ChipInvariant\<close>.
\<close>

subsection \<open>Selection\<close>

lemma find_first:
  assumes "find P xs = Some x" "sorted (map f xs)"
  shows "x \<in> set xs \<and> P x \<and> (\<forall>y \<in> set xs. P y \<longrightarrow> f x \<le> (f y :: int))"
  using assms by (induction xs) (auto split: if_splits)

text \<open>
  C3 With interrupts enabled, and not right after RETI or a
  write to an interrupt register, the interrupt logic does nothing when no source is eligible (active,
  enabled, flagged, and of a priority above the level in service); otherwise it accepts the eligible
  source with the least polling number, at that source's level and address, after clearing the flag
  if the source says so. The priority register plays no part in the choice among eligible sources.
\<close>

theorem interrupt_selection:
  assumes s: "core_ok s" "list_top (it_levels s) = Some lv" "\<not> was_reti s"
    "sfr r_IEN0 s AND bmEA \<noteq> 0" "state s \<noteq> stIDLE"
    and srt: "sorted (map poll_priority (Items (it_sources s)))"
  shows "(\<forall>src \<in> set (Items (it_sources s)). \<not> eligible s lv src) \<and> do_interrupt hw s = Some (resGO, s)
    \<or> (\<exists>src \<in> set (Items (it_sources s)). eligible s lv src
         \<and> (\<forall>src' \<in> set (Items (it_sources s)). eligible s lv src' \<longrightarrow> poll_priority src \<le> poll_priority src')
         \<and> do_interrupt hw s = accept_it hw \<lparr>level = src_prio s src, il_addr = it_addr src, il_PC = PC s,
               il_source = Some src\<rparr>
             (if clr_bit src then as_set_bit0 Sfr (src_reg src) (src_mask src) s else s))"
proof (cases "find (eligible s lv) (Items (it_sources s))")
  case None
  have "\<forall>src \<in> set (Items (it_sources s)). \<not> eligible s lv src" using None by (simp add: find_None_iff)
  moreover have "do_interrupt hw s = Some (resGO, s)" using s None by (simp add: do_interrupt_eq [OF s(1,2)])
  ultimately show ?thesis by blast
next
  case (Some src)
  then show ?thesis using find_first [OF Some srt] s(3-5)
    by (auto simp: do_interrupt_eq [OF s(1,2)] serve_def)
qed

subsection \<open>Entry and return\<close>

lemma ready_levels:
  assumes "ready s" "Items l \<noteq> []"
  shows "ready (s\<lparr>it_levels := l\<rparr>)"
  using assms mem_ok_cong [of "s\<lparr>it_levels := l\<rparr>" s] wired_cong [of "s\<lparr>it_levels := l\<rparr>" s]
  by (simp add: ready_def clocked_def)

lemma ready_state [simp]: "ready (s\<lparr>state := st\<rparr>) = ready s" "ready (s\<lparr>was_reti := b\<rparr>) = ready s"
  "cell_get c (s\<lparr>state := st\<rparr>) = cell_get c s" "cell_get c (s\<lparr>was_reti := b\<rparr>) = cell_get c s"
  "cell_get c (s\<lparr>it_levels := l\<rparr>) = cell_get c s"
  by (rule ready_cong get_cong; simp)+

lemma stack_read_keeps [simp]:
  "PC (stack_read op s) = PC s" "it_levels (stack_read op s) = it_levels s"
  "was_reti (stack_read op s) = was_reti s"
  by (auto simp: stack_read_def Let_def uc_error_def split: option.split list.split)

lemma set_bit0_poke:
  assumes "valid_address Sfr a"
  shows "as_set_bit0 Sfr a m s = poke (Cell Sfr (a - 0x80)) (sfr a s AND NOT (m AND 255)) s"
  using assms by (simp add: as_set_bit0_def out_of_space_def valid_address_def cell_set_bit0_def poke_def sfr_def)

lemma levels_push_total:
  assumes "levels_ok l"
  shows "\<exists>l'. list_push new l = Some l' \<and> Items l' = new # Items l"
  using assms levels_bounded [OF assms] list_push_total [of l new]
  by (auto simp: levels_ok_def lcount_def max_list_size_def)


text \<open>The state after acceptance: idle bit and flag cleared, level pushed, return address stacked.\<close>

definition cleared :: "it_src \<Rightarrow> 'z core51_scheme \<Rightarrow> 'z core51_scheme" where
  "cleared src s = (if clr_bit src then as_set_bit0 Sfr (src_reg src) (src_mask src) s else s)"

definition awake :: "'z core51_scheme \<Rightarrow> 'z core51_scheme" where
  "awake s = as_set_bit0 Sfr r_PCON bmIDL (s\<lparr>state := stGO\<rparr>)"

lemma bit0_simps:
  assumes "ready s" "valid_address Sfr a" "byte m"
  shows "ready (as_set_bit0 Sfr a m s)" "PC (as_set_bit0 Sfr a m s) = PC s"
    "it_levels (as_set_bit0 Sfr a m s) = it_levels s" "stack_ops (as_set_bit0 Sfr a m s) = stack_ops s"
    "cell_get c (as_set_bit0 Sfr a m s) = (if c = Cell Sfr (a - 0x80) then sfr a s AND NOT m else cell_get c s)"
  using assms by (auto simp: set_bit0_poke byte_and byte_and2 sfr_def)

lemma awake_simps:
  assumes "ready s"
  shows "ready (awake s)" "PC (awake s) = PC s" "it_levels (awake s) = it_levels s"
    "stack_ops (awake s) = stack_ops s"
    "cell_get c (awake s) = (if c = Cell Sfr 7 then sfr r_PCON s AND NOT bmIDL else cell_get c s)"
  using assms bit0_simps [of "s\<lparr>state := stGO\<rparr>" r_PCON bmIDL]
  by (simp_all add: awake_def valid_address_def sfr_def)

lemma accept_spec:
  assumes s: "ready s" "levels_ok (it_levels s)" "il_addr il \<noteq> 0"
    and l: "cl_list_ok (stack_ops s)" "lcount (stack_ops s) < max_list_size" and pc: "0 \<le> PC s" "PC s < 0x10000"
    and sp: "sp = cell_get cell_sp s" "sp < 254"
  shows "\<exists>t. accept_it (core51_hwif other) il s = Some (resINTERRUPT, t) \<and> PC t = il_addr il
     \<and> Items (it_levels t) = il # Items (it_levels s) \<and> ready t
     \<and> cell_get cell_sp t = sp + 2 \<and> cell_get (Cell Iram (sp + 1)) t = PC s mod 256
     \<and> cell_get (Cell Iram (sp + 2)) t = PC s div 256
     \<and> (\<forall>a. a \<noteq> r_SP \<and> a \<noteq> r_PCON \<longrightarrow> sfr a t = sfr a s)"
proof -
  obtain l' where l': "list_push il (it_levels s) = Some l'" "Items l' = il # Items (it_levels s)"
    using levels_push_total [OF s(2)] by blast
  define r where "r = ticked 1 ((awake s)\<lparr>it_levels := l'\<rparr>)"
  have r: "ready r" "PC r = PC s" "it_levels r = l'" "stack_ops r = stack_ops s"
    "cell_get c r = cell_get c (awake s)" for c
    using ready_levels [of "awake s" l'] awake_simps [OF s(1)] l'(2) by (simp_all add: r_def)
  have tick: "tick51 1 ((awake s)\<lparr>it_levels := l'\<rparr>) = Some r"
    using ready_levels [of "awake s" l'] awake_simps [OF s(1)] l'(2) by (simp add: r_def)
  have "0 \<le> sp" using s(1) sp byteD(1) [of sp] by auto
  then have m: "(sp + 2) mod 256 = sp + 2" "(sp + 1) mod 256 = sp + 1" using sp(2) by simp_all
  have rs: "cell_get cell_sp r = sp" using r(5) awake_simps(5) [OF s(1), of cell_sp] sp(1) by simp
  have cr: "call_return (il_addr il) r = r" using s(3) by (simp add: call_return_def)
  obtain so where so: "inst_lcall (core51_hwif other) 0 (il_addr il) True r
      = Some (resGO, (call_frame (il_addr il) r)\<lparr>PC := call_target (il_addr il) r, stack_ops := so\<rparr>)"
    using c51.lcall_spec [OF r(1), where addr = "il_addr il" and code = 0 and intr = True and other = other]
      s(3) l r(4) by auto
  define t where "t = (call_frame (il_addr il) r)\<lparr>PC := call_target (il_addr il) r, stack_ops := so\<rparr>"
  have "accept_it (core51_hwif other) il s = Some (resINTERRUPT, t)"
    using l'(1) tick so awake_simps(3) [OF s(1)]
    by (simp add: accept_it_def Let_def awake_def [symmetric] t_def [symmetric])
  moreover have "PC t = il_addr il" using s(3) by (simp add: t_def call_target_def)
  moreover have "it_levels t = l'"
    using r s(3) by (simp add: t_def call_frame_def Let_def call_return_def call_tick_def)
  moreover have "ready t" using r by (simp add: t_def)
  moreover have "cell_get cell_sp t = sp + 2" "cell_get (Cell Iram (sp + 1)) t = PC s mod 256"
    "cell_get (Cell Iram (sp + 2)) t = PC s div 256"
    using call_frame_get [OF r(1), of "il_addr il", unfolded cr rs m] r(2) pc zdiv_mono1 [of "PC s" "0xffff" 256]
    by (simp_all add: t_def pos_imp_zdiv_nonneg_iff)
  moreover have "sfr a t = sfr a s" if "a \<noteq> r_SP \<and> a \<noteq> r_PCON" for a
  proof -
    have "cell_get (Cell Sfr i) (call_frame (il_addr il) r) = cell_get (Cell Sfr i) r" if "i \<noteq> 1" for i
      using r(1) that s(3) by (simp add: call_frame_def Let_def call_return_def call_tick_def)
    then show ?thesis using that r(5) awake_simps(5) [OF s(1)] by (simp add: sfr_def t_def)
  qed
  ultimately show ?thesis using l'(2) by (intro exI [of _ t]) simp
qed

lemma reti_spec:
  assumes u: "ready u" "cell_get cell_sp u = sp + 2" "sp < 254" "0 \<le> sp"
    and lv: "list_top (it_levels u) = Some il" "0 \<le> level il"
  shows "\<exists>u'. inst_reti (core51_hwif other) code u = Some (resGO, u') \<and> was_reti u'
     \<and> PC u' = cell_get (Cell Iram (sp + 2)) u * 256 + cell_get (Cell Iram (sp + 1)) u
     \<and> Items (it_levels u') = tl (Items (it_levels u))"
proof -
  obtain v where v: "pop_pc (core51_hwif other) u = Some ((sp + 2, sp), v)"
    "PC v = cell_get (Cell Iram (sp + 2)) u * 256 + cell_get (Cell Iram (sp + 1)) u"
    "it_levels v = it_levels u"
    using c51.pop_pc_spec [OF u(1,2), of other] u(3,4) by (auto simp: add.commute)
  obtain ls where "Items (it_levels u) = il # ls"
    using lv(1) by (cases "Items (it_levels u)") (auto simp: list_top_def)
  then show ?thesis using v lv by (simp add: inst_reti_def Let_def list_top_def list_pop_def)
qed

text \<open>
  C2 When the interrupt logic accepts a source, the core
  continues at the address of the source with the return address on the stack, the source's priority
  on top of the stacked levels, and, where the source clears its flag, the source no longer asking.
  From every later state with that stack pointer, return address and level stack, RETI comes back to
  the interrupted address with the levels of before, and holds the next acceptance back by one
  instruction.
\<close>

theorem interrupt_entry_exit:
  fixes s :: "'z core51_scheme"
  assumes s: "core_ok s" "ready s" "list_top (it_levels s) = Some lv" "\<not> was_reti s" "state s = stGO"
    and src: "sfr r_IEN0 s AND bmEA \<noteq> 0" "find (eligible s lv) (Items (it_sources s)) = Some src"
      "it_addr src \<noteq> 0" "src_reg src \<notin> {r_SP, r_PCON}" "byte (src_mask src)"
    and st: "lcount (stack_ops s) < max_list_size" "sp = cell_get cell_sp s" "sp < 254" "PC s < 0x10000"
  shows "\<exists>t. do_interrupt (core51_hwif other) s = Some (resINTERRUPT, t) \<and> PC t = it_addr src
     \<and> map level (Items (it_levels t)) = src_prio s src # map level (Items (it_levels s))
     \<and> cell_get cell_sp t = sp + 2 \<and> (clr_bit src \<longrightarrow> \<not> asks t src)
     \<and> (\<forall>u. ready u \<and> cell_get cell_sp u = sp + 2 \<and> it_levels u = it_levels t
          \<and> cell_get (Cell Iram (sp + 1)) u = cell_get (Cell Iram (sp + 1)) t
          \<and> cell_get (Cell Iram (sp + 2)) u = cell_get (Cell Iram (sp + 2)) t \<longrightarrow>
          (\<exists>u'. inst_reti (core51_hwif other) 0x32 u = Some (resGO, u') \<and> PC u' = PC s
             \<and> Items (it_levels u') = Items (it_levels s)
             \<and> do_interrupt (core51_hwif other) u' = Some (resGO, u'\<lparr>was_reti := False\<rparr>)))"
proof -
  let ?il = "\<lparr>level = src_prio s src, il_addr = it_addr src, il_PC = PC s, il_source = Some src\<rparr>"
  have el: "src \<in> set (Items (it_sources s))" using src(2) by (auto simp: find_Some_iff)
  then have v: "valid_address Sfr (src_reg src)" using s(1) by (simp add: core_ok_def sources_ok_def)
  have d: "do_interrupt (core51_hwif other) s = accept_it (core51_hwif other) ?il (cleared src s)"
    using s src by (simp add: do_interrupt_eq [OF s(1,3)] serve_def cleared_def)
  have c: "ready (cleared src s)" "it_levels (cleared src s) = it_levels s"
    "stack_ops (cleared src s) = stack_ops s" "PC (cleared src s) = PC s"
    "cell_get cell_sp (cleared src s) = sp"
    "clr_bit src \<longrightarrow> sfr (src_reg src) (cleared src s) AND src_mask src = 0"
    using bit0_simps [OF s(2) v src(5)] s(2) st(2) src(4)
    by (auto simp: cleared_def sfr_def and.assoc and.left_commute)
  have pc: "0 \<le> PC s" "cl_list_ok (stack_ops s)" "levels_ok (it_levels s)"
    using s(1) by (simp_all add: core_ok_def tracker_sound_def)
  obtain t where t: "accept_it (core51_hwif other) ?il (cleared src s) = Some (resINTERRUPT, t)"
    "PC t = it_addr src" "Items (it_levels t) = ?il # Items (it_levels s)" "cell_get cell_sp t = sp + 2"
    "cell_get (Cell Iram (sp + 1)) t = PC s mod 256" "cell_get (Cell Iram (sp + 2)) t = PC s div 256"
    "\<forall>a. a \<noteq> r_SP \<and> a \<noteq> r_PCON \<longrightarrow> sfr a t = sfr a (cleared src s)"
    using accept_spec [OF c(1), of ?il sp other] c(2-5) pc st src(3) by auto
  have clr: "clr_bit src \<longrightarrow> \<not> asks t src" using c(6) t(7) src(4) by (simp add: asks_def)
  have "0 \<le> sp" using s(2) st(2) byteD(1) [of sp] by auto
  have returns: "\<exists>u'. inst_reti (core51_hwif other) 0x32 u = Some (resGO, u') \<and> PC u' = PC s
      \<and> Items (it_levels u') = Items (it_levels s)
      \<and> do_interrupt (core51_hwif other) u' = Some (resGO, u'\<lparr>was_reti := False\<rparr>)"
    if u: "ready u" "cell_get cell_sp u = sp + 2" "it_levels u = it_levels t"
      "cell_get (Cell Iram (sp + 1)) u = PC s mod 256" "cell_get (Cell Iram (sp + 2)) u = PC s div 256" for u
  proof -
    have "list_top (it_levels u) = Some ?il" using u(3) t(3) by (simp add: list_top_def)
    moreover have "0 \<le> level ?il" by (simp add: src_prio_def)
    ultimately obtain u' where "inst_reti (core51_hwif other) 0x32 u = Some (resGO, u')" "was_reti u'"
      "PC u' = PC s div 256 * 256 + PC s mod 256" "Items (it_levels u') = tl (Items (it_levels u))"
      using reti_spec [OF u(1,2) st(3) \<open>0 \<le> sp\<close>, of ?il other "0x32"] u(4,5) by auto
    then show ?thesis using u(3) t(3) by (simp add: do_interrupt_def)
  qed
  show ?thesis
    by (rule exI [of _ t], intro conjI clr allI impI returns) (simp_all add: d t)
qed

subsection \<open>The execution loop\<close>

text \<open>\<open>do_inst\<close> with a count: the loop as a recursion on the count, without the consoles.\<close>

fun steps :: "'z core_hw \<Rightarrow> nat \<Rightarrow> (unit, 'z) act" where
  "steps hw 0 s = Some ((), s)"
| "steps hw (Suc n) s =
     (if result s \<noteq> resGO \<or> state s = stPD then Some ((), s)
      else do {
        (_, s) \<leftarrow> run_one hw s;
        (_, s) \<leftarrow> after_inst hw s;
        if result s = resINTERRUPT \<and> stop_at_it s \<or> resSTOP \<le> result s then Some ((), sim_stop s)
        else steps hw n s
      })"

lemma inst_loop_steps: "inst_loop hw frozen_in cmd_in (int n) s = steps hw n s"
proof (induction n arbitrary: s)
  case 0
  then show ?case by (subst inst_loop.simps) simp
next
  case (Suc n)
  have "loop_body hw frozen_in cmd_in (int n) s = do {
      (_, s) \<leftarrow> run_one hw s; (_, s) \<leftarrow> after_inst hw s;
      if result s = resINTERRUPT \<and> stop_at_it s \<or> resSTOP \<le> result s then Some (True, sim_stop s)
      else Some (False, s) }"
    by (simp add: loop_body_def)
  then show ?case
    by (subst inst_loop.simps)
      (auto simp: Suc.IH Let_def split: option.split bind_split)
qed

text \<open>
  C4 \<open>do_inst(n)\<close> with a count n >= 0 is at most n rounds of one
  instruction (or one idle tick) and one look at the interrupts: it always ends, the consoles are
  asked for input only once the core has powered down, and a stop result ends it early.
\<close>

theorem counted_run_ends:
  "do_inst hw frozen_in cmd_in (int n) s = do {
     (_, s) \<leftarrow> steps hw n (s\<lparr>result := resGO\<rparr>);
     let s = (if state s = stPD \<and> frozen_in s then sim_stop (s\<lparr>result := resUSER\<rparr>) else s);
     Some (result s, s)
   }"
  by (simp only: do_inst_def inst_loop_steps)

subsection \<open>Witnesses\<close>

definition irq_source :: it_src where
  "irq_source = mk_it_src r_IEN0 bmEX0 r_TCON bmIE0 0x0003 True ''external #0'' 1"

definition irq_demo :: core51 where
  "irq_demo = (boot51 (\<lambda>c. if c = cell_sp then 7 else if c = Cell Sfr 0x28 then 0x81
     else if c = Cell Sfr 0x08 then 2 else 0))\<lparr>it_sources := \<lparr>Items = [irq_source], Limit = 2, Delta = 2\<rparr>\<rparr>"

lemma boot51_core_ok:
  assumes "\<And>c. byte (h c)" "sources_ok l"
  shows "core_ok ((boot51 h)\<lparr>it_sources := l\<rparr>)"
proof -
  have "mem_ok (boot51 h)" using boot51_ready [OF assms(1)] by simp
  then have "mem_ok ((boot51 h)\<lparr>it_sources := l\<rparr>)"
    using mem_ok_cong [of "(boot51 h)\<lparr>it_sources := l\<rparr>" "boot51 h"] by simp
  then show ?thesis using assms(2)
    by (simp add: core_ok_def levels_ok_def cl_list_ok_def lcount_def tracker_sound_def max_list_size_def)
qed

lemma irq_demo_ok:
  "core_ok irq_demo" "ready irq_demo" "sfr r_IEN0 irq_demo = 0x81" "sfr r_TCON irq_demo = 2"
  "sfr r_IP irq_demo = 0"
proof -
  show "core_ok irq_demo" unfolding irq_demo_def
    by (rule boot51_core_ok) (simp_all add: sources_ok_def irq_source_def mk_it_src_def valid_address_def)
  show "ready irq_demo" unfolding irq_demo_def
    by (subst ready_cong [of _ "boot51 _"], simp_all) (rule boot51_ready, simp)
  show "sfr r_IEN0 irq_demo = 0x81" "sfr r_TCON irq_demo = 2" "sfr r_IP irq_demo = 0"
    by (simp_all add: irq_demo_def sfr_def cell_get_def boot51_def)
qed

lemma irq_demo_simps:
  "list_top (it_levels irq_demo) = Some \<lparr>level = -1, il_addr = 0, il_PC = 0, il_source = None\<rparr>"
  "Items (it_sources irq_demo) = [irq_source]" "\<not> was_reti irq_demo" "state irq_demo = stGO"
  "PC irq_demo = 0" "Items (stack_ops irq_demo) = []" "cell_get cell_sp irq_demo = 7"
  by (simp_all add: irq_demo_def list_top_def) (simp_all add: boot51_def cell_get_def)

lemma irq_demo_eligible: "eligible irq_demo \<lparr>level = -1, il_addr = 0, il_PC = 0, il_source = None\<rparr> irq_source"
  by (simp add: eligible_def asks_def irq_source_def mk_it_src_def irq_demo_ok)

theorem interrupt_selection_witness:
  "\<exists>src \<in> set (Items (it_sources irq_demo)). do_interrupt (core51_hwif base_hw) irq_demo
     = accept_it (core51_hwif base_hw) \<lparr>level = src_prio irq_demo src, il_addr = it_addr src,
         il_PC = PC irq_demo, il_source = Some src\<rparr>
       (if clr_bit src then as_set_bit0 Sfr (src_reg src) (src_mask src) irq_demo else irq_demo)"
proof -
  have "sfr r_IEN0 irq_demo AND bmEA \<noteq> 0" "state irq_demo \<noteq> stIDLE"
    "sorted (map poll_priority (Items (it_sources irq_demo)))"
    by (simp_all add: irq_demo_simps irq_demo_ok)
  from interrupt_selection [OF irq_demo_ok(1) irq_demo_simps(1,3) this]
  show ?thesis using irq_demo_eligible irq_demo_simps(2) by auto
qed

theorem interrupt_entry_exit_witness:
  "\<exists>t. do_interrupt (core51_hwif base_hw) irq_demo = Some (resINTERRUPT, t) \<and> PC t = 3
     \<and> cell_get cell_sp t = 9"
  using interrupt_entry_exit [OF irq_demo_ok(1,2) irq_demo_simps(1,3,4), of irq_source 7 base_hw]
    irq_demo_eligible
  by (auto simp: irq_demo_simps irq_demo_ok irq_source_def mk_it_src_def lcount_def max_list_size_def)

end
