(* ===== verification/Cc2530.thy ===== *)
theory Cc2530
  imports Core51
begin

text \<open>
  The state of the CC2530 elements of \<open>mk_hw_elements\<close> (DMA controller, flash controller, timers 1,
  3 and 4, MAC timer, both USARTs) and of the serial line, as an extension of the state of the core.
  Fields that only feed printed statistics (frequencies, elapsed time) are left out.
\<close>

subsection \<open>Registers\<close>

abbreviation "r_U0CSR \<equiv> (0x86 :: int)"
abbreviation "r_T2CTRL \<equiv> (0x94 :: int)"
abbreviation "r_SBUF \<equiv> (0x99 :: int)"
abbreviation "r_IEN2 \<equiv> (0x9A :: int)"
abbreviation "r_T2IRQM \<equiv> (0xA7 :: int)"
abbreviation "r_IEN1 \<equiv> (0xAA :: int)"
abbreviation "r_IRCON \<equiv> (0xC0 :: int)"
abbreviation "r_CLKCONCMD \<equiv> (0xC6 :: int)"
abbreviation "r_DMAIRQ \<equiv> (0xD1 :: int)"
abbreviation "r_DMA1CFGL \<equiv> (0xD2 :: int)"
abbreviation "r_DMA1CFGH \<equiv> (0xD3 :: int)"
abbreviation "r_DMA0CFGL \<equiv> (0xD4 :: int)"
abbreviation "r_DMA0CFGH \<equiv> (0xD5 :: int)"
abbreviation "r_DMAARM \<equiv> (0xD6 :: int)"
abbreviation "r_DMAREQ \<equiv> (0xD7 :: int)"
abbreviation "r_TIMIF \<equiv> (0xD8 :: int)"
abbreviation "r_IRCON2 \<equiv> (0xE8 :: int)"

abbreviation "cell_ircon \<equiv> Cell Sfr 0x40"
abbreviation "cell_dmaarm \<equiv> Cell Sfr 0x56"
abbreviation "cell_dmareq \<equiv> Cell Sfr 0x57"
abbreviation "cell_dmairq \<equiv> Cell Sfr 0x51"
abbreviation "cell_clkconcmd \<equiv> Cell Sfr 0x46"
abbreviation "cell_fctl \<equiv> Cell Xram 0x6270"
abbreviation "cell_faddrl \<equiv> Cell Xram 0x6271"
abbreviation "cell_faddrh \<equiv> Cell Xram 0x6272"
abbreviation "cell_fwdata \<equiv> Cell Xram 0x6273"

subsection \<open>State\<close>

datatype dma_state = DMAChannelIdle | LoadDMAChannelConfig | DMAChannelArmed | TransferOneByteOrWord
  | SetInterruptFlag | DisarmChannel

record dma_channel =
  DmaChState :: dma_state
  source :: t_addr
  destination :: t_addr
  ConfigAddress :: t_addr
  ch_s :: t_addr
  ch_d :: t_addr
  ITmask :: bool
  armed :: bool
  ch_init :: bool
  single :: bool
  repeated :: bool
  triggered :: bool
  TransferCount :: int
  VLEN :: int
  LEN :: int
  Priority :: int
  ch_delta :: int
  TriggerEvent :: int
  SRCincrement :: int
  DESTincrement :: int
  SRCinc :: int
  DESTinc :: int
  TxMode :: int
  Byte_Word_tx :: int
  M8 :: int

record flash_page =
  StartAddr :: t_addr
  PageWrites :: int
  lockbit :: bool
  WordWrites :: "int \<Rightarrow> int"

record flash_ctrl =
  PageTab :: "int \<Rightarrow> flash_page"
  f_bank :: as_id
  f_timerEnabled :: bool
  f_TickCount :: int
  f_writing :: bool
  regFull :: bool
  f_reg :: int
  f_address :: int
  PageNum :: int
  WordNum :: int
  TXNum :: int

text \<open>
  A timer with counters of type \<open>T\<close>: \<open>short int\<close> in timer 1, \<open>char\<close> in timers 3 and 4, both signed.
\<close>

record tchannel =
  IOPin :: bool
  ExIOPin :: bool
  ValRegCMP :: int

record cctimer =
  t_count :: int
  NextCmpEvent :: int
  cmpEventIn :: int
  PinEvent :: bool
  up_down :: bool
  up_down_changed :: bool
  cc_mode :: int
  cc_TR :: int
  tickspd :: int
  prescale :: int
  TimerTicks :: int
  systemTicks :: int
  tabCh :: "int \<Rightarrow> tchannel"
  channelID :: int
  t_high :: bool

record mac_timer =
  m_mode :: int
  m_run :: bool
  m_event :: bool
  T2_EVENT1 :: bool
  T2_EVENT2 :: bool
  t2msel :: int
  t2movfsel :: int
  m_count :: int
  t2_cap :: int
  t2_per :: int
  t2_cmp1 :: int
  t2_cmp2 :: int
  OVF :: "int \<Rightarrow> int \<Rightarrow> int"

record usart =
  UsartID :: int
  regForTx :: t_mem
  regForRx :: t_mem
  TXD :: bool
  RXD :: bool
  MISO :: bool
  MOSI :: bool
  RxParity :: bool
  TxParity :: bool
  stopBitLevel :: bool
  startBitLevel :: bool
  u_mode :: int
  slave :: bool
  TickCountForBaud :: int
  u_RX :: bool
  u_TX :: bool
  bitRxCnt :: int
  bitTxCnt :: int
  BitNumber :: int
  StopBits :: int
  u_queue :: bool
  baud_m :: int
  baud_e :: int
  baud_set :: bool

record uart =
  s_in :: uchar
  s_out :: uchar
  s_sending :: bool
  s_receiving :: bool
  s_rec_bit :: int
  s_tr_bit :: int
  s_rec_t1 :: int
  s_tr_t1 :: int
  s_rec_tick :: int
  s_tr_tick :: int
  uart_mode :: uchar
  uart_REN :: bool
  uart_SMOD :: bool
  uart_bits :: uchar
  uart_divby :: uchar
  t2_baud :: bool
  line_in :: "uchar list"
  line_out :: "uchar list"
  in_open :: bool
  out_open :: bool

record cc2530 = core51 +
  ObjInit :: bool
  tabDMACh :: "int \<Rightarrow> dma_channel"
  stale :: "nat \<Rightarrow> int"
  stale_pos :: nat
  flash :: flash_ctrl
  cctimers :: "int \<Rightarrow> cctimer"
  mac :: mac_timer
  usarts :: "int \<Rightarrow> usart"
  ser :: uart

type_synonym 'z cc_hw = "'z cc2530_scheme hwif"
type_synonym ('a, 'z) cact = "'z cc2530_scheme \<Rightarrow> ('a \<times> 'z cc2530_scheme) option"

end
