(* ===== verification/Radio2530.thy ===== *)
theory Radio2530
  imports Cc2530 "HOL-Library.Extended_Nat"
begin

text \<open>
  The radio of the CC2530 (\<open>CC2530Radio.cc\<close>, class \<open>cl_CC2530_radio\<close>): its state machine, the
  FIFOs, frame decoding and frame filtering. The state of the radio and of its command strobe
  processor extends the state of the other elements.

  A frame allocated by \<open>init\<close> holds arbitrary values, taken from the sequence \<open>stale\<close>. A memory
  access outside an array, and a shift by the width of its operand, end the run (\<open>None\<close>).
  The double \<open>Timer\<close> only ever holds zero, whole ticks or infinity: it is an \<open>enat\<close>.
\<close>

subsection \<open>State\<close>

datatype fsm_state = IDLE | RX_CALIBRATION | SFD_WAIT | RX | RX_RXWAIT | RXFIFO_RESET | RX_OVERFLOW
  | TX_CALIBRATION | TX | TX_FINAL | TX_RX_TRANSIT | ACK_CALIBRATION | ACK | ACK_DELAY
  | TX_UNDERFLOW | TX_SHUTDOWN

record frame =
  FrameLength :: int
  FCF :: int
  FrameType :: int
  securityEnabled :: bool
  FramePending :: bool
  AckReq :: bool
  PanCompression :: bool
  DataSequenceNumber :: int
  SrcAddressMode :: int
  SourceAddress :: int
  SourcePanID :: int
  ExtSrcAddressH :: int
  ExtSrcAddressL :: int
  DestAddressMode :: int
  DestinationAddress :: int
  DestinationPanID :: int
  ExtDestAddressH :: int
  ExtDestAddressL :: int

record radio =
  RXframe :: frame
  TXframe :: frame
  fsm_st :: fsm_state
  TXFIFO :: "int \<Rightarrow> uchar"
  RXFIFO :: "int \<Rightarrow> uchar"
  ExtAddr :: "int \<Rightarrow> int \<Rightarrow> int"
  shortAddr :: "int \<Rightarrow> t_mem"
  PanId :: "int \<Rightarrow> int"
  slotted_ack :: bool
  unslotted_ack :: bool
  frame_completed :: bool
  overflow :: bool
  frame_not_for_me :: bool
  Timeout :: bool
  TX_ACTIVE :: bool
  RX_ACTIVE :: bool
  underflow :: bool
  frame_sent :: bool
  RxEnableWhenTxComplete :: bool
  cancelACK :: bool
  ACKsent :: bool
  autopendEnable :: bool
  freq :: int
  Timer :: enat
  RX_PC :: int
  TX_PC :: int
  TXFifoPosition :: int
  r_length :: int
  r_k :: int
  ReadC :: int
  r_tickspd :: int
  radio_in :: int
  radio_out :: int
  stateNum :: int
  rxEnable :: int
  rxenmask :: int
  ShortAddress :: int
  PanID :: int
  ExtAddressH :: int
  ExtAddressL :: int

record csp =
  waitingForAnswer :: bool
  WaitingForOvfs :: bool
  WaitingForWOvfs :: bool
  waitWend :: bool
  OVFcountdown :: bool
  event1 :: bool
  WaitingForEvent1 :: bool
  event2 :: bool
  WaitingForEvent2 :: bool
  csp_stop :: bool
  csp_PC :: int
  PCwrite :: int
  csp_label :: int
  csp_CCA :: int
  STXON :: bool
  SRXON :: bool
  STXONCCA :: bool
  SRFOFF :: bool
  SFLUSHRX :: bool
  SFLUSHTX :: bool
  RSSI_valid :: bool
  CPU_ctrl :: bool
  pendingBit :: bool
  radioAnswer :: bool

record rf2530 = cc2530 +
  rf :: radio
  CSP :: csp

type_synonym 'z rf_hw = "'z rf2530_scheme hwif"
type_synonym ('a, 'z) ract = "'z rf2530_scheme \<Rightarrow> ('a \<times> 'z rf2530_scheme) option"

definition upd_rf :: "(radio \<Rightarrow> radio) \<Rightarrow> 'z rf2530_scheme \<Rightarrow> 'z rf2530_scheme" where
  "upd_rf f s = s\<lparr>rf := f (rf s)\<rparr>"

definition upd_csp :: "(csp \<Rightarrow> csp) \<Rightarrow> 'z rf2530_scheme \<Rightarrow> 'z rf2530_scheme" where
  "upd_csp f s = s\<lparr>CSP := f (CSP s)\<rparr>"

subsection \<open>Registers\<close>

text \<open>
  The interrupt flags \<open>RFIRQF0\<close>, \<open>RFIRQF1\<close> and \<open>S1CON\<close> are registered in the data space, at the
  addresses they have in the SFR space. \<open>RFD\<close> and \<open>CLKCONCMD\<close> are compared with pointers that stay
  null: they are not among the cells registered.
\<close>

abbreviation "cell_rfirqf0 \<equiv> Cell Xram 0xE9"
abbreviation "cell_rfirqf1 \<equiv> Cell Xram 0x91"
abbreviation "cell_s1con \<equiv> Cell Xram 0x9B"
abbreviation "cell_frmfilt0 \<equiv> Cell Xram 0x6180"
abbreviation "cell_frmfilt1 \<equiv> Cell Xram 0x6181"
abbreviation "cell_srcmatch \<equiv> Cell Xram 0x6182"
abbreviation "cell_frmctrl0 \<equiv> Cell Xram 0x6189"
abbreviation "cell_frmctrl1 \<equiv> Cell Xram 0x618A"
abbreviation "cell_freqctrl \<equiv> Cell Xram 0x618F"
abbreviation "cell_fsmstat1 \<equiv> Cell Xram 0x6193"
abbreviation "cell_fifopctrl \<equiv> Cell Xram 0x6194"
abbreviation "cell_fsmctrl \<equiv> Cell Xram 0x6195"
abbreviation "cell_rxfirst \<equiv> Cell Xram 0x619A"
abbreviation "cell_rxfifocnt \<equiv> Cell Xram 0x619B"
abbreviation "cell_txfifocnt \<equiv> Cell Xram 0x619C"
abbreviation "cell_rfirqm0 \<equiv> Cell Xram 0x61A3"
abbreviation "cell_rfirqm1 \<equiv> Cell Xram 0x61A4"
abbreviation "cell_srcresindex \<equiv> Cell Xram 0x6163"

definition cell_rfd :: "cell option" where "cell_rfd = None"
definition cell_clkconcmd_rf :: "cell option" where "cell_clkconcmd_rf = None"

abbreviation "SFD \<equiv> (0x7A :: int)"
abbreviation "SFDbm \<equiv> (0x20 :: int)"
abbreviation "bmFIFO \<equiv> (0x80 :: int)"
abbreviation "bmFIFOP \<equiv> (0x40 :: int)"
abbreviation "bmTX_ACTIVE \<equiv> (2 :: int)"
abbreviation "bmRX_ACTIVE \<equiv> (1 :: int)"
abbreviation "bmRFIF \<equiv> (0x03 :: int)"
abbreviation "bmRFIDLE \<equiv> (0x04 :: int)"
abbreviation "bmTXDONE \<equiv> (0x02 :: int)"
abbreviation "bmTXACKDONE \<equiv> (0x01 :: int)"
abbreviation "bmAUTOPEND \<equiv> (2 :: int)"
abbreviation "FRM_FILTER_EN \<equiv> (1 :: int)"

definition radio_watched :: "t_addr list" where
  "radio_watched = [0xE9, 0x9B, 0x91, 0x6180, 0x6181, 0x6182, 0x6183, 0x6184, 0x6185, 0x6186, 0x6187,
     0x6188, 0x6189, 0x618A, 0x618B, 0x618C, 0x618D, 0x618E, 0x618F, 0x6190, 0x6191, 0x6192, 0x6193,
     0x6194, 0x6195, 0x6196, 0x6197, 0x6198, 0x6199, 0x619A, 0x619B, 0x619C, 0x619D, 0x619E, 0x619F,
     0x61A1, 0x61A2, 0x61A3, 0x61A4, 0x61A5, 0x61A6, 0x61A7, 0x61A8, 0x61A9, 0x61AA, 0x61AB, 0x61AC,
     0x61AE, 0x61AF, 0x61B0, 0x61B1, 0x61B2, 0x61B3, 0x61B4, 0x61B5, 0x61B6, 0x61B7, 0x61B8, 0x61B9,
     0x61BA, 0x61BB, 0x61BC, 0x61BD, 0x61BE, 0x61BF, 0x6160, 0x6161, 0x6162, 0x6163]
     @ map (\<lambda>i. 0x6100 + i) [0..95]"

definition make_radio_watched_cells :: "'z rf2530_scheme \<Rightarrow> 'z rf2530_scheme" where
  "make_radio_watched_cells s = fold (\<lambda>a s. snd (register_hw Xram a Hw_CC2530radio s)) radio_watched s"

text \<open>An interrupt is requested when its bit of the mask register is set.\<close>

definition rf_request :: "cell \<Rightarrow> int \<Rightarrow> cell \<Rightarrow> int \<Rightarrow> 'z rf2530_scheme \<Rightarrow> 'z rf2530_scheme" where
  "rf_request msk m flag b s =
     (if cell_get msk s AND m \<noteq> 0
      then cell_set_bit1 cell_s1con bmRFIF (cell_set_bit1 flag b s) else s)"

definition set_reg :: "t_addr \<Rightarrow> int \<Rightarrow> 'z rf2530_scheme \<Rightarrow> 'z rf2530_scheme" where
  "set_reg a v s = snd (cell_set (Cell Xram a) v s)"

definition to_int32 :: "int \<Rightarrow> int" where
  "to_int32 x = (let y = x mod 2 ^ 32 in if y < 2 ^ 31 then y else y - 2 ^ 32)"

fun inform :: "'z rf_hw \<Rightarrow> hwid list \<Rightarrow> hw_event \<Rightarrow> (unit, 'z) ract" where
  "inform hw [] ev s = Some ((), s)"
| "inform hw (h # hs) ev s = do { (_, s) \<leftarrow> hw_happen hw h ev s; inform hw hs ev s }"

text \<open>The constructor of the radio makes no partner.\<close>

definition radio_partners :: "hwid list" where "radio_partners = []"

subsection \<open>Initialisation and reset\<close>

definition new_Frame :: "'z rf2530_scheme \<Rightarrow> frame \<times> 'z rf2530_scheme" where
  "new_Frame s = (let f = (\<lambda>i. stale s (stale_pos s + i)) in
     (\<lparr>FrameLength = to_schar (f 0), FCF = f 1, FrameType = f 2, securityEnabled = (f 3 \<noteq> 0),
       FramePending = (f 4 \<noteq> 0), AckReq = (f 5 \<noteq> 0), PanCompression = (f 6 \<noteq> 0),
       DataSequenceNumber = to_schar (f 7), SrcAddressMode = f 8, SourceAddress = f 9,
       SourcePanID = f 10, ExtSrcAddressH = f 11, ExtSrcAddressL = f 12, DestAddressMode = f 13,
       DestinationAddress = f 14, DestinationPanID = f 15, ExtDestAddressH = f 16,
       ExtDestAddressL = f 17\<rparr>, s\<lparr>stale_pos := stale_pos s + 18\<rparr>))"

fun init_fifos :: "'z rf_hw \<Rightarrow> nat \<Rightarrow> int \<Rightarrow> (unit, 'z) ract" where
  "init_fifos hw 0 i s = Some ((), s)"
| "init_fifos hw (Suc n) i s = do {
     (r, s) \<leftarrow> as_read hw Xram (0x6000 + i) s;
     let s = upd_rf (\<lambda>f. f\<lparr>RXFIFO := (RXFIFO f)(i := to_uchar r)\<rparr>) s;
     (t, s) \<leftarrow> as_read hw Xram (0x6080 + i) s;
     let s = upd_rf (\<lambda>f. f\<lparr>TXFIFO := (TXFIFO f)(i := to_uchar t), TXFifoPosition := 0\<rparr>) s;
     init_fifos hw n (i + 1) (s\<lparr>rand_pos := 0\<rparr>)
   }"

definition test_frame :: "int \<Rightarrow> int" where
  "test_frame i = (if 0 \<le> i \<and> i < 12
     then [0x40, 0x88, 0x01, 0, 0x3D, 0x0B, 0x71, 0xA8, 0x7D, 0x83, 0x64, 0x50] ! nat i else 0x0C)"

definition read_be :: "'z rf_hw \<Rightarrow> t_addr \<Rightarrow> t_addr \<Rightarrow> (int, 'z) ract" where
  "read_be hw h l s = do {
     (x, s) \<leftarrow> as_read hw Xram h s;
     (y, s) \<leftarrow> as_read hw Xram l s;
     Some (x * 256 + y, s)
   }"

definition radio_init :: "'z rf_hw \<Rightarrow> (unit, 'z) ract" where
  "radio_init hw s = do {
     let (rx, s) = new_Frame s;
     let (tx, s) = new_Frame s;
     let s = upd_rf (\<lambda>f. f\<lparr>RXframe := rx, TXframe := tx, fsm_st := IDLE, cancelACK := False,
       slotted_ack := False, unslotted_ack := False, frame_completed := False, overflow := False,
       frame_not_for_me := False, Timeout := False, TX_ACTIVE := False, RX_ACTIVE := False,
       underflow := False, frame_sent := False, RxEnableWhenTxComplete := False, freq := 32000000,
       Timer := 0, RX_PC := 0, TX_PC := 0, TXFifoPosition := 0, r_length := 0, r_k := 0, ReadC := 0,
       r_tickspd := 0, radio_in := 0, radio_out := 0, stateNum := 0, rxEnable := 0, rxenmask := 0,
       ShortAddress := 0, PanID := 0, ExtAddressH := 0, ExtAddressL := 0\<rparr>) s;
     let s = s\<lparr>MovInstruction := False\<rparr>;
     (_, s) \<leftarrow> init_fifos hw 128 0 s;
     (sa, s) \<leftarrow> read_be hw 0x6175 0x6174 s;
     let s = upd_rf (\<lambda>f. f\<lparr>ShortAddress := sa\<rparr>) s;
     (p, s) \<leftarrow> read_be hw 0x6173 0x6172 s;
     let s = upd_rf (\<lambda>f. f\<lparr>PanID := p\<rparr>) s;
     (a, s) \<leftarrow> read_be hw 0x6171 0x6170 s;
     (b, s) \<leftarrow> read_be hw 0x616F 0x616E s;
     let s = upd_rf (\<lambda>f. f\<lparr>ExtAddressH := to_int32 (a * 2 ^ 16 + b)\<rparr>) s;
     (a, s) \<leftarrow> read_be hw 0x616D 0x616C s;
     (b, s) \<leftarrow> read_be hw 0x616B 0x616A s;
     let s = upd_rf (\<lambda>f. f\<lparr>ExtAddressL := to_int32 (a * 2 ^ 16 + b)\<rparr>) s;
     Some ((), upd_rf (\<lambda>f. f\<lparr>ExtAddr := (\<lambda>_ _. to_int32 0xCCCCCCCC), shortAddr := (\<lambda>_. 0xCCCC),
       PanId := (\<lambda>_. 0xCCCC), RXFIFO := test_frame\<rparr>) s)
   }"

definition radio_reset_values :: "(t_addr \<times> int) list" where
  "radio_reset_values = [(0x6180, 0x0D), (0x6181, 0x78), (0x6182, 0x03), (0x6183, 0), (0x6184, 0),
     (0x6185, 0), (0x6186, 0), (0x6187, 0), (0x6188, 0), (0x6189, 0x40), (0x618A, 0x1), (0x618B, 0),
     (0x618C, 0), (0x618D, 0), (0x618E, 0x0F), (0x618F, 0x0B), (0x6190, 0xF5), (0x6191, 0x69),
     (0x6192, 0), (0x6193, 0), (0x6194, 0x40), (0x6195, 0x1), (0x6196, 0xE0), (0x6197, 0x1A),
     (0x6198, -1), (0x6199, 1), (0x619A, 0), (0x619B, 0), (0x619C, 0), (0x619D, 0), (0x619E, 0),
     (0x619F, 0), (0x61A1, 0), (0x61A2, 0), (0x61A3, 0), (0x61A4, 0), (0x61A5, 0), (0x61A6, 0),
     (0x61A7, 0), (0x61A8, 0x85), (0x61A9, 0x14), (0x61AA, 0), (0x61AB, 0x3F), (0x61AC, 0x5A),
     (0x61AE, 0x2B), (0x61AF, 0x20), (0x61B0, 0x2A), (0x61B1, 0x5F), (0x61B2, 0x11), (0x61B3, 0),
     (0x61B4, 0x2E), (0x61B5, 0x10), (0x61B6, 0x0E), (0x61B7, 0x3), (0x61B8, 0x75), (0x61B9, 0x8),
     (0x61BA, 0), (0x61BB, 0), (0x61BC, 0x28), (0x61BD, 0), (0x61BE, 0), (0x61BF, 0), (0x6160, 0),
     (0x6161, 0), (0x6162, 0)]"

definition radio_reset :: "'z rf_hw \<Rightarrow> (unit, 'z) ract" where
  "radio_reset hw s = do {
     (_, s) \<leftarrow> radio_init hw s;
     let s = fold (\<lambda>(a, v). set_reg a v) radio_reset_values s;
     Some ((), upd_rf (\<lambda>f. f\<lparr>autopendEnable := False\<rparr>) s)
   }"

definition radio_rf_added :: "'z rf2530_scheme \<Rightarrow> 'z rf2530_scheme option" where
  "radio_rf_added s = do {
     s \<leftarrow> add_it_src (mk_it_src r_IEN0 0x01 r_TCON 0x02 0x0003 True ''radio error interrupt'' 4) s;
     add_it_src (mk_it_src r_IEN2 0x01 0x9B bmRFIF 0x0083 True ''radio interrupt'' 4) s
   }"

end
