(* ===== verification/RfFrame2530.thy ===== *)
theory RfFrame2530
  imports Radio2530
begin

text \<open>
  Reception: decoding of the frame in \<open>RXFIFO\<close>, source address matching, frame filtering and the
  byte-by-byte \<open>doRX\<close> (\<open>CC2530Radio.cc\<close>).
\<close>

definition start_timer :: "int \<Rightarrow> (unit, 'z) ract" where
  "start_timer time s =
     (if 0 < time \<and> 1 sdiv freq (rf s) = 0 then Some ((), upd_rf (\<lambda>f. f\<lparr>Timer := \<infinity>\<rparr>) s) else None)"

definition get_frequency :: "int \<Rightarrow> 'z rf2530_scheme \<Rightarrow> int \<times> 'z rf2530_scheme" where
  "get_frequency channelNumber s =
     (2405 + 5 * (channelNumber - 11), upd_rf (\<lambda>f. f\<lparr>r_k := channelNumber\<rparr>) s)"

definition get_c_frequency :: "'z rf2530_scheme \<Rightarrow> int" where
  "get_c_frequency s = 2394 + (cell_get cell_freqctrl s AND 0x7F)"

subsection \<open>Filtering\<close>

definition modified_type :: "int \<Rightarrow> int \<Rightarrow> int" where
  "modified_type frmfilt1 fcf =
     (let m = frmfilt1 AND 0x6 in
      if m = 0 then fcf AND 7 else if m = 1 then (fcf AND 7) XOR 4
      else if m = 2 then fcf AND 3 else if m = 3 then (fcf AND 3) OR 4 else fcf AND 7)"

definition mode_length :: "int \<Rightarrow> int" where
  "mode_length m = (if m = 2 then 2 else if m = 3 then 8 else 0)"

definition MinimumLength :: "frame \<Rightarrow> int" where
  "MinimumLength f =
     (let n = 5 + mode_length (SrcAddressMode f) + mode_length (DestAddressMode f);
          CheckSrcPan = SrcAddressMode f \<in> {2, 3};
          CheckDestPan = DestAddressMode f \<in> {2, 3};
          n = (if CheckDestPan \<noteq> CheckSrcPan then n + 2 else n)
      in if CheckDestPan \<and> CheckSrcPan then (if PanCompression f then n + 2 else n + 4) else n)"

definition bad_addressed_type :: "radio \<Rightarrow> int \<Rightarrow> frame \<Rightarrow> bool" where
  "bad_addressed_type r frmfilt0 f \<longleftrightarrow>
     FrameLength f < 9 \<or> SrcAddressMode f = 0 \<and> DestAddressMode f = 0
     \<or> DestAddressMode f = 0 \<and> (frmfilt0 AND 0x2 = 0 \<or> SourcePanID f \<noteq> PanID r)"

definition filter_checks :: "radio \<Rightarrow> int \<Rightarrow> int \<Rightarrow> frame \<Rightarrow> bool" where
  "filter_checks r frmfilt0 frmfilt1 f =
     (if FrameLength f < MinimumLength f then False
      else if ((FCF f div 2 ^ 7) AND 7) AND ((frmfilt0 div 2 ^ 4) AND 7) \<noteq> 0 then False
      else if SrcAddressMode f = 1 \<or> DestAddressMode f = 1 then False
      else if DestAddressMode f \<noteq> 0 \<and> DestinationPanID f \<noteq> PanID r \<and> DestinationPanID f \<noteq> 0xFFFF
        then False
      else if DestAddressMode f = 2 \<and> DestinationAddress f \<noteq> ShortAddress r
        \<and> DestinationAddress f \<noteq> 0xFFFF then False
      else if DestAddressMode f = 3 \<and> ExtDestAddressH f \<noteq> ExtAddressH r
        \<and> ExtDestAddressL f \<noteq> ExtAddressL r then False
      else if FrameType f = 0 \<and> (frmfilt1 AND 0x8 = 0 \<or> FrameLength f < 9 \<or> DestAddressMode f \<noteq> 0
        \<or> SrcAddressMode f = 0 \<or> SourcePanID f \<noteq> PanID r \<and> SourcePanID f \<noteq> 0xFFFF) then False
      else if FrameType f = 1 \<and> (frmfilt1 AND 0x10 = 0 \<or> bad_addressed_type r frmfilt0 f) then False
      else if FrameType f = 2 \<and> (frmfilt1 AND 0x20 = 0 \<or> FrameLength f \<noteq> 5) then False
      else if FrameType f = 3 \<and> (frmfilt1 AND 0x40 = 0 \<or> bad_addressed_type r frmfilt0 f) then False
      else if FrameType f \<in> {4, 5, 6, 7} \<and> (frmfilt1 AND 0x80 = 0 \<or> FrameLength f < 9) then False
      else True)"

definition filter_frame :: "'z rf2530_scheme \<Rightarrow> bool \<times> 'z rf2530_scheme" where
  "filter_frame s =
     (let frmfilt0 = cell_get cell_frmfilt0 s; frmfilt1 = cell_get cell_frmfilt1 s;
          f = (RXframe (rf s))\<lparr>FrameLength := FrameLength (RXframe (rf s)) AND 0x7F,
                FrameType := modified_type frmfilt1 (FCF (RXframe (rf s)))\<rparr>
      in (filter_checks (rf s) frmfilt0 frmfilt1 f, upd_rf (\<lambda>r. r\<lparr>RXframe := f\<rparr>) s))"

subsection \<open>Decoding\<close>

text \<open>
  An extended address is summed up from four bytes shifted by 32, 24, 16 and 8 bits; the first of
  these shifts is not defined for an \<open>int\<close>.
\<close>

definition shl_int :: "int \<Rightarrow> int \<Rightarrow> int option" where
  "shl_int v n = (if 0 \<le> n \<and> n < 32 then Some (to_int32 (v * 2 ^ nat n)) else None)"

fun ext_address :: "(int \<Rightarrow> uchar) \<Rightarrow> int \<Rightarrow> int list \<Rightarrow> int \<times> int \<Rightarrow> (int \<times> int) option" where
  "ext_address fifo p [] (h, l) = Some (h, l)"
| "ext_address fifo p (i # is) (h, l) = do {
     x \<leftarrow> shl_int (fifo (p + i)) ((4 - i) * 8);
     y \<leftarrow> shl_int (fifo (p + 4 + i)) ((4 - i) * 8);
     ext_address fifo p is (to_int32 (h + x), to_int32 (l + y))
   }"

definition set_source :: "(int \<Rightarrow> uchar) \<Rightarrow> frame \<Rightarrow> frame option" where
  "set_source fifo f =
     (let p = (if DestAddressMode f = 2 then 10 else 16) in
      if DestAddressMode f \<notin> {2, 3} then Some f
      else if SrcAddressMode f = 2 then
        Some (f\<lparr>SourceAddress := fifo p * 256 + fifo (p + 1),
                SourcePanID := fifo (p - 2) * 256 + fifo (p - 1)\<rparr>)
      else if SrcAddressMode f = 3 then do {
        (h, l) \<leftarrow> ext_address fifo p [0, 1, 2, 3] (ExtSrcAddressH f, ExtSrcAddressL f);
        Some (f\<lparr>ExtSrcAddressH := h, ExtSrcAddressL := l\<rparr>)
      }
      else Some f)"

definition set_destination :: "(int \<Rightarrow> uchar) \<Rightarrow> frame \<Rightarrow> frame option" where
  "set_destination fifo f =
     (if DestAddressMode f = 2 then
        Some (f\<lparr>DestinationPanID := fifo 4 * 256 + fifo 5,
                DestinationAddress := fifo 6 * 256 + fifo 7\<rparr>)
      else if DestAddressMode f = 3 then do {
        (h, l) \<leftarrow> ext_address fifo 4 [0, 1, 2, 3] (ExtDestAddressH f, ExtDestAddressL f);
        Some (f\<lparr>ExtDestAddressH := h, ExtDestAddressL := l\<rparr>)
      }
      else Some f)"

definition header_fields :: "(int \<Rightarrow> uchar) \<Rightarrow> frame \<Rightarrow> frame" where
  "header_fields fifo f =
     (let fcf = (fifo 1 AND 0xFF) * 2 ^ 8 + (fifo 2 AND 0xFF) in
      f\<lparr>FrameLength := to_schar (fifo 0), FCF := fcf, FrameType := fcf AND 7,
        securityEnabled := (fcf AND 8 \<noteq> 0), FramePending := (fcf AND 10 \<noteq> 0),
        AckReq := (fcf AND 0x20 \<noteq> 0), PanCompression := (fcf AND 0x40 \<noteq> 0),
        DestAddressMode := (fcf div 2 ^ 10) AND 3, SrcAddressMode := (fcf div 2 ^ 14) AND 3,
        SourceAddress := 0, ExtSrcAddressH := 0, ExtSrcAddressL := 0\<rparr>)"

text \<open>The two scans of the source address tables; the result tells whether an enabled entry matched.\<close>

definition match_entry :: "'z rf_hw \<Rightarrow> t_addr \<Rightarrow> t_addr \<Rightarrow> int \<Rightarrow> int \<Rightarrow> int \<Rightarrow> int \<Rightarrow> bool
    \<Rightarrow> (bool, 'z) ract" where
  "match_entry hw en pend reg enbits pendbit res m s = do {
     (e, s) \<leftarrow> as_get hw Xram (en + reg) s;
     if e AND enbits \<noteq> 0 then do {
       (p, s) \<leftarrow> as_get hw Xram (pend + reg) s;
       let s = upd_rf (\<lambda>f. f\<lparr>autopendEnable := (p AND pendbit \<noteq> 0)\<rparr>) s;
       (_, s) \<leftarrow> as_write hw Xram (0x6160 + reg) enbits s;
       Some (True, set_reg 0x6163 res s)
     } else Some (m, s)
   }"

fun match_ext :: "'z rf_hw \<Rightarrow> int list \<Rightarrow> bool \<Rightarrow> (bool, 'z) ract" where
  "match_ext hw [] m s = Some (m, s)"
| "match_ext hw (i # is) m s = do {
     let f = RXframe (rf s);
     (m, s) \<leftarrow> (if ExtSrcAddressH f = ExtAddr (rf s) i 1 \<and> ExtSrcAddressL f = ExtAddr (rf s) i 0
       then match_entry hw 0x6186 0x6164 (i div 4) (3 * 2 ^ nat (2 * (i mod 4)))
              (2 ^ nat (2 * (i mod 4))) (0x20 OR (2 * i)) m s
       else Some (m, s));
     match_ext hw is m s
   }"

fun match_short :: "'z rf_hw \<Rightarrow> int list \<Rightarrow> bool \<Rightarrow> (bool, 'z) ract" where
  "match_short hw [] m s = Some (m, s)"
| "match_short hw (i # is) m s = do {
     let f = RXframe (rf s);
     (m, s) \<leftarrow> (if SourceAddress f = shortAddr (rf s) i \<and> SourcePanID f = PanId (rf s) i
       then match_entry hw 0x6183 0x6167 (i div 8) (2 ^ nat (i mod 8)) (2 ^ nat (i mod 8)) i m s
       else Some (m, s));
     match_short hw is m s
   }"

definition match_source :: "'z rf_hw \<Rightarrow> (unit, 'z) ract" where
  "match_source hw s = do {
     (m, s) \<leftarrow> match_ext hw [0..11] False s;
     (m, s) \<leftarrow> match_short hw [0..23] m s;
     let s = (if autopendEnable (rf s) \<and> cell_get cell_srcmatch s AND bmAUTOPEND \<noteq> 0
              then set_reg 0x6163 (cell_get cell_srcresindex s OR 0x40) s else s);
     Some ((), if m then rf_request cell_rfirqm0 0x10 cell_rfirqf0 0x10 s else set_reg 0x6163 0x3F s)
   }"

definition Decode_frame :: "'z rf_hw \<Rightarrow> (unit, 'z) ract" where
  "Decode_frame hw s = do {
     let s = upd_rf (\<lambda>r. r\<lparr>RXframe := header_fields (RXFIFO r) (RXframe r)\<rparr>) s;
     (_, s) \<leftarrow> (if SrcAddressMode (RXframe (rf s)) \<noteq> 0 then do {
         f \<leftarrow> set_source (RXFIFO (rf s)) (RXframe (rf s));
         match_source hw (upd_rf (\<lambda>r. r\<lparr>RXframe := f\<rparr>) s)
       } else Some ((), s));
     f \<leftarrow> set_destination (RXFIFO (rf s)) (RXframe (rf s));
     let s = upd_rf (\<lambda>r. r\<lparr>RXframe := f\<rparr>) s;
     let s = rf_request cell_rfirqm0 0x08 cell_rfirqf0 0x08 s;
     Some ((), snd (filter_frame s))
   }"

definition Dest_match_address :: "radio \<Rightarrow> bool" where
  "Dest_match_address r =
     (let f = RXframe r in
      if DestAddressMode f \<noteq> 0 then
        (if DestAddressMode f = 1 then True
         else if DestAddressMode f = 2 then
           DestinationAddress f = ShortAddress r \<and> DestinationPanID f = PanID r
         else if DestAddressMode f = 3 then
           ExtDestAddressH f = ExtAddressH r \<and> ExtDestAddressL f = ExtAddressL r
         else False)
      else True)"

subsection \<open>Reception of a byte\<close>

definition put_rx :: "int \<Rightarrow> int \<Rightarrow> 'z rf2530_scheme \<Rightarrow> 'z rf2530_scheme option" where
  "put_rx i v s = (if 0 \<le> i \<and> i < 128
     then Some (upd_rf (\<lambda>f. f\<lparr>RXFIFO := (RXFIFO f)(i := to_uchar v)\<rparr>) s) else None)"

definition accept_frame :: "'z rf2530_scheme \<Rightarrow> 'z rf2530_scheme" where
  "accept_frame s =
     (if \<not> Dest_match_address (rf s) then upd_rf (\<lambda>f. f\<lparr>frame_not_for_me := True\<rparr>) s
      else if 127 < RX_PC (rf s) then upd_rf (\<lambda>f. f\<lparr>overflow := True\<rparr>) s
      else if cell_get cell_frmfilt0 s AND FRM_FILTER_EN \<noteq> 0 then
        (let (ok, s) = filter_frame s;
             s = (if ok then rf_request cell_rfirqm0 0x20 cell_rfirqf0 0x20 s else s);
             s = (if RX_PC (rf s) = cell_get cell_fifopctrl s
                  then cell_set_bit1 cell_fsmstat1 bmFIFOP s else s)
         in if ok then s else cell_set_bit0 cell_fsmstat1 (SFDbm OR bmFIFO OR bmFIFOP) s)
      else s)"

definition append_status :: "'z rf2530_scheme \<Rightarrow> 'z rf2530_scheme option" where
  "append_status s =
     (if cell_get cell_frmctrl0 s AND 0x40 \<noteq> 0 then do {
        s \<leftarrow> put_rx (RX_PC (rf s) - 1)
          (0x80 OR (if cell_get cell_frmctrl0 s AND 0x80 = 0 then 100 else cell_get cell_srcresindex s)) s;
        put_rx (RX_PC (rf s) - 2) (-1) s
      } else Some s)"

definition end_of_frame :: "'z rf_hw \<Rightarrow> (unit, 'z) ract" where
  "end_of_frame hw s = do {
     let s = cell_set_bit0 cell_fsmstat1 SFDbm (cell_set_bit1 cell_fsmstat1 bmFIFOP s);
     let s = rf_request cell_rfirqm0 0x40 cell_rfirqf0 0x40 s;
     (_, s) \<leftarrow> Decode_frame hw s;
     let s = upd_rf (\<lambda>f. f\<lparr>frame_completed := True\<rparr>) (accept_frame s);
     let s = (if AckReq (RXframe (rf s))
              then (let sl = (cell_get cell_fsmctrl s AND 2 \<noteq> 0)
                    in upd_rf (\<lambda>f. f\<lparr>slotted_ack := sl, unslotted_ack := \<not> sl\<rparr>) s)
              else s);
     s \<leftarrow> append_status s;
     Some ((), upd_rf (\<lambda>f. f\<lparr>RX_PC := 0\<rparr>) s)
   }"

definition doRX :: "'z rf_hw \<Rightarrow> (unit, 'z) ract" where
  "doRX hw s = do {
     s \<leftarrow> put_rx (RX_PC (rf s)) (radio_in (rf s)) s;
     let s = set_reg 0x619B (RX_PC (rf s)) s;
     (_, s) \<leftarrow> (if RX_PC (rf s) = 0 then do {
         let n = radio_in (rf s) AND 0x7F;
         let s = cell_set_bit1 cell_fsmstat1 bmFIFO (set_reg 0x619A n s);
         (_, s) \<leftarrow> inform hw radio_partners EV_RADIO s;
         Some ((), upd_rf (\<lambda>f. f\<lparr>r_length := n\<rparr>) s)
       } else Some ((), s));
     let s = (if RX_PC (rf s) = cell_get cell_fifopctrl s \<and> cell_get cell_frmfilt0 s AND FRM_FILTER_EN = 0
              then cell_set_bit1 cell_fsmstat1 bmFIFOP s else s);
     if RX_PC (rf s) = r_length (rf s) then end_of_frame hw s
     else Some ((), upd_rf (\<lambda>f. f\<lparr>RX_PC := RX_PC f + 1\<rparr>) s)
   }"

end
