(* ===== verification/RfFsm2530.thy ===== *)
theory RfFsm2530
  imports RfFrame2530
begin

text \<open>
  Transmission, acknowledgements, the state machine of the radio and its handlers
  (\<open>CC2530Radio.cc\<close>). A tick of the radio also runs the command strobe processor: the function
  that does is the argument \<open>csp_tick\<close>.
\<close>

subsection \<open>Transmission\<close>

definition doTX :: "(unit, 'z) ract" where
  "doTX s =
     (if cell_get cell_fsmstat1 s AND SFDbm = 0 then
        Some ((), upd_rf (\<lambda>f. f\<lparr>TX_PC := 0\<rparr>) (cell_set_bit1 cell_fsmstat1 SFDbm
          (upd_rf (\<lambda>f. f\<lparr>radio_out := SFD\<rparr>) s)))
      else if TX_PC (rf s) < 0 \<or> 128 \<le> TX_PC (rf s) then None
      else
        (let s = upd_rf (\<lambda>f. f\<lparr>radio_out := TXFIFO f (TX_PC f)\<rparr>) s;
             s = (if TX_PC (rf s) = FrameLength (TXframe (rf s)) then
                    cell_set_bit0 cell_fsmstat1 SFDbm
                      (if RxEnableWhenTxComplete (rf s) then upd_rf (\<lambda>f. f\<lparr>rxEnable := 1\<rparr>) s else s)
                  else s);
             n = TX_PC (rf s) + 1
         in Some ((), upd_rf (\<lambda>f. f\<lparr>TX_PC := n + 1\<rparr>)
              (set_reg 0x619C (FrameLength (TXframe (rf s)) - n) s))))"

definition set_ack :: "'z rf2530_scheme \<Rightarrow> 'z rf2530_scheme" where
  "set_ack s =
     (let pending = pendingBit (CSP s) \<or> cell_get cell_frmctrl1 s AND 4 \<noteq> 0
            \<or> cell_get cell_srcmatch s AND bmAUTOPEND \<noteq> 0 \<and> autopendEnable (rf s);
          AckFCF = (if pending then 2 OR 0x10 else (2 :: int))
      in upd_rf (\<lambda>f. f\<lparr>TXFIFO := (TXFIFO f)(0 := 6, 1 := AckFCF AND 0xFF,
           2 := (AckFCF AND 0xFF00) div 2 ^ 8, 3 := to_uchar (DataSequenceNumber (RXframe f)),
           4 := 0, 5 := 0)\<rparr>) s)"

definition send_ack :: "(unit, 'z) ract" where
  "send_ack s = do {
     (_, s) \<leftarrow> doTX (upd_rf (\<lambda>f. f\<lparr>ACKsent := False\<rparr>) s);
     Some ((), if cell_get cell_fsmstat1 s AND SFDbm = 0 then upd_rf (\<lambda>f. f\<lparr>ACKsent := True\<rparr>) s else s)
   }"

subsection \<open>The state machine\<close>

definition goto :: "fsm_state \<Rightarrow> int \<Rightarrow> 'z rf2530_scheme \<Rightarrow> 'z rf2530_scheme" where
  "goto st n = upd_rf (\<lambda>f. f\<lparr>fsm_st := st, stateNum := n\<rparr>)"

definition active :: "bool \<Rightarrow> bool \<Rightarrow> 'z rf2530_scheme \<Rightarrow> 'z rf2530_scheme" where
  "active tx rx = upd_rf (\<lambda>f. f\<lparr>TX_ACTIVE := tx, RX_ACTIVE := rx\<rparr>)"

definition idle_request :: "'z rf2530_scheme \<Rightarrow> 'z rf2530_scheme" where
  "idle_request s = rf_request cell_rfirqm1 bmRFIDLE cell_rfirqf1 bmRFIDLE s"

definition on_timeout :: "fsm_state \<Rightarrow> int \<Rightarrow> 'z rf2530_scheme \<Rightarrow> 'z rf2530_scheme" where
  "on_timeout st n s =
     (if Timeout (rf s) then upd_rf (\<lambda>f. f\<lparr>Timeout := False\<rparr>) (goto st n s) else s)"

definition when_do :: "bool \<Rightarrow> (unit, 'z) ract \<Rightarrow> (unit, 'z) ract" where
  "when_do b f s = (if b then f s else Some ((), s))"

text \<open>The strobes, before the switch on the state.\<close>

definition fsm_strobes :: "(unit, 'z) ract" where
  "fsm_strobes s = do {
     (_, s) \<leftarrow> when_do (STXON (CSP s)) (\<lambda>s. start_timer 192 (goto TX_CALIBRATION 32 s)) s;
     let s = (if SRFOFF (CSP s) \<and> \<not> TX_ACTIVE (rf s) then idle_request (goto IDLE 0 s) else s);
     (_, s) \<leftarrow> when_do (RX_ACTIVE (rf s)) (\<lambda>s. do {
         (_, s) \<leftarrow> when_do (STXONCCA (CSP s) \<and> csp_CCA (CSP s) = 1)
           (\<lambda>s. start_timer 192 (goto TX_CALIBRATION 32 s)) s;
         when_do (SRXON (CSP s) \<or> SFLUSHRX (CSP s))
           (\<lambda>s. start_timer 192 (goto RX_CALIBRATION 2 s)) s }) s;
     when_do (TX_ACTIVE (rf s) \<and> (SRFOFF (CSP s) \<or> SRXON (CSP s)))
       (\<lambda>s. start_timer 192 (goto TX_SHUTDOWN 26 s)) s
   }"

fun clear_rx :: "'z rf_hw \<Rightarrow> nat \<Rightarrow> int \<Rightarrow> (unit, 'z) ract" where
  "clear_rx hw 0 i s = Some ((), s)"
| "clear_rx hw (Suc n) i s = do {
     (_, s) \<leftarrow> as_write hw Xram (0x6000 + i) 0 (upd_rf (\<lambda>f. f\<lparr>RXFIFO := (RXFIFO f)(i := 0)\<rparr>) s);
     clear_rx hw n (i + 1) s
   }"

definition fsm_rx :: "'z rf_hw \<Rightarrow> (unit, 'z) ract" where
  "fsm_rx hw s = do {
     let s = active False True (upd_rf (\<lambda>f. f\<lparr>slotted_ack := False, unslotted_ack := False\<rparr>) s);
     (_, s) \<leftarrow> doRX hw s;
     let s = (if overflow (rf s) then goto RX_OVERFLOW 17 s else s);
     (_, s) \<leftarrow> when_do (slotted_ack (rf s)) (\<lambda>s. do {
         let (r, s) = next_rand (upd_rf (\<lambda>f. f\<lparr>fsm_st := ACK_DELAY\<rparr>) s);
         (_, s) \<leftarrow> start_timer ((r smod 31 + 12) * 16) s;
         Some ((), upd_rf (\<lambda>f. f\<lparr>stateNum := 55\<rparr>) s) }) s;
     (_, s) \<leftarrow> when_do (unslotted_ack (rf s)) (\<lambda>s. start_timer 192 (goto ACK_CALIBRATION 48 s)) s;
     let s = (if frame_not_for_me (rf s) then goto RXFIFO_RESET 16 s else s);
     when_do (frame_completed (rf s)) (\<lambda>s. do {
         let s = upd_rf (\<lambda>f. f\<lparr>fsm_st := RX_RXWAIT\<rparr>) s;
         (_, s) \<leftarrow> (if cell_get cell_fsmctrl s AND 1 = 0
           then Some ((), upd_rf (\<lambda>f. f\<lparr>Timeout := True\<rparr>) s) else start_timer 192 s);
         Some ((), cell_set_bit0 cell_fsmstat1 SFDbm (upd_rf (\<lambda>f. f\<lparr>stateNum := 14\<rparr>) s)) }) s
   }"

definition fsm_tx :: "(unit, 'z) ract" where
  "fsm_tx s = do {
     (_, s) \<leftarrow> doTX (active True False s);
     (_, s) \<leftarrow> when_do (underflow (rf s)) (\<lambda>s. do {
         (_, s) \<leftarrow> start_timer 2 (goto TX_UNDERFLOW 56 s);
         Some ((), upd_rf (\<lambda>f. f\<lparr>underflow := False\<rparr>) s) }) s;
     Some ((), if frame_sent (rf s)
       then upd_rf (\<lambda>f. f\<lparr>frame_sent := False\<rparr>) (goto TX_FINAL 39
              (rf_request cell_rfirqm1 bmTXDONE cell_rfirqf1 bmTXDONE s))
       else s)
   }"

definition fsm_ack :: "(unit, 'z) ract" where
  "fsm_ack s = do {
     let s = active True False s;
     (_, s) \<leftarrow> (if cancelACK (rf s) then Some ((), goto TX_SHUTDOWN 26 s) else send_ack s);
     when_do (ACKsent (rf s)) (\<lambda>s. do {
         let s = upd_csp (\<lambda>c. c\<lparr>radioAnswer := True\<rparr>) s;
         let s = rf_request cell_rfirqm1 bmTXACKDONE cell_rfirqf1 bmTXACKDONE s;
         let s = (if rxEnable (rf s) = 0
                  then upd_rf (\<lambda>f. f\<lparr>ACKsent := False\<rparr>) (goto TX_SHUTDOWN 26 s) else s);
         when_do (rxenmask (rf s) \<noteq> 0) (\<lambda>s. do {
             (_, s) \<leftarrow> start_timer 190 (goto TX_RX_TRANSIT 40 s);
             Some ((), upd_rf (\<lambda>f. f\<lparr>ACKsent := False\<rparr>) s) }) s }) s
   }"

definition fsm_switch :: "'z rf_hw \<Rightarrow> (unit, 'z) ract" where
  "fsm_switch hw s =
     (case fsm_st (rf s) of
        IDLE \<Rightarrow> when_do (rxEnable (rf s) \<noteq> 0)
          (\<lambda>s. start_timer 1 (goto RX_CALIBRATION 2 s)) (active False False s)
      | RX_CALIBRATION \<Rightarrow> Some ((), on_timeout SFD_WAIT 3 (active False True s))
      | SFD_WAIT \<Rightarrow>
          (let s = active False True s;
               s = (if rxEnable (rf s) = 0 then idle_request (goto IDLE 0 s) else s)
           in Some ((), if radio_in (rf s) = SFD
                then goto RX 7 (rf_request cell_rfirqm0 0x02 cell_rfirqf0 0x02
                       (cell_set_bit1 cell_fsmstat1 SFDbm s))
                else s))
      | RX \<Rightarrow> fsm_rx hw s
      | RX_RXWAIT \<Rightarrow> Some ((), on_timeout SFD_WAIT 3 (active False True s))
      | RXFIFO_RESET \<Rightarrow> do {
          (_, s) \<leftarrow> clear_rx hw 128 0 (active False True s);
          Some ((), goto SFD_WAIT 3 s)
        }
      | RX_OVERFLOW \<Rightarrow> (let s = active False False s in
          Some ((), if SFLUSHRX (CSP s) then goto RX_CALIBRATION 2 s else s))
      | TX_CALIBRATION \<Rightarrow> Some ((), on_timeout TX 34 (active True False s))
      | TX \<Rightarrow> fsm_tx s
      | TX_FINAL \<Rightarrow> (let s = active True False s in
          if rxEnable (rf s) \<noteq> 0 then start_timer 190 (goto TX_RX_TRANSIT 40 s)
          else Some ((), goto TX_SHUTDOWN 26 s))
      | TX_RX_TRANSIT \<Rightarrow> Some ((), on_timeout SFD_WAIT 3 (active True False s))
      | ACK_CALIBRATION \<Rightarrow> Some ((), on_timeout ACK 49 (active True False s))
      | ACK \<Rightarrow> fsm_ack s
      | ACK_DELAY \<Rightarrow> when_do (Timeout (rf s))
          (\<lambda>s. start_timer 192 (goto ACK_CALIBRATION 48 s)) (active True False s)
      | TX_UNDERFLOW \<Rightarrow> Some ((), on_timeout TX_FINAL 39 (active True False s))
      | TX_SHUTDOWN \<Rightarrow> Some ((), idle_request (goto IDLE 0 (active True False s))))"

definition fsm_status :: "'z rf2530_scheme \<Rightarrow> 'z rf2530_scheme" where
  "fsm_status s =
     (if TX_ACTIVE (rf s) then
        cell_set_bit0 cell_fsmstat1 bmRX_ACTIVE (cell_set_bit1 cell_fsmstat1 bmTX_ACTIVE s)
      else if RX_ACTIVE (rf s) then
        cell_set_bit0 cell_fsmstat1 bmTX_ACTIVE (cell_set_bit1 cell_fsmstat1 bmRX_ACTIVE s)
      else cell_set_bit0 cell_fsmstat1 bmTX_ACTIVE (cell_set_bit0 cell_fsmstat1 bmRX_ACTIVE s))"

definition fsm :: "'z rf_hw \<Rightarrow> (unit, 'z) ract" where
  "fsm hw s = do {
     (_, s) \<leftarrow> fsm_strobes s;
     (_, s) \<leftarrow> fsm_switch hw s;
     Some ((), fsm_status s)
   }"

definition radio_tick :: "'z rf_hw \<Rightarrow> (unit, 'z) ract \<Rightarrow> int \<Rightarrow> (unit, 'z) ract" where
  "radio_tick hw csp_tick cycles s = do {
     let s = upd_rf (\<lambda>f. if 0 < Timer f then f\<lparr>Timer := Timer f - 1\<rparr> else f) s;
     let s = upd_rf (\<lambda>f. if Timer f = 0 then f\<lparr>Timeout := True\<rparr> else f) s;
     (_, s) \<leftarrow> fsm hw s;
     (_, s) \<leftarrow> csp_tick s;
     Some ((), upd_rf (\<lambda>f. f\<lparr>Timeout := False, radio_in := (if stateNum f = 3 then SFD else 0)\<rparr>) s)
   }"

subsection \<open>Handlers\<close>

text \<open>The index of a cell of the data space, when it lies in the source address table.\<close>

definition IsWithinRange :: "cell \<Rightarrow> int" where
  "IsWithinRange c = (case c of Cell Xram diff \<Rightarrow> if 0x6100 \<le> diff \<and> diff \<le> 0x615F then diff else 0
     | _ \<Rightarrow> 0)"

definition table_write :: "int \<Rightarrow> t_mem \<Rightarrow> radio \<Rightarrow> radio" where
  "table_write cellNumber val r =
     (let i = cellNumber div 4; k = cellNumber - i * 4;
          r = (if k = 0 then r\<lparr>PanId := (PanId r)(i := (PanId r i AND 0xFF00) + (val AND 0xFF))\<rparr>
               else if k = 1 then
                 r\<lparr>PanId := (PanId r)(i := (PanId r i AND 0x00FF) + (val AND 0xFF) * 2 ^ 8)\<rparr>
               else if k = 2 then
                 r\<lparr>shortAddr := (shortAddr r)(i := (shortAddr r i AND 0xFF00) + (val AND 0xFF))\<rparr>
               else
                 r\<lparr>shortAddr := (shortAddr r)(i := (shortAddr r i AND 0x00FF) + (val AND 0xFF) * 2 ^ 8)\<rparr>);
          i = i div 2; j = cellNumber - i * 8; n = (if 4 \<le> j then 1 else 0);
          j = (if 4 \<le> j then j - 4 else j)
      in r\<lparr>ExtAddr := (ExtAddr r)(i := (ExtAddr r i)(n := to_int32
           ((ExtAddr r i n AND ((0xFF * 2 ^ nat (8 * j)) XOR 0xFFFFFFFF)) OR (val * 2 ^ nat (8 * j)))))\<rparr>)"

definition radio_rf_write :: "cell \<Rightarrow> t_mem \<Rightarrow> (t_mem, 'z) ract" where
  "radio_rf_write cell val s =
     (let s = (if Some cell = cell_clkconcmd_rf then
                 (let t = 2 ^ nat ((val AND 0x38) div 8)
                  in upd_rf (\<lambda>f. f\<lparr>r_tickspd := t, freq := 32000000 div t\<rparr>) s)
               else s);
          s = (if Some cell = cell_rfd then
                 upd_rf (\<lambda>f. f\<lparr>TXFIFO := (TXFIFO f)(TXFifoPosition f := to_uchar val),
                   TXFifoPosition := (if 128 \<le> TXFifoPosition f + 1 then 0 else TXFifoPosition f + 1)\<rparr>) s
               else s);
          a = IsWithinRange cell
      in Some (val, if a \<noteq> 0 then upd_rf (table_write (a - 0x6100) val) s else s))"

definition radio_rf_read :: "'z rf_hw \<Rightarrow> cell \<Rightarrow> (t_mem, 'z) ract" where
  "radio_rf_read hw cell s =
     (if Some cell = cell_rfd then
        (let p = ReadC (rf s); n = FrameLength (RXframe (rf s)) in
         if p < 0 \<or> 128 \<le> p then None
         else do {
           let temp = RXFIFO (rf s) p;
           let s = (if n - p = cell_get cell_fifopctrl s then cell_set_bit0 cell_fsmstat1 bmFIFOP s else s);
           (_, s) \<leftarrow> (if p < n then inform hw radio_partners EV_RADIO s
             else Some ((), cell_set_bit0 cell_fsmstat1 bmFIFO s));
           Some (temp, if MovInstruction s then upd_rf (\<lambda>f. f\<lparr>ReadC := ReadC f + 1\<rparr>) s else s)
         })
      else Some (cell_get cell s, s))"

definition radio_rf_happen :: "hw_event \<Rightarrow> (unit, 'z) ract" where
  "radio_rf_happen ev s =
     (let s = (if ev = EV_RADIO_ACK then set_ack s else s)
      in Some ((), if ev = EV_NO_ACK then upd_rf (\<lambda>f. f\<lparr>cancelACK := True\<rparr>) s else s))"

end
