(* ===== verification/Csp2530.thy ===== *)
theory Csp2530
  imports RfFsm2530
begin

text \<open>
  The command strobe processor (class \<open>cl_CC2530_CSP\<close> of \<open>CC2530Radio.cc\<close>): its instructions, its
  step \<open>CSP_tick\<close>, and the register \<open>RFST\<close> through which it is programmed. The pointers to the
  registers \<open>FRMCTRL1\<close>, \<open>RXENABLE\<close>, \<open>T2MSEL\<close>, \<open>T2M0..2\<close> and the sampled CCA are declared and
  used, but never set: an instruction that follows one of them ends the run. So does no
  instruction that only sets a flag.
\<close>

abbreviation "cell_cspctrl \<equiv> Cell Xram 0x61E0"
abbreviation "cell_cspstat \<equiv> Cell Xram 0x61E1"
abbreviation "cell_cspx \<equiv> Cell Xram 0x61E2"
abbreviation "cell_cspy \<equiv> Cell Xram 0x61E3"
abbreviation "cell_cspz \<equiv> Cell Xram 0x61E4"
abbreviation "cell_rfst \<equiv> Cell Sfr 0x61"
abbreviation "bmCSPrunning \<equiv> (0x20 :: int)"
abbreviation "r_RFST \<equiv> (0xE1 :: int)"

definition make_csp_watched_cells :: "'z rf2530_scheme \<Rightarrow> 'z rf2530_scheme" where
  "make_csp_watched_cells s = snd (register_hw Sfr r_RFST Hw_CSP
     (fold (\<lambda>a s. snd (register_hw Xram a Hw_CSP s))
       [0xE9, 0x9B, 0x91, 0x61A4, 0x61E0, 0x61E1, 0x61E2, 0x61E3, 0x61E4, 0x61E5] s))"

text \<open>
  The partners of the processor are looked up once, when it is made: the DMA controller is there,
  the radio that is making it is not yet, and the processor is never told of later elements.
\<close>

definition csp_partners :: "hwid list" where "csp_partners = [Hw_DMA]"

fun fill_program :: "'z rf_hw \<Rightarrow> nat \<Rightarrow> int \<Rightarrow> (unit, 'z) ract" where
  "fill_program hw 0 i s = Some ((), s)"
| "fill_program hw (Suc n) i s = do {
     (_, s) \<leftarrow> as_write hw Xram (0x61C0 + i) 0xD0 s;
     fill_program hw n (i + 1) s
   }"

definition csp_reset :: "'z rf_hw \<Rightarrow> (unit, 'z) ract" where
  "csp_reset hw s = do {
     let s = upd_csp (\<lambda>c. c\<lparr>csp_PC := 0, csp_stop := False, waitingForAnswer := False,
       WaitingForOvfs := False, pendingBit := False, STXON := False, SRFOFF := False,
       SRXON := False, SFLUSHRX := False\<rparr>) (cell_set_bit0 cell_cspstat bmCSPrunning s);
     let s = fold (\<lambda>(a, v). set_reg a v)
       [(0x61E5, 0xFF), (0x61E0, 0), (0x61E1, 0), (0x61E2, 0), (0x61E3, 0), (0x61E4, 0)] s;
     fill_program hw 24 0 s
   }"

text \<open>The constructor of the radio, which makes the processor.\<close>

definition radio_new :: "'z rf_hw \<Rightarrow> (unit, 'z) ract" where
  "radio_new hw s = do {
     let s = make_radio_watched_cells s;
     (_, s) \<leftarrow> csp_reset hw (make_csp_watched_cells s);
     radio_reset hw s
   }"

subsection \<open>Interrupts and conditions\<close>

definition IRQ_CSP_STOP :: "'z rf2530_scheme \<Rightarrow> 'z rf2530_scheme" where
  "IRQ_CSP_STOP s = cell_set_bit0 cell_cspstat bmCSPrunning
     (rf_request cell_rfirqm1 0x10 cell_rfirqf1 0x10 (upd_csp (\<lambda>c. c\<lparr>csp_stop := True\<rparr>) s))"

definition IRQ_CSP_WT :: "'z rf2530_scheme \<Rightarrow> 'z rf2530_scheme" where
  "IRQ_CSP_WT s = rf_request cell_rfirqm1 0x20 cell_rfirqf1 0x20 s"

definition IRQ_CSP_INT :: "'z rf2530_scheme \<Rightarrow> 'z rf2530_scheme" where
  "IRQ_CSP_INT s = rf_request cell_rfirqm1 0x08 cell_rfirqf1 0x08 s"

text \<open>
  Condition 1 compares the macro \<open>SFD\<close> with 1; condition 3 returns a variable without a value.
\<close>

definition condition :: "int \<Rightarrow> 'z rf2530_scheme \<Rightarrow> bool \<times> 'z rf2530_scheme" where
  "condition c s =
     (if c = 0 then (csp_CCA (CSP s) = 1, s) else if c = 1 then (SFD = 1, s)
      else if c = 2 then (CPU_ctrl (CSP s), s)
      else if c = 3 then (stale s (stale_pos s) \<noteq> 0, s\<lparr>stale_pos := Suc (stale_pos s)\<rparr>)
      else if c = 4 then (cell_get cell_cspx s = 0, s) else if c = 5 then (cell_get cell_cspy s = 0, s)
      else if c = 6 then (cell_get cell_cspz s = 0, s) else (RSSI_valid (CSP s), s))"

subsection \<open>Instructions\<close>

definition pc_to :: "(int \<Rightarrow> int) \<Rightarrow> 'z rf2530_scheme \<Rightarrow> 'z rf2530_scheme" where
  "pc_to g = upd_csp (\<lambda>c. c\<lparr>csp_PC := g (csp_PC c)\<rparr>)"

abbreviation next_pc :: "'z rf2530_scheme \<Rightarrow> 'z rf2530_scheme" where
  "next_pc \<equiv> pc_to (\<lambda>p. p + 1)"

definition add_reg :: "t_addr \<Rightarrow> int \<Rightarrow> 'z rf2530_scheme \<Rightarrow> 'z rf2530_scheme" where
  "add_reg a d s = set_reg a (cell_get (Cell Xram a) s + d) s"

definition inst_dec_x :: "'z rf2530_scheme \<Rightarrow> 'z rf2530_scheme" where
  "inst_dec_x s = next_pc (add_reg 0x61E2 (-1) s)"

definition inst_dec_y :: "'z rf2530_scheme \<Rightarrow> 'z rf2530_scheme" where
  "inst_dec_y s = add_reg 0x61E3 (-1) s"

definition inst_dec_z :: "'z rf2530_scheme \<Rightarrow> 'z rf2530_scheme" where
  "inst_dec_z s = next_pc (add_reg 0x61E4 (-1) s)"

definition inst_inc_x :: "'z rf2530_scheme \<Rightarrow> 'z rf2530_scheme" where
  "inst_inc_x s = next_pc (add_reg 0x61E2 1 s)"

definition inst_inc_y :: "'z rf2530_scheme \<Rightarrow> 'z rf2530_scheme" where
  "inst_inc_y s = next_pc (add_reg 0x61E3 1 s)"

definition inst_inc_z :: "'z rf2530_scheme \<Rightarrow> 'z rf2530_scheme" where
  "inst_inc_z s = next_pc (add_reg 0x61E4 1 s)"

definition inst_inc_maxy :: "uchar \<Rightarrow> 'z rf2530_scheme \<Rightarrow> 'z rf2530_scheme" where
  "inst_inc_maxy code s = next_pc (set_reg 0x61E3 (min (cell_get cell_cspy s + 1) (code AND 7)) s)"

definition inst_rand_xy :: "'z rf2530_scheme \<Rightarrow> 'z rf2530_scheme" where
  "inst_rand_xy s =
     (let y = cell_get cell_cspy s; (r, s) = next_rand s
      in next_pc (set_reg 0x61E2 (r AND (if y \<le> 7 then 0xFF div 2 ^ nat (8 - y) else 0xFF)) s))"

definition inst_int :: "'z rf2530_scheme \<Rightarrow> 'z rf2530_scheme" where
  "inst_int s = next_pc (IRQ_CSP_INT s)"

definition inst_waitx :: "'z rf2530_scheme \<Rightarrow> 'z rf2530_scheme" where
  "inst_waitx s =
     (let s = upd_csp (\<lambda>c. c\<lparr>WaitingForOvfs := True\<rparr>) s in
      if cell_get cell_cspx s \<noteq> 0 then s
      else upd_csp (\<lambda>c. c\<lparr>WaitingForOvfs := False\<rparr>) (IRQ_CSP_WT (next_pc (IRQ_CSP_WT s))))"

definition inst_waitw :: "uchar \<Rightarrow> 'z rf2530_scheme \<Rightarrow> 'z rf2530_scheme" where
  "inst_waitw code s =
     (let w = code AND 0x1F;
          s = upd_csp (\<lambda>c. c\<lparr>WaitingForWOvfs := True\<rparr>) s;
          s = upd_csp (\<lambda>c. if waitWend c then c\<lparr>OVFcountdown := (w \<noteq> 0), waitWend := False\<rparr> else c) s
      in if OVFcountdown (CSP s) then s
         else upd_csp (\<lambda>c. c\<lparr>WaitingForWOvfs := False, waitWend := True\<rparr>) (next_pc (IRQ_CSP_WT s)))"

definition inst_wait_event1 :: "'z rf2530_scheme \<Rightarrow> 'z rf2530_scheme" where
  "inst_wait_event1 s =
     (let s = upd_csp (\<lambda>c. c\<lparr>WaitingForEvent1 := True\<rparr>) s in
      if \<not> event1 (CSP s) then s
      else upd_csp (\<lambda>c. c\<lparr>event1 := False, WaitingForEvent1 := False\<rparr>) (next_pc (IRQ_CSP_WT s)))"

definition inst_wait_event2 :: "'z rf2530_scheme \<Rightarrow> 'z rf2530_scheme" where
  "inst_wait_event2 s =
     (let s = upd_csp (\<lambda>c. c\<lparr>WaitingForEvent2 := True\<rparr>) s in
      if \<not> event2 (CSP s) then s
      else upd_csp (\<lambda>c. c\<lparr>event2 := False, WaitingForEvent2 := False\<rparr>) (next_pc (IRQ_CSP_WT s)))"

definition inst_label :: "'z rf2530_scheme \<Rightarrow> 'z rf2530_scheme" where
  "inst_label s = upd_csp (\<lambda>c. c\<lparr>csp_label := csp_PC c + 1\<rparr>) s"

definition inst_repeatC :: "uchar \<Rightarrow> 'z rf2530_scheme \<Rightarrow> 'z rf2530_scheme" where
  "inst_repeatC code s =
     (let (b, s) = condition (code AND 7) s;
          cond = (if code AND 8 \<noteq> 0 then \<not> b else b)
      in if cond then pc_to (\<lambda>_. csp_label (CSP s)) s else next_pc s)"

definition inst_skipCS :: "uchar \<Rightarrow> 'z rf2530_scheme \<Rightarrow> 'z rf2530_scheme" where
  "inst_skipCS code s =
     (let (b, s) = condition (code AND 7) s;
          cond = (if (code AND 0x08) div 8 = 1 then \<not> b else b)
      in if cond then pc_to (\<lambda>p. p + (code AND 0x70) div 16 + 1) s else next_pc s)"

definition inst_stxoncca :: "'z rf2530_scheme \<Rightarrow> 'z rf2530_scheme" where
  "inst_stxoncca s =
     next_pc (if csp_CCA (CSP s) = 1 then upd_csp (\<lambda>c. c\<lparr>STXON := True\<rparr>) s else s)"

definition inst_srxon :: "'z rf2530_scheme \<Rightarrow> 'z rf2530_scheme" where
  "inst_srxon s = next_pc (upd_csp (\<lambda>c. c\<lparr>SRXON := True\<rparr>) s)"

definition inst_istxon :: "'z rf2530_scheme \<Rightarrow> 'z rf2530_scheme" where
  "inst_istxon s = next_pc (upd_csp (\<lambda>c. c\<lparr>STXON := True\<rparr>) s)"

definition inst_srfoff :: "'z rf2530_scheme \<Rightarrow> 'z rf2530_scheme" where
  "inst_srfoff s = next_pc (upd_csp (\<lambda>c. c\<lparr>STXON := False, SRXON := False\<rparr>) s)"

definition inst_sflushrx :: "'z rf2530_scheme \<Rightarrow> 'z rf2530_scheme" where
  "inst_sflushrx s = next_pc (upd_csp (\<lambda>c. c\<lparr>SFLUSHRX := True\<rparr>) s)"

definition inst_sflushtx :: "'z rf2530_scheme \<Rightarrow> 'z rf2530_scheme" where
  "inst_sflushtx s = next_pc (upd_csp (\<lambda>c. c\<lparr>SFLUSHTX := True\<rparr>) s)"

definition inst_isstart :: "'z rf2530_scheme \<Rightarrow> 'z rf2530_scheme" where
  "inst_isstart s = upd_csp (\<lambda>c. c\<lparr>csp_PC := 0\<rparr>) (cell_set_bit1 cell_cspstat bmCSPrunning
     (upd_csp (\<lambda>c. c\<lparr>csp_stop := False\<rparr>) s))"

definition strobe_error :: "'z rf2530_scheme \<Rightarrow> 'z rf2530_scheme" where
  "strobe_error s = (if \<not> SRXON (CSP s) then rf_request cell_rfirqm1 0x40 cell_rfirqf1 0x40 s else s)"

definition answered :: "'z rf2530_scheme \<Rightarrow> 'z rf2530_scheme" where
  "answered s = (if radioAnswer (CSP s)
     then upd_csp (\<lambda>c. c\<lparr>radioAnswer := False, waitingForAnswer := False\<rparr>) (next_pc s) else s)"

text \<open>\<open>inst_sack\<close> with the pending bit clear, \<open>inst_sackpend\<close> with it set.\<close>

definition inst_sack :: "'z rf_hw \<Rightarrow> bool \<Rightarrow> (unit, 'z) ract" where
  "inst_sack hw pend s = do {
     let s = strobe_error s;
     (_, s) \<leftarrow> (if waitingForAnswer (CSP s) then Some ((), s)
       else do {
         (_, s) \<leftarrow> inform hw csp_partners EV_RADIO_ACK (upd_csp (\<lambda>c. c\<lparr>pendingBit := pend\<rparr>) s);
         Some ((), upd_csp (\<lambda>c. c\<lparr>waitingForAnswer := True\<rparr>) s)
       });
     Some ((), answered s)
   }"

definition inst_snack :: "'z rf_hw \<Rightarrow> (unit, 'z) ract" where
  "inst_snack hw s = do {
     (_, s) \<leftarrow> inform hw csp_partners EV_NO_ACK (strobe_error s);
     Some ((), next_pc s)
   }"

fun clear_program :: "'z rf_hw \<Rightarrow> nat \<Rightarrow> int \<Rightarrow> 'z rf2530_scheme \<Rightarrow> 'z rf2530_scheme option" where
  "clear_program hw 0 i s = Some s"
| "clear_program hw (Suc n) i s = do {
     s \<leftarrow> as_set hw Xram (0x6080 + i) 0xD0 s;
     clear_program hw n (i + 1) s
   }"

definition inst_isclear :: "'z rf_hw \<Rightarrow> (unit, 'z) ract" where
  "inst_isclear hw s = do {
     let s = cell_set_bit0 cell_cspstat bmCSPrunning (upd_csp (\<lambda>c. c\<lparr>csp_stop := True\<rparr>) s);
     s \<leftarrow> clear_program hw 24 0 s;
     Some ((), upd_csp (\<lambda>c. c\<lparr>csp_PC := 0, PCwrite := 0\<rparr>) s)
   }"

text \<open>
  The strobes of the groups \<open>0xD0\<close> and \<open>0xE0\<close>; \<open>None\<close> where the source follows a pointer that was
  never set.
\<close>

definition strobe_D :: "'z rf_hw \<Rightarrow> int \<Rightarrow> (unit, 'z) ract" where
  "strobe_D hw n s =
     (if n = 0 then Some ((), next_pc s) else if n = 1 \<or> n = 12 then Some ((), s)
      else if n = 2 then Some ((), IRQ_CSP_STOP s) else if n = 3 then Some ((), inst_srxon s)
      else if n = 4 \<or> n = 5 \<or> n = 9 \<or> n = 11 then None
      else if n = 6 then inst_sack hw False s else if n = 7 then inst_sack hw True s
      else if n = 8 then inst_snack hw s else if n = 10 then Some ((), inst_stxoncca s)
      else if n = 13 then Some ((), inst_sflushrx s) else if n = 14 then Some ((), inst_sflushtx s)
      else Some ((), inst_srfoff s))"

definition strobe_E :: "'z rf_hw \<Rightarrow> int \<Rightarrow> (unit, 'z) ract" where
  "strobe_E hw n s =
     (if n = 0 \<or> n = 12 then Some ((), s) else if n = 1 then Some ((), inst_isstart s)
      else if n = 2 then Some ((), IRQ_CSP_STOP s) else if n = 3 then Some ((), inst_srxon s)
      else if n = 4 \<or> n = 5 \<or> n = 11 then None
      else if n = 6 then inst_sack hw False s else if n = 7 then inst_sack hw True s
      else if n = 8 then inst_snack hw s else if n = 9 then Some ((), inst_istxon s)
      else if n = 10 then Some ((), inst_stxoncca s)
      else if n = 13 then Some ((), inst_sflushrx s) else if n = 14 then Some ((), inst_sflushtx s)
      else Some ((), inst_srfoff s))"

definition inst_other :: "'z rf_hw \<Rightarrow> t_mem \<Rightarrow> (unit, 'z) ract" where
  "inst_other hw code s =
     (if code = 0xB8 then Some ((), inst_wait_event1 s)
      else if code = 0xB9 then Some ((), inst_wait_event2 s)
      else if code = 0xBA then Some ((), inst_int s) else if code = 0xBB then Some ((), inst_label s)
      else if code = 0xBC then Some ((), inst_waitx s) else if code = 0xBD then Some ((), inst_rand_xy s)
      else if code = 0xBE then None
      else if code = 0xC0 then Some ((), inst_inc_x s) else if code = 0xC1 then Some ((), inst_inc_y s)
      else if code = 0xC2 then Some ((), inst_inc_z s) else if code = 0xC3 then Some ((), inst_dec_x s)
      else if code = 0xC4 then Some ((), inst_dec_y s) else if code = 0xC5 then Some ((), inst_dec_z s)
      else if code = 0xFF then inst_isclear hw s
      else Some ((), s))"

definition wrap_pc :: "'z rf2530_scheme \<Rightarrow> 'z rf2530_scheme" where
  "wrap_pc = upd_csp (\<lambda>c. if csp_PC c = 24 then c\<lparr>csp_PC := 0\<rparr> else c)"

definition csp_exec :: "'z rf_hw \<Rightarrow> t_mem \<Rightarrow> (unit, 'z) ract" where
  "csp_exec hw code s = do {
     let s = (if code AND 0x80 = 0 then inst_skipCS code s else s);
     let s = (if code AND 0xE0 = 0x80 then inst_waitw code s else s);
     let s = (if code AND 0xF0 = 0xA0 then inst_repeatC code s else s);
     let s = (if code AND 0xF8 = 0xC8 then inst_inc_maxy code s else s);
     (_, s) \<leftarrow> when_do (code AND 0xF0 = 0xD0) (strobe_D hw (code AND 0x0F)) s;
     (_, s) \<leftarrow> when_do (code AND 0xF0 = 0xE0) (strobe_E hw (code AND 0x0F)) s;
     (_, s) \<leftarrow> inst_other hw code s;
     Some ((), wrap_pc s)
   }"

subsection \<open>The step and the handlers\<close>

definition CSP_tick :: "'z rf_hw \<Rightarrow> (unit, 'z) ract" where
  "CSP_tick hw s = do {
     let s = set_reg 0x61E1 ((cell_get cell_cspstat s AND 0xE0) + csp_PC (CSP s)) s;
     let s = (if cell_get (Cell Xram 0x61E5) s = 0 then IRQ_CSP_STOP s else s);
     if csp_stop (CSP s) then Some ((), s)
     else do {
       (code, s) \<leftarrow> as_read hw Xram (0x61C0 + csp_PC (CSP s)) s;
       csp_exec hw code s
     }
   }"

definition csp_write :: "'z rf_hw \<Rightarrow> cell \<Rightarrow> t_mem \<Rightarrow> (t_mem, 'z) ract" where
  "csp_write hw cell val s =
     (if cell \<noteq> cell_rfst then Some (val, s)
      else do {
        let s = (if val = 0xE1 then cell_set_bit1 cell_cspstat bmCSPrunning
                   (upd_csp (\<lambda>c. c\<lparr>csp_stop := False\<rparr>) s) else s);
        let s = (if val = 0xE2 then cell_set_bit0 cell_cspstat bmCSPrunning
                   (upd_csp (\<lambda>c. c\<lparr>csp_stop := True\<rparr>) s) else s);
        (_, s) \<leftarrow> when_do (val = 0xFF) (inst_isclear hw) s;
        if val AND 0xF0 = 0xE0 then do { (_, s) \<leftarrow> csp_exec hw val s; Some (val, s) }
        else do {
          (_, s) \<leftarrow> as_write hw Xram (0x61C0 + PCwrite (CSP s)) val s;
          Some (val, upd_csp (\<lambda>c. c\<lparr>PCwrite :=
            (if PCwrite c + 1 = 24 then 0 else PCwrite c + 1)\<rparr>) s)
        }
      })"

text \<open>Events of the MAC timer, if they ever came; \<open>OVFcountdown\<close> is declared \<open>bool\<close>.\<close>

definition csp_happen :: "'z rf_hw \<Rightarrow> hwid \<Rightarrow> hw_event \<Rightarrow> (unit, 'z) ract" where
  "csp_happen hw where_from ev s =
     (if cathegory where_from \<noteq> HW_MAC_TIMER then Some ((), s)
      else case ev of
          EV_OVERFLOW _ \<Rightarrow> do {
            (_, s) \<leftarrow> (if WaitingForOvfs (CSP s)
              then cell_write hw cell_cspx (cell_get cell_cspx s - 1) s else Some (0, s));
            Some ((), if WaitingForWOvfs (CSP s)
              then upd_csp (\<lambda>c. c\<lparr>OVFcountdown := \<not> OVFcountdown c\<rparr>) s else s)
          }
        | EV_T2_EVENT1 \<Rightarrow>
            (let s = (if WaitingForEvent1 (CSP s) then upd_csp (\<lambda>c. c\<lparr>event1 := True\<rparr>) s else s)
             in Some ((), if WaitingForEvent2 (CSP s) then upd_csp (\<lambda>c. c\<lparr>event2 := True\<rparr>) s else s))
        | _ \<Rightarrow> Some ((), s))"

subsection \<open>The elements in place\<close>

definition radio_hwif :: "'z rf_hw \<Rightarrow> 'z rf_hw" where
  "radio_hwif inner = base_hw\<lparr>
     hw_read := (\<lambda>h. case h of Hw_CC2530radio \<Rightarrow> radio_rf_read inner | _ \<Rightarrow> default_hw_read),
     hw_write := (\<lambda>h. case h of Hw_CC2530radio \<Rightarrow> radio_rf_write | Hw_CSP \<Rightarrow> csp_write inner
       | _ \<Rightarrow> (\<lambda>_ v s. Some (v, s))),
     hw_tick := (\<lambda>h. case h of Hw_CC2530radio \<Rightarrow> radio_tick inner (CSP_tick inner)
       | _ \<Rightarrow> (\<lambda>_ s. Some ((), s))),
     hw_reset := (\<lambda>h. case h of Hw_CC2530radio \<Rightarrow> radio_reset inner | _ \<Rightarrow> (\<lambda>s. Some ((), s))),
     hw_happen := (\<lambda>h. case h of Hw_CC2530radio \<Rightarrow> radio_rf_happen | _ \<Rightarrow> (\<lambda>_ s. Some ((), s)))\<rparr>"

end
