(* ===== verification/Dma2530.thy ===== *)
theory Dma2530
  imports Cc2530
begin

text \<open>
  The DMA controller (\<open>CC2530DMA.cc\<close>): five channels, each a state machine that advances by one
  step at every tick, configured from two tables in the data space.
\<close>

definition upd_ch :: "int \<Rightarrow> (dma_channel \<Rightarrow> dma_channel) \<Rightarrow> 'z cc2530_scheme \<Rightarrow> 'z cc2530_scheme" where
  "upd_ch i f s = s\<lparr>tabDMACh := (tabDMACh s)(i := f (tabDMACh s i))\<rparr>"

subsection \<open>Configuration\<close>

definition channel_init :: "int \<Rightarrow> 'z cc2530_scheme \<Rightarrow> 'z cc2530_scheme" where
  "channel_init i = upd_ch i (\<lambda>c. c\<lparr>source := 0, destination := 0, ConfigAddress := 0, ch_s := 0,
     ch_d := 0, ITmask := False, armed := False, single := False, repeated := False,
     triggered := False, TransferCount := 0, VLEN := 0, LEN := 0, Priority := 0, ch_delta := 0,
     TriggerEvent := 32, SRCincrement := 0, DESTincrement := 0, SRCinc := 0, DESTinc := 0,
     TxMode := 0, Byte_Word_tx := 0, M8 := 0, DmaChState := DMAChannelIdle\<rparr>)"

definition config_channel_addresses :: "'z cc_hw \<Rightarrow> (unit, 'z) cact" where
  "config_channel_addresses hw s = do {
     (h, s) \<leftarrow> as_read hw Sfr r_DMA0CFGH s;
     (l, s) \<leftarrow> as_read hw Sfr r_DMA0CFGL s;
     let s = upd_ch 0 (\<lambda>c. c\<lparr>ConfigAddress := h * 256 + l\<rparr>) s;
     (h, s) \<leftarrow> as_read hw Sfr r_DMA1CFGH s;
     (l, s) \<leftarrow> as_read hw Sfr r_DMA1CFGL s;
     let CFGaddr1 = h * 256 + l;
     Some ((), fold (\<lambda>i. upd_ch i (\<lambda>c. c\<lparr>ConfigAddress := CFGaddr1 + 32 * (i - 1)\<rparr>)) [1, 2, 3, 4] s)
   }"

definition dma_delta :: "int \<Rightarrow> int" where
  "dma_delta vlen = (if vlen = 1 then 1 else if vlen = 3 then 2 else if vlen = 4 then 3 else 0)"

definition dma_inc :: "int \<Rightarrow> int" where
  "dma_inc code = (if code = 0 then 0 else if code = 1 then 1 else if code = 2 then 2 else -1)"

text \<open>The part of \<open>LoadConfig\<close> that starts a transfer.\<close>

definition start_transfer :: "'z cc_hw \<Rightarrow> int \<Rightarrow> (unit, 'z) cact" where
  "start_transfer hw i s = do {
     let s = upd_ch i (\<lambda>c. c\<lparr>ch_s := source c, ch_d := destination c, ch_delta := dma_delta (VLEN c)\<rparr>) s;
     let c = tabDMACh s i;
     (n, s) \<leftarrow> (if VLEN c = 0 \<or> VLEN c = 7 then Some (LEN c, s)
       else if VLEN c \<in> {1, 2, 3, 4} then do {
         (v, s) \<leftarrow> as_read hw Xram (ch_s c) s; Some (min (LEN c) (v + ch_delta c), s) }
       else if VLEN c \<in> {5, 6} then do {
         (v, s) \<leftarrow> as_read hw Xram (ch_s c) s; Some (min (LEN c) v, s) }
       else None);
     Some ((), upd_ch i (\<lambda>c. c\<lparr>TransferCount := n, SRCinc := dma_inc (SRCincrement c),
       DESTinc := dma_inc (DESTincrement c), single := (TxMode c AND 1 = 0),
       repeated := (TxMode c AND 2 = 2), ch_init := True\<rparr>) s)
   }"

definition LoadConfig :: "'z cc_hw \<Rightarrow> int \<Rightarrow> t_addr \<Rightarrow> (unit, 'z) cact" where
  "LoadConfig hw i CFGaddr s = do {
     let s = channel_init i s;
     (h, s) \<leftarrow> as_read hw Xram CFGaddr s;
     (l, s) \<leftarrow> as_read hw Xram (CFGaddr + 1) s;
     let s = upd_ch i (\<lambda>c. c\<lparr>source := h * 256 + l\<rparr>) s;
     (h, s) \<leftarrow> as_read hw Xram (CFGaddr + 2) s;
     (l, s) \<leftarrow> as_read hw Xram (CFGaddr + 3) s;
     let s = upd_ch i (\<lambda>c. c\<lparr>destination := h * 256 + l\<rparr>) s;
     (b, s) \<leftarrow> as_read hw Xram (CFGaddr + 4) s;
     let s = upd_ch i (\<lambda>c. c\<lparr>VLEN := (b AND 0xE0) div 32\<rparr>) s;
     (h, s) \<leftarrow> as_read hw Xram (CFGaddr + 4) s;
     (l, s) \<leftarrow> as_read hw Xram (CFGaddr + 5) s;
     let s = upd_ch i (\<lambda>c. c\<lparr>LEN := (h AND 0x1F) * 256 + l\<rparr>) s;
     (b, s) \<leftarrow> as_read hw Xram (CFGaddr + 6) s;
     let s = upd_ch i (\<lambda>c. c\<lparr>Byte_Word_tx := (b AND 0x80) div 128\<rparr>) s;
     (b, s) \<leftarrow> as_read hw Xram (CFGaddr + 6) s;
     let s = upd_ch i (\<lambda>c. c\<lparr>TxMode := (b AND 0x60) div 32\<rparr>) s;
     (b, s) \<leftarrow> as_read hw Xram (CFGaddr + 6) s;
     let s = upd_ch i (\<lambda>c. c\<lparr>TriggerEvent := b AND 0x1F\<rparr>) s;
     (b, s) \<leftarrow> as_read hw Xram (CFGaddr + 7) s;
     let s = upd_ch i (\<lambda>c. c\<lparr>SRCincrement := (b AND 0xC0) div 64\<rparr>) s;
     (b, s) \<leftarrow> as_read hw Xram (CFGaddr + 7) s;
     let s = upd_ch i (\<lambda>c. c\<lparr>DESTincrement := (b AND 0x30) div 16\<rparr>) s;
     (b, s) \<leftarrow> as_read hw Xram (CFGaddr + 7) s;
     let s = upd_ch i (\<lambda>c. c\<lparr>ITmask := ((b AND 0x08) div 8 \<noteq> 0)\<rparr>) s;
     (b, s) \<leftarrow> as_read hw Xram (CFGaddr + 7) s;
     let s = upd_ch i (\<lambda>c. c\<lparr>M8 := (b AND 0x04) div 4\<rparr>) s;
     (b, s) \<leftarrow> as_read hw Xram (CFGaddr + 7) s;
     let s = upd_ch i (\<lambda>c. c\<lparr>Priority := b AND 0x03\<rparr>) s;
     if ObjInit s then Some ((), s) else start_transfer hw i s
   }"

subsection \<open>The state machine\<close>

definition transfer :: "'z cc_hw \<Rightarrow> int \<Rightarrow> (unit, 'z) cact" where
  "transfer hw i s = do {
     (v, s) \<leftarrow> as_read hw Xram (ch_s (tabDMACh s i)) s;
     (_, s) \<leftarrow> as_write hw Xram (ch_d (tabDMACh s i)) v s;
     (_, s) \<leftarrow> (if Byte_Word_tx (tabDMACh s i) = 1 then
         (let k = (if 0 \<le> DESTinc (tabDMACh s i) then 1 else -1) in do {
            (v, s) \<leftarrow> as_read hw Xram (ch_s (tabDMACh s i) + k) s;
            as_write hw Xram (ch_d (tabDMACh s i) + k) v s })
       else Some (0, s));
     Some ((), upd_ch i (\<lambda>c. c\<lparr>ch_s := ch_s c + SRCinc c, ch_d := ch_d c + DESTinc c,
       TransferCount := TransferCount c - 1\<rparr>) s)
   }"

abbreviation "bmDMAIF \<equiv> (1 :: int)"

definition after_transfer :: "int \<Rightarrow> 'z cc2530_scheme \<Rightarrow> 'z cc2530_scheme" where
  "after_transfer i s =
     (let c = tabDMACh s i in
      if TransferCount c \<le> 0 then
        (let s = cell_set_bit1 cell_dmairq (2 ^ nat i) s;
             s = (if ITmask c then cell_set_bit1 cell_ircon bmDMAIF s else s)
         in upd_ch i (\<lambda>c. c\<lparr>DmaChState := (if repeated c then LoadDMAChannelConfig else DisarmChannel)\<rparr>) s)
      else if single c \<and> \<not> triggered c then upd_ch i (\<lambda>c. c\<lparr>DmaChState := DMAChannelArmed\<rparr>) s
      else s)"

definition StateTrans :: "'z cc_hw \<Rightarrow> int \<Rightarrow> (unit, 'z) cact" where
  "StateTrans hw i s =
     (case DmaChState (tabDMACh s i) of
        DMAChannelIdle \<Rightarrow> Some ((), if armed (tabDMACh s i)
          then upd_ch i (\<lambda>c. c\<lparr>DmaChState := LoadDMAChannelConfig\<rparr>) s else s)
      | LoadDMAChannelConfig \<Rightarrow> do {
          (_, s) \<leftarrow> LoadConfig hw i (ConfigAddress (tabDMACh s i)) s;
          Some ((), upd_ch i (\<lambda>c. c\<lparr>DmaChState := DMAChannelArmed\<rparr>) s)
        }
      | DMAChannelArmed \<Rightarrow> Some ((), if triggered (tabDMACh s i)
          then upd_ch i (\<lambda>c. c\<lparr>triggered := False, DmaChState := TransferOneByteOrWord\<rparr>) s else s)
      | TransferOneByteOrWord \<Rightarrow> do {
          (_, s) \<leftarrow> transfer hw i s;
          Some ((), after_transfer i s)
        }
      | DisarmChannel \<Rightarrow> Some ((), upd_ch i (\<lambda>c. c\<lparr>armed := False, DmaChState := DMAChannelIdle\<rparr>) s)
      | SetInterruptFlag \<Rightarrow> None)"

fun trans_all :: "'z cc_hw \<Rightarrow> int list \<Rightarrow> (unit, 'z) cact" where
  "trans_all hw [] s = Some ((), s)"
| "trans_all hw (i # is) s = do { (_, s) \<leftarrow> StateTrans hw i s; trans_all hw is s }"

definition dma_tick :: "'z cc_hw \<Rightarrow> int \<Rightarrow> (unit, 'z) cact" where
  "dma_tick hw cycles s = do {
     (_, s) \<leftarrow> config_channel_addresses hw s;
     trans_all hw [0, 1, 2, 3, 4] s
   }"

definition dma_reset :: "(unit, 'z) cact" where
  "dma_reset s = Some ((), fold channel_init [0, 1, 2, 3, 4] (s\<lparr>ObjInit := False\<rparr>))"

subsection \<open>Triggers and registers\<close>

fun dma_trigger :: "hw_event \<Rightarrow> int option" where
  "dma_trigger EV_T1_CH0 = Some 2"
| "dma_trigger EV_T1_CH1 = Some 3"
| "dma_trigger EV_T1_CH2 = Some 4"
| "dma_trigger EV_T2_EVENT1 = Some 5"
| "dma_trigger EV_T2_EVENT2 = Some 6"
| "dma_trigger EV_T3_CH0 = Some 7"
| "dma_trigger EV_T3_CH1 = Some 8"
| "dma_trigger EV_T4_CH0 = Some 9"
| "dma_trigger EV_T4_CH1 = Some 10"
| "dma_trigger EV_ST = Some 11"
| "dma_trigger EV_IOC_0 = Some 12"
| "dma_trigger EV_IOC_1 = Some 13"
| "dma_trigger EV_URX0 = Some 14"
| "dma_trigger EV_UTX0 = Some 15"
| "dma_trigger EV_URX1 = Some 16"
| "dma_trigger EV_UTX1 = Some 17"
| "dma_trigger EV_FLASH = Some 18"
| "dma_trigger EV_RADIO = Some 19"
| "dma_trigger EV_DBG_BW = Some 31"
| "dma_trigger _ = None"

text \<open>
  For any other event the variable \<open>Trigger\<close> is compared uninitialised: it takes the next value of
  the arbitrary sequence \<open>stale\<close>.
\<close>

definition dma_happen :: "hw_event \<Rightarrow> (unit, 'z) cact" where
  "dma_happen ev s =
     (let (t, s) = (case dma_trigger ev of Some t \<Rightarrow> (t, s)
        | None \<Rightarrow> (stale s (stale_pos s), s\<lparr>stale_pos := Suc (stale_pos s)\<rparr>))
      in Some ((), fold (\<lambda>i s. if TriggerEvent (tabDMACh s i) = t
           then upd_ch i (\<lambda>c. c\<lparr>triggered := True\<rparr>) s else s) [0, 1, 2, 3, 4] s))"

definition dma_write :: "cell \<Rightarrow> t_mem \<Rightarrow> (t_mem, 'z) cact" where
  "dma_write cell val s =
     (if cell = cell_dmareq then
        Some (val, fold (\<lambda>i s. if val AND 2 ^ nat i \<noteq> 0
          then upd_ch i (\<lambda>c. c\<lparr>triggered := True\<rparr>) s else s) [0, 1, 2, 3, 4] s)
      else if cell = cell_dmaarm then
        (let s = fold (\<lambda>i. upd_ch i (\<lambda>c. c\<lparr>armed := (val AND 2 ^ nat i \<noteq> 0)\<rparr>)) [0, 1, 2, 3, 4] s
         in if val AND 2 ^ 7 \<noteq> 0 then
              (let (_, s) = cell_set cell_dmaarm 0 s
               in Some (val, fold (\<lambda>i. upd_ch i (\<lambda>c. c\<lparr>armed := False\<rparr>)) [0, 1, 2, 3, 4] s))
            else Some (val, s))
      else if cell = cell_dmairq then
        Some (val, fold (\<lambda>i s. if val AND 2 ^ nat i \<noteq> 0
          then upd_ch i (\<lambda>c. c\<lparr>ITmask := True\<rparr>) s else s) [0, 1, 2, 3, 4] s)
      else Some (val, s))"

subsection \<open>Construction\<close>

fun write_table :: "'z cc_hw \<Rightarrow> t_addr \<Rightarrow> int list \<Rightarrow> (unit, 'z) cact" where
  "write_table hw a [] s = Some ((), s)"
| "write_table hw a (v # vs) s = do { (_, s) \<leftarrow> as_write hw Xram a v s; write_table hw (a + 1) vs s }"

fun load_all :: "'z cc_hw \<Rightarrow> int list \<Rightarrow> (unit, 'z) cact" where
  "load_all hw [] s = Some ((), s)"
| "load_all hw (i # is) s = do {
     let CFGaddr = ConfigAddress (tabDMACh s i);
     let s = upd_ch i (\<lambda>c. c\<lparr>armed := False, TransferCount := 0\<rparr>) s;
     (_, s) \<leftarrow> LoadConfig hw i CFGaddr (s\<lparr>ObjInit := True\<rparr>);
     load_all hw is (s\<lparr>ObjInit := False\<rparr>)
   }"

definition dma_init :: "'z cc_hw \<Rightarrow> (unit, 'z) cact" where
  "dma_init hw s = do {
     let s = fold channel_init [0, 1, 2, 3, 4] (s\<lparr>ObjInit := False\<rparr>);
     let config2 = [0, 0, 0, 0, 0x40, 0x20, 0x20, 0x50];
     (_, s) \<leftarrow> write_table hw 0x80 [0x80, 3, 0, 0, 0x40, 0x10, 0xA2, 0xA0] s;
     (_, s) \<leftarrow> write_table hw 0x90 [0x80, 0x40, 0, 0x50, 0x40, 0x10, 0x47, 0xF0] s;
     (_, s) \<leftarrow> write_table hw (0x90 + 32) config2 s;
     (_, s) \<leftarrow> write_table hw (0x90 + 64) config2 s;
     (_, s) \<leftarrow> write_table hw (0x90 + 96) config2 s;
     (_, s) \<leftarrow> as_write hw Sfr r_DMA0CFGH 0 s;
     (_, s) \<leftarrow> as_write hw Sfr r_DMA0CFGL 0x80 s;
     (_, s) \<leftarrow> as_write hw Sfr r_DMA1CFGH 0 s;
     (_, s) \<leftarrow> as_write hw Sfr r_DMA1CFGL 0x90 s;
     (_, s) \<leftarrow> config_channel_addresses hw s;
     load_all hw [0, 1, 2, 3, 4] s
   }"

definition dma_new :: "'z cc_hw \<Rightarrow> (unit, 'z) cact" where
  "dma_new hw s = dma_init hw (fold (\<lambda>a s. snd (register_hw Sfr a Hw_DMA s))
     [r_DMAARM, r_DMAREQ, r_DMAIRQ, r_IRCON] s)"

end
