(* ===== verification/Flash2530.thy ===== *)
theory Flash2530
  imports Cc2530
begin

text \<open>
  The flash controller (\<open>CC2530flashCtrler.cc\<close>): page erase and word write through the registers
  \<open>FCTL\<close>, \<open>FADDRH\<close>, \<open>FADDRL\<close> and \<open>FWDATA\<close> of the data space. The clock rate, which only feeds a
  warning, is left out.
\<close>

abbreviation "bmBUSY \<equiv> (0x80 :: int)"
abbreviation "bmFULL \<equiv> (0x40 :: int)"
abbreviation "bmWRITE \<equiv> (0x02 :: int)"
abbreviation "bmERASE \<equiv> (0x01 :: int)"

definition upd_flash :: "(flash_ctrl \<Rightarrow> flash_ctrl) \<Rightarrow> 'z cc2530_scheme \<Rightarrow> 'z cc2530_scheme" where
  "upd_flash f s = s\<lparr>flash := f (flash s)\<rparr>"

definition upd_page :: "int \<Rightarrow> (flash_page \<Rightarrow> flash_page) \<Rightarrow> 'z cc2530_scheme \<Rightarrow> 'z cc2530_scheme" where
  "upd_page p f = upd_flash (\<lambda>c. c\<lparr>PageTab := (PageTab c)(p := f (PageTab c p))\<rparr>)"

definition fresh_page :: "int \<Rightarrow> flash_page" where
  "fresh_page i = \<lparr>StartAddr = i * 1024, PageWrites = 0, lockbit = False, WordWrites = (\<lambda>_. 0)\<rparr>"

definition flash_reset :: "(unit, 'z) cact" where
  "flash_reset s = Some ((), upd_flash (\<lambda>c. c\<lparr>
     PageTab := (\<lambda>i. if 0 \<le> i \<and> i < 128 then fresh_page i else PageTab c i),
     f_writing := False, regFull := False, f_reg := 0, f_address := 0, PageNum := 0, WordNum := 0,
     TXNum := 0, f_TickCount := 0, f_timerEnabled := False\<rparr>) s)"

definition flash_tick :: "int \<Rightarrow> (unit, 'z) cact" where
  "flash_tick cycles s = Some ((), if f_timerEnabled (flash s)
     then upd_flash (\<lambda>c. c\<lparr>f_TickCount := f_TickCount c + 1\<rparr>) s else s)"

subsection \<open>Erasing\<close>

definition page_bank :: "int \<Rightarrow> as_id" where
  "page_bank p = (if p < 32 then Flashbank0 else if p < 64 then Flashbank1
     else if p < 96 then Flashbank2 else Flashbank3)"

definition page_shift :: "int \<Rightarrow> int" where
  "page_shift p = (if p < 32 then 0 else if p < 64 then 0x8000 else if p < 96 then 0x10000 else 0x18000)"

primrec erase_loop :: "'z cc_hw \<Rightarrow> int \<Rightarrow> nat \<Rightarrow> int \<Rightarrow> (unit, 'z) cact" where
  "erase_loop hw p 0 i s = Some ((), s)"
| "erase_loop hw p (Suc n) i s = do {
     (_, s) \<leftarrow> as_write hw (f_bank (flash s)) (StartAddr (PageTab (flash s) p) + i) 0xFF s;
     erase_loop hw p n (i + 1) (upd_page p (\<lambda>g. g\<lparr>WordWrites := (WordWrites g)(i := 0)\<rparr>) s)
   }"

definition erasePage :: "'z cc_hw \<Rightarrow> int \<Rightarrow> (unit, 'z) cact" where
  "erasePage hw p s = do {
     let s = upd_page p (\<lambda>g. g\<lparr>StartAddr := StartAddr g - page_shift p\<rparr>) s;
     let s = upd_flash (\<lambda>c. c\<lparr>f_bank := page_bank p\<rparr>) s;
     let s = cell_set_bit1 cell_fctl bmBUSY s;
     (_, s) \<leftarrow> erase_loop hw p 1024 0 s;
     let s = upd_page p (\<lambda>g. g\<lparr>PageWrites := 0\<rparr>) s;
     Some ((), cell_set_bit0 cell_fctl bmBUSY s)
   }"

fun erase_all :: "'z cc_hw \<Rightarrow> nat \<Rightarrow> int \<Rightarrow> (unit, 'z) cact" where
  "erase_all hw 0 i s = Some ((), s)"
| "erase_all hw (Suc n) i s = do { (_, s) \<leftarrow> erasePage hw i s; erase_all hw n (i + 1) s }"

definition ChipErase :: "'z cc_hw \<Rightarrow> (unit, 'z) cact" where
  "ChipErase hw s = erase_all hw 128 0 s"

subsection \<open>Writing\<close>

fun flash_bytes :: "'z cc_hw \<Rightarrow> int list \<Rightarrow> (unit, 'z) cact" where
  "flash_bytes hw [] s = Some ((), s)"
| "flash_bytes hw (i # is) s = do {
     let c = flash s;
     (_, s) \<leftarrow> as_write hw (f_bank c) ((f_address c AND 0x3FFF) * 4 + i)
       ((f_reg c div 2 ^ nat (8 * i)) AND 0xFF) s;
     flash_bytes hw is s
   }"

definition flashWrite :: "'z cc_hw \<Rightarrow> (unit, 'z) cact" where
  "flashWrite hw s = do {
     let p = (f_address (flash s) div 512) AND 0x7F;
     let w = f_address (flash s) AND 0x01FF;
     let s = upd_flash (\<lambda>c. c\<lparr>PageNum := p, WordNum := w\<rparr>) s;
     let s = upd_page p (\<lambda>g. g\<lparr>PageWrites := PageWrites g + 1,
               WordWrites := (WordWrites g)(w := WordWrites g w + 1)\<rparr>) s;
     (_, s) \<leftarrow> flash_bytes hw [0, 1, 2, 3] s;
     let s = (if p = 0 \<and> w < 4 then
         fold (\<lambda>i s. upd_page ((3 - w) * 32 + i)
           (\<lambda>g. g\<lparr>lockbit := ((f_reg (flash s) div 2 ^ nat i) AND 1 = 0)\<rparr>) s) [0..31] s
       else s);
     let s = upd_flash (\<lambda>c. c\<lparr>f_reg := 0\<rparr>) s;
     let s = cell_set_bit0 cell_fctl bmFULL s;
     Some ((), upd_flash (\<lambda>c. c\<lparr>regFull := False\<rparr>) s)
   }"

definition select_bank :: "int \<Rightarrow> 'z cc2530_scheme \<Rightarrow> 'z cc2530_scheme" where
  "select_bank addr = upd_flash (\<lambda>c. c\<lparr>f_address := addr,
     f_bank := flashbank ((addr AND 0xC000) div 2 ^ 14)\<rparr>)"

definition write_fwdata :: "'z cc_hw \<Rightarrow> t_mem \<Rightarrow> (unit, 'z) cact" where
  "write_fwdata hw val s =
     (let c = flash s in
      if regFull c \<or> \<not> f_writing c then Some ((), s)
      else do {
        let s = (if TXNum c = 0 then upd_flash (\<lambda>c. c\<lparr>f_reg := 0, f_timerEnabled := True\<rparr>) s else s);
        let s = upd_flash (\<lambda>c. c\<lparr>f_reg := f_reg c OR (val * 2 ^ nat (8 * TXNum c)),
                  TXNum := TXNum c + 1\<rparr>) s;
        if TXNum (flash s) = 4 then do {
          let s = cell_set_bit1 cell_fctl bmFULL s;
          let s = upd_flash (\<lambda>c. c\<lparr>regFull := True, TXNum := 0, f_timerEnabled := False,
                    f_TickCount := 0\<rparr>) s;
          flashWrite hw s
        }
        else Some ((), s)
      })"

definition flash_write :: "'z cc_hw \<Rightarrow> cell \<Rightarrow> t_mem \<Rightarrow> (t_mem, 'z) cact" where
  "flash_write hw cell val s =
     (if cell = cell_fctl then do {
        (_, s) \<leftarrow> (if val AND bmERASE \<noteq> 0 then do {
            let p = (cell_get cell_faddrh s div 2) AND 0x7F;
            erasePage hw p (upd_flash (\<lambda>c. c\<lparr>PageNum := p\<rparr>) s)
          } else Some ((), s));
        Some (val, upd_flash (\<lambda>c. c\<lparr>f_writing := (val AND bmWRITE \<noteq> 0)\<rparr>) s)
      }
      else if cell = cell_faddrh then
        Some (val, select_bank (val * 256 + cell_get cell_faddrl s) s)
      else if cell = cell_faddrl then
        Some (val, select_bank (cell_get cell_faddrh s * 256 + val) s)
      else if cell = cell_fwdata then do {
        (_, s) \<leftarrow> write_fwdata hw val s;
        Some (val, s)
      }
      else Some (val, s))"

definition flash_new :: "'z cc_hw \<Rightarrow> (unit, 'z) cact" where
  "flash_new hw s = do {
     let s = upd_flash (\<lambda>c. c\<lparr>f_bank := Flashbank0\<rparr>) s;
     let s = fold (\<lambda>a s. snd (register_hw Xram a Hw_flashctrler s)) [0x6272, 0x6271, 0x6270, 0x6273] s;
     let s = snd (register_hw Sfr r_CLKCONCMD Hw_flashctrler s);
     (_, s) \<leftarrow> flash_reset s;
     ChipErase hw s
   }"

end
