(* ===== verification/Timer2530.thy ===== *)
theory Timer2530
  imports Cc2530
begin

text \<open>
  The timers 1, 3 and 4 of the CC2530 (\<open>CC2530timer.cc\<close>, \<open>CC2530timer1.cc\<close>, \<open>CC2530timer3.cc\<close>,
  \<open>CC2530timer4.cc\<close>). The template parameter is the width of the counter: \<open>short int\<close> for timer 1
  and \<open>char\<close> for the others, both signed; \<open>to_T\<close> is the conversion to that type.
\<close>

subsection \<open>Parameters\<close>

definition to_short :: "int \<Rightarrow> int" where
  "to_short x = (let y = x mod 65536 in if y < 32768 then y else y - 65536)"

definition to_T :: "int \<Rightarrow> int \<Rightarrow> int" where
  "to_T n x = (if n = 1 then to_short x else to_schar x)"

definition cct_hw :: "int \<Rightarrow> hwid" where
  "cct_hw n = (if n = 1 then Hw_CC2530timer1 else if n = 3 then Hw_CC2530timer3 else Hw_CC2530timer4)"

definition cct_tl :: "int \<Rightarrow> cell" where
  "cct_tl n = Cell Sfr (if n = 1 then 0x62 else if n = 3 then 0x4A else 0x6A)"

definition cct_ctl :: "int \<Rightarrow> cell" where
  "cct_ctl n = Cell Sfr (if n = 1 then 0x64 else if n = 3 then 0x4B else 0x6B)"

definition cell_OvfMaskReg :: "int \<Rightarrow> cell" where
  "cell_OvfMaskReg n = (if n = 1 then Cell Sfr 0x58 else cct_ctl n)"

definition cell_FlagReg :: "int \<Rightarrow> cell" where
  "cell_FlagReg n = Cell Sfr (if n = 1 then 0x2F else 0x58)"

definition OVFMaskMask :: "int \<Rightarrow> int" where "OVFMaskMask n = (if n = 1 then 0x40 else 0x08)"
definition OVFIFMask :: "int \<Rightarrow> int" where
  "OVFIFMask n = (if n = 1 then 0x20 else if n = 3 then 0x08 else 0x10)"
definition IrconFlag :: "int \<Rightarrow> int" where
  "IrconFlag n = (if n = 1 then 0x02 else if n = 3 then 0x08 else 0x10)"
definition decal :: "int \<Rightarrow> nat" where "decal n = (if n = 3 then 1 else if n = 4 then 4 else 0)"
definition ChMax :: "int \<Rightarrow> int" where "ChMax n = (if n = 1 then 5 else 2)"

definition ch_space :: "int \<Rightarrow> int \<Rightarrow> as_id" where
  "ch_space n i = (if n = 1 \<and> 3 \<le> i then Xram else Sfr)"

definition RegCTL :: "int \<Rightarrow> int \<Rightarrow> t_addr" where
  "RegCTL n i = (if n = 1 then (if i < 3 then 0xE5 + i else 0x62A3 + (i - 3))
     else if n = 3 then 0xCC + 2 * i else 0xEC + 2 * i)"

definition RegCMPL :: "int \<Rightarrow> int \<Rightarrow> t_addr" where
  "RegCMPL n i = (if n = 1 then (if i < 3 then 0xDA + 2 * i else 0x62AC + 2 * (i - 3))
     else if n = 3 then 0xCD + 2 * i else 0xED + 2 * i)"

definition RegCMPH :: "int \<Rightarrow> t_addr" where
  "RegCMPH i = (if i < 3 then 0xDB + 2 * i else 0x62AD + 2 * (i - 3))"

definition upd_cct :: "int \<Rightarrow> (cctimer \<Rightarrow> cctimer) \<Rightarrow> 'z cc2530_scheme \<Rightarrow> 'z cc2530_scheme" where
  "upd_cct n f s = s\<lparr>cctimers := (cctimers s)(n := f (cctimers s n))\<rparr>"

definition upd_tch :: "int \<Rightarrow> int \<Rightarrow> (tchannel \<Rightarrow> tchannel) \<Rightarrow> 'z cc2530_scheme \<Rightarrow> 'z cc2530_scheme" where
  "upd_tch n i f = upd_cct n (\<lambda>t. t\<lparr>tabCh := (tabCh t)(i := f (tabCh t i))\<rparr>)"

subsection \<open>The next compare event\<close>

text \<open>One channel: the distance to its compare value, kept when nearer than the nearest so far.\<close>

definition next_cc_channel :: "int \<Rightarrow> int \<Rightarrow> cctimer \<Rightarrow> cctimer" where
  "next_cc_channel n i t =
     (let v = ValRegCMP (tabCh t i);
          down = (if n = 1 then i < 3 \<and> cc_mode t = 3 \<and> up_down t
                  else cc_mode t = 1 \<or> cc_mode t = 3 \<and> up_down t);
          d = to_T n (if down then t_count t - v else v - t_count t);
          nearer = (0 < d \<and> d < NextCmpEvent t
                    \<or> (n = 1 \<longrightarrow> i < 3) \<and> NextCmpEvent t = -1 \<and> d \<noteq> 0)
      in t\<lparr>cmpEventIn := d, NextCmpEvent := (if nearer then d else NextCmpEvent t)\<rparr>)"

fun next_cc_loop :: "'z cc_hw \<Rightarrow> int \<Rightarrow> int list \<Rightarrow> (unit, 'z) cact" where
  "next_cc_loop hw n [] s = Some ((), s)"
| "next_cc_loop hw n (i # is) s = do {
     (v, s) \<leftarrow> as_read hw (ch_space n i) (RegCTL n i) s;
     next_cc_loop hw n is (if v AND 0x4 \<noteq> 0 then upd_cct n (next_cc_channel n i) s else s)
   }"

definition get_next_cc_event :: "'z cc_hw \<Rightarrow> int \<Rightarrow> (unit, 'z) cact" where
  "get_next_cc_event hw n s =
     next_cc_loop hw n [0..ChMax n - 1] (upd_cct n (\<lambda>t. t\<lparr>NextCmpEvent := -1\<rparr>) s)"

subsection \<open>Capture and compare\<close>

definition cct_capture :: "bool \<Rightarrow> bool \<Rightarrow> int \<Rightarrow> bool" where
  "cct_capture pin ex captureMode \<longleftrightarrow>
     pin \<noteq> ex \<and> (if pin then captureMode = 1 \<or> captureMode = 3 else captureMode = 2 \<or> captureMode = 3)"

definition compare_pin :: "bool \<Rightarrow> int \<Rightarrow> cctimer \<Rightarrow> int \<Rightarrow> bool \<Rightarrow> bool" where
  "compare_pin is_ctl0 ctrl t TxCCn pin =
     (let k = (ctrl AND 0x38) div 8; n = t_count t; c0 = ValRegCMP (tabCh t 0) in
      if ctrl AND 0x04 = 0 then pin
      else if k = 0 then (if n = c0 then True else pin)
      else if k = 1 then (if n = c0 then False else pin)
      else if k = 2 then (if n = c0 then \<not> pin else pin)
      else if k = 3 then
        (if cc_mode t = 3 then (if n = TxCCn then \<not> up_down t else TxCCn < n)
         else (let pin = (if n = TxCCn then True else pin) in if n = 0 then False else pin))
      else if k = 4 then
        (if cc_mode t = 3 then (if n = TxCCn then up_down t else \<not> TxCCn < n)
         else (let pin = (if n = TxCCn then False else pin) in if n = 0 then True else pin))
      else if k = 5 then
        (if is_ctl0 then pin
         else if cc_mode t = 2
         then (let pin = (if n = TxCCn then True else pin) in if n = 0 then False else pin)
         else (let pin = (if n = c0 then False else pin) in if n = TxCCn then True else pin))
      else if k = 6 then
        (if is_ctl0 then pin
         else if cc_mode t = 2
         then (let pin = (if n = TxCCn then False else pin) in if n = 0 then True else pin)
         else (let pin = (if n = c0 then True else pin) in if n = TxCCn then False else pin))
      else False)"

definition cct_compare :: "'z cc_hw \<Rightarrow> int \<Rightarrow> int \<Rightarrow> (unit, 'z) cact" where
  "cct_compare hw n i s = do {
     (ctrl, s) \<leftarrow> as_read hw (ch_space n i) (RegCTL n i) s;
     Some ((), upd_cct n (\<lambda>t. t\<lparr>tabCh := (tabCh t)(i := (tabCh t i)\<lparr>IOPin :=
       compare_pin (n = 1 \<and> i = 0) ctrl t (ValRegCMP (tabCh t i)) (IOPin (tabCh t i))\<rparr>)\<rparr>) s)
   }"

definition cct_event :: "int \<Rightarrow> int \<Rightarrow> hw_event" where
  "cct_event n i = (if n = 1 then (if i = 0 then EV_T1_CH0 else if i = 1 then EV_T1_CH1 else EV_T1_CH2)
     else if n = 3 then (if i = 0 then EV_T3_CH0 else EV_T3_CH1)
     else if i = 0 then EV_T4_CH0 else EV_T4_CH1)"

definition store_capture :: "'z cc_hw \<Rightarrow> int \<Rightarrow> int \<Rightarrow> (unit, 'z) cact" where
  "store_capture hw n i s = do {
     (_, s) \<leftarrow> (if n = 1 then do {
         (_, s) \<leftarrow> as_write hw (ch_space n i) (RegCMPH i) (t_count (cctimers s n) div 256) s;
         as_write hw (ch_space n i) (RegCMPL n i) (t_count (cctimers s n) AND 0xFF) s }
       else do {
         (v, s) \<leftarrow> as_read hw Sfr 0xE2 s;
         as_write hw Sfr (RegCMPL n i) v s });
     (v, s) \<leftarrow> as_read hw (ch_space n i) (RegCTL n i) s;
     Some ((), if v AND 0x40 \<noteq> 0 then
       (let s = cell_set_bit1 (cell_FlagReg n) (2 ^ nat i * 2 ^ decal n) s
        in if n = 1 \<and> i < 3 then s else cell_set_bit1 cell_ircon (IrconFlag n) s)
       else s)
   }"

definition cc_channel :: "'z cc_hw \<Rightarrow> int \<Rightarrow> int \<Rightarrow> (unit, 'z) cact" where
  "cc_channel hw n i s = do {
     (v, s) \<leftarrow> as_read hw (ch_space n i) (RegCTL n i) s;
     if v AND 0x04 = 0 then do {
       (md, s) \<leftarrow> as_read hw (ch_space n i) (RegCTL n i) s;
       let c = tabCh (cctimers s n) i;
       let capt = cct_capture (IOPin c) (ExIOPin c) (md AND 0x03);
       let s = upd_tch n i (\<lambda>c. c\<lparr>ExIOPin := IOPin c\<rparr>) s;
       if capt then store_capture hw n i s else Some ((), s)
     }
     else do {
       let t = cctimers s n;
       if t_count t = ValRegCMP (tabCh t 0) \<or> t_count t = ValRegCMP (tabCh t i) \<or> t_count t = 0
       then do {
         (_, s) \<leftarrow> cct_compare hw n i s;
         if n = 1 \<and> 3 \<le> i then Some ((), s) else hw_happen hw Hw_DMA (cct_event n i) s
       }
       else Some ((), s)
     }
   }"

fun cc_channels :: "'z cc_hw \<Rightarrow> int \<Rightarrow> int list \<Rightarrow> (unit, 'z) cact" where
  "cc_channels hw n [] s = Some ((), s)"
| "cc_channels hw n (i # is) s = do { (_, s) \<leftarrow> cc_channel hw n i s; cc_channels hw n is s }"

definition CaptureCompare :: "'z cc_hw \<Rightarrow> int \<Rightarrow> (unit, 'z) cact" where
  "CaptureCompare hw n s = do {
     (_, s) \<leftarrow> cc_channels hw n [0..ChMax n - 1] s;
     get_next_cc_event hw n s
   }"

subsection \<open>Counting\<close>

definition cct_overflow :: "'z cc_hw \<Rightarrow> int \<Rightarrow> (unit, 'z) cact" where
  "cct_overflow hw n s = do {
     let s = (if cell_get (cell_OvfMaskReg n) s AND OVFMaskMask n \<noteq> 0
       then cell_set_bit1 cell_ircon (IrconFlag n) (cell_set_bit1 (cell_FlagReg n) (OVFIFMask n) s)
       else s);
     hw_happen hw Hw_DMA (EV_OVERFLOW (cct_hw n)) s
   }"

definition refresh_sfr :: "int \<Rightarrow> 'z cc2530_scheme \<Rightarrow> 'z cc2530_scheme" where
  "refresh_sfr n s =
     (let c = t_count (cctimers s n);
          s = snd (cell_set (cct_tl n) (c AND 0xFF) s)
      in if n = 1 then snd (cell_set (Cell Sfr 0x63) (c div 256) s) else s)"

definition next_down :: "int \<Rightarrow> 'z cc2530_scheme \<Rightarrow> 'z cc2530_scheme" where
  "next_down n = upd_cct n (\<lambda>t. t\<lparr>NextCmpEvent := to_T n (NextCmpEvent t - 1)\<rparr>)"

definition set_count :: "int \<Rightarrow> int \<Rightarrow> 'z cc2530_scheme \<Rightarrow> 'z cc2530_scheme" where
  "set_count n c = upd_cct n (\<lambda>t. t\<lparr>t_count := to_T n c\<rparr>)"

definition cc_due :: "int \<Rightarrow> 'z cc2530_scheme \<Rightarrow> bool" where
  "cc_due n s \<longleftrightarrow> NextCmpEvent (cctimers s n) = 0 \<or> PinEvent (cctimers s n)"

definition clear_pin_event :: "int \<Rightarrow> 'z cc2530_scheme \<Rightarrow> 'z cc2530_scheme" where
  "clear_pin_event n = upd_cct n (\<lambda>t. t\<lparr>PinEvent := False\<rparr>)"

definition free_step :: "'z cc_hw \<Rightarrow> int \<Rightarrow> (unit, 'z) cact" where
  "free_step hw n s = do {
     let s = next_down n s;
     let s = set_count n (t_count (cctimers s n) + 1) s;
     (_, s) \<leftarrow> (if t_count (cctimers s n) = 0 then cct_overflow hw n s else Some ((), s));
     let s = refresh_sfr n s;
     (_, s) \<leftarrow> (if cc_due n s then CaptureCompare hw n s else Some ((), s));
     Some ((), clear_pin_event n s)
   }"

definition modulo_step :: "'z cc_hw \<Rightarrow> int \<Rightarrow> (unit, 'z) cact" where
  "modulo_step hw n s = do {
     let s = next_down n s;
     let t = cctimers s n;
     let s = set_count n (if t_count t = ValRegCMP (tabCh t 0) then 0 else t_count t + 1) s;
     (_, s) \<leftarrow> (if t_count t = ValRegCMP (tabCh t 0) \<or> t_count (cctimers s n) = 0
       then do { (_, s) \<leftarrow> cct_overflow hw n s; get_next_cc_event hw n s }
       else Some ((), s));
     let s = refresh_sfr n s;
     (_, s) \<leftarrow> (if cc_due n s then CaptureCompare hw n s else Some ((), s));
     Some ((), clear_pin_event n s)
   }"

definition updown_step :: "'z cc_hw \<Rightarrow> int \<Rightarrow> (unit, 'z) cact" where
  "updown_step hw n s = do {
     let s = upd_cct n (\<lambda>t. t\<lparr>up_down_changed := False\<rparr>) (next_down n s);
     (_, s) \<leftarrow> (if \<not> up_down (cctimers s n) then do {
         let s = set_count n (t_count (cctimers s n) + 1) s;
         (_, s) \<leftarrow> (if t_count (cctimers s n) = 0 then cct_overflow hw n s else Some ((), s));
         Some ((), if t_count (cctimers s n) = ValRegCMP (tabCh (cctimers s n) 0)
           then upd_cct n (\<lambda>t. t\<lparr>up_down := True, up_down_changed := True\<rparr>) s else s)
       } else do {
         let s = set_count n (t_count (cctimers s n) - 1) s;
         if t_count (cctimers s n) = 0 then do {
           (_, s) \<leftarrow> cct_overflow hw n s;
           Some ((), upd_cct n (\<lambda>t. t\<lparr>up_down := False, up_down_changed := True\<rparr>) s)
         } else Some ((), s)
       });
     let s = refresh_sfr n s;
     (_, s) \<leftarrow> (if cc_due n s then CaptureCompare hw n s else Some ((), s));
     (_, s) \<leftarrow> (if up_down_changed (cctimers s n) then get_next_cc_event hw n s else Some ((), s));
     Some ((), clear_pin_event n s)
   }"

definition down_step :: "'z cc_hw \<Rightarrow> int \<Rightarrow> (unit, 'z) cact" where
  "down_step hw n s = do {
     let s = next_down n s;
     (_, s) \<leftarrow> (if t_count (cctimers s n) = 0 then do {
         let s = set_count n (ValRegCMP (tabCh (cctimers s n) 0)) s;
         if cc_due n s then CaptureCompare hw n s else get_next_cc_event hw n s
       } else Some ((), set_count n (t_count (cctimers s n) - 1) s));
     (_, s) \<leftarrow> (if t_count (cctimers s n) = 0 then cct_overflow hw n s else Some ((), s));
     let s = refresh_sfr n s;
     (_, s) \<leftarrow> (if cc_due n s then CaptureCompare hw n s else Some ((), s));
     Some ((), clear_pin_event n s)
   }"

fun repeat_step :: "nat \<Rightarrow> (unit, 'z) cact \<Rightarrow> (unit, 'z) cact" where
  "repeat_step 0 f s = Some ((), s)"
| "repeat_step (Suc k) f s = do { (_, s) \<leftarrow> f s; repeat_step k f s }"

definition cct_TimerTick :: "'z cc_hw \<Rightarrow> int \<Rightarrow> int \<Rightarrow> (unit, 'z) cact" where
  "cct_TimerTick hw n cycles s =
     (let m = cc_mode (cctimers s n); k = nat cycles in
      if n = 1 then
        (if m = 1 then repeat_step k (free_step hw n) s
         else if m = 2 then repeat_step k (modulo_step hw n) s
         else if m = 3 then repeat_step k (updown_step hw n) s
         else Some ((), s))
      else if cc_TR (cctimers s n) \<noteq> 0 then
        (if m = 0 then repeat_step k (free_step hw n) s
         else if m = 1 then repeat_step k (down_step hw n) s
         else if m = 2 then repeat_step k (modulo_step hw n) s
         else repeat_step k (updown_step hw n) s)
      else Some ((), s))"

primrec prescale_loop :: "nat \<Rightarrow> cctimer \<Rightarrow> cctimer" where
  "prescale_loop 0 t = t"
| "prescale_loop (Suc k) t =
     (let t = t\<lparr>systemTicks := systemTicks t + 1\<rparr>;
          t = (if systemTicks t mod prescale t = 0 then t\<lparr>TimerTicks := TimerTicks t + 1\<rparr> else t)
      in prescale_loop k t)"

definition cct_tick :: "'z cc_hw \<Rightarrow> int \<Rightarrow> int \<Rightarrow> (unit, 'z) cact" where
  "cct_tick hw n cycles s =
     (if prescale (cctimers s n) = 0 \<and> 0 < cycles then None else
      let s = upd_cct n (\<lambda>t. prescale_loop (nat cycles) (t\<lparr>TimerTicks := 0\<rparr>)) s;
          k = TimerTicks (cctimers s n)
      in if k \<noteq> 0 then cct_TimerTick hw n k s else Some ((), s))"

subsection \<open>Registers\<close>

definition cct_mode :: "t_mem \<Rightarrow> int" where
  "cct_mode val = (let md = val AND 0x03 in if md = 0x01 then 1 else if md = 0x02 then 2
     else if md = 0x03 then 3 else 0)"

definition cct_write_base :: "'z cc_hw \<Rightarrow> int \<Rightarrow> cell \<Rightarrow> t_mem \<Rightarrow> (unit, 'z) cact" where
  "cct_write_base hw n cell val s =
     (if cell = cct_ctl n then
        get_next_cc_event hw n (upd_cct n (\<lambda>t. t\<lparr>cc_TR := 0, cc_mode := cct_mode val\<rparr>) s)
      else if cell = cell_clkconcmd then
        Some ((), upd_cct n (\<lambda>t. t\<lparr>tickspd := 2 ^ nat ((val AND 0x38) div 8), systemTicks := 0\<rparr>) s)
      else Some ((), s))"

text \<open>The cells of the compare registers of timer 1: low bytes at even positions, high bytes at odd ones.\<close>

definition t1cc_channel :: "cell \<Rightarrow> (int \<times> bool) option" where
  "t1cc_channel c = (case c of
     Cell Sfr k \<Rightarrow> if 0x5A \<le> k \<and> k \<le> 0x5F then Some ((k - 0x5A) div 2, odd k) else None
   | Cell Xram k \<Rightarrow> if 0x62AC \<le> k \<and> k \<le> 0x62AF then Some (3 + (k - 0x62AC) div 2, odd k) else None
   | _ \<Rightarrow> None)"

definition t1_prescale :: "t_mem \<Rightarrow> int" where
  "t1_prescale val = (if (val AND 0x0C) div 4 \<noteq> 0 then 2 ^ nat (1 + (val AND 0x0C) div 2) else 1)"

definition t1_write :: "'z cc_hw \<Rightarrow> cell \<Rightarrow> t_mem \<Rightarrow> (t_mem, 'z) cact" where
  "t1_write hw cell val s = do {
     (_, s) \<leftarrow> cct_write_base hw 1 cell val s;
     let s = (if cell = cct_ctl 1 then upd_cct 1 (\<lambda>t. t\<lparr>prescale := t1_prescale val\<rparr>) s else s);
     let s = (case t1cc_channel cell of None \<Rightarrow> s
       | Some (i, h) \<Rightarrow>
           (let s = upd_cct 1 (\<lambda>t. t\<lparr>channelID := i, t_high := h\<rparr>) s
            in if i = 0 \<and> h
               then cell_set_bit1 cell_ircon (IrconFlag 1) (cell_set_bit1 (cell_FlagReg 1) 1 s) else s));
     let t = cctimers s 1;
     let s = upd_tch 1 (channelID t) (\<lambda>c. c\<lparr>ValRegCMP := to_short
       (if t_high t then (ValRegCMP c AND 0xFF) + val * 256 else (ValRegCMP c AND 0xFF00) + val)\<rparr>) s;
     (_, s) \<leftarrow> get_next_cc_event hw 1 s;
     Some (val, s)
   }"

definition t34_write :: "'z cc_hw \<Rightarrow> int \<Rightarrow> cell \<Rightarrow> t_mem \<Rightarrow> (t_mem, 'z) cact" where
  "t34_write hw n cell val s = do {
     (_, s) \<leftarrow> cct_write_base hw n cell val s;
     let s = (if cell = cct_ctl n then upd_cct n (\<lambda>t. t\<lparr>cc_TR := val AND 0x10,
                prescale := 2 ^ nat (val div 32)\<rparr>) s else s);
     (_, s) \<leftarrow> (if cell = Cell Sfr (RegCMPL n 0 - 0x80) then
         get_next_cc_event hw n (upd_tch n 0 (\<lambda>c. c\<lparr>ValRegCMP := to_schar val\<rparr>) s)
       else if cell = Cell Sfr (RegCMPL n 1 - 0x80) then
         get_next_cc_event hw n (upd_tch n 1 (\<lambda>c. c\<lparr>ValRegCMP := to_schar val\<rparr>) s)
       else Some ((), s));
     Some (val, s)
   }"

definition cct_write :: "'z cc_hw \<Rightarrow> int \<Rightarrow> cell \<Rightarrow> t_mem \<Rightarrow> (t_mem, 'z) cact" where
  "cct_write hw n cell val s = (if n = 1 then t1_write hw cell val s else t34_write hw n cell val s)"

definition cct_reset :: "'z cc_hw \<Rightarrow> int \<Rightarrow> (unit, 'z) cact" where
  "cct_reset hw n s =
     (if n = 1 then do {
        (_, s) \<leftarrow> cell_write hw (cct_tl n) 0 s;
        (_, s) \<leftarrow> cell_write hw (Cell Sfr 0x63) 0 s;
        Some ((), upd_cct n (\<lambda>t. t\<lparr>channelID := 0, t_high := False, up_down := False, tickspd := 1,
          systemTicks := 0, prescale := 1, t_count := 0\<rparr>) s)
      }
      else do { (_, s) \<leftarrow> cell_write hw (cct_tl n) 0 s; Some ((), s) })"

definition cct_added :: "int \<Rightarrow> 'z cc2530_scheme \<Rightarrow> 'z cc2530_scheme option" where
  "cct_added n s = add_it_src
     (if n = 1 then mk_it_src r_IEN1 0x02 r_IRCON 0x02 0x004b True ''timer #1 interrupt'' 4
      else if n = 3 then mk_it_src r_IEN1 0x08 r_IRCON 0x08 0x005b True ''timer #3 interrupt'' 4
      else mk_it_src r_IEN1 0x10 r_IRCON 0x10 0x0063 True ''timer #4 overflow'' 4) s"

end
