(* ===== verification/Mac2530.thy ===== *)
theory Mac2530
  imports Timer2530
begin

text \<open>
  The MAC timer (\<open>CC2530timer2.cc\<close>): a 16-bit counter with a period, two compare values and an
  overflow counter of three bytes, all reached through the register windows \<open>T2M0/1\<close> and
  \<open>T2MOVF0..2\<close>. The count is unsigned, the values it is compared with are signed.
\<close>

abbreviation "cell_t2m0 \<equiv> Cell Sfr 0x22"
abbreviation "cell_t2m1 \<equiv> Cell Sfr 0x23"
abbreviation "cell_t2irqf \<equiv> Cell Sfr 0x21"
abbreviation "cell_t2evtcfg \<equiv> Cell Sfr 0x1C"
abbreviation "cell_t2ctrl \<equiv> Cell Sfr 0x14"
abbreviation "cell_t2msel \<equiv> Cell Sfr 0x43"
abbreviation "cell_cspt \<equiv> Cell Xram 0x61E5"
abbreviation "bmT2IF \<equiv> (0x04 :: int)"

definition upd_mac :: "(mac_timer \<Rightarrow> mac_timer) \<Rightarrow> 'z cc2530_scheme \<Rightarrow> 'z cc2530_scheme" where
  "upd_mac f s = s\<lparr>mac := f (mac s)\<rparr>"

definition set_ovf :: "int \<Rightarrow> int \<Rightarrow> int \<Rightarrow> mac_timer \<Rightarrow> mac_timer" where
  "set_ovf sel k v m = m\<lparr>OVF := (OVF m)(sel := (OVF m sel)(k := to_schar v))\<rparr>"

definition mac_reset :: "(unit, 'z) cact" where
  "mac_reset s = Some ((), upd_mac (\<lambda>_. \<lparr>m_mode = 0, m_run = False, m_event = False,
     T2_EVENT1 = False, T2_EVENT2 = False, t2msel = 0, t2movfsel = 0, m_count = 0, t2_cap = 0,
     t2_per = 0, t2_cmp1 = 0, t2_cmp2 = 0, OVF = (\<lambda>_ _. 0)\<rparr>) s)"

subsection \<open>Events\<close>

text \<open>The request test of the source compares the masked register with 1, whatever the mask.\<close>

definition mac_raise :: "'z cc_hw \<Rightarrow> int \<Rightarrow> (unit, 'z) cact" where
  "mac_raise hw m s = do {
     let s = cell_set_bit1 cell_t2irqf m s;
     (v, s) \<leftarrow> as_read hw Sfr r_T2IRQM s;
     let s = (if v AND m = 1 then cell_set_bit1 cell_ircon bmT2IF s else s);
     Some ((), upd_mac (\<lambda>t. t\<lparr>m_event := True\<rparr>) s)
   }"

definition ovf_step :: "mac_timer \<Rightarrow> mac_timer" where
  "ovf_step m =
     (let m = set_ovf 0 0 (OVF m 0 0 + 1) m in
      if OVF m 0 0 = 0 then
        (let m = set_ovf 0 1 (OVF m 0 1 + 1) m in
         if OVF m 0 1 = 0 then set_ovf 0 2 (OVF m 0 2 + 1) m else m)
      else m)"

definition ovf_at :: "int \<Rightarrow> mac_timer \<Rightarrow> bool" where
  "ovf_at sel m \<longleftrightarrow> OVF m 0 2 = OVF m sel 2 \<and> OVF m 0 1 = OVF m sel 1 \<and> OVF m 0 0 = OVF m sel 0"

definition mac_overflow :: "'z cc_hw \<Rightarrow> (unit, 'z) cact" where
  "mac_overflow hw s = do {
     (_, s) \<leftarrow> hw_happen hw Hw_usart1 (EV_OVERFLOW Hw_MAC_timer) s;
     (_, s) \<leftarrow> hw_happen hw Hw_CC2530radio (EV_OVERFLOW Hw_MAC_timer) s;
     (_, s) \<leftarrow> hw_happen hw Hw_DMA (EV_OVERFLOW Hw_MAC_timer) s;
     let cspt = cell_get cell_cspt s;
     let s = (if cspt \<noteq> 0xFF then snd (cell_set cell_cspt (cspt - 1) s) else s);
     let s = upd_mac ovf_step s;
     (_, s) \<leftarrow> (if ovf_at 2 (mac s) then do {
         let s = upd_mac (\<lambda>m. set_ovf 0 0 0 (set_ovf 0 1 0 (set_ovf 0 2 0 m))) s;
         mac_raise hw 0x08 s
       } else Some ((), s));
     (_, s) \<leftarrow> (if ovf_at 3 (mac s) then mac_raise hw 0x10 s else Some ((), s));
     if ovf_at 4 (mac s) then mac_raise hw 0x20 s else Some ((), s)
   }"

definition CountCompare :: "'z cc_hw \<Rightarrow> (unit, 'z) cact" where
  "CountCompare hw s = do {
     let s = upd_mac (\<lambda>m. m\<lparr>T2_EVENT1 := False, T2_EVENT2 := False\<rparr>) s;
     (_, s) \<leftarrow> (if m_count (mac s) = t2_cmp1 (mac s) then mac_raise hw 0x02 s else Some ((), s));
     (_, s) \<leftarrow> (if m_count (mac s) = t2_cmp2 (mac s) then mac_raise hw 0x04 s else Some ((), s));
     (_, s) \<leftarrow> (if m_count (mac s) = t2_per (mac s) \<and> t2_per (mac s) \<noteq> 0 then do {
         (_, s) \<leftarrow> mac_overflow hw (upd_mac (\<lambda>m. m\<lparr>m_count := 0\<rparr>) s);
         mac_raise hw 0x01 s
       } else Some ((), s));
     if m_event (mac s) then
       (let e1 = cell_get cell_t2evtcfg s AND 0x07;
            e2 = (cell_get cell_t2evtcfg s div 16) AND 0x07
        in Some ((), upd_mac (\<lambda>m. m\<lparr>
             T2_EVENT1 := (cell_get cell_t2irqf s AND to_schar (2 ^ nat e1) \<noteq> 0),
             T2_EVENT2 := (cell_get cell_t2irqf s AND to_schar (2 ^ nat e2) \<noteq> 0)\<rparr>) s))
     else Some ((), upd_mac (\<lambda>m. m\<lparr>T2_EVENT1 := False, T2_EVENT2 := False\<rparr>)
            (snd (cell_set cell_t2irqf 0 s)))
   }"

subsection \<open>Counting\<close>

definition up_step :: "'z cc_hw \<Rightarrow> (unit, 'z) cact" where
  "up_step hw s = do {
     let s = upd_mac (\<lambda>m. m\<lparr>m_event := False, m_count := to_tmem (m_count m + 1)\<rparr>) s;
     (_, s) \<leftarrow> (if m_count (mac s) = 0 then mac_overflow hw s else Some ((), s));
     CountCompare hw s
   }"

definition delta_step :: "'z cc_hw \<Rightarrow> (unit, 'z) cact" where
  "delta_step hw s = do {
     let s = upd_mac (\<lambda>m. m\<lparr>m_event := False\<rparr>) s;
     let s = upd_mac (\<lambda>m. if m_count m = 0 then m\<lparr>m_mode := 0\<rparr> else m\<lparr>m_count := m_count m - 1\<rparr>) s;
     CountCompare hw s
   }"

definition mac_tick :: "'z cc_hw \<Rightarrow> int \<Rightarrow> (unit, 'z) cact" where
  "mac_tick hw cycles s =
     (if m_mode (mac s) = 0 then
        (if cycles < 0 then None else repeat_step (nat cycles) (up_step hw) s)
      else if m_mode (mac s) = 1 then
        (if cycles < 0 then None else repeat_step (nat cycles) (delta_step hw) s)
      else Some ((), s))"

subsection \<open>Registers\<close>

definition sel_value :: "int \<Rightarrow> mac_timer \<Rightarrow> int option" where
  "sel_value sel m = (if sel = 0 then Some (m_count m) else if sel = 1 then Some (t2_cap m)
     else if sel = 2 then Some (t2_per m) else if sel = 3 then Some (t2_cmp1 m)
     else if sel = 4 then Some (t2_cmp2 m) else None)"

definition set_sel_value :: "int \<Rightarrow> int \<Rightarrow> mac_timer \<Rightarrow> mac_timer" where
  "set_sel_value sel v m = (if sel = 0 then m\<lparr>m_count := to_tmem v\<rparr>
     else if sel = 1 then m\<lparr>t2_cap := to_short v\<rparr> else if sel = 2 then m\<lparr>t2_per := to_short v\<rparr>
     else if sel = 3 then m\<lparr>t2_cmp1 := to_short v\<rparr> else if sel = 4 then m\<lparr>t2_cmp2 := to_short v\<rparr> else m)"

definition movf_index :: "cell \<Rightarrow> int option" where
  "movf_index c = (case c of Cell Sfr k \<Rightarrow> if 0x24 \<le> k \<and> k \<le> 0x26 then Some (k - 0x24) else None | _ \<Rightarrow> None)"

definition mac_write :: "cell \<Rightarrow> t_mem \<Rightarrow> (t_mem, 'z) cact" where
  "mac_write cell val s =
     (let s =
        (if cell = cell_t2ctrl then upd_mac (\<lambda>m. m\<lparr>m_run := (val AND 0x01 \<noteq> 0)\<rparr>) s
         else if cell = cell_t2msel then
           upd_mac (\<lambda>m. m\<lparr>t2movfsel := (val div 16) AND 0x07, t2msel := val AND 0x07\<rparr>) s
         else if cell = cell_t2m0 then upd_mac (\<lambda>m. set_sel_value (t2msel m) val m) s
         else if cell = cell_t2m1 then
           upd_mac (\<lambda>m. (let m' = set_sel_value (t2msel m) (val * 256 + cell_get cell_t2m0 s) m
             in if t2msel m = 0 \<and> m_run m then m'\<lparr>m_mode := 1\<rparr> else m')) s
         else case movf_index cell of
             Some k \<Rightarrow> upd_mac (\<lambda>m. if 0 \<le> t2movfsel m \<and> t2movfsel m \<le> 4
               then set_ovf (t2movfsel m) k val m else m) s
           | None \<Rightarrow> s)
      in Some (val, s))"

definition mac_read :: "cell \<Rightarrow> (t_mem, 'z) cact" where
  "mac_read cell s =
     (let m = mac s in
      case (if cell = cell_t2m0 then map_option (\<lambda>v. v AND 0xFF) (sel_value (t2msel m) m)
            else if cell = cell_t2m1 then map_option (\<lambda>v. (v div 256) AND 0xFF) (sel_value (t2msel m) m)
            else case movf_index cell of
                Some k \<Rightarrow> if 0 \<le> t2movfsel m \<and> t2movfsel m \<le> 4
                  then Some (to_tmem (OVF m (t2movfsel m) k)) else None
              | None \<Rightarrow> None) of
        Some v \<Rightarrow> Some (v, s)
      | None \<Rightarrow> Some (cell_get cell s, s))"

definition mac_added :: "'z cc2530_scheme \<Rightarrow> 'z cc2530_scheme option" where
  "mac_added s = add_it_src (mk_it_src r_IEN1 0x04 r_IRCON bmT2IF 0x004b True ''timer #2 overflow'' 4) s"

end
