(* ===== verification/Usart2530.thy ===== *)
theory Usart2530
  imports Cc2530
begin

text \<open>
  The USARTs of the CC2530 (\<open>CC2530usart.cc\<close>) and the serial line of the 8051 (\<open>serial.cc\<close>).
  The baud divisor is kept as the exact fraction (256 + baud_m) * 2^baud_e / 2^28 the source holds in
  a \<open>double\<close>; \<open>baud_set\<close> tells whether the factor is still the 0 of \<open>reset\<close>. The serial line reads
  from \<open>line_in\<close>, the bytes that have arrived, and writes to \<open>line_out\<close>.
\<close>

subsection \<open>USART registers\<close>

definition u_csr :: "int \<Rightarrow> cell" where "u_csr n = Cell Sfr (if n = 0 then 0x06 else 0x78)"
definition u_dbuf :: "int \<Rightarrow> cell" where "u_dbuf n = Cell Sfr (if n = 0 then 0x41 else 0x79)"
definition u_ucr :: "int \<Rightarrow> cell" where "u_ucr n = Cell Sfr (if n = 0 then 0x44 else 0x7B)"
definition u_gcr :: "int \<Rightarrow> cell" where "u_gcr n = Cell Sfr (if n = 0 then 0x45 else 0x7C)"
definition u_baud :: "int \<Rightarrow> cell" where "u_baud n = Cell Sfr (if n = 0 then 0x42 else 0x7A)"
definition bmURXxIF :: "int \<Rightarrow> int" where "bmURXxIF n = (if n = 0 then 0x08 else 0x80)"
definition bmUTXxIF :: "int \<Rightarrow> int" where "bmUTXxIF n = (if n = 0 then 0x02 else 0x04)"

abbreviation "bmActive \<equiv> (0x01 :: int)"
abbreviation "bmTx_byte \<equiv> (0x02 :: int)"
abbreviation "bmRx_byte \<equiv> (0x04 :: int)"
abbreviation "bmErr \<equiv> (0x08 :: int)"
abbreviation "bmFe \<equiv> (0x10 :: int)"
abbreviation "cell_ircon2 \<equiv> Cell Sfr 0x68"
abbreviation "u_tcon \<equiv> Cell Sfr 0x08"

definition upd_usart :: "int \<Rightarrow> (usart \<Rightarrow> usart) \<Rightarrow> 'z cc2530_scheme \<Rightarrow> 'z cc2530_scheme" where
  "upd_usart n f s = s\<lparr>usarts := (usarts s)(n := f (usarts s n))\<rparr>"

definition usart_reset :: "int \<Rightarrow> (unit, 'z) cact" where
  "usart_reset n s = Some ((), upd_usart n (\<lambda>u. u\<lparr>stopBitLevel := True, startBitLevel := False,
     TXD := True, RXD := True, u_mode := 0, slave := False, TickCountForBaud := 0, u_RX := False,
     u_TX := False, bitRxCnt := 0, bitTxCnt := 0, BitNumber := 0, StopBits := 0, u_queue := False,
     baud_m := 0, baud_e := 0, UsartID := 0, baud_set := False\<rparr>) s)"

subsection \<open>Shifting\<close>

primrec check_loop :: "nat \<Rightarrow> int \<Rightarrow> int \<Rightarrow> int" where
  "check_loop 0 b check = check"
| "check_loop (Suc k) b check = (let b = b div 2 in check_loop k b (check XOR (b AND 0x01)))"

definition parity_check :: "int \<Rightarrow> int \<Rightarrow> 'z mem_scheme \<Rightarrow> bool" where
  "parity_check n b s =
     (let check = check_loop 7 b (b AND 0x01)
      in if cell_get (u_ucr n) s AND 0x20 = 0 then check = 0 else check \<noteq> 0)"

text \<open>The received bits are those of a fixed table of eleven entries.\<close>

definition testTab :: "bool list" where
  "testTab = [False, True, False, True, False, True, False, True, False, True, True]"

text \<open>
  \<open>rx\<close> tells which pin a bit is read from: \<open>True\<close> for \<open>RXD\<close>, \<open>False\<close> for \<open>MISO\<close>; \<open>shift_out\<close> writes
  \<open>TXD\<close> or \<open>MOSI\<close>. The order test \<open>cell_uXgcr && bmOrder\<close> is always true: most significant bit first.
\<close>

definition set_in_pin :: "bool \<Rightarrow> bool \<Rightarrow> usart \<Rightarrow> usart" where
  "set_in_pin rx v u = (if rx then u\<lparr>RXD := v\<rparr> else u\<lparr>MISO := v\<rparr>)"

definition set_out_pin :: "bool \<Rightarrow> bool \<Rightarrow> usart \<Rightarrow> usart" where
  "set_out_pin tx v u = (if tx then u\<lparr>TXD := v\<rparr> else u\<lparr>MOSI := v\<rparr>)"

definition rx_data_bit :: "int \<Rightarrow> bool \<Rightarrow> 'z cc2530_scheme \<Rightarrow> 'z cc2530_scheme" where
  "rx_data_bit n pin s =
     (let r = to_tmem (regForRx (usarts s n) * 2);
          r = (if pin then r + 1 else r);
          s = (if pin then snd (cell_set (u_dbuf n) r s) else s)
      in upd_usart n (\<lambda>u. u\<lparr>regForRx := r AND 0xFF\<rparr>) s)"

definition rx_end :: "'z cc_hw \<Rightarrow> int \<Rightarrow> (unit, 'z) cact" where
  "rx_end hw n s = do {
     let s = cell_set_bit1 (u_csr n) bmRx_byte s;
     let s = cell_set_bit1 u_tcon (bmURXxIF n) s;
     (_, s) \<leftarrow> hw_happen hw Hw_DMA (if UsartID (usarts s n) = 0 then EV_URX0 else EV_URX1) s;
     let s = cell_set_bit0 (u_csr n) bmActive s;
     Some ((), upd_usart n (\<lambda>u. u\<lparr>u_RX := False, bitRxCnt := 0\<rparr>) s)
   }"

definition rx_check :: "int \<Rightarrow> bool \<Rightarrow> 'z cc2530_scheme \<Rightarrow> 'z cc2530_scheme" where
  "rx_check n pin s =
     (let u = usarts s n; k = bitRxCnt u in
      if BitNumber u = 9 then
        (let s = (if k = 10 then
               (let s = upd_usart n (\<lambda>u. u\<lparr>RxParity := pin\<rparr>) s
                in if pin \<noteq> parity_check n (regForRx u) s then cell_set_bit1 (u_csr n) bmErr s else s)
             else s)
         in if 11 \<le> k \<and> k < 11 + StopBits u \<and> pin \<noteq> stopBitLevel u
            then cell_set_bit1 (u_csr n) bmFe s else s)
      else if 10 \<le> k \<and> k < 10 + StopBits u \<and> pin \<noteq> stopBitLevel u
      then cell_set_bit1 (u_csr n) bmFe s else s)"

definition Shift_in :: "'z cc_hw \<Rightarrow> int \<Rightarrow> bool \<Rightarrow> (unit, 'z) cact" where
  "Shift_in hw n rx s = do {
     let s = upd_usart n (set_in_pin rx (testTab ! 0)) s;
     if bitRxCnt (usarts s n) = 0 \<and> testTab ! 0 \<noteq> startBitLevel (usarts s n) then Some ((), s)
     else do {
       let s = upd_usart n (\<lambda>u. u\<lparr>bitRxCnt := bitRxCnt u + 1\<rparr>) s;
       let k = bitRxCnt (usarts s n);
       pin \<leftarrow> (if 1 \<le> k \<and> k \<le> 11 then Some (testTab ! nat (k - 1)) else None);
       let s = upd_usart n (set_in_pin rx pin) s;
       let s = (if k = 10 \<and> BitNumber (usarts s n) = 9 then upd_usart n (\<lambda>u. u\<lparr>RxParity := pin\<rparr>) s
         else if 2 \<le> k \<and> k \<le> 9 then rx_data_bit n pin s else s);
       if BitNumber (usarts s n) + 1 \<le> k then do {
         let s = rx_check n pin s;
         let u = usarts s n;
         if k = BitNumber u + StopBits u + 1 then rx_end hw n s else Some ((), s)
       }
       else Some ((), s)
     }
   }"

definition tx_end :: "'z cc_hw \<Rightarrow> int \<Rightarrow> (unit, 'z) cact" where
  "tx_end hw n s = do {
     let s = upd_usart n (\<lambda>u. u\<lparr>u_TX := False, bitTxCnt := 0\<rparr>) s;
     let s = cell_set_bit1 (u_csr n) bmTx_byte s;
     let s = cell_set_bit1 cell_ircon2 (bmUTXxIF n) s;
     (_, s) \<leftarrow> hw_happen hw Hw_DMA (if UsartID (usarts s n) = 0 then EV_UTX0 else EV_UTX1) s;
     if u_queue (usarts s n)
     then Some ((), upd_usart n (\<lambda>u. u\<lparr>u_TX := True, regForTx := cell_get (u_dbuf n) s,
            bitTxCnt := 0, u_queue := False\<rparr>) s)
     else Some ((), cell_set_bit0 (u_csr n) bmActive s)
   }"

definition Shift_out :: "'z cc_hw \<Rightarrow> int \<Rightarrow> bool \<Rightarrow> (unit, 'z) cact" where
  "Shift_out hw n tx s = do {
     let s = upd_usart n (\<lambda>u. u\<lparr>bitTxCnt := bitTxCnt u + 1\<rparr>) s;
     let u = usarts s n;
     if bitTxCnt u \<le> 1 then Some ((), upd_usart n (set_out_pin tx (startBitLevel u)) s)
     else if bitTxCnt u < 10 then
       Some ((), upd_usart n (\<lambda>u. (set_out_pin tx (regForTx u AND 0x80 \<noteq> 0) u)
         \<lparr>regForTx := to_tmem (regForTx u * 2) AND 0xFF\<rparr>) s)
     else do {
       let s = upd_usart n (set_out_pin tx (if BitNumber u = 9 \<and> bitTxCnt u = 10
                 then TxParity u else stopBitLevel u)) s;
       if BitNumber u + StopBits u + 1 \<le> bitTxCnt u then tx_end hw n s else Some ((), s)
     }
   }"

definition BaudTick :: "'z cc_hw \<Rightarrow> int \<Rightarrow> (unit, 'z) cact" where
  "BaudTick hw n s =
     (if cell_get (u_csr n) s AND bmActive \<noteq> 1 then Some ((), s)
      else if u_mode (usarts s n) = 0 then
        (if \<not> slave (usarts s n) then do { (_, s) \<leftarrow> Shift_out hw n False s; Shift_in hw n False s }
         else None)
      else do {
        (_, s) \<leftarrow> (if u_RX (usarts s n) then Shift_in hw n True s else Some ((), s));
        if u_TX (usarts s n) then Shift_out hw n True s else Some ((), s)
      })"

definition baud_due :: "usart \<Rightarrow> bool" where
  "baud_due u \<longleftrightarrow> baud_set u \<and> 2 ^ 28 \<le> TickCountForBaud u * ((256 + baud_m u) * 2 ^ nat (baud_e u))"

primrec usart_loop :: "'z cc_hw \<Rightarrow> int \<Rightarrow> nat \<Rightarrow> (unit, 'z) cact" where
  "usart_loop hw n 0 s = Some ((), s)"
| "usart_loop hw n (Suc k) s = do {
     let s = upd_usart n (\<lambda>u. u\<lparr>TickCountForBaud := TickCountForBaud u + 1,
               u_mode := cell_get (u_csr n) s AND 0x80\<rparr>) s;
     let u = usarts s n;
     (_, s) \<leftarrow> (if \<not> (u_mode u = 0 \<and> slave u) \<and> baud_due u then do {
         (_, s) \<leftarrow> BaudTick hw n s;
         Some ((), upd_usart n (\<lambda>u. u\<lparr>TickCountForBaud := 0\<rparr>) s)
       } else Some ((), s));
     usart_loop hw n k s
   }"

definition usart_tick :: "'z cc_hw \<Rightarrow> int \<Rightarrow> int \<Rightarrow> (unit, 'z) cact" where
  "usart_tick hw n cycles s = (if cycles < 0 then None else usart_loop hw n (nat cycles) s)"

subsection \<open>USART register access\<close>

definition write_ucr :: "t_mem \<Rightarrow> usart \<Rightarrow> usart" where
  "write_ucr val u =
     (let u = u\<lparr>BitNumber := (if val AND (0x10 AND 0x08 * 2) = 0 then 8 else 9)\<rparr>;
          k = val AND 0x03;
          u = (if k = 1 then u\<lparr>startBitLevel := True, stopBitLevel := False\<rparr>
               else if k = 2 then u\<lparr>startBitLevel := False, stopBitLevel := True\<rparr> else u)
      in u\<lparr>StopBits := (if val AND 0x04 = 0 then 1 else 2)\<rparr>)"

text \<open>The flush test compares the masked value with 1 and never holds.\<close>

definition usart_write :: "int \<Rightarrow> cell \<Rightarrow> t_mem \<Rightarrow> (t_mem, 'z) cact" where
  "usart_write n cell val s =
     (if cell = u_dbuf n then
        (if u_TX (usarts s n) then Some (val, upd_usart n (\<lambda>u. u\<lparr>u_queue := True\<rparr>) s)
         else (let s = upd_usart n (\<lambda>u. u\<lparr>u_TX := True, regForTx := val\<rparr>) s;
                   s = cell_set_bit1 (u_csr n) bmActive s;
                   s = upd_usart n (\<lambda>u. u\<lparr>bitTxCnt := 0, TxParity := (if BitNumber u = 9
                         then parity_check n (regForTx u) s else TxParity u)\<rparr>) s
               in Some (val, s)))
      else if cell = u_baud n then Some (val, upd_usart n (\<lambda>u. u\<lparr>baud_m := val, baud_set := True\<rparr>) s)
      else if cell = u_gcr n then
        Some (val, upd_usart n (\<lambda>u. u\<lparr>baud_e := val * 0x1F, baud_set := True\<rparr>) s)
      else if cell = u_csr n then
        (let s = (if val AND 0x40 \<noteq> 0
               then cell_set_bit1 (u_csr n) bmActive (upd_usart n (\<lambda>u. u\<lparr>u_RX := True\<rparr>) s) else s);
             s = (if val AND 0x20 \<noteq> 0 then upd_usart n (\<lambda>u. u\<lparr>slave := True\<rparr>) s else s)
         in Some (val, s))
      else if cell = u_ucr n then
        (let s = upd_usart n (write_ucr val) s in
         if val AND 0x80 = 1 then
           Some (val, upd_usart n (\<lambda>u. u\<lparr>u_TX := False, u_RX := False, regForTx := 0, regForRx := 0\<rparr>)
             (snd (cell_set (u_dbuf n) 0 (cell_set_bit0 (u_csr n) bmActive s))))
         else Some (val, s))
      else Some (val, s))"

definition usart_read :: "int \<Rightarrow> cell \<Rightarrow> (t_mem, 'z) cact" where
  "usart_read n cell s =
     (let s = (if cell = u_csr n
        then cell_set_bit0 (u_csr n) bmFe (cell_set_bit0 (u_csr n) bmErr s) else s)
      in Some (cell_get cell s, s))"

definition usart_added :: "int \<Rightarrow> 'z cc2530_scheme \<Rightarrow> 'z cc2530_scheme option" where
  "usart_added n s = do {
     s \<leftarrow> add_it_src (mk_it_src r_IEN0 (if n = 0 then 0x04 else 0x08) r_TCON (bmURXxIF n)
       (if n = 0 then 0x13 else 0x1B) True (if n = 0 then ''USART 0 RX'' else ''USART 1 RX'') 4) s;
     add_it_src (mk_it_src r_IEN2 (if n = 0 then 0x04 else 0x08) r_IRCON2 (bmUTXxIF n)
       (if n = 0 then 0x3B else 0x73) True (if n = 0 then ''USART 0 TX'' else ''USART 1 TX'') 4) s
   }"

subsection \<open>The serial line of the 8051\<close>

abbreviation "cell_sbuf \<equiv> Cell Sfr 0x19"
abbreviation "cell_pcon \<equiv> Cell Sfr 0x07"
abbreviation "cell_scon \<equiv> Cell Sfr 0x18"

definition upd_ser :: "(uart \<Rightarrow> uart) \<Rightarrow> 'z cc2530_scheme \<Rightarrow> 'z cc2530_scheme" where
  "upd_ser f s = s\<lparr>ser := f (ser s)\<rparr>"

definition serial_read :: "cell \<Rightarrow> (t_mem, 'z) cact" where
  "serial_read cell s = Some (if cell = cell_sbuf then s_in (ser s) else cell_get cell s, s)"

definition smod_div :: "bool \<Rightarrow> int" where
  "smod_div b = (if b then 16 else 32)"

definition write_scon :: "t_mem \<Rightarrow> uart \<Rightarrow> uart" where
  "write_scon val u =
     (let m = to_uchar (val div 64);
          u = u\<lparr>uart_mode := m, uart_REN := (val AND 0x10 \<noteq> 0), uart_bits := 8\<rparr>
      in if m = 0 then u\<lparr>uart_divby := 12\<rparr>
         else if m = 1 then u\<lparr>uart_bits := 10, uart_divby := smod_div (uart_SMOD u)\<rparr>
         else if m = 2 \<or> m = 3 then u\<lparr>uart_bits := 11, uart_divby := smod_div (uart_SMOD u)\<rparr>
         else u)"

definition write_pcon :: "t_mem \<Rightarrow> uart \<Rightarrow> uart" where
  "write_pcon val u =
     (let u = u\<lparr>uart_SMOD := (val AND 0x80 \<noteq> 0)\<rparr>
      in if uart_mode u \<noteq> 0 then u\<lparr>uart_divby := smod_div (uart_SMOD u)\<rparr> else u)"

definition serial_write :: "cell \<Rightarrow> t_mem \<Rightarrow> (t_mem, 'z) cact" where
  "serial_write cell val s =
     (if cell = cell_sbuf then Some (val, upd_ser (\<lambda>u. u\<lparr>s_out := to_uchar val, s_sending := True,
          s_tr_bit := 0, s_tr_tick := 0, s_tr_t1 := 0\<rparr>) s)
      else if cell = cell_scon then Some (val, upd_ser (write_scon val) s)
      else if cell = cell_pcon then Some (val, upd_ser (write_pcon val) s)
      else Some (val, s))"

text \<open>The loop \<open>while (src >= divby)\<close>; it never ends for a divisor 0.\<close>

function bit_cnt_loop :: "int \<Rightarrow> int \<Rightarrow> int \<Rightarrow> int \<times> int" where
  "bit_cnt_loop divby src bits =
     (if 0 < divby \<and> divby \<le> src then bit_cnt_loop divby (src - divby) (bits + 1) else (src, bits))"
  by pat_completeness auto
termination
  by (relation "measure (\<lambda>(d, src, b). nat src)") auto

declare bit_cnt_loop.simps [simp del]

definition bit_cnt :: "int \<Rightarrow> int \<Rightarrow> int \<Rightarrow> (int \<times> int) option" where
  "bit_cnt divby src bits = (if divby = 0 \<and> 0 \<le> src then None else Some (bit_cnt_loop divby src bits))"

definition serial_bit_cnt :: "uart \<Rightarrow> uart option" where
  "serial_bit_cnt u = do {
     let u = (if t2_baud u then u\<lparr>uart_divby := 16\<rparr> else u);
     let m = uart_mode u;
     u \<leftarrow> (if \<not> s_sending u then Some u
       else if m = 0 \<or> m = 2 then do {
         (r, b) \<leftarrow> bit_cnt (uart_divby u) (s_tr_tick u) (s_tr_bit u);
         Some (u\<lparr>s_tr_tick := r, s_tr_bit := b\<rparr>) }
       else if m = 1 \<or> m = 3 then do {
         (r, b) \<leftarrow> bit_cnt (uart_divby u) (s_tr_t1 u) (s_tr_bit u);
         Some (u\<lparr>s_tr_t1 := r, s_tr_bit := b\<rparr>) }
       else None);
     if \<not> s_receiving u then Some u
     else if m = 0 \<or> m = 2 then do {
       (r, b) \<leftarrow> bit_cnt (uart_divby u) (s_rec_tick u) (s_rec_bit u);
       Some (u\<lparr>s_rec_tick := r, s_rec_bit := b\<rparr>) }
     else if m = 1 \<or> m = 3 then do {
       (r, b) \<leftarrow> bit_cnt (uart_divby u) (s_rec_t1 u) (s_rec_bit u);
       Some (u\<lparr>s_rec_t1 := r, s_rec_bit := b\<rparr>) }
     else None
   }"

definition serial_tick :: "int \<Rightarrow> (unit, 'z) cact" where
  "serial_tick cycles s = do {
     u \<leftarrow> serial_bit_cnt (ser s);
     let s = upd_ser (\<lambda>_. u) s;
     let s = (if s_sending u \<and> uart_bits u \<le> s_tr_bit u then
         cell_set_bit1 cell_scon 0x02 (upd_ser (\<lambda>u. u\<lparr>s_sending := False,
           line_out := (if out_open u then line_out u @ [s_out u] else line_out u),
           s_tr_bit := s_tr_bit u - uart_bits u\<rparr>) s)
       else s);
     let u = ser s;
     let s = (if uart_REN u \<and> in_open u \<and> \<not> s_receiving u \<and> line_in u \<noteq> []
       then upd_ser (\<lambda>u. u\<lparr>s_receiving := True, s_rec_bit := 0, s_rec_tick := 0, s_rec_t1 := 0\<rparr>) s
       else s);
     let u = ser s;
     let s = (if s_receiving u \<and> uart_bits u \<le> s_rec_bit u then
         (let s = (case line_in u of [] \<Rightarrow> s
            | c # cs \<Rightarrow>
                (let s = upd_ser (\<lambda>u. u\<lparr>s_in := c, line_in := cs\<rparr>) s;
                     s = snd (cell_set cell_sbuf c s)
                 in cell_set_bit1 cell_scon 0x01 s))
          in upd_ser (\<lambda>u. u\<lparr>s_receiving := False, s_rec_bit := s_rec_bit u - uart_bits u\<rparr>) s)
       else s);
     Some ((), upd_ser (\<lambda>u. u\<lparr>s_tr_tick := s_tr_tick u + cycles * 12,
       s_rec_tick := s_rec_tick u + cycles * 12\<rparr>) s)
   }"

definition serial_reset :: "(unit, 'z) cact" where
  "serial_reset s = Some ((), upd_ser (\<lambda>u. u\<lparr>s_tr_t1 := 0, s_rec_t1 := 0, s_tr_tick := 0,
     s_rec_tick := 0, s_in := 0, s_out := 0, s_sending := False, s_receiving := False,
     s_rec_bit := 0, s_tr_bit := 0\<rparr>) s)"

fun serial_happen :: "hw_event \<Rightarrow> (unit, 'z) cact" where
  "serial_happen (EV_OVERFLOW h) s =
     (if cathegory h = HW_TIMER \<and> h \<noteq> Hw_timer0
      then Some ((), upd_ser (\<lambda>u. u\<lparr>s_rec_t1 := s_rec_t1 u + 1, s_tr_t1 := s_tr_t1 u + 1\<rparr>) s)
      else Some ((), s))"
| "serial_happen (EV_T2_MODE_CHANGED d) s =
     Some ((), upd_ser (\<lambda>u. (if t2_baud u then u else u\<lparr>s_rec_t1 := 0, s_tr_t1 := 0\<rparr>)
       \<lparr>t2_baud := (d AND (0x20 OR 0x10) \<noteq> 0)\<rparr>) s)"
| "serial_happen _ s = Some ((), s)"

definition serial_added :: "'z cc2530_scheme \<Rightarrow> 'z cc2530_scheme option" where
  "serial_added s = do {
     s \<leftarrow> add_it_src (mk_it_src r_IEN0 0x10 r_SCON 0x02 0x0023 False ''serial transmit'' 6) s;
     add_it_src (mk_it_src r_IEN0 0x10 r_SCON 0x01 0x0023 False ''serial receive'' 6) s
   }"

end
