(* ===== verification/Chip2530.thy ===== *)
theory Chip2530
  imports Dma2530 Flash2530 Mac2530 Usart2530 Devices51 Exec51
begin

text \<open>
  The elements of the CC2530 put in place around the core. An element that accesses memory or
  informs a partner may in turn run the handlers of other elements: the argument \<open>inner\<close> is what
  those calls see. \<open>chip_hw other k\<close> ties the knot with nesting depth \<open>k\<close>; the deepest chain of
  calls is a DMA transfer into a timer register, whose handler reads control registers nobody
  watches, so the depth 4 of \<open>chip51\<close> is never exhausted.
\<close>

definition ctl_hwif :: "'z cc_hw \<Rightarrow> 'z cc_hw \<Rightarrow> 'z cc_hw" where
  "ctl_hwif inner other = other\<lparr>
     hw_cath := cathegory,
     hw_read := (\<lambda>h. case h of Hw_DMA \<Rightarrow> default_hw_read | Hw_flashctrler \<Rightarrow> default_hw_read
       | Hw_CC2530timer1 \<Rightarrow> default_hw_read | Hw_CC2530timer3 \<Rightarrow> default_hw_read
       | Hw_CC2530timer4 \<Rightarrow> default_hw_read | _ \<Rightarrow> hw_read other h),
     hw_write := (\<lambda>h. case h of Hw_DMA \<Rightarrow> dma_write | Hw_flashctrler \<Rightarrow> flash_write inner
       | Hw_CC2530timer1 \<Rightarrow> cct_write inner 1 | Hw_CC2530timer3 \<Rightarrow> cct_write inner 3
       | Hw_CC2530timer4 \<Rightarrow> cct_write inner 4 | _ \<Rightarrow> hw_write other h),
     hw_tick := (\<lambda>h. case h of Hw_DMA \<Rightarrow> dma_tick inner | Hw_flashctrler \<Rightarrow> flash_tick
       | Hw_CC2530timer1 \<Rightarrow> cct_tick inner 1 | Hw_CC2530timer3 \<Rightarrow> cct_tick inner 3
       | Hw_CC2530timer4 \<Rightarrow> cct_tick inner 4 | _ \<Rightarrow> hw_tick other h),
     hw_reset := (\<lambda>h. case h of Hw_DMA \<Rightarrow> dma_reset | Hw_flashctrler \<Rightarrow> flash_reset
       | Hw_CC2530timer1 \<Rightarrow> cct_reset inner 1 | Hw_CC2530timer3 \<Rightarrow> cct_reset inner 3
       | Hw_CC2530timer4 \<Rightarrow> cct_reset inner 4 | _ \<Rightarrow> hw_reset other h),
     hw_happen := (\<lambda>h. case h of Hw_DMA \<Rightarrow> dma_happen | Hw_flashctrler \<Rightarrow> (\<lambda>_ s. Some ((), s))
       | Hw_CC2530timer1 \<Rightarrow> (\<lambda>_ s. Some ((), s)) | Hw_CC2530timer3 \<Rightarrow> (\<lambda>_ s. Some ((), s))
       | Hw_CC2530timer4 \<Rightarrow> (\<lambda>_ s. Some ((), s)) | _ \<Rightarrow> hw_happen other h)\<rparr>"

definition comm_hwif :: "'z cc_hw \<Rightarrow> 'z cc_hw \<Rightarrow> 'z cc_hw" where
  "comm_hwif inner other = other\<lparr>
     hw_cath := cathegory,
     hw_read := (\<lambda>h. case h of Hw_MAC_timer \<Rightarrow> mac_read | Hw_usart0 \<Rightarrow> usart_read 0
       | Hw_usart1 \<Rightarrow> usart_read 1 | Hw_serial \<Rightarrow> serial_read | _ \<Rightarrow> hw_read other h),
     hw_write := (\<lambda>h. case h of Hw_MAC_timer \<Rightarrow> mac_write | Hw_usart0 \<Rightarrow> usart_write 0
       | Hw_usart1 \<Rightarrow> usart_write 1 | Hw_serial \<Rightarrow> serial_write | _ \<Rightarrow> hw_write other h),
     hw_tick := (\<lambda>h. case h of Hw_MAC_timer \<Rightarrow> mac_tick inner | Hw_usart0 \<Rightarrow> usart_tick inner 0
       | Hw_usart1 \<Rightarrow> usart_tick inner 1 | Hw_serial \<Rightarrow> serial_tick | _ \<Rightarrow> hw_tick other h),
     hw_reset := (\<lambda>h. case h of Hw_MAC_timer \<Rightarrow> mac_reset | Hw_usart0 \<Rightarrow> usart_reset 0
       | Hw_usart1 \<Rightarrow> usart_reset 1 | Hw_serial \<Rightarrow> serial_reset | _ \<Rightarrow> hw_reset other h),
     hw_happen := (\<lambda>h. case h of Hw_MAC_timer \<Rightarrow> (\<lambda>_ s. Some ((), s)) | Hw_usart0 \<Rightarrow> (\<lambda>_ s. Some ((), s))
       | Hw_usart1 \<Rightarrow> (\<lambda>_ s. Some ((), s)) | Hw_serial \<Rightarrow> serial_happen | _ \<Rightarrow> hw_happen other h)\<rparr>"

definition stuck_hw :: "'z cc_hw" where
  "stuck_hw = \<lparr>hw_cath = cathegory, hw_read = (\<lambda>_ _ _. None), hw_write = (\<lambda>_ _ _ _. None),
     hw_tick = (\<lambda>_ _ _. None), hw_reset = (\<lambda>_ _. None), hw_happen = (\<lambda>_ _ _. None)\<rparr>"

text \<open>\<open>other\<close> stands for the radio, which has its own theory.\<close>

primrec chip_hw :: "'z cc_hw \<Rightarrow> nat \<Rightarrow> 'z cc_hw" where
  "chip_hw other 0 = stuck_hw"
| "chip_hw other (Suc k) =
     core51_hwif (ctl_hwif (chip_hw other k) (comm_hwif (chip_hw other k) other))"

definition chip51 :: "'z cc_hw \<Rightarrow> 'z cc_hw" where
  "chip51 other = chip_hw other 4"

text \<open>
  The interrupt sources in the order \<open>mk_hw_elements\<close> adds the elements; \<open>radio_added\<close>
  stands for those of the radio.
\<close>

definition sources_added :: "('z cc2530_scheme \<Rightarrow> 'z cc2530_scheme option)
    \<Rightarrow> 'z cc2530_scheme \<Rightarrow> 'z cc2530_scheme option" where
  "sources_added radio_added s = do {
     s \<leftarrow> timer_added 0 s;
     s \<leftarrow> timer_added 1 s;
     s \<leftarrow> cct_added 1 s;
     s \<leftarrow> mac_added s;
     s \<leftarrow> cct_added 3 s;
     s \<leftarrow> cct_added 4 s;
     s \<leftarrow> usart_added 0 s;
     s \<leftarrow> usart_added 1 s;
     s \<leftarrow> radio_added s;
     s \<leftarrow> serial_added s;
     interrupt_added s
   }"

end
