(* ===== verification/RfChip2530.thy ===== *)
theory RfChip2530
  imports Csp2530 Chip2530
begin

text \<open>
  The whole chip: the elements of \<open>Chip2530\<close> with the radio and its strobe processor in place of
  the argument \<open>other\<close>. A handler called by the hardware may access memory, which may call the
  handlers one level further in. The deepest chain is a DMA transfer into \<open>RFST\<close> whose strobe
  writes the program of the processor, so the depth 5 of \<open>full51\<close> is not exhausted.
\<close>

primrec full_hw :: "nat \<Rightarrow> 'z rf_hw" where
  "full_hw 0 = stuck_hw"
| "full_hw (Suc k) =
     core51_hwif (ctl_hwif (full_hw k) (comm_hwif (full_hw k) (radio_hwif (full_hw k))))"

definition full51 :: "'z rf_hw" where
  "full51 = full_hw 5"

definition full_sources_added :: "'z rf2530_scheme \<Rightarrow> 'z rf2530_scheme option" where
  "full_sources_added = sources_added radio_rf_added"

end
