(* ===== verification/Wiring51.thy ===== *)
theory Wiring51
  imports RfChip2530
begin

text \<open>
  The wiring of the chip: which element watches which register. \<open>mk_hw_elements\<close> (\<open>uc51.cc\<close>) makes
  the elements one after the other, and each of them registers itself at its cells, so the chain of
  operators of a cell holds its watchers in that order. The register addresses are those of
  \<open>RegistersForCC2530app.h\<close>, \<open>regs51b.h\<close> and \<open>xregsCC2530.h\<close>.
\<close>

subsection \<open>The cells of each element\<close>

type_synonym cell_addr = "as_id \<times> t_addr"

text \<open>Timers 0 and 1 of the 8051: \<open>TMOD\<close> and \<open>TCON\<close>.\<close>

definition timer_cells :: "cell_addr list" where
  "timer_cells = [(Sfr, 0x89), (Sfr, 0x88)]"

text \<open>\<open>CLKCONCMD\<close> and \<open>IRCON\<close>, by the base class of timers 1, 3 and 4 of the CC2530.\<close>

definition cct_base_cells :: "cell_addr list" where
  "cct_base_cells = [(Sfr, 0xC6), (Sfr, 0xC0)]"

definition cct1_cells :: "cell_addr list" where
  "cct1_cells = [(Sfr, 0xAF), (Sfr, 0xE4), (Sfr, 0xDB), (Sfr, 0xDA), (Sfr, 0xDD), (Sfr, 0xDC), (Sfr, 0xDF),
     (Sfr, 0xDE), (Xram, 0x62AD), (Xram, 0x62AC), (Xram, 0x62AF), (Xram, 0x62AE), (Sfr, 0xD8),
     (Sfr, 0xAF), (Sfr, 0xAF)]"

definition mac_cells :: "cell_addr list" where
  "mac_cells = [(Sfr, 0x94), (Sfr, 0x9C), (Sfr, 0xC3), (Sfr, 0xA2), (Sfr, 0xA3), (Sfr, 0xC0), (Sfr, 0xA1),
     (Sfr, 0xA4), (Sfr, 0xA5), (Sfr, 0xA6), (Sfr, 0xC6), (Xram, 0x61E5), (Sfr, 0x94), (Sfr, 0xC1),
     (Sfr, 0xC2)]"

definition cct3_cells :: "cell_addr list" where
  "cct3_cells = [(Sfr, 0xD8), (Sfr, 0xCB), (Sfr, 0xCD), (Sfr, 0xCF), (Sfr, 0xCB), (Sfr, 0xD8), (Sfr, 0xD8)]"

definition cct4_cells :: "cell_addr list" where
  "cct4_cells = [(Sfr, 0xD8), (Sfr, 0xEB), (Sfr, 0xED), (Sfr, 0xEF), (Sfr, 0xEB), (Sfr, 0xD8), (Sfr, 0xD8)]"

definition usart_cells :: "int \<Rightarrow> cell_addr list" where
  "usart_cells n = (if n = 0 then [(Sfr, 0x86), (Sfr, 0xC1), (Sfr, 0xC4), (Sfr, 0xC5), (Sfr, 0xC2)]
     else [(Sfr, 0xF8), (Sfr, 0xF9), (Sfr, 0xFB), (Sfr, 0xFC), (Sfr, 0xFA)])
     @ [(Sfr, 0x88), (Sfr, 0xE8)]"

definition dma_cells :: "cell_addr list" where
  "dma_cells = [(Sfr, 0xD6), (Sfr, 0xD7), (Sfr, 0xD1), (Sfr, 0xC0)]"

definition flash_cells :: "cell_addr list" where
  "flash_cells = [(Xram, 0x6272), (Xram, 0x6271), (Xram, 0x6270), (Xram, 0x6273), (Sfr, 0xC6)]"

definition serial_cells :: "cell_addr list" where
  "serial_cells = [(Sfr, 0x99), (Sfr, 0x87), (Sfr, 0x98)]"

text \<open>\<open>IE\<close> and \<open>TCON\<close>.\<close>

definition interrupt_cells :: "cell_addr list" where
  "interrupt_cells = [(Sfr, 0xA8), (Sfr, 0x88)]"

text \<open>\<open>cl_radio\<close> of \<open>interrupt.cc\<close>, which only shows the registers of the CC2530.\<close>

definition cl_radio_cells :: "cell_addr list" where
  "cl_radio_cells = map (Pair Sfr)
    [0x91, 0x86, 0x89, 0x8A, 0x8B, 0x8C, 0x8D, 0x8F, 0x92, 0x93, 0x94, 0x95, 0x96, 0x97, 0x9A,
     0x9B, 0x9C, 0x9D, 0x9E, 0x9F, 0xA1, 0xA2, 0xA3, 0xA4, 0xA5, 0xA6, 0xA7, 0xAA, 0xAB,
     0xAC, 0xAD, 0xAE, 0xAF, 0xB1, 0xB2, 0xB3, 0xB4, 0xB5, 0xB6, 0xB9, 0xBA, 0xBB, 0xBC,
     0xBD, 0xBE, 0xBF, 0xC0, 0xC1, 0xC2, 0xC3, 0xC4, 0xC5, 0xC6, 0xC9, 0xCA, 0xCB, 0xCC,
     0xCD, 0xCE, 0xCF, 0xD1, 0xD2, 0xD3, 0xD4, 0xD5, 0xD6, 0xD7, 0xD8, 0xD9, 0xDA, 0xDB,
     0xDC, 0xDD, 0xDE, 0xDF, 0xE1, 0xE2, 0xE3, 0xE4, 0xE5, 0xE6, 0xE7, 0xE8, 0xE9, 0xEA,
     0xEB, 0xEC, 0xED, 0xEE, 0xEF, 0xF1, 0xF2, 0xF3, 0xF4, 0xF5, 0xF6, 0xF7, 0xF8, 0xF9,
     0xFA, 0xFB, 0xFC, 0xFD, 0xFE]"

text \<open>\<open>ACC\<close> and \<open>SP\<close>.\<close>

definition dummy_cells :: "cell_addr list" where
  "dummy_cells = [(Sfr, 0xE0), (Sfr, 0x81)]"

subsection \<open>Registering\<close>

fun reg_cells :: "hwid \<Rightarrow> cell_addr list \<Rightarrow> 'z mem_scheme \<Rightarrow> 'z mem_scheme" where
  "reg_cells h [] s = s"
| "reg_cells h ((a, addr) # l) s = reg_cells h l (snd (register_hw a addr h s))"

definition element_order :: "hwid list" where
  "element_order = [Hw_timer0, Hw_timer1, Hw_CC2530timer1, Hw_MAC_timer, Hw_CC2530timer3,
     Hw_CC2530timer4, Hw_usart0, Hw_usart1, Hw_DMA, Hw_flashctrler, Hw_CC2530radio, Hw_serial,
     Hw_port0, Hw_port1, Hw_port2, Hw_port3, Hw_interrupt, Hw_radio, Hw_dummy]"

text \<open>
  What \<open>mk_hw_elements\<close> does to the memory and to the list of elements. The processor of the radio
  is made by the radio and is not an element of the list.
\<close>

definition wire :: "'z rf2530_scheme \<Rightarrow> 'z rf2530_scheme" where
  "wire s =
     (let s = reg_cells Hw_timer0 timer_cells s;
          s = reg_cells Hw_timer1 timer_cells s;
          s = reg_cells Hw_CC2530timer1 (cct_base_cells @ cct1_cells) s;
          s = reg_cells Hw_MAC_timer mac_cells s;
          s = reg_cells Hw_CC2530timer3 (cct_base_cells @ cct3_cells) s;
          s = reg_cells Hw_CC2530timer4 (cct_base_cells @ cct4_cells) s;
          s = reg_cells Hw_usart0 (usart_cells 0) s;
          s = reg_cells Hw_usart1 (usart_cells 1) s;
          s = reg_cells Hw_DMA dma_cells s;
          s = reg_cells Hw_flashctrler flash_cells s;
          s = make_csp_watched_cells (make_radio_watched_cells s);
          s = reg_cells Hw_serial serial_cells s;
          s = reg_cells Hw_port0 [(Sfr, 0x80)] s;
          s = reg_cells Hw_port1 [(Sfr, 0x90)] s;
          s = reg_cells Hw_port2 [(Sfr, 0xA0)] s;
          s = reg_cells Hw_port3 [(Sfr, 0xB0)] s;
          s = reg_cells Hw_interrupt interrupt_cells s;
          s = reg_cells Hw_radio cl_radio_cells s;
          s = reg_cells Hw_dummy dummy_cells s
      in s\<lparr>hws := hws s @ map (\<lambda>h. (h, True)) element_order\<rparr>)"

text \<open>The same as a table, and the watchers it gives a cell.\<close>

definition csp_watched :: "cell_addr list" where
  "csp_watched = map (Pair Xram) [0xE9, 0x9B, 0x91, 0x61A4, 0x61E0, 0x61E1, 0x61E2, 0x61E3, 0x61E4, 0x61E5]
     @ [(Sfr, r_RFST)]"

definition wiring :: "(hwid \<times> cell_addr list) list" where
  "wiring = [(Hw_timer0, timer_cells), (Hw_timer1, timer_cells),
     (Hw_CC2530timer1, cct_base_cells @ cct1_cells), (Hw_MAC_timer, mac_cells),
     (Hw_CC2530timer3, cct_base_cells @ cct3_cells), (Hw_CC2530timer4, cct_base_cells @ cct4_cells),
     (Hw_usart0, usart_cells 0), (Hw_usart1, usart_cells 1), (Hw_DMA, dma_cells),
     (Hw_flashctrler, flash_cells), (Hw_CC2530radio, map (Pair Xram) radio_watched),
     (Hw_CSP, csp_watched), (Hw_serial, serial_cells), (Hw_port0, [(Sfr, 0x80)]),
     (Hw_port1, [(Sfr, 0x90)]), (Hw_port2, [(Sfr, 0xA0)]), (Hw_port3, [(Sfr, 0xB0)]),
     (Hw_interrupt, interrupt_cells), (Hw_radio, cl_radio_cells), (Hw_dummy, dummy_cells)]"

definition at_cell :: "cell \<Rightarrow> cell_addr \<Rightarrow> bool" where
  "at_cell c p \<longleftrightarrow> \<not> out_of_space (fst p) (snd p) \<and> Cell (fst p) (snd p - as_start (fst p)) = c"

definition watchers :: "cell \<Rightarrow> hwid list" where
  "watchers c = concat (map (\<lambda>(h, l). map (\<lambda>_. h) (filter (at_cell c) l)) wiring)"

text \<open>Every cell has the watchers of the table, in its order, and no breakpoint is set.\<close>

definition chip_wired :: "'z mem_scheme \<Rightarrow> bool" where
  "chip_wired s \<longleftrightarrow> (\<forall>c. ops s c = map (Hw_op (slot s c)) (watchers c))"

subsection \<open>The table describes the registering\<close>

lemma reg_cells_keeps [simp]: "slot (reg_cells h l s) = slot s" "heap (reg_cells h l s) = heap s"
  by (induction l arbitrary: s) (auto simp: register_hw_def add_hw_def append_operator_def Let_def)

lemma reg_cells_only: "\<exists>f. reg_cells h l s = s\<lparr>ops := f\<rparr>"
proof (induction l arbitrary: s)
  case Nil
  show ?case by (rule exI [of _ "ops s"]) simp
next
  case (Cons p l)
  obtain a addr where p: "p = (a, addr)" by (cases p)
  have "\<exists>f. snd (register_hw a addr h s) = s\<lparr>ops := f\<rparr>"
  proof (cases "out_of_space a addr")
    case True
    then show ?thesis by (intro exI [of _ "ops s"]) (simp add: register_hw_def)
  next
    case False
    then show ?thesis
      by (simp add: register_hw_def add_hw_def append_operator_def Let_def) blast
  qed
  then obtain f where f: "snd (register_hw a addr h s) = s\<lparr>ops := f\<rparr>" ..
  from Cons.IH [of "s\<lparr>ops := f\<rparr>"] show ?case by (simp add: p f)
qed

lemma reg_cells_more [simp]:
  "hws (reg_cells h l (s :: 'z uc_scheme)) = hws s"
  "cctimers (reg_cells h l (t :: 'z cc2530_scheme)) = cctimers t"
  "mac (reg_cells h l (t :: 'z cc2530_scheme)) = mac t"
proof -
  obtain f where "reg_cells h l s = s\<lparr>ops := f\<rparr>" using reg_cells_only by blast
  then show "hws (reg_cells h l s) = hws s" by simp
  obtain g where "reg_cells h l t = t\<lparr>ops := g\<rparr>" using reg_cells_only by blast
  then show "cctimers (reg_cells h l t) = cctimers t" "mac (reg_cells h l t) = mac t" by simp_all
qed

lemma reg_cells_ops:
  "ops (reg_cells h l s) c = ops s c @ map (\<lambda>_. Hw_op (slot s c) h) (filter (at_cell c) l)"
proof (induction l arbitrary: s)
  case (Cons p l)
  obtain a addr where p: "p = (a, addr)" by (cases p)
  define t where "t = snd (register_hw a addr h s)"
  have t: "slot t = slot s" "ops t c = ops s c @ (if at_cell c p then [Hw_op (slot s c) h] else [])"
    by (auto simp: t_def p register_hw_def add_hw_def append_operator_def at_cell_def Let_def)
  have "reg_cells h (p # l) s = reg_cells h l t" by (simp add: p t_def)
  then show ?case by (simp add: Cons.IH t)
qed simp

lemma reg_cells_fold: "fold (\<lambda>a s. snd (register_hw x a h s)) l s = reg_cells h (map (Pair x) l) s"
  by (induction l arbitrary: s) simp_all

lemma reg_cells_append: "reg_cells h (l @ m) s = reg_cells h m (reg_cells h l s)"
  by (induction l arbitrary: s) auto

lemma radio_cells_reg:
  "make_csp_watched_cells (make_radio_watched_cells s)
     = reg_cells Hw_CSP csp_watched (reg_cells Hw_CC2530radio (map (Pair Xram) radio_watched) s)"
  by (simp add: make_csp_watched_cells_def make_radio_watched_cells_def reg_cells_fold csp_watched_def
      del: upto.simps)

lemma wire_keeps [simp]:
  "slot (wire s) = slot s" "heap (wire s) = heap s" "cctimers (wire s) = cctimers s" "mac (wire s) = mac s"
  "hws (wire s) = hws s @ map (\<lambda>h. (h, True)) element_order"
  by (simp_all add: wire_def Let_def radio_cells_reg del: reg_cells.simps)

lemma wire_ops: "ops (wire s) c = ops s c @ map (Hw_op (slot s c)) (watchers c)"
  by (simp add: wire_def Let_def radio_cells_reg reg_cells_ops watchers_def wiring_def
      map_replicate_const del: reg_cells.simps filter_append filter.simps)

subsection \<open>The watchers of single cells\<close>

lemma xram_only: "filter (at_cell (Cell Sfr i)) (map (Pair Xram) l) = []"
  by (simp add: at_cell_def filter_empty_conv)

lemma sfr_only: "filter (at_cell (Cell Xram i)) (map (Pair Sfr) l) = []"
  by (simp add: at_cell_def filter_empty_conv)

lemma other_space: "a \<noteq> Sfr \<Longrightarrow> a \<noteq> Xram \<Longrightarrow> watchers (Cell a i) = []"
  by (auto simp: watchers_def wiring_def at_cell_def filter_empty_conv csp_watched_def timer_cells_def
      cct_base_cells_def cct1_cells_def mac_cells_def cct3_cells_def cct4_cells_def usart_cells_def
      dma_cells_def flash_cells_def serial_cells_def interrupt_cells_def cl_radio_cells_def dummy_cells_def)

lemma sfr_cell: "at_cell (Cell Sfr i) (Sfr, addr) \<longleftrightarrow> 0x80 \<le> addr \<and> addr < 0x100 \<and> addr = i + 0x80"
  by (auto simp: at_cell_def out_of_space_def)

lemma xram_cell: "at_cell (Cell Xram i) (Xram, addr) \<longleftrightarrow> 0 \<le> addr \<and> addr < 0x10000 \<and> addr = i"
  by (auto simp: at_cell_def out_of_space_def)

lemma cross_cell: "\<not> at_cell (Cell Sfr i) (Xram, addr)" "\<not> at_cell (Cell Xram i) (Sfr, addr)"
  by (simp_all add: at_cell_def)

lemmas watch_simps = watchers_def wiring_def csp_watched_def timer_cells_def cct_base_cells_def
  cct1_cells_def mac_cells_def cct3_cells_def cct4_cells_def usart_cells_def dma_cells_def
  flash_cells_def serial_cells_def interrupt_cells_def cl_radio_cells_def dummy_cells_def
  xram_only sfr_only sfr_cell xram_cell cross_cell

lemma timer1_ctl34: "watchers (Cell Xram 0x62A3) = []" "watchers (Cell Xram 0x62A4) = []"
  by (auto simp: watch_simps radio_watched_def filter_empty_conv)

lemma timer1_watchers:
  "watchers (Cell Sfr 0x65) = [Hw_radio]" "watchers (Cell Sfr 0x66) = [Hw_radio]"
  "watchers (Cell Sfr 0x67) = [Hw_radio]" "watchers (Cell Sfr 0x27) = [Hw_radio]"
  by (simp_all add: watch_simps)

end
