(* ===== verification/Cc2530Facts.thy ===== *)
theory Cc2530Facts
  imports Core51Facts Dma2530 Flash2530 Mac2530 Usart2530
begin

text \<open>
  What the updates of one CC2530 element leave alone, accesses to the data space seen from the
  elements, and the concrete state on which the witnesses are evaluated.
\<close>

subsection \<open>Bit fields\<close>

lemma and_field: "(x::int) AND push_bit k (mask n) = push_bit k (take_bit n (drop_bit k x))"
  by (rule bit_eqI) (auto simp: bit_simps)

lemma field_mask: "((x::int) AND push_bit k (mask n)) div 2 ^ k = x div 2 ^ k mod 2 ^ n"
  by (simp add: and_field) (simp add: push_bit_eq_mult drop_bit_eq_div take_bit_eq_mod)

subsection \<open>Fields that an update keeps\<close>

lemma upd_ch_simps [simp]:
  "tabDMACh (upd_ch i f s) j = (if j = i then f (tabDMACh s i) else tabDMACh s j)"
  "cell_get c (upd_ch i f s) = cell_get c s" "ops (upd_ch i f s) = ops s"
  "mem_ok (upd_ch i f s) = mem_ok s" "slot (upd_ch i f s) = slot s"
  by (simp_all add: upd_ch_def cell_get_def mem_ok_def)

lemma upd_flash_simps [simp]:
  "flash (upd_flash f s) = f (flash s)"
  "cell_get c (upd_flash f s) = cell_get c s" "ops (upd_flash f s) = ops s"
  "mem_ok (upd_flash f s) = mem_ok s" "slot (upd_flash f s) = slot s"
  by (simp_all add: upd_flash_def cell_get_def mem_ok_def)

lemma upd_page_simps [simp]:
  "PageTab (flash (upd_page p f s)) q = (if q = p then f (PageTab (flash s) p) else PageTab (flash s) q)"
  "f_bank (flash (upd_page p f s)) = f_bank (flash s)"
  "f_reg (flash (upd_page p f s)) = f_reg (flash s)"
  "f_address (flash (upd_page p f s)) = f_address (flash s)"
  "cell_get c (upd_page p f s) = cell_get c s" "ops (upd_page p f s) = ops s"
  "mem_ok (upd_page p f s) = mem_ok s" "slot (upd_page p f s) = slot s"
  by (simp_all add: upd_page_def)

lemma upd_mac_simps [simp]:
  "mac (upd_mac f s) = f (mac s)"
  "cell_get c (upd_mac f s) = cell_get c s" "ops (upd_mac f s) = ops s"
  "mem_ok (upd_mac f s) = mem_ok s" "slot (upd_mac f s) = slot s"
  by (simp_all add: upd_mac_def cell_get_def mem_ok_def)

lemma upd_cct_simps [simp]:
  "cctimers (upd_cct n f s) m = (if m = n then f (cctimers s n) else cctimers s m)"
  "cell_get c (upd_cct n f s) = cell_get c s" "ops (upd_cct n f s) = ops s"
  "mem_ok (upd_cct n f s) = mem_ok s" "slot (upd_cct n f s) = slot s"
  by (simp_all add: upd_cct_def cell_get_def mem_ok_def)

lemma upd_usart_simps [simp]:
  "usarts (upd_usart n f s) m = (if m = n then f (usarts s n) else usarts s m)"
  "cell_get c (upd_usart n f s) = cell_get c s" "ops (upd_usart n f s) = ops s"
  "mem_ok (upd_usart n f s) = mem_ok s" "slot (upd_usart n f s) = slot s"
  by (simp_all add: upd_usart_def cell_get_def mem_ok_def)

lemma upd_ser_simps [simp]:
  "ser (upd_ser f s) = f (ser s)" "cell_get c (upd_ser f s) = cell_get c s"
  "mem_ok (upd_ser f s) = mem_ok s" "slot (upd_ser f s) = slot s"
  by (simp_all add: upd_ser_def cell_get_def mem_ok_def)

lemma other_elements [simp]:
  "cctimers (upd_ch i f s) = cctimers s" "mac (upd_ch i f s) = mac s" "usarts (upd_ch i f s) = usarts s"
  "tabDMACh (upd_cct n g s) = tabDMACh s" "mac (upd_cct n g s) = mac s"
  "usarts (upd_cct n g s) = usarts s" "tabDMACh (upd_mac m s) = tabDMACh s"
  "tabDMACh (upd_usart n u s) = tabDMACh s" "ops (upd_ser v s) = ops s"
  by (simp_all add: upd_ch_def upd_cct_def upd_mac_def upd_usart_def upd_ser_def)

lemma poke_ext [simp]:
  "tabDMACh (poke c v s) = tabDMACh s" "flash (poke c v s) = flash s"
  "mac (poke c v s) = mac s" "cctimers (poke c v s) = cctimers s"
  "usarts (poke c v s) = usarts s" "ser (poke c v s) = ser s"
  by (simp_all add: poke_def store_def)

lemma bits_ext [simp]:
  "tabDMACh (cell_set_bit1 c v s) = tabDMACh s" "tabDMACh (cell_set_bit0 c v s) = tabDMACh s"
  "flash (cell_set_bit1 c v s) = flash s" "flash (cell_set_bit0 c v s) = flash s"
  "mac (cell_set_bit1 c v s) = mac s" "mac (cell_set_bit0 c v s) = mac s"
  "cctimers (cell_set_bit1 c v s) = cctimers s" "cctimers (cell_set_bit0 c v s) = cctimers s"
  "usarts (cell_set_bit1 c v s) = usarts s" "usarts (cell_set_bit0 c v s) = usarts s"
  "ser (cell_set_bit1 c v s) = ser s" "ser (cell_set_bit0 c v s) = ser s"
  by (simp_all add: set_bits_poke)

subsection \<open>Accesses to the SRAM part of the data space\<close>

lemma sram_read_plain:
  assumes "0 \<le> a" "a < 0x1F00" "ops s (Cell Sram a) = []"
  shows "as_read hw Xram a s = Some (cell_get (Cell Sram a) s, s)"
  using assms by (simp add: as_read_def xram_read_def sram_read_def cells_read_def cells_at_def
      out_of_space_def cell_read_def cell_get_def)

lemma sram_write_plain:
  assumes "0 \<le> a" "a < 0x1F00" "ops s (Cell Sram a) = []"
  shows "as_write hw Xram a v s = Some (v mod 256, poke (Cell Sram a) (v mod 256) s)"
  using assms by (simp add: as_write_def xram_write_def sram_write_def cells_write_def cells_at_def
      out_of_space_def Let_def poke_def)

text \<open>A bank holds 0x8000 bytes and is written in place; past either end the access is fatal.\<close>

lemma flashbank_space [simp]: "flashbank b \<noteq> Sram" "flashbank b \<noteq> Xram"
  "Sram \<noteq> flashbank b" "Xram \<noteq> flashbank b"
  by (simp_all add: flashbank.simps)

lemma bank_write_plain:
  assumes "0 \<le> a" "a < 0x8000" "ops s (Cell (flashbank b) a) = []"
  shows "as_write hw (flashbank b) a v s
    = Some (v mod 256, poke (Cell (flashbank b) a) (v mod 256) s)"
  using assms by (simp add: as_write_def leaf_write_def cells_write_def cells_at_def
      out_of_space_def Let_def poke_def)

lemma bank_write_out:
  assumes "a < 0 \<or> 0x8000 \<le> a"
  shows "as_write hw (flashbank b) a v s = None"
  using assms by (auto simp: as_write_def leaf_write_def cells_write_def cells_at_def
      out_of_space_def)

subsection \<open>Events sent to the DMA controller\<close>

lemma dma_happen_keeps:
  "\<exists>u. dma_happen ev s = Some ((), u) \<and> cctimers u = cctimers s \<and> ops u = ops s
     \<and> mac u = mac s \<and> usarts u = usarts s
     \<and> (\<forall>c. cell_get c u = cell_get c s) \<and> mem_ok u = mem_ok s"
proof -
  have f: "cctimers (fold f xs s) = cctimers s \<and> mac (fold f xs s) = mac s \<and> usarts (fold f xs s) = usarts s \<and> ops (fold f xs s) = ops s
     \<and> (\<forall>c. cell_get c (fold f xs s) = cell_get c s) \<and> mem_ok (fold f xs s) = mem_ok s"
    if "f = (\<lambda>i s. if TriggerEvent (tabDMACh s i) = t then upd_ch i (\<lambda>c. c\<lparr>triggered := True\<rparr>) s else s)"
    for f t xs and s :: "'a cc2530_scheme"
    by (induction xs arbitrary: s) (simp_all add: that)
  show ?thesis
    by (cases "dma_trigger ev") (simp_all add: dma_happen_def f [OF refl], simp_all add: cell_get_def mem_ok_def)
qed

subsection \<open>A concrete chip\<close>

definition idle_channel :: dma_channel where
  "idle_channel = \<lparr>DmaChState = DMAChannelIdle, source = 0, destination = 0, ConfigAddress = 0,
     ch_s = 0, ch_d = 0, ITmask = False, armed = False, ch_init = False, single = False,
     repeated = False, triggered = False, TransferCount = 0, VLEN = 0, LEN = 0, Priority = 0,
     ch_delta = 0, TriggerEvent = 32, SRCincrement = 0, DESTincrement = 0, SRCinc = 0, DESTinc = 0,
     TxMode = 0, Byte_Word_tx = 0, M8 = 0\<rparr>"

definition idle_cct :: cctimer where
  "idle_cct = \<lparr>t_count = 0, NextCmpEvent = -1, cmpEventIn = 0, PinEvent = False, up_down = False,
     up_down_changed = False, cc_mode = 0, cc_TR = 0, tickspd = 1, prescale = 1, TimerTicks = 0,
     systemTicks = 0, tabCh = (\<lambda>_. \<lparr>IOPin = False, ExIOPin = False, ValRegCMP = 0\<rparr>), channelID = 0,
     t_high = False\<rparr>"

definition idle_mac :: mac_timer where
  "idle_mac = \<lparr>m_mode = 0, m_run = False, m_event = False, T2_EVENT1 = False, T2_EVENT2 = False,
     t2msel = 0, t2movfsel = 0, m_count = 0, t2_cap = 0, t2_per = 0, t2_cmp1 = 0, t2_cmp2 = 0,
     OVF = (\<lambda>_ _. 0)\<rparr>"

definition idle_usart :: usart where
  "idle_usart = \<lparr>UsartID = 0, regForTx = 0, regForRx = 0, TXD = True, RXD = True, MISO = False,
     MOSI = False, RxParity = False, TxParity = False, stopBitLevel = True, startBitLevel = False,
     u_mode = 0, slave = False, TickCountForBaud = 0, u_RX = False, u_TX = False, bitRxCnt = 0,
     bitTxCnt = 0, BitNumber = 8, StopBits = 1, u_queue = False, baud_m = 0, baud_e = 0,
     baud_set = False\<rparr>"

definition idle_uart :: uart where
  "idle_uart = \<lparr>s_in = 0, s_out = 0, s_sending = False, s_receiving = False, s_rec_bit = 0,
     s_tr_bit = 0, s_rec_t1 = 0, s_tr_t1 = 0, s_rec_tick = 0, s_tr_tick = 0, uart_mode = 0,
     uart_REN = False, uart_SMOD = False, uart_bits = 0, uart_divby = 0, t2_baud = False,
     line_in = [], line_out = [], in_open = True, out_open = True\<rparr>"

definition idle_flash :: flash_ctrl where
  "idle_flash = \<lparr>PageTab = fresh_page, f_bank = Flashbank0, f_timerEnabled = False,
     f_TickCount = 0, f_writing = False, regFull = False, f_reg = 0, f_address = 0, PageNum = 0,
     WordNum = 0, TXNum = 0\<rparr>"

definition boot2530 :: "(cell \<Rightarrow> int) \<Rightarrow> cc2530" where
  "boot2530 h = core51.extend (boot51 h) (cc2530.fields False (\<lambda>_. idle_channel) (\<lambda>_. 0) 0
     idle_flash (\<lambda>_. idle_cct) idle_mac (\<lambda>_. idle_usart) idle_uart)"

lemma boot2530_simps [simp]:
  "heap (boot2530 h) = heap (boot51 h)" "slot (boot2530 h) = Priv_slot"
  "ops (boot2530 h) = ops (boot51 h)" "cell_get c (boot2530 h) = h c"
  "tabDMACh (boot2530 h) i = idle_channel" "flash (boot2530 h) = idle_flash"
  "cctimers (boot2530 h) i = idle_cct" "mac (boot2530 h) = idle_mac"
  "usarts (boot2530 h) i = idle_usart" "ser (boot2530 h) = idle_uart"
  by (simp_all add: boot2530_def core51.extend_def cc2530.fields_def cell_get_def boot51_def)

lemma boot2530_ok [simp]: "(\<And>c. byte (h c)) \<Longrightarrow> mem_ok (boot2530 h)"
  by (subst mem_ok_cong [of _ "boot51 h"]) (simp_all add: ready_mem_ok)

end
