(* ===== verification/Timer2530Facts.thy ===== *)
theory Timer2530Facts
  imports Cc2530Facts Chip2530
begin

text \<open>
  The counters of the CC2530: how far a tick advances timer 1 and what a register write does to its
  compare values. The properties on the wired chip are in \<open>WiringFacts\<close>.
\<close>

subsection \<open>The prescaler\<close>

lemma div_Suc_step:
  assumes "0 < p"
  shows "(x + 1) div (p::int) = x div p + (if (x + 1) mod p = 0 then 1 else 0)"
proof (cases "(x + 1) mod p = 0")
  case True
  then obtain q where q: "x + 1 = p * q" by (auto simp: mod_eq_0_iff_dvd)
  then have "x = p * (q - 1) + (p - 1)" by (simp add: algebra_simps)
  then have "x div p = q - 1" using assms by (simp add: div_mult_self4 div_pos_pos_trivial)
  then show ?thesis using q assms True by simp
next
  case False
  have r: "0 \<le> x mod p" "x mod p < p" using assms by simp_all
  have "x mod p + 1 \<noteq> p"
  proof
    assume "x mod p + 1 = p"
    then have "(x mod p + 1) mod p = 0" by simp
    then show False using False by (simp add: mod_simps)
  qed
  then have "x mod p + 1 < p" using r by simp
  moreover have "x + 1 = p * (x div p) + (x mod p + 1)" by simp
  ultimately have "(x + 1) div p = x div p"
    using r by (metis add.commute div_mult_self4 div_pos_pos_trivial add_0 assms less_imp_neq
        add_increasing2 zero_le_one add.left_neutral)
  then show ?thesis using False by simp
qed

lemma prescale_closed:
  assumes "0 < prescale t"
  shows "prescale_loop k t = t\<lparr>systemTicks := systemTicks t + int k,
    TimerTicks := TimerTicks t + ((systemTicks t + int k) div prescale t - systemTicks t div prescale t)\<rparr>"
  using assms
proof (induction k arbitrary: t)
  case (Suc k)
  define u where "u = (let t = t\<lparr>systemTicks := systemTicks t + 1\<rparr>
    in if systemTicks t mod prescale t = 0 then t\<lparr>TimerTicks := TimerTicks t + 1\<rparr> else t)"
  have u: "prescale u = prescale t" "systemTicks u = systemTicks t + 1"
    "TimerTicks u = TimerTicks t + ((systemTicks t + 1) div prescale t - systemTicks t div prescale t)"
    "u\<lparr>systemTicks := x, TimerTicks := y\<rparr> = t\<lparr>systemTicks := x, TimerTicks := y\<rparr>" for x y
    using div_Suc_step [OF Suc.prems, of "systemTicks t"] by (simp_all add: u_def Let_def)
  have "prescale_loop (Suc k) t = prescale_loop k u" by (simp add: u_def Let_def)
  also have "\<dots> = t\<lparr>systemTicks := systemTicks u + int k,
    TimerTicks := TimerTicks u + ((systemTicks u + int k) div prescale u - systemTicks u div prescale u)\<rparr>"
    using Suc.IH [of u] Suc.prems u by simp
  also have "\<dots> = t\<lparr>systemTicks := systemTicks t + int (Suc k),
    TimerTicks := TimerTicks t + ((systemTicks t + int (Suc k)) div prescale t - systemTicks t div prescale t)\<rparr>"
    unfolding u by (simp add: add.assoc)
  finally show ?case .
qed simp

subsection \<open>What the steps of timer 1 touch\<close>

text \<open>
  \<open>cl_radio\<close> watches most registers of the chip and does nothing there. A cell with no other watcher
  and no breakpoint is read as it is stored.
\<close>

definition silent :: "cell \<Rightarrow> 'z mem_scheme \<Rightarrow> bool" where
  "silent c s \<longleftrightarrow> (\<forall>p \<in> set (ops s c). \<exists>d. p = Hw_op d Hw_radio)"

definition silent_radio :: "'z core_hw \<Rightarrow> bool" where
  "silent_radio hw \<longleftrightarrow> hw_read hw Hw_radio = radio_read"

lemma silent_cong: "ops t = ops s \<Longrightarrow> silent c t = silent c s"
  by (simp add: silent_def)

lemma silent_simps [simp]:
  "silent c (upd_cct n f s) = silent c s" "silent c (upd_mac g s) = silent c s"
  "silent c (poke d v s) = silent c s"
  by (simp_all add: silent_def)

lemma silent_read:
  assumes "silent_radio hw" "silent c s"
  shows "cell_read hw c s = Some (cell_get c s, s)"
proof -
  have e: "\<exists>v. ops_read hw c ps s = Some (v, s) \<and> (ps \<noteq> [] \<longrightarrow> v = cell_get c s)"
    if "\<forall>p \<in> set ps. \<exists>d. p = Hw_op d Hw_radio" for ps
    using that
  proof (induction ps)
    case (Cons p ps)
    then obtain d v where "p = Hw_op d Hw_radio" "ops_read hw c ps s = Some (v, s)" by auto
    then show ?case using assms(1) by (simp add: silent_radio_def radio_read_def)
  qed simp
  show ?thesis using e [of "ops s c"] assms(2) by (auto simp: cell_read_def silent_def cell_get_def)
qed

lemma xram_read_silent:
  assumes "0x2000 \<le> a" "a < 0x7080" "silent_radio hw" "silent (Cell Xram a) s"
  shows "as_read hw Xram a s = Some (cell_get (Cell Xram a) s, s)"
  using assms(1,2) silent_read [OF assms(3,4)]
  by (simp add: as_read_def xram_read_def cells_read_def cells_at_def out_of_space_def)

lemma sfr_read_silent:
  assumes "0x80 \<le> a" "a < 0x100" "silent_radio hw" "silent (Cell Sfr (a - 0x80)) s"
  shows "as_read hw Sfr a s = Some (cell_get (Cell Sfr (a - 0x80)) s, s)"
  using assms(1,2) silent_read [OF assms(3,4)]
  by (simp add: as_read_def leaf_read_def out_of_space_def)

definition t1_ctl_cell :: "int \<Rightarrow> cell" where
  "t1_ctl_cell i = (if i < 3 then Cell Sfr (0x65 + i) else Cell Xram (0x62A0 + i))"

lemma t1_ctl_read:
  assumes "silent_radio hw" "0 \<le> i" "i < 5" "silent (t1_ctl_cell i) s"
  shows "as_read hw (ch_space 1 i) (RegCTL 1 i) s = Some (cell_get (t1_ctl_cell i) s, s)"
proof (cases "i < 3")
  case True
  then show ?thesis using assms sfr_read_silent [of "0xE5 + i" hw s]
    by (simp add: ch_space_def RegCTL_def t1_ctl_cell_def)
next
  case False
  then show ?thesis using assms xram_read_silent [of "0x62A0 + i" hw s]
    by (simp add: ch_space_def RegCTL_def t1_ctl_cell_def)
qed

text \<open>No channel compares and no pin has changed: the counter runs undisturbed.\<close>

definition undisturbed :: "'z cc2530_scheme \<Rightarrow> bool" where
  "undisturbed s \<longleftrightarrow> mem_ok s \<and> (\<forall>i \<in> {0, 1, 2, 3, 4}. silent (t1_ctl_cell i) s
     \<and> cell_get (t1_ctl_cell i) s AND 4 = 0
     \<and> IOPin (tabCh (cctimers s 1) i) = ExIOPin (tabCh (cctimers s 1) i))"

lemma ch_range: "[0..4] = [0, 1, 2, 3, 4 :: int]"
  by (simp add: upto.simps)

lemma next_event_idle:
  assumes "undisturbed s" "silent_radio hw"
  shows "get_next_cc_event hw 1 s = Some ((), upd_cct 1 (\<lambda>t. t\<lparr>NextCmpEvent := -1\<rparr>) s)"
proof -
  have r: "as_read hw (ch_space 1 i) (RegCTL 1 i) (upd_cct 1 f s)
      = Some (cell_get (t1_ctl_cell i) s, upd_cct 1 f s)" if "i \<in> {0, 1, 2, 3, 4}" for i f
  proof -
    have "silent (t1_ctl_cell i) s" using assms(1) that unfolding undisturbed_def by blast
    moreover have "0 \<le> i" "i < 5" using that by auto
    ultimately show ?thesis by (subst t1_ctl_read [OF assms(2)]) simp_all
  qed
  have "next_cc_loop hw 1 cs (upd_cct 1 f s) = Some ((), upd_cct 1 f s)"
    if "set cs \<subseteq> {0, 1, 2, 3, 4}" for cs f
    using that
  proof (induction cs)
    case (Cons i cs)
    then have "i \<in> {0, 1, 2, 3, 4}" "set cs \<subseteq> {0, 1, 2, 3, 4}" by simp_all
    moreover have "cell_get (t1_ctl_cell i) s AND 4 = 0"
      using assms \<open>i \<in> _\<close> unfolding undisturbed_def by blast
    ultimately show ?case using Cons.IH by (simp add: r)
  qed simp
  from this [of "[0, 1, 2, 3, 4]"] show ?thesis
    by (simp add: get_next_cc_event_def ChMax_def ch_range)
qed

lemma capture_idle:
  assumes "undisturbed s" "silent_radio hw"
  shows "\<exists>f. CaptureCompare hw 1 s = Some ((), upd_cct 1 f s) \<and> undisturbed (upd_cct 1 f s)
    \<and> t_count (f (cctimers s 1)) = t_count (cctimers s 1) \<and> cc_mode (f (cctimers s 1)) = cc_mode (cctimers s 1)"
proof -
  have one: "cc_channel hw 1 i s = Some ((), upd_tch 1 i (\<lambda>c. c\<lparr>ExIOPin := IOPin c\<rparr>) s)"
    "upd_tch 1 i (\<lambda>c. c\<lparr>ExIOPin := IOPin c\<rparr>) s = s"
    if "undisturbed s" "i \<in> {0, 1, 2, 3, 4}" for i and s :: "'a cc2530_scheme"
  proof -
    have "(tabCh (cctimers s 1) i)\<lparr>ExIOPin := IOPin (tabCh (cctimers s 1) i)\<rparr> = tabCh (cctimers s 1) i"
      using that by (auto simp: undisturbed_def)
    then show "upd_tch 1 i (\<lambda>c. c\<lparr>ExIOPin := IOPin c\<rparr>) s = s"
      by (simp add: upd_tch_def upd_cct_def)
    show "cc_channel hw 1 i s = Some ((), upd_tch 1 i (\<lambda>c. c\<lparr>ExIOPin := IOPin c\<rparr>) s)"
      using that by (auto simp: cc_channel_def t1_ctl_read [OF assms(2)] undisturbed_def cct_capture_def Let_def)
  qed
  have "cc_channels hw 1 [0..ChMax 1 - 1] s = Some ((), s)"
    using one [OF assms(1)] by (simp add: ChMax_def ch_range)
  then have "CaptureCompare hw 1 s = Some ((), upd_cct 1 (\<lambda>t. t\<lparr>NextCmpEvent := -1\<rparr>) s)"
    by (simp add: CaptureCompare_def next_event_idle [OF assms])
  then show ?thesis using assms(1) by (intro exI [of _ "\<lambda>t. t\<lparr>NextCmpEvent := -1\<rparr>"]) (simp add: undisturbed_def)
qed

subsection \<open>Free running\<close>

abbreviation "t1_mask_on s \<equiv> cell_get (Cell Sfr 0x58) s AND 0x40 \<noteq> 0"

text \<open>The state after k steps from a count c0; \<open>b\<close> tells whether the count has passed zero.\<close>

definition ran :: "int \<Rightarrow> int \<Rightarrow> 'z cc2530_scheme \<Rightarrow> 'z cc2530_scheme \<Rightarrow> bool" where
  "ran c0 k s t \<longleftrightarrow> undisturbed t \<and> cc_mode (cctimers t 1) = cc_mode (cctimers s 1)
     \<and> t_count (cctimers t 1) = to_short (c0 + k)
     \<and> (let w = t1_mask_on s \<and> 65536 \<le> c0 mod 65536 + k in
        cell_get (Cell Sfr 0x2F) t = (if w then cell_get (Cell Sfr 0x2F) s OR 0x20 else cell_get (Cell Sfr 0x2F) s)
        \<and> cell_get cell_ircon t = (if w then cell_get cell_ircon s OR 0x02 else cell_get cell_ircon s))
     \<and> (0 < k \<longrightarrow> cell_get (Cell Sfr 0x62) t = (c0 + k) mod 256
            \<and> cell_get (Cell Sfr 0x63) t = (c0 + k) div 256 mod 256)
     \<and> (\<forall>x. x \<notin> {Cell Sfr 0x2F, cell_ircon, Cell Sfr 0x62, Cell Sfr 0x63} \<longrightarrow> cell_get x t = cell_get x s)"

lemma to_short_mod: "to_short x mod 65536 = x mod 65536"
  by (simp add: to_short_def Let_def mod_diff_eq [symmetric])

lemma to_short_cong: "x mod 65536 = y mod 65536 \<Longrightarrow> to_short x = to_short y"
  by (simp add: to_short_def)

lemma to_short_Suc: "to_short (to_short x + 1) = to_short (x + 1)"
  by (rule to_short_cong) (metis mod_add_left_eq to_short_mod)

lemma to_short_zero: "to_short x = 0 \<longleftrightarrow> x mod 65536 = 0"
proof
  assume "to_short x = 0"
  then show "x mod 65536 = 0" using to_short_mod [of x] by simp
qed (simp add: to_short_def)

lemma to_short_bytes:
  "to_short x mod 256 = x mod 256" "to_short x div 256 mod 256 = x div 256 mod 256"
proof -
  have m: "y mod 65536 mod 256 = y mod 256" "y div 256 mod 256 = y mod 65536 div 256" for y :: int
    by (simp_all add: mod_mod_cancel) (simp add: zmod_zmult2_eq [of 256 y 256, simplified])
  show "to_short x mod 256 = x mod 256" using m(1) [of x] m(1) [of "to_short x"] to_short_mod [of x] by simp
  show "to_short x div 256 mod 256 = x div 256 mod 256"
    using m(2) [of x] m(2) [of "to_short x"] to_short_mod [of x] by simp
qed

lemma passed_zero:
  assumes "0 \<le> k"
  shows "65536 \<le> c mod 65536 + (k + 1) \<longleftrightarrow> 65536 \<le> c mod 65536 + k \<or> (c + (k + 1)) mod 65536 = (0::int)"
proof -
  have r: "0 \<le> c mod 65536" "c mod 65536 < 65536" by simp_all
  have e: "(c + (k + 1)) mod 65536 = (c mod 65536 + (k + 1)) mod 65536" by (simp add: mod_simps)
  show ?thesis
  proof (cases "65536 \<le> c mod 65536 + k")
    case False
    then have range: "0 < c mod 65536 + (k + 1)" "c mod 65536 + (k + 1) \<le> 65536" using r assms by simp_all
    show ?thesis
    proof (cases "c mod 65536 + (k + 1) = 65536")
      case True
      show ?thesis unfolding e True by simp
    next
      case ne: False
      then have "c mod 65536 + (k + 1) < 65536" using range(2) by simp
      then have "(c mod 65536 + (k + 1)) mod 65536 = c mod 65536 + (k + 1)"
        using range(1) by (intro mod_pos_pos_trivial) simp_all
      then show ?thesis unfolding e using False range(1) ne \<open>c mod 65536 + (k + 1) < 65536\<close> by linarith
    qed
  qed simp
qed

lemma undisturbed_cong:
  assumes "undisturbed s" "ops t = ops s" "mem_ok t"
    "\<And>i. i \<in> {0, 1, 2, 3, 4} \<Longrightarrow> cell_get (t1_ctl_cell i) t = cell_get (t1_ctl_cell i) s"
    "tabCh (cctimers t 1) = tabCh (cctimers s 1)"
  shows "undisturbed t"
  using assms silent_cong [OF assms(2)] by (simp add: undisturbed_def)

lemma t1_ctl_apart [simp]:
  "i \<in> {0, 1, 2, 3, 4} \<Longrightarrow> t1_ctl_cell i \<noteq> Cell Sfr 0x2F" "i \<in> {0, 1, 2, 3, 4} \<Longrightarrow> t1_ctl_cell i \<noteq> cell_ircon"
  "i \<in> {0, 1, 2, 3, 4} \<Longrightarrow> t1_ctl_cell i \<noteq> Cell Sfr 0x62" "i \<in> {0, 1, 2, 3, 4} \<Longrightarrow> t1_ctl_cell i \<noteq> Cell Sfr 0x63"
  by (auto simp: t1_ctl_cell_def)

lemma overflow_t1:
  assumes "hw_happen hw Hw_DMA = dma_happen" "mem_ok s"
  shows "\<exists>u. cct_overflow hw 1 s = Some ((), u) \<and> cctimers u = cctimers s \<and> ops u = ops s \<and> mem_ok u
     \<and> (\<forall>c. cell_get c u = (if t1_mask_on s \<and> c = Cell Sfr 0x2F then cell_get c s OR 0x20
          else if t1_mask_on s \<and> c = cell_ircon then cell_get c s OR 0x02 else cell_get c s))"
proof -
  define v where "v = (if t1_mask_on s
    then cell_set_bit1 cell_ircon 0x02 (cell_set_bit1 (Cell Sfr 0x2F) 0x20 s) else s)"
  have e: "cct_overflow hw 1 s = dma_happen (EV_OVERFLOW Hw_CC2530timer1) v"
    by (simp add: cct_overflow_def assms(1) v_def cell_OvfMaskReg_def cell_FlagReg_def OVFMaskMask_def
        OVFIFMask_def IrconFlag_def cct_hw_def)
  have v: "cctimers v = cctimers s" "ops v = ops s" "mem_ok v"
    "cell_get c v = (if t1_mask_on s \<and> c = Cell Sfr 0x2F then cell_get c s OR 0x20
       else if t1_mask_on s \<and> c = cell_ircon then cell_get c s OR 0x02 else cell_get c s)" for c
    using assms(2) by (auto simp: v_def set_bits_poke byte_or)
  obtain u where "dma_happen (EV_OVERFLOW Hw_CC2530timer1) v = Some ((), u)" "cctimers u = cctimers v"
    "ops u = ops v" "\<forall>c. cell_get c u = cell_get c v" "mem_ok u = mem_ok v"
    using dma_happen_keeps by blast
  then show ?thesis using e v by (intro exI [of _ u]) simp
qed

lemma free_step_ran:
  assumes "hw_happen hw Hw_DMA = dma_happen" "ran c0 k s t" "0 \<le> k" "silent_radio hw"
  shows "\<exists>u. free_step hw 1 t = Some ((), u) \<and> ran c0 (k + 1) s u"
proof -
  have t: "undisturbed t" "t_count (cctimers t 1) = to_short (c0 + k)"
    using assms(2) unfolding ran_def by blast+
  have m: "mem_ok t" using t(1) unfolding undisturbed_def by blast
  define t1 where "t1 = set_count 1 (t_count (cctimers (next_down 1 t) 1) + 1) (next_down 1 t)"
  have t1: "undisturbed t1" "t_count (cctimers t1 1) = to_short (c0 + (k + 1))" "\<And>c. cell_get c t1 = cell_get c t"
    "cc_mode (cctimers t1 1) = cc_mode (cctimers t 1)" "mem_ok t1"
    using t m to_short_Suc [of "c0 + k"]
    by (simp_all add: t1_def set_count_def next_down_def to_T_def undisturbed_def add.assoc)
  define z where "z \<longleftrightarrow> (c0 + (k + 1)) mod 65536 = 0"
  obtain t2 where t2: "(if t_count (cctimers t1 1) = 0 then cct_overflow hw 1 t1 else Some ((), t1)) = Some ((), t2)"
    "cctimers t2 = cctimers t1" "ops t2 = ops t1" "mem_ok t2"
    "\<And>c. cell_get c t2 = (if z \<and> t1_mask_on t \<and> c = Cell Sfr 0x2F then cell_get c t OR 0x20
       else if z \<and> t1_mask_on t \<and> c = cell_ircon then cell_get c t OR 0x02 else cell_get c t)"
    using overflow_t1 [OF assms(1) t1(5)] t1(2,3,5)
    by (cases z) (auto simp: z_def to_short_zero)
  define t3 where "t3 = refresh_sfr 1 t2"
  have t3: "mem_ok t3" "ops t3 = ops t" "cctimers t3 = cctimers t1"
    "\<And>c. cell_get c t3 = (if c = Cell Sfr 0x63 then (c0 + (k + 1)) div 256 mod 256
       else if c = Cell Sfr 0x62 then (c0 + (k + 1)) mod 256 else cell_get c t2)"
  proof -
    have o: "ops t1 = ops t" by (simp add: t1_def set_count_def next_down_def)
    show "mem_ok t3" "ops t3 = ops t" "cctimers t3 = cctimers t1"
      "\<And>c. cell_get c t3 = (if c = Cell Sfr 0x63 then (c0 + (k + 1)) div 256 mod 256
         else if c = Cell Sfr 0x62 then (c0 + (k + 1)) mod 256 else cell_get c t2)"
      using t2(2-4) o t1(2) by (simp_all add: t3_def refresh_sfr_def set_poke cct_tl_def to_short_bytes Let_def)
  qed
  have u3: "undisturbed t3"
    by (rule undisturbed_cong [OF t1(1)]) (use t3 t2(5) t1(3) in \<open>auto simp: t1_def set_count_def next_down_def\<close>)
  obtain f where f: "(if cc_due 1 t3 then CaptureCompare hw 1 t3 else Some ((), t3)) = Some ((), upd_cct 1 f t3)"
    "undisturbed (upd_cct 1 f t3)" "t_count (f (cctimers t3 1)) = t_count (cctimers t3 1)"
    "cc_mode (f (cctimers t3 1)) = cc_mode (cctimers t3 1)"
  proof (cases "cc_due 1 t3")
    case True
    then show ?thesis using capture_idle [OF u3 assms(4)] that by auto
  next
    case False
    have "upd_cct 1 (\<lambda>t. t) t3 = t3" by (simp add: upd_cct_def)
    then show ?thesis using False u3 that [of "\<lambda>t. t"] by simp
  qed
  define u where "u = clear_pin_event 1 (upd_cct 1 f t3)"
  have "free_step hw 1 t = Some ((), u)"
    unfolding free_step_def Let_def t1_def [symmetric]
    by (simp add: t2(1) f(1) [unfolded t3_def] t3_def u_def split del: if_split)
  moreover have "ran c0 (k + 1) s u"
  proof -
    have "undisturbed u"
      by (rule undisturbed_cong [OF f(2)]) (use f(2) in \<open>simp_all add: u_def clear_pin_event_def undisturbed_def\<close>)
    moreover have "cell_get c u = cell_get c t3" for c by (simp add: u_def clear_pin_event_def)
    moreover have "t_count (cctimers u 1) = to_short (c0 + (k + 1))" "cc_mode (cctimers u 1) = cc_mode (cctimers t 1)"
      using f(3,4) t3(3) t1(2,4) by (simp_all add: u_def clear_pin_event_def)
    moreover have "(x OR 32) OR 32 = x OR (32::int)" "(x OR 2) OR 2 = x OR (2::int)" for x by (simp_all add: or.assoc)
    ultimately show ?thesis using assms(2,3) passed_zero [OF assms(3), of c0] t3(4) t2(5)
      unfolding ran_def Let_def z_def [symmetric] by auto
  qed
  ultimately show ?thesis by blast
qed


lemma repeat_free_ran:
  assumes "hw_happen hw Hw_DMA = dma_happen" "ran c0 k s t" "0 \<le> k" "silent_radio hw"
  shows "\<exists>u. repeat_step m (free_step hw 1) t = Some ((), u) \<and> ran c0 (k + int m) s u"
  using assms(2,3)
proof (induction m arbitrary: k t)
  case (Suc m)
  obtain u where u: "free_step hw 1 t = Some ((), u)" "ran c0 (k + 1) s u"
    using free_step_ran [OF assms(1) Suc.prems assms(4)] by blast
  obtain v where "repeat_step m (free_step hw 1) u = Some ((), v)" "ran c0 (k + 1 + int m) s v"
    using Suc.IH [OF u(2)] Suc.prems(2) by auto
  then show ?case using u(1) by (intro exI [of _ v]) (simp add: add.assoc add.commute add.left_commute)
qed simp

lemma free_running:
  assumes "hw_happen hw Hw_DMA = dma_happen" "undisturbed s" "cc_mode (cctimers s 1) = 1"
    "t = cctimers s 1" "0 < prescale t" "0 \<le> systemTicks t" "t_count t = to_short c0"
    "k = (systemTicks t + int n) div prescale t - systemTicks t div prescale t"
    and radio: "silent_radio hw"
  shows "\<exists>u. cct_tick hw 1 (int n) s = Some ((), u) \<and> ran c0 k s u"
proof -
  define v where "v = upd_cct 1 (\<lambda>t. prescale_loop n (t\<lparr>TimerTicks := 0\<rparr>)) s"
  have k: "0 \<le> k" unfolding assms(8) using assms(5) by (simp add: zdiv_mono1)
  have v: "cctimers v 1 = t\<lparr>systemTicks := systemTicks t + int n, TimerTicks := k\<rparr>"
    using assms(4,5,8) prescale_closed [of "t\<lparr>TimerTicks := 0\<rparr>" n] by (simp add: v_def)
  have "undisturbed v"
    by (rule undisturbed_cong [OF assms(2)])
      (use v assms(2,4) in \<open>simp_all add: v_def undisturbed_def\<close>)
  moreover have "(if (w::bool) \<and> 65536 \<le> c0 mod 65536 + 0 then a else b) = b" for w and a b :: int
  proof -
    have "\<not> 65536 \<le> c0 mod 65536" using pos_mod_bound [of 65536 c0] by linarith
    then show ?thesis by simp
  qed
  ultimately have r0: "ran c0 0 s v"
    using assms(3,4,7) v by (simp add: ran_def Let_def) (simp add: v_def)
  have e: "cct_tick hw 1 (int n) s = (if k \<noteq> 0 then cct_TimerTick hw 1 k v else Some ((), v))"
    using v assms(4,5) by (simp add: cct_tick_def v_def)
  show ?thesis
  proof (cases "k = 0")
    case False
    have "cct_TimerTick hw 1 k v = repeat_step (nat k) (free_step hw 1) v"
      using v assms(3,4) by (simp add: cct_TimerTick_def Let_def)
    then show ?thesis using repeat_free_ran [OF assms(1) r0 _ radio, of "nat k"] False k e by simp
  qed (use r0 e in simp)
qed

subsection \<open>Register writes\<close>

definition controls_plain :: "'z cc2530_scheme \<Rightarrow> bool" where
  "controls_plain s \<longleftrightarrow> mem_ok s \<and> (\<forall>i \<in> {0, 1, 2, 3, 4}. silent (t1_ctl_cell i) s)"

text \<open>The wiring, the compare values and the channel addressed last are as given.\<close>

definition values_are :: "(cell \<Rightarrow> mem_op list) \<times> (cell \<Rightarrow> mslot) \<Rightarrow> (int \<Rightarrow> int) \<Rightarrow> int \<Rightarrow> bool \<Rightarrow> 'z cc2530_scheme \<Rightarrow> bool" where
  "values_are w f i h s \<longleftrightarrow> controls_plain s \<and> (ops s, slot s) = w \<and> channelID (cctimers s 1) = i \<and> t_high (cctimers s 1) = h
     \<and> (\<forall>j. ValRegCMP (tabCh (cctimers s 1) j) = f j)"

lemma next_loop_keeps:
  assumes "values_are w f i h s" "set is \<subseteq> {0, 1, 2, 3, 4}" and radio: "silent_radio hw"
  shows "\<exists>u. next_cc_loop hw 1 is s = Some ((), u) \<and> values_are w f i h u"
  using assms(1,2)
proof (induction "is" arbitrary: s)
  case (Cons k "is")
  have "as_read hw (ch_space 1 k) (RegCTL 1 k) s = Some (cell_get (t1_ctl_cell k) s, s)"
    using Cons.prems by (subst t1_ctl_read [OF radio]) (auto simp: values_are_def controls_plain_def)
  moreover have "values_are w f i h (upd_cct 1 (next_cc_channel 1 k) s)"
    using Cons.prems(1) by (simp add: values_are_def controls_plain_def next_cc_channel_def Let_def)
  ultimately show ?case using Cons.IH Cons.prems by simp
qed simp

lemma next_event_keeps:
  assumes "values_are w f i h s" and radio: "silent_radio hw"
  shows "\<exists>u. get_next_cc_event hw 1 s = Some ((), u) \<and> values_are w f i h u"
proof -
  have "values_are w f i h (upd_cct 1 (\<lambda>t. t\<lparr>NextCmpEvent := -1\<rparr>) s)"
    using assms by (simp add: values_are_def controls_plain_def)
  then show ?thesis unfolding get_next_cc_event_def ChMax_def
    by (rule next_loop_keeps [OF _ _ radio]) (simp add: ch_range)
qed

lemma write_base_keeps:
  assumes "values_are w f i h s" and radio: "silent_radio hw"
  shows "\<exists>u. cct_write_base hw 1 cell v s = Some ((), u) \<and> values_are w f i h u"
proof -
  have "values_are w f i h (upd_cct 1 (\<lambda>t. t\<lparr>cc_TR := 0, cc_mode := cct_mode v\<rparr>) s)"
    "values_are w f i h (upd_cct 1 (\<lambda>t. t\<lparr>tickspd := 2 ^ nat ((v AND 0x38) div 8), systemTicks := 0\<rparr>) s)"
    using assms by (simp_all add: values_are_def controls_plain_def)
  from next_event_keeps [OF this(1) radio] this(2) show ?thesis using assms
    by (auto simp: cct_write_base_def)
qed

definition merged :: "bool \<Rightarrow> int \<Rightarrow> int \<Rightarrow> int" where
  "merged h v old = to_short (if h then (old AND 0xFF) + v * 256 else (old AND 0xFF00) + v)"

lemma t1_write_values:
  assumes "values_are w f i h s" "(j, b) = (case t1cc_channel cell of Some p \<Rightarrow> p | None \<Rightarrow> (i, h))"
    and radio: "silent_radio hw"
  shows "\<exists>u. cct_write hw 1 cell v s = Some (v, u) \<and> values_are w (f(j := merged b v (f j))) j b u"
proof -
  obtain a where a: "cct_write_base hw 1 cell v s = Some ((), a)" "values_are w f i h a"
    using write_base_keeps [OF assms(1) radio] by blast
  define c where "c = (if cell = cct_ctl 1 then upd_cct 1 (\<lambda>t. t\<lparr>prescale := t1_prescale v\<rparr>) a else a)"
  have c: "values_are w f i h c" using a(2) by (simp add: c_def values_are_def controls_plain_def)
  define d where "d = (case t1cc_channel cell of None \<Rightarrow> c
       | Some (i, h) \<Rightarrow>
           (let s = upd_cct 1 (\<lambda>t. t\<lparr>channelID := i, t_high := h\<rparr>) c
            in if i = 0 \<and> h
               then cell_set_bit1 cell_ircon (IrconFlag 1) (cell_set_bit1 (cell_FlagReg 1) 1 s) else s))"
  have d: "values_are w f j b d"
  proof (cases "t1cc_channel cell")
    case None
    then show ?thesis using c assms(2) by (simp add: d_def)
  next
    case (Some p)
    then have p: "p = (j, b)" using assms(2) by simp
    have y: "values_are w f j b (upd_cct 1 (\<lambda>t. t\<lparr>channelID := j, t_high := b\<rparr>) c)"
      using c by (simp add: values_are_def controls_plain_def)
    have "values_are w f j b (cell_set_bit1 x y z)" if "values_are w f j b z" for x y and z :: "'a cc2530_scheme"
      using that by (simp add: values_are_def controls_plain_def set_bits_poke byte_or)
    from this [OF this [OF y], of cell_ircon "IrconFlag 1" "cell_FlagReg 1" 1] y show ?thesis
      by (cases "j = 0 \<and> b") (auto simp: d_def Some p Let_def)
  qed
  define e where "e = upd_tch 1 (channelID (cctimers d 1)) (\<lambda>c. c\<lparr>ValRegCMP := to_short
    (if t_high (cctimers d 1) then (ValRegCMP c AND 0xFF) + v * 256 else (ValRegCMP c AND 0xFF00) + v)\<rparr>) d"
  have "values_are w (f(j := merged b v (f j))) j b e"
    using d by (auto simp: e_def values_are_def controls_plain_def upd_tch_def merged_def)
  then obtain u where u: "get_next_cc_event hw 1 e = Some ((), u)" "values_are w (f(j := merged b v (f j))) j b u"
    using next_event_keeps [OF _ radio] by blast
  have "cct_write hw 1 cell v s = Some (v, u)"
    by (simp only: cct_write_def t1_write_def Let_def if_True simp_thms a(1) Option.bind_lunit prod.case
        c_def [symmetric] d_def [unfolded Let_def, symmetric] e_def [symmetric] u(1))
  then show ?thesis using u(2) by blast
qed

definition t1_low :: "int \<Rightarrow> cell" where
  "t1_low i = (if i < 3 then Cell Sfr (0x5A + 2 * i) else Cell Xram (0x62AC + 2 * (i - 3)))"

definition t1_hi :: "int \<Rightarrow> cell" where
  "t1_hi i = (if i < 3 then Cell Sfr (0x5B + 2 * i) else Cell Xram (0x62AD + 2 * (i - 3)))"

lemma t1cc_cells:
  assumes "0 \<le> i" "i < 5"
  shows "t1cc_channel (t1_low i) = Some (i, False)" "t1cc_channel (t1_hi i) = Some (i, True)"
proof -
  have "i \<in> {0, 1, 2, 3, 4}" using assms by auto
  then show "t1cc_channel (t1_low i) = Some (i, False)" "t1cc_channel (t1_hi i) = Some (i, True)"
    by (elim insertE emptyE; simp add: t1cc_channel_def t1_low_def t1_hi_def)+
qed

lemma and_FF00_mod: "((x::int) AND 0xFF00) mod 256 = 0"
proof -
  have m: "(0xFF00::int) = push_bit 8 (mask 8)" by (simp add: push_bit_eq_mult mask_eq_exp_minus_1)
  show ?thesis unfolding m and_field by (simp add: push_bit_eq_mult)
qed

lemma merged_bytes:
  assumes "byte l"
  shows "merged True h (merged False l x) = to_short (h * 256 + l)"
    "merged True v (to_short (h * 256 + l)) = to_short (v * 256 + l)"
proof -
  have "((x AND 0xFF00) + l) mod 256 = l" using and_FF00_mod [of x] assms
    by (metis add.left_neutral byte_mod_eq mod_add_left_eq)
  then have "merged False l x mod 256 = l" by (simp add: merged_def to_short_bytes)
  then show "merged True h (merged False l x) = to_short (h * 256 + l)"
    by (simp add: merged_def add.commute)
  have "to_short (h * 256 + l) mod 256 = l" using assms by (simp add: to_short_bytes)
  then show "merged True v (to_short (h * 256 + l)) = to_short (v * 256 + l)"
    by (simp add: merged_def add.commute)
qed

end
