(* ===== verification/Mac2530Facts.thy ===== *)
theory Mac2530Facts
  imports Timer2530Facts
begin

text \<open>
  The MAC timer: it counts modulo 2^16, and of its six events only the end of the period ever
  requests an interrupt. The contract with the elements it informs is the locale \<open>mac_partners\<close>;
  \<open>WiringFacts\<close> interprets it on the whole chip.
\<close>

definition mac_state :: "int \<Rightarrow> int \<Rightarrow> 'z cc2530_scheme \<Rightarrow> bool" where
  "mac_state n i s \<longleftrightarrow> mem_ok s \<and> silent (Cell Sfr 0x27) s \<and> t2_per (mac s) = 0 \<and> m_mode (mac s) = 0
     \<and> m_count (mac s) = n \<and> cell_get cell_ircon s = i"

lemma mac_state_dma: "mac_state n i s \<Longrightarrow> \<exists>u. dma_happen ev s = Some ((), u) \<and> mac_state n i u"
proof -
  assume s: "mac_state n i s"
  obtain u where "dma_happen ev s = Some ((), u)" "ops u = ops s" "\<forall>c. cell_get c u = cell_get c s"
    "mem_ok u = mem_ok s" "mac u = mac s"
    using dma_happen_keeps [of ev s] by blast
  then show ?thesis using s silent_cong [of u s] by (intro exI [of _ u]) (simp add: mac_state_def)
qed

lemma set_ovf_fields [simp]:
  "t2_per (set_ovf a k v m) = t2_per m" "m_mode (set_ovf a k v m) = m_mode m"
  "m_count (set_ovf a k v m) = m_count m"
  by (simp_all add: set_ovf_def)

lemma ovf_step_fields [simp]:
  "t2_per (ovf_step m) = t2_per m" "m_mode (ovf_step m) = m_mode m" "m_count (ovf_step m) = m_count m"
  by (simp_all add: ovf_step_def Let_def)

lemma even_mask: "even m \<Longrightarrow> (v::int) AND m \<noteq> 1"
  by (metis even_and_iff odd_one)

lemma mac_state_upd:
  assumes "mac_state n i s" "t2_per (f (mac s)) = 0" "m_mode (f (mac s)) = 0" "m_count (f (mac s)) = k"
  shows "mac_state k i (upd_mac f s)"
  using assms by (simp add: mac_state_def)

text \<open>
  What the timer relies on: \<open>cl_radio\<close> is silent, and the elements it informs of an overflow leave
  its state, its mask register and the request register alone.
\<close>

locale mac_partners =
  fixes hw :: "'z cc_hw"
  assumes radio: "silent_radio hw"
    and partner: "h \<in> {Hw_usart1, Hw_CC2530radio, Hw_DMA} \<Longrightarrow> mac_state n i s \<Longrightarrow>
      \<exists>u. hw_happen hw h (EV_OVERFLOW Hw_MAC_timer) s = Some ((), u) \<and> mac_state n i u"
begin

text \<open>An event whose mask is not 1 sets its flag and nothing more.\<close>

lemma mac_raise_quiet:
  assumes "mac_state n i s" "even m" "byte m"
  shows "\<exists>u. mac_raise hw m s = Some ((), u) \<and> mac_state n i u"
proof -
  define t where "t = cell_set_bit1 cell_t2irqf m s"
  have t: "mac_state n i t" "silent (Cell Sfr 0x27) t"
    using assms by (simp_all add: t_def mac_state_def set_bits_poke byte_or)
  have r: "as_read hw Sfr r_T2IRQM t = Some (cell_get (Cell Sfr 0x27) t, t)"
    using sfr_read_silent [OF _ _ radio, of r_T2IRQM t] t(2) by simp
  have "mac_raise hw m s = Some ((), upd_mac (\<lambda>t. t\<lparr>m_event := True\<rparr>) t)"
    using even_mask [OF assms(2)] by (simp add: mac_raise_def t_def [symmetric] r)
  then show ?thesis using t(1) by (simp add: mac_state_def)
qed

lemma when_raise:
  assumes "mac_state n i s" "even m" "byte m"
  shows "\<exists>u. (if c then mac_raise hw m s else Some ((), s)) = Some ((), u) \<and> mac_state n i u"
  using mac_raise_quiet [OF assms] assms(1) by simp

lemma mac_overflow_quiet:
  assumes "mac_state n i s"
  shows "\<exists>u. mac_overflow hw s = Some ((), u) \<and> mac_state n i u"
proof -
  obtain x where x: "hw_happen hw Hw_usart1 (EV_OVERFLOW Hw_MAC_timer) s = Some ((), x)" "mac_state n i x"
    using partner [OF _ assms, of Hw_usart1] by blast
  obtain y where y: "hw_happen hw Hw_CC2530radio (EV_OVERFLOW Hw_MAC_timer) x = Some ((), y)" "mac_state n i y"
    using partner [OF _ x(2), of Hw_CC2530radio] by blast
  obtain a where a: "hw_happen hw Hw_DMA (EV_OVERFLOW Hw_MAC_timer) y = Some ((), a)" "mac_state n i a"
    using partner [OF _ y(2), of Hw_DMA] by blast
  define b where "b = upd_mac ovf_step (if cell_get cell_cspt a \<noteq> 0xFF
    then snd (cell_set cell_cspt (cell_get cell_cspt a - 1) a) else a)"
  have b: "mac_state n i b"
    using a(2) by (simp add: b_def mac_state_def set_poke)
  define z where "z = upd_mac (\<lambda>m. set_ovf 0 0 0 (set_ovf 0 1 0 (set_ovf 0 2 0 m))) b"
  have z: "mac_state n i z" using b by (simp add: z_def mac_state_def)
  obtain c where c: "(if ovf_at 2 (mac b) then mac_raise hw 0x08 z else Some ((), b)) = Some ((), c)" "mac_state n i c"
    using mac_raise_quiet [OF z, of "0x08"] b by (cases "ovf_at 2 (mac b)") (auto simp: byte_def)
  obtain d where d: "(if ovf_at 3 (mac c) then mac_raise hw 0x10 c else Some ((), c)) = Some ((), d)" "mac_state n i d"
    using when_raise [OF c(2), of "0x10" "ovf_at 3 (mac c)"] by (auto simp: byte_def)
  obtain e where e: "(if ovf_at 4 (mac d) then mac_raise hw 0x20 d else Some ((), d)) = Some ((), e)" "mac_state n i e"
    using when_raise [OF d(2), of "0x20" "ovf_at 4 (mac d)"] by (auto simp: byte_def)
  have "mac_overflow hw s = Some ((), e)"
    by (simp only: mac_overflow_def Let_def x(1) y(1) a(1) Option.bind_lunit prod.case
        b_def [symmetric] z_def [symmetric] c(1) d(1) e(1))
  then show ?thesis using e(2) by blast
qed

lemma CountCompare_quiet:
  assumes "mac_state n i s"
  shows "\<exists>u. CountCompare hw s = Some ((), u) \<and> mac_state n i u"
proof -
  define a where "a = upd_mac (\<lambda>m. m\<lparr>T2_EVENT1 := False, T2_EVENT2 := False\<rparr>) s"
  have a: "mac_state n i a" using assms by (simp add: a_def mac_state_def)
  obtain b where b: "(if m_count (mac a) = t2_cmp1 (mac a) then mac_raise hw 0x02 a else Some ((), a)) = Some ((), b)"
    "mac_state n i b" using when_raise [OF a, of "0x02"] by (auto simp: byte_def)
  obtain c where c: "(if m_count (mac b) = t2_cmp2 (mac b) then mac_raise hw 0x04 b else Some ((), b)) = Some ((), c)"
    "mac_state n i c" using when_raise [OF b(2), of "0x04"] by (auto simp: byte_def)
  have p: "t2_per (mac c) = 0" using c(2) by (simp add: mac_state_def)
  have "mac_state n i (upd_mac (\<lambda>m. m\<lparr>T2_EVENT1 := x, T2_EVENT2 := y\<rparr>) c)"
    "mac_state n i (upd_mac (\<lambda>m. m\<lparr>T2_EVENT1 := x, T2_EVENT2 := y\<rparr>) (snd (cell_set cell_t2irqf 0 c)))" for x y
    using c(2) by (simp_all add: mac_state_def set_poke)
  then show ?thesis
    by (simp add: CountCompare_def a_def [symmetric] b(1) c(1) p Let_def split del: if_split) simp
qed

lemma never_interrupts:
  assumes "mem_ok s" "silent (Cell Sfr 0x27) s" "t2_per (mac s) = 0" "m_mode (mac s) = 0"
    "0 \<le> m_count (mac s)" "m_count (mac s) < 65536"
  shows "\<exists>u. mac_tick hw (int n) s = Some ((), u)
     \<and> m_count (mac u) = (m_count (mac s) + int n) mod 65536 \<and> cell_get cell_ircon u = cell_get cell_ircon s"
proof -
  define i where "i = cell_get cell_ircon s"
  have step: "\<exists>u. up_step hw t = Some ((), u) \<and> mac_state ((k + 1) mod 65536) i u"
    if "mac_state k i t" for k and t :: "'z cc2530_scheme"
  proof -
    define a where "a = upd_mac (\<lambda>m. m\<lparr>m_event := False, m_count := to_tmem (m_count m + 1)\<rparr>) t"
    have a: "mac_state ((k + 1) mod 65536) i a" using that by (simp add: a_def mac_state_def to_tmem_def)
    obtain b where b: "(if m_count (mac a) = 0 then mac_overflow hw a else Some ((), a)) = Some ((), b)"
      "mac_state ((k + 1) mod 65536) i b"
      using mac_overflow_quiet [OF a] a by (cases "m_count (mac a) = 0") auto
    then show ?thesis using CountCompare_quiet [OF b(2)]
      by (simp add: up_step_def a_def [symmetric] b(1))
  qed
  have "\<exists>u. repeat_step n (up_step hw) t = Some ((), u) \<and> mac_state ((k + int n) mod 65536) i u"
    if "mac_state k i t" "k mod 65536 = k" for n k and t :: "'z cc2530_scheme"
    using that
  proof (induction n arbitrary: k t)
    case (Suc n)
    obtain u where u: "up_step hw t = Some ((), u)" "mac_state ((k + 1) mod 65536) i u"
      using step [OF Suc.prems(1)] by blast
    obtain v where v: "repeat_step n (up_step hw) u = Some ((), v)"
      "mac_state (((k + 1) mod 65536 + int n) mod 65536) i v"
      using Suc.IH [OF u(2)] by auto
    have "((k + 1) mod 65536 + int n) mod 65536 = (k + int (Suc n)) mod 65536"
      by (simp add: mod_simps add.commute add.left_commute)
    then show ?case using u(1) v by auto
  qed simp
  moreover have "mac_state (m_count (mac s)) i s" using assms(1-4) by (simp add: mac_state_def i_def)
  ultimately obtain u where "repeat_step n (up_step hw) s = Some ((), u)"
    "mac_state ((m_count (mac s) + int n) mod 65536) i u"
    using assms(5,6) by fastforce
  then show ?thesis using assms(4) by (intro exI [of _ u]) (simp add: mac_tick_def mac_state_def i_def)
qed

end

end
