(* ===== verification/MemView.thy ===== *)
theory MemView
  imports MemFacts
begin

text \<open>
  Predicates that memory cannot change: a predicate on the state that does not depend on the
  contents, the events, the errors and the random position of the memory survives an access when
  it survives the handlers of the hardware. Reads and writes are two contracts, because a read
  handler often keeps more than a write handler does.
\<close>

locale view_read =
  fixes hw :: "'z mem_scheme hwif" and I :: "'z mem_scheme \<Rightarrow> bool"
  assumes V_store [simp]: "I (store d v s) = I s"
    and V_event [simp]: "I (add_event b s) = I s"
    and V_error [simp]: "I (uc_error k s) = I s"
    and V_rand [simp]: "I (s\<lparr>rand_pos := n\<rparr>) = I s"
    and read_V: "I s \<Longrightarrow> sat (\<lambda>_. I) (hw_read hw h c s)"
begin

lemma V_err [simp]: "I (err_inv_addr a addr s) = I s"
  by (simp add: err_inv_addr_def)

lemma V_poke [simp]: "I (poke c v s) = I s"
  by (simp add: poke_def)

lemma V_bits [simp]: "I (cell_set_bit1 c b s) = I s" "I (cell_set_bit0 c b s) = I s"
  by (simp_all add: set_bits_poke)

lemma V_dummy [simp]: "I (snd (dummy_store c s)) = I s"
  by (simp add: dummy_store_def next_rand_def Let_def)

lemma dummy_store_V: "dummy_store c s = (v, t) \<Longrightarrow> I s \<Longrightarrow> I t"
  by (metis V_dummy snd_conv)

lemma V_set [simp]: "I (snd (cell_set c v s)) = I s"
  by (cases c) (simp_all add: set_poke cell_set.simps(1))

lemma ops_read_V: "I s \<Longrightarrow> sat (\<lambda>_. I) (ops_read hw c ps s)"
proof (induction ps arbitrary: s)
  case (Cons p ps)
  show ?case
  proof (cases p)
    case (Hw_op d h)
    show ?thesis
      unfolding Hw_op ops_read.simps
      by (rule sat_bindI [OF read_V [OF Cons.prems]], rule sat_bindI [OF Cons.IH]) auto
  qed (use Cons in \<open>auto simp: Let_def\<close>)
qed simp

lemma cell_read_V: "I s \<Longrightarrow> sat (\<lambda>_. I) (cell_read hw c s)"
  by (simp add: cell_read_def ops_read_V)

lemma leaf_read_V: "I s \<Longrightarrow> sat (\<lambda>_. I) (leaf_read hw a addr s)"
  by (simp add: leaf_read_def cell_read_V)

lemma cells_read_V: "I s \<Longrightarrow> sat (\<lambda>_. I) (cells_read hw a i s)"
  by (simp add: cells_read_def cell_read_V split: option.split)

lemma sram_read_V: "I s \<Longrightarrow> sat (\<lambda>_. I) (sram_read hw i s)"
  by (simp add: sram_read_def leaf_read_V cells_read_V)

lemmas leaf_read_bind = sat_bindI [OF leaf_read_V]

lemma as_read_V: "I s \<Longrightarrow> sat (\<lambda>_. I) (as_read hw a addr s)"
  unfolding as_read_def rom_read_def xram_read_def
  by (auto simp: Let_def leaf_read_V sram_read_V cells_read_V intro!: leaf_read_bind)

lemma leaf_get_V: "I s \<Longrightarrow> sat (\<lambda>_. I) (Some (leaf_get a addr s))"
  by (simp add: leaf_get_def Let_def)

lemma cells_get_V: "I s \<Longrightarrow> sat (\<lambda>_. I) (cells_get a i s)"
  by (simp add: cells_get_def split: option.split)

lemma sram_get_V: "I s \<Longrightarrow> sat (\<lambda>_. I) (sram_get i s)"
  by (simp add: sram_get_def leaf_get_V cells_get_V)

lemma as_get_V: "I s \<Longrightarrow> sat (\<lambda>_. I) (as_get hw a addr s)"
  unfolding as_get_def rom_get_def xram_get_def
  by (auto simp: Let_def leaf_get_V sram_get_V cells_get_V intro!: leaf_read_bind)

lemma leaf_set_V [simp]: "I (leaf_set a addr v s) = I s"
  by (simp add: leaf_set_def)

lemma as_set_V: "I s \<Longrightarrow> as_set hw a addr v s = Some t \<Longrightarrow> I t"
  using leaf_read_V [of s Sfr r_MCON]
  by (auto simp: as_set_def xram_set_def sram_set_def cells_set_def bank_set_def Let_def sat_def
      split: if_splits option.splits Option.bind_splits)

end

locale view_write = view_read +
  assumes write_V: "I s \<Longrightarrow> sat (\<lambda>_. I) (hw_write hw h c v s)"
begin

lemma ops_write_V: "I s \<Longrightarrow> sat (\<lambda>_. I) (ops_write hw c ps v s)"
proof (induction ps arbitrary: s v)
  case (Cons p ps)
  show ?case
  proof (cases p)
    case (Hw_op d h)
    show ?thesis
      unfolding Hw_op ops_write.simps
      by (rule sat_bindI [OF write_V [OF Cons.prems]], rule sat_bindI [OF Cons.IH])
        (auto simp: Let_def)
  qed (use Cons in \<open>auto simp: Let_def\<close>)
qed simp

lemma cell_write_V: "I s \<Longrightarrow> sat (\<lambda>_. I) (cell_write hw c v s)"
  by (cases c) (auto simp: cell_write.simps Let_def sat_def dest: satD [OF ops_write_V] dummy_store_V)

lemma leaf_write_V: "I s \<Longrightarrow> sat (\<lambda>_. I) (leaf_write hw a addr v s)"
  by (simp add: leaf_write_def cell_write_V)

lemma cells_write_V: "I s \<Longrightarrow> sat (\<lambda>_. I) (cells_write hw a i v s)"
  by (simp add: cells_write_def cell_write_V split: option.split)

lemma sram_write_V: "I s \<Longrightarrow> sat (\<lambda>_. I) (sram_write hw i v s)"
  by (simp add: sram_write_def leaf_write_V cells_write_V)

lemma as_write_V: "I s \<Longrightarrow> sat (\<lambda>_. I) (as_write hw a addr v s)"
  unfolding as_write_def xram_write_def
  by (auto simp: Let_def sram_write_V leaf_write_V cells_write_V intro!: leaf_read_bind)

end


end
