(* ===== verification/RadioView.thy ===== *)
theory RadioView
  imports RfChip2530 MemView Cc2530Facts
begin

text \<open>
  What the elements of the chip can do to the radio: reads never change it, and writes keep the
  state in which the radio receives nothing. The contract \<open>radio_env\<close> states this of a hardware
  interface; it holds of the chip at every nesting depth, by induction on the depth.
\<close>

subsection \<open>The view of the radio\<close>

definition rv :: "'z rf2530_scheme \<Rightarrow> radio \<times> csp" where
  "rv s = (rf s, CSP s)"

lemma rv_iff: "rv s = rv t \<longleftrightarrow> rf s = rf t \<and> CSP s = CSP t"
  by (simp add: rv_def)

lemma rv_simps [simp]:
  "rv (store d v s) = rv s" "rv (add_event b s) = rv s" "rv (uc_error k s) = rv s"
  "rv (s\<lparr>rand_pos := n\<rparr>) = rv s" "rv (s\<lparr>stale_pos := n\<rparr>) = rv s" "rv (poke c v s) = rv s"
  "rv (cell_set_bit1 c v s) = rv s" "rv (cell_set_bit0 c v s) = rv s"
  "rv (s\<lparr>MovInstruction := mv\<rparr>) = rv s"
  by (simp_all add: rv_def store_def add_event_def uc_error_def poke_def cell_set_bit1_def
      cell_set_bit0_def)

lemma rv_set [simp]: "rv (snd (cell_set c v s)) = rv s"
  by (cases c) (simp_all add: cell_set.simps dummy_store_def next_rand_def Let_def)

lemma rv_set_reg [simp]: "rv (set_reg a v s) = rv s"
  by (simp add: set_reg_def)

lemma rv_request [simp]: "rv (rf_request msk m flag b s) = rv s"
  by (simp add: rf_request_def)

lemma rv_elements [simp]:
  "rv (upd_ch i g s) = rv s" "rv (upd_flash g1 s) = rv s" "rv (upd_page p g2 s) = rv s"
  "rv (upd_cct n g3 s) = rv s" "rv (upd_mac g4 s) = rv s" "rv (upd_usart n g5 s) = rv s"
  "rv (upd_ser g6 s) = rv s" "rv (set_timer n g7 s) = rv s" "rv (upd_tch n j g8 s) = rv s"
  "rv (select_bank a s) = rv s"
  by (simp_all add: rv_def upd_ch_def upd_flash_def upd_page_def upd_cct_def upd_mac_def
      upd_usart_def upd_ser_def set_timer_def upd_tch_def select_bank_def)

lemma rv_core [simp]:
  "rv (s\<lparr>sp_max := n\<rparr>) = rv s" "rv (s\<lparr>sp_avg := n\<rparr>) = rv s" "rv (s\<lparr>port_prev := p\<rparr>) = rv s"
  "rv (s\<lparr>was_reti := b\<rparr>) = rv s" "rv (s\<lparr>bit_IT0 := b\<rparr>) = rv s" "rv (s\<lparr>bit_IT1 := b\<rparr>) = rv s"
  "rv (s\<lparr>bit_INT0 := b\<rparr>) = rv s" "rv (s\<lparr>bit_INT1 := b\<rparr>) = rv s"
  by (simp_all add: rv_def)

lemma rv_upd [simp]:
  "rf (upd_rf f s) = f (rf s)" "CSP (upd_rf f s) = CSP s"
  "rf (upd_csp g s) = rf s" "CSP (upd_csp g s) = g (CSP s)"
  "cell_get c (upd_rf f s) = cell_get c s" "cell_get c (upd_csp g s) = cell_get c s"
  "ops (upd_rf f s) = ops s" "ops (upd_csp g s) = ops s"
  "slot (upd_rf f s) = slot s" "slot (upd_csp g s) = slot s"
  by (simp_all add: upd_rf_def upd_csp_def cell_get_def)

lemma rv_parts [simp]:
  "rf (store d v s) = rf s" "rf (poke c v s) = rf s" "rf (cell_set_bit1 c v s) = rf s"
  "rf (cell_set_bit0 c v s) = rf s" "rf (set_reg a v s) = rf s" "rf (rf_request msk m flag b s) = rf s"
  "CSP (store d v s) = CSP s" "CSP (poke c v s) = CSP s" "CSP (cell_set_bit1 c v s) = CSP s"
  "CSP (cell_set_bit0 c v s) = CSP s" "CSP (set_reg a v s) = CSP s"
  "CSP (rf_request msk m flag b s) = CSP s"
  using rv_simps(1) [of d v s] rv_simps(6-8) [of c v s] rv_set_reg [of a v s]
    rv_request [of msk m flag b s] by (simp_all add: rv_def)

lemma fold_rv: "(\<And>x s. rv (f x s) = rv s) \<Longrightarrow> rv (fold f xs s) = rv s"
  by (induction xs arbitrary: s) simp_all

definition quiet_rv :: "radio \<times> csp \<Rightarrow> bool" where
  "quiet_rv = (\<lambda>(r, c). fsm_st r \<in> {IDLE, TX_CALIBRATION, TX} \<and> \<not> RX_ACTIVE r \<and> rxEnable r = 0
     \<and> \<not> RxEnableWhenTxComplete r \<and> \<not> underflow r \<and> \<not> frame_sent r \<and> freq r = 32000000
     \<and> RXFIFO r = test_frame \<and> \<not> SRFOFF c)"

definition quiet :: "'z rf2530_scheme \<Rightarrow> bool" where
  "quiet s \<longleftrightarrow> quiet_rv (rv s)"

lemma quiet_cong: "rv t = rv s \<Longrightarrow> quiet t = quiet s"
  by (simp add: quiet_def)

subsection \<open>Handlers of the other elements\<close>

abbreviation keeps_rv :: "radio \<times> csp \<Rightarrow> ('a \<times> 'z rf2530_scheme) option \<Rightarrow> bool" where
  "keeps_rv w m \<equiv> sat (\<lambda>_ t. rv t = w) m"

lemma quietI: "keeps_rv (rv s) m \<Longrightarrow> quiet s \<Longrightarrow> sat (\<lambda>_. quiet) m"
  by (auto simp: sat_def quiet_def)

lemma timer_event_rv: "rv s = w \<Longrightarrow> keeps_rv w (timer_happen n ev s)"
  by (cases "(n, ev, s)" rule: timer_happen.cases) (simp_all add: Let_def)

lemma interrupt_event_rv: "rv s = w \<Longrightarrow> keeps_rv w (interrupt_happen ev s)"
  by (cases "(ev, s)" rule: interrupt_happen.cases) (simp_all add: Let_def)

lemma serial_event_rv: "rv s = w \<Longrightarrow> keeps_rv w (serial_happen ev s)"
  by (cases "(ev, s)" rule: serial_happen.cases) simp_all

lemma dma_event_rv: "rv s = w \<Longrightarrow> keeps_rv w (dma_happen ev s)"
  by (cases "dma_trigger ev") (simp_all add: dma_happen_def fold_rv del: fold.simps)

lemma inform_ports_rv: "rv s = w \<Longrightarrow> keeps_rv w (port_inform n ep s)"
  unfolding port_inform_def
  by (intro sat_if sat_bindI [OF timer_event_rv] interrupt_event_rv) simp_all

lemma core_write_rv:
  "rv s = w \<Longrightarrow> keeps_rv w (dummy_hw_write c v s)" "rv s = w \<Longrightarrow> keeps_rv w (interrupt_write c v s)"
  "rv s = w \<Longrightarrow> keeps_rv w (timer_write n c v s)" "rv s = w \<Longrightarrow> keeps_rv w (radio_write c v s)"
  by (simp_all add: dummy_hw_write_def timer_write_def interrupt_write_def radio_write_def Let_def)

lemma port_write_rv: "rv s = w \<Longrightarrow> keeps_rv w (port_write n c v s)"
  unfolding port_write_def Let_def
  by (rule sat_bindI [where P = "\<lambda>_ t. rv t = w"]) (auto intro: inform_ports_rv)

lemma dma_write_rv: "rv s = w \<Longrightarrow> keeps_rv w (dma_write c v s)"
  by (simp add: dma_write_def Let_def fold_rv case_prod_beta del: fold.simps)

lemma mac_write_rv: "rv s = w \<Longrightarrow> keeps_rv w (mac_write c v s)"
  by (simp add: mac_write_def Let_def split: option.split)

lemma usart_write_rv: "rv s = w \<Longrightarrow> keeps_rv w (usart_write n c v s)"
  by (simp add: usart_write_def Let_def)

lemma serial_write_rv: "rv s = w \<Longrightarrow> keeps_rv w (serial_write c v s)"
  by (simp add: serial_write_def)

subsection \<open>The contract of the environment\<close>

locale radio_env =
  fixes hw :: "'z rf_hw"
  assumes read_rv: "sat (\<lambda>_ t. rv t = rv s) (hw_read hw h c s)"
    and write_quiet: "quiet s \<Longrightarrow> sat (\<lambda>_. quiet) (hw_write hw h c v s)"
    and happen_quiet: "quiet s \<Longrightarrow> sat (\<lambda>_. quiet) (hw_happen hw h ev s)"

sublocale radio_env \<subseteq> keep: view_read hw "\<lambda>s. rv s = w" for w
  by unfold_locales (auto intro: sat_mono [OF read_rv])

sublocale radio_env \<subseteq> calm: view_write hw quiet
  by unfold_locales (auto simp: quiet_def intro: sat_mono [OF read_rv] sat_mono [OF write_quiet [unfolded quiet_def]])

end
