(* ===== verification/RadioQuiet.thy ===== *)
theory RadioQuiet
  imports RadioView
begin

text \<open>
  The radio never receives. Every handler an access can reach keeps the state \<open>quiet\<close>, so the
  chip meets the contract \<open>radio_env\<close> at every depth; every tick, reset, register access and
  strobe of the radio keeps it too, and construction establishes it.
\<close>

subsection \<open>Updates that keep the quiet state\<close>

lemma quiet_mem [simp]:
  "quiet (store d v s) = quiet s" "quiet (poke c v s) = quiet s"
  "quiet (cell_set_bit1 c v s) = quiet s" "quiet (cell_set_bit0 c v s) = quiet s"
  "quiet (snd (cell_set c v s)) = quiet s" "quiet (set_reg a v s) = quiet s"
  "quiet (rf_request msk m flag b s) = quiet s" "quiet (s\<lparr>rand_pos := n\<rparr>) = quiet s"
  "quiet (s\<lparr>stale_pos := n\<rparr>) = quiet s"
  by (simp_all add: quiet_def)

lemma quiet_elements [simp]:
  "quiet (upd_flash g1 s) = quiet s" "quiet (upd_page p g2 s) = quiet s"
  "quiet (upd_cct n g3 s) = quiet s" "quiet (upd_tch n j g8 s) = quiet s"
  "quiet (select_bank a s) = quiet s"
  by (simp_all add: quiet_def)

lemma quiet_csp: "SRFOFF (g (CSP s)) = SRFOFF (CSP s) \<Longrightarrow> quiet (upd_csp g s) = quiet s"
  by (simp add: quiet_def quiet_rv_def rv_def)

lemma quiet_set_ack [simp]: "quiet (set_ack s) = quiet s"
  by (simp add: quiet_def quiet_rv_def rv_def set_ack_def Let_def)

lemma quiet_irq [simp]:
  "quiet (IRQ_CSP_STOP s) = quiet s" "quiet (IRQ_CSP_WT s) = quiet s" "quiet (IRQ_CSP_INT s) = quiet s"
  "quiet (pc_to g s) = quiet s" "quiet (add_reg a d s) = quiet s" "quiet (wrap_pc s) = quiet s"
  by (simp_all add: IRQ_CSP_STOP_def IRQ_CSP_WT_def IRQ_CSP_INT_def pc_to_def add_reg_def
      wrap_pc_def quiet_csp)

lemma quiet_condition [simp]: "quiet (snd (condition n s)) = quiet s"
  by (simp add: condition_def)

lemma quiet_insts [simp]:
  "quiet (inst_dec_x s) = quiet s" "quiet (inst_dec_y s) = quiet s" "quiet (inst_dec_z s) = quiet s"
  "quiet (inst_inc_x s) = quiet s" "quiet (inst_inc_y s) = quiet s" "quiet (inst_inc_z s) = quiet s"
  "quiet (inst_inc_maxy k s) = quiet s" "quiet (inst_rand_xy s) = quiet s"
  "quiet (inst_int s) = quiet s" "quiet (inst_label s) = quiet s"
  by (simp_all add: inst_dec_x_def inst_dec_y_def inst_dec_z_def inst_inc_x_def inst_inc_y_def
      inst_inc_z_def inst_inc_maxy_def inst_rand_xy_def inst_int_def inst_label_def next_rand_def
      Let_def quiet_csp)

lemma quiet_waits [simp]:
  "quiet (inst_waitx s) = quiet s" "quiet (inst_waitw k s) = quiet s"
  "quiet (inst_wait_event1 s) = quiet s" "quiet (inst_wait_event2 s) = quiet s"
  by (simp_all add: inst_waitx_def inst_waitw_def inst_wait_event1_def inst_wait_event2_def
      Let_def quiet_csp)

lemma quiet_jumps [simp]:
  "quiet (inst_repeatC k s) = quiet s" "quiet (inst_skipCS k s) = quiet s"
  by (simp_all add: inst_repeatC_def inst_skipCS_def Let_def case_prod_beta)

lemma quiet_strobes [simp]:
  "quiet (inst_stxoncca s) = quiet s" "quiet (inst_srxon s) = quiet s" "quiet (inst_istxon s) = quiet s"
  "quiet (inst_srfoff s) = quiet s" "quiet (inst_sflushrx s) = quiet s"
  "quiet (inst_sflushtx s) = quiet s" "quiet (inst_isstart s) = quiet s"
  "quiet (strobe_error s) = quiet s" "quiet (answered s) = quiet s"
  by (simp_all add: inst_stxoncca_def inst_srxon_def inst_istxon_def inst_srfoff_def
      inst_sflushrx_def inst_sflushtx_def inst_isstart_def strobe_error_def answered_def quiet_csp)

subsection \<open>The contract, element by element\<close>

lemma table_write_keeps: "rv (upd_rf (table_write n v) s) = (table_write n v (rf s), CSP s)"
  by (simp add: rv_def)

lemma quiet_table [simp]: "quiet (upd_rf (table_write n v) s) = quiet s"
  by (simp add: quiet_def table_write_keeps quiet_rv_def table_write_def Let_def rv_def)

lemma radio_write_quiet: "quiet s \<Longrightarrow> sat (\<lambda>_. quiet) (radio_rf_write c v s)"
  by (simp add: radio_rf_write_def cell_rfd_def cell_clkconcmd_rf_def Let_def)

lemma radio_read_rv: "keeps_rv (rv s) (radio_rf_read hw c s)"
  by (simp add: radio_rf_read_def cell_rfd_def)

lemma radio_event_quiet: "quiet s \<Longrightarrow> sat (\<lambda>_. quiet) (radio_rf_happen ev s)"
  by (auto simp: radio_rf_happen_def Let_def quiet_def quiet_rv_def rv_def set_ack_def)

context radio_env
begin

lemma erase_quiet: "quiet s \<Longrightarrow> sat (\<lambda>_. quiet) (erase_loop hw p n i s)"
  by (induction n arbitrary: i s) (auto intro!: sat_bindI [OF calm.as_write_V])

lemma erasePage_quiet: "quiet s \<Longrightarrow> sat (\<lambda>_. quiet) (erasePage hw p s)"
  unfolding erasePage_def Let_def by (rule sat_bindI [OF erase_quiet]) simp_all

lemma flash_bytes_quiet: "quiet s \<Longrightarrow> sat (\<lambda>_. quiet) (flash_bytes hw is s)"
  by (induction "is" arbitrary: s) (auto simp: Let_def intro!: sat_bindI [OF calm.as_write_V])

lemma fold_quiet: "(\<And>x s. quiet (f x s) = quiet s) \<Longrightarrow> quiet (fold f xs s) = quiet s"
  by (induction xs arbitrary: s) simp_all

lemma flashWrite_quiet: "quiet s \<Longrightarrow> sat (\<lambda>_. quiet) (flashWrite hw s)"
  unfolding flashWrite_def Let_def
  by (rule sat_bindI [OF flash_bytes_quiet]) (simp_all add: fold_quiet del: fold.simps)

lemma fwdata_quiet: "quiet s \<Longrightarrow> sat (\<lambda>_. quiet) (write_fwdata hw v s)"
  unfolding write_fwdata_def Let_def by (simp add: flashWrite_quiet)

lemma flash_write_quiet: "quiet s \<Longrightarrow> sat (\<lambda>_. quiet) (flash_write hw c v s)"
  unfolding flash_write_def Let_def
  by (auto intro!: sat_bindI [where P = "\<lambda>_. quiet"] sat_if erasePage_quiet fwdata_quiet)

lemma next_cc_quiet: "quiet s \<Longrightarrow> sat (\<lambda>_. quiet) (next_cc_loop hw n is s)"
  by (induction "is" arbitrary: s) (auto intro!: sat_bindI [OF calm.as_read_V])

lemma cct_base_quiet: "quiet s \<Longrightarrow> sat (\<lambda>_. quiet) (cct_write_base hw n c v s)"
  by (simp add: cct_write_base_def get_next_cc_event_def next_cc_quiet)

lemma t1_write_quiet: "quiet s \<Longrightarrow> sat (\<lambda>_. quiet) (t1_write hw c v s)"
  unfolding t1_write_def Let_def get_next_cc_event_def
  by (rule sat_bindI [OF cct_base_quiet], assumption, rule sat_bindI [OF next_cc_quiet])
    (simp_all split: option.split prod.split)

lemma t34_write_quiet: "quiet s \<Longrightarrow> sat (\<lambda>_. quiet) (t34_write hw n c v s)"
  unfolding t34_write_def Let_def get_next_cc_event_def
  by (rule sat_bindI [OF cct_base_quiet], assumption, rule sat_bindI [where P = "\<lambda>_. quiet"])
    (auto intro: next_cc_quiet)

lemma cct_write_quiet: "quiet s \<Longrightarrow> sat (\<lambda>_. quiet) (cct_write hw n c v s)"
  by (simp add: cct_write_def t1_write_quiet t34_write_quiet)

subsection \<open>The strobe processor\<close>

lemma inform_quiet: "quiet s \<Longrightarrow> sat (\<lambda>_. quiet) (inform hw hs ev s)"
  by (induction hs arbitrary: s) (auto intro!: sat_bindI [OF happen_quiet])

lemma sack_quiet: "quiet s \<Longrightarrow> sat (\<lambda>_. quiet) (inst_sack hw b s)"
  unfolding inst_sack_def Let_def
  by (rule sat_bindI [where P = "\<lambda>_. quiet"], intro sat_if)
    (auto simp: quiet_csp intro!: sat_bindI [OF inform_quiet])

lemma snack_quiet: "quiet s \<Longrightarrow> sat (\<lambda>_. quiet) (inst_snack hw s)"
  unfolding inst_snack_def by (auto intro!: sat_bindI [OF inform_quiet])

lemma clear_program_quiet: "quiet s \<Longrightarrow> clear_program hw n i s = Some t \<Longrightarrow> quiet t"
  by (induction n arbitrary: i s) (auto split: Option.bind_splits dest: calm.as_set_V)

lemma isclear_quiet: "quiet s \<Longrightarrow> sat (\<lambda>_. quiet) (inst_isclear hw s)"
  by (auto simp: inst_isclear_def Let_def sat_def quiet_csp split: Option.bind_splits
      dest!: clear_program_quiet [rotated])

lemma strobes_quiet:
  "quiet s \<Longrightarrow> sat (\<lambda>_. quiet) (strobe_D hw n s)" "quiet s \<Longrightarrow> sat (\<lambda>_. quiet) (strobe_E hw n s)"
  by (simp_all add: strobe_D_def strobe_E_def sack_quiet snack_quiet)

lemma other_quiet: "quiet s \<Longrightarrow> sat (\<lambda>_. quiet) (inst_other hw n s)"
  by (simp add: inst_other_def isclear_quiet)

lemma when_quiet: "quiet s \<Longrightarrow> (b \<Longrightarrow> sat (\<lambda>_. quiet) (f s)) \<Longrightarrow> sat (\<lambda>_. quiet) (when_do b f s)"
  by (simp add: when_do_def)

lemma exec_quiet: "quiet s \<Longrightarrow> sat (\<lambda>_. quiet) (csp_exec hw n s)"
  unfolding csp_exec_def Let_def
  by (rule sat_bindI [OF when_quiet [OF _ strobes_quiet(1)]], simp, simp,
      rule sat_bindI [OF when_quiet [OF _ strobes_quiet(2)]], assumption, assumption,
      rule sat_bindI [OF other_quiet]) simp_all

lemma CSP_tick_quiet: "quiet s \<Longrightarrow> sat (\<lambda>_. quiet) (CSP_tick hw s)"
  unfolding CSP_tick_def Let_def
  by (auto intro!: sat_if sat_bindI [OF calm.as_read_V] exec_quiet)

lemma csp_write_quiet: "quiet s \<Longrightarrow> sat (\<lambda>_. quiet) (csp_write hw c v s)"
  unfolding csp_write_def Let_def
  by (auto simp: quiet_csp intro!: sat_if sat_bindI [OF when_quiet [OF _ isclear_quiet]]
      sat_bindI [OF exec_quiet] sat_bindI [OF calm.as_write_V])

end

subsection \<open>Every depth of the chip meets the contract\<close>

lemma stuck_env: "radio_env stuck_hw"
  by unfold_locales (simp_all add: stuck_hw_def)

lemma core_env:
  assumes "radio_env x"
  shows "radio_env (core51_hwif x)"
proof (intro radio_env.intro)
  fix h c v ev and s :: "'a rf2530_scheme"
  show "keeps_rv (rv s) (hw_read (core51_hwif x) h c s)"
    by (cases h) (simp_all add: core51_hwif_def default_hw_read_def port_read_def radio_read_def
        radio_env.read_rv [OF assms])
  show "quiet s \<Longrightarrow> sat (\<lambda>_. quiet) (hw_write (core51_hwif x) h c v s)"
    by (cases h) (simp_all add: core51_hwif_def radio_env.write_quiet [OF assms]
        quietI [OF core_write_rv(1) [OF refl]] quietI [OF core_write_rv(2) [OF refl]]
        quietI [OF core_write_rv(3) [OF refl]] quietI [OF core_write_rv(4) [OF refl]]
        quietI [OF port_write_rv [OF refl]])
  show "quiet s \<Longrightarrow> sat (\<lambda>_. quiet) (hw_happen (core51_hwif x) h ev s)"
    by (cases h) (simp_all add: core51_hwif_def radio_env.happen_quiet [OF assms]
        quietI [OF timer_event_rv [OF refl]] quietI [OF interrupt_event_rv [OF refl]])
qed

lemma ctl_env:
  assumes "radio_env inner" "radio_env x"
  shows "radio_env (ctl_hwif inner x)"
proof (intro radio_env.intro)
  fix h c v ev and s :: "'a rf2530_scheme"
  show "keeps_rv (rv s) (hw_read (ctl_hwif inner x) h c s)"
    by (cases h) (simp_all add: ctl_hwif_def default_hw_read_def radio_env.read_rv [OF assms(2)])
  show "quiet s \<Longrightarrow> sat (\<lambda>_. quiet) (hw_write (ctl_hwif inner x) h c v s)"
    by (cases h) (simp_all add: ctl_hwif_def radio_env.write_quiet [OF assms(2)]
        radio_env.flash_write_quiet [OF assms(1)] radio_env.cct_write_quiet [OF assms(1)]
        quietI [OF dma_write_rv [OF refl]])
  show "quiet s \<Longrightarrow> sat (\<lambda>_. quiet) (hw_happen (ctl_hwif inner x) h ev s)"
    by (cases h) (simp_all add: ctl_hwif_def radio_env.happen_quiet [OF assms(2)]
        quietI [OF dma_event_rv [OF refl]])
qed

lemma comm_env:
  assumes "radio_env x"
  shows "radio_env (comm_hwif inner x)"
proof (intro radio_env.intro)
  fix h c v ev and s :: "'a rf2530_scheme"
  show "keeps_rv (rv s) (hw_read (comm_hwif inner x) h c s)"
    by (cases h) (simp_all add: comm_hwif_def mac_read_def usart_read_def serial_read_def Let_def
        radio_env.read_rv [OF assms] split: option.split)
  show "quiet s \<Longrightarrow> sat (\<lambda>_. quiet) (hw_write (comm_hwif inner x) h c v s)"
    by (cases h) (simp_all add: comm_hwif_def radio_env.write_quiet [OF assms]
        quietI [OF mac_write_rv [OF refl]] quietI [OF usart_write_rv [OF refl]]
        quietI [OF serial_write_rv [OF refl]])
  show "quiet s \<Longrightarrow> sat (\<lambda>_. quiet) (hw_happen (comm_hwif inner x) h ev s)"
    by (cases h) (simp_all add: comm_hwif_def radio_env.happen_quiet [OF assms]
        quietI [OF serial_event_rv [OF refl]])
qed

lemma radio_layer:
  assumes "radio_env inner"
  shows "radio_env (radio_hwif inner)"
proof (intro radio_env.intro)
  fix h c v ev and s :: "'a rf2530_scheme"
  show "keeps_rv (rv s) (hw_read (radio_hwif inner) h c s)"
    by (cases h) (simp_all add: radio_hwif_def default_hw_read_def radio_read_rv)
  show "quiet s \<Longrightarrow> sat (\<lambda>_. quiet) (hw_write (radio_hwif inner) h c v s)"
    by (cases h) (simp_all add: radio_hwif_def radio_write_quiet radio_env.csp_write_quiet [OF assms])
  show "quiet s \<Longrightarrow> sat (\<lambda>_. quiet) (hw_happen (radio_hwif inner) h ev s)"
    by (cases h) (simp_all add: radio_hwif_def radio_event_quiet)
qed

lemma full_env: "radio_env (full_hw k)"
  by (induction k) (simp_all add: stuck_env core_env ctl_env comm_env radio_layer)

interpretation chip_env: radio_env full51
  unfolding full51_def by (rule full_env)

end
