(* ===== verification/RadioFacts.thy ===== *)
theory RadioFacts
  imports RadioQuiet
begin

text \<open>
  Properties of the radio: it never receives; a step relation collects everything that can happen
  to it. The contents of the receive FIFO stay those of the test frame, whatever the program does.
\<close>

subsection \<open>The state machine keeps the quiet state\<close>

text \<open>Between the strobes and the switch on the state, \<open>TX_SHUTDOWN\<close> may be pending.\<close>

definition settled :: "radio \<Rightarrow> radio" where
  "settled r = r\<lparr>fsm_st := (if fsm_st r = TX_SHUTDOWN then IDLE else fsm_st r)\<rparr>"

definition near :: "'z rf2530_scheme \<Rightarrow> bool" where
  "near s \<longleftrightarrow> quiet_rv (settled (rf s), CSP s)"

lemma quiet_near: "quiet s \<Longrightarrow> near s"
  by (auto simp: quiet_def near_def quiet_rv_def rv_def settled_def)

lemma quietD:
  assumes "quiet s"
  shows "fsm_st (rf s) \<in> {IDLE, TX_CALIBRATION, TX}" "\<not> RX_ACTIVE (rf s)" "rxEnable (rf s) = 0"
    "\<not> RxEnableWhenTxComplete (rf s)" "\<not> underflow (rf s)" "\<not> frame_sent (rf s)"
    "freq (rf s) = 32000000" "RXFIFO (rf s) = test_frame" "\<not> SRFOFF (CSP s)"
  using assms by (auto simp: quiet_def quiet_rv_def rv_def)

lemma start_timer_quiet: "0 < n \<Longrightarrow> quiet s \<Longrightarrow> sat (\<lambda>_. quiet) (start_timer n s)"
  by (auto simp: start_timer_def quiet_def quiet_rv_def rv_def signed_divide_int_def)

lemma strobes_near: "quiet s \<Longrightarrow> sat (\<lambda>_. near) (fsm_strobes s)"
proof -
  assume s: "quiet s"
  have 1: "sat (\<lambda>_. quiet) (when_do (STXON (CSP s)) (\<lambda>s. start_timer 192 (goto TX_CALIBRATION 32 s)) s)"
    using s by (auto simp: when_do_def goto_def intro!: start_timer_quiet)
      (auto simp: quiet_def quiet_rv_def rv_def)
  have 2: "sat (\<lambda>_. near) (when_do (TX_ACTIVE (rf t) \<and> SRXON (CSP t))
      (\<lambda>s. start_timer 192 (goto TX_SHUTDOWN 26 s)) t)" if "quiet t" for t :: "'a rf2530_scheme"
    using that by (auto simp: when_do_def goto_def start_timer_def near_def quiet_def quiet_rv_def
        rv_def settled_def)
  show ?thesis
    unfolding fsm_strobes_def Let_def
    by (rule sat_bindI [OF 1]) (auto simp: quietD when_do_def [of "False"] intro: 2)
qed

lemma doTX_quiet: "quiet s \<Longrightarrow> sat (\<lambda>_. quiet) (doTX s)"
  by (auto simp: doTX_def Let_def quiet_def quiet_rv_def rv_def)

lemma switch_quiet: "near s \<Longrightarrow> sat (\<lambda>_. quiet) (fsm_switch hw s)"
proof -
  assume n: "near s"
  then have st: "fsm_st (rf s) \<in> {IDLE, TX_CALIBRATION, TX, TX_SHUTDOWN}"
    by (auto simp: near_def quiet_rv_def settled_def split: if_splits)
  have tx: "sat (\<lambda>_. quiet) (fsm_tx s)" if "quiet s"
    unfolding fsm_tx_def
    by (rule sat_bindI [OF doTX_quiet]) (use that in \<open>auto simp: active_def quiet_def quiet_rv_def
        rv_def when_do_def\<close>)
  consider "fsm_st (rf s) = TX" | "fsm_st (rf s) = IDLE" | "fsm_st (rf s) = TX_CALIBRATION"
    | "fsm_st (rf s) = TX_SHUTDOWN" using st by auto
  then show ?thesis
  proof cases
    case 1
    then have "quiet s" using n by (auto simp: near_def settled_def quiet_def quiet_rv_def rv_def)
    then show ?thesis using 1 by (simp add: fsm_switch_def tx)
  qed (use n in \<open>auto simp: fsm_switch_def near_def settled_def quiet_def quiet_rv_def rv_def
      active_def when_do_def on_timeout_def goto_def idle_request_def Let_def\<close>)
qed

lemma status_quiet [simp]: "quiet (fsm_status s) = quiet s"
  by (simp add: fsm_status_def)

lemma fsm_quiet: "quiet s \<Longrightarrow> sat (\<lambda>_. quiet) (fsm hw s)"
  unfolding fsm_def by (rule sat_bindI [OF strobes_near], assumption, rule sat_bindI [OF switch_quiet]) auto

lemma quiet_fields [simp]:
  "quiet (upd_rf (\<lambda>f. f\<lparr>Timeout := g f, radio_in := k f\<rparr>) s) = quiet s"
  "quiet (upd_rf (\<lambda>f. f\<lparr>autopendEnable := b\<rparr>) s) = quiet s"
  "quiet (upd_rf (\<lambda>f. if P f then f\<lparr>Timeout := b\<rparr> else f) s) = quiet s"
  "quiet (upd_rf (\<lambda>f. if P f then f\<lparr>Timer := m f\<rparr> else f) s) = quiet s"
  by (simp_all add: quiet_def quiet_rv_def rv_def)

text \<open>Quiet but for the receive FIFO, which initialisation fills last.\<close>

definition waiting :: "'z rf2530_scheme \<Rightarrow> bool" where
  "waiting s \<longleftrightarrow> quiet_rv ((rf s)\<lparr>RXFIFO := test_frame\<rparr>, CSP s)"

context radio_env
begin

lemma tick_quiet: "quiet s \<Longrightarrow> sat (\<lambda>_. quiet) (radio_tick hw (CSP_tick hw) n s)"
  unfolding radio_tick_def Let_def
  by (rule sat_bindI [OF fsm_quiet], simp, rule sat_bindI [OF CSP_tick_quiet]) simp_all

subsection \<open>Reset and construction establish it\<close>

lemma init_fifos_quiet: "waiting s \<Longrightarrow> sat (\<lambda>_. waiting) (init_fifos hw n i s)"
proof (induction n arbitrary: i s)
  case (Suc n)
  show ?case
    unfolding init_fifos.simps Let_def
    by (rule sat_bindI [OF keep.as_read_V [OF refl]], rule sat_bindI [OF keep.as_read_V [OF refl]],
        rule Suc.IH) (use Suc.prems in \<open>auto simp: waiting_def rv_def quiet_rv_def\<close>)
qed simp

lemma read_be_rv: "rv s = w \<Longrightarrow> keeps_rv w (read_be hw h l s)"
  unfolding read_be_def by (auto intro!: sat_bindI [OF keep.as_read_V])

lemma read_be_quiet: "waiting s \<Longrightarrow> sat (\<lambda>_. waiting) (read_be hw h l s)"
  by (rule sat_mono [OF read_be_rv [OF refl]]) (auto simp: waiting_def rv_def)

lemma init_quiet: "\<not> SRFOFF (CSP s) \<Longrightarrow> sat (\<lambda>_. quiet) (radio_init hw s)"
proof -
  assume s: "\<not> SRFOFF (CSP s)"
  obtain rx t where 1: "new_Frame s = (rx, t)" by (cases "new_Frame s")
  obtain tx u where 2: "new_Frame t = (tx, u)" by (cases "new_Frame t")
  have "CSP u = CSP s"
    using 1 2 by (auto simp: new_Frame_def Let_def)
  then show ?thesis
    unfolding radio_init_def Let_def 1 2 prod.case
    using s by (intro sat_bindI [OF init_fifos_quiet] sat_bindI [OF read_be_quiet])
      (auto simp: waiting_def quiet_def quiet_rv_def rv_def)
qed

lemma reset_quiet: "\<not> SRFOFF (CSP s) \<Longrightarrow> sat (\<lambda>_. quiet) (radio_reset hw s)"
proof -
  have f: "quiet (fold (\<lambda>(a, v). set_reg a v) xs t) = quiet t" for xs and t :: "'a rf2530_scheme"
    by (rule fold_quiet) (simp add: case_prod_beta)
  assume "\<not> SRFOFF (CSP s)"
  then show ?thesis
    unfolding radio_reset_def Let_def
    by (rule sat_bindI [OF init_quiet]) (simp_all add: f)
qed

end

subsection \<open>Everything that can happen to the radio\<close>

inductive rf_step :: "'z rf_hw \<Rightarrow> 'z rf2530_scheme \<Rightarrow> 'z rf2530_scheme \<Rightarrow> bool" for hw where
  tick: "radio_tick hw (CSP_tick hw) n s = Some ((), t) \<Longrightarrow> rf_step hw s t"
| restart: "radio_reset hw s = Some ((), t) \<Longrightarrow> rf_step hw s t"
| register_write: "radio_rf_write c v s = Some (w, t) \<Longrightarrow> rf_step hw s t"
| register_read: "radio_rf_read hw c s = Some (w, t) \<Longrightarrow> rf_step hw s t"
| strobe: "csp_write hw c v s = Some (w, t) \<Longrightarrow> rf_step hw s t"
| event: "radio_rf_happen ev s = Some ((), t) \<Longrightarrow> rf_step hw s t"
| other: "rf t = rf s \<Longrightarrow> CSP t = CSP s \<Longrightarrow> rf_step hw s t"

lemma quiet_step: "rf_step full51 s t \<Longrightarrow> quiet s \<Longrightarrow> quiet t"
proof (induction rule: rf_step.induct)
  case (tick n s t)
  then show ?case using satD [OF chip_env.tick_quiet] by blast
next
  case (restart s t)
  then show ?case using satD [OF chip_env.reset_quiet] quietD(9) by blast
next
  case (register_write c v s w t)
  then show ?case using satD [OF radio_write_quiet] by blast
next
  case (register_read c s w t)
  then show ?case using satD [OF radio_read_rv] quiet_cong by blast
next
  case (strobe c v s w t)
  then show ?case using satD [OF chip_env.csp_write_quiet] by blast
next
  case (event ev s t)
  then show ?case using satD [OF radio_event_quiet] by blast
qed (simp add: quiet_def rv_def)

lemma quiet_reach: "(rf_step full51)\<^sup>*\<^sup>* s t \<Longrightarrow> quiet s \<Longrightarrow> quiet t"
  by (induction rule: rtranclp_induct) (auto intro: quiet_step)

subsection \<open>Construction\<close>

lemma window_read_plain:
  assumes "0x2000 \<le> a" "a < 0x7080" "ops s (Cell Xram a) = []"
  shows "as_read hw Xram a s = Some (cell_get (Cell Xram a) s, s)"
  using assms by (simp add: as_read_def xram_read_def cells_read_def cells_at_def
      out_of_space_def cell_read_def cell_get_def)

lemma xram_write_plain:
  assumes "0x2000 \<le> a" "a < 0x7080" "ops s (Cell Xram a) = []"
  shows "as_write hw Xram a v s = Some (v mod 256, poke (Cell Xram a) (v mod 256) s)"
  using assms by (simp add: as_write_def xram_write_def cells_write_def cells_at_def
      out_of_space_def Let_def poke_def)

lemma set_reg_ops [simp]: "ops (set_reg a v s) = ops s"
  by (simp add: set_reg_def set_poke)

lemma register_ops:
  "c \<noteq> Cell a (i - as_start a) \<Longrightarrow> ops (snd (register_hw a i h s)) c = ops s c"
  by (simp add: register_hw_def add_hw_def append_operator_def Let_def)

lemma register_rv [simp]: "rv (snd (register_hw a i h s)) = rv s"
  by (simp add: register_hw_def add_hw_def append_operator_def Let_def rv_def)

lemma registers_ops:
  "(\<And>i. i \<in> set is \<Longrightarrow> c \<noteq> Cell a (i - as_start a)) \<Longrightarrow>
   ops (fold (\<lambda>i s. snd (register_hw a i h s)) is s) c = ops s c"
  by (induction "is" arbitrary: s) (simp_all add: register_ops)

definition unwatched :: "'z rf2530_scheme \<Rightarrow> bool" where
  "unwatched s \<longleftrightarrow> (\<forall>a. 0x6000 \<le> a \<and> a < 0x6100 \<or> 0x6164 \<le> a \<and> a < 0x6180
     \<or> 0x61C0 \<le> a \<and> a < 0x61E0 \<longrightarrow> ops s (Cell Xram a) = [])"

lemma unwatched_cong: "ops t = ops s \<Longrightarrow> unwatched t = unwatched s"
  by (simp add: unwatched_def)

lemma unwatched_simps [simp]:
  "unwatched (poke c v s) = unwatched s" "unwatched (upd_rf f s) = unwatched s"
  "unwatched (upd_csp g s) = unwatched s" "unwatched (s\<lparr>rand_pos := n\<rparr>) = unwatched s"
  "unwatched (cell_set_bit0 c v s) = unwatched s" "unwatched (set_reg a v s) = unwatched s"
  by (simp_all add: unwatched_def set_bits_poke)

lemma make_cells_unwatched:
  "unwatched s \<Longrightarrow> unwatched (make_csp_watched_cells (make_radio_watched_cells s))"
proof -
  assume s: "unwatched s"
  have r: "ops (make_radio_watched_cells s) (Cell Xram a) = ops s (Cell Xram a)"
    if "0x6000 \<le> a \<and> a < 0x6100 \<or> 0x6164 \<le> a \<and> a < 0x6180 \<or> 0x61C0 \<le> a \<and> a < 0x61E0" for a
    unfolding make_radio_watched_cells_def
    by (rule registers_ops) (use that in \<open>auto simp: radio_watched_def\<close>)
  have "ops (make_csp_watched_cells t) (Cell Xram a) = ops t (Cell Xram a)"
    if "0x6000 \<le> a \<and> a < 0x6100 \<or> 0x6164 \<le> a \<and> a < 0x6180 \<or> 0x61C0 \<le> a \<and> a < 0x61E0"
    for a and t :: "'a rf2530_scheme"
    unfolding make_csp_watched_cells_def
    by (subst register_ops, simp, rule registers_ops) (use that in auto)
  with r s show ?thesis by (simp add: unwatched_def)
qed

lemma make_cells_rv: "rv (make_csp_watched_cells (make_radio_watched_cells s)) = rv s"
  by (simp add: make_csp_watched_cells_def make_radio_watched_cells_def fold_rv del: fold.simps)

lemma fill_program_plain:
  "unwatched s \<Longrightarrow> 0 \<le> i \<Longrightarrow> i + int n \<le> 24 \<Longrightarrow>
   \<exists>t. fill_program hw n i s = Some ((), t) \<and> rv t = rv s \<and> unwatched t"
proof (induction n arbitrary: i s)
  case (Suc n)
  have "ops s (Cell Xram (0x61C0 + i)) = []"
    using Suc.prems by (auto simp: unwatched_def)
  then have "as_write hw Xram (0x61C0 + i) 0xD0 s = Some (0xD0, poke (Cell Xram (0x61C0 + i)) 0xD0 s)"
    using Suc.prems by (simp add: xram_write_plain)
  then show ?case
    using Suc.IH [of "poke (Cell Xram (0x61C0 + i)) 0xD0 s" "i + 1"] Suc.prems by simp
qed simp

lemma csp_reset_plain:
  "unwatched s \<Longrightarrow> \<exists>t. csp_reset hw s = Some ((), t) \<and> unwatched t \<and> \<not> SRFOFF (CSP t)"
proof -
  assume s: "unwatched s"
  have f: "rv (fold (\<lambda>(a, v). set_reg a v) xs t) = rv t
      \<and> unwatched (fold (\<lambda>(a, v). set_reg a v) xs t) = unwatched t" for xs and t :: "'a rf2530_scheme"
    by (induction xs arbitrary: t) (simp_all add: case_prod_beta)
  define t where "t = fold (\<lambda>(a, v). set_reg a v)
    [(0x61E5, 0xFF), (0x61E0, 0), (0x61E1, 0), (0x61E2, 0), (0x61E3, 0), (0x61E4, 0)]
    (upd_csp (\<lambda>c. c\<lparr>csp_PC := 0, csp_stop := False, waitingForAnswer := False,
       WaitingForOvfs := False, pendingBit := False, STXON := False, SRFOFF := False,
       SRXON := False, SFLUSHRX := False\<rparr>) (cell_set_bit0 cell_cspstat bmCSPrunning s))"
  have "unwatched t" "\<not> SRFOFF (CSP t)"
    using s f unfolding t_def rv_def by (simp_all del: fold.simps)
  then show ?thesis
    using fill_program_plain [of t 0 24 hw]
    by (auto simp: csp_reset_def Let_def rv_def t_def [symmetric] simp del: fold.simps)
qed

lemma init_fifos_plain:
  "unwatched s \<Longrightarrow> 0 \<le> i \<Longrightarrow> i + int n \<le> 128 \<Longrightarrow>
   \<exists>t. init_fifos hw n i s = Some ((), t) \<and> unwatched t"
proof (induction n arbitrary: i s)
  case (Suc n)
  have o: "ops s (Cell Xram (0x6000 + i)) = []" "ops s (Cell Xram (0x6080 + i)) = []"
    using Suc.prems by (auto simp: unwatched_def)
  then show ?case
    using Suc.prems
    by (simp add: window_read_plain Let_def) (rule Suc.IH, simp_all)
qed simp

lemma read_be_plain:
  "unwatched s \<Longrightarrow> 0x6164 \<le> h \<Longrightarrow> h < 0x6180 \<Longrightarrow> 0x6164 \<le> l \<Longrightarrow> l < 0x6180 \<Longrightarrow>
   \<exists>x. read_be hw h l s = Some (x, s)"
  by (simp add: read_be_def window_read_plain unwatched_def)

lemma new_Frame_keeps:
  "new_Frame s = (f, t) \<Longrightarrow> unwatched t = unwatched s \<and> rv t = rv s"
  by (auto simp: new_Frame_def Let_def unwatched_def rv_def)

definition defined :: "('a \<times> 'z rf2530_scheme) option \<Rightarrow> bool" where
  "defined m \<longleftrightarrow> (\<exists>x t. m = Some (x, t) \<and> unwatched t)"

lemma defined_Some [simp]: "defined (Some (x, t)) = unwatched t"
  by (simp add: defined_def)

lemma defined_bind:
  "defined m \<Longrightarrow> (\<And>x t. unwatched t \<Longrightarrow> defined (f x t)) \<Longrightarrow> defined (Option.bind m (\<lambda>(x, t). f x t))"
  by (auto simp: defined_def)

lemma init_fifos_defined: "unwatched s \<Longrightarrow> defined (init_fifos hw 128 0 s)"
  using init_fifos_plain [of s 0 128 hw] by (auto simp: defined_def)

lemma read_be_defined:
  "0x6164 \<le> h \<Longrightarrow> h < 0x6180 \<Longrightarrow> 0x6164 \<le> l \<Longrightarrow> l < 0x6180 \<Longrightarrow> unwatched s \<Longrightarrow>
   defined (read_be hw h l s)"
  using read_be_plain [of s h l hw] by (auto simp: defined_def)

lemma unwatched_mov [simp]: "unwatched (s\<lparr>MovInstruction := b\<rparr>) = unwatched s"
  by (simp add: unwatched_def)

lemma radio_init_defined: "unwatched s \<Longrightarrow> defined (radio_init hw s)"
proof -
  assume s: "unwatched s"
  obtain rx t where 1: "new_Frame s = (rx, t)" by (cases "new_Frame s")
  obtain tx u where 2: "new_Frame t = (tx, u)" by (cases "new_Frame t")
  have "unwatched u" using s 1 2 new_Frame_keeps by blast
  then show ?thesis
    unfolding radio_init_def Let_def 1 2 prod.case
    by (intro defined_bind init_fifos_defined read_be_defined) simp_all
qed

lemma radio_new_defined: "unwatched s \<Longrightarrow> \<exists>t. radio_new hw s = Some ((), t)"
proof -
  assume "unwatched s"
  then obtain t where t: "csp_reset hw (make_csp_watched_cells (make_radio_watched_cells s)) = Some ((), t)"
    "unwatched t"
    using csp_reset_plain make_cells_unwatched by blast
  obtain u where "radio_init hw t = Some ((), u)"
    using radio_init_defined [OF t(2), of hw] by (auto simp: defined_def)
  with t(1) show ?thesis
    by (simp add: radio_new_def Let_def radio_reset_def)
qed

text \<open>Construction, from any state in which nothing watches the memory it reads and writes.\<close>

lemma radio_new_quiet:
  assumes "unwatched s" "radio_new full51 s = Some ((), t)"
  shows "quiet t"
proof -
  obtain u where u: "csp_reset full51 (make_csp_watched_cells (make_radio_watched_cells s)) = Some ((), u)"
    "\<not> SRFOFF (CSP u)"
    using csp_reset_plain [OF make_cells_unwatched [OF assms(1)]] by blast
  with assms(2) have "radio_reset full51 u = Some ((), t)"
    by (simp add: radio_new_def Let_def)
  then show ?thesis
    using satD [OF chip_env.reset_quiet [OF u(2)]] by blast
qed

subsection \<open>A concrete chip with a radio\<close>

definition blank_frame :: frame where
  "blank_frame = \<lparr>FrameLength = 0, FCF = 0, FrameType = 0, securityEnabled = False,
     FramePending = False, AckReq = False, PanCompression = False, DataSequenceNumber = 0,
     SrcAddressMode = 0, SourceAddress = 0, SourcePanID = 0, ExtSrcAddressH = 0, ExtSrcAddressL = 0,
     DestAddressMode = 0, DestinationAddress = 0, DestinationPanID = 0, ExtDestAddressH = 0,
     ExtDestAddressL = 0\<rparr>"

definition idle_radio :: radio where
  "idle_radio = \<lparr>RXframe = blank_frame, TXframe = blank_frame, fsm_st = IDLE, TXFIFO = (\<lambda>_. 0),
     RXFIFO = test_frame, ExtAddr = (\<lambda>_ _. 0), shortAddr = (\<lambda>_. 0), PanId = (\<lambda>_. 0),
     slotted_ack = False, unslotted_ack = False, frame_completed = False, overflow = False,
     frame_not_for_me = False, Timeout = False, TX_ACTIVE = False, RX_ACTIVE = False,
     underflow = False, frame_sent = False, RxEnableWhenTxComplete = False, cancelACK = False,
     ACKsent = False, autopendEnable = False, freq = 32000000, Timer = 0, RX_PC = 0, TX_PC = 0,
     TXFifoPosition = 0, r_length = 0, r_k = 0, ReadC = 0, r_tickspd = 0, radio_in = 0,
     radio_out = 0, stateNum = 0, rxEnable = 0, rxenmask = 0, ShortAddress = 0, PanID = 0,
     ExtAddressH = 0, ExtAddressL = 0\<rparr>"

definition idle_csp :: csp where
  "idle_csp = \<lparr>waitingForAnswer = False, WaitingForOvfs = False, WaitingForWOvfs = False,
     waitWend = False, OVFcountdown = False, event1 = False, WaitingForEvent1 = False,
     event2 = False, WaitingForEvent2 = False, csp_stop = False, csp_PC = 0, PCwrite = 0,
     csp_label = 0, csp_CCA = 0, STXON = False, SRXON = False, STXONCCA = False, SRFOFF = False,
     SFLUSHRX = False, SFLUSHTX = False, RSSI_valid = False, CPU_ctrl = False, pendingBit = False,
     radioAnswer = False\<rparr>"

definition boot_rf :: "(cell \<Rightarrow> int) \<Rightarrow> radio \<Rightarrow> csp \<Rightarrow> rf2530" where
  "boot_rf h r c = cc2530.extend (boot2530 h) (rf2530.fields r c)"

lemma boot_rf_simps [simp]:
  "rf (boot_rf h r c) = r" "CSP (boot_rf h r c) = c" "cell_get k (boot_rf h r c) = h k"
  "ops (boot_rf h r c) = ops (boot51 h)" "slot (boot_rf h r c) = Priv_slot"
  by (simp_all add: boot_rf_def cc2530.extend_def rf2530.fields_def boot2530_def core51.extend_def
      cc2530.fields_def cell_get_def boot51_def)

lemma boot_rf_ok [simp]: "(\<And>c. byte (h c)) \<Longrightarrow> mem_ok (boot_rf h r c)"
  by (subst mem_ok_cong [of _ "boot51 h"])
    (simp_all add: ready_mem_ok boot_rf_def cc2530.extend_def boot2530_def core51.extend_def)

lemma mem_ok_rf [simp]:
  "mem_ok (upd_rf f s) = mem_ok s" "mem_ok (upd_csp g s) = mem_ok s"
  by (simp_all add: mem_ok_def upd_rf_def upd_csp_def)

lemma set_reg_poke: "set_reg a v s = poke (Cell Xram a) (v mod 256) s"
  by (simp add: set_reg_def set_poke)

lemma boot_rf_unwatched: "unwatched (boot_rf h r c)"
  by (simp add: unwatched_def boot51_def)

subsection \<open>The radio never receives\<close>

text \<open>C14: once the radio is constructed, no sequence of ticks,
  resets, register accesses, strobes and events brings it to a receiving state: the state machine
  stays in idle, calibration for sending or sending, and the receive FIFO keeps the contents the
  initialisation put there.\<close>

theorem radio_never_receives:
  assumes "unwatched s0" "radio_new full51 s0 = Some ((), s1)" "(rf_step full51)\<^sup>*\<^sup>* s1 s"
  shows "fsm_st (rf s) \<in> {IDLE, TX_CALIBRATION, TX} \<and> \<not> RX_ACTIVE (rf s) \<and> RXFIFO (rf s) = test_frame"
  using quietD(1,2,8) [OF quiet_reach [OF assms(3) radio_new_quiet [OF assms(1, 2)]]] by simp

lemma istxon_strobe:
  "csp_write hw cell_rfst 0xE9 s = Some (0xE9, wrap_pc (inst_istxon s))"
  by (simp add: csp_write_def when_do_def csp_exec_def strobe_E_def inst_other_def)

theorem radio_never_receives_witness:
  "\<exists>s1 s. radio_new full51 (boot_rf (\<lambda>_. 0) idle_radio idle_csp) = Some ((), s1)
     \<and> csp_write full51 cell_rfst 0xE9 s1 = Some (0xE9, s)
     \<and> fsm_st (rf s) \<in> {IDLE, TX_CALIBRATION, TX} \<and> \<not> RX_ACTIVE (rf s) \<and> RXFIFO (rf s) = test_frame"
proof -
  obtain s1 where s1: "radio_new full51 (boot_rf (\<lambda>_. 0) idle_radio idle_csp) = Some ((), s1)"
    using radio_new_defined [OF boot_rf_unwatched] by blast
  have "rf_step full51 s1 (wrap_pc (inst_istxon s1))"
    by (rule rf_step.strobe [OF istxon_strobe])
  then show ?thesis
    using radio_never_receives [OF boot_rf_unwatched s1 r_into_rtranclp] s1 istxon_strobe by blast
qed

end
