(* ===== verification/WiringFacts.thy ===== *)
theory WiringFacts
  imports Wiring51 Mac2530Facts RadioFacts
begin

text \<open>
  The chip as \<open>mk_hw_elements\<close> wires it: the table of watchers is what the registering leaves, it is
  what the core relies on, and on it timer 1 and the MAC timer are followed with the real elements
  around them.
\<close>

subsection \<open>The wiring\<close>

lemma wire_mem_ok: "mem_ok s \<Longrightarrow> mem_ok (wire s)"
  by (auto simp: mem_ok_def wire_ops)

lemma chip_wired_cong: "ops t = ops s \<Longrightarrow> slot t = slot s \<Longrightarrow> chip_wired t = chip_wired s"
  by (simp add: chip_wired_def)

lemma core_watchers:
  "watchers acc = [Hw_dummy]" "watchers cell_sp = [Hw_dummy]"
  "watchers (Cell Sfr 0x1f) = [Hw_radio]" "watchers (Cell Sfr 0x13) = [Hw_radio]"
  "watchers psw = []" "watchers (Cell Sfr 0x70) = []" "watchers (Cell Sfr 0x02) = []"
  "watchers (Cell Sfr 0x03) = []" "watchers (Cell Sfr 0x47) = []"
  by (simp_all add: watch_simps)

lemma shared_watchers:
  "watchers (Cell Sfr 0x08) = [Hw_timer0, Hw_timer1, Hw_usart0, Hw_usart1, Hw_interrupt]"
  "watchers (Cell Sfr 0x22) = [Hw_MAC_timer, Hw_radio]"
  "watchers (Cell Sfr 0x46) = [Hw_CC2530timer1, Hw_MAC_timer, Hw_CC2530timer3, Hw_CC2530timer4,
     Hw_flashctrler, Hw_radio]"
  by (simp_all add: watch_simps)

text \<open>
  Building the elements in the order of \<open>mk_hw_elements\<close> on memories nobody watches yet gives every
  cell the chain of watchers of the table, each once per registration and in the order of
  construction: \<open>TCON\<close> is watched by the timers, the two serial interfaces and the interrupt logic,
  \<open>T2M0\<close> by the MAC timer and \<open>cl_radio\<close>. It keeps the contents and yields the wiring the core
  relies on.
\<close>

theorem wire_registers:
  fixes s :: "'z rf2530_scheme"
  assumes "\<forall>c. ops s c = []" "mem_ok s"
  shows "ops (wire s) c = map (Hw_op (slot s c)) (watchers c)
    \<and> heap (wire s) = heap s \<and> mem_ok (wire s) \<and> wired (wire s)
    \<and> ops (wire s) cell_tcon = map (Hw_op (slot s cell_tcon))
        [Hw_timer0, Hw_timer1, Hw_usart0, Hw_usart1, Hw_interrupt]
    \<and> ops (wire s) cell_t2m0 = map (Hw_op (slot s cell_t2m0)) [Hw_MAC_timer, Hw_radio]
    \<and> map fst (hws (wire s)) = map fst (hws s) @ element_order"
proof -
  have o: "ops (wire s) c = map (Hw_op (slot s c)) (watchers c)" for c
    using assms(1) by (simp add: wire_ops)
  have "wired (wire s)" by (simp add: wired_def o core_watchers other_space)
  moreover have "map fst (hws (wire s)) = map fst (hws s) @ element_order"
    by (simp add: comp_def)
  ultimately show ?thesis using wire_mem_ok [OF assms(2)] by (simp add: o shared_watchers)
qed

text \<open>A chip whose memory holds \<open>h\<close>, before and after the elements are built.\<close>

definition bare_chip :: "(cell \<Rightarrow> int) \<Rightarrow> rf2530" where
  "bare_chip h = (boot_rf h idle_radio idle_csp)\<lparr>ops := (\<lambda>_. []), hws := []\<rparr>"

lemma bare_chip_simps [simp]:
  "cell_get c (bare_chip h) = h c" "ops (bare_chip h) = (\<lambda>_. [])" "slot (bare_chip h) = Priv_slot"
  "cctimers (bare_chip h) n = idle_cct" "mac (bare_chip h) = idle_mac"
  by (simp_all add: bare_chip_def cell_get_def boot_rf_def cc2530.extend_def boot2530_def core51.extend_def
      rf2530.fields_def cc2530.fields_def boot51_def)

lemma bare_chip_ok: "(\<And>c. byte (h c)) \<Longrightarrow> mem_ok (bare_chip h)"
  using boot_rf_ok [of h idle_radio idle_csp] by (simp add: mem_ok_def bare_chip_def)

lemma wired_chip:
  assumes "\<And>c. byte (h c)"
  shows "chip_wired (wire (bare_chip h))" "mem_ok (wire (bare_chip h))"
    "cell_get c (wire (bare_chip h)) = h c"
  using bare_chip_simps(1) [of c h] wire_mem_ok [OF bare_chip_ok [OF assms]]
  by (simp_all add: chip_wired_def wire_ops cell_get_def)

theorem wire_registers_witness:
  "ops (wire (bare_chip (\<lambda>_. 7))) (Cell Sfr 0x46) = map (Hw_op (Priv_slot (Cell Sfr 0x46)))
     [Hw_CC2530timer1, Hw_MAC_timer, Hw_CC2530timer3, Hw_CC2530timer4, Hw_flashctrler, Hw_radio]
   \<and> wired (wire (bare_chip (\<lambda>_. 7)))"
  using wire_registers [of "bare_chip (\<lambda>_. 7)" "Cell Sfr 0x46"] bare_chip_ok [of "\<lambda>_. 7"]
  by (simp add: shared_watchers byte_def)

subsection \<open>The elements of the whole chip\<close>

lemma core_layer:
  "hw_tick (core51_hwif x) Hw_CC2530timer1 = hw_tick x Hw_CC2530timer1"
  "hw_tick (core51_hwif x) Hw_MAC_timer = hw_tick x Hw_MAC_timer"
  "hw_write (core51_hwif x) Hw_CC2530timer1 = hw_write x Hw_CC2530timer1"
  "hw_write (core51_hwif x) Hw_radio = radio_write" "hw_read (core51_hwif x) Hw_radio = radio_read"
  "hw_happen (core51_hwif x) Hw_DMA = hw_happen x Hw_DMA"
  "hw_happen (core51_hwif x) Hw_usart1 = hw_happen x Hw_usart1"
  "hw_happen (core51_hwif x) Hw_CC2530radio = hw_happen x Hw_CC2530radio"
  by (simp_all add: core51_hwif_def)

lemma ctl_layer:
  "hw_tick (ctl_hwif y x) Hw_CC2530timer1 = cct_tick y 1"
  "hw_tick (ctl_hwif y x) Hw_MAC_timer = hw_tick x Hw_MAC_timer"
  "hw_write (ctl_hwif y x) Hw_CC2530timer1 = cct_write y 1"
  "hw_happen (ctl_hwif y x) Hw_DMA = dma_happen"
  "hw_happen (ctl_hwif y x) Hw_usart1 = hw_happen x Hw_usart1"
  "hw_happen (ctl_hwif y x) Hw_CC2530radio = hw_happen x Hw_CC2530radio"
  by (simp_all add: ctl_hwif_def)

lemma comm_layer:
  "hw_tick (comm_hwif y x) Hw_MAC_timer = mac_tick y"
  "hw_happen (comm_hwif y x) Hw_usart1 = (\<lambda>_ s. Some ((), s))"
  "hw_happen (comm_hwif y x) Hw_CC2530radio = hw_happen x Hw_CC2530radio"
  "hw_happen (radio_hwif y) Hw_CC2530radio = radio_rf_happen"
  by (simp_all add: comm_hwif_def radio_hwif_def)

lemmas full_elements = core_layer ctl_layer comm_layer

lemma full_silent: "silent_radio (full_hw (Suc k))"
  unfolding silent_radio_def full_hw.simps by (rule core_layer)

lemma full51_unfold: "full51 = core51_hwif (ctl_hwif (full_hw (Suc 3))
    (comm_hwif (full_hw (Suc 3)) (radio_hwif (full_hw (Suc 3)))))"
proof -
  have "(5::nat) = Suc (Suc 3)" by simp
  then show ?thesis by (simp only: full51_def full_hw.simps(2) [of "Suc 3"])
qed

lemma wired_silent:
  "chip_wired s \<Longrightarrow> watchers c \<in> {[], [Hw_radio]} \<Longrightarrow> silent c s"
  by (auto simp: chip_wired_def silent_def)

lemma t1_ctl_watchers: "i \<in> {0, 1, 2, 3, 4} \<Longrightarrow> watchers (t1_ctl_cell i) \<in> {[], [Hw_radio]}"
  by (auto simp: t1_ctl_cell_def timer1_watchers timer1_ctl34)

subsection \<open>Timer 1\<close>


definition t1_demo :: rf2530 where
  "t1_demo = upd_cct 1 (\<lambda>t. t\<lparr>cc_mode := 1, prescale := 4, t_count := -2\<rparr>)
     (wire (bare_chip (\<lambda>c. if c = Cell Sfr 0x58 then 0x40 else 0)))"

lemma t1_demo_ok:
  "chip_wired t1_demo" "mem_ok t1_demo" "cell_get c t1_demo = (if c = Cell Sfr 0x58 then 0x40 else 0)"
  "cctimers t1_demo 1 = idle_cct\<lparr>cc_mode := 1, prescale := 4, t_count := -2\<rparr>"
proof -
  have h: "\<And>c. byte (if c = Cell Sfr 0x58 then 0x40 else 0)" by (simp add: byte_def)
  show "chip_wired t1_demo" "mem_ok t1_demo" "cell_get c t1_demo = (if c = Cell Sfr 0x58 then 0x40 else 0)"
    using wired_chip [OF h] by (simp_all add: t1_demo_def chip_wired_def)
qed (simp add: t1_demo_def)


text \<open>A write of the program to a register of the timer that at most \<open>cl_radio\<close> watches besides it.\<close>

lemma wired_write:
  fixes s u :: "'z rf2530_scheme"
  assumes "chip_wired s" "mem_ok s" "byte v" "watchers (Cell a i) \<in> {[Hw_CC2530timer1], [Hw_CC2530timer1, Hw_radio]}"
    and w: "cct_write (full_hw (Suc 3)) 1 (Cell a i) v s = Some (v, u)" "ops u = ops s" "slot u = slot s"
  shows "cell_write full51 (Cell a i) v s = Some (v, poke (Cell a i) v u)"
proof -
  have "hw_write (full51 :: 'z rf_hw) Hw_CC2530timer1 = cct_write (full_hw (Suc 3)) 1"
    "hw_write (full51 :: 'z rf_hw) Hw_radio = radio_write"
    unfolding full51_unfold full_elements by (rule refl)+
  moreover have "ops s (Cell a i) \<in> {[Hw_op (slot s (Cell a i)) Hw_CC2530timer1],
      [Hw_op (slot s (Cell a i)) Hw_CC2530timer1, Hw_op (slot s (Cell a i)) Hw_radio]}"
    using assms(1,4) by (auto simp: chip_wired_def)
  ultimately show ?thesis
    using assms(3) w by (auto simp: cell_write.simps Let_def radio_write_def poke_def store_def)
qed

lemma t1_values_write:
  fixes s :: "'z rf2530_scheme"
  assumes "values_are w f k b s" "chip_wired s" "byte v"
    and c: "watchers (Cell a i) \<in> {[Hw_CC2530timer1], [Hw_CC2530timer1, Hw_radio]}"
    and j: "(j, d) = (case t1cc_channel (Cell a i) of Some p \<Rightarrow> p | None \<Rightarrow> (k, b))"
  shows "\<exists>u. cell_write full51 (Cell a i) v s = Some (v, u)
     \<and> values_are w (f(j := merged d v (f j))) j d u \<and> chip_wired u"
proof -
  obtain t where t: "cct_write (full_hw (Suc 3)) 1 (Cell a i) v s = Some (v, t)"
    "values_are w (f(j := merged d v (f j))) j d t"
    using t1_write_values [OF assms(1) j full_silent] by blast
  have o: "ops t = ops s" "slot t = slot s" "mem_ok s" "mem_ok t"
    using t(2) assms(1) by (auto simp: values_are_def controls_plain_def)
  have "values_are w (f(j := merged d v (f j))) j d (poke (Cell a i) v t)"
    using t(2) assms(3) by (simp add: values_are_def controls_plain_def)
  moreover have "chip_wired (poke (Cell a i) v t)"
    using assms(2) o by (simp add: chip_wired_def)
  ultimately show ?thesis using wired_write [OF assms(2) o(3) assms(3) c t(1) o(1,2)] by blast
qed

lemma t1_value_watchers:
  assumes "0 \<le> i" "i < 5"
  shows "watchers (t1_low i) \<in> {[Hw_CC2530timer1], [Hw_CC2530timer1, Hw_radio]}"
    "watchers (t1_hi i) \<in> {[Hw_CC2530timer1], [Hw_CC2530timer1, Hw_radio]}"
    "watchers (cct_ctl 1) = [Hw_CC2530timer1, Hw_radio]"
proof -
  have "i \<in> {0, 1, 2, 3, 4}" using assms by auto
  then show "watchers (t1_low i) \<in> {[Hw_CC2530timer1], [Hw_CC2530timer1, Hw_radio]}"
    "watchers (t1_hi i) \<in> {[Hw_CC2530timer1], [Hw_CC2530timer1, Hw_radio]}"
    by (elim insertE emptyE; simp add: t1_low_def t1_hi_def watch_simps radio_watched_def filter_empty_conv)+
  show "watchers (cct_ctl 1) = [Hw_CC2530timer1, Hw_radio]"
    by (simp add: cct_ctl_def watch_simps)
qed

text \<open>
  C40 The two bytes a program writes to the compare registers of a channel of timer 1
  make up its compare value; but the next write to the control register T1CTL, for instance the one
  that starts the timer, replaces the high byte of that value by the byte written, because the
  handler updates the channel addressed last on every write.
\<close>

theorem timer1_compare_write:
  fixes s :: "'z rf2530_scheme"
  assumes "chip_wired s" "mem_ok s" "0 \<le> i" "i < 5" "byte l" "byte h" "byte v"
  shows "\<exists>s1 s2 s3. cell_write full51 (t1_low i) l s = Some (l, s1)
     \<and> cell_write full51 (t1_hi i) h s1 = Some (h, s2)
     \<and> ValRegCMP (tabCh (cctimers s2 1) i) = to_short (h * 256 + l)
     \<and> cell_write full51 (cct_ctl 1) v s2 = Some (v, s3)
     \<and> ValRegCMP (tabCh (cctimers s3 1) i) = to_short (v * 256 + l)
     \<and> (\<forall>j. j \<noteq> i \<longrightarrow> ValRegCMP (tabCh (cctimers s3 1) j) = ValRegCMP (tabCh (cctimers s 1) j))"
proof -
  define f where "f = (\<lambda>j. ValRegCMP (tabCh (cctimers s 1) j))"
  let ?v = "values_are (ops s, slot s)"
  obtain a x b y where "t1_low i = Cell a x" "t1_hi i = Cell b y"
    by (cases "i < 3") (simp_all add: t1_low_def t1_hi_def)
  moreover obtain c z where "cct_ctl 1 = Cell c z" by (simp add: cct_ctl_def)
  ultimately have c: "t1_low i = Cell a x" "t1_hi i = Cell b y" "cct_ctl 1 = Cell c z" .
  note w = t1_value_watchers [OF assms(3,4), unfolded c] and k = t1cc_cells [OF assms(3,4), unfolded c]
  have ctl: "t1cc_channel (Cell c z) = None" unfolding c(3) [symmetric] by (simp add: cct_ctl_def t1cc_channel_def)
  have "?v f (channelID (cctimers s 1)) (t_high (cctimers s 1)) s"
    using assms(1,2) wired_silent [OF assms(1) t1_ctl_watchers]
    by (simp add: values_are_def controls_plain_def f_def)
  from t1_values_write [OF this assms(1,5) w(1), of i False] k(1)
  obtain s1 where s1: "cell_write full51 (Cell a x) l s = Some (l, s1)" "chip_wired s1"
    "?v (f(i := merged False l (f i))) i False s1" by auto
  obtain s2 where s2: "cell_write full51 (Cell b y) h s1 = Some (h, s2)" "chip_wired s2"
    "?v (f(i := to_short (h * 256 + l))) i True s2"
    using t1_values_write [OF s1(3,2) assms(6) w(2), of i True] k(2) by (auto simp: merged_bytes [OF assms(5)])
  obtain s3 where s3: "cell_write full51 (Cell c z) v s2 = Some (v, s3)"
    "?v (f(i := to_short (v * 256 + l))) i True s3"
    using t1_values_write [OF s2(3,2) assms(7), of c z i True] w(3) ctl by (auto simp: merged_bytes [OF assms(5)])
  show ?thesis
    unfolding c using s1(1) s2(1,3) s3 by (intro exI [of _ s1] exI [of _ s2] exI [of _ s3])
      (simp add: values_are_def f_def)
qed

theorem timer1_compare_write_witness:
  "\<exists>s1 s2 s3. cell_write full51 (t1_low 2) 0x34 t1_demo = Some (0x34, s1)
     \<and> cell_write full51 (t1_hi 2) 0x12 s1 = Some (0x12, s2)
     \<and> ValRegCMP (tabCh (cctimers s2 1) 2) = 0x1234
     \<and> cell_write full51 (cct_ctl 1) 0x0D s2 = Some (0x0D, s3)
     \<and> ValRegCMP (tabCh (cctimers s3 1) 2) = 0x0D34"
proof -
  have "to_short 0x1234 = 0x1234" "to_short 0x0D34 = 0x0D34" by (simp_all add: to_short_def)
  then show ?thesis
    using timer1_compare_write [OF t1_demo_ok(1,2), of 2 "0x34" "0x12" "0x0D"]
    by (simp add: byte_def) blast
qed

subsection \<open>The MAC timer\<close>

lemma radio_event_mac:
  fixes s :: "'z rf2530_scheme"
  assumes "mac_state n i s"
  shows "\<exists>u. radio_rf_happen ev s = Some ((), u) \<and> mac_state n i u"
proof -
  have "mac_state n i (upd_rf f t) = mac_state n i t" for f and t :: "'z rf2530_scheme"
    by (simp add: mac_state_def silent_def upd_rf_def cell_get_def mem_ok_def)
  then show ?thesis using assms by (simp add: radio_rf_happen_def Let_def set_ack_def)
qed

interpretation full_mac: mac_partners "full_hw (Suc k) :: 'z rf_hw"
proof
  show "silent_radio (full_hw (Suc k) :: 'z rf_hw)" by (rule full_silent)
  fix h n i and s :: "'z rf2530_scheme"
  assume "h \<in> {Hw_usart1, Hw_CC2530radio, Hw_DMA}" "mac_state n i s"
  then show "\<exists>u. hw_happen (full_hw (Suc k)) h (EV_OVERFLOW Hw_MAC_timer) s = Some ((), u) \<and> mac_state n i u"
    unfolding full_hw.simps
    using mac_state_dma [of n i s] radio_event_mac [of n i s]
    by (elim insertE emptyE) (simp_all add: full_elements)
qed

text \<open>
  C13 On the chip as it is wired, the MAC timer in its up mode with no period set
  counts n steps modulo 2^16 and leaves the interrupt request register alone, whatever compare values,
  overflow compare values and interrupt mask are programmed and with the radio, the DMA controller
  and the serial interface informed of its overflows: the test of the mask succeeds only for the
  period event, so none of the other five events ever requests an interrupt.
\<close>

theorem mac_never_interrupts:
  fixes s :: "'z rf2530_scheme"
  assumes "chip_wired s" "mem_ok s" "t2_per (mac s) = 0" "m_mode (mac s) = 0"
    "0 \<le> m_count (mac s)" "m_count (mac s) < 65536"
  shows "\<exists>u. hw_tick full51 Hw_MAC_timer (int n) s = Some ((), u)
     \<and> m_count (mac u) = (m_count (mac s) + int n) mod 65536 \<and> cell_get cell_ircon u = cell_get cell_ircon s"
proof -
  have "silent (Cell Sfr 0x27) s" by (rule wired_silent [OF assms(1)]) (simp add: timer1_watchers)
  from full_mac.never_interrupts [OF assms(2) this assms(3-6)] show ?thesis
    unfolding full51_unfold full_elements .
qed

text \<open>A timer with both compare values in reach of 5 ticks and every mask bit set.\<close>

definition mac_demo :: rf2530 where
  "mac_demo = upd_mac (\<lambda>m. m\<lparr>m_count := 65534, t2_cmp1 := 1, t2_cmp2 := 2\<rparr>)
     (wire (bare_chip (\<lambda>c. if c = Cell Sfr 0x27 then 0x3F else 0)))"

theorem mac_never_interrupts_witness:
  "\<exists>u. hw_tick full51 Hw_MAC_timer 5 mac_demo = Some ((), u) \<and> m_count (mac u) = 3
     \<and> cell_get cell_ircon u = 0 \<and> cell_get (Cell Sfr 0x27) mac_demo = 0x3F"
proof -
  have h: "\<And>c. byte (if c = Cell Sfr 0x27 then 0x3F else 0)" by (simp add: byte_def)
  have d: "chip_wired mac_demo" "mem_ok mac_demo" "cell_get cell_ircon mac_demo = 0"
    "cell_get (Cell Sfr 0x27) mac_demo = 0x3F"
    "mac mac_demo = idle_mac\<lparr>m_count := 65534, t2_cmp1 := 1, t2_cmp2 := 2\<rparr>"
    using wired_chip [OF h] by (simp_all add: mac_demo_def chip_wired_def)
  show ?thesis using mac_never_interrupts [OF d(1,2), of 5] d(3-5) by (simp add: idle_mac_def)
qed

end
