(* ===== verification/ChipInvariant.thy ===== *)
theory ChipInvariant
  imports Interrupt51Facts WiringFacts
begin

text \<open>
  The invariant of the core on the whole chip. Every handler of the DMA controller, the flash
  controller, the timers, the MAC timer, the USARTs, the serial line, the radio and its strobe
  processor meets the contract \<open>core_hw\<close> of \<open>Invariant51\<close>, so the chip meets it at every nesting
  depth, and a run of the chip keeps the invariant.
\<close>

subsection \<open>Updates of the elements\<close>

lemma core_ok_elements [simp]:
  "core_ok (upd_ch i f1 s) = core_ok s" "core_ok (upd_flash f2 s) = core_ok s"
  "core_ok (upd_cct n f3 s) = core_ok s" "core_ok (upd_mac f4 s) = core_ok s"
  "core_ok (upd_usart n f5 s) = core_ok s" "core_ok (upd_ser f6 s) = core_ok s"
  "core_ok (s\<lparr>ObjInit := b\<rparr>) = core_ok s" "core_ok (s\<lparr>stale_pos := p\<rparr>) = core_ok s"
  by (rule core_ok_cong; simp add: upd_ch_def upd_flash_def upd_cct_def upd_mac_def upd_usart_def
      upd_ser_def)+

lemma core_ok_radio [simp]: "core_ok (upd_rf f s) = core_ok s" "core_ok (upd_csp g s) = core_ok s"
  by (rule core_ok_cong; simp add: upd_rf_def upd_csp_def)+

lemma core_ok_parts [simp]:
  "core_ok (upd_page p f s) = core_ok s" "core_ok (upd_tch n i g s) = core_ok s"
  "core_ok (select_bank a s) = core_ok s" "core_ok (next_down n s) = core_ok s"
  "core_ok (set_count n c s) = core_ok s" "core_ok (clear_pin_event n s) = core_ok s"
  "core_ok (channel_init i s) = core_ok s"
  by (simp_all add: upd_page_def upd_tch_def select_bank_def next_down_def set_count_def
      clear_pin_event_def channel_init_def)

lemma core_ok_poke [simp]: "core_ok s \<Longrightarrow> byte v \<Longrightarrow> core_ok (poke c v s)"
  by (simp add: poke_def core_ok_store)

lemma core_ok_bits [simp]:
  "core_ok s \<Longrightarrow> core_ok (cell_set_bit1 c b s)" "core_ok s \<Longrightarrow> core_ok (cell_set_bit0 c b s)"
  by (simp_all add: set_bits_poke byte_and byte_or)

lemma core_ok_cell_set [simp]: "core_ok s \<Longrightarrow> core_ok (snd (cell_set (Cell a i) v s))"
  by (simp add: set_poke)

lemma core_ok_fold:
  assumes "\<And>x t. core_ok t \<Longrightarrow> core_ok (f x t)" "core_ok s"
  shows "core_ok (fold f xs s)"
  using assms by (induction xs arbitrary: s) simp_all

text \<open>The contract, on a state that has the elements of the CC2530.\<close>

locale cc_env = core_hw hw for hw :: "'z cc_hw"

locale rf_env = core_hw hw for hw :: "'z rf_hw"

sublocale rf_env \<subseteq> cc_env hw
  by unfold_locales

context cc_env
begin

lemmas cc_rules = mem_binds sat_bindI [OF happen_ok] sat_bind_if sat_bind_assoc sat_bind_split sat_if

lemma keeps_bind:
  "keeps m \<Longrightarrow> (\<And>v t. core_ok t \<Longrightarrow> sat Q (f v t)) \<Longrightarrow> sat Q (Option.bind m (\<lambda>(v, t). f v t))"
  by (rule sat_bindI)

lemma read_keeps: "core_ok s \<Longrightarrow> keeps (as_read hw a i s)"
  by (rule sat_mono [OF as_read_I]) simp_all

lemmas keeps_rules = keeps_bind sat_if read_keeps as_write_I cell_write_I happen_ok

subsection \<open>DMA controller\<close>

lemma addresses_I: "core_ok s \<Longrightarrow> keeps (config_channel_addresses hw s)"
  unfolding config_channel_addresses_def Let_def by ((intro cc_rules; simp)+)

lemma start_transfer_I: "core_ok s \<Longrightarrow> keeps (start_transfer hw i s)"
  unfolding start_transfer_def Let_def by ((intro cc_rules; simp)+)

lemma LoadConfig_I: "core_ok s \<Longrightarrow> keeps (LoadConfig hw i a s)"
  unfolding LoadConfig_def Let_def
  by ((intro cc_rules start_transfer_I; simp)+)

lemma transfer_I: "core_ok s \<Longrightarrow> keeps (transfer hw i s)"
  unfolding transfer_def Let_def by ((intro cc_rules; simp)+)

lemma after_transfer_ok [simp]: "core_ok s \<Longrightarrow> core_ok (after_transfer i s)" for s :: "'z cc2530_scheme"
  by (simp add: after_transfer_def Let_def)

lemma StateTrans_I: "core_ok s \<Longrightarrow> keeps (StateTrans hw i s)"
  unfolding StateTrans_def
  by (cases "DmaChState (tabDMACh s i)")
    (auto intro!: sat_bindI [OF LoadConfig_I] sat_bindI [OF transfer_I])

lemma trans_all_I: "core_ok s \<Longrightarrow> keeps (trans_all hw is s)"
  by (induction "is" arbitrary: s) (auto intro!: sat_bindI [OF StateTrans_I])

lemma dma_tick_I: "core_ok s \<Longrightarrow> keeps (dma_tick hw n s)"
  unfolding dma_tick_def by (auto intro!: sat_bindI [OF addresses_I] trans_all_I)

lemma dma_handlers_I:
  fixes s :: "'z cc2530_scheme"
  assumes "core_ok s"
  shows "keeps (dma_write c v s)" "keeps (dma_happen ev s)" "keeps (dma_reset s)"
  using assms
  by (simp_all add: dma_write_def dma_happen_def dma_reset_def Let_def case_prod_beta core_ok_fold
      split: option.split prod.split del: fold.simps)

subsection \<open>Flash controller\<close>

lemma erase_I: "core_ok s \<Longrightarrow> keeps (erase_loop hw p n i s)"
  by (induction n arbitrary: i s) (auto intro!: mem_binds(8))

lemma erasePage_I: "core_ok s \<Longrightarrow> keeps (erasePage hw p s)"
  unfolding erasePage_def Let_def by (rule sat_bindI [OF erase_I]) simp_all

lemma flash_bytes_I: "core_ok s \<Longrightarrow> keeps (flash_bytes hw is s)"
  by (induction "is" arbitrary: s) (auto simp: Let_def intro!: mem_binds(8))

lemma flashWrite_I: "core_ok s \<Longrightarrow> keeps (flashWrite hw s)"
  unfolding flashWrite_def Let_def
  by (rule sat_bindI [OF flash_bytes_I]) (simp_all add: core_ok_fold del: fold.simps)

lemma write_fwdata_I: "core_ok s \<Longrightarrow> keeps (write_fwdata hw v s)"
  unfolding write_fwdata_def Let_def by (simp add: flashWrite_I)

lemma flash_write_I: "core_ok s \<Longrightarrow> keeps (flash_write hw c v s)"
  unfolding flash_write_def Let_def
  by (auto intro!: sat_bindI [where P = "\<lambda>_. core_ok"] sat_if erasePage_I write_fwdata_I)

lemma flash_handlers_I:
  fixes s :: "'z cc2530_scheme"
  assumes "core_ok s"
  shows "keeps (flash_tick n s)" "keeps (flash_reset s)"
  using assms by (simp_all add: flash_tick_def flash_reset_def)

subsection \<open>Timers 1, 3 and 4\<close>

lemma next_cc_loop_I: "core_ok s \<Longrightarrow> keeps (next_cc_loop hw n is s)"
  by (induction "is" arbitrary: s) (auto intro!: mem_binds(5))

lemma next_cc_I: "core_ok s \<Longrightarrow> keeps (get_next_cc_event hw n s)"
  by (simp add: get_next_cc_event_def next_cc_loop_I)

lemma compare_I: "core_ok s \<Longrightarrow> keeps (cct_compare hw n i s)"
  unfolding cct_compare_def by (rule mem_binds(5)) simp_all

lemma store_capture_I: "core_ok s \<Longrightarrow> keeps (store_capture hw n i s)"
  unfolding store_capture_def Let_def by ((intro cc_rules; simp)+)

lemma cc_channel_I: "core_ok s \<Longrightarrow> keeps (cc_channel hw n i s)"
  unfolding cc_channel_def Let_def
  by (auto intro!: mem_binds(5) sat_bindI [OF compare_I] store_capture_I happen_ok)

lemma cc_channels_I: "core_ok s \<Longrightarrow> keeps (cc_channels hw n is s)"
  by (induction "is" arbitrary: s) (auto intro!: sat_bindI [OF cc_channel_I])

lemma CaptureCompare_I: "core_ok s \<Longrightarrow> keeps (CaptureCompare hw n s)"
  unfolding CaptureCompare_def by (auto intro!: sat_bindI [OF cc_channels_I] next_cc_I)

lemma cct_overflow_I: "core_ok s \<Longrightarrow> keeps (cct_overflow hw n s)"
  by (simp add: cct_overflow_def Let_def happen_ok)

lemma refresh_sfr_ok [simp]: "core_ok s \<Longrightarrow> core_ok (refresh_sfr n s)" for s :: "'z cc2530_scheme"
  by (simp add: refresh_sfr_def Let_def cct_tl_def)

lemmas cct_rules = keeps_rules CaptureCompare_I cct_overflow_I next_cc_I

lemma cct_steps_I:
  assumes "core_ok s"
  shows "keeps (free_step hw n s)" "keeps (modulo_step hw n s)" "keeps (updown_step hw n s)"
    "keeps (down_step hw n s)"
  unfolding free_step_def modulo_step_def updown_step_def down_step_def Let_def
  by (intro cct_rules; simp add: assms)+

lemma repeat_I:
  fixes s :: "'z cc2530_scheme"
  assumes "\<And>t. core_ok t \<Longrightarrow> keeps (f t)"
  shows "core_ok s \<Longrightarrow> keeps (repeat_step k f s)"
  by (induction k arbitrary: s) (auto intro!: sat_bindI [OF assms])

lemma cct_TimerTick_I: "core_ok s \<Longrightarrow> keeps (cct_TimerTick hw n c s)"
  by (simp add: cct_TimerTick_def Let_def repeat_I cct_steps_I)

lemma cct_tick_I: "core_ok s \<Longrightarrow> keeps (cct_tick hw n c s)"
  by (simp add: cct_tick_def Let_def cct_TimerTick_I)

lemma cct_write_base_I: "core_ok s \<Longrightarrow> keeps (cct_write_base hw n c v s)"
  by (simp add: cct_write_base_def next_cc_I)

lemma t1_write_I: "core_ok s \<Longrightarrow> keeps (t1_write hw c v s)"
  unfolding t1_write_def Let_def
  by (rule sat_bindI [OF cct_write_base_I], assumption, rule sat_bindI [OF next_cc_I])
    (simp_all split: option.split prod.split)

lemma t34_write_I: "core_ok s \<Longrightarrow> keeps (t34_write hw n c v s)"
  unfolding t34_write_def Let_def
  by (rule sat_bindI [OF cct_write_base_I], assumption, rule sat_bindI [where P = "\<lambda>_. core_ok"])
    (auto intro: next_cc_I)

lemma cct_write_I: "core_ok s \<Longrightarrow> keeps (cct_write hw n c v s)"
  by (simp add: cct_write_def t1_write_I t34_write_I)

lemma cct_reset_I: "core_ok s \<Longrightarrow> keeps (cct_reset hw n s)"
  unfolding cct_reset_def by ((intro cc_rules; simp)+)

subsection \<open>MAC timer\<close>

lemma mac_raise_I: "core_ok s \<Longrightarrow> keeps (mac_raise hw m s)"
  unfolding mac_raise_def Let_def by (intro keeps_rules; simp)

lemma mac_overflow_I: "core_ok s \<Longrightarrow> keeps (mac_overflow hw s)"
  unfolding mac_overflow_def Let_def by (intro keeps_rules mac_raise_I; simp)

lemmas mac_rules = keeps_rules mac_raise_I mac_overflow_I

lemma CountCompare_I: "core_ok s \<Longrightarrow> keeps (CountCompare hw s)"
  unfolding CountCompare_def Let_def by (intro mac_rules; simp)

lemma mac_steps_I:
  assumes "core_ok s"
  shows "keeps (up_step hw s)" "keeps (delta_step hw s)"
  unfolding up_step_def delta_step_def Let_def
  by (intro mac_rules CountCompare_I; simp add: assms)+

lemma mac_tick_I: "core_ok s \<Longrightarrow> keeps (mac_tick hw c s)"
  by (simp add: mac_tick_def repeat_I mac_steps_I)

lemma mac_handlers_I:
  fixes s :: "'z cc2530_scheme"
  assumes "core_ok s"
  shows "keeps (mac_write c v s)" "keeps (mac_reset s)"
    "sat (\<lambda>v t. (byte_cell c \<longrightarrow> byte v) \<and> core_ok t) (mac_read c s)"
proof -
  show "keeps (mac_write c v s)" "keeps (mac_reset s)"
    using assms by (simp_all add: mac_write_def mac_reset_def Let_def split: option.split)
  show "sat (\<lambda>v t. (byte_cell c \<longrightarrow> byte v) \<and> core_ok t) (mac_read c s)"
  proof (cases "c = cell_t2m0 \<or> c = cell_t2m1 \<or> movf_index c \<noteq> None")
    case True
    then have "\<not> byte_cell c"
    proof (cases c)
      case (Cell a i)
      with True show ?thesis by (cases a) (simp_all add: movf_index_def byte_space_def)
    qed (simp add: movf_index_def)
    then show ?thesis using assms by (simp add: mac_read_def Let_def split: option.split)
  qed (use assms in \<open>auto simp: mac_read_def\<close>)
qed

subsection \<open>USARTs and serial line\<close>

lemma usart_small_ok [simp]:
  "core_ok s \<Longrightarrow> core_ok (rx_data_bit n pin s)" "core_ok s \<Longrightarrow> core_ok (rx_check n pin s)"
  for s :: "'z cc2530_scheme"
  by (simp_all add: rx_data_bit_def rx_check_def u_dbuf_def Let_def)

lemma frame_ends_I:
  assumes "core_ok s"
  shows "keeps (rx_end hw n s)" "keeps (tx_end hw n s)"
  unfolding rx_end_def tx_end_def Let_def by ((intro cc_rules; simp add: assms)+)

lemma Shift_in_I: "core_ok s \<Longrightarrow> keeps (Shift_in hw n rx s)"
  unfolding Shift_in_def Let_def
  by (rule sat_if, simp, rule sat_bind1, intro sat_if frame_ends_I; simp)

lemma Shift_out_I: "core_ok s \<Longrightarrow> keeps (Shift_out hw n tx s)"
  unfolding Shift_out_def Let_def by (simp add: frame_ends_I)

lemma BaudTick_I: "core_ok s \<Longrightarrow> keeps (BaudTick hw n s)"
  unfolding BaudTick_def
  by (intro keeps_rules Shift_in_I Shift_out_I; simp)

lemma usart_loop_I: "core_ok s \<Longrightarrow> keeps (usart_loop hw n k s)"
proof (induction k arbitrary: s)
  case (Suc k)
  show ?case unfolding usart_loop.simps Let_def
    by (intro keeps_rules BaudTick_I Suc.IH; simp add: Suc.prems)
qed simp

lemma usart_tick_I: "core_ok s \<Longrightarrow> keeps (usart_tick hw n c s)"
  by (simp add: usart_tick_def usart_loop_I)

lemma usart_handlers_I:
  fixes s :: "'z cc2530_scheme"
  assumes "core_ok s"
  shows "keeps (usart_write n c v s)" "keeps (usart_reset n s)"
    "sat (\<lambda>v t. (byte_cell c \<longrightarrow> byte v) \<and> core_ok t) (usart_read n c s)"
  using assms by (simp_all add: usart_write_def usart_reset_def usart_read_def u_dbuf_def Let_def)

lemma serial_handlers_I:
  fixes s :: "'z cc2530_scheme"
  assumes "core_ok s"
  shows "keeps (serial_write c v s)" "keeps (serial_reset s)" "keeps (serial_happen ev s)"
    "sat (\<lambda>v t. (byte_cell c \<longrightarrow> byte v) \<and> core_ok t) (serial_read c s)"
proof -
  show "keeps (serial_happen ev s)" using assms by (cases ev) simp_all
qed (use assms in \<open>simp_all add: serial_write_def serial_reset_def serial_read_def byte_space_def\<close>)

lemma serial_tick_I: "core_ok s \<Longrightarrow> keeps (serial_tick c s)" for s :: "'z cc2530_scheme"
  unfolding serial_tick_def Let_def
  by (cases "serial_bit_cnt (ser s)") (auto split: list.split)

end


subsection \<open>Radio: updates\<close>

lemma set_reg_ok [simp]: "core_ok s \<Longrightarrow> core_ok (set_reg a v s)"
  by (simp add: set_reg_def)

lemma radio_steps_ok [simp]:
  "core_ok s \<Longrightarrow> core_ok (rf_request msk m flag b s)" "core_ok s \<Longrightarrow> core_ok (add_reg a d s)"
  "core_ok (pc_to g s) = core_ok s" "core_ok (goto st n s) = core_ok s"
  "core_ok (active tx rx s) = core_ok s" "core_ok (set_ack s) = core_ok s"
  "core_ok (wrap_pc s) = core_ok s"
  by (simp_all add: rf_request_def add_reg_def pc_to_def goto_def active_def set_ack_def
      wrap_pc_def Let_def)

lemma radio_requests_ok [simp]:
  "core_ok s \<Longrightarrow> core_ok (idle_request s)" "core_ok s \<Longrightarrow> core_ok (on_timeout st n s)"
  "core_ok s \<Longrightarrow> core_ok (fsm_status s)" "core_ok s \<Longrightarrow> core_ok (IRQ_CSP_STOP s)"
  "core_ok s \<Longrightarrow> core_ok (IRQ_CSP_WT s)" "core_ok s \<Longrightarrow> core_ok (IRQ_CSP_INT s)"
  "core_ok s \<Longrightarrow> core_ok (snd (condition c s))"
  by (simp_all add: idle_request_def on_timeout_def fsm_status_def IRQ_CSP_STOP_def
      IRQ_CSP_WT_def IRQ_CSP_INT_def condition_def)

lemma filter_ok [simp]:
  "core_ok s \<Longrightarrow> core_ok (snd (filter_frame s))" "core_ok s \<Longrightarrow> core_ok (accept_frame s)"
  by (simp_all add: filter_frame_def accept_frame_def Let_def)

lemma next_rand_ok [simp]: "core_ok s \<Longrightarrow> core_ok (snd (next_rand s))"
  by (simp add: next_rand_def)

lemma csp_insts_ok [simp]:
  assumes "core_ok s"
  shows "core_ok (inst_dec_x s)" "core_ok (inst_dec_y s)" "core_ok (inst_dec_z s)"
    "core_ok (inst_inc_x s)" "core_ok (inst_inc_y s)" "core_ok (inst_inc_z s)"
    "core_ok (inst_inc_maxy k s)" "core_ok (inst_rand_xy s)" "core_ok (inst_int s)"
    "core_ok (inst_label s)" "core_ok (inst_waitx s)" "core_ok (inst_waitw k s)"
    "core_ok (inst_wait_event1 s)" "core_ok (inst_wait_event2 s)"
  using assms next_rand_ok [OF assms]
  by (simp_all add: inst_dec_x_def inst_dec_y_def inst_dec_z_def inst_inc_x_def inst_inc_y_def
      inst_inc_z_def inst_inc_maxy_def inst_rand_xy_def inst_int_def inst_label_def inst_waitx_def
      inst_waitw_def inst_wait_event1_def inst_wait_event2_def Let_def case_prod_beta)

lemma csp_strobes_ok [simp]:
  assumes "core_ok s"
  shows "core_ok (inst_repeatC k s)" "core_ok (inst_skipCS k s)" "core_ok (inst_stxoncca s)"
    "core_ok (inst_srxon s)" "core_ok (inst_istxon s)" "core_ok (inst_srfoff s)"
    "core_ok (inst_sflushrx s)" "core_ok (inst_sflushtx s)" "core_ok (inst_isstart s)"
    "core_ok (strobe_error s)" "core_ok (answered s)"
  using assms
  by (simp_all add: inst_repeatC_def inst_skipCS_def inst_stxoncca_def inst_srxon_def inst_istxon_def
      inst_srfoff_def inst_sflushrx_def inst_sflushtx_def inst_isstart_def strobe_error_def
      answered_def Let_def case_prod_beta)

context rf_env
begin

subsection \<open>Strobe processor\<close>

lemma inform_I: "core_ok s \<Longrightarrow> keeps (inform hw hs ev s)"
  by (induction hs arbitrary: s) (auto intro!: keeps_bind happen_ok)

lemma when_I: "core_ok s \<Longrightarrow> (\<And>t. core_ok t \<Longrightarrow> keeps (f t)) \<Longrightarrow> keeps (when_do b f s)"
  for s :: "'z rf2530_scheme"
  by (simp add: when_do_def)

lemma sack_I: "core_ok s \<Longrightarrow> keeps (inst_sack hw b s)"
  unfolding inst_sack_def Let_def by (intro keeps_rules inform_I; simp)

lemma snack_I: "core_ok s \<Longrightarrow> keeps (inst_snack hw s)"
  unfolding inst_snack_def by (intro keeps_rules inform_I; simp)

lemma as_set_I: "core_ok s \<Longrightarrow> as_set hw a i v s = Some t \<Longrightarrow> core_ok t"
  using data_reads_I(1) [of s Sfr r_MCON]
  by (auto simp: as_set_def xram_set_def sram_set_def cells_set_def bank_set_def Let_def sat_def
      leaf_set_I I_err split: if_splits option.splits Option.bind_splits)

lemma clear_program_I: "core_ok s \<Longrightarrow> clear_program hw n i s = Some t \<Longrightarrow> core_ok t"
  by (induction n arbitrary: i s) (auto split: Option.bind_splits dest: as_set_I)

lemma isclear_I: "core_ok s \<Longrightarrow> keeps (inst_isclear hw s)"
  by (auto simp: inst_isclear_def Let_def sat_def split: Option.bind_splits
      dest!: clear_program_I [rotated])

lemma strobes_I:
  "core_ok s \<Longrightarrow> keeps (strobe_D hw n s)" "core_ok s \<Longrightarrow> keeps (strobe_E hw n s)"
  by (simp_all add: strobe_D_def strobe_E_def sack_I snack_I)

lemma other_I: "core_ok s \<Longrightarrow> keeps (inst_other hw n s)"
  by (simp add: inst_other_def isclear_I)

lemma csp_exec_I: "core_ok s \<Longrightarrow> keeps (csp_exec hw n s)"
  unfolding csp_exec_def Let_def by (intro keeps_rules when_I strobes_I other_I; simp)

lemma CSP_tick_I: "core_ok s \<Longrightarrow> keeps (CSP_tick hw s)"
  unfolding CSP_tick_def Let_def by (intro keeps_rules csp_exec_I; simp)

lemma csp_write_I: "core_ok s \<Longrightarrow> keeps (csp_write hw c v s)"
  unfolding csp_write_def Let_def by (intro keeps_rules when_I isclear_I csp_exec_I; simp)

subsection \<open>Reception and transmission\<close>

lemma start_timer_I: "core_ok s \<Longrightarrow> keeps (start_timer n s)" for s :: "'z rf2530_scheme"
  by (simp add: start_timer_def)

lemma get_keeps: "core_ok s \<Longrightarrow> keeps (as_get hw a i s)"
  by (rule sat_mono [OF as_get_I]) simp_all

lemmas radio_rules = keeps_rules get_keeps when_I inform_I start_timer_I

lemma match_entry_I: "core_ok s \<Longrightarrow> keeps (match_entry hw en pend reg eb pb res m s)"
  unfolding match_entry_def Let_def by (intro radio_rules; simp)

lemma match_loops_I:
  "core_ok s \<Longrightarrow> keeps (match_ext hw is m s)" "core_ok s \<Longrightarrow> keeps (match_short hw is m s)"
  by (induction "is" arbitrary: m s) (auto simp: Let_def intro!: keeps_bind match_entry_I)

lemma match_source_I: "core_ok s \<Longrightarrow> keeps (match_source hw s)"
  unfolding match_source_def Let_def by (intro radio_rules match_loops_I; simp)

lemma Decode_frame_I: "core_ok s \<Longrightarrow> keeps (Decode_frame hw s)"
  unfolding Decode_frame_def Let_def
  by (intro radio_rules sat_bind1 match_source_I; simp)

lemma put_rx_I: "core_ok s \<Longrightarrow> put_rx i v s = Some t \<Longrightarrow> core_ok t"
  by (auto simp: put_rx_def split: if_splits)

lemma append_status_I: "core_ok s \<Longrightarrow> append_status s = Some t \<Longrightarrow> core_ok t"
  by (auto simp: append_status_def split: if_splits Option.bind_splits dest: put_rx_I)

lemma append_status_bind:
  assumes "core_ok s" "\<And>t. core_ok t \<Longrightarrow> sat Q (f t)"
  shows "sat Q (Option.bind (append_status s) f)"
  by (rule sat_bind1) (use assms append_status_I in blast)

lemma end_of_frame_I: "core_ok s \<Longrightarrow> keeps (end_of_frame hw s)"
  unfolding end_of_frame_def Let_def
  by (intro radio_rules Decode_frame_I append_status_bind; simp)

lemma doRX_I: "core_ok s \<Longrightarrow> keeps (doRX hw s)"
  unfolding doRX_def Let_def
  by (intro radio_rules end_of_frame_I sat_bind1; simp add: put_rx_I)

lemma doTX_I: "core_ok s \<Longrightarrow> keeps (doTX s)" for s :: "'z rf2530_scheme"
  by (simp add: doTX_def Let_def)

lemma send_ack_I: "core_ok s \<Longrightarrow> keeps (send_ack s)" for s :: "'z rf2530_scheme"
  unfolding send_ack_def by (intro radio_rules doTX_I; simp)

subsection \<open>State machine of the radio\<close>

lemma clear_rx_I: "core_ok s \<Longrightarrow> keeps (clear_rx hw n i s)"
  by (induction n arbitrary: i s) (auto intro!: mem_binds(8))

lemma rand_case:
  fixes s :: "'z rf2530_scheme"
  assumes "core_ok s" "\<And>r t. core_ok t \<Longrightarrow> sat Q (f r t)"
  shows "sat Q (case next_rand s of (r, t) \<Rightarrow> f r t)"
  using next_rand_ok [OF assms(1)] assms(2) by (cases "next_rand s") simp

lemma fsm_parts_I:
  assumes "core_ok s"
  shows "keeps (fsm_strobes s)" "keeps (fsm_rx hw s)" "keeps (fsm_tx s)" "keeps (fsm_ack s)"
  unfolding fsm_strobes_def fsm_rx_def fsm_tx_def fsm_ack_def Let_def
  by (intro radio_rules rand_case doRX_I doTX_I send_ack_I; simp add: assms)+

lemma fsm_switch_I: "core_ok s \<Longrightarrow> keeps (fsm_switch hw s)"
  unfolding fsm_switch_def Let_def
  by (cases "fsm_st (rf s)")
    (auto intro!: radio_rules fsm_parts_I keeps_bind [OF clear_rx_I])

lemma radio_tick_I: "core_ok s \<Longrightarrow> keeps (radio_tick hw (CSP_tick hw) n s)"
  unfolding radio_tick_def fsm_def Let_def
  by (intro radio_rules fsm_parts_I fsm_switch_I CSP_tick_I; simp)

subsection \<open>Reset and registers of the radio\<close>

lemma init_fifos_I: "core_ok s \<Longrightarrow> keeps (init_fifos hw n i s)"
  by (induction n arbitrary: i s) (auto simp: Let_def intro!: keeps_bind read_keeps)

lemma read_be_I: "core_ok s \<Longrightarrow> keeps (read_be hw h l s)"
  unfolding read_be_def by (intro keeps_rules; simp)

lemma frame_case:
  fixes s :: "'z rf2530_scheme"
  assumes "core_ok s" "\<And>x t. core_ok t \<Longrightarrow> sat Q (f x t)"
  shows "sat Q (case new_Frame s of (x, t) \<Rightarrow> f x t)"
  using assms by (simp add: new_Frame_def Let_def)

lemma radio_reset_I: "core_ok s \<Longrightarrow> keeps (radio_reset hw s)"
  unfolding radio_reset_def radio_init_def Let_def
  by (intro keeps_rules frame_case init_fifos_I read_be_I; simp add: core_ok_fold case_prod_beta del: fold.simps)

lemma radio_handlers_I:
  fixes s :: "'z rf2530_scheme"
  assumes "core_ok s"
  shows "keeps (radio_rf_write c v s)" "keeps (radio_rf_happen ev s)"
    "sat (\<lambda>v t. (byte_cell c \<longrightarrow> byte v) \<and> core_ok t) (radio_rf_read hw c s)"
  using assms
  by (simp_all add: radio_rf_write_def radio_rf_happen_def radio_rf_read_def cell_rfd_def
      cell_clkconcmd_rf_def Let_def)

end


subsection \<open>The contract at every depth\<close>

lemma stuck_core_hw: "core_hw stuck_hw"
  by unfold_locales (simp_all add: stuck_hw_def)

lemma ctl_core_hw:
  fixes inner x :: "'z cc_hw"
  assumes i: "cc_env inner" and x: "core_hw x"
  shows "core_hw (ctl_hwif inner x)"
proof
  fix s :: "'z cc2530_scheme" and h c v n ev
  assume s: "core_ok s"
  note handlers = cc_env.dma_handlers_I [OF i s] cc_env.flash_handlers_I [OF i s]
  show "sat (\<lambda>v t. (byte_cell c \<longrightarrow> byte v) \<and> core_ok t) (hw_read (ctl_hwif inner x) h c s)"
    using core_hw.read_ok [OF x s] s by (simp add: ctl_hwif_def default_hw_read_def split: hwid.split)
  show "keeps (hw_write (ctl_hwif inner x) h c v s)"
    using core_hw.write_ok [OF x s] cc_env.flash_write_I [OF i s] cc_env.cct_write_I [OF i s] handlers
    by (simp add: ctl_hwif_def split: hwid.split)
  show "keeps (hw_tick (ctl_hwif inner x) h n s)"
    using core_hw.tick_ok [OF x s] cc_env.dma_tick_I [OF i s] cc_env.cct_tick_I [OF i s] handlers
    by (simp add: ctl_hwif_def split: hwid.split)
  show "keeps (hw_happen (ctl_hwif inner x) h ev s)"
    using core_hw.happen_ok [OF x s] handlers s by (simp add: ctl_hwif_def split: hwid.split)
  show "keeps (hw_reset (ctl_hwif inner x) h s)"
    using core_hw.reset_ok [OF x s] cc_env.cct_reset_I [OF i s] handlers
    by (simp add: ctl_hwif_def split: hwid.split)
qed

lemma comm_core_hw:
  fixes inner x :: "'z cc_hw"
  assumes i: "cc_env inner" and x: "core_hw x"
  shows "core_hw (comm_hwif inner x)"
proof
  fix s :: "'z cc2530_scheme" and h c v n ev
  assume s: "core_ok s"
  note handlers = cc_env.mac_handlers_I [OF i s] cc_env.usart_handlers_I [OF i s]
    cc_env.serial_handlers_I [OF i s]
  show "sat (\<lambda>v t. (byte_cell c \<longrightarrow> byte v) \<and> core_ok t) (hw_read (comm_hwif inner x) h c s)"
    using core_hw.read_ok [OF x s] handlers by (simp add: comm_hwif_def split: hwid.split)
  show "keeps (hw_write (comm_hwif inner x) h c v s)"
    using core_hw.write_ok [OF x s] handlers by (simp add: comm_hwif_def split: hwid.split)
  show "keeps (hw_tick (comm_hwif inner x) h n s)"
    using core_hw.tick_ok [OF x s] cc_env.mac_tick_I [OF i s] cc_env.usart_tick_I [OF i s]
      cc_env.serial_tick_I [OF i s]
    by (simp add: comm_hwif_def split: hwid.split)
  show "keeps (hw_happen (comm_hwif inner x) h ev s)"
    using core_hw.happen_ok [OF x s] handlers s by (simp add: comm_hwif_def split: hwid.split)
  show "keeps (hw_reset (comm_hwif inner x) h s)"
    using core_hw.reset_ok [OF x s] handlers by (simp add: comm_hwif_def split: hwid.split)
qed

lemma radio_core_hw:
  fixes inner :: "'z rf_hw"
  assumes i: "rf_env inner"
  shows "core_hw (radio_hwif inner)"
proof
  fix s :: "'z rf2530_scheme" and h c v n ev
  assume s: "core_ok s"
  note handlers = rf_env.radio_handlers_I [OF i s]
  show "sat (\<lambda>v t. (byte_cell c \<longrightarrow> byte v) \<and> core_ok t) (hw_read (radio_hwif inner) h c s)"
    using handlers s by (simp add: radio_hwif_def default_hw_read_def split: hwid.split)
  show "keeps (hw_write (radio_hwif inner) h c v s)"
    using handlers rf_env.csp_write_I [OF i s] s by (simp add: radio_hwif_def split: hwid.split)
  show "keeps (hw_tick (radio_hwif inner) h n s)"
    using rf_env.radio_tick_I [OF i s] s by (simp add: radio_hwif_def split: hwid.split)
  show "keeps (hw_happen (radio_hwif inner) h ev s)"
    using handlers s by (simp add: radio_hwif_def split: hwid.split)
  show "keeps (hw_reset (radio_hwif inner) h s)"
    using rf_env.radio_reset_I [OF i s] s by (simp add: radio_hwif_def split: hwid.split)
qed

lemma full_core_hw: "core_hw (full_hw k :: 'z rf_hw)"
proof (induction k)
  case (Suc k)
  then have "cc_env (full_hw k :: 'z rf_hw)" "rf_env (full_hw k :: 'z rf_hw)"
    by (simp_all add: cc_env_def rf_env_def)
  then show ?case unfolding full_hw.simps
    by (simp add: core51_hwif_ok ctl_core_hw comm_core_hw radio_core_hw)
qed (simp add: stuck_core_hw)

interpretation chip_inv: rf_env full51
  unfolding rf_env_def full51_def by (rule full_core_hw)

subsection \<open>A run of the chip\<close>

text \<open>
  C1 Any run of \<open>do_inst\<close> on the whole chip, with the DMA controller, the flash controller,
  all timers, the serial interfaces and the radio as the program puts them together, whatever its
  count, the watchers of the cells, the code in memory and the input on the consoles, keeps the
  invariant of the core: PC stays within 0..0x10000, at most two interrupt services are nested on the
  base level, their levels strictly rise, and the tracker holds only calls, interrupts and pushes.
\<close>

theorem run_keeps_core:
  fixes s :: "'z rf2530_scheme"
  assumes "core_ok s"
  shows "sat (\<lambda>_ t. core_ok t \<and> length (Items (it_levels t)) \<le> 3
      \<and> sorted_wrt (>) (map level (Items (it_levels t))) \<and> 0 \<le> PC t \<and> PC t \<le> 0x10000)
     (do_inst full51 frozen_in cmd_in n s)"
  by (rule sat_mono [OF chip_inv.do_inst_I [OF assms]]) (auto simp: core_ok_def levels_bounded levels_ok_def)

subsection \<open>The chip at the start\<close>

lemma reg_cells_core [simp]:
  fixes s :: "'z rf2530_scheme"
  shows "PC (reg_cells h l s) = PC s" "it_levels (reg_cells h l s) = it_levels s"
    "it_sources (reg_cells h l s) = it_sources s" "stack_ops (reg_cells h l s) = stack_ops s"
    "counters (reg_cells h l s) = counters s"
proof -
  obtain f where "reg_cells h l s = s\<lparr>ops := f\<rparr>" using reg_cells_only by blast
  then show "PC (reg_cells h l s) = PC s" "it_levels (reg_cells h l s) = it_levels s"
    "it_sources (reg_cells h l s) = it_sources s" "stack_ops (reg_cells h l s) = stack_ops s"
    "counters (reg_cells h l s) = counters s" by simp_all
qed

lemma wire_core [simp]:
  "PC (wire s) = PC s" "it_levels (wire s) = it_levels s" "it_sources (wire s) = it_sources s"
  "stack_ops (wire s) = stack_ops s" "counters (wire s) = counters s"
  by (simp_all add: wire_def Let_def radio_cells_reg del: reg_cells.simps)

lemma wired_core_ok:
  assumes "\<And>c. byte (h c)"
  shows "core_ok (wire (bare_chip h))"
  using wired_chip(2) [OF assms]
  by (simp add: core_ok_def) (simp add: bare_chip_def boot_rf_def cc2530.extend_def boot2530_def
      core51.extend_def boot51_def levels_ok_def sources_ok_def tracker_sound_def cl_list_ok_def
      lcount_def max_list_size_def)

text \<open>Adding an interrupt source, with \<open>n\<close> of them added before.\<close>

definition opened :: "nat \<Rightarrow> 'z core51_scheme \<Rightarrow> bool" where
  "opened n s \<longleftrightarrow> core_ok s \<and> key_sorted poll_priority True (Items (it_sources s))
     \<and> cl_list_ok (it_sources s) \<and> length (Items (it_sources s)) = n"

lemma add_source:
  fixes s :: "'z core51_scheme"
  assumes "opened n s" "n < 8000" "0 \<le> it_addr src" "it_addr src < 0x10000"
    "valid_address Sfr (ie_reg src)" "valid_address Sfr (src_reg src)"
    and f: "\<And>t. opened (Suc n) t \<Longrightarrow> \<exists>u. f t = Some u \<and> opened m u"
  shows "\<exists>u. Option.bind (add_it_src src s) f = Some u \<and> opened m u"
proof -
  obtain i l where l: "sl_add poll_priority irqs_compare True src (it_sources s) = Some (i, l)"
    "key_sorted poll_priority True (Items l)" "cl_list_ok l"
    "mset (Items l) = add_mset src (mset (Items (it_sources s)))"
    using irqs_sorted.add_correct [where l = "it_sources s" and x = src and dup = True] assms(1,2)
    by (auto simp: opened_def lcount_def max_list_size_def)
  have "set (Items l) = insert src (set (Items (it_sources s)))"
    using l(4) by (metis set_mset_add_mset_insert set_mset_mset)
  moreover have "length (Items l) = Suc n"
    using l(4) assms(1) by (metis opened_def size_add_mset size_mset)
  moreover have "mem_ok (s\<lparr>it_sources := l\<rparr>)"
    using assms(1) mem_ok_cong [of "s\<lparr>it_sources := l\<rparr>" s] by (simp add: opened_def)
  ultimately have "opened (Suc n) (s\<lparr>it_sources := l\<rparr>)"
    using assms(1,3-6) l(2,3) by (simp add: opened_def core_ok_def sources_ok_def)
  then show ?thesis using f by (simp add: add_it_src_def l(1))
qed

lemma bare_opened: "(\<And>c. byte (h c)) \<Longrightarrow> opened 0 (wire (bare_chip h))"
  by (simp add: opened_def wired_core_ok) (simp add: bare_chip_def boot_rf_def cc2530.extend_def
      boot2530_def core51.extend_def boot51_def cl_list_ok_def key_sorted_def lcount_def max_list_size_def)

lemmas source_simps = mk_it_src_def valid_address_def

lemma chip_opened:
  fixes s :: "'z rf2530_scheme"
  assumes "opened 0 s"
  shows "\<exists>t. Option.bind (full_sources_added s) Some = Some t \<and> opened 16 t"
  unfolding full_sources_added_def sources_added_def timer_added_def cct_added_def mac_added_def
    usart_added_def radio_rf_added_def serial_added_def interrupt_added_def
  by (simp only: if_True if_False one_neq_zero numeral_eq_one_iff refl bind_assoc,
      (rule add_source, (assumption | rule assms), simp, simp add: source_simps,
       simp add: source_simps, simp add: source_simps, simp add: source_simps)+,
      simp add: eval_nat_numeral)

theorem run_keeps_core_witness:
  "\<exists>s. full_sources_added (wire (bare_chip (\<lambda>_. 7))) = Some s
     \<and> length (Items (it_sources s)) = 16
     \<and> sat (\<lambda>_ t. core_ok t \<and> length (Items (it_levels t)) \<le> 3
         \<and> sorted_wrt (>) (map level (Items (it_levels t))) \<and> 0 \<le> PC t \<and> PC t \<le> 0x10000)
       (do_inst full51 (\<lambda>_. False) (\<lambda>_. False) 1000 s)"
proof -
  obtain s where s: "full_sources_added (wire (bare_chip (\<lambda>_. 7))) = Some s" "opened 16 s"
    using chip_opened [OF bare_opened, of "\<lambda>_. 7"] by (auto simp: byte_def)
  then have "core_ok s" by (simp add: opened_def)
  from run_keeps_core [OF this] s show ?thesis by (intro exI [of _ s]) (simp add: opened_def)
qed

end
