(* ===== verification/Timer51Facts.thy ===== *)
theory Timer51Facts
  imports Core51Facts
begin

text \<open>
  Timer 0 as a counter: the cycle loops of its modes against arithmetic on the value the two
  registers hold. Timer 1 differs in its registers and in informing the serial line at overflow.
\<close>

abbreviation "tl0 \<equiv> Cell Sfr 0x0a"
abbreviation "th0 \<equiv> Cell Sfr 0x0c"

text \<open>
  \<open>timed s l h f t\<close>: \<open>t\<close> holds \<open>l\<close> and \<open>h\<close> in the timer registers, the overflow flag is raised when \<open>f\<close>,
  and every other cell is as in \<open>s\<close>.
\<close>

definition timed :: "'z mem_scheme \<Rightarrow> int \<Rightarrow> int \<Rightarrow> bool \<Rightarrow> 'z mem_scheme \<Rightarrow> bool" where
  "timed s l h f t \<longleftrightarrow> mem_ok t \<and> cell_get tl0 t = l \<and> cell_get th0 t = h
     \<and> cell_get cell_tcon t = (if f then cell_get cell_tcon s OR bmTF0 else cell_get cell_tcon s)
     \<and> (\<forall>c. c \<notin> {tl0, th0, cell_tcon} \<longrightarrow> cell_get c t = cell_get c s)"

lemma timed_trans:
  assumes "timed s l h f t" "timed t l' h' f' u"
  shows "timed s l' h' (f \<or> f') u"
  using assms by (auto simp: timed_def or.assoc)

lemma timed_refl: "mem_ok s \<Longrightarrow> l = cell_get tl0 s \<Longrightarrow> h = cell_get th0 s \<Longrightarrow> timed s l h False s"
  by (simp add: timed_def)

lemma timed_pokes:
  assumes "mem_ok s" "byte l" "byte h"
  shows "h = cell_get th0 s \<Longrightarrow> timed s l h False (poke tl0 l s)"
    "timed s l h False (poke th0 h (poke tl0 l s))"
    "timed s l h True (poke cell_tcon (cell_get cell_tcon s OR bmTF0) (poke th0 h (poke tl0 l s)))"
    "h = cell_get th0 s \<Longrightarrow>
     timed s l h True (poke cell_tcon (cell_get cell_tcon s OR bmTF0) (poke tl0 l s))"
  using assms by (auto simp: timed_def byte_or)

lemma no_overflow_call [simp]: "timer_overflow hw 0 s = Some ((), s)"
  by (simp add: timer_overflow_def)

lemma timer0_cells [simp]: "cell_tl 0 = tl0" "cell_th 0 = th0" "mask_TF 0 = bmTF0"
  by (simp_all add: cell_tl_def cell_th_def mask_TF_def)

lemma byte_succ: "byte x \<Longrightarrow> (x + 1) mod 256 = (if x = 255 then 0 else x + 1)"
  by (auto simp: byte_def)

lemma and_31: "x AND 31 = x mod (32 :: int)"
  using take_bit_eq_mask [of 5 x] by (simp add: take_bit_eq_mod mask_eq_exp_minus_1)

subsection \<open>One cycle\<close>

lemma mode1_cycle:
  assumes "mem_ok s" "l = cell_get tl0 s" "h = cell_get th0 s"
  shows "\<exists>t. (\<forall>k. mode1_loop hw 0 (Suc k) s = mode1_loop hw 0 k t)
     \<and> timed s ((l + 1) mod 256) (if l = 255 then (h + 1) mod 256 else h) (l = 255 \<and> h = 255) t"
proof -
  have b: "byte l" "byte h" using assms by simp_all
  then have n: "l + 1 \<noteq> 0" "h + 1 \<noteq> 0" by (auto simp: byte_def)
  let ?a = "poke tl0 ((l + 1) mod 256) s"
  let ?b = "poke th0 ((h + 1) mod 256) ?a"
  let ?t = "if l = 255 then (if h = 255 then poke cell_tcon (cell_get cell_tcon s OR bmTF0) ?b else ?b) else ?a"
  have "mode1_loop hw 0 (Suc k) s = mode1_loop hw 0 k ?t" for k
    using assms b n by (simp add: add_poke set_bits_poke Let_def byte_succ)
  moreover have "timed s ((l + 1) mod 256) (if l = 255 then (h + 1) mod 256 else h) (l = 255 \<and> h = 255) ?t"
    using assms(3) b by (auto intro!: timed_pokes [OF assms(1)])
  ultimately show ?thesis by blast
qed

lemma mode2_cycle:
  assumes "mem_ok s" "l = cell_get tl0 s" "h = cell_get th0 s"
  shows "\<exists>t. (\<forall>k. mode2_loop hw 0 (Suc k) s = mode2_loop hw 0 k t)
     \<and> timed s (if l = 255 then h else l + 1) h (l = 255) t"
proof -
  have b: "byte l" "byte h" using assms by simp_all
  then have n: "l + 1 \<noteq> 0" "h + 1 \<noteq> 0" by (auto simp: byte_def)
  from b have m: "h mod 256 = h" by (simp add: byte_def)
  let ?t = "if l = 255 then poke cell_tcon (cell_get cell_tcon s OR bmTF0) (poke tl0 h s)
    else poke tl0 (l + 1) s"
  have "mode2_loop hw 0 (Suc k) s = mode2_loop hw 0 k ?t" for k
    using assms b n m by (simp add: add_poke set_poke set_bits_poke Let_def byte_succ)
  moreover have "byte (l + 1)" if "l \<noteq> 255" using b that by (simp add: byte_def)
  then have "timed s (if l = 255 then h else l + 1) h (l = 255) ?t"
    using assms(3) b by (auto intro!: timed_pokes [OF assms(1)])
  ultimately show ?thesis by blast
qed

lemma mode0_cycle:
  assumes "mem_ok s" "l = cell_get tl0 s" "h = cell_get th0 s" "l < 32"
  shows "\<exists>t. (\<forall>k. mode0_loop hw 0 (Suc k) s = mode0_loop hw 0 k t)
     \<and> timed s ((l + 1) mod 32) (if l = 31 then (h + 1) mod 256 else h) (l = 31 \<and> h = 255) t"
proof -
  have b: "byte l" "byte h" using assms by simp_all
  then have n: "l + 1 \<noteq> 0" "h + 1 \<noteq> 0" by (auto simp: byte_def)
  have m: "(l + 1) AND 0x1f = (if l = 31 then 0 else l + 1)"
    using b(1) assms(4) by (auto simp: byte_def and_31)
  let ?a = "poke tl0 ((l + 1) mod 32) s"
  let ?b = "poke th0 ((h + 1) mod 256) ?a"
  let ?t = "if l = 31 then (if h = 255 then poke cell_tcon (cell_get cell_tcon s OR bmTF0) ?b else ?b) else ?a"
  have "mode0_loop hw 0 (Suc k) s = mode0_loop hw 0 k ?t" for k
    using assms b n m by (auto simp: add_poke set_poke set_bits_poke Let_def byte_succ byte_def)
  moreover have "byte ((l + 1) mod 32)" using pos_mod_bound [of 32 "l + 1"] by (simp add: byte_def)
  then have "timed s ((l + 1) mod 32) (if l = 31 then (h + 1) mod 256 else h) (l = 31 \<and> h = 255) ?t"
    using assms(3) b by (auto intro!: timed_pokes [OF assms(1)])
  ultimately show ?thesis by blast
qed

subsection \<open>Many cycles\<close>

lemma mode1_count:
  assumes "mem_ok s" "v = cell_get th0 s * 256 + cell_get tl0 s"
  shows "\<exists>t. mode1_loop hw 0 k s = Some ((), t)
     \<and> timed s ((v + int k) mod 256) ((v + int k) div 256 mod 256) (0x10000 \<le> v + int k) t"
  using assms
proof (induction k arbitrary: s v)
  case 0
  have "byte (cell_get tl0 s)" "byte (cell_get th0 s)" using 0(1) by simp_all
  then have "v mod 256 = cell_get tl0 s" "v div 256 mod 256 = cell_get th0 s" "v < 0x10000"
    using 0(2) by (auto simp: byte_def)
  then show ?case using timed_refl [OF 0(1) refl refl] by simp
next
  case (Suc k)
  let ?l = "cell_get tl0 s" and ?h = "cell_get th0 s"
  have b: "byte ?l" "byte ?h" using Suc.prems by simp_all
  obtain t where t: "mode1_loop hw 0 (Suc k) s = mode1_loop hw 0 k t"
    "timed s ((?l + 1) mod 256) (if ?l = 255 then (?h + 1) mod 256 else ?h) (?l = 255 \<and> ?h = 255) t"
    using mode1_cycle [OF Suc.prems(1) refl refl, of hw] by blast
  define w where "w = cell_get th0 t * 256 + cell_get tl0 t"
  have w: "w = (if v = 0xffff then 0 else v + 1)" and f: "(?l = 255 \<and> ?h = 255) = (v = 0xffff)"
    using t(2) b Suc.prems(2) by (auto simp: w_def timed_def byte_def byte_succ)
  have "mem_ok t" using t(2) by (simp add: timed_def)
  from Suc.IH [OF this w_def] obtain u where u: "mode1_loop hw 0 k t = Some ((), u)"
    "timed t ((w + int k) mod 256) ((w + int k) div 256 mod 256) (0x10000 \<le> w + int k) u" by blast
  have "v < 0x10000" using b Suc.prems(2) by (simp add: byte_def)
  have e: "((w + int k) mod 256 = (v + int (Suc k)) mod 256) \<and> (w + int k) div 256 mod 256 = (v + int (Suc k)) div 256 mod 256
    \<and> (v = 0xffff \<or> 0x10000 \<le> w + int k) = (0x10000 \<le> v + int (Suc k))"
  proof (cases "v = 0xffff")
    case True
    have "(0xffff + int (Suc k)) div 256 = int k div 256 + 256"
      "(0xffff + int (Suc k)) mod 256 = int k mod 256"
      using mod_mult_self2 [of "int k" 256 256] by (simp_all add: add.commute)
    then show ?thesis using True w by simp
  qed (use w in \<open>auto simp: add.assoc\<close>)
  show ?case using timed_trans [OF t(2) u(2)] t(1) u(1) e f by auto
qed

lemma mode0_count:
  assumes "mem_ok s" "cell_get tl0 s < 32" "v = cell_get th0 s * 32 + cell_get tl0 s"
  shows "\<exists>t. mode0_loop hw 0 k s = Some ((), t)
     \<and> timed s ((v + int k) mod 32) ((v + int k) div 32 mod 256) (0x2000 \<le> v + int k) t"
  using assms
proof (induction k arbitrary: s v)
  case 0
  have "byte (cell_get tl0 s)" "byte (cell_get th0 s)" using 0(1) by simp_all
  then have "v mod 32 = cell_get tl0 s" "v div 32 mod 256 = cell_get th0 s" "v < 0x2000"
    using 0(2,3) by (auto simp: byte_def)
  then show ?case using timed_refl [OF 0(1) refl refl] by simp
next
  case (Suc k)
  let ?l = "cell_get tl0 s" and ?h = "cell_get th0 s"
  have b: "byte ?l" "byte ?h" using Suc.prems by simp_all
  obtain t where t: "mode0_loop hw 0 (Suc k) s = mode0_loop hw 0 k t"
    "timed s ((?l + 1) mod 32) (if ?l = 31 then (?h + 1) mod 256 else ?h) (?l = 31 \<and> ?h = 255) t"
    using mode0_cycle [OF Suc.prems(1) refl refl Suc.prems(2), of hw] by blast
  define w where "w = cell_get th0 t * 32 + cell_get tl0 t"
  have w: "w = (if v = 0x1fff then 0 else v + 1)" and f: "(?l = 31 \<and> ?h = 255) = (v = 0x1fff)"
    using t(2) b Suc.prems(2,3) by (auto simp: w_def timed_def byte_def byte_succ)
  have m: "mem_ok t" "cell_get tl0 t < 32" using t(2) by (simp_all add: timed_def)
  from Suc.IH [OF m w_def] obtain u where u: "mode0_loop hw 0 k t = Some ((), u)"
    "timed t ((w + int k) mod 32) ((w + int k) div 32 mod 256) (0x2000 \<le> w + int k) u" by blast
  have "v < 0x2000" using b Suc.prems(2,3) by (simp add: byte_def)
  have e: "((w + int k) mod 32 = (v + int (Suc k)) mod 32)
    \<and> (w + int k) div 32 mod 256 = (v + int (Suc k)) div 32 mod 256
    \<and> (v = 0x1fff \<or> 0x2000 \<le> w + int k) = (0x2000 \<le> v + int (Suc k))"
  proof (cases "v = 0x1fff")
    case True
    have "(0x1fff + int (Suc k)) div 32 = int k div 32 + 256"
      "(0x1fff + int (Suc k)) mod 32 = int k mod 32"
      using mod_mult_self2 [of "int k" 32 256] by (simp_all add: add.commute)
    then show ?thesis using True w by simp
  qed (use w in \<open>auto simp: add.assoc\<close>)
  show ?case using timed_trans [OF t(2) u(2)] t(1) u(1) e f by auto
qed

lemma mode2_count:
  assumes "mem_ok s" "v = cell_get tl0 s" "h = cell_get th0 s"
  shows "\<exists>t. mode2_loop hw 0 k s = Some ((), t)
     \<and> timed s (if v + int k < 256 then v + int k else h + (v + int k - 256) mod (256 - h)) h
         (256 \<le> v + int k) t"
  using assms
proof (induction k arbitrary: s v)
  case 0
  then have "byte v" by simp
  then show ?case using timed_refl [OF 0(1,2,3)] by (simp add: byte_def)
next
  case (Suc k)
  have b: "byte v" "byte h" using Suc.prems by simp_all
  obtain t where t: "mode2_loop hw 0 (Suc k) s = mode2_loop hw 0 k t"
    "timed s (if v = 255 then h else v + 1) h (v = 255) t"
    using mode2_cycle [OF Suc.prems, of hw] by blast
  define w where "w = cell_get tl0 t"
  have w: "w = (if v = 255 then h else v + 1)" and m: "mem_ok t" "h = cell_get th0 t"
    using t(2) by (auto simp: w_def timed_def)
  from Suc.IH [OF m(1) w_def m(2)] obtain u where u: "mode2_loop hw 0 k t = Some ((), u)"
    "timed t (if w + int k < 256 then w + int k else h + (w + int k - 256) mod (256 - h)) h
       (256 \<le> w + int k) u" by blast
  have e: "(if w + int k < 256 then w + int k else h + (w + int k - 256) mod (256 - h))
      = (if v + int (Suc k) < 256 then v + int (Suc k) else h + (v + int (Suc k) - 256) mod (256 - h))
    \<and> (v = 255 \<or> 256 \<le> w + int k) = (256 \<le> v + int (Suc k))"
  proof (cases "v = 255")
    case True
    have "(h + int k - 256) mod (256 - h) = int k mod (256 - h)"
      using minus_mod_self2 [of "int k" "256 - h"] by (simp add: algebra_simps)
    moreover have "int k mod (256 - h) = int k" if "h + int k < 256" using that by simp
    ultimately show ?thesis using True w by auto
  qed (use w in \<open>auto simp: add.assoc\<close>)
  show ?case using timed_trans [OF t(2) u(2)] t(1) u(1) e by auto
qed

subsection \<open>Timer 0\<close>

text \<open>
  C5 While timer 0 runs, a tick of n cycles (as a counter: of n edges seen on its pin)
  adds n to the register pair: 16 bits in mode 1, 13 bits in mode 0, the low byte in mode 2 with a
  reload from the high byte at each overflow. The flag TF0 is raised exactly when the count passes
  the end of its range, and no other cell changes.
\<close>

theorem timer0_counts:
  fixes s :: "'z core51_scheme"
  assumes s: "mem_ok s" and r: "t = timers s 0" "\<not> timer_stopped t"
    and n: "n = (if t_C_T t then t_T_edge t else cycles)" "0 \<le> n"
    and v: "l = cell_get tl0 s" "h = cell_get th0 s"
  shows "(t_mode t = 1 \<longrightarrow> (\<exists>u. timer_tick hw 0 cycles s = Some ((), u)
        \<and> timed s ((h * 256 + l + n) mod 256) ((h * 256 + l + n) div 256 mod 256) (0x10000 \<le> h * 256 + l + n) u))
    \<and> (t_mode t = 0 \<and> l < 32 \<longrightarrow> (\<exists>u. timer_tick hw 0 cycles s = Some ((), u)
        \<and> timed s ((h * 32 + l + n) mod 32) ((h * 32 + l + n) div 32 mod 256) (0x2000 \<le> h * 32 + l + n) u))
    \<and> (t_mode t = 2 \<longrightarrow> (\<exists>u. timer_tick hw 0 cycles s = Some ((), u)
        \<and> timed s (if l + n < 256 then l + n else h + (l + n - 256) mod (256 - h)) h (256 \<le> l + n) u))"
proof -
  define s' where "s' = snd (take_cycles 0 cycles s)"
  have tc: "take_cycles 0 cycles s = (n, s')"
    using r n by (simp add: s'_def take_cycles_def)
  have g: "cell_get c s' = cell_get c s" "mem_ok s' = mem_ok s" for c
    by (auto simp: s'_def take_cycles_def set_timer_def cell_get_def mem_ok_def)
  then have f: "timed s' x y z u = timed s x y z u" for x y z u by (simp add: timed_def)
  have nn: "int (nat n) = n" "\<not> n < 0" using n(2) by simp_all
  have m: "mem_ok s'" "l = cell_get tl0 s'" "h = cell_get th0 s'" using s v g by simp_all
  have "\<exists>u. timer_tick hw 0 cycles s = Some ((), u)
      \<and> timed s ((h * 256 + l + n) mod 256) ((h * 256 + l + n) div 256 mod 256) (0x10000 \<le> h * 256 + l + n) u"
    if "t_mode t = 1"
    using mode1_count [OF m(1), of "h * 256 + l" hw "nat n"] that r tc m(2,3)
    by (simp add: timer_tick_def do_mode1_def nn f n(2))
  moreover have "\<exists>u. timer_tick hw 0 cycles s = Some ((), u)
      \<and> timed s ((h * 32 + l + n) mod 32) ((h * 32 + l + n) div 32 mod 256) (0x2000 \<le> h * 32 + l + n) u"
    if "t_mode t = 0" "l < 32"
    using mode0_count [OF m(1), of "h * 32 + l" hw "nat n"] that r tc m(2,3)
    by (simp add: timer_tick_def do_mode0_def nn f n(2))
  moreover have "\<exists>u. timer_tick hw 0 cycles s = Some ((), u)
      \<and> timed s (if l + n < 256 then l + n else h + (l + n - 256) mod (256 - h)) h (256 \<le> l + n) u"
    if "t_mode t = 2"
  proof -
    obtain u where "mode2_loop hw 0 (nat n) s' = Some ((), u)"
      "timed s (if l + n < 256 then l + n else h + (l + n - 256) mod (256 - h)) h (256 \<le> l + n) u"
      using mode2_count [OF m, of hw "nat n"] unfolding f nn(1) by blast
    then show ?thesis using that r tc n(2) by (simp add: timer_tick_def do_mode2_def)
  qed
  ultimately show ?thesis by blast
qed

definition timer_demo :: "int \<Rightarrow> core51" where
  "timer_demo md = (boot51 (\<lambda>c. if c = tl0 then 0xfe else if c = th0 then 0xff else 0))
     \<lparr>timers := (\<lambda>_. \<lparr>t_mode = md, t_GATE = False, t_C_T = False, t_TR = True, t_INT = True, t_T_edge = 0\<rparr>)\<rparr>"

lemma timer_demo_ok:
  "mem_ok (timer_demo md)" "cell_get tl0 (timer_demo md) = 0xfe" "cell_get th0 (timer_demo md) = 0xff"
  "cell_get cell_tcon (timer_demo md) = 0" "t_mode (timers (timer_demo md) 0) = md"
  "\<not> timer_stopped (timers (timer_demo md) 0)" "\<not> t_C_T (timers (timer_demo md) 0)"
proof -
  let ?h = "\<lambda>c. if c = tl0 then 0xfe else if c = th0 then 0xff else 0 :: int"
  have "mem_ok (boot51 ?h)" by (rule ready_mem_ok, rule boot51_ready) simp
  then show "mem_ok (timer_demo md)" unfolding timer_demo_def
    by (subst mem_ok_cong [of _ "boot51 ?h"]) simp_all
qed (simp_all add: timer_demo_def cell_get_def boot51_def timer_stopped_def)

theorem timer0_counts_witness:
  "(\<exists>u. timer_tick base_hw 0 5 (timer_demo 1) = Some ((), u) \<and> cell_get tl0 u = 3 \<and> cell_get th0 u = 0
      \<and> cell_get cell_tcon u = bmTF0)
   \<and> (\<exists>u. timer_tick base_hw 0 5 (timer_demo 2) = Some ((), u) \<and> cell_get tl0 u = 0xff
      \<and> cell_get th0 u = 0xff \<and> cell_get cell_tcon u = bmTF0)"
proof -
  have c: "(t_mode (timers (timer_demo md) 0) = 1 \<longrightarrow> (\<exists>u. timer_tick base_hw 0 5 (timer_demo md) = Some ((), u)
        \<and> timed (timer_demo md) 3 0 True u))
    \<and> (t_mode (timers (timer_demo md) 0) = 2 \<longrightarrow> (\<exists>u. timer_tick base_hw 0 5 (timer_demo md) = Some ((), u)
        \<and> timed (timer_demo md) 0xff 0xff True u))" for md
    using timer0_counts [OF timer_demo_ok(1) [of md] refl timer_demo_ok(6) refl, where cycles = 5 and l = "0xfe" and h = "0xff" and hw = base_hw]
    by (simp add: timer_demo_ok)
  show ?thesis using c [of 1] c [of 2] by (auto simp: timer_demo_ok timed_def)
qed

end
