(* ===== verification/Dma2530Facts.thy ===== *)
theory Dma2530Facts
  imports Cc2530Facts
begin

text \<open>
  The DMA controller as a copy: a channel in its transfer state moves one byte per step and, left to
  itself, a whole block.
\<close>

subsection \<open>One step of a byte transfer\<close>

definition advance :: "dma_channel \<Rightarrow> dma_channel" where
  "advance c = c\<lparr>ch_s := ch_s c + SRCinc c, ch_d := ch_d c + DESTinc c, TransferCount := TransferCount c - 1\<rparr>"

definition byte_mover :: "int \<Rightarrow> nat \<Rightarrow> 'z cc2530_scheme \<Rightarrow> bool" where
  "byte_mover i n s \<longleftrightarrow> (let c = tabDMACh s i in
     mem_ok s \<and> (\<forall>j. ops s (Cell Sram j) = []) \<and> DmaChState c = TransferOneByteOrWord
     \<and> Byte_Word_tx c = 0 \<and> SRCinc c = 1 \<and> DESTinc c = 1 \<and> (\<not> single c \<or> triggered c)
     \<and> TransferCount c = int n \<and> 0 \<le> ch_s c \<and> ch_s c + int n \<le> 0x1F00
     \<and> 0 \<le> ch_d c \<and> ch_d c + int n \<le> 0x1F00
     \<and> (ch_s c + int n \<le> ch_d c \<or> ch_d c + int n \<le> ch_s c))"

lemma transfer_step:
  assumes "byte_mover i (Suc n) s" "c = tabDMACh s i" "v = cell_get (Cell Sram (ch_s c)) s"
  shows "StateTrans hw i s = Some ((), after_transfer i (upd_ch i advance (poke (Cell Sram (ch_d c)) v s)))"
proof -
  have p: "mem_ok s" "DmaChState c = TransferOneByteOrWord" "Byte_Word_tx c = 0"
    "0 \<le> ch_s c" "ch_s c < 0x1F00" "0 \<le> ch_d c" "ch_d c < 0x1F00" "\<And>j. ops s (Cell Sram j) = []"
    using assms(1,2) by (simp_all add: byte_mover_def Let_def)
  have "byte v" using p(1) assms(3) by simp
  then have "v mod 256 = v" by (simp add: byte_def)
  moreover have "advance = (\<lambda>c. c\<lparr>ch_s := ch_s c + SRCinc c, ch_d := ch_d c + DESTinc c,
      TransferCount := TransferCount c - 1\<rparr>)"
    by (rule ext) (simp add: advance_def)
  ultimately have "transfer hw i s = Some ((), upd_ch i advance (poke (Cell Sram (ch_d c)) v s))"
    using p assms(2,3) by (simp add: transfer_def sram_read_plain sram_write_plain Let_def)
  then show ?thesis using p(2) assms(2) by (simp add: StateTrans_def)
qed

lemma after_transfer_more:
  assumes "0 < TransferCount (tabDMACh s i)" "\<not> single (tabDMACh s i) \<or> triggered (tabDMACh s i)"
  shows "after_transfer i s = s"
  using assms by (auto simp: after_transfer_def Let_def)

definition transfer_done :: "int \<Rightarrow> 'z cc2530_scheme \<Rightarrow> 'z cc2530_scheme \<Rightarrow> bool" where
  "transfer_done i s t \<longleftrightarrow>
     DmaChState (tabDMACh t i)
       = (if repeated (tabDMACh s i) then LoadDMAChannelConfig else DisarmChannel)
     \<and> cell_get cell_dmairq t = cell_get cell_dmairq s OR 2 ^ nat i
     \<and> (ITmask (tabDMACh s i) \<longrightarrow> cell_get cell_ircon t = cell_get cell_ircon s OR bmDMAIF)
     \<and> (\<forall>x. x \<noteq> cell_dmairq \<and> x \<noteq> cell_ircon \<longrightarrow> cell_get x t = cell_get x s)"

lemma after_transfer_last:
  assumes "mem_ok s" "TransferCount (tabDMACh s i) \<le> 0" "0 \<le> i" "i < 5"
  shows "transfer_done i s (after_transfer i s)"
proof -
  have "nat i \<le> 4" using assms(4) by simp
  then have b: "(2 :: int) ^ nat i \<le> 2 ^ 4" by (intro power_increasing) simp_all
  then have "byte (2 ^ nat i)" by (simp add: byte_def)
  then have "2 ^ nat i mod 256 = (2 :: int) ^ nat i" "byte (cell_get cell_dmairq s OR 2 ^ nat i)"
    using assms(1) b by (simp_all add: byte_or)
  then show ?thesis using assms
    by (auto simp: transfer_done_def after_transfer_def Let_def set_bits_poke)
qed

text \<open>
  A channel that enters its transfer state with byte mode, both increments 1 and n > 0 bytes to go,
  and that is in a block mode or has a latched trigger, copies the block within n steps. A
  single-transfer channel with a trigger latched does not wait in between.
\<close>

lemma block_moved:
  assumes "byte_mover i n s" "0 < n" "0 \<le> i" "i < 5"
  shows "\<exists>t. repeat_step n (StateTrans hw i) s = Some ((), t)
     \<and> (\<forall>k. 0 \<le> k \<and> k < int n \<longrightarrow>
          cell_get (Cell Sram (ch_d (tabDMACh s i) + k)) t = cell_get (Cell Sram (ch_s (tabDMACh s i) + k)) s)
     \<and> DmaChState (tabDMACh t i)
          = (if repeated (tabDMACh s i) then LoadDMAChannelConfig else DisarmChannel)
     \<and> cell_get cell_dmairq t = cell_get cell_dmairq s OR 2 ^ nat i
     \<and> (\<forall>x. x \<notin> {cell_dmairq, cell_ircon}
          \<and> (\<forall>k. 0 \<le> k \<and> k < int n \<longrightarrow> x \<noteq> Cell Sram (ch_d (tabDMACh s i) + k)) \<longrightarrow> cell_get x t = cell_get x s)"
  using assms(1,2)
proof (induction n arbitrary: s)
  case (Suc n)
  define c where "c = tabDMACh s i"
  define v where "v = cell_get (Cell Sram (ch_s c)) s"
  define u where "u = upd_ch i advance (poke (Cell Sram (ch_d c)) v s)"
  have st: "StateTrans hw i s = Some ((), after_transfer i u)"
    using transfer_step [OF Suc.prems(1) c_def v_def] by (simp only: u_def)
  have p: "mem_ok s" "\<And>j. ops s (Cell Sram j) = []" "DmaChState c = TransferOneByteOrWord"
    "Byte_Word_tx c = 0" "SRCinc c = 1" "DESTinc c = 1" "\<not> single c \<or> triggered c"
    "TransferCount c = int (Suc n)" "0 \<le> ch_s c" "ch_s c + int (Suc n) \<le> 0x1F00" "0 \<le> ch_d c"
    "ch_d c + int (Suc n) \<le> 0x1F00" "ch_s c + int (Suc n) \<le> ch_d c \<or> ch_d c + int (Suc n) \<le> ch_s c"
    using Suc.prems(1) unfolding byte_mover_def Let_def c_def [symmetric] by blast+
  have v: "byte v" using p(1) by (simp add: v_def)
  have u: "tabDMACh u i = advance c" "mem_ok u" "\<And>j. ops u (Cell Sram j) = []"
    "\<And>x. cell_get x u = (if x = Cell Sram (ch_d c) then v else cell_get x s)"
    using p(1,2) v by (simp_all add: u_def c_def)
  have k0: "(\<forall>k. 0 \<le> k \<and> k < int (Suc n) \<longrightarrow> P k) \<longleftrightarrow> P 0 \<and> (\<forall>k. 0 \<le> k \<and> k < int n \<longrightarrow> P (1 + k))" for P
  proof -
    have "\<exists>j. 0 \<le> j \<and> j < int n \<and> k = 1 + j" if "0 \<le> k" "k < int (Suc n)" "k \<noteq> 0" for k
      using that by (intro exI [of _ "k - 1"]) simp
    then show ?thesis by (auto; fastforce)
  qed
  show ?case
  proof (cases n)
    case 0
    then have "TransferCount (tabDMACh u i) \<le> 0" using u(1) p(8) by (simp add: advance_def)
    from after_transfer_last [OF u(2) this assms(3,4)]
    have d: "transfer_done i u (after_transfer i u)" .
    then show ?thesis using st u 0 unfolding k0 c_def [symmetric]
      by (auto simp: transfer_done_def advance_def v_def)
  next
    case (Suc m)
    have "after_transfer i u = u"
      by (rule after_transfer_more) (use u(1) p(7,8) Suc in \<open>simp_all add: advance_def\<close>)
    moreover have bm: "byte_mover i n u" unfolding byte_mover_def Let_def u(1)
      using p u(2,3) Suc by (auto simp: advance_def)
    ultimately obtain t where t: "repeat_step n (StateTrans hw i) u = Some ((), t)"
      "\<forall>k. 0 \<le> k \<and> k < int n \<longrightarrow> cell_get (Cell Sram (ch_d (tabDMACh u i) + k)) t
         = cell_get (Cell Sram (ch_s (tabDMACh u i) + k)) u"
      "DmaChState (tabDMACh t i) = (if repeated (tabDMACh u i) then LoadDMAChannelConfig else DisarmChannel)"
      "cell_get cell_dmairq t = cell_get cell_dmairq u OR 2 ^ nat i"
      "\<forall>x. x \<notin> {cell_dmairq, cell_ircon} \<and> (\<forall>k. 0 \<le> k \<and> k < int n \<longrightarrow> x \<noteq> Cell Sram (ch_d (tabDMACh u i) + k))
         \<longrightarrow> cell_get x t = cell_get x u"
      using Suc.IH [OF bm] Suc by auto
    have a: "ch_d (tabDMACh u i) = ch_d c + 1" "ch_s (tabDMACh u i) = ch_s c + 1"
      "repeated (tabDMACh u i) = repeated c"
      using u(1) p(5,6) by (simp_all add: advance_def)
    have r: "repeat_step (Suc n) (StateTrans hw i) s = Some ((), t)"
      using st t(1) \<open>after_transfer i u = u\<close> by simp
    have "cell_get (Cell Sram (ch_d c)) t = v"
      using t(5) [rule_format, of "Cell Sram (ch_d c)"] u(4) a(1) by simp
    moreover have "\<forall>k. 0 \<le> k \<and> k < int n \<longrightarrow> cell_get (Cell Sram (ch_d c + (1 + k))) t
        = cell_get (Cell Sram (ch_s c + (1 + k))) s"
      using t(2) u(4) p(13) unfolding a by (auto simp: add.assoc)
    ultimately show ?thesis
      using r t(3-5) u(4) a unfolding k0 c_def [symmetric]
      by (intro exI [of _ t]) (auto simp: v_def add.assoc)
  qed
qed simp

subsection \<open>Loading a channel from its description\<close>


lemma mask_shapes:
  "(0xE0 :: int) = push_bit 5 (mask 3)"
  "(0x80 :: int) = push_bit 7 (mask 1)"
  "(0x60 :: int) = push_bit 5 (mask 2)"
  "(0xC0 :: int) = push_bit 6 (mask 2)"
  "(0x30 :: int) = push_bit 4 (mask 2)"
  "(0x08 :: int) = push_bit 3 (mask 1)"
  "(0x04 :: int) = push_bit 2 (mask 1)"
  "(0x1F :: int) = push_bit 0 (mask 5)"
  "(0x03 :: int) = push_bit 0 (mask 2)"
  by (simp_all add: push_bit_eq_mult mask_eq_exp_minus_1)

lemma field_masks:
  "((x::int) AND 0xE0) div 32 = x div 32 mod 8"
  "((x::int) AND 0x80) div 128 = x div 128 mod 2"
  "((x::int) AND 0x60) div 32 = x div 32 mod 4"
  "((x::int) AND 0xC0) div 64 = x div 64 mod 4"
  "((x::int) AND 0x30) div 16 = x div 16 mod 4"
  "((x::int) AND 0x08) div 8 = x div 8 mod 2"
  "((x::int) AND 0x04) div 4 = x div 4 mod 2"
  "x AND 0x1F = x mod 32" "x AND 0x03 = x mod 4"
proof -
  show "((x::int) AND 0xE0) div 32 = x div 32 mod 8"
    using field_mask [of x 5 3] unfolding mask_shapes [symmetric] by simp
  show "((x::int) AND 0x80) div 128 = x div 128 mod 2"
    using field_mask [of x 7 1] unfolding mask_shapes [symmetric] by simp
  show "((x::int) AND 0x60) div 32 = x div 32 mod 4"
    using field_mask [of x 5 2] unfolding mask_shapes [symmetric] by simp
  show "((x::int) AND 0xC0) div 64 = x div 64 mod 4"
    using field_mask [of x 6 2] unfolding mask_shapes [symmetric] by simp
  show "((x::int) AND 0x30) div 16 = x div 16 mod 4"
    using field_mask [of x 4 2] unfolding mask_shapes [symmetric] by simp
  show "((x::int) AND 0x08) div 8 = x div 8 mod 2"
    using field_mask [of x 3 1] unfolding mask_shapes [symmetric] by simp
  show "((x::int) AND 0x04) div 4 = x div 4 mod 2"
    using field_mask [of x 2 1] unfolding mask_shapes [symmetric] by simp
  show "x AND 0x1F = x mod 32" using field_mask [of x 0 5] unfolding mask_shapes [symmetric] by simp
  show "x AND 0x03 = x mod 4" using field_mask [of x 0 2] unfolding mask_shapes [symmetric] by simp
qed

text \<open>The layout of a channel description in memory.\<close>

definition descriptor :: "dma_channel \<Rightarrow> int list" where
  "descriptor c = [source c div 256, source c mod 256, destination c div 256, destination c mod 256,
     VLEN c * 32 + LEN c div 256, LEN c mod 256,
     Byte_Word_tx c * 128 + TxMode c * 32 + TriggerEvent c,
     SRCincrement c * 64 + DESTincrement c * 16 + (if ITmask c then 8 else 0) + M8 c * 4 + Priority c]"

definition fields_ok :: "dma_channel \<Rightarrow> bool" where
  "fields_ok c \<longleftrightarrow> 0 \<le> source c \<and> source c < 0x10000 \<and> 0 \<le> destination c \<and> destination c < 0x10000
     \<and> 0 \<le> VLEN c \<and> VLEN c < 8 \<and> 0 \<le> LEN c \<and> LEN c < 0x2000 \<and> Byte_Word_tx c \<in> {0, 1}
     \<and> 0 \<le> TxMode c \<and> TxMode c < 4 \<and> 0 \<le> TriggerEvent c \<and> TriggerEvent c < 32
     \<and> 0 \<le> SRCincrement c \<and> SRCincrement c < 4 \<and> 0 \<le> DESTincrement c \<and> DESTincrement c < 4
     \<and> M8 c \<in> {0, 1} \<and> 0 \<le> Priority c \<and> Priority c < 4"

lemma digits: "0 \<le> q \<Longrightarrow> q < n \<Longrightarrow> (n * m + q) div n = m \<and> (n * m + (q::int)) mod n = q"
  by simp

lemma b6:
  assumes "0 \<le> q" "q < 32" "0 \<le> m" "m < 4" "w \<in> {0, 1 :: int}"
  shows "(w * 128 + m * 32 + q) div 128 mod 2 = w" "(w * 128 + m * 32 + q) div 32 mod 4 = m"
    "(w * 128 + m * 32 + q) mod 32 = q"
proof -
  have e: "w * 128 + m * 32 + q = 32 * (4 * w + m) + q" by simp
  have d: "x div 128 = x div 32 div 4" for x :: int by (simp add: zdiv_zmult2_eq [symmetric])
  show "(w * 128 + m * 32 + q) div 128 mod 2 = w" "(w * 128 + m * 32 + q) div 32 mod 4 = m"
    "(w * 128 + m * 32 + q) mod 32 = q"
    unfolding e d using digits [OF assms(1,2), of "4 * w + m"] digits [OF assms(3,4), of w] assms(5) by auto
qed

lemma b7:
  assumes "0 \<le> a" "a < 4" "0 \<le> b" "b < 4" "i \<in> {0, 1 :: int}" "m \<in> {0, 1 :: int}" "0 \<le> p" "p < 4"
    "x = a * 64 + b * 16 + i * 8 + m * 4 + p"
  shows "x div 64 mod 4 = a" "x div 16 mod 4 = b" "x div 8 mod 2 = i" "x div 4 mod 2 = m" "x mod 4 = p"
proof -
  have e: "x = 4 * (2 * (2 * (4 * a + b) + i) + m) + p" using assms(9) by simp
  have im: "0 \<le> i" "i < 2" "0 \<le> m" "m < 2" using assms(5,6) by auto
  have q: "x div 4 = 2 * (2 * (4 * a + b) + i) + m" "x mod 4 = p"
    unfolding e using digits [OF assms(7,8)] by blast+
  have r: "x div 4 div 2 = 2 * (4 * a + b) + i" "x div 4 mod 2 = m"
    unfolding q using digits [OF im(3,4)] by blast+
  have t: "x div 4 div 2 div 2 = 4 * a + b" "x div 4 div 2 mod 2 = i"
    unfolding r using digits [OF im(1,2)] by blast+
  have u: "x div 4 div 2 div 2 div 4 = a" "x div 4 div 2 div 2 mod 4 = b"
    unfolding t using digits [OF assms(3,4)] by blast+
  have d: "x div 8 = x div 4 div 2" "x div 16 = x div 4 div 2 div 2" "x div 64 = x div 4 div 2 div 2 div 4"
    by (simp_all add: zdiv_zmult2_eq [symmetric])
  show "x div 64 mod 4 = a" unfolding d u(1) using assms(1,2) by simp
  show "x div 16 mod 4 = b" unfolding d by (rule u(2))
  show "x div 8 mod 2 = i" unfolding d by (rule t(2))
  show "x div 4 mod 2 = m" by (rule r(2))
  show "x mod 4 = p" by (rule q(2))
qed

definition table_at :: "t_addr \<Rightarrow> int list \<Rightarrow> 'z cc2530_scheme \<Rightarrow> bool" where
  "table_at a bs s \<longleftrightarrow> 0 \<le> a \<and> a + int (length bs) \<le> 0x1F00
     \<and> (\<forall>k < length bs. cell_get (Cell Sram (a + int k)) s = bs ! k)"

lemma table_read:
  assumes "table_at a bs s" "k < length bs" "\<And>j. ops t (Cell Sram j) = []"
    "\<And>x. cell_get x t = cell_get x s"
  shows "as_read hw Xram (a + int k) t = Some (bs ! k, t)"
  using assms by (subst sram_read_plain) (simp_all add: table_at_def)

lemma upd_ch_twice: "upd_ch i f (upd_ch i g s) = upd_ch i (f \<circ> g) s"
  by (simp add: upd_ch_def)

abbreviation "aimed \<equiv> (\<lambda>c. c\<lparr>ch_s := source c, ch_d := destination c, ch_delta := dma_delta (VLEN c)\<rparr>)"

definition started :: "int \<Rightarrow> dma_channel \<Rightarrow> dma_channel" where
  "started v c = c\<lparr>ch_s := source c, ch_d := destination c, ch_delta := dma_delta (VLEN c),
     TransferCount := (if VLEN c = 0 \<or> VLEN c = 7 then LEN c else min (LEN c) (v + dma_delta (VLEN c))),
     SRCinc := dma_inc (SRCincrement c), DESTinc := dma_inc (DESTincrement c),
     single := (TxMode c AND 1 = 0), repeated := (TxMode c AND 2 = 2), ch_init := True\<rparr>"

lemma start_transfer_plain:
  assumes "c = tabDMACh s i" "0 \<le> VLEN c" "VLEN c < 8" "u = upd_ch i aimed s"
    "as_read hw Xram (source c) u = Some (v, u)"
  shows "start_transfer hw i s = Some ((), upd_ch i (started v) s)"
proof -
  have t: "tabDMACh u i = aimed c" by (simp add: assms(4,1))
  have "upd_ch i (\<lambda>c. c\<lparr>TransferCount := n, SRCinc := dma_inc (SRCincrement c),
       DESTinc := dma_inc (DESTincrement c), single := (TxMode c AND 1 = 0),
       repeated := (TxMode c AND 2 = 2), ch_init := True\<rparr>) u = upd_ch i (started v) s"
    if "n = TransferCount (started v c)" for n
    unfolding assms(4) using that by (simp add: upd_ch_def started_def assms(1))
  moreover have "VLEN c = 0 \<or> VLEN c = 7 \<or> VLEN c \<in> {1, 2, 3, 4} \<or> VLEN c \<in> {5, 6}"
    using assms(2,3) by simp presburger
  ultimately show ?thesis
    unfolding start_transfer_def Let_def assms(4) [symmetric] t
    by (elim disjE insertE emptyE; simp add: assms(5) started_def dma_delta_def)
qed

definition parsed :: "int list \<Rightarrow> dma_channel \<Rightarrow> dma_channel" where
  "parsed b c = c\<lparr>ConfigAddress := 0, ch_s := 0, ch_d := 0, armed := False, single := False,
     repeated := False, triggered := False, TransferCount := 0, ch_delta := 0, SRCinc := 0,
     DESTinc := 0, DmaChState := DMAChannelIdle, source := b ! 0 * 256 + b ! 1,
     destination := b ! 2 * 256 + b ! 3, VLEN := b ! 4 div 32 mod 8,
     LEN := b ! 4 mod 32 * 256 + b ! 5, Byte_Word_tx := b ! 6 div 128 mod 2,
     TxMode := b ! 6 div 32 mod 4, TriggerEvent := b ! 6 mod 32, SRCincrement := b ! 7 div 64 mod 4,
     DESTincrement := b ! 7 div 16 mod 4, ITmask := (b ! 7 div 8 mod 2 \<noteq> 0),
     M8 := b ! 7 div 4 mod 2, Priority := b ! 7 mod 4\<rparr>"

lemma LoadConfig_reads:
  fixes s :: "'z cc2530_scheme"
  assumes "table_at a bs s" "length bs = 8" "\<And>j. ops s (Cell Sram j) = []"
  shows "LoadConfig hw i a s = (if ObjInit s then Some ((), upd_ch i (parsed bs) s)
     else start_transfer hw i (upd_ch i (parsed bs) s))"
proof -
  define keeps :: "'z cc2530_scheme \<Rightarrow> bool" where
    "keeps = (\<lambda>t. ops t = ops s \<and> (\<forall>x. cell_get x t = cell_get x s))"
  have k: "keeps s" "\<And>f t. keeps t \<Longrightarrow> keeps (upd_ch i f t)" by (simp_all add: keeps_def)
  have r: "as_read hw Xram (a + int m) t = Some (bs ! m, t)" if "keeps t" "m < 8" for m t
    using table_read [OF assms(1), of m t] that assms(2,3) by (simp add: keeps_def)
  have rd: "as_read hw Xram a t = Some (bs ! 0, t)" "as_read hw Xram (a + 1) t = Some (bs ! 1, t)"
    "as_read hw Xram (a + 2) t = Some (bs ! 2, t)" "as_read hw Xram (a + 3) t = Some (bs ! 3, t)"
    "as_read hw Xram (a + 4) t = Some (bs ! 4, t)" "as_read hw Xram (a + 5) t = Some (bs ! 5, t)"
    "as_read hw Xram (a + 6) t = Some (bs ! 6, t)" "as_read hw Xram (a + 7) t = Some (bs ! 7, t)"
    if "keeps t" for t
    using r [OF that, of 0] r [OF that, of 1] r [OF that, of 2] r [OF that, of 3] r [OF that, of 4]
      r [OF that, of 5] r [OF that, of 6] r [OF that, of 7] by simp_all
  have o: "ObjInit (upd_ch i f t) = ObjInit t" for f and t :: "'z cc2530_scheme" by (simp add: upd_ch_def)
  show ?thesis
    unfolding LoadConfig_def channel_init_def Let_def
    by (simp add: rd k o upd_ch_twice comp_def field_masks) (simp add: parsed_def [abs_def] cong: if_cong)
qed

definition loaded_channel :: "int \<Rightarrow> dma_channel \<Rightarrow> dma_channel" where
  "loaded_channel v c = c\<lparr>DmaChState := DMAChannelIdle, ConfigAddress := 0, armed := False,
     ch_init := True, triggered := False, ch_s := source c, ch_d := destination c,
     ch_delta := dma_delta (VLEN c),
     TransferCount := (if VLEN c = 0 \<or> VLEN c = 7 then LEN c else min (LEN c) (v + dma_delta (VLEN c))),
     SRCinc := dma_inc (SRCincrement c), DESTinc := dma_inc (DESTincrement c),
     single := even (TxMode c), repeated := (2 \<le> TxMode c)\<rparr>"

lemma parsed_descriptor:
  assumes "fields_ok c"
  shows "source (parsed (descriptor c) o') = source c" "VLEN (parsed (descriptor c) o') = VLEN c"
    "started v (parsed (descriptor c) o') = loaded_channel v c"
proof -
  have l: "(VLEN c * 32 + LEN c div 256) div 32 mod 8 = VLEN c"
    "(VLEN c * 32 + LEN c div 256) mod 32 * 256 + LEN c mod 256 = LEN c"
  proof -
    have "0 \<le> LEN c" "LEN c < 8192" using assms by (simp_all add: fields_ok_def)
    then have h: "0 \<le> LEN c div 256" "LEN c div 256 < 32"
      by (simp_all add: div_less_iff_less_mult pos_imp_zdiv_nonneg_iff)
    show "(VLEN c * 32 + LEN c div 256) div 32 mod 8 = VLEN c"
      using digits [OF h, of "VLEN c"] assms by (simp add: mult.commute fields_ok_def)
    show "(VLEN c * 32 + LEN c div 256) mod 32 * 256 + LEN c mod 256 = LEN c"
      using digits [OF h, of "VLEN c"] by (simp add: mult.commute)
  qed
  have f: "(Byte_Word_tx c * 128 + TxMode c * 32 + TriggerEvent c) div 128 mod 2 = Byte_Word_tx c"
    "(Byte_Word_tx c * 128 + TxMode c * 32 + TriggerEvent c) div 32 mod 4 = TxMode c"
    "(Byte_Word_tx c * 128 + TxMode c * 32 + TriggerEvent c) mod 32 = TriggerEvent c"
    using assms by (intro b6; simp add: fields_ok_def)+
  define x where "x = SRCincrement c * 64 + DESTincrement c * 16 + (if ITmask c then 8 else 0) + M8 c * 4 + Priority c"
  have x: "x = SRCincrement c * 64 + DESTincrement c * 16 + (if ITmask c then 1 else 0) * 8 + M8 c * 4 + Priority c"
    by (simp add: x_def)
  have g: "x div 64 mod 4 = SRCincrement c" "x div 16 mod 4 = DESTincrement c"
    "x div 8 mod 2 = (if ITmask c then 1 else 0)" "x div 4 mod 2 = M8 c" "x mod 4 = Priority c"
    using assms b7 [OF _ _ _ _ _ _ _ _ x] by (simp_all add: fields_ok_def)
  have n: "descriptor c ! 0 = source c div 256" "descriptor c ! 1 = source c mod 256"
    "descriptor c ! 2 = destination c div 256" "descriptor c ! 3 = destination c mod 256"
    "descriptor c ! 4 = VLEN c * 32 + LEN c div 256" "descriptor c ! 5 = LEN c mod 256"
    "descriptor c ! 6 = Byte_Word_tx c * 128 + TxMode c * 32 + TriggerEvent c" "descriptor c ! 7 = x"
    by (simp_all add: descriptor_def x_def)
  have w: "y div 256 * 256 + y mod 256 = y" for y :: int by simp
  have p: "parsed (descriptor c) o' = c\<lparr>ConfigAddress := 0, ch_s := 0, ch_d := 0, armed := False,
     ch_init := ch_init o', single := False, repeated := False, triggered := False, TransferCount := 0,
     ch_delta := 0, SRCinc := 0, DESTinc := 0, DmaChState := DMAChannelIdle\<rparr>"
    unfolding parsed_def n l f g w by (cases c; cases o') simp
  have "TxMode c \<in> {0, 1, 2, 3}" using assms by (auto simp: fields_ok_def)
  then have m: "(TxMode c AND 1 = 0) = even (TxMode c)" "(TxMode c AND 2 = 2) = (2 \<le> TxMode c)"
    by auto
  show "source (parsed (descriptor c) o') = source c" "VLEN (parsed (descriptor c) o') = VLEN c"
    by (simp_all add: p)
  show "started v (parsed (descriptor c) o') = loaded_channel v c"
    unfolding p started_def loaded_channel_def by (simp add: m)
qed

lemma load_descriptor:
  fixes s :: "'z cc2530_scheme"
  assumes "fields_ok c" "table_at a (descriptor c) s" "\<And>j. ops s (Cell Sram j) = []" "\<not> ObjInit s"
    "source c < 0x1F00"
  shows "LoadConfig hw i a s
    = Some ((), upd_ch i (\<lambda>_. loaded_channel (cell_get (Cell Sram (source c)) s) c) s)"
proof -
  define u where "u = upd_ch i (parsed (descriptor c)) s"
  define w where "w = upd_ch i aimed u"
  have pc: "tabDMACh u i = parsed (descriptor c) (tabDMACh s i)" by (simp add: u_def)
  note pd = parsed_descriptor [OF assms(1)]
  have "as_read hw Xram (source c) w = Some (cell_get (Cell Sram (source c)) s, w)"
    using assms(1,3,5) by (subst sram_read_plain) (simp_all add: w_def u_def fields_ok_def)
  then have "start_transfer hw i u = Some ((), upd_ch i (started (cell_get (Cell Sram (source c)) s)) u)"
    using assms(1) by (intro start_transfer_plain [OF pc [symmetric] _ _ w_def]) (simp_all add: pd fields_ok_def)
  moreover have "upd_ch i (started v) u = upd_ch i (\<lambda>_. loaded_channel v c) s" for v
    by (simp add: u_def upd_ch_def pd)
  moreover have "length (descriptor c) = 8" by (simp add: descriptor_def)
  ultimately show ?thesis using LoadConfig_reads [OF assms(2) _ assms(3)] assms(4) by (simp add: u_def)
qed

text \<open>
  C7 A channel description written to memory in the documented layout, with every
  field in the width the layout gives it, is read back by LoadConfig field by field: addresses, length,
  modes, trigger, increments, mask and priority. The counters of the transfer are derived from it and
  stay in their ranges: at most LEN bytes, increments between -1 and 2.
\<close>

theorem load_config_roundtrip:
  assumes "fields_ok c" "table_at a (descriptor c) s" "\<And>j. ops s (Cell Sram j) = []" "\<not> ObjInit s"
    "source c < 0x1F00" "mem_ok s"
  shows "\<exists>d. LoadConfig hw i a s = Some ((), upd_ch i (\<lambda>_. d) s) \<and> descriptor d = descriptor c
     \<and> fields_ok d \<and> ch_s d = source c \<and> ch_d d = destination c
     \<and> 0 \<le> TransferCount d \<and> TransferCount d \<le> LEN c
     \<and> SRCinc d \<in> {-1, 0, 1, 2} \<and> DESTinc d \<in> {-1, 0, 1, 2}
     \<and> (single d \<longleftrightarrow> TxMode c = 0 \<or> TxMode c = 2) \<and> (repeated d \<longleftrightarrow> TxMode c = 2 \<or> TxMode c = 3)"
proof -
  define d where "d = loaded_channel (cell_get (Cell Sram (source c)) s) c"
  have b: "0 \<le> cell_get (Cell Sram (source c)) s" using assms(6) by (simp add: byteD)
  have l: "0 \<le> dma_delta v" for v by (simp add: dma_delta_def)
  have m: "TxMode c \<in> {0, 1, 2, 3}" "0 \<le> LEN c" using assms(1) by (auto simp: fields_ok_def)
  have "descriptor d = descriptor c" "fields_ok d"
    using assms(1) by (simp_all add: d_def loaded_channel_def descriptor_def fields_ok_def)
  moreover have "0 \<le> TransferCount d" "TransferCount d \<le> LEN c"
    using b l [of "VLEN c"] m(2) by (simp_all add: d_def loaded_channel_def)
  moreover have "single d \<longleftrightarrow> TxMode c = 0 \<or> TxMode c = 2" "repeated d \<longleftrightarrow> TxMode c = 2 \<or> TxMode c = 3"
    using m(1) by (auto simp: d_def loaded_channel_def)
  moreover have "LoadConfig hw i a s = Some ((), upd_ch i (\<lambda>_. d) s)"
    unfolding d_def by (rule load_descriptor [OF assms(1-5)])
  ultimately show ?thesis
    by (intro exI [of _ d]) (simp add: d_def loaded_channel_def dma_inc_def)
qed

subsection \<open>From arming to the interrupt\<close>

lemma repeat_step_add:
  "repeat_step (m + n) f s = Option.bind (repeat_step m f s) (\<lambda>(_, s). repeat_step n f s)"
  by (induction m arbitrary: s) (auto split: bind_splits)

lemma request_one:
  assumes "0 \<le> i" "i < 5"
  shows "dma_write cell_dmareq (2 ^ nat i) s = Some (2 ^ nat i, upd_ch i (\<lambda>c. c\<lparr>triggered := True\<rparr>) s)"
proof -
  have "i \<in> {0, 1, 2, 3, 4}" using assms by auto
  then show ?thesis by (elim insertE emptyE; simp add: dma_write_def)
qed

text \<open>
  C6 From the description to the copy: an armed idle channel whose configuration address
  holds the description of a block of n bytes loads it and waits armed; the software request in DMAREQ
  triggers it, and n + 2 further steps copy the block, raise the flag of the channel in DMAIRQ and
  leave the channel idle and disarmed. No other cell of any space changes, IRCON apart.
\<close>

theorem dma_block_copy:
  assumes "mem_ok s" "\<And>j. ops s (Cell Sram j) = []" "\<not> ObjInit s" "0 \<le> i" "i < 5"
    "DmaChState (tabDMACh s i) = DMAChannelIdle" "armed (tabDMACh s i)"
    "fields_ok c" "table_at (ConfigAddress (tabDMACh s i)) (descriptor c) s"
    "VLEN c = 0" "LEN c = int n" "0 < n" "Byte_Word_tx c = 0" "TxMode c = 1"
    "SRCincrement c = 1" "DESTincrement c = 1" "source c + int n \<le> 0x1F00"
    "destination c + int n \<le> 0x1F00"
    "source c + int n \<le> destination c \<or> destination c + int n \<le> source c"
  shows "\<exists>t w v u. repeat_step 2 (StateTrans hw i) s = Some ((), t)
     \<and> DmaChState (tabDMACh t i) = DMAChannelArmed
     \<and> dma_write cell_dmareq (2 ^ nat i) t = Some (v, w)
     \<and> repeat_step (n + 2) (StateTrans hw i) w = Some ((), u)
     \<and> (\<forall>k. 0 \<le> k \<and> k < int n \<longrightarrow>
          cell_get (Cell Sram (destination c + k)) u = cell_get (Cell Sram (source c + k)) s)
     \<and> DmaChState (tabDMACh u i) = DMAChannelIdle \<and> \<not> armed (tabDMACh u i)
     \<and> cell_get cell_dmairq u = cell_get cell_dmairq s OR 2 ^ nat i
     \<and> (\<forall>x. x \<notin> {cell_dmairq, cell_ircon}
          \<and> (\<forall>k. 0 \<le> k \<and> k < int n \<longrightarrow> x \<noteq> Cell Sram (destination c + k)) \<longrightarrow> cell_get x u = cell_get x s)"
proof -
  define d where "d = loaded_channel (cell_get (Cell Sram (source c)) s) c"
  have d: "source d = source c" "ch_s d = source c" "ch_d d = destination c" "SRCinc d = 1" "DESTinc d = 1"
    "\<not> single d" "\<not> repeated d" "Byte_Word_tx d = 0" "TransferCount d = int n"
    using assms(10-16) by (simp_all add: d_def loaded_channel_def dma_inc_def)
  define s1 where "s1 = upd_ch i (\<lambda>c. c\<lparr>DmaChState := LoadDMAChannelConfig\<rparr>) s"
  define t where "t = upd_ch i (\<lambda>c. d\<lparr>DmaChState := DMAChannelArmed\<rparr>) s"
  define w where "w = upd_ch i (\<lambda>c. c\<lparr>triggered := True\<rparr>) t"
  define m where "m = upd_ch i (\<lambda>c. c\<lparr>triggered := False, DmaChState := TransferOneByteOrWord\<rparr>) w"
  have s1: "StateTrans hw i s = Some ((), s1)" using assms(6,7) by (simp add: StateTrans_def s1_def)
  have "table_at (ConfigAddress (tabDMACh s i)) (descriptor c) s1" "\<not> ObjInit s1"
    using assms(3,9) by (simp_all add: table_at_def s1_def upd_ch_def cell_get_def)
  then have "LoadConfig hw i (ConfigAddress (tabDMACh s i)) s1 = Some ((), upd_ch i (\<lambda>_. d) s1)"
    using load_descriptor [OF assms(8), of _ s1 hw i] assms(2,11,12,17) by (simp add: s1_def d_def)
  then have "StateTrans hw i s1 = Some ((), t)"
    by (simp add: StateTrans_def s1_def t_def upd_ch_twice comp_def)
  then have r1: "repeat_step 2 (StateTrans hw i) s = Some ((), t)" using s1 by (simp add: numeral_2_eq_2)
  have r2: "dma_write cell_dmareq (2 ^ nat i) t = Some (2 ^ nat i, w)"
    unfolding w_def by (rule request_one [OF assms(4,5)])
  have r3: "StateTrans hw i w = Some ((), m)" by (simp add: StateTrans_def m_def w_def t_def)
  have mm: "tabDMACh m i = d\<lparr>triggered := False, DmaChState := TransferOneByteOrWord\<rparr>"
    "mem_ok m" "ops m = ops s" "\<And>x. cell_get x m = cell_get x s"
    using assms(1) by (simp_all add: m_def w_def t_def)
  have bm: "byte_mover i n m"
    using mm assms(2,8,17-19) d by (simp add: byte_mover_def fields_ok_def)
  obtain u where u: "repeat_step n (StateTrans hw i) m = Some ((), u)"
    "\<forall>k. 0 \<le> k \<and> k < int n \<longrightarrow>
        cell_get (Cell Sram (ch_d (tabDMACh m i) + k)) u = cell_get (Cell Sram (ch_s (tabDMACh m i) + k)) m"
    "DmaChState (tabDMACh u i) = DisarmChannel"
    "cell_get cell_dmairq u = cell_get cell_dmairq m OR 2 ^ nat i"
    "\<forall>x. x \<notin> {cell_dmairq, cell_ircon}
        \<and> (\<forall>k. 0 \<le> k \<and> k < int n \<longrightarrow> x \<noteq> Cell Sram (ch_d (tabDMACh m i) + k)) \<longrightarrow> cell_get x u = cell_get x m"
    using block_moved [OF bm assms(12,4,5), of hw] mm(1) d(7) by auto
  define z where "z = upd_ch i (\<lambda>c. c\<lparr>armed := False, DmaChState := DMAChannelIdle\<rparr>) u"
  have "StateTrans hw i u = Some ((), z)" using u(3) by (simp add: StateTrans_def z_def)
  then have "repeat_step (n + 2) (StateTrans hw i) w = Some ((), z)"
    using r3 u(1) repeat_step_add [of n 1 "StateTrans hw i" m] by simp
  then show ?thesis using r1 r2 u(2,4,5) mm d(2,3)
    by (intro exI [of _ t] exI [of _ w] exI [of _ "2 ^ nat i"] exI [of _ z]) (simp add: z_def t_def)
qed

text \<open>A channel that is to copy the three bytes at 0x100 to 0x200, described at 0x80.\<close>

definition copy_channel :: dma_channel where
  "copy_channel = idle_channel\<lparr>source := 0x100, destination := 0x200, LEN := 3, TxMode := 1,
     SRCincrement := 1, DESTincrement := 1, TriggerEvent := 0\<rparr>"

definition dma_demo :: cc2530 where
  "dma_demo = upd_ch 1 (\<lambda>c. c\<lparr>armed := True, ConfigAddress := 0x80\<rparr>)
     (boot2530 (\<lambda>c. case c of Cell a j \<Rightarrow>
        if a = Sram \<and> 0x80 \<le> j \<and> j < 0x88 then descriptor copy_channel ! nat (j - 0x80)
        else if a = Sram \<and> 0x100 \<le> j \<and> j < 0x103 then 11 * (j - 0xFF) else 0 | _ \<Rightarrow> 0))"

lemma copy_channel_fields: "fields_ok copy_channel" "VLEN copy_channel = 0" "LEN copy_channel = 3"
  "Byte_Word_tx copy_channel = 0" "TxMode copy_channel = 1" "SRCincrement copy_channel = 1"
  "DESTincrement copy_channel = 1" "source copy_channel = 0x100" "destination copy_channel = 0x200"
  "descriptor copy_channel = [1, 0, 2, 0, 0, 3, 0x20, 0x50]"
  by (simp_all add: copy_channel_def idle_channel_def fields_ok_def descriptor_def)

lemma less_8: "k < (8::nat) \<Longrightarrow> k \<in> {0, 1, 2, 3, 4, 5, 6, 7}"
  by auto

lemma dma_demo_ok:
  "mem_ok dma_demo" "ops dma_demo (Cell Sram j) = []" "\<not> ObjInit dma_demo"
  "DmaChState (tabDMACh dma_demo 1) = DMAChannelIdle" "armed (tabDMACh dma_demo 1)"
  "ConfigAddress (tabDMACh dma_demo 1) = 0x80" "table_at 0x80 (descriptor copy_channel) dma_demo"
proof -
  have "byte (descriptor copy_channel ! k)" if "k < 8" for k
    using less_8 [OF that] by (auto simp: copy_channel_fields(10) byte_def)
  then show "mem_ok dma_demo" unfolding dma_demo_def upd_ch_simps
    by (intro boot2530_ok) (auto simp: byte_def split: cell.splits)
qed (simp_all add: dma_demo_def boot51_ops idle_channel_def table_at_def copy_channel_fields(10)
    upd_ch_def boot2530_def core51.extend_def cc2530.fields_def cell_get_def boot51_def)

theorem load_config_roundtrip_witness:
  "\<exists>d. LoadConfig base_hw 1 0x80 dma_demo = Some ((), upd_ch 1 (\<lambda>_. d) dma_demo)
     \<and> descriptor d = [1, 0, 2, 0, 0, 3, 0x20, 0x50] \<and> ch_s d = 0x100 \<and> ch_d d = 0x200"
  using load_config_roundtrip [OF copy_channel_fields(1) dma_demo_ok(7,2,3) _ dma_demo_ok(1), of base_hw 1]
  by (auto simp: copy_channel_fields)

theorem dma_block_copy_witness:
  "\<exists>t w u. repeat_step 2 (StateTrans base_hw 1) dma_demo = Some ((), t)
     \<and> dma_write cell_dmareq 2 t = Some (2, w) \<and> repeat_step 5 (StateTrans base_hw 1) w = Some ((), u)
     \<and> cell_get (Cell Sram 0x200) u = 11 \<and> cell_get (Cell Sram 0x201) u = 22
     \<and> cell_get (Cell Sram 0x202) u = 33 \<and> cell_get cell_dmairq u = 2"
proof -
  have tb: "table_at (ConfigAddress (tabDMACh dma_demo 1)) (descriptor copy_channel) dma_demo"
    using dma_demo_ok(6,7) by simp
  obtain t w v u where t: "repeat_step 2 (StateTrans base_hw 1) dma_demo = Some ((), t)"
    "dma_write cell_dmareq (2 ^ nat 1) t = Some (v, w)"
    "repeat_step (3 + 2) (StateTrans base_hw 1) w = Some ((), u)"
    "\<forall>k. 0 \<le> k \<and> k < int 3 \<longrightarrow>
        cell_get (Cell Sram (destination copy_channel + k)) u = cell_get (Cell Sram (source copy_channel + k)) dma_demo"
    "cell_get cell_dmairq u = cell_get cell_dmairq dma_demo OR 2 ^ nat 1"
    using dma_block_copy [OF dma_demo_ok(1,2,3) _ _ dma_demo_ok(4,5) copy_channel_fields(1) tb, of 3 base_hw]
    by (auto simp: copy_channel_fields)
  have v: "v = 2" using t(2) request_one [of 1 t] by simp
  have d: "cell_get (Cell Sram (0x100 + k)) dma_demo = 11 * (k + 1)" if "0 \<le> k" "k < 3" for k
    using that by (simp add: dma_demo_def)
  have z: "cell_get cell_dmairq dma_demo = 0" by (simp add: dma_demo_def)
  have c: "cell_get (Cell Sram (0x200 + k)) u = 11 * (k + 1)" if "0 \<le> k" "k < 3" for k
    using t(4) d [OF that] that by (simp add: copy_channel_fields)
  have "cell_get (Cell Sram 0x200) u = 11" "cell_get (Cell Sram 0x201) u = 22"
    "cell_get (Cell Sram 0x202) u = 33" "cell_get cell_dmairq u = 2"
    using c [of 0] c [of 1] c [of 2] t(5) z by simp_all
  moreover have "dma_write cell_dmareq 2 t = Some (2, w)"
    "repeat_step 5 (StateTrans base_hw 1) w = Some ((), u)"
    using t(2,3) v by simp_all
  ultimately show ?thesis using t(1) by blast
qed

end
