(* ===== verification/Flash2530Facts.thy ===== *)
theory Flash2530Facts
  imports Cc2530Facts
begin

text \<open>
  The flash controller: what a page erase does the first and the second time, and where the four
  bytes of a word end up.
\<close>

subsection \<open>Erasing a page\<close>

lemma page_bank_flashbank:
  "page_bank p = flashbank (if p < 32 then 0 else if p < 64 then 1 else if p < 96 then 2 else 3)"
  by (simp add: page_bank_def flashbank.simps)

lemma erase_loop_fill:
  assumes "mem_ok s" "f_bank (flash s) = flashbank b" "StartAddr (PageTab (flash s) p) = a"
    "\<And>j. ops s (Cell (flashbank b) j) = []" "0 \<le> a + i" "a + i + int n \<le> 0x8000"
  shows "\<exists>t. erase_loop hw p n i s = Some ((), t) \<and> mem_ok t \<and> ops t = ops s
     \<and> f_bank (flash t) = flashbank b \<and> StartAddr (PageTab (flash t) p) = a
     \<and> (\<forall>c. cell_get c t = (if \<exists>k. 0 \<le> k \<and> k < int n \<and> c = Cell (flashbank b) (a + i + k) then 0xFF
            else cell_get c s))
     \<and> (\<forall>k. WordWrites (PageTab (flash t) p) k
            = (if i \<le> k \<and> k < i + int n then 0 else WordWrites (PageTab (flash s) p) k))"
  using assms
proof (induction n arbitrary: i s)
  case 0
  then show ?case by auto
next
  case (Suc n)
  define u where "u = upd_page p (\<lambda>g. g\<lparr>WordWrites := (WordWrites g)(i := 0)\<rparr>)
    (poke (Cell (flashbank b) (a + i)) 0xFF s)"
  have w: "as_write hw (f_bank (flash s)) (StartAddr (PageTab (flash s) p) + i) 0xFF s
      = Some (0xFF, poke (Cell (flashbank b) (a + i)) 0xFF s)"
    unfolding Suc.prems(2,3) using Suc.prems(4-6) by (subst bank_write_plain) simp_all
  have e: "erase_loop hw p (Suc n) i s = erase_loop hw p n (i + 1) u"
    by (simp add: w u_def)
  have u: "mem_ok u" "f_bank (flash u) = flashbank b" "StartAddr (PageTab (flash u) p) = a"
    "ops u = ops s" "\<And>c. cell_get c u = (if c = Cell (flashbank b) (a + i) then 0xFF else cell_get c s)"
    "\<And>k. WordWrites (PageTab (flash u) p) k = (if k = i then 0 else WordWrites (PageTab (flash s) p) k)"
    using Suc.prems by (simp_all add: u_def)
  obtain t where t: "erase_loop hw p n (i + 1) u = Some ((), t)" "mem_ok t" "ops t = ops u"
    "f_bank (flash t) = flashbank b" "StartAddr (PageTab (flash t) p) = a"
    "\<forall>c. cell_get c t = (if \<exists>k. 0 \<le> k \<and> k < int n \<and> c = Cell (flashbank b) (a + (i + 1) + k) then 0xFF
        else cell_get c u)"
    "\<forall>k. WordWrites (PageTab (flash t) p) k
        = (if i + 1 \<le> k \<and> k < i + 1 + int n then 0 else WordWrites (PageTab (flash u) p) k)"
    using Suc.IH [of u "i + 1"] u(1-4) Suc.prems(4-6) by auto
  have r: "(\<exists>k. 0 \<le> k \<and> k < int (Suc n) \<and> c = Cell x (a + i + k)) \<longleftrightarrow>
      c = Cell x (a + i) \<or> (\<exists>k. 0 \<le> k \<and> k < int n \<and> c = Cell x (a + (i + 1) + k))" for c x
  proof
    assume "\<exists>k. 0 \<le> k \<and> k < int (Suc n) \<and> c = Cell x (a + i + k)"
    then obtain k where k: "0 \<le> k" "k < int (Suc n)" "c = Cell x (a + i + k)" by blast
    show "c = Cell x (a + i) \<or> (\<exists>k. 0 \<le> k \<and> k < int n \<and> c = Cell x (a + (i + 1) + k))"
    proof (cases "k = 0")
      case False
      then have "0 \<le> k - 1 \<and> k - 1 < int n \<and> c = Cell x (a + (i + 1) + (k - 1))" using k by simp
      then show ?thesis by blast
    qed (simp add: k)
  next
    assume "c = Cell x (a + i) \<or> (\<exists>k. 0 \<le> k \<and> k < int n \<and> c = Cell x (a + (i + 1) + k))"
    then show "\<exists>k. 0 \<le> k \<and> k < int (Suc n) \<and> c = Cell x (a + i + k)"
    proof
      assume "c = Cell x (a + i)"
      then show ?thesis by (intro exI [of _ 0]) simp
    next
      assume "\<exists>k. 0 \<le> k \<and> k < int n \<and> c = Cell x (a + (i + 1) + k)"
      then obtain k where "0 \<le> k" "k < int n" "c = Cell x (a + (i + 1) + k)" by blast
      then show ?thesis by (intro exI [of _ "k + 1"]) (simp add: algebra_simps)
    qed
  qed
  show ?case unfolding e r using t u(4-6) by (intro exI [of _ t]) auto
qed

definition page_base :: "int \<Rightarrow> int" where
  "page_base p = p * 1024 - page_shift p"

lemma page_base_range: "0 \<le> p \<Longrightarrow> p < 128 \<Longrightarrow> 0 \<le> page_base p \<and> page_base p + 1024 \<le> 0x8000"
  by (auto simp: page_base_def page_shift_def)

lemma erasePage_negative:
  assumes "StartAddr (PageTab (flash s) p) < page_shift p"
  shows "erasePage hw p s = None"
proof -
  have "erase_loop hw p (Suc n) 0 t = None"
    if "StartAddr (PageTab (flash t) p) < 0" "f_bank (flash t) = page_bank p" for n and t :: "'a cc2530_scheme"
    using that by (simp add: page_bank_flashbank bank_write_out)
  from this [of _ 1023] show ?thesis using assms by (simp add: erasePage_def del: erase_loop.simps)
qed

definition erased :: "int \<Rightarrow> 'z cc2530_scheme \<Rightarrow> 'z cc2530_scheme \<Rightarrow> bool" where
  "erased p s t \<longleftrightarrow> mem_ok t
     \<and> (\<forall>k. 0 \<le> k \<and> k < 1024 \<longrightarrow> cell_get (Cell (page_bank p) (page_base p + k)) t = 0xFF
            \<and> WordWrites (PageTab (flash t) p) k = 0)
     \<and> (\<forall>c. c \<noteq> cell_fctl \<and> \<not> (\<exists>k. 0 \<le> k \<and> k < 1024 \<and> c = Cell (page_bank p) (page_base p + k))
          \<longrightarrow> cell_get c t = cell_get c s)
     \<and> PageWrites (PageTab (flash t) p) = 0 \<and> cell_get cell_fctl t = cell_get cell_fctl s AND NOT 0x80"

text \<open>
  C10 The first erase of a page after a reset fills its 1024 bytes with 0xFF, clears its
  write counts and the busy bit and changes nothing else. A second erase of the same page still works
  in bank 0 but aborts the simulation for every page from 32 on, because each erase moves the start
  address of the page down by the offset of its bank.
\<close>

theorem erase_twice:
  assumes "mem_ok s" "0 \<le> p" "p < 128" "StartAddr (PageTab (flash s) p) = p * 1024"
    "\<And>j. ops s (Cell (page_bank p) j) = []"
  shows "\<exists>t. erasePage hw p s = Some ((), t) \<and> erased p s t \<and> (erasePage hw p t = None \<longleftrightarrow> 32 \<le> p)"
proof -
  define b :: int where "b = (if p < 32 then 0 else if p < 64 then 1 else if p < 96 then 2 else 3)"
  have b: "page_bank p = flashbank b" by (simp add: page_bank_flashbank b_def)
  have c: "Cell (flashbank b) j \<noteq> cell_fctl" for j by simp
  have erase: "\<exists>t. erasePage hw p s = Some ((), t) \<and> erased p s t \<and> ops t = ops s
      \<and> StartAddr (PageTab (flash t) p) = page_base p"
    if s: "mem_ok s" "StartAddr (PageTab (flash s) p) = page_base p + page_shift p"
      "\<And>j. ops s (Cell (page_bank p) j) = []" for s :: "'a cc2530_scheme"
  proof -
    define u where "u = cell_set_bit1 cell_fctl bmBUSY (upd_flash (\<lambda>c. c\<lparr>f_bank := page_bank p\<rparr>)
      (upd_page p (\<lambda>g. g\<lparr>StartAddr := StartAddr g - page_shift p\<rparr>) s))"
    have u: "mem_ok u" "f_bank (flash u) = flashbank b" "StartAddr (PageTab (flash u) p) = page_base p"
      "ops u = ops s" "\<And>x. cell_get x u = (if x = cell_fctl then cell_get cell_fctl s OR 0x80 else cell_get x s)"
      using that b by (simp_all add: u_def set_bits_poke byte_or byte_intros)
    obtain t where t: "erase_loop hw p 1024 0 u = Some ((), t)" "mem_ok t" "ops t = ops u"
      "f_bank (flash t) = flashbank b" "StartAddr (PageTab (flash t) p) = page_base p"
      "\<forall>c. cell_get c t = (if \<exists>k. 0 \<le> k \<and> k < int 1024 \<and> c = Cell (flashbank b) (page_base p + 0 + k) then 0xFF
          else cell_get c u)"
      "\<forall>k. WordWrites (PageTab (flash t) p) k
          = (if 0 \<le> k \<and> k < 0 + int 1024 then 0 else WordWrites (PageTab (flash u) p) k)"
      using erase_loop_fill [OF u(1-3), of 0 1024 hw] page_base_range [OF assms(2,3)] u(4) s(3) b
      by auto
    define v where "v = cell_set_bit0 cell_fctl bmBUSY (upd_page p (\<lambda>g. g\<lparr>PageWrites := 0\<rparr>) t)"
    have "erasePage hw p s = Some ((), v)"
      using t(1) by (simp add: erasePage_def v_def u_def [symmetric] del: erase_loop.simps)
    moreover have "erased p s v"
    proof -
      have "(x OR 128) AND NOT 128 = x AND NOT (128 :: int)" for x by (rule bit_eqI) (auto simp: bit_simps)
      then show ?thesis using t u b c s(1) unfolding erased_def v_def
        by (auto simp: set_bits_poke byte_and)
    qed
    moreover have "ops v = ops s" "StartAddr (PageTab (flash v) p) = page_base p"
      using t u by (simp_all add: v_def set_bits_poke)
    ultimately show ?thesis by blast
  qed
  obtain t where t: "erasePage hw p s = Some ((), t)" "erased p s t" "ops t = ops s"
    "StartAddr (PageTab (flash t) p) = page_base p"
    using erase [OF assms(1)] assms(4,5) by (auto simp: page_base_def)
  have "erasePage hw p t = None" if "32 \<le> p"
    by (rule erasePage_negative) (use that assms(2,3) t(4) in \<open>auto simp: page_base_def page_shift_def\<close>)
  moreover have "erasePage hw p t \<noteq> None" if "p < 32"
  proof -
    have "StartAddr (PageTab (flash t) p) = page_base p + page_shift p" using that t(4) by (simp add: page_shift_def)
    then show ?thesis using erase [of t] t(2,3) assms(5) by (auto simp: erased_def)
  qed
  ultimately show ?thesis using t(1,2) by (metis not_le)
qed

subsection \<open>Writing a word\<close>

lemma or_shifted: "0 \<le> r \<Longrightarrow> r < 2 ^ n \<Longrightarrow> (r::int) OR v * 2 ^ n = r + v * 2 ^ n"
  using concat_bit_eq [of n r v] by (simp add: concat_bit_def push_bit_eq_mult take_bit_int_eq_self)

lemma and_3FFF: "(x::int) AND 0x3FFF = x mod 0x4000"
proof -
  have "x AND 0x3FFF = x AND mask 14" by (simp add: mask_eq_exp_minus_1)
  then show ?thesis by (simp add: take_bit_eq_mod flip: take_bit_eq_mask)
qed

definition same_flash :: "'z cc2530_scheme \<Rightarrow> 'z cc2530_scheme \<Rightarrow> bool" where
  "same_flash s t \<longleftrightarrow> (\<forall>c. cell_get c t = cell_get c s) \<and> ops t = ops s \<and> mem_ok t = mem_ok s
     \<and> f_bank (flash t) = f_bank (flash s) \<and> f_reg (flash t) = f_reg (flash s)
     \<and> f_address (flash t) = f_address (flash s) \<and> TXNum (flash t) = TXNum (flash s)
     \<and> f_writing (flash t) = f_writing (flash s)"

lemma same_flash_page: "same_flash s (upd_page p f s)"
  by (simp add: same_flash_def upd_page_def)

lemma same_flash_fold: "same_flash s (fold (\<lambda>i s. upd_page (p i) (f i s) s) is s)"
proof (induction "is" arbitrary: s)
  case (Cons i "is")
  show ?case using Cons.IH [of "upd_page (p i) (f i s) s"] same_flash_page [of s "p i" "f i s"]
    by (simp add: same_flash_def)
qed (simp add: same_flash_def)

definition word_of :: "int \<Rightarrow> int \<Rightarrow> int \<Rightarrow> int \<Rightarrow> int" where
  "word_of b0 b1 b2 b3 = b0 + b1 * 2 ^ 8 + b2 * 2 ^ 16 + b3 * 2 ^ 24"

lemma word_of_bytes:
  assumes "byte b0" "byte b1" "byte b2" "byte b3"
  shows "word_of b0 b1 b2 b3 mod 256 = b0" "word_of b0 b1 b2 b3 div 2 ^ 8 mod 256 = b1"
    "word_of b0 b1 b2 b3 div 2 ^ 16 mod 256 = b2" "word_of b0 b1 b2 b3 div 2 ^ 24 mod 256 = b3"
proof -
  have w: "word_of b0 b1 b2 b3 = b0 + 256 * (b1 + 256 * (b2 + 256 * b3))"
    by (simp add: word_of_def algebra_simps)
  have q: "(b + 256 * x) div 256 = x" "(b + 256 * x) mod 256 = b" if "byte b" for b x
    using that by (simp_all add: byte_def)
  have d: "x div 2 ^ 8 = x div 256" "x div 2 ^ 16 = x div 256 div 256"
    "x div 2 ^ 24 = x div 256 div 256 div 256" for x :: int
    by (simp_all add: zdiv_zmult2_eq [symmetric])
  show "word_of b0 b1 b2 b3 mod 256 = b0" "word_of b0 b1 b2 b3 div 2 ^ 8 mod 256 = b1"
    "word_of b0 b1 b2 b3 div 2 ^ 16 mod 256 = b2" "word_of b0 b1 b2 b3 div 2 ^ 24 mod 256 = b3"
    unfolding w d using assms by (simp_all only: q byte_mod_eq)
qed

text \<open>The four bytes stored, as a function on cells.\<close>

definition word_cells :: "as_id \<Rightarrow> int \<Rightarrow> int list \<Rightarrow> (cell \<Rightarrow> int) \<Rightarrow> cell \<Rightarrow> int" where
  "word_cells a base vs g = fold (\<lambda>(k, v) g. g(Cell a (base + int k) := v)) (enumerate 0 vs) g"

lemma flash_bytes_word:
  fixes s :: "'z cc2530_scheme"
  assumes "mem_ok s" "f_bank (flash s) = flashbank b" "\<And>j. ops s (Cell (flashbank b) j) = []"
    "f_reg (flash s) = word_of b0 b1 b2 b3" "byte b0" "byte b1" "byte b2" "byte b3"
    "w = f_address (flash s) mod 0x4000" "w < 0x2000"
  shows "\<exists>t. flash_bytes hw [0, 1, 2, 3] s = Some ((), t) \<and> mem_ok t \<and> flash t = flash s
     \<and> (\<forall>c. cell_get c t = word_cells (flashbank b) (4 * w) [b0, b1, b2, b3] (\<lambda>c. cell_get c s) c)"
proof -
  have w: "0 \<le> w" using assms(9) by simp
  have p: "(256 :: int) = 2 ^ 8" "(65536 :: int) = 2 ^ 16" "(16777216 :: int) = 2 ^ 24" by simp_all
  have v: "f_reg (flash s) AND 0xFF = b0" "f_reg (flash s) div 256 AND 0xFF = b1"
    "f_reg (flash s) div 65536 AND 0xFF = b2" "f_reg (flash s) div 16777216 AND 0xFF = b3"
    unfolding assms(4) and_255 using word_of_bytes [OF assms(5-8), folded p] by this+
  have a: "(f_address (flash s) AND 0x3FFF) * 4 + i = 4 * w + i" for i by (simp add: and_3FFF assms(9))
  define p :: "int \<Rightarrow> int \<Rightarrow> 'z cc2530_scheme \<Rightarrow> 'z cc2530_scheme"
    where "p = (\<lambda>i. poke (Cell (flashbank b) (4 * w + i)))"
  have st: "as_write hw (f_bank (flash t)) ((f_address (flash t) AND 0x3FFF) * 4 + i) x t = Some (x, p i x t)"
    if "0 \<le> i" "i < 4" "byte x" "flash t = flash s" "ops t = ops s" for i x and t :: "'z cc2530_scheme"
    using that assms(2,3,10) w
    by (simp only: that(4) assms(2) a) (subst bank_write_plain, simp_all add: p_def)
  have fp: "flash (p i x t) = flash t" "ops (p i x t) = ops t" for i x and t :: "'z cc2530_scheme"
    by (simp_all add: p_def)
  have "flash_bytes hw [0, 1, 2, 3] s = Some ((), p 3 b3 (p 2 b2 (p 1 b1 (p 0 b0 s))))"
    using st [of 0 b0] st [of 1 b1] st [of 2 b2] st [of 3 b3] assms(5-8)
    by (simp add: fp v del: and_255)
  moreover have "mem_ok (p 3 b3 (p 2 b2 (p 1 b1 (p 0 b0 s))))"
    using assms(1,5-8) by (simp add: p_def)
  moreover have "cell_get c (p 3 b3 (p 2 b2 (p 1 b1 (p 0 b0 s))))
      = word_cells (flashbank b) (4 * w) [b0, b1, b2, b3] (\<lambda>c. cell_get c s) c" for c
    using assms(1,5-8) by (simp add: p_def word_cells_def)
  ultimately show ?thesis by (auto simp: fp)
qed

fun fwdata_all :: "'z cc_hw \<Rightarrow> int list \<Rightarrow> (unit, 'z) cact" where
  "fwdata_all hw [] s = Some ((), s)"
| "fwdata_all hw (v # vs) s = do { (_, s) \<leftarrow> write_fwdata hw v s; fwdata_all hw vs s }"

text \<open>While fewer than four bytes have come, only the shift register of the controller changes.\<close>

definition gathered :: "'z cc2530_scheme \<Rightarrow> int \<Rightarrow> int \<Rightarrow> 'z cc2530_scheme \<Rightarrow> bool" where
  "gathered s k r t \<longleftrightarrow> (\<forall>c. cell_get c t = cell_get c s) \<and> ops t = ops s \<and> mem_ok t
     \<and> f_bank (flash t) = f_bank (flash s) \<and> f_address (flash t) = f_address (flash s)
     \<and> f_writing (flash t) \<and> \<not> regFull (flash t) \<and> TXNum (flash t) = k
     \<and> (k = 0 \<or> f_reg (flash t) = r) \<and> PageTab (flash t) = PageTab (flash s)"

lemma gather_byte:
  assumes "gathered s k r t" "0 \<le> k" "k < 3" "0 \<le> r" "r < 2 ^ nat (8 * k)"
  shows "\<exists>u. write_fwdata hw v t = Some ((), u) \<and> gathered s (k + 1) (r + v * 2 ^ nat (8 * k)) u"
proof -
  define u where "u = upd_flash (\<lambda>c. c\<lparr>f_reg := f_reg c OR (v * 2 ^ nat (8 * TXNum c)), TXNum := TXNum c + 1\<rparr>)
    (if TXNum (flash t) = 0 then upd_flash (\<lambda>c. c\<lparr>f_reg := 0, f_timerEnabled := True\<rparr>) t else t)"
  have k: "TXNum (flash t) = k" "f_writing (flash t)" "\<not> regFull (flash t)"
    using assms(1) by (simp_all add: gathered_def)
  have "TXNum (flash u) \<noteq> 4" using k(1) assms(3) by (simp add: u_def)
  then have "write_fwdata hw v t = Some ((), u)"
    using k by (simp add: write_fwdata_def Let_def u_def)
  moreover have "r OR v * 2 ^ nat (8 * k) = r + v * 2 ^ nat (8 * k)" using assms(4,5) by (rule or_shifted)
  moreover have "r = 0" if "k = 0" using that assms(4,5) by simp
  ultimately show ?thesis using assms(1,2) by (intro exI [of _ u]) (auto simp: gathered_def u_def)
qed

lemma flashWrite_word:
  assumes "mem_ok s" "f_bank (flash s) = flashbank b" "\<And>j. ops s (Cell (flashbank b) j) = []"
    "f_reg (flash s) = word_of b0 b1 b2 b3" "byte b0" "byte b1" "byte b2" "byte b3"
    "w = f_address (flash s) mod 0x4000" "w < 0x2000"
  shows "\<exists>t. flashWrite hw s = Some ((), t)
     \<and> (\<forall>c. c \<noteq> cell_fctl \<longrightarrow> cell_get c t
          = word_cells (flashbank b) (4 * w) [b0, b1, b2, b3] (\<lambda>c. cell_get c s) c)
     \<and> cell_get cell_fctl t = cell_get cell_fctl s AND NOT 0x40
     \<and> TXNum (flash t) = TXNum (flash s) \<and> \<not> regFull (flash t)
     \<and> f_writing (flash t) = f_writing (flash s)"
proof -
  define p where "p = (f_address (flash s) div 512) AND 0x7F"
  define x where "x = f_address (flash s) AND 0x01FF"
  define u where "u = upd_page p (\<lambda>g. g\<lparr>PageWrites := PageWrites g + 1,
      WordWrites := (WordWrites g)(x := WordWrites g x + 1)\<rparr>)
    (upd_flash (\<lambda>c. c\<lparr>PageNum := p, WordNum := x\<rparr>) s)"
  have u: "mem_ok u" "f_bank (flash u) = flashbank b" "\<And>j. ops u (Cell (flashbank b) j) = []"
    "f_reg (flash u) = word_of b0 b1 b2 b3" "w = f_address (flash u) mod 0x4000"
    "TXNum (flash u) = TXNum (flash s)" "f_writing (flash u) = f_writing (flash s)"
    "\<And>c. cell_get c u = cell_get c s"
    using assms by (simp_all add: u_def upd_page_def)
  obtain v where v: "flash_bytes hw [0, 1, 2, 3] u = Some ((), v)" "mem_ok v" "flash v = flash u"
    "\<forall>c. cell_get c v = word_cells (flashbank b) (4 * w) [b0, b1, b2, b3] (\<lambda>c. cell_get c u) c"
    using flash_bytes_word [OF u(1-4) assms(5-8) u(5) assms(10)] by blast
  define y where "y = (if p = 0 \<and> x < 4 then
      fold (\<lambda>i s. upd_page ((3 - x) * 32 + i)
        (\<lambda>g. g\<lparr>lockbit := ((f_reg (flash s) div 2 ^ nat i) AND 1 = 0)\<rparr>) s) [0..31] v
    else v)"
  have y: "same_flash v y"
    using same_flash_fold [of v "\<lambda>i. (3 - x) * 32 + i" "\<lambda>i s g. g\<lparr>lockbit := ((f_reg (flash s) div 2 ^ nat i) AND 1 = 0)\<rparr>" "[0..31]"]
    by (simp add: y_def) (simp add: same_flash_def)
  define t where "t = upd_flash (\<lambda>c. c\<lparr>regFull := False\<rparr>)
    (cell_set_bit0 cell_fctl bmFULL (upd_flash (\<lambda>c. c\<lparr>f_reg := 0\<rparr>) y))"
  have "flashWrite hw s = Some ((), t)"
    unfolding flashWrite_def Let_def p_def [symmetric] x_def [symmetric] u_def [symmetric]
    by (simp only: v(1) Option.bind_lunit prod.case y_def t_def)
  moreover have "word_cells (flashbank b) (4 * w) [b0, b1, b2, b3] g cell_fctl = g cell_fctl" for g
    by (simp add: word_cells_def)
  ultimately show ?thesis using y u v
    by (intro exI [of _ t]) (auto simp: t_def same_flash_def set_bits_poke)
qed

text \<open>
  C9 In write mode four bytes written to FWDATA are collected least significant byte
  first and stored at four times the 14-bit word address in the selected bank, and nowhere else; the
  controller is then ready for the next word. A word address of 0x2000 or more within the bank, which
  the address registers can hold, aborts the simulation: the bank has only 0x8000 bytes.
\<close>

theorem word_write:
  assumes "mem_ok s" "f_bank (flash s) = flashbank b" "\<And>j. ops s (Cell (flashbank b) j) = []"
    "f_writing (flash s)" "\<not> regFull (flash s)" "TXNum (flash s) = 0"
    "byte b0" "byte b1" "byte b2" "byte b3" "w = f_address (flash s) mod 0x4000"
  shows "if w < 0x2000 then
      \<exists>t. fwdata_all hw [b0, b1, b2, b3] s = Some ((), t)
        \<and> (\<forall>c. c \<noteq> cell_fctl \<longrightarrow> cell_get c t
             = word_cells (flashbank b) (4 * w) [b0, b1, b2, b3] (\<lambda>c. cell_get c s) c)
        \<and> cell_get cell_fctl t = cell_get cell_fctl s AND NOT 0x40
        \<and> TXNum (flash t) = 0 \<and> \<not> regFull (flash t) \<and> f_writing (flash t)
    else fwdata_all hw [b0, b1, b2, b3] s = None"
proof -
  have bd: "0 \<le> b0" "b0 < 256" "0 \<le> b1" "b1 < 256" "0 \<le> b2" "b2 < 256" using assms(7-9) by (simp_all add: byte_def)
  have "gathered s 0 0 s" using assms(1,4-6) by (simp add: gathered_def)
  from gather_byte [OF this, of hw b0] obtain s1 where s1: "write_fwdata hw b0 s = Some ((), s1)"
    "gathered s 1 b0 s1" by auto
  from gather_byte [OF s1(2), of hw b1] bd obtain s2 where s2: "write_fwdata hw b1 s1 = Some ((), s2)"
    "gathered s 2 (b0 + b1 * 256) s2" by auto
  from gather_byte [OF s2(2), of hw b2] bd obtain s3 where s3: "write_fwdata hw b2 s2 = Some ((), s3)"
    "gathered s 3 (b0 + b1 * 256 + b2 * 65536) s3" by auto
  define u where "u = upd_flash (\<lambda>c. c\<lparr>regFull := True, TXNum := 0, f_timerEnabled := False, f_TickCount := 0\<rparr>)
    (cell_set_bit1 cell_fctl bmFULL
      (upd_flash (\<lambda>c. c\<lparr>f_reg := f_reg c OR (b3 * 2 ^ nat (8 * TXNum c)), TXNum := TXNum c + 1\<rparr>) s3))"
  have g: "TXNum (flash s3) = 3" "f_writing (flash s3)" "\<not> regFull (flash s3)" "mem_ok s3"
    "ops s3 = ops s" "\<And>c. cell_get c s3 = cell_get c s" "f_bank (flash s3) = f_bank (flash s)"
    "f_address (flash s3) = f_address (flash s)" "f_reg (flash s3) = b0 + b1 * 256 + b2 * 65536"
    using s3(2) by (simp_all add: gathered_def)
  have e: "fwdata_all hw [b0, b1, b2, b3] s = flashWrite hw u"
  proof -
    have "write_fwdata hw b3 s3 = flashWrite hw u"
      using g(1-3) by (simp add: write_fwdata_def Let_def u_def)
    then show ?thesis using s1(1) s2(1) s3(1) by (cases "flashWrite hw u") auto
  qed
  have "(b0 + b1 * 256 + b2 * 65536) OR b3 * 2 ^ 24 = word_of b0 b1 b2 b3"
    using or_shifted [of "b0 + b1 * 256 + b2 * 65536" 24 b3] bd by (simp add: word_of_def)
  then have u: "mem_ok u" "f_bank (flash u) = flashbank b" "\<And>j. ops u (Cell (flashbank b) j) = []"
    "f_reg (flash u) = word_of b0 b1 b2 b3" "w = f_address (flash u) mod 0x4000" "TXNum (flash u) = 0"
    "f_writing (flash u)" "cell_get cell_fctl u = cell_get cell_fctl s OR 0x40"
    "\<And>c. c \<noteq> cell_fctl \<Longrightarrow> cell_get c u = cell_get c s"
    using g assms(1-3,11) by (simp_all add: u_def set_bits_poke byte_or)
  show ?thesis
  proof (cases "w < 0x2000")
    case True
    obtain t where t: "flashWrite hw u = Some ((), t)"
      "\<forall>c. c \<noteq> cell_fctl \<longrightarrow> cell_get c t
          = word_cells (flashbank b) (4 * w) [b0, b1, b2, b3] (\<lambda>c. cell_get c u) c"
      "cell_get cell_fctl t = cell_get cell_fctl u AND NOT 0x40"
      "TXNum (flash t) = TXNum (flash u)" "\<not> regFull (flash t)" "f_writing (flash t) = f_writing (flash u)"
      using flashWrite_word [OF u(1-4) assms(7-10) u(5) True] by blast
    have "(x OR 64) AND NOT 64 = x AND NOT (64 :: int)" for x by (rule bit_eqI) (auto simp: bit_simps)
    moreover have "word_cells (flashbank b) (4 * w) [b0, b1, b2, b3] (\<lambda>c. cell_get c u) c
        = word_cells (flashbank b) (4 * w) [b0, b1, b2, b3] (\<lambda>c. cell_get c s) c" if "c \<noteq> cell_fctl" for c
      using u(9) [OF that] by (simp add: word_cells_def)
    ultimately show ?thesis using True t u(6-8) unfolding e by (intro if_P [THEN iffD2]) auto
  next
    case False
    have "0 \<le> w" using assms(11) by simp
    then have "as_write hw (flashbank b) (4 * w + 0) v t = None" for v t
      using False by (intro bank_write_out) simp
    then have "flashWrite hw u = None"
      using u(2,5) by (simp add: flashWrite_def Let_def and_3FFF upd_page_def mult.commute)
    then show ?thesis using False e by simp
  qed
qed

subsection \<open>Concrete inputs\<close>

theorem erase_twice_witness:
  "\<exists>t. erasePage base_hw 40 (boot2530 (\<lambda>_. 0)) = Some ((), t)
     \<and> cell_get (Cell Flashbank1 0x2000) t = 0xFF \<and> cell_get (Cell Flashbank1 0x23FF) t = 0xFF
     \<and> cell_get (Cell Flashbank1 0x2400) t = 0 \<and> erasePage base_hw 40 t = None"
proof -
  obtain t where t: "erasePage base_hw 40 (boot2530 (\<lambda>_. 0)) = Some ((), t)"
    "erased 40 (boot2530 (\<lambda>_. 0)) t" "erasePage base_hw 40 t = None"
    using erase_twice [of "boot2530 (\<lambda>_. 0)" 40 base_hw]
    by (auto simp: idle_flash_def fresh_page_def page_bank_def boot51_ops)
  have "cell_get (Cell Flashbank1 0x2000) t = 0xFF" "cell_get (Cell Flashbank1 0x23FF) t = 0xFF"
    using t(2) [unfolded erased_def, THEN conjunct2, THEN conjunct1, rule_format, of 0]
      t(2) [unfolded erased_def, THEN conjunct2, THEN conjunct1, rule_format, of 1023]
    by (simp_all add: page_bank_def page_base_def page_shift_def)
  moreover have "cell_get (Cell Flashbank1 0x2400) t = 0"
    using t(2) [unfolded erased_def, THEN conjunct2, THEN conjunct2, THEN conjunct1, rule_format,
        of "Cell Flashbank1 0x2400"]
    by (simp add: page_bank_def page_base_def page_shift_def)
  ultimately show ?thesis using t by blast
qed

definition flash_demo :: "int \<Rightarrow> cc2530" where
  "flash_demo addr = upd_flash (\<lambda>c. c\<lparr>f_writing := True, f_address := addr, f_bank := Flashbank1\<rparr>)
     (boot2530 (\<lambda>_. 0xFF))"

theorem word_write_witness:
  "(\<exists>t. fwdata_all base_hw [1, 2, 3, 4] (flash_demo 0x4005) = Some ((), t)
      \<and> cell_get (Cell Flashbank1 20) t = 1 \<and> cell_get (Cell Flashbank1 21) t = 2
      \<and> cell_get (Cell Flashbank1 22) t = 3 \<and> cell_get (Cell Flashbank1 23) t = 4
      \<and> cell_get (Cell Flashbank1 24) t = 0xFF)
   \<and> fwdata_all base_hw [1, 2, 3, 4] (flash_demo 0x6000) = None"
proof -
  have ok: "mem_ok (flash_demo a)" for a unfolding flash_demo_def upd_flash_simps by (rule boot2530_ok) simp
  have c: "cell_get c (flash_demo a) = 0xFF" "ops (flash_demo a) (Cell (flashbank 1) j) = []"
    "f_bank (flash (flash_demo a)) = flashbank 1" "f_writing (flash (flash_demo a))"
    "\<not> regFull (flash (flash_demo a))" "TXNum (flash (flash_demo a)) = 0"
    "f_address (flash (flash_demo a)) = a" for a c j
    by (simp_all add: flash_demo_def boot51_ops idle_flash_def flashbank.simps)
  have w: "if w < 0x2000 then
      \<exists>t. fwdata_all base_hw [1, 2, 3, 4] (flash_demo a) = Some ((), t)
        \<and> (\<forall>c. c \<noteq> cell_fctl \<longrightarrow> cell_get c t = word_cells (flashbank 1) (4 * w) [1, 2, 3, 4] (\<lambda>_. 0xFF) c)
    else fwdata_all base_hw [1, 2, 3, 4] (flash_demo a) = None" if "w = a mod 0x4000" for a w
    using word_write [OF ok c(3,2,4,5,6), of 1 2 3 4 w a base_hw] that
    by (auto simp: c simp del: fwdata_all.simps split: if_splits)
  have f: "flashbank 1 = Flashbank1" by (simp add: flashbank.simps)
  obtain t where t: "fwdata_all base_hw [1, 2, 3, 4] (flash_demo 0x4005) = Some ((), t)"
    "\<forall>c. c \<noteq> cell_fctl \<longrightarrow> cell_get c t = word_cells (flashbank 1) 20 [1, 2, 3, 4] (\<lambda>_. 0xFF) c"
    using w [of 5 "0x4005"] by auto
  have "fwdata_all base_hw [1, 2, 3, 4] (flash_demo 0x6000) = None"
    using w [of "0x2000" "0x6000"] by simp
  then show ?thesis using t by (intro conjI exI [of _ t]) (simp_all add: word_cells_def f)
qed

end
