(* ===== verification/Usart2530Facts.thy ===== *)
theory Usart2530Facts
  imports Cc2530Facts
begin

text \<open>
  The serial line sends a byte after a fixed number of timer overflows; a USART shifts out a frame of
  start bit, data and stop bit.
\<close>

subsection \<open>The serial line in the timer-driven modes\<close>

lemma le_div_iff:
  assumes "0 < (d::int)"
  shows "b \<le> y div d \<longleftrightarrow> b * d \<le> y"
proof
  assume "b \<le> y div d"
  then have "b * d \<le> y div d * d" using assms by simp
  also have "\<dots> \<le> y" using div_mult_mod_eq [of y d] pos_mod_sign [OF assms, of y] by linarith
  finally show "b * d \<le> y" .
next
  assume "b * d \<le> y"
  then have "b * d div d \<le> y div d" using assms by (rule zdiv_mono1)
  then show "b \<le> y div d" using assms by simp
qed

lemma bit_cnt_closed:
  assumes "0 < d" "0 \<le> x"
  shows "bit_cnt_loop d x n = (x mod d, n + x div d)"
  using assms
proof (induction d x n rule: bit_cnt_loop.induct)
  case (1 d x n)
  show ?case
  proof (cases "d \<le> x")
    case True
    then have "bit_cnt_loop d (x - d) (n + 1) = ((x - d) mod d, n + 1 + (x - d) div d)"
      using 1 by simp
    moreover have "x mod d = (x - d) mod d" "x div d = 1 + (x - d) div d"
      using mod_add_self2 [of "x - d" d] div_add_self2 [of d "x - d"] 1(2) by simp_all
    moreover have "bit_cnt_loop d x n = bit_cnt_loop d (x - d) (n + 1)"
      using True 1(2) by (subst bit_cnt_loop.simps) simp
    ultimately show ?thesis by (simp only: add.assoc)
  next
    case False
    then show ?thesis using 1(2,3) by (subst bit_cnt_loop.simps) simp
  qed
qed

text \<open>One overflow of timer 1 and one tick, repeated.\<close>

primrec serial_run :: "int \<Rightarrow> nat \<Rightarrow> (unit, 'z) cact" where
  "serial_run c 0 s = Some ((), s)"
| "serial_run c (Suc k) s = do {
     (_, s) \<leftarrow> serial_happen (EV_OVERFLOW Hw_timer1) s;
     (_, s) \<leftarrow> serial_tick c s;
     serial_run c k s
   }"

definition timer_driven :: "int \<Rightarrow> int \<Rightarrow> uart \<Rightarrow> bool" where
  "timer_driven d b u \<longleftrightarrow> uart_mode u \<in> {1, 3} \<and> \<not> t2_baud u \<and> uart_divby u = d \<and> uart_bits u = b
     \<and> out_open u \<and> \<not> uart_REN u \<and> \<not> s_receiving u"

definition sent :: "int \<Rightarrow> int \<Rightarrow> int \<Rightarrow> int \<Rightarrow> 'z cc2530_scheme \<Rightarrow> 'z cc2530_scheme \<Rightarrow> bool" where
  "sent d b v k s t \<longleftrightarrow> timer_driven d b (ser t) \<and> s_out (ser t) = to_uchar v \<and> mem_ok t
     \<and> (if k < b * d then s_sending (ser t) \<and> s_tr_bit (ser t) = k div d \<and> s_tr_t1 (ser t) = k mod d
          \<and> line_out (ser t) = line_out (ser s) \<and> cell_get cell_scon t = cell_get cell_scon s
        else \<not> s_sending (ser t) \<and> line_out (ser t) = line_out (ser s) @ [to_uchar v]
          \<and> cell_get cell_scon t = cell_get cell_scon s OR 0x02)"

lemma sent_step:
  assumes "sent d b v k s t" "0 < d" "0 < b" "0 \<le> k"
  shows "\<exists>u. serial_run c 1 t = Some ((), u) \<and> sent d b v (k + 1) s u"
proof -
  define a where "a = upd_ser (\<lambda>u. u\<lparr>s_rec_t1 := s_rec_t1 u + 1, s_tr_t1 := s_tr_t1 u + 1\<rparr>) t"
  have h: "serial_happen (EV_OVERFLOW Hw_timer1) t = Some ((), a)" by (simp add: a_def)
  have td: "timer_driven d b (ser a)" "mem_ok a" using assms(1) by (simp_all add: sent_def a_def timer_driven_def)
  show ?thesis
  proof (cases "k < b * d")
    case False
    then have ns: "\<not> s_sending (ser a)" using assms(1) by (simp add: sent_def a_def)
    have "serial_tick c a = Some ((), upd_ser (\<lambda>u. u\<lparr>s_tr_tick := s_tr_tick u + c * 12,
       s_rec_tick := s_rec_tick u + c * 12\<rparr>) a)"
      using td(1) ns by (simp add: serial_tick_def serial_bit_cnt_def timer_driven_def Let_def) (simp add: upd_ser_def)
    then show ?thesis using assms(1) False h by (simp add: sent_def timer_driven_def a_def)
  next
    case True
    then have p: "s_sending (ser a)" "s_tr_bit (ser a) = k div d" "s_tr_t1 (ser a) = k mod d + 1"
      using assms(1) by (simp_all add: sent_def a_def)
    have l: "bit_cnt_loop d (k mod d + 1) (k div d) = ((k + 1) mod d, (k + 1) div d)"
    proof -
      have "0 \<le> k mod d + 1" using assms(2) by (simp add: add_nonneg_nonneg)
      moreover have "(k mod d + 1) mod d = (k + 1) mod d" by (simp add: mod_simps)
      moreover have "(k mod d + 1 + d * (k div d)) div d = k div d + (k mod d + 1) div d"
        by (rule div_mult_self2) (use assms(2) in simp)
      then have "k div d + (k mod d + 1) div d = (k + 1) div d" by (simp add: algebra_simps)
      ultimately show ?thesis using assms(2) by (simp add: bit_cnt_closed)
    qed
    define e where "e = upd_ser (\<lambda>u. u\<lparr>s_tr_t1 := (k + 1) mod d, s_tr_bit := (k + 1) div d\<rparr>) a"
    have bc: "serial_bit_cnt (ser a) = Some (ser e)"
      using td(1) p l assms(2) by (auto simp: serial_bit_cnt_def timer_driven_def bit_cnt_def e_def Let_def)
    have ua: "upd_ser (\<lambda>_. ser e) a = e" by (simp add: e_def upd_ser_def)
    define f where "f = (if b \<le> (k + 1) div d then
         cell_set_bit1 cell_scon 0x02 (upd_ser (\<lambda>u. u\<lparr>s_sending := False,
           line_out := (if out_open u then line_out u @ [s_out u] else line_out u),
           s_tr_bit := s_tr_bit u - uart_bits u\<rparr>) e) else e)"
    define g where "g = upd_ser (\<lambda>u. u\<lparr>s_tr_tick := s_tr_tick u + c * 12, s_rec_tick := s_rec_tick u + c * 12\<rparr>) f"
    have fd: "\<not> uart_REN (ser f)" "\<not> s_receiving (ser f)"
      using td(1) by (simp_all add: f_def e_def timer_driven_def)
    have "serial_tick c a = Some ((), g)"
      using td(1) p fd unfolding serial_tick_def bc
      by (simp add: ua Let_def) (simp add: timer_driven_def e_def g_def f_def)
    moreover have "b \<le> (k + 1) div d \<longleftrightarrow> \<not> k + 1 < b * d"
      by (simp add: le_div_iff [OF assms(2)] not_less)
    moreover have "byte (cell_get cell_scon s)"
      using assms(1) True mem_ok_get [of t cell_scon] by (simp add: sent_def)
    ultimately show ?thesis using h assms(1) True td
      by (auto simp: sent_def g_def f_def e_def a_def timer_driven_def set_bits_poke byte_or)
  qed
qed

lemma serial_run_Suc:
  "serial_run c (Suc k) s = Option.bind (serial_run c 1 s) (\<lambda>(_, s). serial_run c k s)"
  by (auto split: bind_splits)

text \<open>
  C12 A byte written to SBUF in a timer-driven mode is put on the line exactly once:
  not before the timer has overflowed as many times as the frame has bits times the divisor, and at
  that very overflow, when the transmit flag TI is set as well. Until then the line, and TI, are
  unchanged; afterwards nothing more is sent.
\<close>

theorem byte_sent_once:
  assumes "timer_driven d b (ser s)" "0 < d" "0 < b" "mem_ok s"
  shows "\<exists>t u. serial_write cell_sbuf v s = Some (v, t) \<and> serial_run c n t = Some ((), u)
     \<and> line_out (ser u) = line_out (ser s) @ (if int n < b * d then [] else [to_uchar v])
     \<and> s_sending (ser u) = (int n < b * d)
     \<and> cell_get cell_scon u = (if int n < b * d then cell_get cell_scon s else cell_get cell_scon s OR 0x02)"
proof -
  define t where "t = upd_ser (\<lambda>u. u\<lparr>s_out := to_uchar v, s_sending := True, s_tr_bit := 0,
    s_tr_tick := 0, s_tr_t1 := 0\<rparr>) s"
  have w: "serial_write cell_sbuf v s = Some (v, t)" by (simp add: serial_write_def t_def)
  have "\<exists>u. serial_run c n t = Some ((), u) \<and> sent d b v (k + int n) s u"
    if "sent d b v k s t" "0 \<le> k" for k t
    using that
  proof (induction n arbitrary: k t)
    case (Suc n)
    obtain a where a: "serial_run c 1 t = Some ((), a)" "sent d b v (k + 1) s a"
      using sent_step [OF Suc.prems(1) assms(2,3) Suc.prems(2)] by blast
    obtain u where u: "serial_run c n a = Some ((), u)" "sent d b v (k + 1 + int n) s u"
      using Suc.IH [OF a(2)] Suc.prems(2) by auto
    have "k + 1 + int n = k + int (Suc n)" by simp
    then show ?case unfolding serial_run_Suc using a(1) u by (auto simp: add.assoc simp del: serial_run.simps)
  qed simp
  moreover have "sent d b v 0 s t"
    using assms by (simp add: sent_def t_def timer_driven_def)
  ultimately obtain u where "serial_run c n t = Some ((), u)" "sent d b v (int n) s u" by fastforce
  then show ?thesis using w by (intro exI [of _ t] exI [of _ u]) (simp add: sent_def)
qed

definition serial_demo :: cc2530 where
  "serial_demo = upd_ser (\<lambda>u. u\<lparr>uart_mode := 1, uart_divby := 32, uart_bits := 10\<rparr>) (boot2530 (\<lambda>_. 0))"

theorem byte_sent_once_witness:
  "(\<exists>t u. serial_write cell_sbuf 65 serial_demo = Some (65, t) \<and> serial_run 1 319 t = Some ((), u)
      \<and> line_out (ser u) = [])
   \<and> (\<exists>t u. serial_write cell_sbuf 65 serial_demo = Some (65, t) \<and> serial_run 1 320 t = Some ((), u)
      \<and> line_out (ser u) = [65])"
proof -
  have d: "timer_driven 32 10 (ser serial_demo)" "line_out (ser serial_demo) = []"
    by (simp_all add: serial_demo_def timer_driven_def idle_uart_def)
  have m: "mem_ok serial_demo" unfolding serial_demo_def upd_ser_simps by (rule boot2530_ok) simp
  note b = byte_sent_once [OF d(1) _ _ m, where v = 65 and c = 1]
  from b [where n = 319] b [where n = 320] show ?thesis using d(2) by (auto simp: to_uchar_def simp del: serial_run.simps)
qed

subsection \<open>The frame of a USART\<close>

text \<open>The levels of TXD after each of k baud ticks.\<close>

fun frame :: "'z cc_hw \<Rightarrow> int \<Rightarrow> nat \<Rightarrow> (bool list, 'z) cact" where
  "frame hw n 0 s = Some ([], s)"
| "frame hw n (Suc k) s = do {
     (_, s) \<leftarrow> Shift_out hw n True s;
     (bs, t) \<leftarrow> frame hw n k s;
     Some (TXD (usarts s n) # bs, t)
   }"

fun msb_bits :: "nat \<Rightarrow> int \<Rightarrow> bool list" where
  "msb_bits 0 r = []"
| "msb_bits (Suc j) r = (128 \<le> r) # msb_bits j (r * 2 mod 256)"

text \<open>What a receiver makes of the data bits, most significant bit first.\<close>

definition received :: "bool list \<Rightarrow> int" where
  "received bs = foldl (\<lambda>a b. 2 * a + of_bool b) 0 bs"

lemma msb_bits_value:
  assumes "byte r" "j \<le> 8"
  shows "foldl (\<lambda>a b. 2 * a + of_bool b) a (msb_bits j r) = a * 2 ^ j + r div 2 ^ (8 - j)"
  using assms
proof (induction j arbitrary: a r)
  case 0
  then show ?case by (simp add: byte_def)
next
  case (Suc j)
  define b :: int where "b = of_bool (128 \<le> r)"
  define q where "q = r - 128 * b"
  have q: "r = 128 * b + q" "0 \<le> q" "q < 128" using Suc.prems(1) by (auto simp: q_def b_def byte_def)
  have r2: "r * 2 mod 256 = 2 * q"
  proof -
    have "r * 2 = 2 * q + b * 256" using q(1) by simp
    then have "r * 2 mod 256 = 2 * q mod 256" by (simp only: mod_mult_self1)
    then show ?thesis using q(2,3) by simp
  qed
  have p: "(2::int) ^ (8 - j) = 2 * 2 ^ (8 - Suc j)" "(128::int) = 2 ^ j * 2 ^ (8 - Suc j)"
    using Suc.prems(2) by (simp_all add: power_Suc [symmetric] power_add [symmetric] Suc_diff_Suc del: power_Suc)
  have "foldl (\<lambda>a b. 2 * a + of_bool b) a (msb_bits (Suc j) r)
      = (2 * a + b) * 2 ^ j + (2 * q) div 2 ^ (8 - j)"
    using Suc.IH [of "2 * q" "2 * a + b"] Suc.prems q(2,3) by (simp add: b_def r2 byte_def)
  moreover have "(2 * q) div 2 ^ (8 - j) = q div 2 ^ (8 - Suc j)" by (simp add: p(1))
  moreover have "r div 2 ^ (8 - Suc j) = b * 2 ^ j + q div 2 ^ (8 - Suc j)"
  proof -
    have "r = q + (b * 2 ^ j) * 2 ^ (8 - Suc j)" using q(1) p(2) by simp
    then show ?thesis by (simp add: div_mult_self1)
  qed
  ultimately show ?case by (simp add: algebra_simps)
qed

lemma received_msb: "byte v \<Longrightarrow> received (msb_bits 8 v) = v"
  using msb_bits_value [of v 8 0] by (simp add: received_def)

definition shifting :: "int \<Rightarrow> int \<Rightarrow> int \<Rightarrow> 'z cc2530_scheme \<Rightarrow> 'z cc2530_scheme \<Rightarrow> bool" where
  "shifting n k r s t \<longleftrightarrow> mem_ok t \<and> (\<forall>c. cell_get c t = cell_get c s) \<and> BitNumber (usarts t n) = 8
     \<and> StopBits (usarts t n) = 1 \<and> bitTxCnt (usarts t n) = k \<and> regForTx (usarts t n) = r
     \<and> \<not> u_queue (usarts t n) \<and> startBitLevel (usarts t n) = startBitLevel (usarts s n)
     \<and> stopBitLevel (usarts t n) = stopBitLevel (usarts s n)"

lemma shift_data:
  assumes "shifting n k r s t" "1 \<le> k" "k \<le> 8" "byte r"
  shows "\<exists>u. Shift_out hw n True t = Some ((), u) \<and> TXD (usarts u n) = (128 \<le> r)
     \<and> shifting n (k + 1) (r * 2 mod 256) s u"
proof -
  have b: "(r AND 128 \<noteq> 0) = (128 \<le> r)" using assms(4) by (simp add: and_single_bit byte_bit_7)
  have m: "to_tmem (r * 2) mod 256 = r * 2 mod 256" by simp
  show ?thesis using assms b m
    by (simp add: Shift_out_def Let_def shifting_def set_out_pin_def)
qed

lemma shift_data_bits:
  assumes "shifting n k r s t" "1 \<le> k" "k + int j \<le> 9" "byte r"
  shows "\<exists>u r'. frame hw n j t = Some (msb_bits j r, u) \<and> shifting n (k + int j) r' s u"
  using assms
proof (induction j arbitrary: k r t)
  case (Suc j)
  obtain a where a: "Shift_out hw n True t = Some ((), a)" "TXD (usarts a n) = (128 \<le> r)"
    "shifting n (k + 1) (r * 2 mod 256) s a"
    using shift_data [OF Suc.prems(1,2) _ Suc.prems(4)] Suc.prems(3) by auto
  obtain u r' where "frame hw n j a = Some (msb_bits j (r * 2 mod 256), u)" "shifting n (k + 1 + int j) r' s u"
    using Suc.IH [OF a(3)] Suc.prems(2,3) by auto
  then show ?case using a(1,2) by (auto simp: add.assoc)
qed auto

lemma frame_add:
  "frame hw n (j + k) s = do { (xs, s) \<leftarrow> frame hw n j s; (ys, t) \<leftarrow> frame hw n k s; Some (xs @ ys, t) }"
  by (induction j arbitrary: s) (auto split: bind_splits)

text \<open>
  C11 A byte written to the data buffer of an idle USART with 8 data bits and one
  stop bit leaves TXD as a frame of ten levels: the start level, the eight bits, the stop level. Read
  most significant bit first, whatever the bit order set in UxGCR, the data bits are the byte again. At
  the end the transmitter is free, the transmit flags of UxCSR and IRCON2 are set and UxCSR is no
  longer active.
\<close>

theorem usart_frame_roundtrip:
  assumes "hw_happen hw Hw_DMA = dma_happen" "mem_ok s" "n \<in> {0, 1}" "\<not> u_TX (usarts s n)"
    "\<not> u_queue (usarts s n)" "BitNumber (usarts s n) = 8" "StopBits (usarts s n) = 1" "byte v"
  shows "\<exists>t u bits. usart_write n (u_dbuf n) v s = Some (v, t)
     \<and> frame hw n 10 t = Some (startBitLevel (usarts s n) # bits @ [stopBitLevel (usarts s n)], u)
     \<and> length bits = 8 \<and> received bits = v \<and> \<not> u_TX (usarts u n) \<and> bitTxCnt (usarts u n) = 0
     \<and> cell_get (u_csr n) u = (cell_get (u_csr n) s OR 0x03) AND NOT 0x01
     \<and> cell_get cell_ircon2 u = cell_get cell_ircon2 s OR bmUTXxIF n"
proof -
  define t where "t = upd_usart n (\<lambda>u. u\<lparr>bitTxCnt := 0\<rparr>) (cell_set_bit1 (u_csr n) bmActive
    (upd_usart n (\<lambda>u. u\<lparr>u_TX := True, regForTx := v\<rparr>) s))"
  have w: "usart_write n (u_dbuf n) v s = Some (v, t)"
    using assms(4,6) by (simp add: usart_write_def t_def Let_def) (simp add: upd_usart_def)
  have t: "shifting n 0 v t t" "startBitLevel (usarts t n) = startBitLevel (usarts s n)"
    "stopBitLevel (usarts t n) = stopBitLevel (usarts s n)" "u_TX (usarts t n)"
    "cell_get c t = (if c = u_csr n then cell_get c s OR 1 else cell_get c s)" for c
    using assms by (simp_all add: shifting_def t_def set_bits_poke byte_or)
  obtain a where a: "Shift_out hw n True t = Some ((), a)" "TXD (usarts a n) = startBitLevel (usarts s n)"
    "shifting n 1 v t a"
    using t(1,2) by (simp add: Shift_out_def Let_def shifting_def set_out_pin_def)
  obtain b r where b: "frame hw n 8 a = Some (msb_bits 8 v, b)" "shifting n 9 r t b"
    using shift_data_bits [OF a(3), of 8 hw] assms(8) by auto
  define b1 where "b1 = upd_usart n (\<lambda>u. u\<lparr>bitTxCnt := bitTxCnt u + 1\<rparr>) b"
  define b2 where "b2 = upd_usart n (set_out_pin True (stopBitLevel (usarts b1 n))) b1"
  define c where "c = upd_usart n (\<lambda>u. u\<lparr>u_TX := False, bitTxCnt := 0\<rparr>) b2"
  define d where "d = cell_set_bit1 cell_ircon2 (bmUTXxIF n) (cell_set_bit1 (u_csr n) bmTx_byte c)"
  have d: "mem_ok d" "\<not> u_queue (usarts d n)" "\<not> u_TX (usarts d n)" "bitTxCnt (usarts d n) = 0"
    "TXD (usarts d n) = stopBitLevel (usarts s n)"
    "cell_get (u_csr n) d = (cell_get (u_csr n) s OR 1) OR 2"
    "cell_get cell_ircon2 d = cell_get cell_ircon2 s OR bmUTXxIF n"
    using b(2) t(3,5) assms(2,3)
    by (auto simp: d_def c_def b2_def b1_def shifting_def set_out_pin_def set_bits_poke byte_or u_csr_def bmUTXxIF_def)
  obtain e where e: "dma_happen (if UsartID (usarts d n) = 0 then EV_UTX0 else EV_UTX1) d = Some ((), e)"
    "usarts e = usarts d" "\<forall>c. cell_get c e = cell_get c d" "mem_ok e"
    using dma_happen_keeps [of "if UsartID (usarts d n) = 0 then EV_UTX0 else EV_UTX1" d] d(1) by auto
  define u where "u = cell_set_bit0 (u_csr n) bmActive e"
  have "tx_end hw n b2 = Some ((), u)"
    unfolding tx_end_def Let_def c_def [symmetric] d_def [symmetric] assms(1)
    using e(1,2) d(2) by (simp add: u_def)
  then have so: "Shift_out hw n True b = Some ((), u)"
    using b(2) unfolding Shift_out_def Let_def b1_def [symmetric]
    by (simp add: b2_def b1_def [THEN arg_cong [of _ _ "\<lambda>s. usarts s n"]] shifting_def)
  have u: "TXD (usarts u n) = stopBitLevel (usarts s n)" "\<not> u_TX (usarts u n)"
    "bitTxCnt (usarts u n) = 0" "cell_get (u_csr n) u = (cell_get (u_csr n) s OR 0x03) AND NOT 0x01"
    "cell_get cell_ircon2 u = cell_get cell_ircon2 s OR bmUTXxIF n"
    using e d assms(3) by (auto simp: u_def set_bits_poke u_csr_def or.assoc)
  have f1: "frame hw n 1 b = Some ([stopBitLevel (usarts s n)], u)" using so u(1) by simp
  have "frame hw n (8 + 1) a = Some (msb_bits 8 v @ [stopBitLevel (usarts s n)], u)"
    by (simp only: frame_add b(1) f1 Option.bind_lunit prod.case)
  then have f9: "frame hw n 9 a = Some (msb_bits 8 v @ [stopBitLevel (usarts s n)], u)" by simp
  have ten: "(10::nat) = Suc 9" by simp
  have f: "frame hw n 10 t = Some (startBitLevel (usarts s n) # msb_bits 8 v @ [stopBitLevel (usarts s n)], u)"
    by (simp only: ten frame.simps a(1,2) f9 Option.bind_lunit prod.case append.simps)
  have "length (msb_bits k r) = k" for k r by (induction k arbitrary: r) simp_all
  then show ?thesis using w f u received_msb [OF assms(8)] by blast
qed

definition usart_demo :: cc2530 where
  "usart_demo = boot2530 (\<lambda>_. 0)"

theorem usart_frame_roundtrip_witness:
  "\<exists>t u bits. usart_write 0 (u_dbuf 0) 0x53 usart_demo = Some (0x53, t)
     \<and> frame (base_hw\<lparr>hw_happen := (\<lambda>_. dma_happen)\<rparr>) 0 10 t = Some (False # bits @ [True], u)
     \<and> received bits = 0x53"
proof -
  have "mem_ok usart_demo" unfolding usart_demo_def by (rule boot2530_ok) simp
  moreover have "usarts usart_demo n = idle_usart" for n by (simp add: usart_demo_def)
  ultimately show ?thesis
    using usart_frame_roundtrip [of "base_hw\<lparr>hw_happen := (\<lambda>_. dma_happen)\<rparr>" usart_demo 0 "0x53"]
    by (simp add: idle_usart_def) blast
qed

end
