(* ===== verification/RadioTxFacts.thy ===== *)
theory RadioTxFacts
  imports RadioFacts
begin

text \<open>
  Sending: what the radio puts on the air while it is in the state \<open>TX\<close>, and what becomes of a
  transmission that a strobe starts.
\<close>

subsection \<open>Ticks of the radio\<close>

primrec radio_ticks :: "'z rf_hw \<Rightarrow> nat \<Rightarrow> (unit, 'z) ract" where
  "radio_ticks hw 0 s = Some ((), s)"
| "radio_ticks hw (Suc k) s = do {
     (_, s) \<leftarrow> radio_tick hw (CSP_tick hw) 1 s;
     radio_ticks hw k s
   }"

text \<open>A stopped strobe processor only updates its status register and may raise its interrupt.\<close>

lemma request_keeps:
  "mem_ok s \<Longrightarrow> mem_ok (rf_request msk m flag b s)"
  "mem_ok s \<Longrightarrow> c \<noteq> flag \<Longrightarrow> c \<noteq> cell_s1con \<Longrightarrow> cell_get c (rf_request msk m flag b s) = cell_get c s"
  by (simp_all add: rf_request_def set_bits_poke byte_or byte_and)

lemma stopped_tick:
  assumes "mem_ok s" "csp_stop (CSP s)"
  obtains t where "CSP_tick hw s = Some ((), t)" "rf t = rf s" "mem_ok t"
    "cell_get cell_fsmstat1 t = cell_get cell_fsmstat1 s" "csp_stop (CSP t)"
    "STXON (CSP t) = STXON (CSP s)" "SRXON (CSP t) = SRXON (CSP s)" "SRFOFF (CSP t) = SRFOFF (CSP s)"
proof -
  let ?u = "set_reg 0x61E1 ((cell_get cell_cspstat s AND 0xE0) + csp_PC (CSP s)) s"
  let ?t = "if cell_get (Cell Xram 0x61E5) ?u = 0 then IRQ_CSP_STOP ?u else ?u"
  have "CSP_tick hw s = Some ((), ?t)"
    using assms by (simp add: CSP_tick_def Let_def IRQ_CSP_STOP_def)
  then show ?thesis
    using assms by (intro that [of ?t])
      (auto simp: IRQ_CSP_STOP_def set_reg_poke request_keeps set_bits_poke byte_and)
qed

subsection \<open>The state \<open>TX\<close>\<close>

definition sending :: "'z rf2530_scheme \<Rightarrow> bool" where
  "sending s \<longleftrightarrow> mem_ok s \<and> csp_stop (CSP s) \<and> \<not> STXON (CSP s) \<and> \<not> SRXON (CSP s) \<and> \<not> SRFOFF (CSP s)
     \<and> fsm_st (rf s) = TX \<and> \<not> RX_ACTIVE (rf s) \<and> \<not> underflow (rf s) \<and> \<not> frame_sent (rf s)
     \<and> \<not> RxEnableWhenTxComplete (rf s)"

definition sfd_sent :: "'z rf2530_scheme \<Rightarrow> bool" where
  "sfd_sent s \<longleftrightarrow> cell_get cell_fsmstat1 s AND SFDbm \<noteq> 0"

lemma sfd_bit: "sfd_sent s \<longleftrightarrow> bit (cell_get cell_fsmstat1 s) 5"
  by (simp add: sfd_sent_def and_single_bit)

lemma sfd_set:
  assumes "mem_ok s"
  shows "sfd_sent (cell_set_bit1 cell_fsmstat1 SFDbm s)" "\<not> sfd_sent (cell_set_bit0 cell_fsmstat1 SFDbm s)"
    "sfd_sent (fsm_status s) = sfd_sent s" "mem_ok (fsm_status s)"
  using assms by (auto simp: sfd_bit fsm_status_def set_bits_poke byte_or byte_and bit_simps)

lemma sfd_cong: "cell_get cell_fsmstat1 t = cell_get cell_fsmstat1 s \<Longrightarrow> sfd_sent t = sfd_sent s"
  by (simp add: sfd_sent_def)

text \<open>One byte: the start delimiter, then every second byte of the FIFO.\<close>

definition tx_step :: "'z rf2530_scheme \<Rightarrow> 'z rf2530_scheme \<Rightarrow> bool" where
  "tx_step s t \<longleftrightarrow> sending t \<and> TXFIFO (rf t) = TXFIFO (rf s) \<and> TXframe (rf t) = TXframe (rf s)
     \<and> (if sfd_sent s
        then radio_out (rf t) = TXFIFO (rf s) (TX_PC (rf s)) \<and> TX_PC (rf t) = TX_PC (rf s) + 2
          \<and> sfd_sent t = (TX_PC (rf s) \<noteq> FrameLength (TXframe (rf s)))
        else radio_out (rf t) = SFD \<and> TX_PC (rf t) = 0 \<and> sfd_sent t)"

lemma doTX_step:
  assumes "sending s"
  shows "sfd_sent s \<Longrightarrow> TX_PC (rf s) < 0 \<or> 128 \<le> TX_PC (rf s) \<Longrightarrow> doTX s = None"
    and "\<not> sfd_sent s \<or> 0 \<le> TX_PC (rf s) \<and> TX_PC (rf s) < 128 \<Longrightarrow>
      \<exists>t. doTX s = Some ((), t) \<and> tx_step s t"
proof -
  show "sfd_sent s \<Longrightarrow> TX_PC (rf s) < 0 \<or> 128 \<le> TX_PC (rf s) \<Longrightarrow> doTX s = None"
    by (simp add: doTX_def sfd_sent_def)
  assume "\<not> sfd_sent s \<or> 0 \<le> TX_PC (rf s) \<and> TX_PC (rf s) < 128"
  then show "\<exists>t. doTX s = Some ((), t) \<and> tx_step s t"
    using assms sfd_set [of s]
    by (auto simp: doTX_def sfd_sent_def Let_def tx_step_def sending_def set_bits_poke byte_or
        byte_and set_reg_poke)
qed

definition before_tx :: "'z rf2530_scheme \<Rightarrow> 'z rf2530_scheme" where
  "before_tx s = active True False (upd_rf (\<lambda>f. if Timer f = 0 then f\<lparr>Timeout := True\<rparr> else f)
     (upd_rf (\<lambda>f. if 0 < Timer f then f\<lparr>Timer := Timer f - 1\<rparr> else f) s))"

lemma before_tx_simps [simp]:
  "sending s \<Longrightarrow> sending (before_tx s)" "sfd_sent (before_tx s) = sfd_sent s"
  "TX_PC (rf (before_tx s)) = TX_PC (rf s)" "TXFIFO (rf (before_tx s)) = TXFIFO (rf s)"
  "TXframe (rf (before_tx s)) = TXframe (rf s)"
  by (simp_all add: before_tx_def active_def sending_def sfd_sent_def)

lemma tick_unfold:
  assumes "sending s"
  shows "radio_tick hw (CSP_tick hw) n s = do {
     (_, t) \<leftarrow> doTX (before_tx s);
     (_, u) \<leftarrow> CSP_tick hw (fsm_status t);
     Some ((), upd_rf (\<lambda>f. f\<lparr>Timeout := False, radio_in := (if stateNum f = 3 then SFD else 0)\<rparr>) u)
   }"
proof -
  have "doTX (before_tx s) = None \<or> (\<exists>t. doTX (before_tx s) = Some ((), t) \<and> tx_step (before_tx s) t)"
    using doTX_step [of "before_tx s"] assms
    by (cases "\<not> sfd_sent s \<or> 0 \<le> TX_PC (rf s) \<and> TX_PC (rf s) < 128") auto
  then show ?thesis
    using assms
    by (auto simp: radio_tick_def Let_def fsm_def fsm_strobes_def when_do_def fsm_switch_def
        fsm_tx_def sending_def tx_step_def before_tx_def)
qed

lemma tick_step:
  assumes "sending s"
  shows "sfd_sent s \<Longrightarrow> TX_PC (rf s) < 0 \<or> 128 \<le> TX_PC (rf s) \<Longrightarrow> radio_tick hw (CSP_tick hw) n s = None"
    and "\<not> sfd_sent s \<or> 0 \<le> TX_PC (rf s) \<and> TX_PC (rf s) < 128 \<Longrightarrow>
      \<exists>t. radio_tick hw (CSP_tick hw) n s = Some ((), t) \<and> tx_step s t"
proof -
  show "sfd_sent s \<Longrightarrow> TX_PC (rf s) < 0 \<or> 128 \<le> TX_PC (rf s) \<Longrightarrow> radio_tick hw (CSP_tick hw) n s = None"
    using doTX_step(1) [of "before_tx s"] assms by (auto simp: tick_unfold)
  assume "\<not> sfd_sent s \<or> 0 \<le> TX_PC (rf s) \<and> TX_PC (rf s) < 128"
  then obtain t where t: "doTX (before_tx s) = Some ((), t)" "tx_step (before_tx s) t"
    using doTX_step(2) [of "before_tx s"] assms by auto
  then have st: "mem_ok t" "csp_stop (CSP t)" "sending t" by (auto simp: tx_step_def sending_def)
  moreover have "rf (fsm_status t) = rf t" "CSP (fsm_status t) = CSP t" by (simp_all add: fsm_status_def)
  ultimately obtain u where u: "CSP_tick hw (fsm_status t) = Some ((), u)" "rf u = rf t" "mem_ok u"
    "cell_get cell_fsmstat1 u = cell_get cell_fsmstat1 (fsm_status t)" "csp_stop (CSP u)"
    "STXON (CSP u) = STXON (CSP t)" "SRXON (CSP u) = SRXON (CSP t)" "SRFOFF (CSP u) = SRFOFF (CSP t)"
    using stopped_tick [of "fsm_status t" hw] sfd_set(4) [of t] by metis
  let ?v = "upd_rf (\<lambda>f. f\<lparr>Timeout := False, radio_in := (if stateNum f = 3 then SFD else 0)\<rparr>) u"
  have "sfd_sent ?v = sfd_sent t"
    using u(4) sfd_set(3) [OF st(1)] by (simp add: sfd_sent_def)
  then have "tx_step s ?v"
    using t(2) u st(3) by (simp add: tx_step_def sending_def)
  then show "\<exists>t. radio_tick hw (CSP_tick hw) n s = Some ((), t) \<and> tx_step s t"
    using assms t(1) u(1) by (simp add: tick_unfold)
qed

text \<open>After \<open>k\<close> bytes of a frame whose end has not been met.\<close>

lemma ticks_bytes:
  assumes "sending s" "sfd_sent s" "0 \<le> TX_PC (rf s)" "TX_PC (rf s) + 2 * int k \<le> 128"
    and "\<And>j. j < k \<Longrightarrow> TX_PC (rf s) + 2 * int j \<noteq> FrameLength (TXframe (rf s))"
  shows "\<exists>t. radio_ticks hw k s = Some ((), t) \<and> sending t \<and> sfd_sent t
    \<and> TX_PC (rf t) = TX_PC (rf s) + 2 * int k \<and> TXFIFO (rf t) = TXFIFO (rf s)
    \<and> TXframe (rf t) = TXframe (rf s)
    \<and> (0 < k \<longrightarrow> radio_out (rf t) = TXFIFO (rf s) (TX_PC (rf s) + 2 * int k - 2))"
  using assms
proof (induction k arbitrary: s)
  case (Suc k)
  obtain t where t: "radio_tick hw (CSP_tick hw) 1 s = Some ((), t)" "tx_step s t"
    using tick_step(2) [OF Suc.prems(1), of hw 1] Suc.prems(3,4) by auto
  have n: "TX_PC (rf s) \<noteq> FrameLength (TXframe (rf s))"
    using Suc.prems(5) [of 0] by simp
  have st: "sending t" "sfd_sent t" "TX_PC (rf t) = TX_PC (rf s) + 2" "TXFIFO (rf t) = TXFIFO (rf s)"
    "TXframe (rf t) = TXframe (rf s)" "radio_out (rf t) = TXFIFO (rf s) (TX_PC (rf s))"
    using t(2) n Suc.prems(2) by (simp_all add: tx_step_def)
  have f: "TX_PC (rf t) + 2 * int j \<noteq> FrameLength (TXframe (rf t))" if "j < k" for j
    using Suc.prems(5) [of "Suc j"] that st by (simp add: algebra_simps)
  obtain u where u: "radio_ticks hw k t = Some ((), u)" "sending u" "sfd_sent u"
    "TX_PC (rf u) = TX_PC (rf t) + 2 * int k" "TXFIFO (rf u) = TXFIFO (rf t)"
    "TXframe (rf u) = TXframe (rf t)"
    "0 < k \<longrightarrow> radio_out (rf u) = TXFIFO (rf t) (TX_PC (rf t) + 2 * int k - 2)"
    using Suc.IH [OF st(1,2) _ _ f] Suc.prems(3,4) st(3) by auto
  show ?case
  proof (cases k)
    case 0
    with t u st show ?thesis by auto
  next
    case (Suc m)
    with t u st show ?thesis by (auto simp: algebra_simps)
  qed
qed simp

lemma ticks_end:
  "radio_ticks hw (Suc k) s = do { (_, t) \<leftarrow> radio_ticks hw k s; radio_tick hw (CSP_tick hw) 1 t }"
proof (induction k arbitrary: s)
  case 0
  then show ?case by (cases "radio_tick hw (CSP_tick hw) 1 s") auto
next
  case (Suc k)
  let ?tick = "\<lambda>(_, t). radio_tick hw (CSP_tick hw) 1 t"
  have "radio_ticks hw (Suc (Suc k)) s
      = Option.bind (radio_tick hw (CSP_tick hw) 1 s) (\<lambda>(_, t). Option.bind (radio_ticks hw k t) ?tick)"
    by (simp only: radio_ticks.simps(2) [of hw "Suc k"] Suc)
  also have "\<dots> = Option.bind (radio_ticks hw (Suc k) s) ?tick"
    by (cases "radio_tick hw (CSP_tick hw) 1 s") auto
  finally show ?case .
qed

lemma first_tick:
  assumes "sending s" "\<not> sfd_sent s"
  obtains t where "radio_tick hw (CSP_tick hw) 1 s = Some ((), t)" "sending t" "sfd_sent t"
    "TX_PC (rf t) = 0" "TXFIFO (rf t) = TXFIFO (rf s)" "TXframe (rf t) = TXframe (rf s)"
  using tick_step(2) [OF assms(1), of hw 1] assms(2) by (auto simp: tx_step_def)

text \<open>C15: in the state \<open>TX\<close> the radio sends the start delimiter and then
  every second byte of the FIFO, because the counter advances twice per byte; the byte numbered \<open>k\<close>
  of the frame is the one at \<open>2k\<close>. The end of the frame is only met when its length is even:
  for an odd length the 66th tick reads past the end of the FIFO.\<close>

theorem transmission:
  assumes "sending s" "\<not> sfd_sent s"
  shows "(\<forall>k<64. (\<forall>j<k. 2 * int j \<noteq> FrameLength (TXframe (rf s))) \<longrightarrow>
      (\<exists>t. radio_ticks hw (Suc (Suc k)) s = Some ((), t) \<and> radio_out (rf t) = TXFIFO (rf s) (2 * int k)))
    \<and> (odd (FrameLength (TXframe (rf s))) \<longrightarrow> radio_ticks hw 66 s = None)"
proof (intro conjI allI impI)
  obtain t where t: "radio_tick hw (CSP_tick hw) 1 s = Some ((), t)" "sending t" "sfd_sent t"
    "TX_PC (rf t) = 0" "TXFIFO (rf t) = TXFIFO (rf s)" "TXframe (rf t) = TXframe (rf s)"
    using first_tick [OF assms] .
  show "\<exists>u. radio_ticks hw (Suc (Suc k)) s = Some ((), u) \<and> radio_out (rf u) = TXFIFO (rf s) (2 * int k)"
    if k: "k < 64" "\<forall>j<k. 2 * int j \<noteq> FrameLength (TXframe (rf s))" for k
  proof -
    obtain u where u: "radio_ticks hw k t = Some ((), u)" "sending u" "sfd_sent u"
      "TX_PC (rf u) = 2 * int k" "TXFIFO (rf u) = TXFIFO (rf t)"
      using ticks_bytes [of t k hw] t k by auto
    obtain v where "radio_tick hw (CSP_tick hw) 1 u = Some ((), v)" "tx_step u v"
      using tick_step(2) [OF u(2), of hw 1] u(4) k(1) by auto
    then have "radio_ticks hw (Suc k) t = Some ((), v)" "radio_out (rf v) = TXFIFO (rf s) (2 * int k)"
      using u t(5) by (simp_all add: ticks_end tx_step_def del: radio_ticks.simps)
    then show ?thesis using t(1) by auto
  qed
  assume "odd (FrameLength (TXframe (rf s)))"
  then have "2 * int j \<noteq> FrameLength (TXframe (rf t))" for j
    using t(6) by (metis dvd_triv_left)
  then obtain u where "radio_ticks hw 64 t = Some ((), u)" "sending u" "sfd_sent u" "TX_PC (rf u) = 128"
    using ticks_bytes [of t 64 hw] t by auto
  then have "radio_ticks hw 65 t = None"
    using tick_step(1) [of u hw 1] ticks_end [of hw 64 t] by simp
  then show "radio_ticks hw 66 s = None"
    using t(1) by (simp add: numeral_eq_Suc)
qed

definition tx_example :: rf2530 where
  "tx_example = boot_rf (\<lambda>_. 0) (idle_radio\<lparr>fsm_st := TX, TXframe := blank_frame\<lparr>FrameLength := 5\<rparr>,
     TXFIFO := (\<lambda>i. i)\<rparr>) (idle_csp\<lparr>csp_stop := True\<rparr>)"

lemma tx_example:
  "sending tx_example" "\<not> sfd_sent tx_example" "TXFIFO (rf tx_example) i = i"
  "FrameLength (TXframe (rf tx_example)) = 5"
  by (simp_all add: tx_example_def sending_def sfd_sent_def idle_radio_def idle_csp_def blank_frame_def)

theorem transmission_witness:
  "(\<exists>t. radio_ticks full51 5 tx_example = Some ((), t) \<and> radio_out (rf t) = 6)
     \<and> radio_ticks full51 66 tx_example = None"
proof -
  have "\<forall>j<3. 2 * int j \<noteq> FrameLength (TXframe (rf tx_example))"
    by (simp add: tx_example)
  then have "\<exists>t. radio_ticks full51 (Suc (Suc 3)) tx_example = Some ((), t) \<and> radio_out (rf t) = 6"
    using transmission [OF tx_example(1,2), THEN conjunct1, rule_format, of 3 full51] by (simp add: tx_example)
  moreover have "radio_ticks full51 66 tx_example = None"
    using transmission [OF tx_example(1,2), of full51] by (simp add: tx_example(4))
  ultimately show ?thesis by (simp add: numeral_eq_Suc)
qed

subsection \<open>A transmission started by a strobe\<close>

definition strobed :: "'z rf2530_scheme \<Rightarrow> bool" where
  "strobed s \<longleftrightarrow> mem_ok s \<and> csp_stop (CSP s) \<and> STXON (CSP s) \<and> \<not> SRXON (CSP s) \<and> \<not> SRFOFF (CSP s)
     \<and> \<not> RX_ACTIVE (rf s) \<and> freq (rf s) = 32000000 \<and> \<not> Timeout (rf s)"

lemma strobed_tick:
  assumes "strobed s"
  obtains t where "radio_tick hw (CSP_tick hw) n s = Some ((), t)" "strobed t" "Timer (rf t) = \<infinity>"
    "fsm_st (rf t) = (if Timer (rf s) \<le> 1 then TX else TX_CALIBRATION)"
    "radio_out (rf t) = radio_out (rf s)" "TXFIFO (rf t) = TXFIFO (rf s)"
proof -
  define s' where "s' = upd_rf (\<lambda>f. if Timer f = 0 then f\<lparr>Timeout := True\<rparr> else f)
     (upd_rf (\<lambda>f. if 0 < Timer f then f\<lparr>Timer := Timer f - 1\<rparr> else f) s)"
  define t where "t = fsm_status (on_timeout TX 34 (active True False
     (upd_rf (\<lambda>f. f\<lparr>Timer := \<infinity>\<rparr>) (goto TX_CALIBRATION 32 s'))))"
  have "fsm hw s' = Some ((), t)"
    using assms by (simp add: fsm_def fsm_strobes_def when_do_def start_timer_def fsm_switch_def
        goto_def s'_def t_def strobed_def signed_divide_int_def active_def on_timeout_def)
  moreover have "mem_ok t" "csp_stop (CSP t)" "CSP t = CSP s"
    using assms by (simp_all add: t_def s'_def strobed_def on_timeout_def active_def goto_def
        fsm_status_def set_bits_poke byte_or byte_and)
  ultimately obtain u where u: "CSP_tick hw t = Some ((), u)" "rf u = rf t" "mem_ok u"
    "csp_stop (CSP u)" "STXON (CSP u) = STXON (CSP s)" "SRXON (CSP u) = SRXON (CSP s)"
    "SRFOFF (CSP u) = SRFOFF (CSP s)" and f: "fsm hw s' = Some ((), t)"
    using stopped_tick [of t hw] by metis
  let ?v = "upd_rf (\<lambda>f. f\<lparr>Timeout := False, radio_in := (if stateNum f = 3 then SFD else 0)\<rparr>) u"
  have m: "(Timer (rf s) \<le> 1) = (Timeout (rf s'))"
    using assms by (cases "Timer (rf s)")
      (auto simp: s'_def strobed_def one_enat_def zero_enat_def)
  have r: "rf t = (let f = (rf s')\<lparr>fsm_st := TX_CALIBRATION, stateNum := 32, Timer := \<infinity>,
      TX_ACTIVE := True, RX_ACTIVE := False\<rparr> in
      if Timeout (rf s') then f\<lparr>fsm_st := TX, stateNum := 34, Timeout := False\<rparr> else f)"
    by (simp add: t_def on_timeout_def active_def goto_def fsm_status_def)
  have s': "radio_out (rf s') = radio_out (rf s)" "TXFIFO (rf s') = TXFIFO (rf s)"
    "freq (rf s') = freq (rf s)"
    by (simp_all add: s'_def)
  show ?thesis
  proof (rule that [of ?v])
    show "radio_tick hw (CSP_tick hw) n s = Some ((), ?v)"
      using f u(1) unfolding radio_tick_def Let_def s'_def by simp
  qed (use u assms r m s' in \<open>auto simp: strobed_def Let_def\<close>)
qed

text \<open>C16: a transmission started by the strobe ISTXON through
  \<open>RFST\<close> while the strobe processor is stopped never sends a byte: the strobe is not taken back, so
  every tick returns to calibration and restarts its timer, which is infinite; the output of the
  radio and its FIFO keep their values for ever, and from the second tick on the state is
  \<open>TX_CALIBRATION\<close>.\<close>

theorem strobe_never_sends:
  assumes "mem_ok s" "csp_stop (CSP s)" "\<not> SRXON (CSP s)" "quiet s" "\<not> Timeout (rf s)"
    and "csp_write hw cell_rfst 0xE9 s = Some (w, s0)"
  shows "\<exists>t. radio_ticks hw k s0 = Some ((), t) \<and> radio_out (rf t) = radio_out (rf s)
    \<and> TXFIFO (rf t) = TXFIFO (rf s) \<and> (2 \<le> k \<longrightarrow> fsm_st (rf t) = TX_CALIBRATION)"
proof -
  have s0: "strobed s0" "radio_out (rf s0) = radio_out (rf s)" "TXFIFO (rf s0) = TXFIFO (rf s)"
    using assms quietD [OF assms(4)]
    by (cases "csp_PC (CSP s) = 23"; auto simp: istxon_strobe strobed_def inst_istxon_def pc_to_def wrap_pc_def)+
  have "\<exists>t. radio_ticks hw k s0 = Some ((), t) \<and> strobed t \<and> radio_out (rf t) = radio_out (rf s)
      \<and> TXFIFO (rf t) = TXFIFO (rf s) \<and> (1 \<le> k \<longrightarrow> Timer (rf t) = \<infinity>)
      \<and> (2 \<le> k \<longrightarrow> fsm_st (rf t) = TX_CALIBRATION)"
  proof (induction k)
    case (Suc k)
    then obtain t where t: "radio_ticks hw k s0 = Some ((), t)" "strobed t"
      "radio_out (rf t) = radio_out (rf s)" "TXFIFO (rf t) = TXFIFO (rf s)"
      "1 \<le> k \<longrightarrow> Timer (rf t) = \<infinity>" by blast
    obtain u where u: "radio_tick hw (CSP_tick hw) 1 t = Some ((), u)" "strobed u" "Timer (rf u) = \<infinity>"
      "fsm_st (rf u) = (if Timer (rf t) \<le> 1 then TX else TX_CALIBRATION)"
      "radio_out (rf u) = radio_out (rf t)" "TXFIFO (rf u) = TXFIFO (rf t)"
      using strobed_tick [OF t(2), of hw 1] by metis
    have "radio_ticks hw (Suc k) s0 = Some ((), u)"
      using t(1) u(1) by (simp add: ticks_end del: radio_ticks.simps)
    moreover have "2 \<le> Suc k \<longrightarrow> fsm_st (rf u) = TX_CALIBRATION"
      using u(4) t(5) by auto
    ultimately show ?case using t u by auto
  qed (use s0 in auto)
  then show ?thesis by blast
qed

definition stopped_example :: rf2530 where
  "stopped_example = boot_rf (\<lambda>_. 0) idle_radio (idle_csp\<lparr>csp_stop := True\<rparr>)"

theorem strobe_never_sends_witness:
  "\<exists>s0 t. csp_write full51 cell_rfst 0xE9 stopped_example = Some (0xE9, s0)
     \<and> radio_ticks full51 1000 s0 = Some ((), t) \<and> radio_out (rf t) = 0
     \<and> fsm_st (rf t) = TX_CALIBRATION"
proof -
  have e: "mem_ok stopped_example" "csp_stop (CSP stopped_example)" "\<not> SRXON (CSP stopped_example)"
    "quiet stopped_example" "\<not> Timeout (rf stopped_example)" "radio_out (rf stopped_example) = 0"
    by (simp_all add: stopped_example_def idle_radio_def idle_csp_def quiet_def quiet_rv_def rv_def)
  show ?thesis
    using strobe_never_sends [OF e(1-5) istxon_strobe, where k = 1000 and hw = full51] e(6) istxon_strobe by auto
qed

end
