(* ===== verification/RadioRegFacts.thy ===== *)
theory RadioRegFacts
  imports RadioFacts
begin

text \<open>
  The source address table, the acknowledgement frame and the program of the strobe processor.
\<close>

subsection \<open>The source address table\<close>

lemma to_int32_signed: "to_int32 x = signed_take_bit 31 x"
proof -
  have "(x mod 2 ^ 32 < 2 ^ 31) = (\<not> bit x 31)"
  proof -
    have "x mod 2 ^ 32 div 2 ^ 31 = x div 2 ^ 31 mod 2"
      using zmod_zmult2_eq [of 2 x "2 ^ 31"] by (simp add: mult.commute)
    moreover have "0 \<le> x mod 2 ^ 32" "x mod 2 ^ 32 < 2 ^ 32" by simp_all
    ultimately show ?thesis
      by (auto simp: bit_iff_odd odd_iff_mod_2_eq_one)
  qed
  then show ?thesis
    by (simp add: to_int32_def Let_def signed_take_bit_eq_take_bit_minus take_bit_eq_mod)
qed

lemma bit_to_int32: "bit (to_int32 x) n = bit x (min n 31)"
  by (simp add: to_int32_signed bit_signed_take_bit_iff min.commute)

lemma to_int32_idem [simp]: "to_int32 (to_int32 x) = to_int32 x"
  by (simp add: to_int32_signed)

text \<open>One byte of a 32-bit address is replaced.\<close>

definition put_byte :: "nat \<Rightarrow> int \<Rightarrow> int \<Rightarrow> int" where
  "put_byte j v e = to_int32 ((e AND ((0xFF * 2 ^ (8 * j)) XOR 0xFFFFFFFF)) OR (v * 2 ^ (8 * j)))"

lemma bit_masks: "bit (255 :: int) n \<longleftrightarrow> n < 8" "bit (4294967295 :: int) n \<longleftrightarrow> n < 32"
proof -
  have "(255 :: int) = mask 8" "(4294967295 :: int) = mask 32"
    by (simp_all add: mask_eq_exp_minus_1)
  then show "bit (255 :: int) n \<longleftrightarrow> n < 8" "bit (4294967295 :: int) n \<longleftrightarrow> n < 32"
    by (simp_all only: bit_mask_iff possible_bit_int simp_thms)
qed

lemma bit_put_byte:
  assumes "byte v" "j < 4" "n < 32"
  shows "bit (put_byte j v e) n = (if 8 * j \<le> n \<and> n < 8 * j + 8 then bit v (n - 8 * j) else bit e n)"
  using assms byte_bit_high [OF assms(1), of "n - 8 * j"]
  by (auto simp: put_byte_def bit_to_int32 bit_masks bit_simps simp flip: push_bit_eq_mult)

lemma bytes_concat:
  assumes "byte b0" "byte b1" "byte b2"
  shows "b0 + 2 ^ 8 * b1 + 2 ^ 16 * b2 + 2 ^ 24 * b3 = concat_bit 8 b0 (concat_bit 8 b1 (concat_bit 8 b2 b3))"
  using assms by (simp add: concat_bit_eq take_bit_eq_mod push_bit_eq_mult)

lemma int32_eqI: "(\<And>n. n < 32 \<Longrightarrow> bit x n = bit y n) \<Longrightarrow> to_int32 x = to_int32 y"
  by (rule bit_eqI) (simp add: bit_to_int32)

lemma put_bytes:
  assumes "byte b0" "byte b1" "byte b2" "byte b3"
  shows "put_byte 3 b3 (put_byte 2 b2 (put_byte 1 b1 (put_byte 0 b0 e)))
    = to_int32 (b0 + 2 ^ 8 * b1 + 2 ^ 16 * b2 + 2 ^ 24 * b3)"
proof -
  have "put_byte j v e = to_int32 (put_byte j v e)" for j v e
    by (simp add: put_byte_def)
  moreover have "to_int32 (put_byte 3 b3 (put_byte 2 b2 (put_byte 1 b1 (put_byte 0 b0 e))))
      = to_int32 (concat_bit 8 b0 (concat_bit 8 b1 (concat_bit 8 b2 b3)))"
  proof (rule int32_eqI)
    fix n :: nat
    assume "n < 32"
    then show "bit (put_byte 3 b3 (put_byte 2 b2 (put_byte 1 b1 (put_byte 0 b0 e)))) n
        = bit (concat_bit 8 b0 (concat_bit 8 b1 (concat_bit 8 b2 b3))) n"
      using assms by (auto simp: bit_put_byte bit_concat_bit_iff)
  qed
  ultimately show ?thesis
    unfolding bytes_concat [OF assms(1-3)] by metis
qed

lemma table_write_fields:
  assumes "0 \<le> i" "i < 8"
  shows "ExtAddr (table_write (8 * k + i) v r) = (ExtAddr r)(k := (ExtAddr r k)
      (i div 4 := put_byte (nat (i mod 4)) v (ExtAddr r k (i div 4))))"
    and "PanId (table_write (8 * k + i) v r) =
      (if i mod 4 = 0 then (PanId r)(2 * k + i div 4 := (PanId r (2 * k + i div 4) AND 0xFF00) + (v AND 0xFF))
       else if i mod 4 = 1
       then (PanId r)(2 * k + i div 4 := (PanId r (2 * k + i div 4) AND 0x00FF) + (v AND 0xFF) * 2 ^ 8)
       else PanId r)"
    and "shortAddr (table_write (8 * k + i) v r) =
      (if i mod 4 = 0 \<or> i mod 4 = 1 then shortAddr r
       else if i mod 4 = 2
       then (shortAddr r)(2 * k + i div 4 := (shortAddr r (2 * k + i div 4) AND 0xFF00) + (v AND 0xFF))
       else (shortAddr r)(2 * k + i div 4 := (shortAddr r (2 * k + i div 4) AND 0x00FF) + (v AND 0xFF) * 2 ^ 8))"
proof -
  have d: "(8 * k + i) div 4 = 2 * k + i div 4" "8 * k + i - (2 * k + i div 4) * 4 = i mod 4"
    "(2 * k + i div 4) div 2 = k" "8 * k + i - k * 8 = i"
    using assms by presburger+
  have m: "i div 4 = (if 4 \<le> i then 1 else 0)" "i mod 4 = (if 4 \<le> i then i - 4 else i)"
    using assms by presburger+
  have p: "nat (8 * j) = 8 * nat j" if "0 \<le> j" for j
    using that by simp
  show "ExtAddr (table_write (8 * k + i) v r) = (ExtAddr r)(k := (ExtAddr r k)
      (i div 4 := put_byte (nat (i mod 4)) v (ExtAddr r k (i div 4))))"
    unfolding table_write_def Let_def d using assms by (simp add: put_byte_def m p)
  show "PanId (table_write (8 * k + i) v r) =
      (if i mod 4 = 0 then (PanId r)(2 * k + i div 4 := (PanId r (2 * k + i div 4) AND 0xFF00) + (v AND 0xFF))
       else if i mod 4 = 1
       then (PanId r)(2 * k + i div 4 := (PanId r (2 * k + i div 4) AND 0x00FF) + (v AND 0xFF) * 2 ^ 8)
       else PanId r)"
    unfolding table_write_def Let_def d by simp
  show "shortAddr (table_write (8 * k + i) v r) =
      (if i mod 4 = 0 \<or> i mod 4 = 1 then shortAddr r
       else if i mod 4 = 2
       then (shortAddr r)(2 * k + i div 4 := (shortAddr r (2 * k + i div 4) AND 0xFF00) + (v AND 0xFF))
       else (shortAddr r)(2 * k + i div 4 := (shortAddr r (2 * k + i div 4) AND 0x00FF) + (v AND 0xFF) * 2 ^ 8))"
    unfolding table_write_def Let_def d by simp
qed

lemma and_bytes:
  assumes "byte b"
  shows "((x AND 65280) + b) mod 256 = b"
proof -
  have "(65280 :: int) = push_bit 8 (mask 8)" by (simp add: push_bit_eq_mult mask_eq_exp_minus_1)
  then have "x AND 65280 = push_bit 8 (take_bit 8 (drop_bit 8 x))" by (metis and_field)
  then show ?thesis
    using assms by (simp add: push_bit_eq_mult)
qed

primrec table_fold :: "int \<Rightarrow> t_mem list \<Rightarrow> radio \<Rightarrow> radio" where
  "table_fold n [] r = r"
| "table_fold n (v # vs) r = table_fold (n + 1) vs (table_write n v r)"

text \<open>Writing the eight bytes of an entry.\<close>

lemma table_entry:
  fixes k :: int and r r' :: radio
  assumes "byte b0" "byte b1" "byte b2" "byte b3" "byte b4" "byte b5" "byte b6" "byte b7"
    and r'_def: "r' = table_fold (8 * k) [b0, b1, b2, b3, b4, b5, b6, b7] r"
  shows "ExtAddr r' k 0 = to_int32 (b0 + 2 ^ 8 * b1 + 2 ^ 16 * b2 + 2 ^ 24 * b3)"
    "ExtAddr r' k 1 = to_int32 (b4 + 2 ^ 8 * b5 + 2 ^ 16 * b6 + 2 ^ 24 * b7)"
    "PanId r' (2 * k) = b0 + 2 ^ 8 * b1" "shortAddr r' (2 * k) = b2 + 2 ^ 8 * b3"
    "PanId r' (2 * k + 1) = b4 + 2 ^ 8 * b5" "shortAddr r' (2 * k + 1) = b6 + 2 ^ 8 * b7"
proof -
  note f = table_write_fields [of 0, simplified] table_write_fields [of 1, simplified]
    table_write_fields [of 2, simplified] table_write_fields [of 3, simplified]
    table_write_fields [of 4, simplified] table_write_fields [of 5, simplified]
    table_write_fields [of 6, simplified] table_write_fields [of 7, simplified]
  show "ExtAddr r' k 0 = to_int32 (b0 + 2 ^ 8 * b1 + 2 ^ 16 * b2 + 2 ^ 24 * b3)"
    "ExtAddr r' k 1 = to_int32 (b4 + 2 ^ 8 * b5 + 2 ^ 16 * b6 + 2 ^ 24 * b7)"
    using put_bytes [OF assms(1-4)] put_bytes [OF assms(5-8)] by (simp_all add: r'_def f add.commute [of _ "8 * k"])
  show "PanId r' (2 * k) = b0 + 2 ^ 8 * b1" "shortAddr r' (2 * k) = b2 + 2 ^ 8 * b3"
    "PanId r' (2 * k + 1) = b4 + 2 ^ 8 * b5" "shortAddr r' (2 * k + 1) = b6 + 2 ^ 8 * b7"
    using assms by (simp_all add: f and_bytes add.commute [of _ "8 * k"])
qed

lemma watched_write:
  assumes "0x6100 \<le> a" "a \<le> 0x615F" "ops s (Cell Xram a) = [Hw_op d Hw_CC2530radio]"
    and "hw_write hw Hw_CC2530radio = radio_rf_write" "byte v"
  shows "as_write hw Xram a v s = Some (v, store d v (upd_rf (table_write (a - 0x6100) v) s))"
  using assms by (simp add: as_write_def xram_write_def cells_write_def cells_at_def out_of_space_def
      cell_write.simps Let_def radio_rf_write_def cell_rfd_def cell_clkconcmd_rf_def IsWithinRange_def)

lemma store_ops [simp]: "ops (store d v s) = ops s"
  by (simp add: store_def)

lemma write_table_rf:
  assumes "hw_write hw Hw_CC2530radio = radio_rf_write"
  shows "0x6100 \<le> a \<Longrightarrow> a + int (length vs) \<le> 0x6160 \<Longrightarrow> \<forall>v\<in>set vs. byte v \<Longrightarrow>
    (\<And>i. a \<le> i \<Longrightarrow> i < a + int (length vs) \<Longrightarrow> \<exists>d. ops s (Cell Xram i) = [Hw_op d Hw_CC2530radio]) \<Longrightarrow>
    \<exists>t. write_table hw a vs s = Some ((), t) \<and> rf t = table_fold (a - 0x6100) vs (rf s)"
proof (induction vs arbitrary: a s)
  case (Cons v vs)
  obtain d where d: "ops s (Cell Xram a) = [Hw_op d Hw_CC2530radio]"
    using Cons.prems(4) [of a] by auto
  have w: "as_write hw Xram a v s = Some (v, store d v (upd_rf (table_write (a - 0x6100) v) s))"
    using Cons.prems by (intro watched_write [OF _ _ d assms]) auto
  show ?case
    using Cons.IH [of "a + 1" "store d v (upd_rf (table_write (a - 0x6100) v) s)"] Cons.prems w
    by (simp add: algebra_simps)
qed simp

lemma radio_write_layers:
  "hw_write (core51_hwif x) Hw_CC2530radio = hw_write x Hw_CC2530radio"
  "hw_write (ctl_hwif y x) Hw_CC2530radio = hw_write x Hw_CC2530radio"
  "hw_write (comm_hwif y x) Hw_CC2530radio = hw_write x Hw_CC2530radio"
  "hw_write (radio_hwif y) Hw_CC2530radio = radio_rf_write"
  by (simp_all add: core51_hwif_def ctl_hwif_def comm_hwif_def radio_hwif_def)

lemma full_radio_write: "hw_write full51 Hw_CC2530radio = radio_rf_write"
proof -
  have "full51 = full_hw (Suc 4)" by (simp add: full51_def)
  then show ?thesis
    by (metis full_hw.simps(2) radio_write_layers)
qed

text \<open>C17: the eight bytes a program writes to an entry of the
  source address table in the data space are, for the radio, one extended address, two halves of
  four bytes each, least significant byte first, and two pairs of PAN identifier and short address
  of two bytes each.\<close>

theorem address_table_roundtrip:
  assumes "0 \<le> k" "k < 12" "byte b0" "byte b1" "byte b2" "byte b3" "byte b4" "byte b5" "byte b6" "byte b7"
    and "\<And>i. 0x6100 + 8 * k \<le> i \<Longrightarrow> i < 0x6108 + 8 * k \<Longrightarrow>
      \<exists>d. ops s (Cell Xram i) = [Hw_op d Hw_CC2530radio]"
  shows "\<exists>t. write_table full51 (0x6100 + 8 * k) [b0, b1, b2, b3, b4, b5, b6, b7] s = Some ((), t)
    \<and> ExtAddr (rf t) k 0 = to_int32 (b0 + 2 ^ 8 * b1 + 2 ^ 16 * b2 + 2 ^ 24 * b3)
    \<and> ExtAddr (rf t) k 1 = to_int32 (b4 + 2 ^ 8 * b5 + 2 ^ 16 * b6 + 2 ^ 24 * b7)
    \<and> PanId (rf t) (2 * k) = b0 + 2 ^ 8 * b1 \<and> shortAddr (rf t) (2 * k) = b2 + 2 ^ 8 * b3
    \<and> PanId (rf t) (2 * k + 1) = b4 + 2 ^ 8 * b5 \<and> shortAddr (rf t) (2 * k + 1) = b6 + 2 ^ 8 * b7"
proof -
  have "\<exists>t. write_table full51 (0x6100 + 8 * k) [b0, b1, b2, b3, b4, b5, b6, b7] s = Some ((), t)
      \<and> rf t = table_fold (0x6100 + 8 * k - 0x6100) [b0, b1, b2, b3, b4, b5, b6, b7] (rf s)"
    by (rule write_table_rf [OF full_radio_write]) (use assms in auto)
  then obtain t where t: "write_table full51 (0x6100 + 8 * k) [b0, b1, b2, b3, b4, b5, b6, b7] s = Some ((), t)"
    "rf t = table_fold (8 * k) [b0, b1, b2, b3, b4, b5, b6, b7] (rf s)"
    by auto
  show ?thesis
    using t(1) table_entry [OF assms(3-10) t(2)] by blast
qed

definition watched_example :: rf2530 where
  "watched_example = (boot_rf (\<lambda>_. 0) idle_radio idle_csp)
     \<lparr>ops := (\<lambda>c. case c of Cell Xram a \<Rightarrow> [Hw_op (Priv_slot c) Hw_CC2530radio] | _ \<Rightarrow> [])\<rparr>"

theorem address_table_roundtrip_witness:
  "\<exists>t. write_table full51 (0x6100 + 8 * 3) [1, 2, 3, 4, 5, 6, 7, 0x88] watched_example = Some ((), t)
     \<and> ExtAddr (rf t) 3 0 = 0x04030201 \<and> ExtAddr (rf t) 3 1 = 0x88070605 - 2 ^ 32
     \<and> PanId (rf t) 6 = 0x0201 \<and> shortAddr (rf t) 6 = 0x0403
     \<and> PanId (rf t) 7 = 0x0605 \<and> shortAddr (rf t) 7 = 0x8807"
proof -
  have o: "\<exists>d. ops watched_example (Cell Xram i) = [Hw_op d Hw_CC2530radio]" for i
    by (simp add: watched_example_def)
  show ?thesis
    using address_table_roundtrip [of 3 1 2 3 4 5 6 7 "0x88" watched_example] o
    by (simp add: to_int32_def)
qed

subsection \<open>Acknowledgement frames\<close>

text \<open>C18: an acknowledgement that one radio prepares, received by
  another, is decoded without error and then rejected by the frame filter, whatever the filter
  registers: the frame control field is sent low byte first and read high byte first, so the frame
  looks like a beacon without source address.\<close>

theorem own_ack_rejected:
  assumes "RXFIFO (rf t) = TXFIFO (rf (set_ack s))"
  shows "\<exists>u. Decode_frame hw t = Some ((), u) \<and> \<not> fst (filter_frame u)"
proof -
  define r where "r = rf t"
  define f where "f = header_fields (RXFIFO r) (RXframe r)"
  have "FCF f = 0x200 \<or> FCF f = 0x1200" "FrameLength f = 6"
    using assms by (auto simp: f_def r_def header_fields_def set_ack_def Let_def to_schar_def)
  moreover have "SrcAddressMode f = (FCF f div 2 ^ 14) AND 3"
    "DestAddressMode f = (FCF f div 2 ^ 10) AND 3"
    by (simp_all add: f_def header_fields_def Let_def)
  ultimately have f: "SrcAddressMode f = 0" "DestAddressMode f = 0" "FCF f AND 7 = 0" "FCF f AND 3 = 0"
    "FrameLength f AND 127 = 6"
    by auto
  then have "\<not> filter_checks q x y (f\<lparr>FrameLength := 6, FrameType := modified_type y (FCF f)\<rparr>)" for q x y
    by (simp add: filter_checks_def modified_type_def Let_def)
  with f show ?thesis
    by (simp add: Decode_frame_def Let_def r_def [symmetric] f_def [symmetric] set_destination_def
        filter_frame_def)
qed

theorem own_ack_rejected_witness:
  "\<exists>u. Decode_frame full51 (boot_rf (\<lambda>_. 0xFF) (idle_radio\<lparr>RXFIFO := TXFIFO (rf (set_ack
       (boot_rf (\<lambda>_. 0xFF) idle_radio idle_csp)))\<rparr>) idle_csp) = Some ((), u)
     \<and> \<not> fst (filter_frame u)"
  by (rule own_ack_rejected [where s = "boot_rf (\<lambda>_. 0xFF) idle_radio idle_csp"]) simp

subsection \<open>Programs of the strobe processor\<close>

primrec csp_ticks :: "'z rf_hw \<Rightarrow> nat \<Rightarrow> (unit, 'z) ract" where
  "csp_ticks hw 0 s = Some ((), s)"
| "csp_ticks hw (Suc k) s = do { (_, s) \<leftarrow> CSP_tick hw s; csp_ticks hw k s }"

definition at_label :: "'z rf2530_scheme \<Rightarrow> bool" where
  "at_label s \<longleftrightarrow> (let p = csp_PC (CSP s); c = Cell Xram (0x61C0 + p) in
     mem_ok s \<and> 0 \<le> p \<and> p < 24 \<and> \<not> csp_stop (CSP s) \<and> cell_get (Cell Xram 0x61E5) s \<noteq> 0
     \<and> ops s c = [] \<and> cell_get c s = 0xBB)"

lemma label_tick:
  assumes "at_label s"
  shows "\<exists>t. CSP_tick hw s = Some ((), t) \<and> at_label t \<and> csp_PC (CSP t) = csp_PC (CSP s)
    \<and> csp_label (CSP t) = csp_PC (CSP s) + 1 \<and> rf t = rf s"
proof -
  let ?p = "csp_PC (CSP s)"
  let ?u = "set_reg 0x61E1 ((cell_get cell_cspstat s AND 0xE0) + ?p) s"
  have u: "?u = poke cell_cspstat (((cell_get cell_cspstat s AND 0xE0) + ?p) mod 256) s"
    by (simp add: set_reg_def set_poke)
  have p: "0 \<le> ?p" "?p < 24" "mem_ok s" using assms by (simp_all add: at_label_def Let_def)
  have g: "cell_get c ?u = cell_get c s" if "c \<noteq> cell_cspstat" for c
    using that p(3) by (simp add: u)
  have read: "as_read hw Xram (0x61C0 + ?p) ?u = Some (0xBB, ?u)"
    using assms g by (subst window_read_plain) (auto simp: at_label_def Let_def)
  have exec: "csp_exec hw 0xBB ?u = Some ((), upd_csp (\<lambda>c. c\<lparr>csp_label := csp_PC c + 1\<rparr>) ?u)"
    using p by (simp add: csp_exec_def when_do_def inst_other_def inst_label_def wrap_pc_def upd_csp_def)
  let ?t = "upd_csp (\<lambda>c. c\<lparr>csp_label := csp_PC c + 1\<rparr>) ?u"
  have "mem_ok ?t" using p(3) by (simp add: u)
  have "CSP_tick hw s = Some ((), ?t)"
    using assms g read exec by (simp add: CSP_tick_def Let_def at_label_def)
  moreover have "at_label ?t"
    using assms g \<open>mem_ok ?t\<close> by (simp add: at_label_def Let_def)
  ultimately show ?thesis by auto
qed

text \<open>C19: a program of the strobe processor never gets past a LABEL
  instruction: however long it runs, the program counter stays where it is, so no loop written
  with LABEL and RPT is ever entered.\<close>

theorem label_never_passed:
  assumes "at_label s"
  shows "\<exists>t. csp_ticks hw k s = Some ((), t) \<and> csp_PC (CSP t) = csp_PC (CSP s)
    \<and> \<not> csp_stop (CSP t) \<and> rf t = rf s"
proof -
  have "\<exists>t. csp_ticks hw k s = Some ((), t) \<and> at_label t \<and> csp_PC (CSP t) = csp_PC (CSP s) \<and> rf t = rf s"
    using assms
  proof (induction k arbitrary: s)
    case (Suc k)
    obtain t where "CSP_tick hw s = Some ((), t)" "at_label t" "csp_PC (CSP t) = csp_PC (CSP s)"
      "rf t = rf s" using label_tick [OF Suc.prems] by blast
    with Suc.IH [of t] show ?case by simp
  qed simp
  then show ?thesis by (auto simp: at_label_def Let_def)
qed

theorem label_never_passed_witness:
  "\<exists>t. csp_ticks full51 1000 (boot_rf (\<lambda>_. 0xBB) idle_radio (idle_csp\<lparr>csp_PC := 2\<rparr>)) = Some ((), t)
     \<and> csp_PC (CSP t) = 2 \<and> \<not> csp_stop (CSP t) \<and> rf t = idle_radio"
proof -
  have "mem_ok (boot_rf (\<lambda>_. 0xBB) idle_radio (idle_csp\<lparr>csp_PC := 2\<rparr>))"
    by (rule boot_rf_ok) simp
  then have "at_label (boot_rf (\<lambda>_. 0xBB) idle_radio (idle_csp\<lparr>csp_PC := 2\<rparr>))"
    by (simp add: at_label_def Let_def boot51_def idle_csp_def)
  then show ?thesis
    using label_never_passed [where k = 1000 and hw = full51] by (fastforce simp: idle_csp_def)
qed

end
