(* ===== verification/Dis51.thy ===== *)
theory Dis51
  imports Exec51
begin

text \<open>
  The disassembler of the 8051: the instruction table \<open>disass_51\<close> and the name tables of \<open>glob.cc\<close>,
  \<open>cl_51core::disass\<close> (\<open>uc51.cc\<close>) and the table searches of \<open>cl_uc\<close> (\<open>uc.cc\<close>). An address is
  printed as the source prints it, through \<open>%x\<close> and \<open>%hx\<close>. The type of the processor, which selects
  the names that apply, is the argument \<open>ty\<close>.
\<close>

subsection \<open>The tables\<close>

record dis_entry =
  d_code :: int
  d_mask :: int
  d_branch :: char
  d_length :: int
  d_mnemonic :: string

type_synonym name_entry = "int \<times> t_addr \<times> string"

definition dis :: "int \<Rightarrow> char \<Rightarrow> int \<Rightarrow> string \<Rightarrow> dis_entry" where
  "dis c b n m = \<lparr>d_code = c, d_mask = 0xff, d_branch = b, d_length = n, d_mnemonic = m\<rparr>"

definition disass_51_0 :: "dis_entry list" where
  "disass_51_0 =
    [dis 0x00 CHR '' '' 1 ''NOP'',
     dis 0x01 CHR ''A'' 2 ''AJMP %A'',
     dis 0x02 CHR ''L'' 3 ''LJMP %l'',
     dis 0x03 CHR '' '' 1 ''RR A'',
     dis 0x04 CHR '' '' 1 ''INC A'',
     dis 0x05 CHR '' '' 2 ''INC %a'',
     dis 0x06 CHR '' '' 1 ''INC @R0'',
     dis 0x07 CHR '' '' 1 ''INC @R1'',
     dis 0x08 CHR '' '' 1 ''INC R0'',
     dis 0x09 CHR '' '' 1 ''INC R1'',
     dis 0x0a CHR '' '' 1 ''INC R2'',
     dis 0x0b CHR '' '' 1 ''INC R3'',
     dis 0x0c CHR '' '' 1 ''INC R4'',
     dis 0x0d CHR '' '' 1 ''INC R5'',
     dis 0x0e CHR '' '' 1 ''INC R6'',
     dis 0x0f CHR '' '' 1 ''INC R7'',
     dis 0x10 CHR ''R'' 3 ''JBC %b,%R'',
     dis 0x11 CHR ''a'' 2 ''ACALL %A'',
     dis 0x12 CHR ''l'' 3 ''LCALL %l'',
     dis 0x13 CHR '' '' 1 ''RRC A'',
     dis 0x14 CHR '' '' 1 ''DEC A'',
     dis 0x15 CHR '' '' 2 ''DEC %a'',
     dis 0x16 CHR '' '' 1 ''DEC @R0'',
     dis 0x17 CHR '' '' 1 ''DEC @R1'',
     dis 0x18 CHR '' '' 1 ''DEC R0'',
     dis 0x19 CHR '' '' 1 ''DEC R1'',
     dis 0x1a CHR '' '' 1 ''DEC R2'',
     dis 0x1b CHR '' '' 1 ''DEC R3'',
     dis 0x1c CHR '' '' 1 ''DEC R4'',
     dis 0x1d CHR '' '' 1 ''DEC R5'',
     dis 0x1e CHR '' '' 1 ''DEC R6'',
     dis 0x1f CHR '' '' 1 ''DEC R7'',
     dis 0x20 CHR ''R'' 3 ''JB %b,%R'',
     dis 0x21 CHR ''A'' 2 ''AJMP %A'',
     dis 0x22 CHR ''_'' 1 ''RET'',
     dis 0x23 CHR '' '' 1 ''RL A'',
     dis 0x24 CHR '' '' 2 ''ADD A,#%d'',
     dis 0x25 CHR '' '' 2 ''ADD A,%a'',
     dis 0x26 CHR '' '' 1 ''ADD A,@R0'',
     dis 0x27 CHR '' '' 1 ''ADD A,@R1'',
     dis 0x28 CHR '' '' 1 ''ADD A,R0'',
     dis 0x29 CHR '' '' 1 ''ADD A,R1'',
     dis 0x2a CHR '' '' 1 ''ADD A,R2'',
     dis 0x2b CHR '' '' 1 ''ADD A,R3'',
     dis 0x2c CHR '' '' 1 ''ADD A,R4'',
     dis 0x2d CHR '' '' 1 ''ADD A,R5'',
     dis 0x2e CHR '' '' 1 ''ADD A,R6'',
     dis 0x2f CHR '' '' 1 ''ADD A,R7'',
     dis 0x30 CHR ''R'' 3 ''JNB %b,%R'',
     dis 0x31 CHR ''a'' 2 ''ACALL %A'',
     dis 0x32 CHR ''_'' 1 ''RETI'',
     dis 0x33 CHR '' '' 1 ''RLC A'',
     dis 0x34 CHR '' '' 2 ''ADDC A,#%d'',
     dis 0x35 CHR '' '' 2 ''ADDC A,%a'',
     dis 0x36 CHR '' '' 1 ''ADDC A,@R0'',
     dis 0x37 CHR '' '' 1 ''ADDC A,@R1'',
     dis 0x38 CHR '' '' 1 ''ADDC A,R0'',
     dis 0x39 CHR '' '' 1 ''ADDC A,R1'',
     dis 0x3a CHR '' '' 1 ''ADDC A,R2'',
     dis 0x3b CHR '' '' 1 ''ADDC A,R3'',
     dis 0x3c CHR '' '' 1 ''ADDC A,R4'',
     dis 0x3d CHR '' '' 1 ''ADDC A,R5'',
     dis 0x3e CHR '' '' 1 ''ADDC A,R6'',
     dis 0x3f CHR '' '' 1 ''ADDC A,R7'']"

definition disass_51_1 :: "dis_entry list" where
  "disass_51_1 =
    [dis 0x40 CHR ''r'' 2 ''JC %r'',
     dis 0x41 CHR ''A'' 2 ''AJMP %A'',
     dis 0x42 CHR '' '' 2 ''ORL %a,A'',
     dis 0x43 CHR '' '' 3 ''ORL %a,#%D'',
     dis 0x44 CHR '' '' 2 ''ORL A,#%d'',
     dis 0x45 CHR '' '' 2 ''ORL A,%a'',
     dis 0x46 CHR '' '' 1 ''ORL A,@R0'',
     dis 0x47 CHR '' '' 1 ''ORL A,@R1'',
     dis 0x48 CHR '' '' 1 ''ORL A,R0'',
     dis 0x49 CHR '' '' 1 ''ORL A,R1'',
     dis 0x4a CHR '' '' 1 ''ORL A,R2'',
     dis 0x4b CHR '' '' 1 ''ORL A,R3'',
     dis 0x4c CHR '' '' 1 ''ORL A,R4'',
     dis 0x4d CHR '' '' 1 ''ORL A,R5'',
     dis 0x4e CHR '' '' 1 ''ORL A,R6'',
     dis 0x4f CHR '' '' 1 ''ORL A,R7'',
     dis 0x50 CHR ''r'' 2 ''JNC %r'',
     dis 0x51 CHR ''a'' 2 ''ACALL %A'',
     dis 0x52 CHR '' '' 2 ''ANL %a,A'',
     dis 0x53 CHR '' '' 3 ''ANL %a,#%D'',
     dis 0x54 CHR '' '' 2 ''ANL A,#%d'',
     dis 0x55 CHR '' '' 2 ''ANL A,%a'',
     dis 0x56 CHR '' '' 1 ''ANL A,@R0'',
     dis 0x57 CHR '' '' 1 ''ANL A,@R1'',
     dis 0x58 CHR '' '' 1 ''ANL A,R0'',
     dis 0x59 CHR '' '' 1 ''ANL A,R1'',
     dis 0x5a CHR '' '' 1 ''ANL A,R2'',
     dis 0x5b CHR '' '' 1 ''ANL A,R3'',
     dis 0x5c CHR '' '' 1 ''ANL A,R4'',
     dis 0x5d CHR '' '' 1 ''ANL A,R5'',
     dis 0x5e CHR '' '' 1 ''ANL A,R6'',
     dis 0x5f CHR '' '' 1 ''ANL A,R7'',
     dis 0x60 CHR ''r'' 2 ''JZ %r'',
     dis 0x61 CHR ''A'' 2 ''AJMP %A'',
     dis 0x62 CHR '' '' 2 ''XRL %a,A'',
     dis 0x63 CHR '' '' 3 ''XRL %a,#%D'',
     dis 0x64 CHR '' '' 2 ''XRL A,#%d'',
     dis 0x65 CHR '' '' 2 ''XRL A,%a'',
     dis 0x66 CHR '' '' 1 ''XRL A,@R0'',
     dis 0x67 CHR '' '' 1 ''XRL A,@R1'',
     dis 0x68 CHR '' '' 1 ''XRL A,R0'',
     dis 0x69 CHR '' '' 1 ''XRL A,R1'',
     dis 0x6a CHR '' '' 1 ''XRL A,R2'',
     dis 0x6b CHR '' '' 1 ''XRL A,R3'',
     dis 0x6c CHR '' '' 1 ''XRL A,R4'',
     dis 0x6d CHR '' '' 1 ''XRL A,R5'',
     dis 0x6e CHR '' '' 1 ''XRL A,R6'',
     dis 0x6f CHR '' '' 1 ''XRL A,R7'',
     dis 0x70 CHR ''r'' 2 ''JNZ %r'',
     dis 0x71 CHR ''a'' 2 ''ACALL %A'',
     dis 0x72 CHR '' '' 2 ''ORL C,%b'',
     dis 0x73 CHR ''_'' 1 ''JMP @A+DPTR'',
     dis 0x74 CHR '' '' 2 ''MOV A,#%d'',
     dis 0x75 CHR '' '' 3 ''MOV %a,#%D'',
     dis 0x76 CHR '' '' 2 ''MOV @R0,#%d'',
     dis 0x77 CHR '' '' 2 ''MOV @R1,#%d'',
     dis 0x78 CHR '' '' 2 ''MOV R0,#%d'',
     dis 0x79 CHR '' '' 2 ''MOV R1,#%d'',
     dis 0x7a CHR '' '' 2 ''MOV R2,#%d'',
     dis 0x7b CHR '' '' 2 ''MOV R3,#%d'',
     dis 0x7c CHR '' '' 2 ''MOV R4,#%d'',
     dis 0x7d CHR '' '' 2 ''MOV R5,#%d'',
     dis 0x7e CHR '' '' 2 ''MOV R6,#%d'',
     dis 0x7f CHR '' '' 2 ''MOV R7,#%d'']"

definition disass_51_2 :: "dis_entry list" where
  "disass_51_2 =
    [dis 0x80 CHR ''s'' 2 ''SJMP %r'',
     dis 0x81 CHR ''A'' 2 ''AJMP %A'',
     dis 0x82 CHR '' '' 2 ''ANL C,%b'',
     dis 0x83 CHR '' '' 1 ''MOVC A,@A+PC'',
     dis 0x84 CHR '' '' 1 ''DIV AB'',
     dis 0x85 CHR '' '' 3 ''MOV %8,%a'',
     dis 0x86 CHR '' '' 2 ''MOV %a,@R0'',
     dis 0x87 CHR '' '' 2 ''MOV %a,@R1'',
     dis 0x88 CHR '' '' 2 ''MOV %a,R0'',
     dis 0x89 CHR '' '' 2 ''MOV %a,R1'',
     dis 0x8a CHR '' '' 2 ''MOV %a,R2'',
     dis 0x8b CHR '' '' 2 ''MOV %a,R3'',
     dis 0x8c CHR '' '' 2 ''MOV %a,R4'',
     dis 0x8d CHR '' '' 2 ''MOV %a,R5'',
     dis 0x8e CHR '' '' 2 ''MOV %a,R6'',
     dis 0x8f CHR '' '' 2 ''MOV %a,R7'',
     dis 0x90 CHR '' '' 3 ''MOV DPTR,#%6'',
     dis 0x91 CHR ''a'' 2 ''ACALL %A'',
     dis 0x92 CHR '' '' 2 ''MOV %b,C'',
     dis 0x93 CHR '' '' 1 ''MOVC A,@A+DPTR'',
     dis 0x94 CHR '' '' 2 ''SUBB A,#%d'',
     dis 0x95 CHR '' '' 2 ''SUBB A,%a'',
     dis 0x96 CHR '' '' 1 ''SUBB A,@R0'',
     dis 0x97 CHR '' '' 1 ''SUBB A,@R1'',
     dis 0x98 CHR '' '' 1 ''SUBB A,R0'',
     dis 0x99 CHR '' '' 1 ''SUBB A,R1'',
     dis 0x9a CHR '' '' 1 ''SUBB A,R2'',
     dis 0x9b CHR '' '' 1 ''SUBB A,R3'',
     dis 0x9c CHR '' '' 1 ''SUBB A,R4'',
     dis 0x9d CHR '' '' 1 ''SUBB A,R5'',
     dis 0x9e CHR '' '' 1 ''SUBB A,R6'',
     dis 0x9f CHR '' '' 1 ''SUBB A,R7'',
     dis 0xa0 CHR '' '' 2 ''ORL C,/%b'',
     dis 0xa1 CHR ''A'' 2 ''AJMP %A'',
     dis 0xa2 CHR '' '' 2 ''MOV C,%b'',
     dis 0xa3 CHR '' '' 1 ''INC DPTR'',
     dis 0xa4 CHR '' '' 1 ''MUL AB'',
     dis 0xa5 CHR ''_'' 1 ''-'',
     dis 0xa6 CHR '' '' 2 ''MOV @R0,%a'',
     dis 0xa7 CHR '' '' 2 ''MOV @R1,%a'',
     dis 0xa8 CHR '' '' 2 ''MOV R0,%a'',
     dis 0xa9 CHR '' '' 2 ''MOV R1,%a'',
     dis 0xaa CHR '' '' 2 ''MOV R2,%a'',
     dis 0xab CHR '' '' 2 ''MOV R3,%a'',
     dis 0xac CHR '' '' 2 ''MOV R4,%a'',
     dis 0xad CHR '' '' 2 ''MOV R5,%a'',
     dis 0xae CHR '' '' 2 ''MOV R6,%a'',
     dis 0xaf CHR '' '' 2 ''MOV R7,%a'',
     dis 0xb0 CHR '' '' 2 ''ANL C,/%b'',
     dis 0xb1 CHR ''a'' 2 ''ACALL %A'',
     dis 0xb2 CHR '' '' 2 ''CPL %b'',
     dis 0xb3 CHR '' '' 1 ''CPL C'',
     dis 0xb4 CHR ''R'' 3 ''CJNE A,#%d,%R'',
     dis 0xb5 CHR ''R'' 3 ''CJNE A,%a,%R'',
     dis 0xb6 CHR ''R'' 3 ''CJNE @R0,#%d,%R'',
     dis 0xb7 CHR ''R'' 3 ''CJNE @R1,#%d,%R'',
     dis 0xb8 CHR ''R'' 3 ''CJNE R0,#%d,%R'',
     dis 0xb9 CHR ''R'' 3 ''CJNE R1,#%d,%R'',
     dis 0xba CHR ''R'' 3 ''CJNE R2,#%d,%R'',
     dis 0xbb CHR ''R'' 3 ''CJNE R3,#%d,%R'',
     dis 0xbc CHR ''R'' 3 ''CJNE R4,#%d,%R'',
     dis 0xbd CHR ''R'' 3 ''CJNE R5,#%d,%R'',
     dis 0xbe CHR ''R'' 3 ''CJNE R6,#%d,%R'',
     dis 0xbf CHR ''R'' 3 ''CJNE R7,#%d,%R'']"

definition disass_51_3 :: "dis_entry list" where
  "disass_51_3 =
    [dis 0xc0 CHR '' '' 2 ''PUSH %a'',
     dis 0xc1 CHR ''A'' 2 ''AJMP %A'',
     dis 0xc2 CHR '' '' 2 ''CLR %b'',
     dis 0xc3 CHR '' '' 1 ''CLR C'',
     dis 0xc4 CHR '' '' 1 ''SWAP A'',
     dis 0xc5 CHR '' '' 2 ''XCH A,%a'',
     dis 0xc6 CHR '' '' 1 ''XCH A,@R0'',
     dis 0xc7 CHR '' '' 1 ''XCH A,@R1'',
     dis 0xc8 CHR '' '' 1 ''XCH A,R0'',
     dis 0xc9 CHR '' '' 1 ''XCH A,R1'',
     dis 0xca CHR '' '' 1 ''XCH A,R2'',
     dis 0xcb CHR '' '' 1 ''XCH A,R3'',
     dis 0xcc CHR '' '' 1 ''XCH A,R4'',
     dis 0xcd CHR '' '' 1 ''XCH A,R5'',
     dis 0xce CHR '' '' 1 ''XCH A,R6'',
     dis 0xcf CHR '' '' 1 ''XCH A,R7'',
     dis 0xd0 CHR '' '' 2 ''POP %a'',
     dis 0xd1 CHR ''a'' 2 ''ACALL %A'',
     dis 0xd2 CHR '' '' 2 ''SETB %b'',
     dis 0xd3 CHR '' '' 1 ''SETB C'',
     dis 0xd4 CHR '' '' 1 ''DA A'',
     dis 0xd5 CHR ''R'' 3 ''DJNZ %a,%R'',
     dis 0xd6 CHR '' '' 1 ''XCHD A,@R0'',
     dis 0xd7 CHR '' '' 1 ''XCHD A,@R1'',
     dis 0xd8 CHR ''r'' 2 ''DJNZ R0,%r'',
     dis 0xd9 CHR ''r'' 2 ''DJNZ R1,%r'',
     dis 0xda CHR ''r'' 2 ''DJNZ R2,%r'',
     dis 0xdb CHR ''r'' 2 ''DJNZ R3,%r'',
     dis 0xdc CHR ''r'' 2 ''DJNZ R4,%r'',
     dis 0xdd CHR ''r'' 2 ''DJNZ R5,%r'',
     dis 0xde CHR ''r'' 2 ''DJNZ R6,%r'',
     dis 0xdf CHR ''r'' 2 ''DJNZ R7,%r'',
     dis 0xe0 CHR '' '' 1 ''MOVX A,@DPTR'',
     dis 0xe1 CHR ''A'' 2 ''AJMP %A'',
     dis 0xe2 CHR '' '' 1 ''MOVX A,@R0'',
     dis 0xe3 CHR '' '' 1 ''MOVX A,@R1'',
     dis 0xe4 CHR '' '' 1 ''CLR A'',
     dis 0xe5 CHR '' '' 2 ''MOV A,%a'',
     dis 0xe6 CHR '' '' 1 ''MOV A,@R0'',
     dis 0xe7 CHR '' '' 1 ''MOV A,@R1'',
     dis 0xe8 CHR '' '' 1 ''MOV A,R0'',
     dis 0xe9 CHR '' '' 1 ''MOV A,R1'',
     dis 0xea CHR '' '' 1 ''MOV A,R2'',
     dis 0xeb CHR '' '' 1 ''MOV A,R3'',
     dis 0xec CHR '' '' 1 ''MOV A,R4'',
     dis 0xed CHR '' '' 1 ''MOV A,R5'',
     dis 0xee CHR '' '' 1 ''MOV A,R6'',
     dis 0xef CHR '' '' 1 ''MOV A,R7'',
     dis 0xf0 CHR '' '' 1 ''MOVX @DPTR,A'',
     dis 0xf1 CHR ''a'' 2 ''ACALL %A'',
     dis 0xf2 CHR '' '' 1 ''MOVX @R0,A'',
     dis 0xf3 CHR '' '' 1 ''MOVX @R1,A'',
     dis 0xf4 CHR '' '' 1 ''CPL A'',
     dis 0xf5 CHR '' '' 2 ''MOV %a,A'',
     dis 0xf6 CHR '' '' 1 ''MOV @R0,A'',
     dis 0xf7 CHR '' '' 1 ''MOV @R1,A'',
     dis 0xf8 CHR '' '' 1 ''MOV R0,A'',
     dis 0xf9 CHR '' '' 1 ''MOV R1,A'',
     dis 0xfa CHR '' '' 1 ''MOV R2,A'',
     dis 0xfb CHR '' '' 1 ''MOV R3,A'',
     dis 0xfc CHR '' '' 1 ''MOV R4,A'',
     dis 0xfd CHR '' '' 1 ''MOV R5,A'',
     dis 0xfe CHR '' '' 1 ''MOV R6,A'',
     dis 0xff CHR '' '' 1 ''MOV R7,A'']"

definition disass_51 :: "dis_entry list" where
  "disass_51 = disass_51_0 @ disass_51_1 @ disass_51_2 @ disass_51_3"

definition sfr_tab51 :: "name_entry list" where
  "sfr_tab51 =
    [(0x40, 0x84, ''DPXL''), (0x1c0, 0x93, ''DPX''), (0x40, 0xa8, ''IE0''),
     (0x40, 0xb7, ''IPH0''), (0x40, 0xb8, ''IPL0''), (0x40, 0xbd, ''SPH''),
     (0x40, 0xd1, ''PSW1''), (0x180, 0x80, ''P4''), (0x180, 0x84, ''DPL1''),
     (0x180, 0x85, ''DPH1''), (0x180, 0x86, ''DPS''), (0x180, 0x8e, ''CKCON''),
     (0x180, 0x91, ''EXIF''), (0x180, 0x92, ''P4CNT''), (0x180, 0x95, ''DPX1''),
     (0x180, 0x96, ''C0RMS0''), (0x180, 0x97, ''C0RMS1''), (0x180, 0x98, ''SCON0''),
     (0x180, 0x99, ''SBUF0''), (0x180, 0x9b, ''ESP''), (0x180, 0x9c, ''AP''),
     (0x180, 0x9d, ''ACON''), (0x180, 0x9e, ''C0TMA0''), (0x180, 0x9f, ''C0TMA1''),
     (0x180, 0xa1, ''P5''), (0x180, 0xa2, ''P5CNT''), (0x180, 0xa3, ''C0C''),
     (0x180, 0xa4, ''C0S''), (0x180, 0xa5, ''C0IR''), (0x180, 0xa6, ''C0TE''),
     (0x180, 0xa7, ''C0RE''), (0x180, 0xa9, ''SADDR0''), (0x180, 0xaa, ''SADDR1''),
     (0x180, 0xab, ''C0M1C''), (0x180, 0xac, ''C0M2C''), (0x180, 0xad, ''C0M3C''),
     (0x180, 0xae, ''C0M4C''), (0x180, 0xaf, ''C0M5C''), (0x180, 0xb3, ''C0M6C''),
     (0x180, 0xb4, ''C0M7C''), (0x180, 0xb5, ''C0M8C''), (0x180, 0xb6, ''C0M9C''),
     (0x180, 0xb7, ''C0M10C''), (0x180, 0xb9, ''SADEN0''), (0x180, 0xba, ''SADEN1''),
     (0x180, 0xbb, ''C0M11C''), (0x180, 0xbc, ''C0M12C''), (0x180, 0xbd, ''C0M13C''),
     (0x180, 0xbe, ''C0M14C''), (0x180, 0xbf, ''C0M15C''), (0x180, 0xc0, ''SCON1''),
     (0x180, 0xc1, ''SBUF1''), (0x180, 0xc4, ''PMR''), (0x180, 0xc5, ''STATUS''),
     (0x180, 0xc6, ''MCON''), (0x180, 0xc7, ''TA''), (0x180, 0xce, ''COR''),
     (0x180, 0xd1, ''MCNT0''), (0x180, 0xd2, ''MCNT1''), (0x180, 0xd3, ''MA''),
     (0x180, 0xd4, ''MB''), (0x180, 0xd5, ''MC''), (0x180, 0xd6, ''C1RMS0''),
     (0x180, 0xd7, ''C1RMS1''), (0x180, 0xd8, ''WDCON''), (0x180, 0xde, ''C1TMA0''),
     (0x180, 0xdf, ''C1TMA1''), (0x180, 0xe3, ''C1C''), (0x180, 0xe4, ''C1S''),
     (0x180, 0xe5, ''C11R''), (0x180, 0xe6, ''C1TE''), (0x180, 0xe7, ''C1RE''),
     (0x180, 0xe8, ''EIE''), (0x180, 0xea, ''MXAX''), (0x180, 0xeb, ''C1M1C''),
     (0x180, 0xec, ''C1M2C''), (0x180, 0xed, ''C1M3C''), (0x180, 0xee, ''C1M4C''),
     (0x180, 0xef, ''C1M5C''), (0x180, 0xf3, ''C1M6C''), (0x180, 0xf4, ''C1M7C''),
     (0x180, 0xf5, ''C1M8C''), (0x180, 0xf6, ''C1M9C''), (0x180, 0xf7, ''C1M10C''),
     (0x180, 0xfb, ''C1M11C''), (0x180, 0xfc, ''C1M12C''), (0x180, 0xfd, ''C1M13C''),
     (0x180, 0xfe, ''C1M14C''), (0x180, 0xff, ''C1M15C''), (0x1ff, 0x80, ''P0''),
     (0x1ff, 0x81, ''SP''), (0x1ff, 0x82, ''DPL''), (0x1ff, 0x83, ''DPH''),
     (0x1ff, 0x87, ''PCON''), (0x1ff, 0x88, ''TCON''), (0x1ff, 0x89, ''TMOD''),
     (0x1ff, 0x8a, ''TL0''), (0x1ff, 0x8b, ''TL1''), (0x1ff, 0x8c, ''TH0''),
     (0x1ff, 0x8d, ''TH1''), (0x1ff, 0x90, ''P1''), (0x1ff, 0x98, ''SCON''),
     (0x1ff, 0x99, ''SBUF''), (0x1ff, 0xa0, ''P2''), (0x1ff, 0xa8, ''IE''),
     (0x1ff, 0xb0, ''P3''), (0x1ff, 0xb8, ''IP''), (0x1ff, 0xd0, ''PSW''),
     (0x1ff, 0xe0, ''ACC''), (0x1ff, 0xf0, ''B''), (0x1fc, 0xc8, ''T2CON''),
     (0x1fc, 0xca, ''RCAP2L''), (0x1fc, 0xcb, ''RCAP2H''), (0x1fc, 0xcc, ''TL2''),
     (0x1fc, 0xcd, ''TH2''), (0x30, 0x8e, ''AUXR''), (0x70, 0xa6, ''WDTRST''),
     (0x70, 0xa9, ''SADDR''), (0x30, 0xb7, ''IPH''), (0x70, 0xb9, ''SADEN''),
     (0x1f0, 0xc9, ''T2MOD''), (0x20, 0xa2, ''AUXR1''), (0x60, 0xd8, ''CCON''),
     (0x60, 0xd9, ''CMOD''), (0x60, 0xda, ''CCAPM0''), (0x60, 0xdb, ''CCAPM1''),
     (0x60, 0xdc, ''CCAPM2''), (0x60, 0xdd, ''CCAPM3''), (0x60, 0xde, ''CCAPM4''),
     (0x60, 0xe9, ''CL''), (0x60, 0xea, ''CCAP0L''), (0x60, 0xeb, ''CCAP1L''),
     (0x60, 0xec, ''CCAP2L''), (0x60, 0xed, ''CCAP3L''), (0x60, 0xee, ''CCAP4L''),
     (0x60, 0xf9, ''CH''), (0x60, 0xfa, ''CCAP0H''), (0x60, 0xfb, ''CCAP1H''),
     (0x60, 0xfc, ''CCAP2H''), (0x60, 0xfd, ''CCAP3H''), (0x60, 0xfe, ''CCAP4H'')]"

definition bit_tab51 :: "name_entry list" where
  "bit_tab51 =
    [(0x1ff, 0xd7, ''CY''), (0x1ff, 0xd6, ''AC''), (0x1ff, 0xd5, ''F0''),
     (0x1ff, 0xd4, ''RS1''), (0x1ff, 0xd3, ''RS0''), (0x1ff, 0xd2, ''OV''),
     (0x1ff, 0xd1, ''F1''), (0x1ff, 0xd0, ''P''), (0x1ff, 0x8f, ''TF1''),
     (0x1ff, 0x8e, ''TR1''), (0x1ff, 0x8d, ''TF0''), (0x1ff, 0x8c, ''TR0''),
     (0x1ff, 0x8b, ''IE1''), (0x1ff, 0x8a, ''IT1''), (0x1ff, 0x89, ''IE0''),
     (0x1ff, 0x88, ''IT0''), (0x1ff, 0xaf, ''EA''), (0x180, 0xae, ''ES1''),
     (0x60, 0xae, ''EC''), (0x1fc, 0xad, ''ET2''), (0x180, 0xac, ''ES0''),
     (0x1ff, 0xac, ''ES''), (0x1ff, 0xab, ''ET1''), (0x1ff, 0xaa, ''EX1''),
     (0x1ff, 0xa9, ''ET0''), (0x1ff, 0xa8, ''EX0''), (0x60, 0xbe, ''PPC''),
     (0x180, 0xbe, ''PS1''), (0x1fc, 0xbd, ''PT2''), (0x180, 0xbc, ''PS0''),
     (0x1ff, 0xbc, ''PS''), (0x1ff, 0xbb, ''PT1''), (0x1ff, 0xba, ''PX1''),
     (0x1ff, 0xb9, ''PT0''), (0x1ff, 0xb8, ''PX0''), (0x40, 0xbe, ''IPL0.6''),
     (0x40, 0xbd, ''IPL0.5''), (0x40, 0xbc, ''IPL0.4''), (0x40, 0xbb, ''IPL0.3''),
     (0x40, 0xba, ''IPL0.2''), (0x40, 0xb9, ''IPL0.1''), (0x40, 0xb8, ''IPL0.0''),
     (0x180, 0x9f, ''SM0/FE_0''), (0x180, 0x9e, ''SM1_0''), (0x180, 0x9d, ''SM2_0''),
     (0x180, 0x9c, ''REN_0''), (0x180, 0x9b, ''TB8_0''), (0x180, 0x9a, ''RB8_0''),
     (0x180, 0x99, ''TI_0''), (0x180, 0x98, ''RI_0''), (0x70, 0x9f, ''FE/SM0''),
     (0x1ff, 0x9f, ''SM0''), (0x1ff, 0x9e, ''SM1''), (0x1ff, 0x9d, ''SM2''),
     (0x1ff, 0x9c, ''REN''), (0x1ff, 0x9b, ''TB8''), (0x1ff, 0x9a, ''RB8''),
     (0x1ff, 0x99, ''TI''), (0x1ff, 0x98, ''RI''), (0x180, 0xc7, ''SM0/FE_1''),
     (0x180, 0xc6, ''SM1_1''), (0x180, 0xc5, ''SM2_1''), (0x180, 0xc4, ''REN_1''),
     (0x180, 0xc3, ''TB8_1''), (0x180, 0xc2, ''RB8_1''), (0x180, 0xc1, ''TI_1''),
     (0x180, 0xc0, ''RI_1''), (0x1fc, 0xcf, ''TF2''), (0x1fc, 0xce, ''EXF2''),
     (0x1fc, 0xcd, ''RCLK''), (0x1fc, 0xcc, ''TCLK''), (0x1fc, 0xcb, ''EXEN2''),
     (0x1fc, 0xca, ''TR2''), (0x1fc, 0xc9, ''C/T2''), (0x1fc, 0xc8, ''CP/RL2''),
     (0x60, 0xdf, ''CF''), (0x60, 0xde, ''CR''), (0x60, 0xdc, ''CCF4''),
     (0x60, 0xdb, ''CCF3''), (0x60, 0xda, ''CCF2''), (0x60, 0xd9, ''CCF1''),
     (0x60, 0xd8, ''CCF0''), (0x60, 0x97, ''CEX4''), (0x60, 0x96, ''CEX3''),
     (0x60, 0x95, ''CEX2''), (0x60, 0x94, ''CEX1''), (0x60, 0x93, ''CEX0''),
     (0x60, 0x92, ''EXI''), (0x60, 0x91, ''T2EX''), (0x60, 0x90, ''T2''),
     (0x180, 0xdf, ''SMOD_1''), (0x180, 0xde, ''POR,''), (0x180, 0xdd, ''EPF1''),
     (0x180, 0xdc, ''PF1''), (0x180, 0xdb, ''WDIF''), (0x180, 0xda, ''WTRF''),
     (0x180, 0xd9, ''EWT''), (0x180, 0xd8, ''RWT''), (0x180, 0xef, ''CANBIE''),
     (0x180, 0xee, ''C0IE''), (0x180, 0xed, ''C1IE''), (0x180, 0xec, ''EWDI''),
     (0x180, 0xeb, ''EX5''), (0x180, 0xea, ''EX4''), (0x180, 0xe9, ''EX3''),
     (0x180, 0xe8, ''EX2''), (0x180, 0xef, ''CANBIP''), (0x180, 0xee, ''C0IP''),
     (0x180, 0xed, ''C1IP''), (0x180, 0xec, ''PWDI''), (0x180, 0xeb, ''PX5''),
     (0x180, 0xea, ''PX4''), (0x180, 0xe9, ''PX3''), (0x180, 0xe8, ''PX2'')]"

subsection \<open>Searches\<close>

definition dis_entry_of :: "int \<Rightarrow> dis_entry list \<Rightarrow> dis_entry option" where
  "dis_entry_of code tabl = find (\<lambda>e. code AND d_mask e = d_code e) tabl"

definition inst_length :: "'z uc_scheme hwif \<Rightarrow> dis_entry list \<Rightarrow> t_addr \<Rightarrow> 'z uc_scheme
    \<Rightarrow> (int \<times> 'z uc_scheme) option" where
  "inst_length hw tabl addr s = do {
     (code, s) \<leftarrow> as_get hw Rom addr s;
     Some (case dis_entry_of code tabl of Some e \<Rightarrow> d_length e | None \<Rightarrow> 1, s)
   }"

definition inst_branch :: "'z uc_scheme hwif \<Rightarrow> dis_entry list \<Rightarrow> t_addr \<Rightarrow> 'z uc_scheme
    \<Rightarrow> (char \<times> 'z uc_scheme) option" where
  "inst_branch hw tabl addr s = do {
     (code, s) \<leftarrow> as_get hw Rom addr s;
     Some (case dis_entry_of code tabl of Some e \<Rightarrow> d_branch e | None \<Rightarrow> CHR 0x00, s)
   }"

definition longest_inst :: "dis_entry list \<Rightarrow> int" where
  "longest_inst tabl = foldl (\<lambda>m e. if m < d_length e then d_length e else m) 0 tabl"

definition get_name :: "int \<Rightarrow> t_addr \<Rightarrow> name_entry list \<Rightarrow> string option" where
  "get_name ty addr tab =
     map_option (\<lambda>(_, _, n). n) (find (\<lambda>(c, a, _). c AND ty \<noteq> 0 \<and> a = addr) tab)"

definition to_lower :: "char \<Rightarrow> char" where
  "to_lower c = (let n = of_char c :: nat in if 65 \<le> n \<and> n \<le> 90 then char_of (n + 32) else c)"

definition symbol2address :: "int \<Rightarrow> string \<Rightarrow> name_entry list \<Rightarrow> t_addr option" where
  "symbol2address ty nam tab =
     (if nam = [] then None
      else map_option (\<lambda>(_, a, _). a)
        (find (\<lambda>(c, _, n). c AND ty \<noteq> 0 \<and> map to_lower nam = map to_lower n) tab))"

subsection \<open>Disassembling an instruction\<close>

definition hex_digit :: "int \<Rightarrow> char" where
  "hex_digit d = ''0123456789abcdef'' ! nat (d mod 16)"

definition hex_pad :: "nat \<Rightarrow> int \<Rightarrow> string" where
  "hex_pad w v =
     (let ds = dropWhile ((=) CHR ''0'')
                 (map (\<lambda>i. hex_digit (v div 16 ^ i)) [7, 6, 5, 4, 3, 2, 1, 0])
      in replicate (w - length ds) CHR ''0'' @ ds)"

definition bit_byte :: "int \<Rightarrow> int" where
  "bit_byte ba = (if ba < 128 then ba div 8 + 32 else ba AND 0xf8)"

definition bit_text :: "int \<Rightarrow> int \<Rightarrow> string" where
  "bit_text ty ba =
     (case get_name ty ba bit_tab51 of Some n \<Rightarrow> n
      | None \<Rightarrow> (case get_name ty (bit_byte ba) sfr_tab51 of Some n \<Rightarrow> n
                 | None \<Rightarrow> hex_pad 2 (bit_byte ba)) @ ''.'' @ [hex_digit (ba AND 7)])"

definition addr8_text :: "int \<Rightarrow> int \<Rightarrow> string" where
  "addr8_text ty a =
     (case get_name ty a sfr_tab51 of Some n \<Rightarrow> n | None \<Rightarrow> hex_pad 2 a)"

definition operand_text :: "'z uc_scheme hwif \<Rightarrow> int \<Rightarrow> t_addr \<Rightarrow> int \<Rightarrow> char \<Rightarrow> 'z uc_scheme
    \<Rightarrow> (string \<times> 'z uc_scheme) option" where
  "operand_text hw ty addr code f s =
     (if f = CHR ''A'' then do {
        (l, s) \<leftarrow> as_get hw Rom (addr + 1) s;
        Some (hex_pad 4 ((addr AND 0xf800) OR ((drop_bit 5 code AND 0x07) * 256 + l)), s)
      }
      else if f = CHR ''l'' \<or> f = CHR ''6'' then do {
        (h, s) \<leftarrow> as_get hw Rom (addr + 1) s;
        (l, s) \<leftarrow> as_get hw Rom (addr + 2) s;
        Some (hex_pad 4 (h * 256 + l), s)
      }
      else if f = CHR ''a'' then do {
        (a, s) \<leftarrow> as_get hw Rom (addr + 1) s;
        Some (addr8_text ty a, s)
      }
      else if f = CHR ''8'' then do {
        (a, s) \<leftarrow> as_get hw Rom (addr + 2) s;
        Some (addr8_text ty a, s)
      }
      else if f = CHR ''b'' then do {
        (ba, s) \<leftarrow> as_get hw Rom (addr + 1) s;
        Some (bit_text ty ba, s)
      }
      else if f = CHR ''r'' then do {
        (r, s) \<leftarrow> as_get hw Rom (addr + 1) s;
        Some (hex_pad 4 (addr + 2 + to_schar r), s)
      }
      else if f = CHR ''R'' then do {
        (r, s) \<leftarrow> as_get hw Rom (addr + 2) s;
        Some (hex_pad 4 (addr + 3 + to_schar r), s)
      }
      else if f = CHR ''d'' then do {
        (d, s) \<leftarrow> as_get hw Rom (addr + 1) s;
        Some (hex_pad 2 d, s)
      }
      else if f = CHR ''D'' then do {
        (d, s) \<leftarrow> as_get hw Rom (addr + 2) s;
        Some (hex_pad 2 d, s)
      }
      else Some (''?'', s))"

fun disass_text :: "'z uc_scheme hwif \<Rightarrow> int \<Rightarrow> t_addr \<Rightarrow> int \<Rightarrow> string \<Rightarrow> 'z uc_scheme
    \<Rightarrow> (string \<times> 'z uc_scheme) option" where
  "disass_text hw ty addr code [] s = Some ([], s)"
| "disass_text hw ty addr code [c] s = (if c = CHR ''%'' then None else Some ([c], s))"
| "disass_text hw ty addr code (c # d # b) s =
     (if c = CHR ''%'' then do {
        (temp, s) \<leftarrow> operand_text hw ty addr code d s;
        (rest, s) \<leftarrow> disass_text hw ty addr code b s;
        Some (temp @ rest, s)
      }
      else do {
        (rest, s) \<leftarrow> disass_text hw ty addr code (d # b) s;
        Some (c # rest, s)
      })"

definition disass_columns :: "string option \<Rightarrow> string \<Rightarrow> string" where
  "disass_columns sep work =
     (let name = takeWhile ((\<noteq>) CHR '' '') work; p = dropWhile ((\<noteq>) CHR '' '') work
      in if p = [] then work
         else name @ (case sep of None \<Rightarrow> replicate (6 - length name) CHR '' '' | Some t \<Rightarrow> t) @ tl p)"

definition disass :: "'z uc_scheme hwif \<Rightarrow> int \<Rightarrow> t_addr \<Rightarrow> string option \<Rightarrow> 'z uc_scheme
    \<Rightarrow> (string \<times> 'z uc_scheme) option" where
  "disass hw ty addr sep s = do {
     (code, s) \<leftarrow> as_get hw Rom addr s;
     if code < 0 \<or> 256 \<le> code then None else do {
       (work, s) \<leftarrow> disass_text hw ty addr code (d_mnemonic (disass_51 ! nat code)) s;
       Some (disass_columns sep work, s)
     }
   }"

subsection \<open>The table is indexed by the code\<close>

lemma disass_51_codes: "map d_code disass_51 = map int [0..<256]" "list_all (\<lambda>e. d_mask e = 0xff) disass_51"
  by code_simp+

lemma disass_51_length: "length disass_51 = 256"
  using arg_cong [OF disass_51_codes(1), of length] by simp

lemma dis_entry_of_code:
  assumes "0 \<le> code" "code < 256"
  shows "dis_entry_of code disass_51 = Some (disass_51 ! nat code)"
proof -
  have c: "d_code (disass_51 ! i) = int i" "d_mask (disass_51 ! i) = 0xff" if "i < 256" for i
    using that nth_map [of i disass_51 d_code] disass_51_codes(2)
    by (simp_all add: disass_51_codes(1) disass_51_length list_all_length)
  have "code AND d_mask (disass_51 ! i) = d_code (disass_51 ! i) \<longleftrightarrow> i = nat code" if "i < 256" for i
    using that assms c [OF that] by auto
  then show ?thesis
    unfolding dis_entry_of_def find_Some_iff
    using assms by (intro exI [of _ "nat code"]) (auto simp: disass_51_length)
qed

end
