(* ===== verification/Loader51.thy ===== *)
theory Loader51
  imports Dis51
begin

text \<open>
  Loading a program: the Intel HEX reader \<open>cl_uc::read_hex_file\<close> (\<open>uc.cc\<close>) and the code analyzer
  \<open>cl_51core::analyze\<close> (\<open>uc51.cc\<close>), which marks the addresses where instructions start.

  The file is the list of its characters. \<open>ReadInt\<close> reads two characters at a time into a buffer;
  where the file ends after the first of them, the second is what the buffer held, and at the first
  pair of a call that is the argument \<open>junk\<close>.
\<close>

subsection \<open>Numbers\<close>

definition is_space :: "char \<Rightarrow> bool" where
  "is_space c = (let n = of_char c :: nat in n = 32 \<or> 9 \<le> n \<and> n \<le> 13)"

definition hex_value :: "char \<Rightarrow> int option" where
  "hex_value c = (let n = of_char c :: int in
     if 48 \<le> n \<and> n \<le> 57 then Some (n - 48)
     else if 65 \<le> n \<and> n \<le> 70 then Some (n - 55)
     else if 97 \<le> n \<and> n \<le> 102 then Some (n - 87) else None)"

fun hex_number :: "int \<Rightarrow> string \<Rightarrow> int" where
  "hex_number l [] = l"
| "hex_number l (c # cs) = (case hex_value c of None \<Rightarrow> l | Some d \<Rightarrow> hex_number (l * 16 + d) cs)"

fun hex_prefix :: "string \<Rightarrow> string" where
  "hex_prefix (a # b # c # cs) =
     (if a = CHR ''0'' \<and> (b = CHR ''x'' \<or> b = CHR ''X'') \<and> hex_value c \<noteq> None then c # cs
      else a # b # c # cs)"
| "hex_prefix cs = cs"

definition strtol16 :: "string \<Rightarrow> int" where
  "strtol16 txt =
     (let cs = dropWhile is_space txt;
          neg = (cs \<noteq> [] \<and> hd cs = CHR ''-'');
          cs = (if cs \<noteq> [] \<and> (hd cs = CHR ''-'' \<or> hd cs = CHR ''+'') then tl cs else cs);
          l = hex_number 0 (hex_prefix cs)
      in if neg then - l else l)"

fun ReadInt_from :: "nat \<Rightarrow> char \<Rightarrow> int \<Rightarrow> string \<Rightarrow> int \<times> bool \<times> string" where
  "ReadInt_from 0 s1 l f = (l, True, f)"
| "ReadInt_from (Suc n) s1 l [] = (0, False, [])"
| "ReadInt_from (Suc n) s1 l [c] = ReadInt_from n s1 (l * 256 + strtol16 [c, s1]) []"
| "ReadInt_from (Suc n) s1 l (c # d # f) = ReadInt_from n d (l * 256 + strtol16 [c, d]) f"

definition ReadInt :: "char \<Rightarrow> nat \<Rightarrow> string \<Rightarrow> int \<times> bool \<times> string" where
  "ReadInt junk bytes f = ReadInt_from bytes junk 0 f"

lemma ReadInt_from_length: "ReadInt_from n j l f = (v, ok, r) \<Longrightarrow> length r \<le> length f"
  by (induction n j l f rule: ReadInt_from.induct) auto

lemma ReadInt_length: "ReadInt j n f = (v, ok, r) \<Longrightarrow> length r \<le> length f"
  by (simp add: ReadInt_def ReadInt_from_length)

subsection \<open>Records\<close>

record hex_record =
  h_dnum :: uchar
  h_addr :: int
  h_rtyp :: uchar
  h_data :: "uchar list"
  h_sum :: uchar
  h_chk :: uchar

text \<open>The data loop: the bytes, the check sum so far, and whether the last byte could be read.\<close>

fun read_data :: "char \<Rightarrow> nat \<Rightarrow> bool \<Rightarrow> uchar \<Rightarrow> string \<Rightarrow> uchar list \<times> uchar \<times> bool \<times> string" where
  "read_data junk 0 ok chk f = ([], chk, ok, f)"
| "read_data junk (Suc n) ok chk f =
     (if \<not> ok then ([], chk, ok, f)
      else (let (b, ok, f) = ReadInt junk 1 f; b = to_uchar b;
                (bs, chk, ok, f) = read_data junk n ok (to_uchar (chk + b)) f
            in (b # bs, chk, ok, f)))"

text \<open>
  One record after its colon. The record is \<open>None\<close> when the data or the check sum could not be read;
  the type and the address are variables of the reader and survive that.
\<close>

definition read_record :: "char \<Rightarrow> string \<Rightarrow> uchar \<times> int \<times> hex_record option \<times> string" where
  "read_record junk f =
     (let (dnum, ok, f) = ReadInt junk 1 f; dnum = to_uchar dnum; chk = dnum;
          (addr, ok, f) = ReadInt junk 2 f; addr = addr mod 2 ^ 32;
          chk = to_uchar (chk + (addr AND 0xff)); chk = to_uchar (chk + (drop_bit 8 addr AND 0xff));
          (rtyp, ok, f) = ReadInt junk 1 f; rtyp = to_uchar rtyp; chk = to_uchar (chk + rtyp);
          (rec, chk, ok, f) = read_data junk (nat dnum) ok chk f
      in if \<not> ok then (rtyp, addr, None, f)
         else (let (sum, ok, f) = ReadInt junk 1 f; sum = to_uchar sum
               in (rtyp, addr, if ok then Some \<lparr>h_dnum = dnum, h_addr = addr, h_rtyp = rtyp,
                     h_data = rec, h_sum = sum, h_chk = chk\<rparr> else None, f)))"

lemma read_data_length: "read_data j n ok c f = (bs, c', ok', r) \<Longrightarrow> length r \<le> length f"
proof (induction n arbitrary: ok c f bs c' ok' r)
  case (Suc n)
  then show ?case
    by (auto split: if_splits prod.splits simp: Let_def)
      (meson ReadInt_length order_trans)
qed simp

lemma read_record_length:
  "read_record j f = (t, a, rec, r) \<Longrightarrow> length r \<le> length f"
  unfolding read_record_def
  by (auto split: if_splits prod.splits simp: Let_def)
    (meson ReadInt_length read_data_length order_trans)+

subsection \<open>The reader\<close>

record hex_reader =
  r_addr :: int
  r_low :: uchar
  r_get_low :: bool
  r_written :: int
  r_recnum :: int

text \<open>Storing the bytes of a data record: one cell per byte, or per two bytes in a 16 bit memory.\<close>

fun store_data :: "int \<Rightarrow> uchar list \<Rightarrow> hex_reader \<Rightarrow> 'z mem_scheme \<Rightarrow> hex_reader \<times> 'z mem_scheme" where
  "store_data width [] r s = (r, s)"
| "store_data width (b # bs) r s =
     (if width \<le> 8 then
        store_data width bs (r\<lparr>r_addr := (r_addr r + 1) mod 2 ^ 32, r_written := r_written r + 1\<rparr>)
          (leaf_set Flashbank0 (r_addr r) b s)
      else if width \<le> 16 then
        (if r_get_low r then store_data width bs (r\<lparr>r_low := b, r_get_low := False\<rparr>) s
         else store_data width bs
           (r\<lparr>r_addr := (r_addr r + 1) mod 2 ^ 32, r_written := r_written r + 1, r_get_low := True\<rparr>)
           (leaf_set Flashbank0 (r_addr r) (b * 256 + r_low r) s))
      else store_data width bs r s)"

definition store_record :: "int \<Rightarrow> hex_record \<Rightarrow> hex_reader \<Rightarrow> 'z mem_scheme \<Rightarrow> hex_reader \<times> 'z mem_scheme" where
  "store_record width h r s =
     (if to_uchar (h_sum h + h_chk h) = 0 \<and> h_rtyp h = 0
      then store_data width (h_data h)
        (r\<lparr>r_addr := (if 8 < width then r_addr r div 2 else r_addr r)\<rparr>) s
      else (r, s))"

text \<open>
  One round of the reader: it looks for a colon, reads a record and stores it. The result is \<open>None\<close>
  where there is no further colon; else it says whether the reader goes on, which it does not after
  a record it could not read and after one of type 1.
\<close>

definition read_one :: "char \<Rightarrow> int \<Rightarrow> string \<Rightarrow> hex_reader \<Rightarrow> 'z mem_scheme
    \<Rightarrow> (bool \<times> string \<times> hex_reader \<times> 'z mem_scheme) option" where
  "read_one junk width f r s =
     (case dropWhile ((\<noteq>) CHR '':'') f of
        [] \<Rightarrow> None
      | _ # f \<Rightarrow>
        (let (rtyp, addr, rec, f) = read_record junk f;
             r = r\<lparr>r_recnum := r_recnum r + 1, r_addr := addr\<rparr>;
             (r, s) = (case rec of Some h \<Rightarrow> store_record width h r s | None \<Rightarrow> (r, s))
         in Some (rec \<noteq> None \<and> rtyp \<noteq> 1, f, r, s)))"

lemma read_one_length:
  assumes "read_one junk width f r s = Some (go, f', r', s')"
  shows "length f' < length f"
proof -
  obtain c g where g: "dropWhile ((\<noteq>) CHR '':'') f = c # g"
    using assms by (auto simp: read_one_def split: list.splits)
  moreover have "length f' \<le> length g"
    using assms g by (auto simp: read_one_def Let_def split: prod.splits dest: read_record_length)
  ultimately show ?thesis using length_dropWhile_le [of "(\<noteq>) CHR '':''" f] by simp
qed

function read_records :: "char \<Rightarrow> int \<Rightarrow> string \<Rightarrow> hex_reader \<Rightarrow> 'z mem_scheme
    \<Rightarrow> hex_reader \<times> 'z mem_scheme" where
  "read_records junk width f r s =
     (case read_one junk width f r s of
        None \<Rightarrow> (r, s)
      | Some (go, f, r, s) \<Rightarrow> if go then read_records junk width f r s else (r, s))"
  by pat_completeness auto
termination
  by (relation "measure (\<lambda>(j, w, f, r, s). length f)") (auto dest: read_one_length)

declare read_records.simps [simp del]

text \<open>
  The whole reader, on a file that can be opened; \<open>width\<close> is the width of the cells of rom, 8 in the
  8051. The variables \<open>low\<close> and \<open>addr\<close> start at 0.
\<close>

definition new_reader :: hex_reader where
  "new_reader = \<lparr>r_addr = 0, r_low = 0, r_get_low = True, r_written = 0, r_recnum = 0\<rparr>"

subsection \<open>The code analyzer\<close>

partial_function (option) analyze :: "'z uc_scheme hwif \<Rightarrow> t_addr \<Rightarrow> 'z uc_scheme
    \<Rightarrow> (unit \<times> 'z uc_scheme) option" where
  "analyze hw addr s = do {
     (code, s) \<leftarrow> as_get hw Rom addr s;
     i \<leftarrow> inst_at addr s;
     if i \<or> code = 0xa5 then Some ((), s)
     else do {
       s \<leftarrow> set_inst_at addr s;
       if code < 0 \<or> 256 \<le> code then None else (let e = disass_51 ! nat code; b = d_branch e; n = d_length e in
       if b = CHR ''a'' then do {
         (h, s) \<leftarrow> as_get hw Rom (addr + 1) s;
         (l, s) \<leftarrow> as_get hw Rom (addr + 2) s;
         (_, s) \<leftarrow> analyze hw ((addr AND 0xf800) OR ((h AND 0x07) * 256 + l)) s;
         (_, s) \<leftarrow> analyze hw (addr + n) s;
         analyze hw addr s
       }
       else if b = CHR ''A'' then do {
         (h, s) \<leftarrow> as_get hw Rom (addr + 1) s;
         (l, s) \<leftarrow> as_get hw Rom (addr + 2) s;
         analyze hw ((addr AND 0xf800) OR ((h AND 0x07) * 256 + l)) s
       }
       else if b = CHR ''l'' then do {
         (h, s) \<leftarrow> as_get hw Rom (addr + 1) s;
         (l, s) \<leftarrow> as_get hw Rom (addr + 2) s;
         (_, s) \<leftarrow> analyze hw (h * 256 + l) s;
         (_, s) \<leftarrow> analyze hw (addr + n) s;
         analyze hw addr s
       }
       else if b = CHR ''L'' then do {
         (h, s) \<leftarrow> as_get hw Rom (addr + 1) s;
         (l, s) \<leftarrow> as_get hw Rom (addr + 2) s;
         analyze hw (h * 256 + l) s
       }
       else if b = CHR ''r'' then do {
         (r, s) \<leftarrow> as_get hw Rom (addr + 1) s;
         (_, s) \<leftarrow> analyze hw (validate_address Rom (addr + to_schar r)) s;
         (_, s) \<leftarrow> analyze hw (addr + n) s;
         analyze hw addr s
       }
       else if b = CHR ''R'' then do {
         (r, s) \<leftarrow> as_get hw Rom (addr + 2) s;
         (_, s) \<leftarrow> analyze hw (validate_address Rom (addr + to_schar r)) s;
         (_, s) \<leftarrow> analyze hw (addr + n) s;
         analyze hw addr s
       }
       else if b = CHR ''s'' then do {
         (r, s) \<leftarrow> as_get hw Rom (addr + 1) s;
         analyze hw (validate_address Rom (addr + 2 + to_schar r)) s
       }
       else if b = CHR ''_'' then Some ((), s)
       else analyze hw (validate_address Rom (addr + n)) s)
     }
   }"

definition read_hex_file :: "'z uc_scheme hwif \<Rightarrow> char \<Rightarrow> int \<Rightarrow> string option \<Rightarrow> 'z uc_scheme
    \<Rightarrow> (int \<times> 'z uc_scheme) option" where
  "read_hex_file hw junk width file s =
     (case file of
        None \<Rightarrow> Some (-1, s)
      | Some f \<Rightarrow> do {
          let (r, s) = read_records junk width f new_reader s;
          s \<leftarrow> (if 8 < width \<and> \<not> r_get_low r then as_set hw Rom (r_addr r) (r_low r) s else Some s);
          (_, s) \<leftarrow> analyze hw 0 s;
          Some (r_written r, s)
        })"

end
