(* ===== verification/LoaderFacts.thy ===== *)
theory LoaderFacts
  imports Loader51 Core51Facts
begin

text \<open>
  Loading a program: a file of Intel HEX records is read back into the flash bank, records with a
  wrong check sum are skipped, and the code analyzer marks exactly the addresses its own successor
  relation reaches.
\<close>

subsection \<open>Printing and reading numbers\<close>

definition hex_upper :: "int \<Rightarrow> char" where
  "hex_upper d = ''0123456789ABCDEF'' ! nat d"

definition hex_byte :: "int \<Rightarrow> string" where
  "hex_byte b = [hex_upper (b div 16), hex_upper (b mod 16)]"

lemma hex_upper_facts:
  assumes "0 \<le> d" "d < 16"
  shows "hex_value (hex_upper d) = Some d" "\<not> is_space (hex_upper d)"
    "hex_upper d \<noteq> CHR ''-''" "hex_upper d \<noteq> CHR ''+''" "hex_upper d \<noteq> CHR '':''"
proof -
  have all: "list_all (\<lambda>d. hex_value (hex_upper d) = Some d \<and> \<not> is_space (hex_upper d)
     \<and> hex_upper d \<noteq> CHR ''-'' \<and> hex_upper d \<noteq> CHR ''+'' \<and> hex_upper d \<noteq> CHR '':'') [0..15]"
    by code_simp
  moreover have "d \<in> set [0..15]" using assms by simp
  ultimately show "hex_value (hex_upper d) = Some d" "\<not> is_space (hex_upper d)"
    "hex_upper d \<noteq> CHR ''-''" "hex_upper d \<noteq> CHR ''+''" "hex_upper d \<noteq> CHR '':''"
    unfolding list_all_iff by blast+
qed

lemma strtol16_byte:
  assumes "byte b"
  shows "strtol16 (hex_byte b) = b"
proof -
  have d: "0 \<le> b div 16" "b div 16 < 16" "0 \<le> b mod 16" "b mod 16 < 16"
    using byteD [OF assms] by (simp_all add: div_less_iff_less_mult pos_imp_zdiv_nonneg_iff)
  show ?thesis
    using hex_upper_facts [OF d(1,2)] hex_upper_facts [OF d(3,4)]
    by (simp add: strtol16_def hex_byte_def Let_def)
qed

lemma ReadInt_byte [simp]:
  "byte b \<Longrightarrow> ReadInt j (Suc 0) (hex_byte b @ f) = (b, True, f)"
  using strtol16_byte [of b] by (simp add: ReadInt_def hex_byte_def)

lemma ReadInt_word [simp]:
  "byte h \<Longrightarrow> byte l \<Longrightarrow> ReadInt j 2 (hex_byte h @ hex_byte l @ f) = (h * 256 + l, True, f)"
  using strtol16_byte [of h] strtol16_byte [of l]
  by (simp add: ReadInt_def hex_byte_def numeral_2_eq_2)

subsection \<open>Records\<close>

text \<open>
  A data record is an address, its bytes and the check sum written after them; a sound one adds up
  to zero. The file ends with the usual record of type 1.
\<close>

type_synonym hex_block = "int \<times> int list \<times> int"

definition block_sum :: "int \<Rightarrow> int list \<Rightarrow> int" where
  "block_sum a d = (int (length d) + a mod 256 + a div 256 + sum_list d) mod 256"

definition block_sound :: "hex_block \<Rightarrow> bool" where
  "block_sound = (\<lambda>(a, d, c). (block_sum a d + c) mod 256 = 0)"

definition block_ok :: "hex_block \<Rightarrow> bool" where
  "block_ok = (\<lambda>(a, d, c). 0 \<le> a \<and> a + int (length d) \<le> 0x8000 \<and> length d < 256
     \<and> list_all byte d \<and> byte c)"

definition hex_line :: "hex_block \<Rightarrow> string" where
  "hex_line = (\<lambda>(a, d, c). CHR '':'' # hex_byte (int (length d)) @ hex_byte (a div 256)
     @ hex_byte (a mod 256) @ hex_byte 0 @ concat (map hex_byte d) @ hex_byte c @ [CHR 0x0A])"

definition hex_file :: "hex_block list \<Rightarrow> string" where
  "hex_file bs = concat (map hex_line bs) @ '':00000001FF''"

fun load_bytes :: "int \<Rightarrow> int list \<Rightarrow> 'z mem_scheme \<Rightarrow> 'z mem_scheme" where
  "load_bytes a [] s = s"
| "load_bytes a (b # bs) s = load_bytes (a + 1) bs (poke (Cell Flashbank0 a) b s)"

definition load_block :: "hex_block \<Rightarrow> 'z mem_scheme \<Rightarrow> 'z mem_scheme" where
  "load_block = (\<lambda>(a, d, c) s. if block_sound (a, d, c) then load_bytes a d s else s)"

lemma read_data_bytes:
  "list_all byte d \<Longrightarrow> byte k \<Longrightarrow>
   read_data j (length d) True k (concat (map hex_byte d) @ f) = (d, (k + sum_list d) mod 256, True, f)"
proof (induction d arbitrary: k)
  case (Cons b d)
  then have "read_data j (length d) True (to_uchar (k + b)) (concat (map hex_byte d) @ f)
      = (d, (to_uchar (k + b) + sum_list d) mod 256, True, f)"
    by simp
  with Cons.prems show ?case by (simp add: to_uchar_def mod_add_left_eq add.assoc)
qed simp

lemma read_record_line:
  assumes "block_ok (a, d, c)"
  shows "read_record j (tl (hex_line (a, d, c)) @ f) = (0, a, Some \<lparr>h_dnum = int (length d), h_addr = a,
     h_rtyp = 0, h_data = d, h_sum = c, h_chk = block_sum a d\<rparr>, CHR 0x0A # f)"
proof -
  have a: "0 \<le> a" "a < 65536" "byte (a div 256)" "byte (a mod 256)" "byte (int (length d))"
    using assms by (auto simp: block_ok_def byte_def)
  have hl: "drop_bit 8 a mod 256 = a div 256" "a mod 2 ^ 32 = a"
    using a by (auto simp: drop_bit_eq_div)
  have ab: "a div 256 * 256 + a mod 256 = a" by simp
  have dat: "list_all byte d" "byte c" using assms by (auto simp: block_ok_def)
  define f5 where "f5 = CHR 0x0A # f"
  define f4 where "f4 = hex_byte c @ f5"
  define f3 where "f3 = concat (map hex_byte d) @ f4"
  define f2 where "f2 = hex_byte 0 @ f3"
  define f1 where "f1 = hex_byte (a div 256) @ hex_byte (a mod 256) @ f2"
  have f: "tl (hex_line (a, d, c)) @ f = hex_byte (int (length d)) @ f1"
    by (simp add: hex_line_def f1_def f2_def f3_def f4_def f5_def)
  have r: "ReadInt j 1 (hex_byte (int (length d)) @ f1) = (int (length d), True, f1)"
    "ReadInt j 2 f1 = (a, True, f2)" "ReadInt j 1 f2 = (0, True, f3)"
    "ReadInt j 1 f4 = (c, True, f5)"
    using a dat ab by (simp_all add: f1_def f2_def f4_def)
  have r3: "read_data j (length d) True k f3 = (d, (k + sum_list d) mod 256, True, f4)" if "byte k" for k
    using read_data_bytes [OF dat(1) that] by (simp add: f3_def)
  show ?thesis
    unfolding read_record_def f using a(5) dat(2)
    by (simp only: r split Let_def byte_uchar_eq hl nat_int)
      (simp add: r3 r [unfolded One_nat_def] to_uchar_def mod_add_left_eq hl block_sum_def f5_def)
qed

lemma store_data_bytes:
  assumes "list_all byte d" "0 \<le> r_addr r" "r_addr r + int (length d) \<le> 0x8000"
  shows "store_data 8 d r s = (r\<lparr>r_addr := r_addr r + int (length d),
     r_written := r_written r + int (length d)\<rparr>, load_bytes (r_addr r) d s)"
  using assms
proof (induction d arbitrary: r s)
  case (Cons b d)
  have "leaf_set Flashbank0 (r_addr r) b s = poke (Cell Flashbank0 (r_addr r)) b s"
    using Cons.prems by (simp add: leaf_set_def out_of_space_def set_poke)
  then show ?case using Cons by (simp add: algebra_simps)
qed simp

text \<open>The state of the reader once a record is stored: its address moves past the bytes.\<close>

definition after_block :: "hex_block \<Rightarrow> hex_reader \<Rightarrow> hex_reader" where
  "after_block = (\<lambda>(a, d, c) r. r\<lparr>r_recnum := r_recnum r + 1,
     r_addr := (if block_sound (a, d, c) then a + int (length d) else a),
     r_written := r_written r + (if block_sound (a, d, c) then int (length d) else 0)\<rparr>)"

lemma read_one_line:
  assumes "block_ok b" "list_all ((\<noteq>) CHR '':'') p"
  shows "read_one j 8 (p @ hex_line b @ f) r s
     = Some (True, CHR 0x0A # f, after_block b r, load_block b s)"
proof -
  obtain a d c where b: "b = (a, d, c)" by (cases b)
  have ok: "block_ok (a, d, c)" using assms(1) b by simp
  have skip: "dropWhile ((\<noteq>) CHR '':'') (p @ hex_line b @ f) = CHR '':'' # tl (hex_line b) @ f"
    using assms(2) by (simp add: b hex_line_def list_all_iff)
  have sound: "to_uchar (c + block_sum a d) = 0 \<longleftrightarrow> block_sound (a, d, c)"
    by (simp add: block_sound_def to_uchar_def add.commute)
  show ?thesis
    using ok unfolding read_one_def skip
    by (simp add: b read_record_line store_record_def sound after_block_def load_block_def
        store_data_bytes block_ok_def)
qed

lemma read_one_end:
  assumes "list_all ((\<noteq>) CHR '':'') p"
  shows "read_one j 8 (p @ '':00000001FF'') r s
     = Some (False, [], r\<lparr>r_recnum := r_recnum r + 1, r_addr := 0\<rparr>, s)"
proof -
  have skip: "dropWhile ((\<noteq>) CHR '':'') (p @ '':00000001FF'') = '':00000001FF''"
    using assms by (simp add: list_all_iff)
  have "read_record j ''00000001FF'' = (1, 0, Some \<lparr>h_dnum = 0, h_addr = 0, h_rtyp = 1, h_data = [],
     h_sum = 255, h_chk = 1\<rparr>, [])"
    by code_simp
  then show ?thesis unfolding read_one_def skip by (simp add: store_record_def)
qed

lemma read_records_file:
  assumes "list_all block_ok bs" "list_all ((\<noteq>) CHR '':'') p"
  shows "\<exists>r'. read_records j 8 (p @ hex_file bs) r s = (r', foldl (\<lambda>s b. load_block b s) s bs)
     \<and> r_written r' = r_written r + (\<Sum>(a, d, c)\<leftarrow>filter block_sound bs. int (length d))"
  using assms
proof (induction bs arbitrary: p r s)
  case Nil
  then show ?case
    by (simp add: hex_file_def read_records.simps [of j 8 "p @ _"] read_one_end)
next
  case (Cons b bs)
  let ?t = "load_block b s" and ?r = "after_block b r"
  have one: "read_one j 8 (p @ hex_file (b # bs)) r s = Some (True, [CHR 0x0A] @ hex_file bs, ?r, ?t)"
    using Cons.prems read_one_line [of b p j "concat (map hex_line bs) @ '':00000001FF''" r s]
    by (simp add: hex_file_def)
  obtain r' where "read_records j 8 ([CHR 0x0A] @ hex_file bs) ?r ?t
       = (r', foldl (\<lambda>s b. load_block b s) ?t bs)"
    "r_written r' = r_written ?r + (\<Sum>(a, d, c)\<leftarrow>filter block_sound bs. int (length d))"
    using Cons.IH [of "[CHR 0x0A]" ?r ?t] Cons.prems by auto
  then show ?case
    using one by (cases b) (simp add: read_records.simps [of j 8 "p @ _"] after_block_def)
qed

subsection \<open>The program memory\<close>

text \<open>The byte the memory map gives for an address of the program memory.\<close>

definition rom_byte :: "'z mem_scheme \<Rightarrow> t_addr \<Rightarrow> int" where
  "rom_byte s i = cell_get (the (code_cell i s)) s"

text \<open>A ready core whose bank register names one of the four banks.\<close>

definition banked :: "'z core51_scheme \<Rightarrow> bool" where
  "banked s \<longleftrightarrow> ready s \<and> cell_get (Cell Sfr 0x1f) s mod 8 \<le> 3"

lemma banked_ready [simp]: "banked s \<Longrightarrow> ready s"
  by (simp add: banked_def)

lemma banked_flags [simp]:
  "banked (s\<lparr>cflags := f\<rparr>) = banked s" "rom_byte (s\<lparr>cflags := f\<rparr>) = rom_byte s"
proof -
  have "ready (s\<lparr>cflags := f\<rparr>) = ready s" by (rule ready_cong) simp_all
  moreover have g: "cell_get c (s\<lparr>cflags := f\<rparr>) = cell_get c s" for c by (simp add: cell_get_def)
  ultimately show "banked (s\<lparr>cflags := f\<rparr>) = banked s" by (simp add: banked_def)
  show "rom_byte (s\<lparr>cflags := f\<rparr>) = rom_byte s" by (simp add: fun_eq_iff rom_byte_def code_cell_def g)
qed

lemma rom_byte_byte [simp]: "banked s \<Longrightarrow> byte (rom_byte s i)"
  by (simp add: rom_byte_def)

context core_elements
begin

lemma rom_get_byte:
  assumes "banked s" "0 \<le> i"
  shows "as_get hw Rom i s = Some (rom_byte s i, s)"
proof (cases "i < 0x8000")
  case True
  then show ?thesis
    using assms(2) by (simp add: as_get_def rom_get_def rom_byte_def code_cell_def leaf_get_def out_of_space_def)
next
  case False
  have s: "ready s" and f: "cell_get (Cell Sfr 0x1f) s mod 8 \<le> 3"
    using assms(1) by (simp_all add: banked_def)
  have m: "leaf_read hw Sfr r_MCON s = Some (cell_get (Cell Sfr 0x47) s, s)"
    using s by (simp add: leaf_read_def out_of_space_def)
  obtain j where j: "i smod 0x8000 = j" "i mod 0x8000 = j" "0 \<le> j" "j < 0x8000"
    using assms(2) by (simp add: smod_pos)
  show ?thesis
    using False f j
    by (simp add: as_get_def rom_get_def rom_byte_def code_cell_def fmap_watched [OF s] m and_7
        and_single_bit Let_def sram_get_def sram_cell_def leaf_get_def cells_get_def cells_at_def
        out_of_space_def)
qed

end

subsection \<open>The analyzer\<close>

text \<open>
  The addresses the analyzer goes to from an instruction, in the program memory \<open>m\<close>. They are
  what the source computes and not the targets of the jumps: a relative address is added to the
  address of the jump itself, and an absolute call takes its page from the first operand byte.
\<close>

definition flow :: "(int \<Rightarrow> int) \<Rightarrow> int \<Rightarrow> int list" where
  "flow m a =
     (if m a = 0xa5 then []
      else (let e = disass_51 ! nat (m a); b = d_branch e; n = d_length e;
                near = (a AND 0xf800) OR ((m (a + 1) AND 7) * 256 + m (a + 2));
                far = m (a + 1) * 256 + m (a + 2)
            in if b = CHR ''a'' then [near, a + n] else if b = CHR ''A'' then [near]
               else if b = CHR ''l'' then [far, a + n] else if b = CHR ''L'' then [far]
               else if b = CHR ''r'' then [validate_address Rom (a + to_schar (m (a + 1))), a + n]
               else if b = CHR ''R'' then [validate_address Rom (a + to_schar (m (a + 2))), a + n]
               else if b = CHR ''s'' then [validate_address Rom (a + 2 + to_schar (m (a + 1)))]
               else if b = CHR ''_'' then [] else [validate_address Rom (a + n)]))"

definition marks :: "'z mem_scheme \<Rightarrow> int set" where
  "marks s = {a. 0 \<le> a \<and> a < 0x10000 \<and> cflags s (Cell Rom a) AND CELL_INST \<noteq> 0}"

definition marked :: "int \<Rightarrow> 'z mem_scheme \<Rightarrow> 'z mem_scheme" where
  "marked a s = s\<lparr>cflags := (cflags s)(Cell Rom a := cflags s (Cell Rom a) OR CELL_INST)\<rparr>"

lemma marked_set [simp]:
  assumes "0 \<le> a" "a < 0x10000"
  shows "marks (marked a s) = insert a (marks s)"
proof -
  have "(x OR 4) AND 4 \<noteq> 0" for x :: int
    using and_single_bit(3) [of "x OR 4"] by (simp add: bit_simps)
  then show ?thesis using assms by (auto simp: marks_def marked_def)
qed

lemma marked_banked [simp]:
  "banked (marked a s) = banked s" "rom_byte (marked a s) = rom_byte s"
  by (simp_all add: marked_def)

lemma inst_at_eq: "0 \<le> a \<Longrightarrow> a < 0x10000 \<Longrightarrow> inst_at a s = Some (a \<in> marks s)"
  by (simp add: inst_at_def get_cell_flag_def out_of_space_def cells_at_def cell_get_flag_def marks_def)

lemma set_inst_at_eq: "0 \<le> a \<Longrightarrow> a < 0x10000 \<Longrightarrow> set_inst_at a s = Some (marked a s)"
  by (simp add: set_inst_at_def set_cell_flag_def out_of_space_def cells_at_def cell_set_flag_def marked_def)

context core_elements
begin

lemma analyze_stop:
  assumes "banked s" "0 \<le> a" "a < 0x10000" "a \<in> marks s \<or> rom_byte s a = 0xa5"
  shows "analyze hw a s = Some ((), s)"
  using assms by (subst analyze.simps) (simp add: rom_get_byte inst_at_eq)

lemma analyze_step:
  assumes s: "banked s" and a: "0 \<le> a" "a < 0x10000" and new: "a \<notin> marks s" "rom_byte s a \<noteq> 0xa5"
  shows "analyze hw a s = (case flow (rom_byte s) a of
       [] \<Rightarrow> Some ((), marked a s)
     | [x] \<Rightarrow> analyze hw x (marked a s)
     | x # y # _ \<Rightarrow> do {
         (_, s1) \<leftarrow> analyze hw x (marked a s);
         (_, s2) \<leftarrow> analyze hw y s1;
         analyze hw a s2
       })"
proof -
  have c: "0 \<le> rom_byte s a" "rom_byte s a < 256" using s rom_byte_byte [of s a] byteD by blast+
  show ?thesis
    using assms c
    by (subst analyze.simps) (simp add: rom_get_byte inst_at_eq set_inst_at_eq flow_def Let_def)
qed

end

subsection \<open>What the analyzer marks\<close>

abbreviation reaches :: "(int \<Rightarrow> int) \<Rightarrow> int \<Rightarrow> int \<Rightarrow> bool" where
  "reaches m \<equiv> (\<lambda>x y. y \<in> set (flow m x))\<^sup>*\<^sup>*"

definition stays_in_rom :: "(int \<Rightarrow> int) \<Rightarrow> int \<Rightarrow> bool" where
  "stays_in_rom m a \<longleftrightarrow> (\<forall>x. reaches m a x \<longrightarrow> 0 \<le> x \<and> x < 0x10000)"

definition visited :: "(int \<Rightarrow> int) \<Rightarrow> 'z mem_scheme \<Rightarrow> int \<Rightarrow> bool" where
  "visited m s a \<longleftrightarrow> a \<in> marks s \<or> m a = 0xa5"

text \<open>
  What one call leaves behind: its address is visited, every new mark is reachable, is not a break
  point, and has all its successors visited.
\<close>

definition explored :: "(int \<Rightarrow> int) \<Rightarrow> int \<Rightarrow> 'z mem_scheme \<Rightarrow> 'z mem_scheme \<Rightarrow> bool" where
  "explored m a s t \<longleftrightarrow> t = s\<lparr>cflags := cflags t\<rparr> \<and> marks s \<subseteq> marks t \<and> visited m t a
     \<and> (\<forall>x \<in> marks t - marks s. reaches m a x \<and> m x \<noteq> 0xa5 \<and> (\<forall>y \<in> set (flow m x). visited m t y))"

definition unmarked :: "'z mem_scheme \<Rightarrow> int set" where
  "unmarked s = {0..0xffff} - marks s"

lemma unmarked_less:
  assumes "0 \<le> a" "a < 0x10000" "a \<notin> marks s"
  shows "card (unmarked (marked a s)) < card (unmarked s)"
proof -
  have "unmarked (marked a s) = unmarked s - {a}" "a \<in> unmarked s" "finite (unmarked s)"
    using assms by (auto simp: unmarked_def)
  then show ?thesis using card_Diff1_less [of "unmarked s" a] by simp
qed

lemma unmarked_mono: "marks s \<subseteq> marks t \<Longrightarrow> card (unmarked t) \<le> card (unmarked s)"
  unfolding unmarked_def by (rule card_mono) (simp, blast)

lemma marked_flags: "(marked a s)\<lparr>cflags := f\<rparr> = s\<lparr>cflags := f\<rparr>"
  by (simp add: marked_def)

lemma flags_twice: "s\<lparr>cflags := f, cflags := g\<rparr> = s\<lparr>cflags := g\<rparr>"
  by simp

lemma reaches_flow: "x \<in> set (flow m a) \<Longrightarrow> reaches m x y \<Longrightarrow> reaches m a y"
  by (rule converse_rtranclp_into_rtranclp)

lemma flow_length: "length (flow m a) \<le> 2"
  unfolding flow_def Let_def by (simp split: if_split)

lemma stays_in_rom_flow: "stays_in_rom m a \<Longrightarrow> x \<in> set (flow m a) \<Longrightarrow> stays_in_rom m x"
  unfolding stays_in_rom_def by (meson converse_rtranclp_into_rtranclp)

lemma explored_marks: "explored m a s t \<Longrightarrow> marks s \<subseteq> marks t"
  by (simp add: explored_def)

lemma explored_banked: "explored m a s t \<Longrightarrow> banked s \<Longrightarrow> banked t \<and> rom_byte t = rom_byte s"
  by (metis banked_flags explored_def)

lemma visited_mono: "visited m s a \<Longrightarrow> marks s \<subseteq> marks t \<Longrightarrow> visited m t a"
  by (auto simp: visited_def)

lemma explored_self: "visited m s a \<Longrightarrow> explored m a s s"
  by (simp add: explored_def)

lemma explored_step:
  assumes a: "0 \<le> a" "a < 0x10000" "m a \<noteq> 0xa5"
    and t: "t = s\<lparr>cflags := cflags t\<rparr>" "marks (marked a s) \<subseteq> marks t"
    and succs: "\<And>y. y \<in> set (flow m a) \<Longrightarrow> visited m t y"
    and new: "\<And>x. x \<in> marks t \<Longrightarrow> x \<notin> marks (marked a s) \<Longrightarrow> (\<exists>y \<in> set (flow m a). reaches m y x)
      \<and> m x \<noteq> 0xa5 \<and> (\<forall>w \<in> set (flow m x). visited m t w)"
  shows "explored m a s t"
  unfolding explored_def
proof (intro conjI ballI)
  have sub: "insert a (marks s) \<subseteq> marks t" using t(2) a by simp
  show "t = s\<lparr>cflags := cflags t\<rparr>" "marks s \<subseteq> marks t" "visited m t a"
    using t sub by (auto simp: visited_def)
  fix x assume x: "x \<in> marks t - marks s"
  show "reaches m a x"
  proof (cases "x = a")
    case False
    then show ?thesis using new [of x] x a by (auto intro: reaches_flow)
  qed simp
  show "m x \<noteq> 0xa5" using new [of x] x a by (cases "x = a") auto
  show "visited m t y" if "y \<in> set (flow m x)" for y
    using new [of x] succs that x a by (cases "x = a") auto
qed

lemma explored_new:
  assumes "0 \<le> a" "a < 0x10000" "m a \<noteq> 0xa5" "flow m a = []"
  shows "explored m a s (marked a s)"
  by (rule explored_step) (use assms in \<open>simp_all add: marked_def\<close>)

lemma explored_one:
  assumes a: "0 \<le> a" "a < 0x10000" "m a \<noteq> 0xa5" and f: "flow m a = [x]"
    and x: "explored m x (marked a s) t"
  shows "explored m a s t"
proof (rule explored_step [of a m, OF a])
  show "t = s\<lparr>cflags := cflags t\<rparr>" using x unfolding explored_def by (metis marked_flags)
qed (use x f in \<open>auto simp: explored_def\<close>)

lemma explored_two:
  assumes a: "0 \<le> a" "a < 0x10000" "m a \<noteq> 0xa5" and f: "flow m a = [x, y]"
    and x: "explored m x (marked a s) s1" and y: "explored m y s1 t"
  shows "explored m a s t"
proof (rule explored_step [of a m, OF a])
  have sub: "marks s1 \<subseteq> marks t" using explored_marks [OF y] .
  show "t = s\<lparr>cflags := cflags t\<rparr>"
    using x y unfolding explored_def by (metis marked_flags flags_twice)
  show "marks (marked a s) \<subseteq> marks t" using explored_marks [OF x] sub by (rule order_trans)
  show "visited m t z" if "z \<in> set (flow m a)" for z
    using that f x y visited_mono [OF _ sub] by (auto simp: explored_def)
  fix z assume z: "z \<in> marks t" "z \<notin> marks (marked a s)"
  show "(\<exists>v \<in> set (flow m a). reaches m v z) \<and> m z \<noteq> 0xa5 \<and> (\<forall>w \<in> set (flow m z). visited m t w)"
  proof (cases "z \<in> marks s1")
    case True
    then show ?thesis using x z f visited_mono [OF _ sub] by (auto simp: explored_def)
  next
    case False
    then show ?thesis using y z f by (auto simp: explored_def)
  qed
qed

context core_elements
begin

lemma analyze_explores:
  assumes "banked s" "rom_byte s = m" "stays_in_rom m a"
  shows "\<exists>t. analyze hw a s = Some ((), t) \<and> explored m a s t"
  using assms
proof (induction "card (unmarked s)" arbitrary: a s rule: less_induct)
  case less
  have a: "0 \<le> a" "a < 0x10000" using less.prems(3) by (auto simp: stays_in_rom_def)
  show ?case
  proof (cases "visited m s a")
    case True
    then show ?thesis
      using analyze_stop [OF less.prems(1) a] less.prems(2) by (auto simp: visited_def explored_self)
  next
    case False
    then have new: "a \<notin> marks s" "m a \<noteq> 0xa5" by (simp_all add: visited_def)
    note dec = unmarked_less [OF a new(1)]
    have go: "\<exists>t. analyze hw x u = Some ((), t) \<and> explored m x u t"
      if "x \<in> set (flow m a)" "banked u" "rom_byte u = m" "marks (marked a s) \<subseteq> marks u" for x u
    proof (rule less.hyps)
      show "card (unmarked u) < card (unmarked s)" using dec unmarked_mono [OF that(4)] by simp
    qed (use that less.prems stays_in_rom_flow in auto)
    note step = analyze_step [OF less.prems(1) a new(1), unfolded less.prems(2), OF new(2)]
    have bm: "banked (marked a s)" "rom_byte (marked a s) = m" using less.prems by simp_all
    consider "flow m a = []" | x where "flow m a = [x]" | x y where "flow m a = [x, y]"
      using flow_length [of m a] by (cases "flow m a" rule: remdups_adj.cases) auto
    then show ?thesis
    proof cases
      case 1
      then show ?thesis using step explored_new [of a m s] a new(2) by auto
    next
      case 2
      then show ?thesis using step go [of x "marked a s"] bm explored_one [of a m x s] a new(2) by auto
    next
      case 3
      obtain s1 where s1: "analyze hw x (marked a s) = Some ((), s1)" "explored m x (marked a s) s1"
        using go [of x "marked a s"] bm 3 by auto
      note b1 = explored_banked [OF s1(2) bm(1)]
      obtain t where t: "analyze hw y s1 = Some ((), t)" "explored m y s1 t"
        using go [of y s1] b1 bm(2) 3 explored_marks [OF s1(2)] by auto
      have e: "explored m a s t" by (rule explored_two) (use a new(2) 3 s1(2) t(2) in auto)
      have "a \<in> marks t" using explored_marks [OF s1(2)] explored_marks [OF t(2)] a by auto
      then have "analyze hw a t = Some ((), t)"
        using analyze_stop [of t a] explored_banked [OF t(2)] b1 a by blast
      then show ?thesis using step 3 s1(1) t(1) e by auto
    qed
  qed
qed

lemma analyze_reach:
  assumes "banked s" "rom_byte s = m" "stays_in_rom m a" "marks s = {}"
  shows "\<exists>t. analyze hw a s = Some ((), t) \<and> t = s\<lparr>cflags := cflags t\<rparr>
    \<and> marks t = {x. reaches m a x \<and> m x \<noteq> 0xa5}"
proof -
  obtain t where t: "analyze hw a s = Some ((), t)" "explored m a s t"
    using analyze_explores [OF assms(1-3)] by blast
  have "visited m t x" if "reaches m a x" for x
    using that
  proof (induction rule: rtranclp_induct)
    case base
    then show ?case using t(2) by (simp add: explored_def)
  next
    case (step x y)
    have "flow m x = []" if "m x = 0xa5" using that by (simp add: flow_def)
    then have "x \<in> marks t" using step by (auto simp: visited_def)
    then show ?case using t(2) step assms(4) by (auto simp: explored_def)
  qed
  then have "marks t = {x. reaches m a x \<and> m x \<noteq> 0xa5}"
    using t(2) assms(4) by (auto simp: explored_def visited_def)
  then show ?thesis using t by (auto simp: explored_def)
qed

end

subsection \<open>Loading\<close>

definition load_file :: "hex_block list \<Rightarrow> 'z mem_scheme \<Rightarrow> 'z mem_scheme" where
  "load_file bs s = foldl (\<lambda>s b. load_block b s) s bs"

text \<open>The last byte a sound record of the file gives for an address.\<close>

definition block_at :: "hex_block \<Rightarrow> int \<Rightarrow> int option" where
  "block_at = (\<lambda>(a, d, c) i. if block_sound (a, d, c) \<and> a \<le> i \<and> i < a + int (length d)
     then Some (d ! nat (i - a)) else None)"

fun image_of :: "hex_block list \<Rightarrow> int \<Rightarrow> int option" where
  "image_of [] i = None"
| "image_of (b # bs) i = (case image_of bs i of Some v \<Rightarrow> Some v | None \<Rightarrow> block_at b i)"

lemma load_bytes_ready:
  "ready s \<Longrightarrow> list_all byte d \<Longrightarrow> ready (load_bytes a d s) \<and> cflags (load_bytes a d s) = cflags s"
  by (induction a d s rule: load_bytes.induct) auto

lemma load_bytes_get:
  assumes "ready s" "list_all byte d"
  shows "cell_get c (load_bytes a d s) = (case c of Cell Flashbank0 i \<Rightarrow>
       if a \<le> i \<and> i < a + int (length d) then d ! nat (i - a) else cell_get c s | _ \<Rightarrow> cell_get c s)"
  using assms
proof (induction a d s rule: load_bytes.induct)
  case (2 a b bs s)
  have "nat (i - a) = Suc (nat (i - (a + 1)))" if "a + 1 \<le> i" for i using that by simp
  then show ?case
    using 2 by (auto split: cell.splits as_id.splits)
qed (auto split: cell.splits as_id.splits)

lemma load_block_facts:
  assumes "ready s" "block_ok b"
  shows "ready (load_block b s)" "cflags (load_block b s) = cflags s"
    "cell_get c (load_block b s) = (case c of Cell Flashbank0 i \<Rightarrow>
       (case block_at b i of Some v \<Rightarrow> v | None \<Rightarrow> cell_get c s) | _ \<Rightarrow> cell_get c s)"
  using assms load_bytes_ready [of s "fst (snd b)" "fst b"] load_bytes_get [of s "fst (snd b)" c "fst b"]
  by (cases b; auto simp: load_block_def block_at_def block_ok_def split: cell.splits as_id.splits)+

lemma load_file_facts:
  assumes "ready s" "list_all block_ok bs"
  shows "ready (load_file bs s) \<and> cflags (load_file bs s) = cflags s
    \<and> (\<forall>c. cell_get c (load_file bs s) = (case c of Cell Flashbank0 i \<Rightarrow>
       (case image_of bs i of Some v \<Rightarrow> v | None \<Rightarrow> cell_get c s) | _ \<Rightarrow> cell_get c s))"
  using assms
proof (induction bs arbitrary: s)
  case (Cons b bs)
  then have "load_file (b # bs) s = load_file bs (load_block b s)" by (simp add: load_file_def)
  with Cons show ?case
    by (auto simp: load_block_facts split: cell.splits as_id.splits option.splits)
qed (auto simp: load_file_def split: cell.splits as_id.splits)

lemma load_file_banked:
  assumes "banked s" "list_all block_ok bs"
  shows "banked (load_file bs s)" "marks (load_file bs s) = marks s"
    "0 \<le> i \<Longrightarrow> i < 0x8000 \<Longrightarrow>
     rom_byte (load_file bs s) i = (case image_of bs i of Some b \<Rightarrow> b | None \<Rightarrow> rom_byte s i)"
  using assms load_file_facts [of s bs] by (simp_all add: banked_def marks_def rom_byte_def code_cell_def split: option.split)

text \<open>
  C24 A file of Intel HEX data records is read back into the program memory: after
  \<open>read_hex_file\<close> every address below 8000h reads the byte of the last record that covers it, or what it held
  before; a record whose check sum is wrong is skipped; the result counts the bytes stored. The
  reader and the analyzer return for every such file whose program stays inside of the program
  memory.
\<close>

theorem hex_load:
  assumes "banked s" "list_all block_ok bs" "marks s = {}"
    and "stays_in_rom (rom_byte (load_file bs s)) 0"
  shows "\<exists>t. read_hex_file (core51_hwif other) junk 8 (Some (hex_file bs)) s
      = Some (\<Sum>(a, d, c)\<leftarrow>filter block_sound bs. int (length d), t)
    \<and> (\<forall>i \<in> {0..<0x8000}. as_read (core51_hwif other) Rom i t
        = Some (case image_of bs i of Some b \<Rightarrow> b | None \<Rightarrow> rom_byte s i, t))"
proof -
  let ?u = "load_file bs s"
  obtain r where r: "read_records junk 8 (hex_file bs) new_reader s = (r, ?u)"
      "r_written r = (\<Sum>(a, d, c)\<leftarrow>filter block_sound bs. int (length d))"
    using read_records_file [OF assms(2), of "[]" junk new_reader s]
    by (auto simp: load_file_def new_reader_def)
  note u = load_file_banked [OF assms(1,2)]
  have "marks ?u = {}" using u(2) assms(3) by simp
  from c51.analyze_reach [OF u(1) refl assms(4) this, of other]
  obtain t where t: "analyze (core51_hwif other) 0 ?u = Some ((), t)" "t = ?u\<lparr>cflags := cflags t\<rparr>"
    by (elim exE conjE) (rule that)
  obtain g where g: "t = ?u\<lparr>cflags := g\<rparr>" using t(2) by (rule that)
  have b: "banked t" "rom_byte t = rom_byte ?u" by (simp_all add: g u(1))
  have "as_read (core51_hwif other) Rom i t = Some (rom_byte t i, t)" if "0 \<le> i" "i < 0x8000" for i
    using c51.rom_read_ready [OF banked_ready [OF b(1)], of i "Cell Flashbank0 i"] that
    by (simp add: rom_byte_def code_cell_def)
  moreover have "rom_byte t i = (case image_of bs i of Some b \<Rightarrow> b | None \<Rightarrow> rom_byte s i)"
    if "0 \<le> i" "i < 0x8000" for i
    using u(3) [OF that] b(2) by simp
  moreover have "read_hex_file (core51_hwif other) junk 8 (Some (hex_file bs)) s = Some (r_written r, t)"
    using r(1) t(1) by (simp add: read_hex_file_def)
  ultimately show ?thesis using r(2) by (intro exI [of _ t]) simp
qed

text \<open>
  C25 On a program that stays inside of the program memory the code analyzer returns,
  changes nothing but the instruction marks, and leaves the mark at exactly the addresses reachable
  from where it started along its own successor relation, the break code A5h excepted.
\<close>

theorem analyze_reachable:
  assumes "banked s" "marks s = {}" "stays_in_rom (rom_byte s) a"
  shows "\<exists>t. analyze (core51_hwif other) a s = Some ((), t) \<and> t = s\<lparr>cflags := cflags t\<rparr>
    \<and> (\<forall>x \<in> {0..<0x10000}. inst_at x t = Some (reaches (rom_byte s) a x \<and> rom_byte s x \<noteq> 0xa5))"
  using c51.analyze_reach [OF assms(1) refl assms(3,2), of other] by (fastforce simp: inst_at_eq)

text \<open>The smallest program: a jump to itself at address 0.\<close>

definition self_jump :: "cell \<Rightarrow> int" where
  "self_jump c = (if c = Cell Flashbank0 0 then 0x80 else if c = Cell Flashbank0 1 then 0xFE else 0)"

lemma boot51_banked:
  assumes "\<And>c. byte (h c)" "h (Cell Sfr 0x1f) mod 8 \<le> 3"
  shows "banked (boot51 h)" "marks (boot51 h) = {}"
  using assms boot51_ready [of h] by (simp_all add: banked_def) (simp add: marks_def boot51_def)

lemma self_jump_flow:
  assumes "m 0 = 0x80" "m 1 = 0xFE"
  shows "stays_in_rom m 0" "reaches m 0 x \<longleftrightarrow> x = 0"
proof -
  have "disass_51 ! 128 = dis 0x80 CHR ''s'' 2 ''SJMP %r''" by code_simp
  then have f: "flow m 0 = [0]"
    using assms by (simp add: flow_def dis_def to_schar_def validate_address_eq)
  have "x = 0" if "reaches m 0 x" for x
    using that by (induction rule: rtranclp_induct) (use f in auto)
  then show "stays_in_rom m 0" "reaches m 0 x \<longleftrightarrow> x = 0" by (fastforce simp: stays_in_rom_def)+
qed

lemma self_jump_boot: "banked (boot51 self_jump)" "marks (boot51 self_jump) = {}"
  by (rule boot51_banked; simp add: self_jump_def)+

theorem analyze_reachable_witness:
  "\<exists>t. analyze (core51_hwif base_hw) 0 (boot51 self_jump) = Some ((), t) \<and> inst_at 0 t = Some True
     \<and> inst_at 1 t = Some False"
proof -
  let ?s = "boot51 self_jump"
  have m: "rom_byte ?s 0 = 0x80" "rom_byte ?s 1 = 0xFE"
    by (simp_all add: rom_byte_def code_cell_def self_jump_def)
  obtain t where t: "analyze (core51_hwif base_hw) 0 ?s = Some ((), t)"
    "\<forall>x \<in> {0..<0x10000}. inst_at x t = Some (reaches (rom_byte ?s) 0 x \<and> rom_byte ?s x \<noteq> 0xa5)"
    using analyze_reachable [OF self_jump_boot self_jump_flow(1) [OF m], of base_hw] by blast
  have "inst_at 0 t = Some True" "inst_at 1 t = Some False"
    using bspec [OF t(2), of 0] bspec [OF t(2), of 1] self_jump_flow(2) [OF m] m by simp_all
  with t(1) show ?thesis by blast
qed

text \<open>The record \<open>:0200000080FE80\<close> holds the jump, a second one with a wrong check sum is skipped.\<close>

definition self_jump_file :: "hex_block list" where
  "self_jump_file = [(0, [0x80, 0xFE], 0x80), (0, [0x00], 0x00)]"

theorem hex_load_witness:
  "\<exists>t. read_hex_file (core51_hwif base_hw) (CHR 0x00) 8 (Some (hex_file self_jump_file))
       (boot51 (\<lambda>_. 0)) = Some (2, t)
     \<and> as_read (core51_hwif base_hw) Rom 1 t = Some (0xFE, t)"
proof -
  let ?s = "boot51 (\<lambda>_. 0)" and ?f = self_jump_file
  have f: "list_all block_ok ?f" "filter block_sound ?f = [(0, [0x80, 0xFE], 0x80)]"
    by (simp_all add: self_jump_file_def block_ok_def block_sound_def block_sum_def)
  have i: "image_of ?f 0 = Some 0x80" "image_of ?f 1 = Some 0xFE"
    by (simp_all add: self_jump_file_def block_at_def block_sound_def block_sum_def)
  have b: "banked ?s" "marks ?s = {}" by (rule boot51_banked; simp)+
  have "rom_byte (load_file ?f ?s) 0 = 0x80" "rom_byte (load_file ?f ?s) 1 = 0xFE"
    using load_file_banked(3) [OF b(1) f(1)] i by simp_all
  from hex_load [OF b(1) f(1) b(2) self_jump_flow(1) [OF this], of base_hw "CHR 0x00"]
  obtain t where "read_hex_file (core51_hwif base_hw) (CHR 0x00) 8 (Some (hex_file ?f)) ?s
      = Some (\<Sum>(a, d, c)\<leftarrow>filter block_sound ?f. int (length d), t)"
    "\<forall>i \<in> {0..<0x8000}. as_read (core51_hwif base_hw) Rom i t
        = Some (case image_of ?f i of Some b \<Rightarrow> b | None \<Rightarrow> rom_byte ?s i, t)" by blast
  then show ?thesis using f(2) i(2) by (intro exI [of _ t]) (simp add: Ball_def)
qed

end
