(* ===== verification/Family51.thy ===== *)
theory Family51
  imports Usart2530 Devices51
begin

text \<open>
  The elements and overrides of the other members of the 8051 family: timer 2 (\<open>timer2.cc\<close>), the
  programmable counter array (\<open>pca.cc\<close>), the watchdog timer (\<open>wdt.cc\<close>), and what \<open>cl_uc52\<close>,
  \<open>cl_uc51r\<close> and \<open>cl_uc89c51r\<close> change of the core (\<open>uc52.cc\<close>, \<open>uc51r.cc\<close>, \<open>uc89c51r.cc\<close>). The part of
  timer 2 inherited from \<open>cl_timer0\<close> is entry 2 of \<open>timers\<close>. Of the partners of timer 2 only the
  serial line listens to its events.
\<close>

subsection \<open>Registers and state\<close>

abbreviation "cell_t2con \<equiv> Cell Sfr 0x48"
abbreviation "cell_t2mod \<equiv> Cell Sfr 0x49"
abbreviation "cell_rcap2l \<equiv> Cell Sfr 0x4a"
abbreviation "cell_rcap2h \<equiv> Cell Sfr 0x4b"
abbreviation "cell_tl2 \<equiv> Cell Sfr 0x4c"
abbreviation "cell_th2 \<equiv> Cell Sfr 0x4d"
abbreviation "cell_p1 \<equiv> Cell Sfr 0x10"
abbreviation "cell_ccon \<equiv> Cell Sfr 0x58"
abbreviation "cell_cmod \<equiv> Cell Sfr 0x59"
abbreviation "cell_cl \<equiv> Cell Sfr 0x69"
abbreviation "cell_ch \<equiv> Cell Sfr 0x79"
abbreviation "cell_wdtrst \<equiv> Cell Sfr 0x26"
abbreviation "cell_auxr \<equiv> Cell Sfr 0x0e"

definition cell_ccapm :: "int \<Rightarrow> cell" where "cell_ccapm i = Cell Sfr (0x5a + i)"
definition cell_ccapl :: "int \<Rightarrow> cell" where "cell_ccapl i = Cell Sfr (0x6a + i)"
definition cell_ccaph :: "int \<Rightarrow> cell" where "cell_ccaph i = Cell Sfr (0x7a + i)"

abbreviation "bmTF2 \<equiv> (0x80 :: int)"
abbreviation "bmEXF2 \<equiv> (0x40 :: int)"
abbreviation "bmRCLK \<equiv> (0x20 :: int)"
abbreviation "bmTCLK \<equiv> (0x10 :: int)"
abbreviation "bmEXEN2 \<equiv> (0x08 :: int)"
abbreviation "bmTR2 \<equiv> (0x04 :: int)"
abbreviation "bmC_T2 \<equiv> (0x02 :: int)"
abbreviation "bmCP_RL2 \<equiv> (0x01 :: int)"
abbreviation "bmT2OE \<equiv> (0x02 :: int)"
abbreviation "bmDCEN \<equiv> (0x01 :: int)"
abbreviation "bmT2EX \<equiv> (0x02 :: int)"
abbreviation "bmT2 \<equiv> (0x01 :: int)"
abbreviation "bmCIDL \<equiv> (0x80 :: int)"
abbreviation "bmWDTE \<equiv> (0x40 :: int)"
abbreviation "bmCPS1 \<equiv> (0x04 :: int)"
abbreviation "bmCPS0 \<equiv> (0x02 :: int)"
abbreviation "bmECF \<equiv> (0x01 :: int)"
abbreviation "bmCF \<equiv> (0x80 :: int)"
abbreviation "bmCR \<equiv> (0x40 :: int)"
abbreviation "bmECOM \<equiv> (0x40 :: int)"
abbreviation "bmCAPP \<equiv> (0x20 :: int)"
abbreviation "bmCAPN \<equiv> (0x10 :: int)"
abbreviation "bmMAT \<equiv> (0x08 :: int)"
abbreviation "bmTOG \<equiv> (0x04 :: int)"
abbreviation "bmPWM \<equiv> (0x02 :: int)"
abbreviation "bmECI \<equiv> (0x04 :: int)"
abbreviation "bmDPS \<equiv> (0x01 :: int)"
abbreviation "T2MODE_RELOAD \<equiv> (0 :: int)"
abbreviation "T2MODE_CAPTURE \<equiv> (1 :: int)"
abbreviation "T2MODE_BAUDRATE \<equiv> (2 :: int)"
abbreviation "T2MODE_DOWN \<equiv> (4 :: int)"
abbreviation "T2MODE_CLKOUT \<equiv> (5 :: int)"

definition bmCEX :: "int \<Rightarrow> int" where "bmCEX nr = 8 * 2 ^ nat nr"
definition bmCCF :: "int \<Rightarrow> int" where "bmCCF nr = 2 ^ nat nr"

record timer2 =
  features :: int
  exf2it :: bool
  RCLK :: t_mem
  TCLK :: t_mem
  CP_RL2 :: t_mem
  EXEN2 :: t_mem
  t2ex_edge :: int
  bit_dcen :: bool
  bit_t2oe :: bool
  bit_t2ex :: bool

record pca =
  ccapm :: "int \<Rightarrow> t_mem"
  t0_overflows :: int
  ECI_edge :: int
  clk_source :: t_mem
  bit_CIDL :: bool
  bit_WDTE :: bool
  bit_ECF :: bool
  bit_CR :: bool
  cex_pos :: "int \<Rightarrow> bool"
  cex_neg :: "int \<Rightarrow> bool"

record wdt =
  wdt_count :: int
  reset_value :: int
  written_since_reset :: bool

record dptrs =
  dpl0 :: uchar
  dph0 :: uchar
  dpl1 :: uchar
  dph1 :: uchar

record fam51 = cc2530 +
  t2 :: timer2
  pca :: pca
  wd :: wdt
  dp :: dptrs

type_synonym 'z fam_hw = "'z fam51_scheme hwif"
type_synonym ('a, 'z) fact = "'z fam51_scheme \<Rightarrow> ('a \<times> 'z fam51_scheme) option"

definition upd_t2 :: "(timer2 \<Rightarrow> timer2) \<Rightarrow> 'z fam51_scheme \<Rightarrow> 'z fam51_scheme" where
  "upd_t2 f s = s\<lparr>t2 := f (t2 s)\<rparr>"

definition upd_pca :: "(pca \<Rightarrow> pca) \<Rightarrow> 'z fam51_scheme \<Rightarrow> 'z fam51_scheme" where
  "upd_pca f s = s\<lparr>pca := f (pca s)\<rparr>"

definition upd_wd :: "(wdt \<Rightarrow> wdt) \<Rightarrow> 'z fam51_scheme \<Rightarrow> 'z fam51_scheme" where
  "upd_wd f s = s\<lparr>wd := f (wd s)\<rparr>"

subsection \<open>Timer 2: registers\<close>

definition exf2_name :: string where
  "exf2_name = ''timer #2 EXF2''"

definition timer2_added :: "(unit, 'z) fact" where
  "timer2_added s = do {
     s \<leftarrow> add_it_src (mk_it_src r_IE 0x20 0xc8 bmTF2 0x002b False ''timer #2 TF2'' 7) s;
     s \<leftarrow> add_it_src (mk_it_src r_IE 0x20 0xc8 bmEXF2 0x002b False exf2_name 7) s;
     Some ((), upd_t2 (\<lambda>t. t\<lparr>exf2it := True\<rparr>) s)
   }"

text \<open>The source of EXF2 is shared with the list of sources: it is the one of its name.\<close>

definition exf2_activate :: "bool \<Rightarrow> 'z fam51_scheme \<Rightarrow> 'z fam51_scheme" where
  "exf2_activate a s =
     (if exf2it (t2 s)
      then s\<lparr>it_sources := (it_sources s)\<lparr>Items := map (\<lambda>x. if it_name x = exf2_name
              then set_active_status a x else x) (Items (it_sources s))\<rparr>\<rparr>
      else s)"

definition t2_mode_of :: "timer2 \<Rightarrow> int" where
  "t2_mode_of t =
     (if \<not> (RCLK t \<noteq> 0 \<or> TCLK t \<noteq> 0) \<and> CP_RL2 t = 0 then T2MODE_RELOAD
      else if \<not> (RCLK t \<noteq> 0 \<or> TCLK t \<noteq> 0) \<and> CP_RL2 t \<noteq> 0 then T2MODE_CAPTURE
      else T2MODE_BAUDRATE)"

definition t2con_write :: "'z fam_hw \<Rightarrow> t_mem \<Rightarrow> (unit, 'z) fact" where
  "t2con_write hw val s =
     (let old = t_mode (timers s 2);
          s = upd_t2 (\<lambda>t. t\<lparr>RCLK := val AND bmRCLK, TCLK := val AND bmTCLK, CP_RL2 := val AND bmCP_RL2,
                EXEN2 := val AND bmEXEN2\<rparr>) s;
          s = set_timer 2 (\<lambda>t. t\<lparr>t_C_T := (val AND bmC_T2 \<noteq> 0), t_TR := (val AND bmTR2 \<noteq> 0),
                t_mode := t2_mode_of (t2 s)\<rparr>) s
      in if t_mode (timers s 2) \<noteq> old then hw_happen hw Hw_serial (EV_T2_MODE_CHANGED val) s
         else Some ((), s))"

definition t2mod_write :: "t_mem \<Rightarrow> 'z fam51_scheme \<Rightarrow> 'z fam51_scheme" where
  "t2mod_write val s =
     (let s = upd_t2 (\<lambda>t. t\<lparr>bit_dcen := (val AND bmDCEN \<noteq> 0), bit_t2oe := (val AND bmT2OE \<noteq> 0)\<rparr>) s;
          s = (if features (t2 s) AND 0x02 \<noteq> 0 \<and> bit_dcen (t2 s) \<and> t_mode (timers s 2) = T2MODE_RELOAD
               then exf2_activate False (set_timer 2 (\<lambda>t. t\<lparr>t_mode := T2MODE_DOWN\<rparr>) s) else s)
      in if features (t2 s) AND 0x04 \<noteq> 0 \<and> bit_t2oe (t2 s)
         then set_timer 2 (\<lambda>t. t\<lparr>t_mode := T2MODE_CLKOUT\<rparr>) s else s)"

definition timer2_write :: "'z fam_hw \<Rightarrow> cell \<Rightarrow> t_mem \<Rightarrow> (t_mem, 'z) fact" where
  "timer2_write hw cell val s = do {
     let old = timers s 2;
     let s = exf2_activate True s;
     (_, s) \<leftarrow> (if cell = cell_t2con then t2con_write hw val s
               else Some ((), if cell = cell_t2mod then t2mod_write val s else s));
     let new = timers s 2;
     Some (val, if t_mode new \<noteq> t_mode old \<or> t_TR new \<noteq> t_TR old
                then upd_t2 (\<lambda>t. t\<lparr>t2ex_edge := 0\<rparr>) (set_timer 2 (\<lambda>t. t\<lparr>t_T_edge := 0\<rparr>) s) else s)
   }"

fun timer2_happen :: "hw_event \<Rightarrow> (unit, 'z) fact" where
  "timer2_happen (EV_PORT_CHANGED ep) s =
     (if ep_id ep = 1 then
        (let p1n = new_pins ep AND new_value ep; p1o = pins ep AND prev_value ep;
             s = (if p1n AND bmT2 = 0 \<and> p1o AND bmT2 \<noteq> 0
                  then set_timer 2 (\<lambda>t. t\<lparr>t_T_edge := t_T_edge t + 1\<rparr>) s else s);
             s = (if p1n AND bmT2EX = 0 \<and> p1o AND bmT2EX \<noteq> 0
                  then upd_t2 (\<lambda>t. t\<lparr>t2ex_edge := t2ex_edge t + 1\<rparr>) s else s)
         in Some ((), upd_t2 (\<lambda>t. t\<lparr>bit_t2ex := (p1n AND bmT2EX \<noteq> 0)\<rparr>) s))
      else Some ((), s))"
| "timer2_happen _ s = Some ((), s)"

subsection \<open>Timer 2: counting\<close>

definition t2_capture_edge :: "'z fam51_scheme \<Rightarrow> bool" where
  "t2_capture_edge s \<longleftrightarrow> EXEN2 (t2 s) \<noteq> 0 \<and> t2ex_edge (t2 s) \<noteq> 0"

text \<open>The count of an external clock is what the pin has collected since.\<close>

definition t2_reload_regs :: "'z fam51_scheme \<Rightarrow> 'z fam51_scheme" where
  "t2_reload_regs s =
     (let s = snd (cell_set cell_th2 (cell_get cell_rcap2h s) s)
      in snd (cell_set cell_tl2 (cell_get cell_rcap2l s) s))"

definition t2_overflow :: "'z fam_hw \<Rightarrow> (unit, 'z) fact" where
  "t2_overflow hw s = hw_happen hw Hw_serial (EV_OVERFLOW Hw_timer2) (t2_reload_regs s)"

primrec t2_baud_loop :: "'z fam_hw \<Rightarrow> nat \<Rightarrow> (unit, 'z) fact" where
  "t2_baud_loop hw 0 s = Some ((), s)"
| "t2_baud_loop hw (Suc k) s = do {
     let (l, s) = cell_add cell_tl2 1 s;
     (_, s) \<leftarrow> (if l = 0 then
         (let (h, s) = cell_add cell_th2 1 s in if h = 0 then t2_overflow hw s else Some ((), s))
       else Some ((), s));
     t2_baud_loop hw k s
   }"

definition do_t2_baud :: "'z fam_hw \<Rightarrow> int \<Rightarrow> (unit, 'z) fact" where
  "do_t2_baud hw cycles s =
     (let s = (if t2_capture_edge s
               then upd_t2 (\<lambda>t. t\<lparr>t2ex_edge := 0\<rparr>) (cell_set_bit1 cell_t2con bmEXF2 s) else s)
      in if \<not> t_TR (timers s 2) then Some ((), s)
         else (let (cycles, s) = (if t_C_T (timers s 2) then take_cycles 2 cycles s else (cycles * 6, s))
               in if cycles < 0 then None else t2_baud_loop hw (nat cycles) s))"

definition do_t2_capture :: "int \<Rightarrow> (unit, 'z) fact" where
  "do_t2_capture cycles s =
     (let s = (if t2_capture_edge s then
                 (let s = cell_set_bit1 cell_t2con bmEXF2 s;
                      s = snd (cell_set cell_rcap2h (cell_get cell_th2 s) s);
                      s = snd (cell_set cell_rcap2l (cell_get cell_tl2 s) s)
                  in upd_t2 (\<lambda>t. t\<lparr>t2ex_edge := 0\<rparr>) s) else s)
      in if \<not> t_TR (timers s 2) then Some ((), s)
         else (let (_, s) = take_cycles 2 cycles s; (l, s) = cell_add cell_tl2 1 s
               in if l \<noteq> 0 then Some ((), s)
                  else (let (h, s) = cell_add cell_th2 1 s
                        in Some ((), if h = 0 then cell_set_bit1 cell_t2con bmTF2 s else s))))"

definition do_t2_reload :: "int \<Rightarrow> (unit, 'z) fact" where
  "do_t2_reload cycles s =
     (let s = (if t2_capture_edge s
               then upd_t2 (\<lambda>t. t\<lparr>t2ex_edge := 0\<rparr>) (t2_reload_regs (cell_set_bit1 cell_t2con bmEXF2 s))
               else s)
      in if \<not> t_TR (timers s 2) then Some ((), s)
         else (let (_, s) = take_cycles 2 cycles s; (l, s) = cell_add cell_tl2 1 s
               in if l \<noteq> 0 then Some ((), s)
                  else (let (h, s) = cell_add cell_th2 1 s
                        in Some ((), if h = 0 then t2_reload_regs (cell_set_bit1 cell_t2con bmTF2 s)
                                     else s))))"

primrec t2_up_loop :: "nat \<Rightarrow> bool \<Rightarrow> 'z fam51_scheme \<Rightarrow> bool \<times> 'z fam51_scheme" where
  "t2_up_loop 0 toggle s = (toggle, s)"
| "t2_up_loop (Suc k) toggle s =
     (let (l, s) = cell_add cell_tl2 1 s in
      if l \<noteq> 0 then t2_up_loop k toggle s
      else (let (h, s) = cell_add cell_th2 1 s in
        if h = 0 then t2_up_loop k True (t2_reload_regs (cell_set_bit1 cell_t2con bmTF2 s))
        else t2_up_loop k toggle s))"

primrec t2_down_loop :: "nat \<Rightarrow> bool \<Rightarrow> 'z fam51_scheme \<Rightarrow> bool \<times> 'z fam51_scheme" where
  "t2_down_loop 0 toggle s = (toggle, s)"
| "t2_down_loop (Suc k) toggle s =
     (let (l, s) = cell_add cell_tl2 (-1) s;
          (h, s) = (if l = 0xff then cell_add cell_th2 (-1) s else (cell_get cell_th2 s, s))
      in if (h * 256 + l) mod 65536
            < (cell_get cell_rcap2h s * 256 + cell_get cell_rcap2l s) mod 65536
         then (let s = cell_set_bit1 cell_t2con bmTF2 s;
                   s = snd (cell_set cell_th2 0xff s); s = snd (cell_set cell_tl2 0xff s)
               in t2_down_loop k True s)
         else t2_down_loop k toggle s)"

definition do_t2_down :: "int \<Rightarrow> (unit, 'z) fact" where
  "do_t2_down cycles s =
     (if \<not> t_TR (timers s 2) then Some ((), s)
      else (let (cycles, s) = take_cycles 2 cycles s in
        if cycles < 0 then None
        else (let (toggle, s) = (if bit_t2ex (t2 s) then t2_up_loop (nat cycles) False s
                                 else t2_down_loop (nat cycles) False s)
              in Some ((), if toggle then snd (cell_set cell_p1 (cell_get cell_p1 s XOR bmEXF2) s)
                           else s))))"

primrec t2_clock_loop :: "'z fam_hw \<Rightarrow> nat \<Rightarrow> (unit, 'z) fact" where
  "t2_clock_loop hw 0 s = Some ((), s)"
| "t2_clock_loop hw (Suc k) s = do {
     let (l, s) = cell_add cell_tl2 1 s;
     (_, s) \<leftarrow> (if l = 0 then
         (let (h, s) = cell_add cell_th2 1 s in
          if h = 0 then do {
            (_, s) \<leftarrow> t2_overflow hw s;
            Some ((), if \<not> t_C_T (timers s 2)
                      then snd (cell_set cell_p1 (cell_get cell_p1 s XOR bmT2) s) else s)
          } else Some ((), s))
       else Some ((), s));
     t2_clock_loop hw k s
   }"

definition do_t2_clock_out :: "'z fam_hw \<Rightarrow> int \<Rightarrow> (unit, 'z) fact" where
  "do_t2_clock_out hw cycles s =
     (let s = (if t2_capture_edge s
               then upd_t2 (\<lambda>t. t\<lparr>t2ex_edge := 0\<rparr>) (cell_set_bit1 cell_t2con bmEXF2 s) else s)
      in if \<not> t_TR (timers s 2) then Some ((), s)
         else (let (cycles, s) = (if t_C_T (timers s 2) then take_cycles 2 cycles s else (cycles * 6, s))
               in if cycles < 0 then None else t2_clock_loop hw (nat cycles) s))"

definition timer2_tick :: "'z fam_hw \<Rightarrow> int \<Rightarrow> (unit, 'z) fact" where
  "timer2_tick hw cycles s =
     (let m = t_mode (timers s 2) in
      if m = T2MODE_BAUDRATE then do_t2_baud hw cycles s
      else if m = T2MODE_CAPTURE then do_t2_capture cycles s
      else if m = T2MODE_RELOAD then do_t2_reload cycles s
      else if m = T2MODE_DOWN then do_t2_down cycles s
      else if m = T2MODE_CLKOUT then do_t2_clock_out hw cycles s
      else Some ((), s))"

subsection \<open>Programmable counter array\<close>

definition pca_added :: "(unit, 'z) fact" where
  "pca_added s = do {
     let src = (\<lambda>m nam. mk_it_src r_IE 0x40 0xd8 m 0x0033 False nam 5);
     l \<leftarrow> add_at 4 (src (bmCCF 4) ''PCA module #4'') (it_sources s);
     l \<leftarrow> add_at 4 (src (bmCCF 3) ''PCA module #3'') l;
     l \<leftarrow> add_at 4 (src (bmCCF 2) ''PCA module #2'') l;
     l \<leftarrow> add_at 4 (src (bmCCF 1) ''PCA module #1'') l;
     l \<leftarrow> add_at 4 (src (bmCCF 0) ''PCA module #0'') l;
     l \<leftarrow> add_at 4 (src bmCF ''PCA counter'') l;
     Some ((), s\<lparr>it_sources := l\<rparr>)
   }"

definition pca_reset :: "'z fam51_scheme \<Rightarrow> 'z fam51_scheme" where
  "pca_reset s = upd_pca (\<lambda>p. p\<lparr>t0_overflows := 0, ECI_edge := 0, cex_pos := (\<lambda>_. False),
                                cex_neg := (\<lambda>_. False)\<rparr>) s"

definition ccapm_write :: "int \<Rightarrow> t_mem \<Rightarrow> pca \<Rightarrow> pca" where
  "ccapm_write i val p =
     (let p' = p\<lparr>ccapm := (ccapm p)(i := val AND 0xff)\<rparr>
      in if ccapm p i \<noteq> ccapm p' i
         then p'\<lparr>cex_neg := (cex_neg p')(i := False), cex_pos := (cex_pos p')(i := False)\<rparr> else p')"

definition ecom_follow :: "int \<Rightarrow> cell \<Rightarrow> 'z fam51_scheme \<Rightarrow> 'z fam51_scheme" where
  "ecom_follow i cell s =
     (if ccapm (pca s) i AND (bmMAT OR bmTOG) = 0 then s
      else (let s' = (if cell = cell_ccapl i then cell_set_bit0 (cell_ccapm i) bmECOM s
                      else if cell = cell_ccaph i then cell_set_bit1 (cell_ccapm i) bmECOM s else s)
            in if cell = cell_ccapl i \<or> cell = cell_ccaph i
               then upd_pca (\<lambda>p. p\<lparr>ccapm := (ccapm p)(i := cell_get (cell_ccapm i) s')\<rparr>) s'
               else s'))"

definition module_write :: "cell \<Rightarrow> t_mem \<Rightarrow> int \<Rightarrow> 'z fam51_scheme \<Rightarrow> 'z fam51_scheme" where
  "module_write cell val i s =
     (if cell = cell_ccapm i then upd_pca (ccapm_write i val) s else ecom_follow i cell s)"

definition cmod_write :: "t_mem \<Rightarrow> pca \<Rightarrow> pca" where
  "cmod_write val p =
     (let p' = p\<lparr>bit_CIDL := (val AND bmCIDL \<noteq> 0), bit_WDTE := (val AND bmWDTE \<noteq> 0),
                bit_ECF := (val AND bmECF \<noteq> 0), clk_source := val AND (bmCPS1 OR bmCPS0)\<rparr>
      in if clk_source p' \<noteq> clk_source p then p'\<lparr>t0_overflows := 0, ECI_edge := 0\<rparr> else p')"

definition pca_write :: "cell \<Rightarrow> t_mem \<Rightarrow> (t_mem, 'z) fact" where
  "pca_write cell val s =
     Some (val, if cell = cell_cmod then upd_pca (cmod_write val) s
                else if cell = cell_ccon then upd_pca (\<lambda>p. p\<lparr>bit_CR := (val AND bmCR \<noteq> 0)\<rparr>) s
                else fold (module_write cell val) [0, 1, 2, 3, 4] s)"

text \<open>A capture by the negative edge clears the memory of the positive one.\<close>

definition pca_capture :: "int \<Rightarrow> 'z fam51_scheme \<Rightarrow> 'z fam51_scheme" where
  "pca_capture nr s =
     (let m = ccapm (pca s) nr;
          pos = (m AND bmCAPP \<noteq> 0 \<and> cex_pos (pca s) nr);
          neg = (m AND bmCAPN \<noteq> 0 \<and> cex_neg (pca s) nr);
          s = (if pos \<or> neg then upd_pca (\<lambda>p. p\<lparr>cex_pos := (cex_pos p)(nr := False)\<rparr>) s else s)
      in if pos \<or> neg
         then (let s = snd (cell_set (cell_ccapl nr) (cell_get cell_cl s) s);
                   s = snd (cell_set (cell_ccaph nr) (cell_get cell_ch s) s)
               in cell_set_bit1 cell_ccon (bmCCF nr) s)
         else s)"

definition pca_pwm :: "int \<Rightarrow> 'z fam51_scheme \<Rightarrow> 'z fam51_scheme" where
  "pca_pwm nr s =
     (if ccapm (pca s) nr AND bmPWM \<noteq> 0
      then (if cell_get cell_cl s < cell_get (cell_ccapl nr) s then as_set_bit1 Sfr r_P1 (bmCEX nr) s
            else as_set_bit1 Sfr r_P1 (bmCEX nr) s)
      else s)"

definition pca_match :: "int \<Rightarrow> 'z fam51_scheme \<Rightarrow> bool" where
  "pca_match nr s \<longleftrightarrow> cell_get cell_cl s = cell_get (cell_ccapl nr) s
     \<and> cell_get cell_ch s = cell_get (cell_ccaph nr) s"

definition do_pca_module :: "'z fam_hw \<Rightarrow> int \<Rightarrow> (unit, 'z) fact" where
  "do_pca_module hw nr s =
     (let s = pca_capture nr s; m = ccapm (pca s) nr in
      if m AND bmECOM = 0 then Some ((), s)
      else if pca_match nr s \<and> nr = 4 \<and> bit_WDTE (pca s) then Some ((), pca_reset s)
      else do {
        (_, s) \<leftarrow> (if pca_match nr s then
            (let s = cell_set_bit1 cell_ccon (bmCCF nr) s in
             if m AND bmTOG \<noteq> 0 then do {
               (p1, s) \<leftarrow> as_get hw Sfr r_P1 s;
               s \<leftarrow> as_set hw Sfr r_P1 (p1 XOR bmCEX nr) s;
               Some ((), s)
             } else Some ((), s))
          else Some ((), s));
        Some ((), pca_pwm nr s)
      })"

fun pca_modules :: "'z fam_hw \<Rightarrow> int list \<Rightarrow> (unit, 'z) fact" where
  "pca_modules hw [] s = Some ((), s)"
| "pca_modules hw (nr # ns) s = do { (_, s) \<leftarrow> do_pca_module hw nr s; pca_modules hw ns s }"

definition pwm_reload :: "int \<Rightarrow> 'z fam51_scheme \<Rightarrow> 'z fam51_scheme" where
  "pwm_reload i s = (if ccapm (pca s) i AND bmPWM \<noteq> 0
     then snd (cell_set (cell_ccapl i) (cell_get (cell_ccaph i) s) s) else s)"

primrec pca_loop :: "'z fam_hw \<Rightarrow> nat \<Rightarrow> (unit, 'z) fact" where
  "pca_loop hw 0 s = Some ((), s)"
| "pca_loop hw (Suc k) s = do {
     let (l, s) = cell_add cell_cl 1 s;
     (_, s) \<leftarrow> (if l = 0 then
         (let s = fold pwm_reload [0, 1, 2, 3, 4] s; (h, s) = cell_add cell_ch 1 s in
          if h = 0 then pca_modules hw [0, 1, 2, 3, 4] (cell_set_bit1 cell_ccon bmCF s)
          else Some ((), s))
       else Some ((), s));
     pca_loop hw k s
   }"

definition do_pca_counter :: "'z fam_hw \<Rightarrow> int \<Rightarrow> (unit, 'z) fact" where
  "do_pca_counter hw cycles s = (if cycles < 0 then None else pca_loop hw (nat cycles) s)"

definition pca_tick :: "'z fam_hw \<Rightarrow> int \<Rightarrow> (unit, 'z) fact" where
  "pca_tick hw cycles s =
     (let p = pca s in
      if \<not> bit_CR p then Some ((), s)
      else if state s = stIDLE \<and> bit_CIDL p then Some ((), s)
      else if clk_source p = 0 then do_pca_counter hw cycles s
      else if clk_source p = bmCPS0 then do_pca_counter hw (cycles * 3) s
      else if clk_source p = bmCPS1 then do {
        (_, s) \<leftarrow> do_pca_counter hw (t0_overflows p) s;
        Some ((), upd_pca (\<lambda>p. p\<lparr>t0_overflows := 0\<rparr>) s)
      }
      else if clk_source p = bmCPS0 OR bmCPS1 then do {
        (_, s) \<leftarrow> do_pca_counter hw (ECI_edge p) s;
        Some ((), upd_pca (\<lambda>p. p\<lparr>ECI_edge := 0\<rparr>) s)
      }
      else Some ((), s))"

definition cex_edge :: "t_mem \<Rightarrow> t_mem \<Rightarrow> int \<Rightarrow> pca \<Rightarrow> pca" where
  "cex_edge p1n p1o i p =
     (if p1n AND bmCEX i = 0 \<and> p1o AND bmCEX i \<noteq> 0 then p\<lparr>cex_neg := (cex_neg p)(i := True)\<rparr>
      else if p1n AND bmCEX i \<noteq> 0 \<and> p1o AND bmCEX i = 0 then p\<lparr>cex_pos := (cex_pos p)(i := True)\<rparr>
      else p)"

fun pca_happen :: "hw_event \<Rightarrow> (unit, 'z) fact" where
  "pca_happen (EV_PORT_CHANGED ep) s =
     (if ep_id ep = 1 then
        (let p1n = new_pins ep AND new_value ep; p1o = pins ep AND prev_value ep;
             s = (if p1n AND bmECI = 0 \<and> p1o AND bmECI \<noteq> 0
                  then upd_pca (\<lambda>p. p\<lparr>ECI_edge := ECI_edge p + 1\<rparr>) s else s)
         in Some ((), upd_pca (fold (cex_edge p1n p1o) [0, 1, 2, 3, 4]) s))
      else Some ((), s))"
| "pca_happen (EV_OVERFLOW h) s =
     (if h = Hw_timer0 then Some ((), upd_pca (\<lambda>p. p\<lparr>t0_overflows := t0_overflows p + 1\<rparr>) s)
      else Some ((), s))"
| "pca_happen _ s = Some ((), s)"

subsection \<open>Watchdog timer\<close>

definition wdt_write :: "cell \<Rightarrow> t_mem \<Rightarrow> (t_mem, 'z) fact" where
  "wdt_write cell val s =
     Some (val, upd_wd (\<lambda>w. w\<lparr>
       wdt_count := (if cell = cell_wdtrst \<and> val AND 0xff = 0xe1 \<and> cell_get cell_wdtrst s = 0x1e
                       \<and> written_since_reset w then 0 else wdt_count w),
       written_since_reset := True\<rparr>) s)"

text \<open>The reset is the virtual one of the controller.\<close>

definition wdt_tick :: "(unit, 'z) fact \<Rightarrow> int \<Rightarrow> (unit, 'z) fact" where
  "wdt_tick uc_rst cycles s =
     (if 0 \<le> wdt_count (wd s) then
        (let s = upd_wd (\<lambda>w. w\<lparr>wdt_count := wdt_count w + cycles\<rparr>) s
         in if reset_value (wd s) < wdt_count (wd s) then uc_rst s else Some ((), s))
      else Some ((), s))"

definition wdt_reset :: "(unit, 'z) fact" where
  "wdt_reset s = Some ((), upd_wd (\<lambda>w. w\<lparr>written_since_reset := False, wdt_count := -1\<rparr>) s)"

subsection \<open>The 8052, 8051R and 89C51R\<close>

definition uc52_clear_sfr :: "'z fam_hw \<Rightarrow> (unit, 'z) fact" where
  "uc52_clear_sfr hw s = do {
     (_, s) \<leftarrow> clear_sfr hw s;
     write_all hw [(0xc8, 0), (0xcd, 0), (0xcc, 0), (0xca, 0), (0xcb, 0)] s
   }"

definition uc51r_clear_sfr :: "'z fam_hw \<Rightarrow> (unit, 'z) fact" where
  "uc51r_clear_sfr hw s = do {
     (_, s) \<leftarrow> uc52_clear_sfr hw s;
     write_all hw [(0xa9, 0), (0xb9, 0), (0x8e, 0), (0xb7, 0)] s
   }"

text \<open>\<open>cl_51core::reset\<close> calls the virtual \<open>clear_sfr\<close>.\<close>

definition uc51r_reset :: "'z fam_hw \<Rightarrow> (unit, 'z) fact" where
  "uc51r_reset hw s = do {
     (_, s) \<leftarrow> uc_reset hw s;
     (_, s) \<leftarrow> uc51r_clear_sfr hw s;
     write_all hw [(0xa9, 0), (0xb9, 0), (0x8e, 0)] (s\<lparr>result := resGO\<rparr>)
   }"

definition uc89c51r_reset :: "'z fam_hw \<Rightarrow> (unit, 'z) fact" where
  "uc89c51r_reset hw s = do {
     (_, s) \<leftarrow> uc51r_reset hw s;
     let s = fold (\<lambda>a. as_set_bit1 Sfr a bmECOM) [0xda, 0xdb, 0xdc, 0xdd, 0xde] s;
     write_all hw [(0xb7, 0)] (s\<lparr>dp := \<lparr>dpl0 = 0, dph0 = 0, dpl1 = 0, dph1 = 0\<rparr>\<rparr>)
   }"

definition uc51r_received :: "'z fam_hw \<Rightarrow> int \<Rightarrow> (unit, 'z) fact" where
  "uc51r_received hw c s = do {
     (saddr, s) \<leftarrow> as_get hw Sfr 0xa9 s;
     (saden, s) \<leftarrow> as_get hw Sfr 0xb9 s;
     (scon, s) \<leftarrow> as_get hw Sfr r_SCON s;
     let br = saddr OR saden;
     let multi = (0 < scon div 64 \<and> scon AND 0x20 \<noteq> 0);
     let mine = (saddr AND saden = c AND saden \<or> br = br AND c);
     Some ((), if multi \<and> \<not> mine then s else as_set_bit1 Sfr r_SCON 0x01 s)
   }"

definition it_priority_89 :: "'z fam_hw \<Rightarrow> uchar \<Rightarrow> (int, 'z) fact" where
  "it_priority_89 hw iemask s = do {
     (l, s) \<leftarrow> as_get hw Sfr r_IP s;
     (h, s) \<leftarrow> as_get hw Sfr 0xb7 s;
     let l = l AND iemask;
     let h = h AND iemask;
     Some (if h = 0 \<and> l = 0 then 0 else if h = 0 then 1 else if l = 0 then 2 else 3, s)
   }"

definition pre_inst_89 :: "'z fam_hw \<Rightarrow> (unit, 'z) fact" where
  "pre_inst_89 hw s = do {
     (x, s) \<leftarrow> as_get hw Sfr 0xa2 s;
     let second = (x AND bmDPS \<noteq> 0);
     s \<leftarrow> as_set hw Sfr r_DPL (if second then dpl1 (dp s) else dpl0 (dp s)) s;
     s \<leftarrow> as_set hw Sfr r_DPH (if second then dph1 (dp s) else dph0 (dp s)) s;
     Some ((), pre_inst s)
   }"

definition post_inst_89 :: "'z fam_hw \<Rightarrow> (unit, 'z) fact" where
  "post_inst_89 hw s = do {
     (x, s) \<leftarrow> as_get hw Sfr 0xa2 s;
     (l, s) \<leftarrow> as_get hw Sfr r_DPL s;
     (h, s) \<leftarrow> as_get hw Sfr r_DPH s;
     let d = (if x AND bmDPS \<noteq> 0 then (dp s)\<lparr>dpl1 := to_uchar l, dph1 := to_uchar h\<rparr>
              else (dp s)\<lparr>dpl0 := to_uchar l, dph0 := to_uchar h\<rparr>);
     post_inst hw (s\<lparr>dp := d\<rparr>)
   }"

text \<open>The element of the 89C51R clears bit 2 of AUXR before the written value is stored.\<close>

definition auxr_write_89 :: "cell \<Rightarrow> t_mem \<Rightarrow> (t_mem, 'z) fact" where
  "auxr_write_89 cell val s =
     Some (val, if cell = cell_auxr then cell_set_bit0 cell_auxr 0x04 s else s)"

end
