(* ===== verification/Family51Facts.thy ===== *)
theory Family51Facts
  imports Family51 Chip2530 Usart2530Facts Timer51Facts
begin

text \<open>
  Timer 2 as the clock of the serial line, the comparators of the programmable counter array, the
  watchdog timer, and the two data pointers of the 89C51R.
\<close>

lemma family_updates [simp]:
  "cell_get c (upd_t2 f s) = cell_get c s" "mem_ok (upd_t2 f s) = mem_ok s"
  "cell_get c (upd_pca g s) = cell_get c s" "mem_ok (upd_pca g s) = mem_ok s"
  "pca (poke c v s) = pca s" "t2 (poke c v s) = t2 s" "dp (poke c v s) = dp s"
  "timers (poke c v s) = timers s" "ser (poke c v s) = ser s" "wd (upd_wd h s) = h (wd s)"
  "dp (upd_mac k s) = dp s"
  by (simp_all add: upd_mac_def upd_t2_def upd_pca_def upd_wd_def cell_get_def mem_ok_def poke_def store_def)

subsection \<open>A pair of counting registers\<close>

definition pair_value :: "cell \<Rightarrow> cell \<Rightarrow> 'z mem_scheme \<Rightarrow> int" where
  "pair_value h l s = cell_get h s * 256 + cell_get l s"

definition pair_set :: "cell \<Rightarrow> cell \<Rightarrow> int \<Rightarrow> 'z mem_scheme \<Rightarrow> 'z mem_scheme \<Rightarrow> bool" where
  "pair_set h l v s t \<longleftrightarrow> mem_ok t \<and> pair_value h l t = v \<and> (\<forall>c. c \<noteq> h \<and> c \<noteq> l \<longrightarrow> cell_get c t = cell_get c s)"

lemma pair_full:
  assumes "mem_ok s"
  shows "pair_value h l s = 0xffff \<longleftrightarrow> cell_get h s = 255 \<and> cell_get l s = 255"
proof -
  have b: "byte (cell_get h s)" "byte (cell_get l s)" using assms by simp_all
  show ?thesis
  proof (cases "cell_get h s = 255")
    case False
    then have "cell_get h s * 256 \<le> 254 * 256" using b(1) by (simp add: byte_def)
    then have "pair_value h l s \<noteq> 0xffff" using b(2) by (simp add: byte_def pair_value_def)
    then show ?thesis using False by simp
  qed (simp add: pair_value_def)
qed

lemma pair_range: "mem_ok s \<Longrightarrow> 0 \<le> pair_value h l s \<and> pair_value h l s < 0x10000"
  using mem_ok_get [of s h] mem_ok_get [of s l] by (simp add: pair_value_def byte_def)

text \<open>What one count does: the low register steps, and the high one when the low one wraps.\<close>

definition pair_step :: "cell \<Rightarrow> cell \<Rightarrow> 'z mem_scheme \<Rightarrow> 'z mem_scheme" where
  "pair_step h l s =
     (let s' = poke l ((cell_get l s + 1) mod 256) s
      in if cell_get l s = 255 then poke h ((cell_get h s + 1) mod 256) s' else s')"

lemma pair_step_set:
  assumes "mem_ok s" "h \<noteq> l"
  shows "pair_set h l ((pair_value h l s + 1) mod 0x10000) s (pair_step h l s)"
proof -
  have b: "byte (cell_get h s)" "byte (cell_get l s)" using assms(1) by simp_all
  then have "(pair_value h l s + 1) mod 0x10000
      = (if pair_value h l s = 0xffff then 0 else pair_value h l s + 1)"
    by (auto simp: pair_value_def byte_def)
  then show ?thesis using assms b
    by (auto simp: pair_set_def pair_step_def pair_value_def byte_succ byte_def Let_def)
qed

subsection \<open>Timer 2 clocks the serial line\<close>

abbreviation "t2_value \<equiv> pair_value cell_th2 cell_tl2"
abbreviation "rcap \<equiv> pair_value cell_rcap2h cell_rcap2l"

definition clocked_by :: "int \<Rightarrow> int \<Rightarrow> 'z cc2530_scheme \<Rightarrow> 'z cc2530_scheme \<Rightarrow> bool" where
  "clocked_by n v s t \<longleftrightarrow> pair_set cell_th2 cell_tl2 v s t
     \<and> s_tr_t1 (ser t) = s_tr_t1 (ser s) + n \<and> s_rec_t1 (ser t) = s_rec_t1 (ser s) + n"

lemma clocked_by_trans:
  "clocked_by n v s t \<Longrightarrow> clocked_by m w t u \<Longrightarrow> clocked_by (n + m) w s u"
  by (simp add: clocked_by_def pair_set_def)

lemma t2_reload_pair:
  fixes s :: "'z fam51_scheme"
  assumes "mem_ok s"
  shows "pair_set cell_th2 cell_tl2 (rcap s) s (t2_reload_regs s) \<and> ser (t2_reload_regs s) = ser s"
proof -
  have b: "byte (cell_get cell_rcap2h s)" "byte (cell_get cell_rcap2l s)" using assms by simp_all
  then have "t2_reload_regs s
      = poke cell_tl2 (cell_get cell_rcap2l s) (poke cell_th2 (cell_get cell_rcap2h s) s)"
    using assms by (simp add: t2_reload_regs_def set_poke byte_def Let_def)
  then show ?thesis using assms b by (simp add: pair_set_def pair_value_def)
qed

lemma baud_count:
  fixes s :: "'z fam51_scheme"
  assumes "mem_ok s" and hw: "hw_happen hw Hw_serial = serial_happen"
  shows "\<exists>t. (\<forall>k. t2_baud_loop hw (Suc k) s = t2_baud_loop hw k t)
     \<and> (if t2_value s = 0xffff then clocked_by 1 (rcap s) s t else clocked_by 0 (t2_value s + 1) s t)"
proof (cases "t2_value s = 0xffff")
  case True
  define p where "p = pair_step cell_th2 cell_tl2 s"
  define t where "t = upd_ser (\<lambda>u. u\<lparr>s_rec_t1 := s_rec_t1 u + 1, s_tr_t1 := s_tr_t1 u + 1\<rparr>) (t2_reload_regs p)"
  have m: "cell_get cell_th2 s = 255" "cell_get cell_tl2 s = 255"
    using True pair_full [OF assms(1)] by auto
  have "t2_baud_loop hw (Suc k) s = t2_baud_loop hw k t" for k
    using assms(1) m hw by (simp add: add_poke p_def t_def pair_step_def t2_overflow_def Let_def)
  moreover have "mem_ok p" "rcap p = rcap s" "ser p = ser s"
    "pair_set cell_th2 cell_tl2 ((t2_value s + 1) mod 0x10000) s p"
    using pair_step_set [OF assms(1), of cell_th2 cell_tl2]
    by (simp_all add: p_def pair_set_def pair_value_def pair_step_def Let_def)
  then have "clocked_by 1 (rcap s) s t"
    using t2_reload_pair [of p] by (auto simp: clocked_by_def t_def pair_set_def pair_value_def)
  ultimately show ?thesis using True by auto
next
  case False
  have b: "byte (cell_get cell_th2 s)" "byte (cell_get cell_tl2 s)" using assms(1) by simp_all
  have "t2_baud_loop hw (Suc k) s = t2_baud_loop hw k (pair_step cell_th2 cell_tl2 s)" for k
    using assms(1) b False pair_full [OF assms(1), of cell_th2 cell_tl2]
    by (auto simp: add_poke pair_step_def Let_def byte_succ byte_def)
  moreover have "clocked_by 0 (t2_value s + 1) s (pair_step cell_th2 cell_tl2 s)"
    using pair_step_set [OF assms(1), of cell_th2 cell_tl2] pair_range [OF assms(1), of cell_th2 cell_tl2] False
    by (simp add: clocked_by_def) (simp add: pair_step_def Let_def)
  ultimately show ?thesis using False by auto
qed

lemma baud_counts:
  fixes s :: "'z fam51_scheme"
  assumes "mem_ok s" "hw_happen hw Hw_serial = serial_happen" "rcap s = r" "r \<le> t2_value s"
  shows "\<exists>t. t2_baud_loop hw k s = Some ((), t)
     \<and> clocked_by ((t2_value s - r + int k) div (0x10000 - r)) (r + (t2_value s - r + int k) mod (0x10000 - r)) s t"
  using assms(1,3,4)
proof (induction k arbitrary: s)
  case 0
  let ?v = "t2_value s"
  have "0 \<le> ?v - r" "?v - r < 0x10000 - r" using pair_range [OF 0(1), of cell_th2 cell_tl2] 0(3) by simp_all
  then show ?case using 0(1) by (simp add: clocked_by_def pair_set_def)
next
  case (Suc k)
  let ?v = "t2_value s" and ?n = "0x10000 - r"
  have rg: "?v < 0x10000" using pair_range [OF Suc.prems(1), of cell_th2 cell_tl2] by simp
  obtain t where t: "t2_baud_loop hw (Suc k) s = t2_baud_loop hw k t"
    "if ?v = 0xffff then clocked_by 1 r s t else clocked_by 0 (?v + 1) s t"
    using baud_count [OF Suc.prems(1) assms(2)] Suc.prems(2) by blast
  have m: "mem_ok t" "rcap t = r" and w: "t2_value t = (if ?v = 0xffff then r else ?v + 1)"
    using t(2) Suc.prems(2) by (auto simp: clocked_by_def pair_set_def pair_value_def split: if_splits)
  have "r \<le> t2_value t" using w Suc.prems(3) by simp
  from Suc.IH [OF m this] obtain u where u: "t2_baud_loop hw k t = Some ((), u)"
    "clocked_by ((t2_value t - r + int k) div ?n) (r + (t2_value t - r + int k) mod ?n) t u" by blast
  have n: "0 < ?n" using rg Suc.prems(3) by simp
  have e: "?v - r + int (Suc k) = (if ?v = 0xffff then ?n + int k else t2_value t - r + int k)"
    using w by simp
  have "clocked_by ((?v - r + int (Suc k)) div ?n) (r + (?v - r + int (Suc k)) mod ?n) s u"
  proof (cases "?v = 0xffff")
    case True
    then have "clocked_by (1 + int k div ?n) (r + int k mod ?n) s u"
      using clocked_by_trans t(2) u(2) w by fastforce
    moreover have "(?n + int k) div ?n = 1 + int k div ?n" "(?n + int k) mod ?n = int k mod ?n"
      using n div_add_self1 [of ?n "int k"] mod_add_self1 [of ?n "int k"] by simp_all
    ultimately show ?thesis unfolding e using True by simp
  next
    case False
    then have "clocked_by 0 (?v + 1) s t" using t(2) by simp
    from clocked_by_trans [OF this u(2)] show ?thesis unfolding e using False by simp
  qed
  then show ?case using t(1) u(1) by simp
qed

text \<open>
  C20 Timer 2 as baud rate generator: a tick of n machine cycles counts 6 n. The counter
  runs through the values from the reload register to 0xffff and starts again there, and the
  serial line's transmit and receive clocks advance once per round: after the tick the counter is the
  remainder, and the clocks have gained the quotient, of the counts by the length of the round. No
  other register changes.
\<close>

theorem timer2_clocks_serial:
  fixes s :: "'z fam51_scheme"
  assumes "mem_ok s" "hw_happen hw Hw_serial = serial_happen" "0 \<le> n"
    "t_mode (timers s 2) = T2MODE_BAUDRATE" "t_TR (timers s 2)" "\<not> t_C_T (timers s 2)"
    "\<not> t2_capture_edge s" and r: "r = rcap s" "r \<le> t2_value s"
    and x: "x = t2_value s - r + 6 * n"
  shows "\<exists>u. timer2_tick hw n s = Some ((), u) \<and> t2_value u = r + x mod (0x10000 - r)
     \<and> s_tr_t1 (ser u) = s_tr_t1 (ser s) + x div (0x10000 - r)
     \<and> s_rec_t1 (ser u) = s_rec_t1 (ser s) + x div (0x10000 - r)
     \<and> (\<forall>c. c \<noteq> cell_th2 \<and> c \<noteq> cell_tl2 \<longrightarrow> cell_get c u = cell_get c s)"
proof -
  have "int (nat (n * 6)) = 6 * n" using assms(3) by simp
  with baud_counts [OF assms(1,2) r(1) [symmetric] r(2), of "nat (n * 6)"] obtain u where
    "t2_baud_loop hw (nat (n * 6)) s = Some ((), u)"
    "clocked_by (x div (0x10000 - r)) (r + x mod (0x10000 - r)) s u" unfolding x by (auto simp: mult.commute)
  moreover have "timer2_tick hw n s = t2_baud_loop hw (nat (n * 6)) s"
    using assms(3-7) by (simp add: timer2_tick_def do_t2_baud_def)
  ultimately show ?thesis by (auto simp: clocked_by_def pair_set_def)
qed

subsection \<open>The comparators of the counter array\<close>

abbreviation "pca_value \<equiv> pair_value cell_ch cell_cl"

definition no_pca_work :: "'z fam51_scheme \<Rightarrow> bool" where
  "no_pca_work s \<longleftrightarrow> (\<forall>i \<in> {0, 1, 2, 3, 4}. ccapm (pca s) i AND bmPWM = 0
     \<and> \<not> cex_pos (pca s) i \<and> \<not> cex_neg (pca s) i
     \<and> (cell_get (cell_ccapl i) s \<noteq> 0 \<or> cell_get (cell_ccaph i) s \<noteq> 0))"

definition pca_counted :: "int \<Rightarrow> bool \<Rightarrow> 'z fam51_scheme \<Rightarrow> 'z fam51_scheme \<Rightarrow> bool" where
  "pca_counted v f s t \<longleftrightarrow> mem_ok t \<and> pca_value t = v \<and> pca t = pca s
     \<and> cell_get cell_ccon t = (if f then cell_get cell_ccon s OR bmCF else cell_get cell_ccon s)
     \<and> (\<forall>c. c \<notin> {cell_ch, cell_cl, cell_ccon} \<longrightarrow> cell_get c t = cell_get c s)"

lemma pca_cells: "i \<in> {0, 1, 2, 3, 4} \<Longrightarrow> cell_ccapl i \<notin> {cell_ch, cell_cl, cell_ccon}"
  "i \<in> {0, 1, 2, 3, 4} \<Longrightarrow> cell_ccaph i \<notin> {cell_ch, cell_cl, cell_ccon}"
  by (auto simp: cell_ccapl_def cell_ccaph_def)

lemma pca_counted_idle: "pca_counted v f s t \<Longrightarrow> no_pca_work s \<Longrightarrow> no_pca_work t"
  using pca_cells unfolding pca_counted_def no_pca_work_def by (metis (no_types, lifting))

lemma pca_counted_trans:
  "pca_counted v f s t \<Longrightarrow> pca_counted w g t u \<Longrightarrow> pca_counted w (f \<or> g) s u"
  by (auto simp: pca_counted_def or.assoc)

lemma pca_modules_idle:
  assumes "no_pca_work s" "cell_get cell_cl s = 0" "cell_get cell_ch s = 0" "set ns \<subseteq> {0, 1, 2, 3, 4}"
  shows "pca_modules hw ns s = Some ((), s)"
  using assms(4)
proof (induction ns)
  case (Cons i ns)
  then have "i \<in> {0, 1, 2, 3, 4}" by simp
  then have "ccapm (pca s) i AND bmPWM = 0" "\<not> cex_pos (pca s) i" "\<not> cex_neg (pca s) i" "\<not> pca_match i s"
    using assms(1-3) unfolding no_pca_work_def pca_match_def by metis+
  then have "do_pca_module hw i s = Some ((), s)"
    by (simp add: do_pca_module_def pca_capture_def pca_pwm_def Let_def)
  then show ?case using Cons by simp
qed simp

lemma pca_count:
  fixes s :: "'z fam51_scheme"
  assumes "mem_ok s" "no_pca_work s"
  shows "\<exists>t. (\<forall>k. pca_loop hw (Suc k) s = pca_loop hw k t)
     \<and> pca_counted ((pca_value s + 1) mod 0x10000) (pca_value s = 0xffff) s t"
proof -
  define p where "p = pair_step cell_ch cell_cl s"
  have ps: "pair_set cell_ch cell_cl ((pca_value s + 1) mod 0x10000) s p" "pca p = pca s"
    using pair_step_set [OF assms(1), of cell_ch cell_cl] by (simp_all add: p_def pair_step_def Let_def)
  have b: "byte (cell_get cell_ch s)" "byte (cell_get cell_cl s)" using assms(1) by simp_all
  have pw: "pwm_reload 0 x = x" "pwm_reload 1 x = x" "pwm_reload 2 x = x" "pwm_reload 3 x = x"
    "pwm_reload 4 x = x" if "pca x = pca s" for x :: "'z fam51_scheme"
    using assms(2) that by (simp_all add: no_pca_work_def pwm_reload_def)
  define t where "t = (if pca_value s = 0xffff then poke cell_ccon (cell_get cell_ccon p OR bmCF) p else p)"
  have c: "pca_counted ((pca_value s + 1) mod 0x10000) (pca_value s = 0xffff) s t"
    using ps mem_ok_get [OF assms(1), of cell_ccon]
    by (auto simp: pca_counted_def pair_set_def t_def byte_or pair_value_def)
  have "pca_loop hw (Suc k) s = pca_loop hw k t" for k
  proof (cases "pca_value s = 0xffff")
    case True
    then have z: "cell_get cell_cl s = 255" "cell_get cell_ch s = 255"
      using pair_full [OF assms(1)] by auto
    then have "p = poke cell_ch 0 (poke cell_cl 0 s)" using assms(1) by (simp add: p_def pair_step_def Let_def)
    then have "cell_get cell_cl t = 0" "cell_get cell_ch t = 0"
      using assms(1) True by (simp_all add: t_def byte_or)
    with pca_modules_idle [OF pca_counted_idle [OF c assms(2)], of "[0, 1, 2, 3, 4]" hw]
    show ?thesis using z assms(1) pw True
      by (simp add: add_poke p_def pair_step_def Let_def t_def set_bits_poke del: pca_modules.simps)
  next
    case False
    then show ?thesis using assms(1) b pw pair_full [OF assms(1), of cell_ch cell_cl]
      by (auto simp: add_poke p_def pair_step_def Let_def t_def byte_succ byte_def)
  qed
  then show ?thesis using c by blast
qed

lemma pca_counts:
  fixes s :: "'z fam51_scheme"
  assumes "mem_ok s" "no_pca_work s"
  shows "\<exists>t. pca_loop hw k s = Some ((), t)
     \<and> pca_counted ((pca_value s + int k) mod 0x10000) (0x10000 \<le> pca_value s + int k) s t"
  using assms
proof (induction k arbitrary: s)
  case 0
  then show ?case using pair_range [OF 0(1), of cell_ch cell_cl] by (simp add: pca_counted_def)
next
  case (Suc k)
  obtain t where t: "pca_loop hw (Suc k) s = pca_loop hw k t"
    "pca_counted ((pca_value s + 1) mod 0x10000) (pca_value s = 0xffff) s t"
    using pca_count [OF Suc.prems] by blast
  then have m: "mem_ok t" "pca_value t = (pca_value s + 1) mod 0x10000" by (simp_all add: pca_counted_def)
  from Suc.IH [OF m(1) pca_counted_idle [OF t(2) Suc.prems(2)]] obtain u where
    u: "pca_loop hw k t = Some ((), u)"
    "pca_counted ((pca_value t + int k) mod 0x10000) (0x10000 \<le> pca_value t + int k) t u" by blast
  have w: "pca_value t = (if pca_value s = 0xffff then 0 else pca_value s + 1)"
    unfolding m(2) using pair_range [OF Suc.prems(1), of cell_ch cell_cl] by auto
  have "(pca_value t + int k) mod 0x10000 = (pca_value s + int (Suc k)) mod 0x10000"
    unfolding m(2) by (simp add: mod_simps add.assoc)
  moreover have "(0x10000 \<le> pca_value s + int (Suc k)) = (pca_value s = 0xffff \<or> 0x10000 \<le> pca_value t + int k)"
    using w by auto
  ultimately show ?case using t(1) u(1) pca_counted_trans [OF t(2) u(2)] by simp
qed

text \<open>
  C22 The comparators of the counter array are only looked at when CH:CL overflows. So
  with no module in PWM mode, no capture edge pending and every module's compare value different
  from zero, no match is ever reported, however far the counter runs: CH:CL advance by the count,
  CF is raised when they overflow, and no module flag, no pin of port 1 and no other register
  changes, whether the modules are enabled or not.
\<close>

theorem pca_compares_at_zero:
  fixes s :: "'z fam51_scheme"
  assumes "mem_ok s" "0 \<le> n"
    "\<forall>i \<in> {0, 1, 2, 3, 4}. ccapm (pca s) i AND bmPWM = 0 \<and> \<not> cex_pos (pca s) i \<and> \<not> cex_neg (pca s) i
       \<and> (cell_get (cell_ccapl i) s \<noteq> 0 \<or> cell_get (cell_ccaph i) s \<noteq> 0)"
  shows "\<exists>t. do_pca_counter hw n s = Some ((), t) \<and> pca_value t = (pca_value s + n) mod 0x10000
     \<and> cell_get cell_ccon t = (if 0x10000 \<le> pca_value s + n then cell_get cell_ccon s OR bmCF
                              else cell_get cell_ccon s)
     \<and> (\<forall>c. c \<notin> {cell_ch, cell_cl, cell_ccon} \<longrightarrow> cell_get c t = cell_get c s)"
proof -
  have "no_pca_work s" using assms(3) by (simp add: no_pca_work_def)
  from pca_counts [OF assms(1) this, of hw "nat n"] show ?thesis
    using assms(2) by (auto simp: do_pca_counter_def pca_counted_def)
qed

subsection \<open>The watchdog\<close>

primrec wdt_run :: "(unit, 'z) fact \<Rightarrow> int list \<Rightarrow> (unit, 'z) fact" where
  "wdt_run rst [] s = Some ((), s)"
| "wdt_run rst (c # cs) s = do { (_, s) \<leftarrow> wdt_tick rst c s; wdt_run rst cs s }"

definition counted :: "int \<Rightarrow> 'z fam51_scheme \<Rightarrow> 'z fam51_scheme" where
  "counted n s = upd_wd (\<lambda>w. w\<lparr>wdt_count := wdt_count w + n\<rparr>) s"

lemma counted_simps [simp]:
  "wdt_count (wd (counted n s)) = wdt_count (wd s) + n"
  "reset_value (wd (counted n s)) = reset_value (wd s)"
  "counted m (counted n s) = counted (n + m) s" "counted 0 s = s"
  by (simp_all add: counted_def upd_wd_def)

lemma wdt_tick_eq:
  "0 \<le> wdt_count (wd s) \<Longrightarrow> wdt_tick rst c s =
     (if reset_value (wd s) < wdt_count (wd s) + c then rst (counted c s) else Some ((), counted c s))"
  by (simp add: wdt_tick_def counted_def Let_def)

lemma wdt_run_quiet:
  assumes "0 \<le> wdt_count (wd s)" "\<forall>c \<in> set cs. 0 \<le> c" "wdt_count (wd s) + sum_list cs \<le> reset_value (wd s)"
  shows "wdt_run rst cs s = Some ((), counted (sum_list cs) s)"
  using assms
proof (induction cs arbitrary: s)
  case (Cons c cs)
  have "0 \<le> sum_list cs" using Cons.prems(2) by (intro sum_list_nonneg) simp
  then have "\<not> reset_value (wd s) < wdt_count (wd s) + c" using Cons.prems(3) by simp
  then show ?case using Cons.IH [of "counted c s"] Cons.prems by (simp add: wdt_tick_eq add.assoc)
qed simp

lemma wdt_run_append:
  "wdt_run rst (cs @ ds) s = Option.bind (wdt_run rst cs s) (\<lambda>(_, s). wdt_run rst ds s)"
  by (induction cs arbitrary: s) (auto split: bind_splits)

text \<open>
  C21 The watchdog: writing 0xe1 to WDTRST over a 0x1e, when this is not the first write since
  reset, starts the count at zero. Instructions whose cycles add up to no more than the period leave
  the rest of the machine alone, and the first one that takes the sum beyond the period resets the
  controller.
\<close>

theorem watchdog_fires:
  fixes s :: "'z fam51_scheme"
  assumes "cell_get cell_wdtrst s = 0x1e" "written_since_reset (wd s)" "v AND 0xff = 0xe1"
    and c: "\<forall>c \<in> set cs. 0 \<le> c" "sum_list cs \<le> reset_value (wd s)" "reset_value (wd s) < sum_list cs + d"
  shows "\<exists>t. wdt_write cell_wdtrst v s = Some (v, t)
     \<and> t = s\<lparr>wd := (wd s)\<lparr>wdt_count := 0\<rparr>\<rparr>
     \<and> wdt_run rst cs t = Some ((), t\<lparr>wd := (wd t)\<lparr>wdt_count := sum_list cs\<rparr>\<rparr>)
     \<and> wdt_run rst (cs @ [d]) t = rst (t\<lparr>wd := (wd t)\<lparr>wdt_count := sum_list cs + d\<rparr>\<rparr>)"
proof -
  let ?t = "s\<lparr>wd := (wd s)\<lparr>wdt_count := 0\<rparr>\<rparr>"
  have n: "0 \<le> sum_list cs" using c(1) by (intro sum_list_nonneg) simp
  have q: "counted n ?t = ?t\<lparr>wd := (wd ?t)\<lparr>wdt_count := n\<rparr>\<rparr>" for n by (simp add: counted_def upd_wd_def)
  have "wdt_write cell_wdtrst v s = Some (v, ?t)"
    using assms(1-3) by (simp add: wdt_write_def upd_wd_def)
  moreover have r: "wdt_run rst cs ?t = Some ((), counted (sum_list cs) ?t)"
    using c by (intro wdt_run_quiet) simp_all
  moreover have "wdt_run rst (cs @ [d]) ?t = rst (counted (sum_list cs + d) ?t)"
    using c(3) n by (simp add: wdt_run_append r wdt_tick_eq split: bind_splits)
  ultimately show ?thesis unfolding q by blast
qed

subsection \<open>The two data pointers of the 89C51R\<close>

abbreviation "cell_auxr1 \<equiv> Cell Sfr 0x22"
abbreviation "cell_dpl \<equiv> Cell Sfr 0x02"
abbreviation "cell_dph \<equiv> Cell Sfr 0x03"

lemma pre_inst_mem [simp]:
  "cell_get c (pre_inst s) = cell_get c s" "mem_ok (pre_inst s) = mem_ok s" "ops (pre_inst s) = ops s"
  "dp (pre_inst r) = dp (r :: 'z fam51_scheme)"
  by (simp_all add: pre_inst_def cell_get_def mem_ok_def)

lemma auxr1_in_space: "\<not> out_of_space Sfr 0xa2" "\<not> out_of_space Sfr r_DPL" "\<not> out_of_space Sfr r_DPH"
  by (simp_all add: out_of_space_def)

text \<open>
  \<open>AUXR1\<close> is the register the MAC timer knows as \<open>T2M0\<close>: \<open>mk_hw_elements\<close> of the core, which the
  89C51R runs too, has registered the MAC timer and \<open>cl_radio\<close> there. Both pass the value on.
\<close>

abbreviation "fam_elements inner other \<equiv> core51_hwif (ctl_hwif inner (comm_hwif inner other))"

lemma auxr1_write:
  fixes s :: "'z fam51_scheme"
  assumes "mem_ok s" "ops s cell_auxr1 = [Hw_op d Hw_MAC_timer, Hw_op e Hw_radio]" "byte v"
  shows "\<exists>f. as_write (fam_elements inner other) Sfr 0xa2 v s = Some (v, poke cell_auxr1 v (upd_mac f s))"
proof -
  have d: "d = slot s cell_auxr1" "e = slot s cell_auxr1"
    using assms(1,2) unfolding mem_ok_def by (metis op_slot.simps(1) list.set_intros)+
  have "hw_write (fam_elements inner other) Hw_MAC_timer = mac_write"
    "hw_write (fam_elements inner other) Hw_radio = radio_write"
    by (simp_all add: core51_hwif_def ctl_hwif_def comm_hwif_def)
  moreover have "mac_write cell_auxr1 v s = Some (v, upd_mac (\<lambda>m. set_sel_value (t2msel m) v m) s)"
    by (simp add: mac_write_def)
  ultimately have "as_write (fam_elements inner other) Sfr 0xa2 v s
      = Some (v, poke cell_auxr1 v (upd_mac (\<lambda>m. set_sel_value (t2msel m) v m) s))"
    using assms(2,3) by (simp add: as_write_def leaf_write_def auxr1_in_space cell_write.simps radio_write_def
        poke_def store_def upd_mac_def d Let_def)
  then show ?thesis by blast
qed

text \<open>
  C23 Selecting the second data pointer of the 89C51R loses it. When an instruction begins
  with the first pointer selected, the registers hold the first pointer; if the instruction sets
  DPS in AUXR1, what is saved into the second pointer at its end is the first one, so both are the
  same afterwards and the value the second had is gone. AUXR1 has the watchers the constructor
  gives it, the MAC timer and \<open>cl_radio\<close>.
\<close>

theorem second_pointer_lost:
  fixes s :: "'z fam51_scheme"
  assumes "mem_ok s" "cell_get cell_auxr1 s AND bmDPS = 0"
    "ops s cell_auxr1 = [Hw_op (slot s cell_auxr1) Hw_MAC_timer, Hw_op (slot s cell_auxr1) Hw_radio]"
    "dpl0 (dp s) = l" "dph0 (dp s) = h" "byte l" "byte h"
    and hw: "hw = core51_hwif (ctl_hwif inner (comm_hwif inner other))"
  shows "\<exists>x y z. pre_inst_89 hw s = Some ((), x) \<and> as_write hw Sfr 0xa2 bmDPS x = Some (bmDPS, y)
     \<and> post_inst_89 hw y = post_inst hw z \<and> dp z = \<lparr>dpl0 = l, dph0 = h, dpl1 = l, dph1 = h\<rparr>"
proof -
  define x where "x = pre_inst (poke cell_dph h (poke cell_dpl l s))"
  have m: "l mod 256 = l" "h mod 256 = h" using assms(6,7) by (simp_all add: byte_def)
  have x: "pre_inst_89 hw s = Some ((), x)" using assms(1-7) m
    by (simp add: pre_inst_89_def as_get_def as_set_def leaf_get_def leaf_set_def auxr1_in_space set_poke x_def)
  have "mem_ok x" "ops x cell_auxr1 = [Hw_op (slot s cell_auxr1) Hw_MAC_timer, Hw_op (slot s cell_auxr1) Hw_radio]"
    using assms(1,3,6,7) by (simp_all add: x_def)
  from auxr1_write [OF this, of bmDPS inner other] obtain f where
    y: "as_write hw Sfr 0xa2 bmDPS x = Some (bmDPS, poke cell_auxr1 bmDPS (upd_mac f x))"
    by (auto simp: hw)
  define y where "y = poke cell_auxr1 bmDPS (upd_mac f x)"
  have "cell_get cell_auxr1 y = bmDPS" "cell_get cell_dpl y = l" "cell_get cell_dph y = h" "dp y = dp s"
    using assms(1,6,7) by (simp_all add: y_def x_def)
  then have "post_inst_89 hw y = post_inst hw (y\<lparr>dp := (dp s)\<lparr>dpl1 := l, dph1 := h\<rparr>\<rparr>)"
    using m by (simp add: post_inst_89_def as_get_def leaf_get_def auxr1_in_space to_uchar_def)
  moreover have "(dp s)\<lparr>dpl1 := l, dph1 := h\<rparr> = \<lparr>dpl0 = l, dph0 = h, dpl1 = l, dph1 = h\<rparr>"
    using assms(4,5) by (cases "dp s") simp
  ultimately have "post_inst_89 hw y = post_inst hw (y\<lparr>dp := \<lparr>dpl0 = l, dph0 = h, dpl1 = l, dph1 = h\<rparr>\<rparr>)"
    by simp
  then show ?thesis using x y unfolding y_def by fastforce
qed

subsection \<open>Concrete instances\<close>

definition boot_fam :: "(cell \<Rightarrow> int) \<Rightarrow> dptrs \<Rightarrow> fam51" where
  "boot_fam h d = (cc2530.extend (boot2530 h) (fam51.fields
     \<lparr>features = 3, exf2it = False, RCLK = 0x20, TCLK = 0x10, CP_RL2 = 0, EXEN2 = 0, t2ex_edge = 0,
       bit_dcen = False, bit_t2oe = False, bit_t2ex = False\<rparr>
     \<lparr>ccapm = (\<lambda>_. 0x48), t0_overflows = 0, ECI_edge = 0, clk_source = 0, bit_CIDL = False,
       bit_WDTE = False, bit_ECF = False, bit_CR = True, cex_pos = (\<lambda>_. False), cex_neg = (\<lambda>_. False)\<rparr>
     \<lparr>wdt_count = -1, reset_value = 0x3fff, written_since_reset = True\<rparr> d))
     \<lparr>timers := (\<lambda>_. \<lparr>t_mode = T2MODE_BAUDRATE, t_GATE = False, t_C_T = False, t_TR = True, t_INT = True, t_T_edge = 0\<rparr>)\<rparr>"

lemma boot_fam_simps [simp]:
  "cell_get c (boot_fam h d) = h c" "ops (boot_fam h d) = ops (boot51 h)" "slot (boot_fam h d) = Priv_slot"
  "dp (boot_fam h d) = d" "ser (boot_fam h d) = idle_uart" "EXEN2 (t2 (boot_fam h d)) = 0"
  "timers (boot_fam h d) n = \<lparr>t_mode = T2MODE_BAUDRATE, t_GATE = False, t_C_T = False, t_TR = True, t_INT = True, t_T_edge = 0\<rparr>"
  "ccapm (pca (boot_fam h d)) i = 0x48" "\<not> cex_pos (pca (boot_fam h d)) i" "\<not> cex_neg (pca (boot_fam h d)) i"
  "wd (boot_fam h d) = \<lparr>wdt_count = -1, reset_value = 0x3fff, written_since_reset = True\<rparr>"
  by (simp_all add: boot_fam_def cc2530.extend_def fam51.fields_def boot2530_def core51.extend_def
      cc2530.fields_def cell_get_def boot51_def)

lemma boot_fam_ok [simp]: "(\<And>c. byte (h c)) \<Longrightarrow> mem_ok (boot_fam h d)"
  by (subst mem_ok_cong [of _ "boot51 h"])
    (simp_all add: ready_mem_ok boot_fam_def cc2530.extend_def boot2530_def core51.extend_def)

definition no_dptrs :: dptrs where
  "no_dptrs = \<lparr>dpl0 = 0, dph0 = 0, dpl1 = 0, dph1 = 0\<rparr>"

definition serial_hw :: "'z fam_hw" where
  "serial_hw = base_hw\<lparr>hw_happen := (\<lambda>h. case h of Hw_serial \<Rightarrow> serial_happen | _ \<Rightarrow> (\<lambda>_ s. Some ((), s)))\<rparr>"

theorem timer2_clocks_serial_witness:
  "\<exists>u. timer2_tick serial_hw 100 (boot_fam (\<lambda>c. if c = cell_rcap2h \<or> c = cell_th2 then 0xff
        else if c = cell_rcap2l \<or> c = cell_tl2 then 0xf0 else 0) no_dptrs) = Some ((), u)
     \<and> t2_value u = 0xfff0 + 8 \<and> s_tr_t1 (ser u) = 37"
proof -
  let ?s = "boot_fam (\<lambda>c. if c = cell_rcap2h \<or> c = cell_th2 then 0xff
        else if c = cell_rcap2l \<or> c = cell_tl2 then 0xf0 else 0) no_dptrs"
  have "mem_ok ?s" by (rule boot_fam_ok) (simp add: byte_def)
  from timer2_clocks_serial [OF this, of serial_hw 100 "rcap ?s" "t2_value ?s - rcap ?s + 6 * 100"]
  show ?thesis by (auto simp: serial_hw_def t2_capture_edge_def pair_value_def idle_uart_def)
qed

theorem pca_compares_at_zero_witness:
  "\<exists>t. do_pca_counter base_hw 0x20000 (boot_fam (\<lambda>c. if c = cell_ccon then 0 else 1) no_dptrs) = Some ((), t)
     \<and> cell_get cell_ccon t = bmCF \<and> pca_value t = 0x101"
proof -
  let ?s = "boot_fam (\<lambda>c. if c = cell_ccon then 0 else 1) no_dptrs"
  have s: "mem_ok ?s" by (rule boot_fam_ok) (simp add: byte_def)
  have "\<forall>i \<in> {0, 1, 2, 3, 4}. ccapm (pca ?s) i AND bmPWM = 0 \<and> \<not> cex_pos (pca ?s) i \<and> \<not> cex_neg (pca ?s) i
       \<and> (cell_get (cell_ccapl i) ?s \<noteq> 0 \<or> cell_get (cell_ccaph i) ?s \<noteq> 0)"
    by (simp add: cell_ccapl_def)
  from pca_compares_at_zero [OF s _ this, of "0x20000" base_hw] show ?thesis
    by (auto simp: pair_value_def)
qed

theorem watchdog_fires_witness:
  "\<exists>t. wdt_write cell_wdtrst 0xe1 (boot_fam (\<lambda>_. 0x1e) no_dptrs) = Some (0xe1, t)
     \<and> wdt_run (uc51r_reset base_hw) (replicate 0x3ffe 1 @ [2]) t
         = uc51r_reset base_hw (t\<lparr>wd := (wd t)\<lparr>wdt_count := 0x4000\<rparr>\<rparr>)"
proof -
  have "\<forall>c \<in> set (replicate 0x3ffe 1). (0::int) \<le> c" by simp
  moreover have "sum_list (replicate 0x3ffe (1::int)) = 0x3ffe" by (simp add: sum_list_replicate)
  ultimately show ?thesis
    using watchdog_fires [where s = "boot_fam (\<lambda>_. 0x1e) no_dptrs" and v = "0xe1" and cs = "replicate 0x3ffe 1"
      and d = 2 and rst = "uc51r_reset base_hw"]
    by auto
qed

definition wired_fam :: fam51 where
  "wired_fam = (boot_fam (\<lambda>_. 0) \<lparr>dpl0 = 1, dph0 = 2, dpl1 = 3, dph1 = 4\<rparr>)\<lparr>ops := (\<lambda>c.
     if c = cell_auxr1 then [Hw_op (Priv_slot c) Hw_MAC_timer, Hw_op (Priv_slot c) Hw_radio] else [])\<rparr>"

theorem second_pointer_lost_witness:
  "\<exists>x y z. pre_inst_89 (core51_hwif (ctl_hwif base_hw (comm_hwif base_hw base_hw))) wired_fam = Some ((), x)
     \<and> as_write (core51_hwif (ctl_hwif base_hw (comm_hwif base_hw base_hw))) Sfr 0xa2 bmDPS x = Some (bmDPS, y)
     \<and> post_inst_89 (core51_hwif (ctl_hwif base_hw (comm_hwif base_hw base_hw))) y
       = post_inst (core51_hwif (ctl_hwif base_hw (comm_hwif base_hw base_hw))) z
     \<and> dp z = \<lparr>dpl0 = 1, dph0 = 2, dpl1 = 1, dph1 = 2\<rparr>"
proof -
  have "mem_ok (boot_fam (\<lambda>_. 0) \<lparr>dpl0 = 1, dph0 = 2, dpl1 = 3, dph1 = 4\<rparr>)"
    by (rule boot_fam_ok) (simp add: byte_def)
  then have "mem_ok wired_fam" by (auto simp: mem_ok_def wired_fam_def)
  moreover have "ops wired_fam cell_auxr1 = [Hw_op (slot wired_fam cell_auxr1) Hw_MAC_timer,
      Hw_op (slot wired_fam cell_auxr1) Hw_radio]" "cell_get c wired_fam = 0"
    "dp wired_fam = \<lparr>dpl0 = 1, dph0 = 2, dpl1 = 3, dph1 = 4\<rparr>" for c
    using boot_fam_simps(1) [of c "\<lambda>_. 0" "\<lparr>dpl0 = 1, dph0 = 2, dpl1 = 3, dph1 = 4\<rparr>"]
    by (simp_all add: wired_fam_def cell_get_def)
  ultimately show ?thesis by (intro second_pointer_lost) (simp_all add: byte_def)
qed

end
