(* ===== verification/Decoder.thy ===== *)
theory Decoder
  imports Mem Pobj
begin

text \<open>
  Memory chips, address decoders and the search in a memory (\<open>mem.cc\<close>): a decoder connects an area
  of an address space to a part of a chip. Activating it takes the area away from the decoders that
  had it, which are removed, shrunk or split; the second half of a split is a new decoder, activated in
  turn. \<open>decs\<close> is the sorted collection of one address space; the number of a decoder stands for its
  pointer. Storage fresh from \<open>malloc\<close> holds an arbitrary value, the next one of \<open>rand_src\<close>.
  \<open>make_memories51\<close> builds the memory of \<open>cl_51core\<close>.
\<close>

subsection \<open>Chips\<close>

record chip =
  chip_name :: string
  chip_size :: int

definition get_slot :: "chip \<Rightarrow> t_addr \<Rightarrow> mslot option" where
  "get_slot ch addr = (if chip_size ch \<le> addr then None else Some (Chip_slot (chip_name ch) addr))"

definition chip_get :: "chip \<Rightarrow> t_addr \<Rightarrow> 'z mem_scheme \<Rightarrow> t_mem" where
  "chip_get ch addr s = (case get_slot ch addr of None \<Rightarrow> 0 | Some d \<Rightarrow> heap s d)"

definition chip_set :: "chip \<Rightarrow> t_addr \<Rightarrow> t_mem \<Rightarrow> 'z mem_scheme \<Rightarrow> 'z mem_scheme" where
  "chip_set ch addr v s = (case get_slot ch addr of None \<Rightarrow> s | Some d \<Rightarrow> store d (v AND 255) s)"

definition chip_set_bit1 :: "chip \<Rightarrow> t_addr \<Rightarrow> t_mem \<Rightarrow> 'z mem_scheme \<Rightarrow> 'z mem_scheme" where
  "chip_set_bit1 ch addr bits s =
     (case get_slot ch addr of None \<Rightarrow> s | Some d \<Rightarrow> store d (heap s d OR (bits AND 255)) s)"

definition chip_set_bit0 :: "chip \<Rightarrow> t_addr \<Rightarrow> t_mem \<Rightarrow> 'z mem_scheme \<Rightarrow> 'z mem_scheme" where
  "chip_set_bit0 ch addr bits s =
     (case get_slot ch addr of None \<Rightarrow> s | Some d \<Rightarrow> store d (heap s d AND (NOT bits AND 255)) s)"

primrec chip_fill :: "chip \<Rightarrow> int \<Rightarrow> nat \<Rightarrow> t_addr \<Rightarrow> 'z mem_scheme \<Rightarrow> 'z mem_scheme" where
  "chip_fill ch initial 0 i s = s"
| "chip_fill ch initial (Suc n) i s =
     (let (v, s) = (if initial < 0 then next_rand s else (initial, s))
      in chip_fill ch initial n (i + 1) (chip_set ch i v s))"

definition chip_init :: "chip \<Rightarrow> int \<Rightarrow> 'z mem_scheme \<Rightarrow> 'z mem_scheme" where
  "chip_init ch initial s = chip_fill ch initial (nat (chip_size ch)) 0 s"

subsection \<open>Cells\<close>

definition fresh_data :: "cell \<Rightarrow> 'z mem_scheme \<Rightarrow> 'z mem_scheme" where
  "fresh_data c s =
     (let (r, s) = next_rand s; s = store (Priv_slot c) r (s\<lparr>slot := (slot s)(c := Priv_slot c)\<rparr>)
      in cell_set_flag c CELL_NON_DECODED True s)"

definition un_decode :: "cell \<Rightarrow> 'z mem_scheme \<Rightarrow> 'z mem_scheme" where
  "un_decode c s = (if cell_get_flag c CELL_NON_DECODED s then s else fresh_data c s)"

definition decode :: "cell \<Rightarrow> chip \<Rightarrow> t_addr \<Rightarrow> 'z mem_scheme \<Rightarrow> 'z mem_scheme" where
  "decode c ch addr s =
     (case get_slot ch addr of
        None \<Rightarrow> fresh_data c s
      | Some d \<Rightarrow> cell_set_flag c CELL_NON_DECODED False (s\<lparr>slot := (slot s)(c := d)\<rparr>))"

definition decode_cell :: "as_id \<Rightarrow> t_addr \<Rightarrow> chip \<Rightarrow> t_addr \<Rightarrow> 'z mem_scheme \<Rightarrow> bool \<times> 'z mem_scheme" where
  "decode_cell a addr ch chipaddr s =
     (if out_of_space a addr then (False, s)
      else (let c = Cell a (addr - as_start a); s = decode c ch chipaddr (un_decode c s)
            in (\<not> cell_get_flag c CELL_NON_DECODED s, s)))"

definition undecode_cell :: "as_id \<Rightarrow> t_addr \<Rightarrow> 'z mem_scheme \<Rightarrow> 'z mem_scheme" where
  "undecode_cell a addr s =
     (if out_of_space a addr then s else un_decode (Cell a (addr - as_start a)) s)"

primrec undecode_cells :: "as_id \<Rightarrow> nat \<Rightarrow> t_addr \<Rightarrow> 'z mem_scheme \<Rightarrow> 'z mem_scheme" where
  "undecode_cells a 0 addr s = s"
| "undecode_cells a (Suc n) addr s = undecode_cells a n (addr + 1) (undecode_cell a addr s)"

primrec decode_cells :: "as_id \<Rightarrow> chip \<Rightarrow> nat \<Rightarrow> t_addr \<Rightarrow> t_addr \<Rightarrow> 'z mem_scheme \<Rightarrow> 'z mem_scheme" where
  "decode_cells a ch 0 asa ca s = s"
| "decode_cells a ch (Suc n) asa ca s =
     decode_cells a ch n (asa + 1) (ca + 1) (snd (decode_cell a asa ch ca s))"

subsection \<open>Decoders\<close>

record decoder =
  d_id :: nat
  memchip :: "chip option"
  as_begin :: t_addr
  as_end :: t_addr
  chip_begin :: t_addr
  activated :: bool

definition new_decoder :: "nat \<Rightarrow> chip option \<Rightarrow> t_addr \<Rightarrow> t_addr \<Rightarrow> t_addr \<Rightarrow> decoder" where
  "new_decoder n ch asb ase cb =
     \<lparr>d_id = n, memchip = ch, as_begin = asb, as_end = ase, chip_begin = cb, activated = False\<rparr>"

definition fully_covered_by :: "t_addr \<Rightarrow> t_addr \<Rightarrow> decoder \<Rightarrow> bool" where
  "fully_covered_by b e d \<longleftrightarrow> b \<le> as_begin d \<and> as_end d \<le> e"

definition is_in :: "t_addr \<Rightarrow> t_addr \<Rightarrow> decoder \<Rightarrow> bool" where
  "is_in b e d \<longleftrightarrow> as_begin d \<le> b \<and> b \<le> as_end d \<or> as_begin d \<le> e \<and> e \<le> as_end d"

definition covers :: "t_addr \<Rightarrow> t_addr \<Rightarrow> decoder \<Rightarrow> bool" where
  "covers b e d \<longleftrightarrow> as_begin d < b \<and> e < as_end d"

text \<open>\<open>shrink_out_of\<close> also returns whether nothing is left.\<close>

definition shrink_out_of :: "as_id \<Rightarrow> t_addr \<Rightarrow> t_addr \<Rightarrow> decoder \<Rightarrow> 'z mem_scheme
    \<Rightarrow> bool \<times> decoder \<times> 'z mem_scheme" where
  "shrink_out_of a b e d s =
     (let from = (if as_begin d < b then b else as_begin d);
          s = undecode_cells a (nat (min e (as_end d) - from + 1)) from s;
          d = (if as_begin d < b then d\<lparr>as_end := b - 1\<rparr> else d);
          d = (if e < as_end d
               then d\<lparr>chip_begin := chip_begin d + (e - as_begin d + 1), as_begin := e + 1\<rparr> else d)
      in (as_end d < as_begin d, d, s))"

definition split_decoder :: "as_id \<Rightarrow> nat \<Rightarrow> t_addr \<Rightarrow> t_addr \<Rightarrow> decoder \<Rightarrow> 'z mem_scheme
    \<Rightarrow> decoder option \<times> decoder \<times> 'z mem_scheme" where
  "split_decoder a n b e d s =
     (if as_begin d < b then
        (let nd = (if e < as_end d
                   then Some (new_decoder n (memchip d) (e + 1) (as_end d) (chip_begin d + (e - as_begin d) + 1))
                   else None);
             (_, d, s) = shrink_out_of a b (as_end d) d s
         in (nd, d, s))
      else if e < as_end d then
        (let nd = (if as_begin d < b
                   then Some (new_decoder n (memchip d) (as_begin d) (b - 1) (chip_begin d)) else None);
             (_, d, s) = shrink_out_of a (e + 1) (as_end d) d s
         in (nd, d, s))
      else (None, d, s))"

subsection \<open>The decoders of an address space\<close>

record decs =
  decoders :: "decoder cl_list"
  next_dec :: nat

definition dec_compare :: "t_addr \<Rightarrow> t_addr \<Rightarrow> int" where
  "dec_compare k1 k2 = (if k1 = k2 then 0 else if k2 < k1 then 1 else -1)"

definition find_dec :: "nat \<Rightarrow> decs \<Rightarrow> decoder option" where
  "find_dec n ds = find (\<lambda>d. d_id d = n) (Items (decoders ds))"

definition put_dec :: "decoder \<Rightarrow> decs \<Rightarrow> decs" where
  "put_dec d ds = ds\<lparr>decoders := (decoders ds)\<lparr>Items :=
     map (\<lambda>x. if d_id x = d_id d then d else x) (Items (decoders ds))\<rparr>\<rparr>"

definition drop_dec :: "nat \<Rightarrow> decs \<Rightarrow> decs" where
  "drop_dec n ds = ds\<lparr>decoders := (decoders ds)\<lparr>Items :=
     remove_first (\<lambda>x. d_id x = n) (Items (decoders ds))\<rparr>\<rparr>"

definition add_dec :: "decoder \<Rightarrow> decs \<Rightarrow> decs option" where
  "add_dec d ds = do {
     (_, l) \<leftarrow> sl_add as_begin dec_compare True d (decoders ds);
     Some (ds\<lparr>decoders := l, next_dec := Suc (next_dec ds)\<rparr>)
   }"

definition delete_decoder :: "as_id \<Rightarrow> decoder \<Rightarrow> decs \<Rightarrow> 'z mem_scheme \<Rightarrow> decs \<times> 'z mem_scheme" where
  "delete_decoder a d ds s =
     (drop_dec (d_id d) ds, undecode_cells a (nat (as_end d - as_begin d + 1)) (as_begin d) s)"

definition can_activate :: "as_id \<Rightarrow> decoder \<Rightarrow> bool" where
  "can_activate a d \<longleftrightarrow> \<not> activated d \<and>
     (case memchip d of None \<Rightarrow> False
      | Some ch \<Rightarrow> as_begin d \<le> as_end d \<and> chip_begin d < chip_size ch
          \<and> as_start a \<le> as_begin d \<and> as_end d < as_start a + as_size a
          \<and> as_end d - as_begin d \<le> chip_size ch - chip_begin d)"

text \<open>The end of \<open>activate\<close>, with the values the decoder has by then.\<close>

definition finish_activate :: "as_id \<Rightarrow> nat \<Rightarrow> decs \<Rightarrow> 'z mem_scheme \<Rightarrow> (decs \<times> 'z mem_scheme) option" where
  "finish_activate a n ds s =
     (case find_dec n ds of None \<Rightarrow> None
      | Some d \<Rightarrow> (case memchip d of None \<Rightarrow> None
          | Some ch \<Rightarrow> Some (put_dec (d\<lparr>activated := True\<rparr>) ds,
              decode_cells a ch (nat (as_end d - as_begin d + 1)) (as_begin d) (chip_begin d) s)))"

text \<open>
  One round of the loop of \<open>undecode_area\<close> at the decoder of index \<open>i\<close>: the index of the next round,
  and the new decoder to activate before it. After a removal the index stays.
\<close>

definition area_step :: "as_id \<Rightarrow> nat \<Rightarrow> t_addr \<Rightarrow> t_addr \<Rightarrow> int \<Rightarrow> decs \<Rightarrow> 'z mem_scheme
    \<Rightarrow> (int \<times> decoder option \<times> decs \<times> 'z mem_scheme) option" where
  "area_step a skip b e i ds s =
     (let d = Items (decoders ds) ! nat i in
      if d_id d = skip then Some (i + 1, None, ds, s)
      else if fully_covered_by b e d then
        (let (ds, s) = delete_decoder a d ds s in Some (i, None, ds, s))
      else if covers b e d then
        (let (nd, d, s) = split_decoder a (next_dec ds) b e d s; ds = put_dec d ds in
         case nd of None \<Rightarrow> Some (i + 1, None, ds, s)
         | Some nd \<Rightarrow> do {
             ds \<leftarrow> add_dec nd ds;
             Some (i + 1, if can_activate a nd then Some nd else None, ds, s)
           })
      else if is_in b e d then
        (let (empty, d, s) = shrink_out_of a b e d s; ds = put_dec d ds in
         if empty then (let (ds, s) = delete_decoder a d ds s in Some (i, None, ds, s))
         else Some (i + 1, None, ds, s))
      else Some (i + 1, None, ds, s))"

partial_function (option) undecode_area :: "as_id \<Rightarrow> nat \<Rightarrow> t_addr \<Rightarrow> t_addr \<Rightarrow> int \<Rightarrow> decs
    \<Rightarrow> 'z mem_scheme \<Rightarrow> (decs \<times> 'z mem_scheme) option" where
  "undecode_area a skip b e i ds s =
     (if lcount (decoders ds) \<le> i then Some (ds, s)
      else Option.bind (area_step a skip b e i ds s) (\<lambda>(i', nd, ds, s).
        case nd of None \<Rightarrow> undecode_area a skip b e i' ds s
        | Some nd \<Rightarrow>
            Option.bind (undecode_area a (d_id nd) (as_begin nd) (as_end nd) 0 ds s) (\<lambda>(ds, s).
              Option.bind (finish_activate a (d_id nd) ds s) (\<lambda>(ds, s).
                undecode_area a skip b e i' ds s))))"

definition activate_dec :: "as_id \<Rightarrow> nat \<Rightarrow> decs \<Rightarrow> 'z mem_scheme
    \<Rightarrow> (bool \<times> decs \<times> 'z mem_scheme) option" where
  "activate_dec a n ds s =
     (case find_dec n ds of None \<Rightarrow> None
      | Some d \<Rightarrow>
          if can_activate a d then do {
            (ds, s) \<leftarrow> undecode_area a n (as_begin d) (as_end d) 0 ds s;
            (ds, s) \<leftarrow> finish_activate a n ds s;
            Some (True, ds, s)
          }
          else Some (False, ds, s))"

text \<open>What \<open>make_memories\<close> and the commands do with a new decoder.\<close>

definition connect :: "as_id \<Rightarrow> chip \<Rightarrow> t_addr \<Rightarrow> t_addr \<Rightarrow> t_addr \<Rightarrow> decs \<Rightarrow> 'z mem_scheme
    \<Rightarrow> (bool \<times> decs \<times> 'z mem_scheme) option" where
  "connect a ch asb ase cb ds s = do {
     let n = next_dec ds;
     ds \<leftarrow> add_dec (new_decoder n (Some ch) asb ase cb) ds;
     activate_dec a n ds s
   }"

subsection \<open>The memory of the core\<close>

definition empty_decs :: decs where
  "empty_decs = \<lparr>decoders = \<lparr>Items = [], Limit = 2, Delta = 2\<rparr>, next_dec = 0\<rparr>"

text \<open>Address spaces before any decoder: every cell has storage of its own, which holds zero.\<close>

definition new_cells :: "'z mem_scheme \<Rightarrow> 'z mem_scheme" where
  "new_cells s = s\<lparr>heap := (\<lambda>_. 0), slot := Priv_slot, ops := (\<lambda>_. []), cflags := (\<lambda>_. CELL_NON_DECODED)\<rparr>"

definition place :: "as_id \<Rightarrow> chip \<Rightarrow> int \<Rightarrow> t_addr \<Rightarrow> t_addr \<Rightarrow> t_addr
    \<Rightarrow> (as_id \<Rightarrow> decs) \<times> 'z mem_scheme \<Rightarrow> ((as_id \<Rightarrow> decs) \<times> 'z mem_scheme) option" where
  "place a ch initial asb ase cb ms = do {
     let (dm, s) = ms;
     (_, ds, s) \<leftarrow> connect a ch asb ase cb (dm a) (chip_init ch initial s);
     Some (dm(a := ds), s)
   }"

definition rom_chip :: chip where "rom_chip = \<lparr>chip_name = ''rom_chip'', chip_size = 0x10000\<rparr>"
definition iram_chip :: chip where "iram_chip = \<lparr>chip_name = ''iram_chip'', chip_size = 0x100\<rparr>"
definition xram_chip :: chip where "xram_chip = \<lparr>chip_name = ''xram_chip'', chip_size = 0x10000\<rparr>"
definition sfr_chip :: chip where "sfr_chip = \<lparr>chip_name = ''sfr_chip'', chip_size = 0x80\<rparr>"
definition flash_chip :: chip where "flash_chip = \<lparr>chip_name = ''flash_chip'', chip_size = 0x8000\<rparr>"
definition sram_chip :: chip where "sram_chip = \<lparr>chip_name = ''sram_chip'', chip_size = 0x2000\<rparr>"
definition eram_chip :: chip where "eram_chip = \<lparr>chip_name = ''eram_chip'', chip_size = 0x100\<rparr>"

definition make_memories51 :: "'z mem_scheme \<Rightarrow> ((as_id \<Rightarrow> decs) \<times> 'z mem_scheme) option" where
  "make_memories51 s = do {
     m \<leftarrow> place Rom rom_chip (-1) 0 0xffff 0 (\<lambda>_. empty_decs, new_cells s);
     m \<leftarrow> place Iram iram_chip (-1) 0 0x7f 0 m;
     m \<leftarrow> place Xram xram_chip (-1) 0 0xffff 0 m;
     m \<leftarrow> place Sfr sfr_chip 0 0x80 0xff 0 m;
     m \<leftarrow> place Flashbank0 flash_chip (-1) 0x8000 0xffff 0 m;
     place Sram sram_chip (-1) 0 0x2000 0 m
   }"

text \<open>
  The write handler of AUXR in the 8051R connects the low page of the external memory to the chip inside
  or outside of the controller, with a new decoder at every write.
\<close>

definition auxr_write_51r :: "t_mem \<Rightarrow> decs \<Rightarrow> 'z mem_scheme \<Rightarrow> (bool \<times> decs \<times> 'z mem_scheme) option" where
  "auxr_write_51r val ds s = connect Xram (if val AND 0x02 \<noteq> 0 then xram_chip else eram_chip) 0 0xff 0 ds s"

text \<open>The command that creates a decoder (\<open>cmdmem.cc\<close>) checks the area first.\<close>

definition create_decoder :: "as_id \<Rightarrow> chip \<Rightarrow> t_addr \<Rightarrow> t_addr \<Rightarrow> t_addr \<Rightarrow> decs \<Rightarrow> 'z mem_scheme
    \<Rightarrow> (decs \<times> 'z mem_scheme) option" where
  "create_decoder a ch asb ase cb ds s =
     (if ase < asb \<or> chip_size ch \<le> cb then Some (ds, s)
      else if asb < as_start a \<or> as_start a + as_size a - 1 \<le> ase then Some (ds, s)
      else if chip_size ch - cb < ase - asb then Some (ds, s)
      else map_option snd (connect a ch asb ase cb ds s))"

subsection \<open>Searching\<close>

text \<open>\<open>isalpha\<close> and \<open>toupper\<close> of the C locale.\<close>

definition fold_case :: "bool \<Rightarrow> t_mem \<Rightarrow> t_mem" where
  "fold_case case_sensitive d = (if \<not> case_sensitive \<and> 0x61 \<le> d \<and> d \<le> 0x7a then d - 0x20 else d)"

definition search_match :: "bool \<Rightarrow> (t_addr \<Rightarrow> t_mem) \<Rightarrow> t_mem list \<Rightarrow> t_addr \<Rightarrow> bool" where
  "search_match cs get_at pat x \<longleftrightarrow>
     list_all (\<lambda>i. fold_case cs (get_at (x + int i)) = fold_case cs (pat ! i)) [0..<length pat]"

primrec search_from :: "bool \<Rightarrow> (t_addr \<Rightarrow> t_mem) \<Rightarrow> t_mem list \<Rightarrow> nat \<Rightarrow> t_addr \<Rightarrow> bool \<times> t_addr" where
  "search_from cs get_at pat 0 x = (False, x)"
| "search_from cs get_at pat (Suc n) x =
     (if search_match cs get_at pat x then (True, x) else search_from cs get_at pat n (x + 1))"

definition search_next :: "bool \<Rightarrow> (t_addr \<Rightarrow> t_mem) \<Rightarrow> int \<Rightarrow> t_mem list \<Rightarrow> t_addr \<Rightarrow> bool \<times> t_addr" where
  "search_next cs get_at sz pat x =
     (if sz < x + int (length pat) then (False, x)
      else search_from cs get_at pat (nat (sz - int (length pat) - x + 1)) x)"

end
