(* ===== verification/DecoderFacts.thy ===== *)
theory DecoderFacts
  imports Decoder MemFacts
begin

text \<open>
  Address decoders against their abstract meaning: an address space is a partial map from its cells to
  slots of chips, and activating a decoder overrides that map on the area of the decoder.
\<close>

interpretation dec: sorted_coll as_begin dec_compare
  by unfold_locales (auto simp: dec_compare_def)

subsection \<open>What a cell is connected to\<close>

definition connected :: "cell \<Rightarrow> 'z mem_scheme \<Rightarrow> mslot option" where
  "connected c s = (if cell_get_flag c CELL_NON_DECODED s then None else Some (slot s c))"

fun in_area :: "as_id \<Rightarrow> t_addr \<Rightarrow> t_addr \<Rightarrow> cell \<Rightarrow> bool" where
  "in_area a b e (Cell k i) \<longleftrightarrow> k = a \<and> 0 \<le> i \<and> i < as_size a \<and> b \<le> i + as_start a \<and> i + as_start a \<le> e"
| "in_area a b e (Dummy k) \<longleftrightarrow> False"

fun in_space :: "as_id \<Rightarrow> cell \<Rightarrow> bool" where
  "in_space a (Cell k i) \<longleftrightarrow> k = a \<and> 0 \<le> i \<and> i < as_size a"
| "in_space a (Dummy k) \<longleftrightarrow> False"

fun chip_place :: "as_id \<Rightarrow> decoder \<Rightarrow> cell \<Rightarrow> mslot option" where
  "chip_place a d (Cell k i) = (case memchip d of None \<Rightarrow> None
     | Some ch \<Rightarrow> Some (Chip_slot (chip_name ch) (chip_begin d + (i + as_start a - as_begin d))))"
| "chip_place a d (Dummy k) = None"

definition decodes :: "as_id \<Rightarrow> decoder set \<Rightarrow> cell \<Rightarrow> mslot \<Rightarrow> bool" where
  "decodes a D c t \<longleftrightarrow> (\<exists>d \<in> D. in_area a (as_begin d) (as_end d) c \<and> chip_place a d c = Some t)"

lemma flag_set [simp]:
  "cell_get_flag c CELL_NON_DECODED (cell_set_flag k CELL_NON_DECODED v s)
     = (if c = k then v else cell_get_flag c CELL_NON_DECODED s)"
proof -
  have b: "(x OR 64) AND 64 = (64 :: int)" "(x AND NOT 64) AND 64 = (0 :: int)" for x :: int
    by (auto intro!: bit_eqI simp: bit_simps)
  show ?thesis using b by (simp add: cell_get_flag_def cell_set_flag_def)
qed

lemma flag_other [simp]:
  "cell_get_flag c f (store d v s) = cell_get_flag c f s"
  "cell_get_flag c f (s\<lparr>slot := g\<rparr>) = cell_get_flag c f s"
  "cell_get_flag c f (s\<lparr>rand_pos := n\<rparr>) = cell_get_flag c f s"
  "slot (cell_set_flag c f b s) = slot s" "slot (store d v s) = slot s"
  by (simp_all add: cell_get_flag_def store_def cell_set_flag_def)

lemma connected_store [simp]: "connected c (store d v s) = connected c s"
  by (simp add: connected_def)

lemma connected_fresh: "connected c (fresh_data k s) = (if c = k then None else connected c s)"
  by (simp add: fresh_data_def Let_def next_rand_def connected_def)

lemma connected_un_decode: "connected c (un_decode k s) = (if c = k then None else connected c s)"
  by (simp add: un_decode_def connected_fresh) (auto simp: connected_def)

lemma connected_decode:
  "connected c (decode k ch i s) = (if c = k then get_slot ch i else connected c s)"
proof (cases "get_slot ch i")
  case None
  then show ?thesis by (simp add: decode_def connected_fresh)
next
  case (Some d)
  then show ?thesis
    by (simp add: decode_def connected_def)
qed

lemma in_area_Suc:
  "in_area a x (x + int (Suc n) - 1) c \<longleftrightarrow>
     \<not> out_of_space a x \<and> c = Cell a (x - as_start a) \<or> in_area a (x + 1) (x + 1 + int n - 1) c"
  by (cases c) (auto simp: out_of_space_def)

lemma in_area_empty [simp]: "e < b \<Longrightarrow> \<not> in_area a b e c"
  by (cases c) auto

lemma connected_undecode_cells:
  "connected c (undecode_cells a n x s) = (if in_area a x (x + int n - 1) c then None else connected c s)"
proof (induction n arbitrary: x s)
  case (Suc n)
  show ?case
    unfolding in_area_Suc undecode_cells.simps Suc.IH
    by (simp add: undecode_cell_def connected_un_decode)
qed simp

lemma connected_decode_cells:
  assumes "y + int n \<le> chip_size ch"
  shows "connected c (decode_cells a ch n x y s) = (if in_area a x (x + int n - 1) c
     then (case c of Cell k i \<Rightarrow> Some (Chip_slot (chip_name ch) (y + (i + as_start a - x))) | _ \<Rightarrow> None)
     else connected c s)"
  using assms
proof (induction n arbitrary: x y s)
  case (Suc n)
  then have y: "y + 1 + int n \<le> chip_size ch" "\<not> chip_size ch \<le> y" by simp_all
  have "(case c of Cell k i \<Rightarrow> Some (Chip_slot (chip_name ch) (y + 1 + (i + as_start a - (x + 1)))) | _ \<Rightarrow> None)
      = (case c of Cell k i \<Rightarrow> Some (Chip_slot (chip_name ch) (y + (i + as_start a - x))) | _ \<Rightarrow> None)"
    by (simp split: cell.split)
  then show ?case
    unfolding in_area_Suc decode_cells.simps Suc.IH [OF y(1)]
    using y(2) by (simp add: decode_cell_def Let_def connected_decode connected_un_decode get_slot_def)
qed simp

subsection \<open>Insertion\<close>

lemma search_loop_range:
  "search_loop key cmp dup xs k l h res = (f, p) \<Longrightarrow> l \<le> h + 1 \<Longrightarrow> l \<le> p \<and> p \<le> h + 1"
proof (induction key cmp dup xs k l h res arbitrary: f p rule: search_loop.induct)
  case (1 key cmp dup xs k l h res)
  show ?case
  proof (cases "l \<le> h")
    case True
    define i where "i = (l + h) div 2"
    define c where "c = cmp (key (xs ! nat i)) k"
    have i: "l \<le> i" "i \<le> h" using True by (auto simp: i_def)
    note step = 1(5) [unfolded search_loop.simps [of _ _ _ _ _ l h], folded i_def c_def]
    note IH = 1(1-4) [OF True i_def c_def]
    show ?thesis using step True IH i
      by (fastforce simp: Let_def i_def [symmetric] c_def [symmetric] split: if_splits)
  qed (use 1(5,6) in \<open>simp add: search_loop.simps\<close>)
qed

lemma add_dec_total:
  assumes "cl_list_ok (decoders ds)" "lcount (decoders ds) < max_list_size"
  shows "\<exists>p ds'. add_dec d ds = Some ds' \<and> cl_list_ok (decoders ds') \<and> next_dec ds' = Suc (next_dec ds)
     \<and> p \<le> length (Items (decoders ds))
     \<and> Items (decoders ds') = take p (Items (decoders ds)) @ d # drop p (Items (decoders ds))"
proof -
  obtain f i where f: "sl_search as_begin dec_compare True (as_begin d) (decoders ds) = (f, i)" by fastforce
  then have i: "0 \<le> i" "i \<le> lcount (decoders ds)"
    using search_loop_range [OF f [unfolded sl_search_def]] by (simp_all add: lcount_def)
  obtain l where l: "add_at i d (decoders ds) = Some l" "cl_list_ok l"
    using add_at_total [OF assms i] by blast
  have "add_dec d ds = Some (ds\<lparr>decoders := l, next_dec := Suc (next_dec ds)\<rparr>)"
    using f l(1) by (simp add: add_dec_def sl_add_def)
  moreover have "nat i \<le> length (Items (decoders ds))" using i by (simp add: lcount_def)
  ultimately show ?thesis using l(2) add_at_Items(1) [OF l(1)] by (intro exI [of _ "nat i"]) auto
qed

subsection \<open>Decoders as a map\<close>

definition dec_ok :: "as_id \<Rightarrow> decoder \<Rightarrow> bool" where
  "dec_ok a d \<longleftrightarrow> as_begin d \<le> as_end d \<and> as_start a \<le> as_begin d \<and> as_end d < as_start a + as_size a
     \<and> 0 \<le> chip_begin d
     \<and> (case memchip d of None \<Rightarrow> False | Some ch \<Rightarrow> chip_begin d + (as_end d - as_begin d) < chip_size ch)"

definition overlaps :: "t_addr \<Rightarrow> t_addr \<Rightarrow> decoder \<Rightarrow> bool" where
  "overlaps b e d \<longleftrightarrow> as_begin d \<le> e \<and> b \<le> as_end d"

abbreviation apart :: "decoder \<Rightarrow> decoder \<Rightarrow> bool" where
  "apart d d' \<equiv> \<not> overlaps (as_begin d) (as_end d) d'"

definition map_ok :: "as_id \<Rightarrow> decoder set \<Rightarrow> 'z mem_scheme \<Rightarrow> bool" where
  "map_ok a D s \<longleftrightarrow> (\<forall>d\<in>D. dec_ok a d) \<and> (\<forall>d\<in>D. \<forall>d'\<in>D. d \<noteq> d' \<longrightarrow> apart d d')
     \<and> (\<forall>c t. in_space a c \<longrightarrow> (connected c s = Some t \<longleftrightarrow> decodes a D c t))"

text \<open>What is left of a decoder when the area from b to e is taken away.\<close>

definition rest_of :: "as_id \<Rightarrow> t_addr \<Rightarrow> t_addr \<Rightarrow> decoder \<Rightarrow> decoder set \<Rightarrow> bool" where
  "rest_of a b e d N \<longleftrightarrow>
     (\<forall>n\<in>N. dec_ok a n \<and> as_begin d \<le> as_begin n \<and> as_end n \<le> as_end d \<and> \<not> overlaps b e n)
     \<and> (\<forall>n\<in>N. \<forall>n'\<in>N. n \<noteq> n' \<longrightarrow> apart n n')
     \<and> (\<forall>c t. decodes a N c t \<longleftrightarrow> decodes a {d} c t \<and> \<not> in_area a b e c)"

definition cleared :: "as_id \<Rightarrow> t_addr \<Rightarrow> t_addr \<Rightarrow> decoder \<Rightarrow> 'z mem_scheme \<Rightarrow> 'z mem_scheme \<Rightarrow> bool" where
  "cleared a b e d s s' \<longleftrightarrow> (\<forall>c. connected c s' =
     (if in_area a b e c \<and> in_area a (as_begin d) (as_end d) c then None else connected c s))"

lemma decodes_Un: "decodes a (D \<union> E) c t \<longleftrightarrow> decodes a D c t \<or> decodes a E c t"
  by (auto simp: decodes_def)

lemma in_area_overlap:
  "in_area a (as_begin d) (as_end d) c \<Longrightarrow> in_area a b e c \<Longrightarrow> overlaps b e d"
  by (cases c) (auto simp: overlaps_def)

lemma decodes_split: "d \<in> D \<Longrightarrow> decodes a D c t \<longleftrightarrow> decodes a (D - {d}) c t \<or> decodes a {d} c t"
  by (auto simp: decodes_def)

lemma decodes_apart:
  assumes "map_ok a D s" "d \<in> D" "decodes a (D - {d}) c t"
  shows "\<not> in_area a (as_begin d) (as_end d) c"
proof
  assume *: "in_area a (as_begin d) (as_end d) c"
  obtain d' where d': "d' \<in> D" "d' \<noteq> d" "in_area a (as_begin d') (as_end d') c"
    using assms(3) by (auto simp: decodes_def)
  then have "overlaps (as_begin d) (as_end d) d'" using * by (intro in_area_overlap)
  then show False using assms(1,2) d' by (auto simp: map_ok_def)
qed

lemma rest_outside:
  assumes "d \<in> D" "rest_of a b e d N" "\<not> in_area a b e c"
  shows "decodes a (D - {d} \<union> N) c t \<longleftrightarrow> decodes a D c t"
  using assms by (simp add: decodes_Un decodes_split [OF assms(1)] rest_of_def)

lemma overlaps_mono:
  "as_begin d \<le> b \<Longrightarrow> e \<le> as_end d \<Longrightarrow> apart d x \<Longrightarrow> \<not> overlaps b e x"
  by (auto simp: overlaps_def)

lemma overlaps_sym: "overlaps (as_begin d) (as_end d) x \<longleftrightarrow> overlaps (as_begin x) (as_end x) d"
  by (auto simp: overlaps_def)

lemma map_ok_replace:
  assumes "map_ok a D s" "d \<in> D" "rest_of a b e d N" "cleared a b e d s s'"
  shows "map_ok a (D - {d} \<union> N) s'"
  unfolding map_ok_def
proof (intro conjI ballI impI allI)
  have ap: "apart n x" if "n \<in> N" "x \<in> D - {d}" for n x
  proof (rule overlaps_mono [of d])
    show "as_begin d \<le> as_begin n" "as_end n \<le> as_end d" using assms(3) that by (simp_all add: rest_of_def)
    show "apart d x" using assms(1,2) that by (auto simp: map_ok_def)
  qed
  have ap': "apart x n" if "n \<in> N" "x \<in> D - {d}" for n x
    using ap [OF that] overlaps_sym [of n x] by simp
  fix x y assume "x \<in> D - {d} \<union> N" "y \<in> D - {d} \<union> N" "x \<noteq> y"
  then show "apart x y"
    using assms(1,3) ap ap' by (auto simp: map_ok_def rest_of_def)
next
  fix c t assume c: "in_space a c"
  have m: "connected c s = Some t \<longleftrightarrow> decodes a D c t" using assms(1) c by (simp add: map_ok_def)
  have "decodes a {d} c t \<Longrightarrow> in_area a (as_begin d) (as_end d) c" by (auto simp: decodes_def)
  then show "connected c s' = Some t \<longleftrightarrow> decodes a (D - {d} \<union> N) c t"
    using assms(3,4) m decodes_apart [OF assms(1,2)] decodes_split [OF assms(2)]
    by (auto simp: cleared_def rest_of_def decodes_Un)
qed (use assms(1,3) in \<open>auto simp: map_ok_def rest_of_def\<close>)

definition shrunk :: "t_addr \<Rightarrow> t_addr \<Rightarrow> decoder \<Rightarrow> decoder" where
  "shrunk b e d = (let d = (if as_begin d < b then d\<lparr>as_end := b - 1\<rparr> else d) in
     if e < as_end d then d\<lparr>chip_begin := chip_begin d + (e - as_begin d + 1), as_begin := e + 1\<rparr> else d)"

lemma shrink_out_of_eq:
  "shrink_out_of a b e d s = (as_end (shrunk b e d) < as_begin (shrunk b e d), shrunk b e d,
     undecode_cells a (nat (min e (as_end d) - max b (as_begin d) + 1)) (max b (as_begin d)) s)"
  by (simp add: shrink_out_of_def shrunk_def Let_def max_def)

lemma in_area_both: "in_area a b e c \<and> in_area a b' e' c \<longleftrightarrow> in_area a (max b b') (min e e') c"
  by (cases c) auto

lemma cleared_undecode:
  assumes "overlaps b e d" "b \<le> e" "as_begin d \<le> as_end d"
  shows "cleared a b e d s (undecode_cells a (nat (min e (as_end d) - max b (as_begin d) + 1)) (max b (as_begin d)) s)"
proof -
  have "int (nat (min e (as_end d) - max b (as_begin d) + 1)) = min e (as_end d) - max b (as_begin d) + 1"
    using assms by (simp add: overlaps_def min_def max_def)
  then show ?thesis by (simp add: cleared_def connected_undecode_cells in_area_both)
qed

lemma shrunk_cases:
  assumes "overlaps b e d" "b \<le> e" "\<not> fully_covered_by b e d" "\<not> covers b e d"
  obtains (low) "as_begin d < b" "as_end d \<le> e" "b \<le> as_end d" "shrunk b e d = d\<lparr>as_end := b - 1\<rparr>"
  | (high) "b \<le> as_begin d" "e < as_end d" "as_begin d \<le> e"
      "shrunk b e d = d\<lparr>chip_begin := chip_begin d + (e - as_begin d + 1), as_begin := e + 1\<rparr>"
proof (cases "as_begin d < b")
  case True
  then have "as_end d \<le> e" using assms(4) by (simp add: covers_def)
  then show ?thesis using True assms(1,2) by (intro low) (simp_all add: shrunk_def overlaps_def)
next
  case False
  then have "e < as_end d" using assms(3) by (simp add: fully_covered_by_def)
  then show ?thesis using False assms(1) by (intro high) (simp_all add: shrunk_def overlaps_def)
qed

lemma shrunk_rest:
  assumes "dec_ok a d" "overlaps b e d" "b \<le> e" "\<not> fully_covered_by b e d" "\<not> covers b e d"
  shows "rest_of a b e d {shrunk b e d} \<and> as_begin (shrunk b e d) \<le> as_end (shrunk b e d)
    \<and> d_id (shrunk b e d) = d_id d"
  using assms(2-5)
proof (cases rule: shrunk_cases)
  case low
  have "chip_place a (d\<lparr>as_end := b - 1\<rparr>) c = chip_place a d c" for c
    by (cases c) (simp_all split: option.split)
  moreover have "in_area a (as_begin d) (b - 1) c \<longleftrightarrow> in_area a (as_begin d) (as_end d) c \<and> \<not> in_area a b e c" for c
    using low by (cases c) auto
  ultimately have "decodes a {shrunk b e d} c t \<longleftrightarrow> decodes a {d} c t \<and> \<not> in_area a b e c" for c t
    by (auto simp: decodes_def low)
  then show ?thesis using low assms(1)
    by (auto simp: rest_of_def dec_ok_def overlaps_def split: option.splits)
next
  case high
  have "chip_place a (shrunk b e d) c = chip_place a d c" for c
    by (cases c) (simp_all add: high split: option.split)
  moreover have "in_area a (e + 1) (as_end d) c \<longleftrightarrow> in_area a (as_begin d) (as_end d) c \<and> \<not> in_area a b e c" for c
    using high by (cases c) auto
  ultimately have "decodes a {shrunk b e d} c t \<longleftrightarrow> decodes a {d} c t \<and> \<not> in_area a b e c" for c t
    by (auto simp: decodes_def high(4))
  then show ?thesis using high assms(1)
    by (auto simp: rest_of_def dec_ok_def overlaps_def split: option.splits)
qed

definition tail_dec :: "nat \<Rightarrow> t_addr \<Rightarrow> decoder \<Rightarrow> decoder" where
  "tail_dec n e d = new_decoder n (memchip d) (e + 1) (as_end d) (chip_begin d + (e - as_begin d) + 1)"

lemma split_rest:
  assumes "dec_ok a d" "b \<le> e" "covers b e d" "n \<noteq> d_id d"
  shows "rest_of a b e d {d\<lparr>as_end := b - 1\<rparr>, (tail_dec n e d)\<lparr>activated := f\<rparr>}
    \<and> can_activate a (tail_dec n e d)"
proof -
  let ?h = "d\<lparr>as_end := b - 1\<rparr>" and ?t = "(tail_dec n e d)\<lparr>activated := f\<rparr>"
  have f: "as_begin d < b" "e < as_end d" using assms(3) by (simp_all add: covers_def)
  have c: "chip_place a ?h c = chip_place a d c" "chip_place a ?t c = chip_place a d c" for c
    by (cases c; auto simp: tail_dec_def new_decoder_def split: option.split)+
  have "in_area a (as_begin ?h) (as_end ?h) c \<or> in_area a (as_begin ?t) (as_end ?t) c
      \<longleftrightarrow> in_area a (as_begin d) (as_end d) c \<and> \<not> in_area a b e c" for c
    using assms(2) f by (cases c) (auto simp: tail_dec_def new_decoder_def)
  then have "decodes a {?h, ?t} c t \<longleftrightarrow> decodes a {d} c t \<and> \<not> in_area a b e c" for c t
    unfolding decodes_def by (simp only: c bex_simps simp_thms) blast
  moreover have "dec_ok a ?t" using assms(1,2) f
    by (auto simp: dec_ok_def tail_dec_def new_decoder_def split: option.splits)
  moreover have "dec_ok a ?h" using assms(1,2) f by (auto simp: dec_ok_def split: option.splits)
  ultimately have "rest_of a b e d {?h, ?t}" using assms(2) f
    by (auto simp: rest_of_def tail_dec_def new_decoder_def overlaps_def)
  moreover have "can_activate a (tail_dec n e d)" using assms(1,2) f
    by (auto simp: can_activate_def dec_ok_def tail_dec_def new_decoder_def split: option.splits)
  ultimately show ?thesis by blast
qed

lemma removed_rest:
  "fully_covered_by b e d \<Longrightarrow> rest_of a b e d {}"
  unfolding rest_of_def decodes_def fully_covered_by_def
  by (auto elim!: in_area.elims)

subsection \<open>The loop over the decoders\<close>

abbreviation "dec_items ds \<equiv> Items (decoders ds)"

definition others :: "decs \<Rightarrow> nat \<Rightarrow> decoder set" where
  "others ds skip = {d \<in> set (dec_items ds). d_id d \<noteq> skip}"

definition list_ok :: "decs \<Rightarrow> bool" where
  "list_ok ds \<longleftrightarrow> cl_list_ok (decoders ds) \<and> distinct (map d_id (dec_items ds))
     \<and> (\<forall>d \<in> set (dec_items ds). d_id d < next_dec ds)"

definition hits :: "nat \<Rightarrow> t_addr \<Rightarrow> t_addr \<Rightarrow> decs \<Rightarrow> nat" where
  "hits skip b e ds = length (filter (\<lambda>d. d_id d \<noteq> skip \<and> overlaps b e d) (dec_items ds))"

definition scanned :: "nat \<Rightarrow> t_addr \<Rightarrow> t_addr \<Rightarrow> nat \<Rightarrow> decs \<Rightarrow> bool" where
  "scanned skip b e i ds \<longleftrightarrow> (\<forall>d \<in> set (take i (dec_items ds)). d_id d \<noteq> skip \<longrightarrow> \<not> overlaps b e d)"

definition area_inv :: "as_id \<Rightarrow> nat \<Rightarrow> t_addr \<Rightarrow> t_addr \<Rightarrow> nat \<Rightarrow> decs \<Rightarrow> 'z mem_scheme \<Rightarrow> bool" where
  "area_inv a skip b e i ds s \<longleftrightarrow> list_ok ds \<and> map_ok a (others ds skip) s \<and> scanned skip b e i ds
     \<and> length (dec_items ds) + hits skip b e ds \<le> nat max_list_size \<and> skip < next_dec ds \<and> i \<le> length (dec_items ds)
     \<and> (\<forall>d \<in> set (dec_items ds). d_id d = skip \<longrightarrow> as_begin d = b \<and> as_end d = e)"

text \<open>What one round keeps: the decoding outside of the area, other spaces, and the decoder skipped.\<close>

definition follows :: "as_id \<Rightarrow> nat \<Rightarrow> t_addr \<Rightarrow> t_addr \<Rightarrow> decs \<Rightarrow> 'z mem_scheme \<Rightarrow> decs \<Rightarrow> 'z mem_scheme \<Rightarrow> bool" where
  "follows a skip b e ds s ds' s' \<longleftrightarrow> find_dec skip ds' = find_dec skip ds
     \<and> (\<forall>c t. \<not> in_area a b e c \<longrightarrow> decodes a (others ds' skip) c t = decodes a (others ds skip) c t)
     \<and> (\<forall>c. \<not> in_space a c \<longrightarrow> connected c s' = connected c s)"

lemma follows_refl: "follows a skip b e ds s ds s"
  by (simp add: follows_def)

lemma follows_trans: "follows a skip b e ds s ds' s' \<Longrightarrow> follows a skip b e ds' s' ds'' s'' \<Longrightarrow> follows a skip b e ds s ds'' s''"
  by (simp add: follows_def)

lemma others_mid:
  assumes "dec_items ds = xs @ d # ys" "d_id d \<noteq> skip" "distinct (map d_id (dec_items ds))"
  shows "d \<in> others ds skip" "others ds skip - {d} = {x \<in> set xs \<union> set ys. d_id x \<noteq> skip}"
  using assms by (auto simp: others_def)

lemma ids_mid:
  assumes "dec_items ds = xs @ d # ys" "distinct (map d_id (dec_items ds))"
  shows "\<forall>x \<in> set xs \<union> set ys. d_id x \<noteq> d_id d"
  using assms by (auto simp: image_iff)

lemma put_dec_mid:
  assumes "dec_items ds = xs @ d # ys" "distinct (map d_id (dec_items ds))" "d_id d' = d_id d"
  shows "dec_items (put_dec d' ds) = xs @ d' # ys"
proof -
  have "map (\<lambda>x. if d_id x = d_id d then d' else x) zs = zs" if "set zs \<subseteq> set xs \<union> set ys" for zs
    using ids_mid [OF assms(1,2)] that by (induction zs) auto
  then show ?thesis using assms(1,3) by (simp add: put_dec_def)
qed

lemma drop_dec_mid:
  assumes "dec_items ds = xs @ d # ys" "distinct (map d_id (dec_items ds))"
  shows "dec_items (drop_dec (d_id d) ds) = xs @ ys"
proof -
  have "remove_first P (xs @ d # ys) = xs @ ys" if "\<forall>x \<in> set xs. \<not> P x" "P d" for P :: "decoder \<Rightarrow> bool"
    using that by (induction xs) auto
  from this [of "\<lambda>x. d_id x = d_id d"] show ?thesis
    using assms(1) ids_mid [OF assms] by (simp add: drop_dec_def)
qed

lemma cleared_spaces:
  "cleared a b e d s s' \<Longrightarrow> \<not> in_space a c \<Longrightarrow> connected c s' = connected c s"
  by (cases c) (auto simp: cleared_def)

text \<open>One round replaces the decoder at the index by what is left of it.\<close>

lemma round_replace:
  assumes inv: "area_inv a skip b e i ds s" and d: "dec_items ds = xs @ d # ys" "length xs = i" "d_id d \<noteq> skip"
    and over: "overlaps b e d" and rest: "rest_of a b e d N" and c: "cleared a b e d s s'"
    and ds': "dec_items ds' = xs' @ ys'" "length xs' = i'" "set xs' \<subseteq> set xs \<union> N" "set (xs' @ ys') = set xs \<union> N \<union> set ys"
    and ok: "list_ok ds'" "next_dec ds \<le> next_dec ds'" "\<forall>n \<in> N. d_id n \<noteq> skip"
    and n: "length (dec_items ds') + hits skip b e ds' \<le> nat max_list_size"
    and f: "find_dec skip ds' = find_dec skip ds"
  shows "area_inv a skip b e i' ds' s' \<and> follows a skip b e ds s ds' s'"
proof -
  have dist: "distinct (map d_id (dec_items ds))" using inv by (simp add: area_inv_def list_ok_def)
  note o = others_mid [OF d(1,3) dist]
  have o': "others ds' skip = others ds skip - {d} \<union> N"
    unfolding o(2) using ds'(4) ok(3) by (auto simp: others_def ds'(1))
  have m: "map_ok a (others ds skip) s" using inv by (simp add: area_inv_def)
  have "map_ok a (others ds' skip) s'" unfolding o' by (rule map_ok_replace [OF m o(1) rest c])
  moreover have "scanned skip b e i' ds'"
    unfolding scanned_def ds'(1) using ds'(2,3) rest inv d(1,2)
    by (auto simp: rest_of_def area_inv_def scanned_def)
  moreover have "follows a skip b e ds s ds' s'"
    unfolding follows_def o' using rest_outside [OF o(1) rest] cleared_spaces [OF c] f by blast
  moreover have "\<forall>d \<in> set (dec_items ds'). d_id d = skip \<longrightarrow> as_begin d = b \<and> as_end d = e"
    using inv d(1) ok(3) ds'(1,4) by (auto simp: area_inv_def)
  ultimately show ?thesis using inv ok n ds'(1,2) by (simp add: area_inv_def)
qed

lemma area_end: "length (dec_items ds) \<le> i \<Longrightarrow> undecode_area a skip b e (int i) ds s = Some (ds, s)"
  by (simp add: undecode_area.simps lcount_def)

lemma area_next:
  assumes "area_step a skip b e (int i) ds s = Some (int j, None, ds', s')" "i < length (dec_items ds)"
  shows "undecode_area a skip b e (int i) ds s = undecode_area a skip b e (int j) ds' s'"
  using assms by (subst undecode_area.simps) (simp add: lcount_def)

lemma step_pass:
  assumes "d = dec_items ds ! i" "d_id d = skip \<or> \<not> overlaps b e d \<and> as_begin d \<le> as_end d" "b \<le> e"
  shows "area_step a skip b e (int i) ds s = Some (int (Suc i), None, ds, s)"
  using assms by (auto simp: area_step_def Let_def fully_covered_by_def covers_def is_in_def overlaps_def)

lemma undecode_noop:
  assumes "\<forall>d \<in> others ds skip. \<not> overlaps b e d \<and> as_begin d \<le> as_end d" "b \<le> e"
  shows "undecode_area a skip b e (int i) ds s = Some (ds, s)"
proof (induction "length (dec_items ds) - i" arbitrary: i)
  case 0
  then show ?case by (intro area_end) simp
next
  case (Suc n)
  then have i: "i < length (dec_items ds)" by simp
  let ?d = "dec_items ds ! i"
  have "d_id ?d = skip \<or> \<not> overlaps b e ?d \<and> as_begin ?d \<le> as_end ?d"
    using assms(1) i by (auto simp: others_def)
  note area_next [OF step_pass [OF refl this assms(2)] i]
  also have "undecode_area a skip b e (int (Suc i)) ds s = Some (ds, s)" using Suc by (intro Suc(1)) simp
  finally show ?case .
qed

lemma hits_mid:
  assumes "dec_items ds = xs @ d # ys" "dec_items ds' = zs" "d_id d \<noteq> skip" "overlaps b e d"
    "mset zs = mset xs + mset ns + mset ys" "\<forall>n \<in> set ns. \<not> overlaps b e n"
  shows "Suc (hits skip b e ds') = hits skip b e ds"
proof -
  have f: "length (filter P zs) = length (filter P xs) + length (filter P ns) + length (filter P ys)" for P
    using assms(5) by (metis (no_types) filter_append length_append mset_append mset_filter size_mset add.assoc)
  have "filter (\<lambda>d. d_id d \<noteq> skip \<and> overlaps b e d) ns = []" using assms(6) by (auto simp: filter_empty_conv)
  then show ?thesis using assms(1-4) f by (simp add: hits_def)
qed

definition smaller :: "nat \<Rightarrow> t_addr \<Rightarrow> t_addr \<Rightarrow> nat \<Rightarrow> decs \<Rightarrow> nat \<Rightarrow> decs \<Rightarrow> bool" where
  "smaller skip b e i' ds' i ds \<longleftrightarrow>
     length (dec_items ds') - i' + hits skip b e ds' < length (dec_items ds) - i + hits skip b e ds"

lemma round_pass:
  assumes inv: "area_inv a skip b e i ds s" and i: "i < length (dec_items ds)" and "b \<le> e"
    and d: "d = dec_items ds ! i" "d_id d = skip \<or> \<not> overlaps b e d"
  shows "undecode_area a skip b e (int i) ds s = undecode_area a skip b e (int (Suc i)) ds s
    \<and> area_inv a skip b e (Suc i) ds s \<and> smaller skip b e (Suc i) ds i ds"
proof -
  have "d_id d \<noteq> skip \<Longrightarrow> as_begin d \<le> as_end d"
    using inv d(1) i by (auto simp: area_inv_def map_ok_def others_def dec_ok_def)
  then have p: "d_id d = skip \<or> \<not> overlaps b e d \<and> as_begin d \<le> as_end d" using d(2) by blast
  have "area_inv a skip b e (Suc i) ds s"
    using inv i d by (auto simp: area_inv_def scanned_def take_Suc_conv_app_nth)
  moreover have "smaller skip b e (Suc i) ds i ds" using i by (simp add: smaller_def)
  ultimately show ?thesis by (intro conjI area_next [OF step_pass [OF d(1) p assms(3)] i])
qed

lemma find_dec_mid:
  assumes "dec_items ds = xs @ d # ys" "dec_items ds' = zs" "d_id d \<noteq> skip"
    "filter (\<lambda>x. d_id x = skip) zs = filter (\<lambda>x. d_id x = skip) (xs @ ys)"
  shows "find_dec skip ds' = find_dec skip ds"
proof -
  have "find P l = (case filter P l of [] \<Rightarrow> None | x # _ \<Rightarrow> Some x)" for P :: "decoder \<Rightarrow> bool" and l
    by (induction l) auto
  then show ?thesis using assms by (simp add: find_dec_def)
qed

lemma round_remove:
  assumes inv: "area_inv a skip b e i ds s" and d: "dec_items ds = xs @ d # ys" "length xs = i"
    and o: "d_id d \<noteq> skip" "overlaps b e d" "b \<le> e" "fully_covered_by b e d"
  shows "\<exists>ds' s'. area_step a skip b e (int i) ds s = Some (int i, None, ds', s')
    \<and> area_inv a skip b e i ds' s' \<and> follows a skip b e ds s ds' s' \<and> smaller skip b e i ds' i ds"
proof -
  have dist: "distinct (map d_id (dec_items ds))" using inv by (simp add: area_inv_def list_ok_def)
  define ds' where "ds' = drop_dec (d_id d) ds"
  define s' where "s' = undecode_cells a (nat (as_end d - as_begin d + 1)) (as_begin d) s"
  have it: "dec_items ds' = xs @ ys" unfolding ds'_def by (rule drop_dec_mid [OF d(1) dist])
  have nd: "next_dec ds' = next_dec ds" "cl_list_ok (decoders ds')"
    using inv it d(1) by (simp_all add: ds'_def drop_dec_def area_inv_def list_ok_def cl_list_ok_def lcount_def)
  have ab: "as_begin d \<le> as_end d" using inv d o(1) by (auto simp: area_inv_def map_ok_def others_def dec_ok_def)
  then have c: "cleared a b e d s s'"
    using o(4) by (auto simp: cleared_def s'_def connected_undecode_cells in_area_both fully_covered_by_def max_def min_def)
  have h: "Suc (hits skip b e ds') = hits skip b e ds"
    by (rule hits_mid [OF d(1) it o(1,2), where ns = "[]"]) simp_all
  have "area_step a skip b e (int i) ds s = Some (int i, None, ds', s')"
    using d o(1,4) by (simp add: area_step_def Let_def delete_decoder_def ds'_def s'_def nth_append)
  moreover have "area_inv a skip b e i ds' s' \<and> follows a skip b e ds s ds' s'"
  proof (rule round_replace [OF inv d o(1,2) removed_rest [OF o(4)] c it d(2)])
    show "list_ok ds'" using inv d(1) dist nd it by (auto simp: list_ok_def area_inv_def)
    show "length (dec_items ds') + hits skip b e ds' \<le> nat max_list_size"
      using inv d(1) it h by (simp add: area_inv_def)
    show "find_dec skip ds' = find_dec skip ds" by (rule find_dec_mid [OF d(1) it o(1)]) simp
  qed (use nd in auto)
  moreover have "smaller skip b e i ds' i ds" using h it d by (simp add: smaller_def)
  ultimately show ?thesis by blast
qed

lemma round_shrink:
  assumes inv: "area_inv a skip b e i ds s" and d: "dec_items ds = xs @ d # ys" "length xs = i"
    and o: "d_id d \<noteq> skip" "overlaps b e d" "b \<le> e" "\<not> fully_covered_by b e d" "\<not> covers b e d"
  shows "\<exists>ds' s'. area_step a skip b e (int i) ds s = Some (int (Suc i), None, ds', s')
    \<and> area_inv a skip b e (Suc i) ds' s' \<and> follows a skip b e ds s ds' s' \<and> smaller skip b e (Suc i) ds' i ds"
proof -
  have dist: "distinct (map d_id (dec_items ds))" using inv by (simp add: area_inv_def list_ok_def)
  have dok: "dec_ok a d" using inv d o(1) by (auto simp: area_inv_def map_ok_def others_def)
  note sh = shrunk_rest [OF dok o(2-5)]
  define d' where "d' = shrunk b e d"
  define ds' where "ds' = put_dec d' ds"
  define s' where "s' = undecode_cells a (nat (min e (as_end d) - max b (as_begin d) + 1)) (max b (as_begin d)) s"
  have dd: "rest_of a b e d {d'}" "as_begin d' \<le> as_end d'" "d_id d' = d_id d" using sh by (simp_all add: d'_def)
  have it: "dec_items ds' = xs @ d' # ys" unfolding ds'_def by (rule put_dec_mid [OF d(1) dist dd(3)])
  have nd: "next_dec ds' = next_dec ds" "cl_list_ok (decoders ds')"
    using inv it d(1) by (simp_all add: ds'_def put_dec_def area_inv_def list_ok_def cl_list_ok_def lcount_def)
  have c: "cleared a b e d s s'"
    unfolding s'_def by (rule cleared_undecode) (use o dok in \<open>simp_all add: dec_ok_def\<close>)
  have no: "\<not> overlaps b e d'" using dd(1) by (simp add: rest_of_def)
  have h: "Suc (hits skip b e ds') = hits skip b e ds"
    by (rule hits_mid [OF d(1) it o(1,2), where ns = "[d']"]) (use no in simp_all)
  have "is_in b e d" using o by (auto simp: is_in_def overlaps_def fully_covered_by_def covers_def)
  then have "area_step a skip b e (int i) ds s = Some (int (Suc i), None, ds', s')"
    using d o(1,4,5) dd(2)
    by (simp add: area_step_def Let_def shrink_out_of_eq ds'_def s'_def nth_append d'_def)
  moreover have "area_inv a skip b e (Suc i) ds' s' \<and> follows a skip b e ds s ds' s'"
  proof (rule round_replace [OF inv d o(1,2) dd(1) c, where xs' = "xs @ [d']" and ys' = ys])
    show "list_ok ds'" using inv d(1) dist nd it dd(3) by (auto simp: list_ok_def area_inv_def)
    show "length (dec_items ds') + hits skip b e ds' \<le> nat max_list_size"
      using inv d(1) it h by (simp add: area_inv_def)
    show "find_dec skip ds' = find_dec skip ds"
      by (rule find_dec_mid [OF d(1) it o(1)]) (use o(1) dd(3) in simp)
  qed (use nd it d dd o in auto)
  moreover have "smaller skip b e (Suc i) ds' i ds" using h it d by (simp add: smaller_def)
  ultimately show ?thesis by blast
qed

lemma find_mid: "\<forall>x \<in> set u. \<not> P x \<Longrightarrow> P y \<Longrightarrow> find P (u @ y # v) = Some y"
  by (induction u) auto

lemma take_insert_subset: "set (take k (take p l @ x # drop p l)) \<subseteq> insert x (set (take k l))"
proof (induction l arbitrary: k p)
  case Nil
  show ?case by (cases k) auto
next
  case (Cons y l)
  show ?case
  proof (cases k; cases p)
    fix k' assume "k = Suc k'" "p = 0"
    then show ?thesis using set_take_subset_set_take [of k' k "y # l"] by auto
  next
    fix k' p' assume "k = Suc k'" "p = Suc p'"
    then show ?thesis using Cons [of k' p'] by auto
  qed simp_all
qed

lemma mset_insert: "mset (take p l @ z # drop p l) = add_mset z (mset l)"
proof -
  have "mset (take p l) + mset (drop p l) = mset l" by (metis append_take_drop_id mset_append)
  then show ?thesis by simp
qed

lemma set_insert: "set (take p l @ z # drop p l) = insert z (set l)"
  using arg_cong [OF mset_insert [of p l z], of set_mset] by simp

lemma length_insert: "length (take p l @ z # drop p l) = Suc (length l)"
  using arg_cong [OF mset_insert [of p l z], of size] by simp

lemma distinct_insert:
  assumes "distinct (map f l)" "f z \<notin> f ` set l"
  shows "distinct (map f (take p l @ z # drop p l))"
proof -
  have "mset (map f (take p l @ z # drop p l)) = mset (map f (z # l))"
    unfolding mset_map mset_insert by simp
  then show ?thesis using assms mset_eq_imp_distinct_iff by fastforce
qed

lemma map_ok_apart:
  "map_ok a D s \<Longrightarrow> d \<in> D \<Longrightarrow> x \<in> D \<Longrightarrow> (x \<noteq> d \<longrightarrow> apart d x) \<and> dec_ok a x"
  by (auto simp: map_ok_def)

lemma split_cleared:
  assumes m: "map_ok a D s" "d \<in> D" and o: "b \<le> e" "covers b e d" and ch: "memchip d = Some ch"
  shows "cleared a b e d s (decode_cells a ch (nat (as_end d - e)) (e + 1) (chip_begin d + (e - as_begin d) + 1)
    (undecode_cells a (nat (as_end d - b + 1)) b s))" (is "cleared a b e d s ?s'")
  unfolding cleared_def
proof
  fix c
  have f: "as_begin d < b" "e < as_end d" "int (nat (as_end d - e)) = as_end d - e"
    "int (nat (as_end d - b + 1)) = as_end d - b + 1" using o by (simp_all add: covers_def)
  have fit: "chip_begin d + (e - as_begin d) + 1 + int (nat (as_end d - e)) \<le> chip_size ch"
    using m ch f by (auto simp: map_ok_def dec_ok_def split: option.splits)
  have s': "connected c ?s' = (if in_area a (e + 1) (as_end d) c
     then (case c of Cell k i \<Rightarrow> Some (Chip_slot (chip_name ch)
         (chip_begin d + (e - as_begin d) + 1 + (i + as_start a - (e + 1)))) | _ \<Rightarrow> None)
     else if in_area a b (as_end d) c then None else connected c s)"
    unfolding connected_decode_cells [OF fit] f(3) by (simp add: connected_undecode_cells f(4))
  show "connected c ?s' = (if in_area a b e c \<and> in_area a (as_begin d) (as_end d) c then None else connected c s)"
  proof (cases "in_area a (e + 1) (as_end d) c")
    case True
    then obtain i where c: "c = Cell a i" by (cases c) auto
    have "decodes a D c (Chip_slot (chip_name ch) (chip_begin d + (i + as_start a - as_begin d)))"
      and n: "in_space a c" "\<not> in_area a b e c"
      using True m(2) ch f(1,2) o(1) by (auto simp: decodes_def c intro!: bexI [of _ d])
    then have "connected c s = Some (Chip_slot (chip_name ch) (chip_begin d + (i + as_start a - as_begin d)))"
      using m(1) n(1) by (simp add: map_ok_def)
    then show ?thesis using n(2) True unfolding s' by (simp add: c)
  next
    case False
    then show ?thesis unfolding s' using f o(1) by (cases c) auto
  qed
qed

lemma list_ok_put:
  assumes "list_ok ds" "dec_items ds = xs @ d # ys" "d_id h = d_id d"
  shows "list_ok (put_dec h ds)" "dec_items (put_dec h ds) = xs @ h # ys" "next_dec (put_dec h ds) = next_dec ds"
proof -
  have dist: "distinct (map d_id (dec_items ds))" using assms(1) by (simp add: list_ok_def)
  show it: "dec_items (put_dec h ds) = xs @ h # ys" by (rule put_dec_mid [OF assms(2) dist assms(3)])
  show n: "next_dec (put_dec h ds) = next_dec ds" by (simp add: put_dec_def)
  have "cl_list_ok (decoders (put_dec h ds))"
    using assms it by (simp add: put_dec_def list_ok_def cl_list_ok_def lcount_def)
  then show "list_ok (put_dec h ds)" using assms dist n by (auto simp: list_ok_def it)
qed

lemma add_new:
  assumes ok: "list_ok ds" and nd: "d_id nd = next_dec ds" and room: "lcount (decoders ds) < max_list_size"
  shows "\<exists>p ds1. add_dec nd ds = Some ds1 \<and> find_dec (next_dec ds) ds1 = Some nd
    \<and> dec_items ds1 = take p (dec_items ds) @ nd # drop p (dec_items ds)
    \<and> list_ok ds1 \<and> next_dec ds1 = Suc (next_dec ds)"
proof -
  let ?l = "dec_items ds"
  obtain p ds1 where ds1: "add_dec nd ds = Some ds1" "cl_list_ok (decoders ds1)"
    "next_dec ds1 = Suc (next_dec ds)" "dec_items ds1 = take p ?l @ nd # drop p ?l"
    using add_dec_total [of ds nd] ok room by (auto simp: list_ok_def)
  have lt: "\<forall>x \<in> set ?l. d_id x < next_dec ds" and dist: "distinct (map d_id ?l)"
    using ok by (simp_all add: list_ok_def)
  have "next_dec ds \<notin> d_id ` set ?l" using lt by auto
  then have "distinct (map d_id (take p ?l @ nd # drop p ?l))" using nd by (intro distinct_insert [OF dist]) simp
  moreover have "\<forall>x \<in> set (take p ?l @ nd # drop p ?l). d_id x < Suc (next_dec ds)"
    unfolding set_insert using lt nd by auto
  ultimately have "list_ok ds1" unfolding list_ok_def ds1(3,4) using ds1(2) by blast
  moreover have "find_dec (next_dec ds) ds1 = Some nd"
    unfolding find_dec_def ds1(4)
  proof (rule find_mid)
    show "\<forall>x \<in> set (take p ?l). d_id x \<noteq> next_dec ds" using lt set_take_subset [of p ?l] by fastforce
  qed (rule nd)
  ultimately show ?thesis using ds1 by blast
qed

lemma add_tail:
  assumes ok: "list_ok ds" and d: "dec_items ds = xs @ d # ys" and h: "d_id h = d_id d"
    and nd: "d_id nd = next_dec ds" "d_id na = next_dec ds" and room: "lcount (decoders ds) < max_list_size"
  shows "\<exists>p ds1. add_dec nd (put_dec h ds) = Some ds1 \<and> find_dec (next_dec ds) ds1 = Some nd
    \<and> dec_items ds1 = take p (xs @ h # ys) @ nd # drop p (xs @ h # ys)
    \<and> dec_items (put_dec na ds1) = take p (xs @ h # ys) @ na # drop p (xs @ h # ys)
    \<and> list_ok (put_dec na ds1) \<and> next_dec (put_dec na ds1) = Suc (next_dec ds)"
proof -
  note put = list_ok_put [OF ok d h]
  have "lcount (decoders (put_dec h ds)) < max_list_size" using room put(2) d by (simp add: lcount_def)
  then obtain p ds1 where ds1: "add_dec nd (put_dec h ds) = Some ds1" "find_dec (next_dec ds) ds1 = Some nd"
    "dec_items ds1 = take p (xs @ h # ys) @ nd # drop p (xs @ h # ys)" "list_ok ds1" "next_dec ds1 = Suc (next_dec ds)"
    using add_new [OF put(1), of nd] nd(1) unfolding put(2,3) by blast
  then show ?thesis using list_ok_put [OF ds1(4,3), of na] nd by auto
qed

lemma filter_insert: "\<not> P z \<Longrightarrow> filter P (take p l @ z # drop p l) = filter P l"
  by (metis append_take_drop_id filter.simps(2) filter_append)

lemma find_dec_insert:
  assumes "dec_items ds = xs @ d # ys" "d_id d \<noteq> skip" "d_id h = d_id d" "d_id na \<noteq> skip"
    "dec_items ds' = take p (xs @ h # ys) @ na # drop p (xs @ h # ys)"
  shows "find_dec skip ds' = find_dec skip ds"
proof (rule find_dec_mid [OF assms(1) assms(5) assms(2)])
  have "\<not> d_id na = skip" using assms(4) .
  from filter_insert [of "\<lambda>x. d_id x = skip", OF this]
  show "filter (\<lambda>x. d_id x = skip) (take p (xs @ h # ys) @ na # drop p (xs @ h # ys))
      = filter (\<lambda>x. d_id x = skip) (xs @ ys)"
    using assms(2,3) by (simp only: filter_append filter.simps if_False)
qed

lemma round_split:
  assumes inv: "area_inv a skip b e i ds s" and d: "dec_items ds = xs @ d # ys" "length xs = i"
    and o: "d_id d \<noteq> skip" "b \<le> e" "covers b e d"
  shows "\<exists>nd ds1 s1 ds' s'. area_step a skip b e (int i) ds s = Some (int (Suc i), Some nd, ds1, s1)
    \<and> undecode_area a (d_id nd) (as_begin nd) (as_end nd) 0 ds1 s1 = Some (ds1, s1)
    \<and> finish_activate a (d_id nd) ds1 s1 = Some (ds', s')
    \<and> area_inv a skip b e (Suc i) ds' s' \<and> follows a skip b e ds s ds' s' \<and> smaller skip b e (Suc i) ds' i ds"
proof -
  define n where "n = next_dec ds"
  define h where "h = d\<lparr>as_end := b - 1\<rparr>"
  define nd where "nd = tail_dec n e d"
  define na where "na = nd\<lparr>activated := True\<rparr>"
  have lk: "list_ok ds" and skip: "skip < n" "\<forall>x \<in> set (dec_items ds). d_id x < n"
    and area: "\<forall>x \<in> set (dec_items ds). d_id x = skip \<longrightarrow> as_begin x = b \<and> as_end x = e"
    and m: "map_ok a (others ds skip) s" using inv by (simp_all add: area_inv_def n_def list_ok_def)
  have dist: "\<forall>x \<in> set xs \<union> set ys. d_id x \<noteq> d_id d" using ids_mid [OF d(1)] lk by (simp add: list_ok_def)
  have mem: "d \<in> others ds skip" and dn: "n \<noteq> d_id d" using d o(1) skip(2) by (auto simp: others_def)
  have dok: "dec_ok a d" using m mem by (simp add: map_ok_def)
  have ov: "overlaps b e d" "as_begin d < b" "e < as_end d" using o by (auto simp: covers_def overlaps_def)
  obtain ch where ch: "memchip d = Some ch" using dok by (auto simp: dec_ok_def split: option.splits)
  note sr = split_rest [OF dok o(2,3) dn, where f = True, folded h_def nd_def na_def]
  have ndf: "d_id nd = n" "d_id na = n" "as_begin nd = e + 1" "as_end nd = as_end d" "memchip nd = Some ch"
    "chip_begin nd = chip_begin d + (e - as_begin d) + 1" "d_id h = d_id d" "as_begin h = as_begin d" "as_end h = b - 1"
    using ch by (simp_all add: na_def nd_def tail_dec_def new_decoder_def h_def)
  have room: "0 < hits skip b e ds" "lcount (decoders ds) < max_list_size"
    using inv d o(1) ov(1) by (simp_all add: hits_def area_inv_def lcount_def max_list_size_def)
  obtain p ds1 where ds1: "add_dec nd (put_dec h ds) = Some ds1" "find_dec n ds1 = Some nd"
    "dec_items ds1 = take p (xs @ h # ys) @ nd # drop p (xs @ h # ys)"
    "dec_items (put_dec na ds1) = take p (xs @ h # ys) @ na # drop p (xs @ h # ys)"
    "list_ok (put_dec na ds1)" "next_dec (put_dec na ds1) = Suc n"
    using add_tail [OF lk d(1) ndf(7) _ _ room(2), of nd na] ndf(1,2) unfolding n_def [symmetric] by blast
  define s1 where "s1 = undecode_cells a (nat (as_end d - b + 1)) b s"
  define s' where "s' = decode_cells a ch (nat (as_end d - e)) (e + 1) (chip_begin d + (e - as_begin d) + 1) s1"
  have "area_step a skip b e (int i) ds s = Some (int (Suc i), Some nd, ds1, s1)"
    using d o ov sr ds1(1)
    by (simp add: area_step_def Let_def nth_append fully_covered_by_def split_decoder_def shrink_out_of_def
        s1_def h_def nd_def tail_dec_def n_def [symmetric] covers_def)
  moreover have "undecode_area a n (as_begin nd) (as_end nd) 0 ds1 s1 = Some (ds1, s1)"
  proof -
    have "\<not> overlaps (e + 1) (as_end d) x \<and> as_begin x \<le> as_end x" if x: "x \<in> others ds1 n" for x
    proof -
      have "set (dec_items ds1) = insert nd (set (xs @ h # ys))"
        unfolding ds1(3) set_insert by simp
      then consider "x = h" | "x \<in> set (dec_items ds)" "x \<noteq> d"
        using x d(1) ndf(1) dist by (auto simp: others_def)
      then show ?thesis
      proof cases
        case 1
        then show ?thesis using ndf ov o(2) by (simp add: overlaps_def)
      next
        case 2
        show ?thesis
        proof (cases "d_id x = skip")
          case True
          then have "as_begin x = b" "as_end x = e" using area 2(1) by blast+
          then show ?thesis using o(2) by (simp add: overlaps_def)
        next
          case False
          then have "x \<in> others ds skip" using 2(1) by (simp add: others_def)
          then have "apart d x" "dec_ok a x" using map_ok_apart [OF m mem] 2(2) by simp_all
          moreover have "as_begin d \<le> e + 1" using ov(2) o(2) by simp
          ultimately show ?thesis using overlaps_mono [of d "e + 1" "as_end d" x] by (simp add: dec_ok_def)
        qed
      qed
    qed
    then show ?thesis using undecode_noop [of ds1 n "e + 1" "as_end d" a 0 s1] ndf ov by simp
  qed
  moreover have "finish_activate a n ds1 s1 = Some (put_dec na ds1, s')"
    using ds1(2) ndf by (simp add: finish_activate_def s'_def na_def)
  moreover have it: "set (dec_items (put_dec na ds1)) = set xs \<union> {h, na} \<union> set ys"
    "length (dec_items (put_dec na ds1)) = Suc (length (dec_items ds))"
    "Suc (hits skip b e (put_dec na ds1)) = hits skip b e ds"
  proof -
    show "set (dec_items (put_dec na ds1)) = set xs \<union> {h, na} \<union> set ys" unfolding ds1(4) set_insert by auto
    show "length (dec_items (put_dec na ds1)) = Suc (length (dec_items ds))"
      unfolding ds1(4) length_insert d(1) by simp
    show "Suc (hits skip b e (put_dec na ds1)) = hits skip b e ds"
    proof (rule hits_mid [OF d(1) ds1(4) o(1) ov(1), where ns = "[h, na]"])
      show "\<forall>n \<in> set [h, na]. \<not> overlaps b e n" using sr by (simp add: rest_of_def)
    qed (simp only: mset_insert, simp)
  qed
  moreover have "area_inv a skip b e (Suc i) (put_dec na ds1) s' \<and> follows a skip b e ds s (put_dec na ds1) s'"
  proof (rule round_replace [OF inv d o(1) ov(1) conjunct1 [OF sr]])
    let ?l = "dec_items (put_dec na ds1)"
    show "cleared a b e d s s'" unfolding s'_def s1_def by (rule split_cleared [OF m mem o(2,3) ch])
    show "?l = take (Suc i) ?l @ drop (Suc i) ?l" by simp
    show "length (take (Suc i) ?l) = Suc i" using it(2) d by simp
    show "set (take (Suc i) ?l) \<subseteq> set xs \<union> {h, na}"
      using take_insert_subset [of "Suc i" p "xs @ h # ys" na] d(2) unfolding ds1(4) by auto
    show "set (take (Suc i) ?l @ drop (Suc i) ?l) = set xs \<union> {h, na} \<union> set ys" using it(1) by simp
    show "list_ok (put_dec na ds1)" "next_dec ds \<le> next_dec (put_dec na ds1)"
      using ds1(5,6) by (simp_all add: n_def)
    show "\<forall>n \<in> {h, na}. d_id n \<noteq> skip" using ndf skip(1) o(1) by auto
    show "length ?l + hits skip b e (put_dec na ds1) \<le> nat max_list_size"
      using inv it(2,3) by (simp add: area_inv_def)
    show "find_dec skip (put_dec na ds1) = find_dec skip ds"
      by (rule find_dec_insert [OF d(1) o(1) ndf(7) _ ds1(4)]) (use ndf skip(1) in simp)
  qed
  moreover have "smaller skip b e (Suc i) (put_dec na ds1) i ds"
    using it room(1) d by (simp add: smaller_def)
  ultimately show ?thesis using ndf(1) by blast
qed

lemma area_round:
  assumes inv: "area_inv a skip b e i ds s" and i: "i < length (dec_items ds)" and "b \<le> e"
  shows "\<exists>j ds' s'. undecode_area a skip b e (int i) ds s = undecode_area a skip b e (int j) ds' s'
    \<and> area_inv a skip b e j ds' s' \<and> follows a skip b e ds s ds' s' \<and> smaller skip b e j ds' i ds"
proof -
  define d where "d = dec_items ds ! i"
  have d: "dec_items ds = take i (dec_items ds) @ d # drop (Suc i) (dec_items ds)" "length (take i (dec_items ds)) = i"
    using i by (simp_all add: d_def id_take_nth_drop)
  consider "d_id d = skip \<or> \<not> overlaps b e d"
    | "d_id d \<noteq> skip" "overlaps b e d" "fully_covered_by b e d"
    | "d_id d \<noteq> skip" "overlaps b e d" "\<not> fully_covered_by b e d" "covers b e d"
    | "d_id d \<noteq> skip" "overlaps b e d" "\<not> fully_covered_by b e d" "\<not> covers b e d" by blast
  then show ?thesis
  proof cases
    case 1
    then show ?thesis using round_pass [OF inv i assms(3) d_def] follows_refl by blast
  next
    case 2
    then show ?thesis using round_remove [OF inv d 2(1,2) assms(3) 2(3)] area_next [OF _ i] by metis
  next
    case 3
    obtain nd ds1 s1 ds' s' where r: "area_step a skip b e (int i) ds s = Some (int (Suc i), Some nd, ds1, s1)"
      "undecode_area a (d_id nd) (as_begin nd) (as_end nd) 0 ds1 s1 = Some (ds1, s1)"
      "finish_activate a (d_id nd) ds1 s1 = Some (ds', s')"
      "area_inv a skip b e (Suc i) ds' s'" "follows a skip b e ds s ds' s'" "smaller skip b e (Suc i) ds' i ds"
      using round_split [OF inv d 3(1) assms(3) 3(4)] by blast
    have "undecode_area a skip b e (int i) ds s = undecode_area a skip b e (int (Suc i)) ds' s'"
      using i r(1-3) by (subst undecode_area.simps) (simp add: lcount_def)
    then show ?thesis using r(4-6) by blast
  next
    case 4
    then show ?thesis using round_shrink [OF inv d 4(1,2) assms(3) 4(3,4)] area_next [OF _ i] by metis
  qed
qed

lemma undecode_area_ok:
  assumes "area_inv a skip b e i ds s" "b \<le> e"
  shows "\<exists>ds' s'. undecode_area a skip b e (int i) ds s = Some (ds', s')
    \<and> area_inv a skip b e (length (dec_items ds')) ds' s' \<and> follows a skip b e ds s ds' s'"
  using assms(1)
proof (induction "length (dec_items ds) - i + hits skip b e ds" arbitrary: i ds s rule: less_induct)
  case less
  show ?case
  proof (cases "i < length (dec_items ds)")
    case True
    obtain j ds1 s1 where r: "undecode_area a skip b e (int i) ds s = undecode_area a skip b e (int j) ds1 s1"
      "area_inv a skip b e j ds1 s1" "follows a skip b e ds s ds1 s1" "smaller skip b e j ds1 i ds"
      using area_round [OF less.prems True assms(2)] by blast
    from less.hyps [OF r(4) [unfolded smaller_def] r(2)] r(1,3) follows_trans show ?thesis by metis
  next
    case False
    then have "i = length (dec_items ds)" using less.prems by (simp add: area_inv_def)
    with less.prems area_end [of ds i a skip b e s] show ?thesis
      using follows_refl [of a skip b e ds s] by (intro exI [of _ ds] exI [of _ s]) simp
  qed
qed

subsection \<open>Activation\<close>

definition decoded :: "as_id \<Rightarrow> decs \<Rightarrow> cell \<Rightarrow> mslot option" where
  "decoded a ds c = (case find (\<lambda>d. in_area a (as_begin d) (as_end d) c) (dec_items ds) of
     None \<Rightarrow> None | Some d \<Rightarrow> chip_place a d c)"

text \<open>
  The decoders of a space are in order: they have different areas inside of the space and fit their
  chips, and every cell is connected as they say.
\<close>

definition space_ok :: "as_id \<Rightarrow> decs \<Rightarrow> 'z mem_scheme \<Rightarrow> bool" where
  "space_ok a ds s \<longleftrightarrow> list_ok ds \<and> (\<forall>d \<in> set (dec_items ds). dec_ok a d)
     \<and> (\<forall>d \<in> set (dec_items ds). \<forall>d' \<in> set (dec_items ds). d \<noteq> d' \<longrightarrow> apart d d')
     \<and> (\<forall>c. in_space a c \<longrightarrow> connected c s = decoded a ds c)"

lemma decodes_decoded:
  assumes "\<forall>d \<in> set (dec_items ds). \<forall>d' \<in> set (dec_items ds). d \<noteq> d' \<longrightarrow> apart d d'"
  shows "decodes a (set (dec_items ds)) c t \<longleftrightarrow> decoded a ds c = Some t"
proof (cases "find (\<lambda>d. in_area a (as_begin d) (as_end d) c) (dec_items ds)")
  case None
  then have "decoded a ds c = None" by (simp add: decoded_def)
  then show ?thesis using None by (auto simp: decodes_def find_None_iff)
next
  case (Some d)
  then have d: "d \<in> set (dec_items ds)" "in_area a (as_begin d) (as_end d) c" by (auto simp: find_Some_iff)
  have "x = d" if x: "x \<in> set (dec_items ds)" "in_area a (as_begin x) (as_end x) c" for x
  proof (rule ccontr)
    assume "x \<noteq> d"
    then have "apart d x" using bspec [OF bspec [OF assms d(1)] x(1)] by simp
    then show False using in_area_overlap [OF x(2) d(2)] by simp
  qed
  then have "decodes a (set (dec_items ds)) c t \<longleftrightarrow> chip_place a d c = Some t"
    unfolding decodes_def using d by metis
  then show ?thesis using Some by (simp add: decoded_def)
qed

lemma some_ext: "x = y \<longleftrightarrow> (\<forall>t. x = Some t \<longleftrightarrow> y = Some t)"
  by (cases x; cases y) auto

lemma space_ok_map: "space_ok a ds s \<longleftrightarrow> list_ok ds \<and> map_ok a (set (dec_items ds)) s"
proof -
  show ?thesis
  proof (cases "\<forall>d \<in> set (dec_items ds). \<forall>d' \<in> set (dec_items ds). d \<noteq> d' \<longrightarrow> apart d d'")
    case True
    have "connected c s = decoded a ds c \<longleftrightarrow> (\<forall>t. connected c s = Some t \<longleftrightarrow> decodes a (set (dec_items ds)) c t)" for c
      unfolding decodes_decoded [OF True] by (rule some_ext)
    then show ?thesis using True by (auto simp: space_ok_def map_ok_def)
  next
    case False
    then show ?thesis unfolding space_ok_def map_ok_def by blast
  qed
qed

lemma map_ok_insert:
  assumes m: "map_ok a D s" "dec_ok a n" and no: "\<forall>d \<in> D. apart n d"
    and c: "\<And>c. connected c s' = (if in_area a (as_begin n) (as_end n) c then chip_place a n c else connected c s)"
  shows "map_ok a (insert n D) s'"
  unfolding map_ok_def
proof (intro conjI ballI impI allI)
  fix c t assume sp: "in_space a c"
  show "connected c s' = Some t \<longleftrightarrow> decodes a (insert n D) c t"
  proof (cases "in_area a (as_begin n) (as_end n) c")
    case True
    then have "\<not> decodes a D c t" using no in_area_overlap [OF _ True] by (auto simp: decodes_def)
    then show ?thesis using c True decodes_Un [of a "{n}" D] by (auto simp: decodes_def)
  next
    case False
    then have "decodes a (insert n D) c t \<longleftrightarrow> decodes a D c t" by (auto simp: decodes_def)
    then show ?thesis using c False m(1) sp by (simp add: map_ok_def)
  qed
next
  fix x y assume "x \<in> insert n D" "y \<in> insert n D" "x \<noteq> y"
  moreover have "apart z n" if "z \<in> D" for z using no that overlaps_sym [of z n] by simp
  moreover have "apart x y" if "x \<in> D" "y \<in> D" using map_ok_apart [OF m(1) that] \<open>x \<noteq> y\<close> by simp
  ultimately show "apart x y" using no by auto
qed (use m in \<open>auto simp: map_ok_def\<close>)

lemma map_ok_unchanged:
  assumes "map_ok a D s" "map_ok a D' s'" "\<And>t. decodes a D c t = decodes a D' c t"
    "\<not> in_space a c \<Longrightarrow> connected c s = connected c s'"
  shows "connected c s = connected c s'"
proof (cases "in_space a c")
  case True
  then have "connected c s = Some t \<longleftrightarrow> connected c s' = Some t" for t using assms(1-3) by (simp add: map_ok_def)
  then show ?thesis using some_ext [of "connected c s" "connected c s'"] by blast
qed (rule assms(4))

lemma connect_start:
  assumes ok: "space_ok a ds s" and room: "2 * lcount (decoders ds) < max_list_size"
    and nd': "d_id nd = next_dec ds" "as_begin nd = b" "as_end nd = e"
  shows "\<exists>ds0. add_dec nd ds = Some ds0 \<and> find_dec (next_dec ds) ds0 = Some nd
    \<and> others ds0 (next_dec ds) = set (dec_items ds) \<and> area_inv a (next_dec ds) b e 0 ds0 s"
proof -
  define n where "n = next_dec ds"
  have nd: "d_id nd = n" "as_begin nd = b" "as_end nd = e" using nd' by (simp_all add: n_def)
  have lk: "list_ok ds" and m: "map_ok a (set (dec_items ds)) s" using ok by (simp_all add: space_ok_map)
  have room': "lcount (decoders ds) < max_list_size" using room by (simp add: lcount_def)
  obtain p ds0 where ds0: "add_dec nd ds = Some ds0" "dec_items ds0 = take p (dec_items ds) @ nd # drop p (dec_items ds)"
    "list_ok ds0" "next_dec ds0 = Suc n" "find_dec n ds0 = Some nd"
    using add_new [OF lk nd(1) [unfolded n_def] room'] by (auto simp: n_def)
  have o: "others ds0 n = set (dec_items ds)"
    using lk nd(1) unfolding others_def ds0(2) set_insert by (auto simp: list_ok_def n_def)
  have inv: "area_inv a n b e 0 ds0 s"
  proof -
    have "hits n b e ds0 \<le> length (dec_items ds)"
      using filter_insert [of "\<lambda>d. d_id d \<noteq> n \<and> overlaps b e d" nd p "dec_items ds"] nd(1)
      by (simp add: hits_def ds0(2) del: filter_append)
    moreover have "length (dec_items ds0) = Suc (length (dec_items ds))" unfolding ds0(2) length_insert ..
    moreover have "\<forall>d \<in> set (dec_items ds0). d_id d = n \<longrightarrow> as_begin d = b \<and> as_end d = e"
      using lk nd unfolding ds0(2) set_insert by (auto simp: list_ok_def n_def)
    ultimately show ?thesis using ds0 m room by (simp add: area_inv_def o scanned_def lcount_def)
  qed
  show ?thesis using ds0(1,5) o inv unfolding n_def [symmetric] by blast
qed

text \<open>
  C30 Connecting an area of an address space to a part of a chip returns, and overrides
  the connections of exactly that area: each of its cells is connected to the slot of the chip at its
  offset, all other cells of all spaces stay connected as they were, and the decoders, removed,
  shrunk and split as needed, again have separate areas and describe every connection.
\<close>

theorem connect_overrides:
  assumes ok: "space_ok a ds s" and area: "as_start a \<le> b" "b \<le> e" "e < as_start a + as_size a"
    and fits: "0 \<le> cb" "cb + (e - b) < chip_size ch" and room: "2 * lcount (decoders ds) < max_list_size"
  shows "\<exists>ds' s'. connect a ch b e cb ds s = Some (True, ds', s') \<and> space_ok a ds' s'
     \<and> (\<forall>c. connected c s' = (if in_area a b e c
          then (case c of Cell k i \<Rightarrow> Some (Chip_slot (chip_name ch) (cb + (i + as_start a - b))) | _ \<Rightarrow> None)
          else connected c s))"
proof -
  define n where "n = next_dec ds"
  define nd where "nd = new_decoder n (Some ch) b e cb"
  define na where "na = nd\<lparr>activated := True\<rparr>"
  have ndf: "d_id nd = n" "as_begin nd = b" "as_end nd = e" "memchip nd = Some ch" "chip_begin nd = cb"
    "d_id na = n" "can_activate a nd" "dec_ok a na"
    using area fits by (simp_all add: nd_def na_def new_decoder_def can_activate_def dec_ok_def)
  have m: "map_ok a (set (dec_items ds)) s" using ok by (simp add: space_ok_map)
  obtain ds0 where ds0: "add_dec nd ds = Some ds0" "find_dec n ds0 = Some nd" and o: "others ds0 n = set (dec_items ds)"
    and inv: "area_inv a n b e 0 ds0 s"
    using connect_start [OF ok room ndf(1-3) [unfolded n_def]] unfolding n_def by blast
  obtain ds1 s1 where r: "undecode_area a n b e (int 0) ds0 s = Some (ds1, s1)"
    "area_inv a n b e (length (dec_items ds1)) ds1 s1" "follows a n b e ds0 s ds1 s1"
    using undecode_area_ok [OF inv area(2)] by blast
  have f1: "find_dec n ds1 = Some nd" using r(3) ds0(2) by (simp add: follows_def)
  then obtain xs ys where it: "dec_items ds1 = xs @ nd # ys"
    using split_list [of nd "dec_items ds1"] by (auto simp: find_dec_def find_Some_iff)
  have lk1: "list_ok ds1" and m1: "map_ok a (others ds1 n) s1"
    and no: "\<forall>d \<in> others ds1 n. \<not> overlaps b e d"
    using r(2) by (simp_all add: area_inv_def scanned_def others_def)
  have o1: "others ds1 n = set xs \<union> set ys"
    using ids_mid [OF it] lk1 ndf(1) by (auto simp: others_def it list_ok_def)
  define s2 where "s2 = decode_cells a ch (nat (e - b + 1)) b cb s1"
  note put = list_ok_put [OF lk1 it, of na]
  have "finish_activate a n ds1 s1 = Some (put_dec na ds1, s2)"
    using f1 ndf by (simp add: finish_activate_def s2_def na_def)
  then have "connect a ch b e cb ds s = Some (True, put_dec na ds1, s2)"
    using ds0 r(1) ndf by (simp add: connect_def n_def [symmetric] nd_def [symmetric] activate_dec_def)
  moreover have c2: "connected c s2 = (if in_area a b e c then chip_place a na c else connected c s1)" for c
  proof -
    have "cb + int (nat (e - b + 1)) \<le> chip_size ch" "int (nat (e - b + 1)) = e - b + 1" using area fits by simp_all
    then show ?thesis unfolding s2_def
      by (cases c) (simp_all add: connected_decode_cells na_def nd_def new_decoder_def)
  qed
  moreover have "space_ok a (put_dec na ds1) s2"
  proof -
    have "set (dec_items (put_dec na ds1)) = insert na (others ds1 n)" using put(2) ndf o1 by auto
    moreover have "map_ok a (insert na (others ds1 n)) s2"
      by (rule map_ok_insert [OF m1 ndf(8)]) (use no c2 ndf in \<open>simp_all add: na_def\<close>)
    ultimately show ?thesis using put(1) ndf by (simp add: space_ok_map)
  qed
  moreover have "connected c s1 = connected c s" if "\<not> in_area a b e c" for c
    using r(3) m m1 that o map_ok_unchanged [of a "others ds1 n" s1 "set (dec_items ds)" s c]
    by (auto simp: follows_def)
  ultimately show ?thesis by (intro exI [of _ "put_dec na ds1"] exI [of _ s2])
    (simp add: na_def nd_def new_decoder_def split: cell.split)
qed

subsection \<open>The memory of the core\<close>

lemma chip_set_same [simp]:
  "slot (chip_set ch i v s) = slot s" "ops (chip_set ch i v s) = ops s" "cflags (chip_set ch i v s) = cflags s"
  by (simp_all add: chip_set_def store_def split: option.split)

lemma chip_set_byte: "(\<And>d. byte (heap s d)) \<Longrightarrow> byte (heap (chip_set ch i v s) d)"
  by (simp add: chip_set_def store_def split: option.split)

lemma chip_fill_same:
  "slot (chip_fill ch ini n i s) = slot s \<and> ops (chip_fill ch ini n i s) = ops s
     \<and> cflags (chip_fill ch ini n i s) = cflags s"
  by (induction n arbitrary: i s) (auto simp: next_rand_def Let_def split: prod.split if_splits)

lemma chip_fill_byte: "(\<And>d. byte (heap s d)) \<Longrightarrow> byte (heap (chip_fill ch ini n i s) d)"
proof (induction n arbitrary: i s)
  case (Suc n)
  have "byte (heap (chip_set ch i v (s\<lparr>rand_pos := p\<rparr>)) d)" "byte (heap (chip_set ch i v s) d)" for v p d
    using Suc.prems by (simp_all add: chip_set_byte)
  then show ?case using Suc.IH by (simp add: next_rand_def Let_def)
qed simp

lemma decode_cells_same:
  assumes "\<And>c. in_area a x (x + int n - 1) c \<Longrightarrow> connected c s = None" "y + int n \<le> chip_size ch"
  shows "heap (decode_cells a ch n x y s) = heap s \<and> ops (decode_cells a ch n x y s) = ops s
    \<and> (\<forall>c. slot (decode_cells a ch n x y s) c = (if in_area a x (x + int n - 1) c
         then (case c of Cell k i \<Rightarrow> Chip_slot (chip_name ch) (y + (i + as_start a - x)) | _ \<Rightarrow> slot s c) else slot s c))"
  using assms
proof (induction n arbitrary: x y s)
  case (Suc n)
  define t where "t = snd (decode_cell a x ch y s)"
  have y: "get_slot ch y = Some (Chip_slot (chip_name ch) y)" using Suc.prems(2) by (simp add: get_slot_def)
  have t: "heap t = heap s" "ops t = ops s"
    "slot t = (if out_of_space a x then slot s
       else (slot s)(Cell a (x - as_start a) := Chip_slot (chip_name ch) y))"
  proof -
    have "cell_get_flag (Cell a (x - as_start a)) CELL_NON_DECODED s" if "\<not> out_of_space a x"
      using Suc.prems(1) [of "Cell a (x - as_start a)"] that
      by (auto simp: out_of_space_def connected_def split: if_splits)
    then show "heap t = heap s" "ops t = ops s"
      "slot t = (if out_of_space a x then slot s else (slot s)(Cell a (x - as_start a) := Chip_slot (chip_name ch) y))"
      by (simp_all add: t_def decode_cell_def Let_def un_decode_def decode_def y)
        (simp_all add: cell_set_flag_def)
  qed
  have "connected c t = None" if "in_area a (x + 1) (x + 1 + int n - 1) c" for c
    using that Suc.prems(1) [of c] y
    by (cases c) (auto simp: t_def decode_cell_def Let_def connected_decode connected_un_decode)
  moreover have "y + 1 + int n \<le> chip_size ch" using Suc.prems(2) by simp
  ultimately have ih: "heap (decode_cells a ch n (x + 1) (y + 1) t) = heap t \<and> ops (decode_cells a ch n (x + 1) (y + 1) t) = ops t
    \<and> (\<forall>c. slot (decode_cells a ch n (x + 1) (y + 1) t) c = (if in_area a (x + 1) (x + 1 + int n - 1) c
         then (case c of Cell k i \<Rightarrow> Chip_slot (chip_name ch) (y + 1 + (i + as_start a - (x + 1))) | _ \<Rightarrow> slot t c) else slot t c))"
    by (rule Suc.IH)
  have e: "decode_cells a ch (Suc n) x y s = decode_cells a ch n (x + 1) (y + 1) t" by (simp add: t_def)
  show ?case
    unfolding e in_area_Suc using ih t by (auto split: cell.split)
qed simp

lemma connect_empty:
  assumes "as_start a \<le> b" "b \<le> e" "e < as_start a + as_size a" "e - b < chip_size ch"
  shows "\<exists>ds'. connect a ch b e 0 empty_decs s = Some (True, ds', decode_cells a ch (nat (e - b + 1)) b 0 s)
    \<and> lcount (decoders ds') = 1"
proof -
  define nd where "nd = new_decoder 0 (Some ch) b e 0"
  define ds where "ds = empty_decs\<lparr>decoders := (decoders empty_decs)\<lparr>Items := [nd]\<rparr>, next_dec := 1\<rparr>"
  have "add_dec nd empty_decs = Some ds"
    by (simp add: add_dec_def sl_add_def sl_search_def search_loop.simps add_at_def lcount_def ds_def empty_decs_def)
  moreover have nd: "d_id nd = 0" "as_begin nd = b" "as_end nd = e" "memchip nd = Some ch" "chip_begin nd = 0"
    by (simp_all add: nd_def new_decoder_def)
  then have "find_dec 0 ds = Some nd" "can_activate a nd" "others ds 0 = {}"
    using assms by (simp_all add: find_dec_def ds_def can_activate_def others_def nd_def new_decoder_def)
  moreover have "undecode_area a 0 b e (int 0) ds s = Some (ds, s)"
    by (rule undecode_noop) (use calculation assms in simp_all)
  ultimately show ?thesis using nd
    by (simp add: connect_def activate_dec_def finish_activate_def empty_decs_def nd_def [symmetric])
      (simp add: put_dec_def ds_def lcount_def)
qed

type_synonym place_map = "(as_id \<times> chip \<times> t_addr \<times> t_addr) list"

definition layout :: "place_map \<Rightarrow> cell \<Rightarrow> mslot option" where
  "layout L c = (case find (\<lambda>(a, ch, b, e). in_area a b e c) L of None \<Rightarrow> None
     | Some (a, ch, b, e) \<Rightarrow> (case c of Cell k i \<Rightarrow> Some (Chip_slot (chip_name ch) (i + as_start a - b)) | _ \<Rightarrow> None))"

definition built :: "place_map \<Rightarrow> (as_id \<Rightarrow> decs) \<times> 'z mem_scheme \<Rightarrow> bool" where
  "built L m \<longleftrightarrow> (\<forall>d. byte (heap (snd m) d)) \<and> ops (snd m) = (\<lambda>_. [])
     \<and> (\<forall>c. slot (snd m) c = (case layout L c of None \<Rightarrow> Priv_slot c | Some t \<Rightarrow> t))
     \<and> (\<forall>c. connected c (snd m) = layout L c)
     \<and> (\<forall>a \<in> fst ` set L. space_ok a (fst m a) (snd m)) \<and> (\<forall>a. a \<notin> fst ` set L \<longrightarrow> fst m a = empty_decs)"

lemma layout_other: "a \<notin> fst ` set L \<Longrightarrow> in_space a c \<Longrightarrow> layout L c = None"
proof (induction L)
  case (Cons x L)
  then show ?case by (cases x; cases c) (auto simp: layout_def)
qed (simp add: layout_def)

lemma space_ok_cong:
  "space_ok a ds s \<Longrightarrow> (\<And>c. in_space a c \<Longrightarrow> connected c s' = connected c s) \<Longrightarrow> space_ok a ds s'"
  by (simp add: space_ok_def)

lemma place_built:
  assumes m: "built L (dm, s)" "a \<notin> fst ` set L"
    and area: "as_start a \<le> b" "b \<le> e" "e < as_start a + as_size a" "e - b < chip_size ch"
  shows "\<exists>m'. place a ch ini b e 0 (dm, s) = Some m' \<and> built ((a, ch, b, e) # L) m'"
proof -
  define t where "t = chip_init ch ini s"
  have t: "slot t = slot s" "ops t = ops s" "cflags t = cflags s" "byte (heap t d)" for d
    using m(1) chip_fill_same [of ch ini "nat (chip_size ch)" 0 s]
    by (simp_all add: t_def chip_init_def chip_fill_byte built_def)
  then have ct: "connected c t = connected c s" for c by (simp add: connected_def cell_get_flag_def)
  have dm: "dm a = empty_decs" using m by (simp add: built_def)
  have free: "connected c t = None" if "in_space a c" for c
    using m layout_other [OF m(2) that] by (simp add: ct built_def)
  have "space_ok a empty_decs t"
    using free by (auto simp: space_ok_def list_ok_def empty_decs_def cl_list_ok_def lcount_def max_list_size_def decoded_def)
  moreover have "0 \<le> (0 :: int)" "0 + (e - b) < chip_size ch" "2 * lcount (decoders empty_decs) < max_list_size"
    using area(4) by (simp_all add: empty_decs_def lcount_def max_list_size_def)
  ultimately obtain ds' s' where
    c: "connect a ch b e 0 empty_decs t = Some (True, ds', s')" "space_ok a ds' s'"
    "\<forall>c. connected c s' = (if in_area a b e c
       then (case c of Cell k i \<Rightarrow> Some (Chip_slot (chip_name ch) (i + as_start a - b)) | _ \<Rightarrow> None) else connected c t)"
    using connect_overrides [of a empty_decs t b e 0 ch] area(1-3) unfolding add_0 by blast
  have s': "s' = decode_cells a ch (nat (e - b + 1)) b 0 t"
    using connect_empty [OF area, of t] c(1) by auto
  have n: "b + int (nat (e - b + 1)) - 1 = e" "0 + int (nat (e - b + 1)) \<le> chip_size ch" using area by simp_all
  have "connected c t = None" if "in_area a b e c" for c using that by (cases c) (auto intro: free)
  note dcs = decode_cells_same [of a b "nat (e - b + 1)", unfolded n, OF this n(2)]
  have same: "heap s' = heap t" "ops s' = ops t"
    "\<forall>c. slot s' c = (if in_area a b e c then (case c of Cell k i \<Rightarrow> Chip_slot (chip_name ch) (i + as_start a - b)
       | _ \<Rightarrow> slot t c) else slot t c)"
    using dcs unfolding s' add_0 by blast+
  have lay: "layout ((a, ch, b, e) # L) c = (if in_area a b e c
      then (case c of Cell k i \<Rightarrow> Some (Chip_slot (chip_name ch) (i + as_start a - b)) | _ \<Rightarrow> None) else layout L c)" for c
    by (simp add: layout_def)
  have "built ((a, ch, b, e) # L) (dm(a := ds'), s')"
    unfolding built_def
  proof (intro conjI allI ballI impI)
    fix k assume k: "k \<in> fst ` set ((a, ch, b, e) # L)"
    have "space_ok k (dm k) s'" if "k \<noteq> a" "k \<in> fst ` set L"
    proof (rule space_ok_cong)
      show "space_ok k (dm k) s" using m(1) that by (auto simp: built_def)
      show "connected c s' = connected c s" if "in_space k c" for c
        using c(3) ct that \<open>k \<noteq> a\<close> by (cases c) auto
    qed
    then show "space_ok k (fst (dm(a := ds'), s') k) (snd (dm(a := ds'), s'))" using c(2) k by auto
  next
    fix c
    show "slot (snd (dm(a := ds'), s')) c = (case layout ((a, ch, b, e) # L) c of None \<Rightarrow> Priv_slot c | Some t \<Rightarrow> t)"
      using same(3) t(1) m(1) unfolding lay by (cases c) (auto simp: built_def)
  qed (use same t m(1) c(3) ct lay in \<open>simp_all add: built_def\<close>)
  then show ?thesis using c(1) dm by (simp add: place_def t_def)
qed

lemma place_fails:
  assumes "dm a = empty_decs" "\<not> can_activate a (new_decoder 0 (Some ch) b e cb)"
  shows "\<exists>ds. place a ch ini b e cb (dm, s) = Some (dm(a := ds), chip_init ch ini s)"
proof -
  define d where "d = new_decoder 0 (Some ch) b e cb"
  define ds where "ds = empty_decs\<lparr>decoders := (decoders empty_decs)\<lparr>Items := [d]\<rparr>, next_dec := 1\<rparr>"
  have "add_dec d empty_decs = Some ds"
    by (simp add: add_dec_def sl_add_def sl_search_def search_loop.simps add_at_def lcount_def ds_def empty_decs_def)
  moreover have "find_dec 0 ds = Some d" "\<not> can_activate a d" "next_dec empty_decs = 0"
    using assms(2) by (simp_all add: find_dec_def ds_def d_def new_decoder_def empty_decs_def)
  ultimately have "connect a ch b e cb empty_decs (chip_init ch ini s) = Some (False, ds, chip_init ch ini s)"
    by (simp add: connect_def activate_dec_def d_def [symmetric])
  then show ?thesis using assms(1) by (auto simp: place_def)
qed

lemmas place_next = place_built [of L "fst m" "snd m" for L m, unfolded prod.collapse]

lemma chip_init_same:
  "slot (chip_init ch ini s) = slot s" "ops (chip_init ch ini s) = ops s"
  "connected c (chip_init ch ini s) = connected c s"
  using chip_fill_same [of ch ini "nat (chip_size ch)" 0 s]
  by (simp_all add: chip_init_def connected_def cell_get_flag_def)

definition core_layout :: place_map where
  "core_layout = [(Sfr, sfr_chip, 0x80, 0xff), (Xram, xram_chip, 0, 0xffff), (Iram, iram_chip, 0, 0x7f),
     (Rom, rom_chip, 0, 0xffff)]"

lemmas chip_defs = rom_chip_def iram_chip_def xram_chip_def sfr_chip_def flash_chip_def sram_chip_def

lemma core_slots:
  assumes "built core_layout m"
  shows "slot (snd m) (Cell k i) =
      (if k = Rom \<and> 0 \<le> i \<and> i < 0x10000 then Chip_slot ''rom_chip'' i
       else if k = Iram \<and> 0 \<le> i \<and> i < 0x80 then Chip_slot ''iram_chip'' i
       else if k = Xram \<and> 0 \<le> i \<and> i < 0x10000 then Chip_slot ''xram_chip'' i
       else if k = Sfr \<and> 0 \<le> i \<and> i < 0x80 then Chip_slot ''sfr_chip'' i
       else Priv_slot (Cell k i))" and "slot (snd m) (Dummy k) = Priv_slot (Dummy k)"
proof -
  have l: "slot (snd m) c = (case layout core_layout c of None \<Rightarrow> Priv_slot c | Some t \<Rightarrow> t)" for c
    using assms by (simp add: built_def)
  show "slot (snd m) (Cell k i) =
      (if k = Rom \<and> 0 \<le> i \<and> i < 0x10000 then Chip_slot ''rom_chip'' i
       else if k = Iram \<and> 0 \<le> i \<and> i < 0x80 then Chip_slot ''iram_chip'' i
       else if k = Xram \<and> 0 \<le> i \<and> i < 0x10000 then Chip_slot ''xram_chip'' i
       else if k = Sfr \<and> 0 \<le> i \<and> i < 0x80 then Chip_slot ''sfr_chip'' i
       else Priv_slot (Cell k i))" unfolding l
    by (cases k) (auto simp: layout_def core_layout_def chip_defs)
  show "slot (snd m) (Dummy k) = Priv_slot (Dummy k)" unfolding l by (simp add: layout_def core_layout_def)
qed

lemma core_slots_inj:
  assumes "built core_layout m"
  shows "inj (slot (snd m))"
proof (rule injI)
  fix c d assume "slot (snd m) c = slot (snd m) d"
  then show "c = d" by (cases c; cases d) (simp_all add: core_slots [OF assms] split: if_splits)
qed

text \<open>
  C31 The memory the constructor of the core builds: the code space, the lower half of the internal
  memory, the data space and the special function registers are connected to their chips byte by byte.
  The area given for flash bank 0 and the one for the SRAM lie outside of their spaces, so these decoders
  are never activated: all flash banks, the SRAM and the upper half of the internal memory
  stay on storage of their own. Cells share no storage, all hold bytes, and none is watched.
\<close>

theorem memories_built:
  "\<exists>dm s'. make_memories51 s = Some (dm, s') \<and> mem_ok s' \<and> ops s' = (\<lambda>_. [])
     \<and> space_ok Rom (dm Rom) s' \<and> space_ok Iram (dm Iram) s' \<and> space_ok Xram (dm Xram) s' \<and> space_ok Sfr (dm Sfr) s'
     \<and> (\<forall>k i. slot s' (Cell k i) =
          (if k = Rom \<and> 0 \<le> i \<and> i < 0x10000 then Chip_slot ''rom_chip'' i
           else if k = Iram \<and> 0 \<le> i \<and> i < 0x80 then Chip_slot ''iram_chip'' i
           else if k = Xram \<and> 0 \<le> i \<and> i < 0x10000 then Chip_slot ''xram_chip'' i
           else if k = Sfr \<and> 0 \<le> i \<and> i < 0x80 then Chip_slot ''sfr_chip'' i
           else Priv_slot (Cell k i)))"
proof -
  have m0: "built [] (\<lambda>_. empty_decs, new_cells s)"
    by (simp add: built_def new_cells_def layout_def connected_def cell_get_flag_def)
  obtain m1 where m1: "place Rom rom_chip (-1) 0 0xffff 0 (\<lambda>_. empty_decs, new_cells s) = Some m1"
    "built [(Rom, rom_chip, 0, 0xffff)] m1" using place_next [OF m0, of Rom 0 "0xffff" rom_chip "-1"] by (auto simp: chip_defs)
  obtain m2 where m2: "place Iram iram_chip (-1) 0 0x7f 0 m1 = Some m2"
    "built [(Iram, iram_chip, 0, 0x7f), (Rom, rom_chip, 0, 0xffff)] m2"
    using place_next [OF m1(2), of Iram 0 "0x7f" iram_chip "-1"] by (auto simp: chip_defs)
  obtain m3 where m3: "place Xram xram_chip (-1) 0 0xffff 0 m2 = Some m3"
    "built [(Xram, xram_chip, 0, 0xffff), (Iram, iram_chip, 0, 0x7f), (Rom, rom_chip, 0, 0xffff)] m3"
    using place_next [OF m2(2), of Xram 0 "0xffff" xram_chip "-1"] by (auto simp: chip_defs)
  obtain m4 where m4: "place Sfr sfr_chip 0 0x80 0xff 0 m3 = Some m4" "built core_layout m4"
    using place_next [OF m3(2), of Sfr "0x80" "0xff" sfr_chip 0] by (auto simp: chip_defs core_layout_def)
  have fb: "fst m4 Flashbank0 = empty_decs" "fst m4 Sram = empty_decs"
    using m4(2) by (simp_all add: built_def core_layout_def)
  obtain ds5 where m5: "place Flashbank0 flash_chip (-1) 0x8000 0xffff 0 m4
      = Some ((fst m4)(Flashbank0 := ds5), chip_init flash_chip (-1) (snd m4))"
    using place_fails [of "fst m4" Flashbank0 flash_chip "0x8000" "0xffff" 0 "-1" "snd m4"] fb
    by (auto simp: can_activate_def new_decoder_def)
  obtain ds6 where m6: "place Sram sram_chip (-1) 0 0x2000 0 ((fst m4)(Flashbank0 := ds5), chip_init flash_chip (-1) (snd m4))
      = Some ((fst m4)(Flashbank0 := ds5, Sram := ds6), chip_init sram_chip (-1) (chip_init flash_chip (-1) (snd m4)))"
    using place_fails [of "(fst m4)(Flashbank0 := ds5)" Sram sram_chip 0 "0x2000" 0 "-1" "chip_init flash_chip (-1) (snd m4)"] fb
    by (auto simp: can_activate_def new_decoder_def)
  let ?dm = "(fst m4)(Flashbank0 := ds5, Sram := ds6)" and ?s = "chip_init sram_chip (-1) (chip_init flash_chip (-1) (snd m4))"
  have "make_memories51 s = Some (?dm, ?s)"
    using m1(1) m2(1) m3(1) m4(1) m5 m6 by (simp add: make_memories51_def)
  moreover have "mem_ok ?s"
    using m4(2) core_slots_inj [OF m4(2)]
    by (simp add: mem_ok_def chip_init_same built_def) (simp add: chip_init_def chip_fill_byte)
  moreover have sp: "space_ok a (?dm a) ?s" if "a \<in> {Rom, Iram, Xram, Sfr}" for a
  proof (rule space_ok_cong)
    show "space_ok a (?dm a) (snd m4)" using m4(2) that by (auto simp: built_def core_layout_def)
  qed (simp add: chip_init_same)
  moreover have "ops ?s = (\<lambda>_. [])" using m4(2) by (simp add: chip_init_same built_def)
  ultimately show ?thesis using core_slots(1) [OF m4(2)] sp [of Rom] sp [of Iram] sp [of Xram] sp [of Sfr]
    by (intro exI [of _ ?dm] exI [of _ ?s]) (simp add: chip_init_same)
qed

lemma new_space_ok: "space_ok a empty_decs (new_cells s)"
  by (auto simp: space_ok_def list_ok_def empty_decs_def cl_list_ok_def lcount_def max_list_size_def decoded_def
      new_cells_def connected_def cell_get_flag_def)

theorem connect_overrides_witness:
  "\<exists>ds1 s1 ds2 s2. connect Xram xram_chip 0 0xffff 0 empty_decs (new_cells blank_mem) = Some (True, ds1, s1)
     \<and> connect Xram eram_chip 0x10 0x1f 0 ds1 s1 = Some (True, ds2, s2)
     \<and> connected (Cell Xram 0x0f) s2 = Some (Chip_slot ''xram_chip'' 0x0f)
     \<and> connected (Cell Xram 0x10) s2 = Some (Chip_slot ''eram_chip'' 0)
     \<and> connected (Cell Xram 0x20) s2 = Some (Chip_slot ''xram_chip'' 0x20)"
proof -
  obtain ds1 s1 where 1: "connect Xram xram_chip 0 0xffff 0 empty_decs (new_cells blank_mem) = Some (True, ds1, s1)"
    "lcount (decoders ds1) = 1"
    using connect_empty [of Xram 0 "0xffff" xram_chip "new_cells blank_mem"] by (auto simp: xram_chip_def)
  have r: "2 * lcount (decoders empty_decs) < max_list_size" by (simp add: empty_decs_def lcount_def max_list_size_def)
  have ok1: "space_ok Xram ds1 s1" and c1: "\<forall>c. connected c s1 = (if in_area Xram 0 0xffff c
      then (case c of Cell k i \<Rightarrow> Some (Chip_slot (chip_name xram_chip) (0 + (i + as_start Xram - 0))) | _ \<Rightarrow> None)
      else connected c (new_cells blank_mem))"
    using connect_overrides [OF new_space_ok, of Xram 0 "0xffff" 0 xram_chip blank_mem] 1(1) r
    by (simp_all add: xram_chip_def)
  have "2 * lcount (decoders ds1) < max_list_size" using 1(2) by (simp add: max_list_size_def)
  from connect_overrides [OF ok1 _ _ _ _ _ this, of "0x10" "0x1f" 0 eram_chip] obtain ds2 s2 where
    "connect Xram eram_chip 0x10 0x1f 0 ds1 s1 = Some (True, ds2, s2)"
    "\<forall>c. connected c s2 = (if in_area Xram 0x10 0x1f c
      then (case c of Cell k i \<Rightarrow> Some (Chip_slot (chip_name eram_chip) (0 + (i + as_start Xram - 0x10))) | _ \<Rightarrow> None)
      else connected c s1)"
    by (auto simp: eram_chip_def)
  then show ?thesis using 1(1) c1
    by (intro exI [of _ ds1] exI [of _ s1] exI [of _ ds2] exI [of _ s2]) (simp add: xram_chip_def eram_chip_def)
qed

subsection \<open>Searching\<close>

lemma search_next_finds:
  "search_next cs get_at sz pat x = (f, y) \<Longrightarrow> x + int (length pat) \<le> sz \<Longrightarrow>
   (f \<longleftrightarrow> (\<exists>z. x \<le> z \<and> z + int (length pat) \<le> sz \<and> search_match cs get_at pat z))
   \<and> (f \<longrightarrow> search_match cs get_at pat y) \<and> (\<forall>z. x \<le> z \<and> z < y \<longrightarrow> \<not> search_match cs get_at pat z)"
proof -
  have "search_from cs get_at pat n x = (f, y) \<Longrightarrow>
     (f \<longleftrightarrow> (\<exists>z. x \<le> z \<and> z < x + int n \<and> search_match cs get_at pat z))
     \<and> (f \<longrightarrow> search_match cs get_at pat y) \<and> (\<forall>z. x \<le> z \<and> z < y \<longrightarrow> \<not> search_match cs get_at pat z)" for n
  proof (induction n arbitrary: x)
    case (Suc n)
    show ?case
    proof (cases "search_match cs get_at pat x")
      case False
      have le: "x \<le> z \<longleftrightarrow> z = x \<or> x + 1 \<le> z" for z by auto
      have "search_from cs get_at pat n (x + 1) = (f, y)" using Suc.prems False by simp
      from Suc.IH [OF this] False show ?thesis by (auto simp: le)
    qed (use Suc in auto)
  qed auto
  from this [of "nat (sz - int (length pat) - x + 1)"] show "search_next cs get_at sz pat x = (f, y) \<Longrightarrow>
    x + int (length pat) \<le> sz \<Longrightarrow> ?thesis"
    by (auto simp: search_next_def)
qed

end
