(* ===== verification/Spec2Isabelle.thy ===== *)
theory Spec2Isabelle
  imports ChipInvariant Timer51Facts Dma2530Facts Flash2530Facts Usart2530Facts
    RadioTxFacts RadioRegFacts LoaderFacts Family51Facts DecoderFacts
begin

text \<open>
  Verification of the microcontroller simulator \<open>ucsim\<close>, in the variant that simulates the CC2530: an
  8051 core with its memory map, timers, DMA, flash controller, USARTs and radio.

  \<^bold>\<open>The program.\<close> A controller \<open>cl_uc\<close> (\<open>sim.src/uc.cc\<close>) owns address spaces of memory cells
  (\<open>sim.src/mem.cc\<close>), hardware elements (\<open>cl_hw\<close>), interrupt sources and service levels, counters,
  breakpoints (\<open>sim.src/brk.cc\<close>) and the records of a stack tracker (\<open>sim.src/stack.cc\<close>). A cell carries
  a chain of operators: hardware callbacks and event breakpoints. The class \<open>cl_51core\<close>
  (\<open>s51.src/uc51.cc\<close>) adds the 8051: \<open>do_inst\<close> fetches, dispatches one of 256 instruction methods, ticks
  the elements, polls the interrupts and checks errors and events. An element sees the program through
  the reads and writes of the registers it watches, through ticks and resets, and through events its
  partners send it. The CC2530 elements use the data space in turn, so one access can run a chain of
  handlers.

  \<^bold>\<open>Conventions.\<close> A C++ integer is a mathematical integer, and a conversion to \<open>uchar\<close>, \<open>t_mem\<close> or
  \<open>signed char\<close> is written out (\<open>Prelude\<close>). An operation that can reach a failing assertion, an access
  outside of an array or a freed object returns an option, \<open>None\<close> standing for that end of the process;
  errors the simulator reports itself are values collected in the state, as in the source. The virtual
  methods of the elements are the fields of the record \<open>hwif\<close>, an argument of every operation that may
  call them; a call that returns by reference returns the value beside the state.

  \<^bold>\<open>Components and theories.\<close>
  \<^item> \<open>Prelude\<close>, \<open>Types\<close>: conversions, masks, the result predicate \<open>sat\<close>; address spaces, elements,
    registers, errors (\<open>stypes.h\<close>, \<open>regs51b.h\<close>).
  \<^item> \<open>Pobj\<close>: the collections \<open>cl_list\<close> and \<open>cl_sorted_list\<close> of \<open>pobj.cc\<close>.
  \<^item> \<open>Mem\<close>: cells, operators, address spaces and their routing. \<open>MemFacts\<close>: the invariant \<open>mem_ok\<close>,
    \<open>poke\<close>, the memory map as the function \<open>xdata_cell\<close> and the refinement of every access to one cell;
    \<open>MemView\<close>: locales for predicates that memory cannot change. \<open>Decoder\<close>: chips, address decoders and
    the memory \<open>make_memories\<close> builds; \<open>DecoderFacts\<close>: a decoder overrides exactly its area.
  \<^item> \<open>Brk\<close>, \<open>Stack\<close>, \<open>Uc\<close>: breakpoints, the stack tracker, the generic controller. \<open>UcFacts\<close>: searching and
    adding in sorted collections, hit counts, when the removal of all breakpoints returns and when not.
  \<^item> \<open>Core51\<close>, \<open>Arith51\<close>, \<open>Bit51\<close>, \<open>Jmp51\<close>, \<open>Logic51\<close>, \<open>Mov51\<close>, \<open>Exec51\<close>: the 8051 core, its instructions
    (one definition per method of \<open>arith.cc\<close>, \<open>inc.cc\<close>, \<open>bit.cc\<close>, \<open>jmp.cc\<close>, \<open>logic.cc\<close>, \<open>mov.cc\<close>), the dispatch
    and the execution loop. \<open>Core51Facts\<close>, \<open>Arith51Facts\<close>, \<open>Jmp51Facts\<close>, \<open>Data51Facts\<close>, \<open>Stack51Facts\<close>: what
    each group of instructions computes, its flags and its timing; \<open>Invariant51\<close>, \<open>Exec51Facts\<close>: the
    invariant \<open>core_ok\<close> kept by every instruction and by the loop, in the locale \<open>core_hw\<close> over the
    elements; \<open>Interrupt51Facts\<close>: selection, entry and exit of interrupts.
  \<^item> \<open>Dis51\<close>, \<open>Loader51\<close>: the instruction and name tables, the disassembler, the Intel HEX reader and the
    code analyzer. \<open>LoaderFacts\<close>: reading back a file, and what the analyzer marks.
  \<^item> \<open>Devices51\<close>: interrupt logic, ports, timers 0 and 1; \<open>Timer51Facts\<close>: timer 0 in its modes.
  \<^item> \<open>Cc2530\<close>, \<open>Dma2530\<close>, \<open>Flash2530\<close>, \<open>Timer2530\<close>, \<open>Mac2530\<close>, \<open>Usart2530\<close>, \<open>Chip2530\<close>: the elements of the
    CC2530 and the calls between them; the theories of facts of these names show what each does.
  \<^item> \<open>Radio2530\<close>, \<open>RfFrame2530\<close>, \<open>RfFsm2530\<close>, \<open>Csp2530\<close>, \<open>RfChip2530\<close>: the radio with its frames, its state
    machine and its strobe processor, put in place of the argument that \<open>Chip2530\<close> leaves. \<open>RadioView\<close>,
    \<open>RadioQuiet\<close>: what a handler can do to the radio, for every handler of the chip; \<open>RadioFacts\<close>,
    \<open>RadioTxFacts\<close>, \<open>RadioRegFacts\<close>: reception, transmission, registers and programs.
  \<^item> \<open>Wiring51\<close>: the registers each element watches, in the order \<open>mk_hw_elements\<close> registers them, and
    the table of the watchers of every cell. \<open>WiringFacts\<close>: timer 1 and the MAC timer on the chip wired
    like that, with the real elements around them. \<open>ChipInvariant\<close>: every handler of every element
    keeps \<open>core_ok\<close>, so a run of the whole chip does.
  \<^item> \<open>Family51\<close>: what other members of the 8051 family have besides the core, with timer 2, the counter
    array, the watchdog and the 89C51R's resets, priorities and data pointers. \<open>Family51Facts\<close>: the
    baud rate, the comparators, the watchdog period and the switch of the data pointers.

  \<^bold>\<open>Interfaces.\<close> The locales \<open>sorted_coll\<close> (a comparison that orders keys), \<open>core_elements\<close> (the elements on
  the core registers), \<open>mem_hw\<close> and \<open>core_hw\<close> (what the elements keep of the memory and of the core; a
  register may answer with more than a byte, the MAC timer does), \<open>cc_env\<close> and \<open>rf_env\<close> (the same seen
  from the CC2530 elements and from the radio), \<open>mac_partners\<close> (what the MAC timer needs of the elements
  it informs), \<open>view_read\<close> and \<open>view_write\<close> (what memory keeps of a predicate) and \<open>radio_env\<close> (what the
  chip keeps of the radio) state the contracts between the components; each is interpreted on the
  definitions of the model that provide it, those about elements on the whole chip \<open>full51\<close>.

  \<^bold>\<open>Bounds.\<close> Loops that end have structural or measured recursion; the loops of the source that may not
  end are partial functions, whose value \<open>None\<close> then stands for not returning, and a theorem says
  when they do return; \<open>fbrk_rounds\<close> counts the rounds of such a loop, so that a loop that never ends
  is told from one that aborts. The handlers of the chip call each other; \<open>chip51\<close> ties that knot with nesting
  depth 4 and \<open>full51\<close>, with the radio, with depth 5, which the deepest chain of handlers does not
  exhaust.

  \<^bold>\<open>Not modelled.\<close> Console commands, option parsing, the statistics and info commands, trace output and
  files or terminals behind the serial line are input and output: lines in and out are lists of the
  state, and the random numbers of dummy cells a stream of the state. The memory
  layouts of the other 8051 variants and the DS80C390 are left out. The watchdog and the sleep timer of the CC2530
  are not put in place by \<open>mk_hw_elements\<close>. The cores of the other families (AVR, Z80, HC08, XA) cannot
  run with this version of \<open>cl_address_space\<close>, whose accesses compare names through pointers that only
  the 8051 sets; their instructions are left out.
\<close>

end
